(* ===== verification/Prelude.thy ===== *)
theory Prelude
  imports Main
begin

text \<open>
  The vocabulary shared by every component: Go errors, fallible state-passing computations with
  their inversion rules, the rules by which a relation between the world before and the world
  after is propagated through such a computation, and list lemmas about database tables.
\<close>

section \<open>Proof collections\<close>

named_theorems act_simps \<open>evaluation of the computation combinators\<close>
named_theorems act_inv \<open>inversion of successful runs\<close>

section \<open>Go errors\<close>

text \<open>
  The error values the modelled code distinguishes: \<open>errors.New\<close> (and \<open>fmt.Errorf\<close>
  without a wrapped error), \<open>sql.ErrNoRows\<close>, the constraint failures the database reports,
  any other failure of the database driver, and \<open>fmt.Errorf("...: %w", err)\<close>.
\<close>

datatype constraint = UniqueConstraint | ForeignKeyConstraint | CheckConstraint | NotNullConstraint

datatype goerr =
    ErrorString string
  | ErrNoRows
  | ErrConstraint constraint string
  | ErrDriver string
  | WrapError string goerr

primrec errors_Is_NoRows :: "goerr \<Rightarrow> bool" where
  "errors_Is_NoRows (ErrorString s) = False"
| "errors_Is_NoRows ErrNoRows = True"
| "errors_Is_NoRows (ErrConstraint c s) = False"
| "errors_Is_NoRows (ErrDriver s) = False"
| "errors_Is_NoRows (WrapError s e) = errors_Is_NoRows e"

section \<open>Fallible computations over a world\<close>

type_synonym 'a result = "goerr + 'a"

type_synonym ('w, 'a) act = "'w \<Rightarrow> 'a result \<times> 'w"

definition ret :: "'a \<Rightarrow> ('w, 'a) act" where
  "ret x = (\<lambda>w. (Inr x, w))"

definition raise :: "goerr \<Rightarrow> ('w, 'a) act" where
  "raise e = (\<lambda>w. (Inl e, w))"

definition lift_result :: "'a result \<Rightarrow> ('w, 'a) act" where
  "lift_result r = (\<lambda>w. (r, w))"

text \<open>\<open>x, err := m(); if err != nil { return err }\<close>\<close>

definition bindE :: "('w, 'a) act \<Rightarrow> ('a \<Rightarrow> ('w, 'b) act) \<Rightarrow> ('w, 'b) act" where
  "bindE m f = (\<lambda>w. case m w of (Inl e, w') \<Rightarrow> (Inl e, w') | (Inr x, w') \<Rightarrow> f x w')"

text \<open>\<open>x, err := m()\<close> where the code goes on to inspect or drop \<open>err\<close>.\<close>

definition tryE :: "('w, 'a) act \<Rightarrow> ('w, 'a result) act" where
  "tryE m = (\<lambda>w. case m w of (r, w') \<Rightarrow> (Inr r, w'))"

definition seqE :: "('w, 'a) act \<Rightarrow> ('w, 'b) act \<Rightarrow> ('w, 'b) act" where
  "seqE m n = bindE m (\<lambda>_. n)"

text \<open>\<open>if c { return errors.New(msg) }\<close>\<close>

definition failIf :: "bool \<Rightarrow> string \<Rightarrow> ('w, unit) act" where
  "failIf c msg = (if c then raise (ErrorString msg) else ret ())"

text \<open>\<open>for _, x := range xs { if err := f(x); err != nil { return err } }\<close>\<close>

primrec forE :: "'a list \<Rightarrow> ('a \<Rightarrow> ('w, unit) act) \<Rightarrow> ('w, unit) act" where
  "forE [] f = ret ()"
| "forE (x # xs) f = seqE (f x) (forE xs f)"

lemma ret_apply [act_simps]: "ret x w = (Inr x, w)"
  by (simp add: ret_def)

lemma raise_apply [act_simps]: "raise e w = (Inl e, w)"
  by (simp add: raise_def)

lemma lift_result_apply [act_simps]: "lift_result r w = (r, w)"
  by (simp add: lift_result_def)

lemma bindE_apply [act_simps]:
  "bindE m f w = (case m w of (Inl e, w') \<Rightarrow> (Inl e, w') | (Inr x, w') \<Rightarrow> f x w')"
  by (simp add: bindE_def)

lemma tryE_apply [act_simps]: "tryE m w = (Inr (fst (m w)), snd (m w))"
  by (simp add: tryE_def split: prod.split)

lemma seqE_apply [act_simps]:
  "seqE m n w = (case m w of (Inl e, w') \<Rightarrow> (Inl e, w') | (Inr x, w') \<Rightarrow> n w')"
  by (simp add: seqE_def bindE_def)

lemma failIf_apply [act_simps]:
  "failIf c msg w = (if c then Inl (ErrorString msg) else Inr (), w)"
  by (simp add: failIf_def ret_def raise_def)

lemma bindE_Inr [act_inv]:
  "bindE m f w = (Inr y, w2) \<longleftrightarrow> (\<exists>x w1. m w = (Inr x, w1) \<and> f x w1 = (Inr y, w2))"
  by (auto simp: bindE_def split: prod.splits sum.splits)

lemma seqE_Inr [act_inv]:
  "seqE m n w = (Inr y, w2) \<longleftrightarrow> (\<exists>x w1. m w = (Inr x, w1) \<and> n w1 = (Inr y, w2))"
  by (simp add: seqE_def bindE_Inr)

lemma ret_Inr [act_inv]: "ret x w = (Inr y, w') \<longleftrightarrow> y = x \<and> w' = w"
  by (auto simp: ret_def)

lemma raise_Inr [act_inv]: "raise e w = (Inr y, w') \<longleftrightarrow> False"
  by (simp add: raise_def)

lemma lift_result_Inr [act_inv]: "lift_result r w = (Inr y, w') \<longleftrightarrow> r = Inr y \<and> w' = w"
  by (auto simp: lift_result_def)

lemma failIf_Inr [act_inv]: "failIf c msg w = (Inr y, w') \<longleftrightarrow> \<not> c \<and> w' = w"
  by (auto simp: failIf_def ret_def raise_def)

lemma tryE_Inr [act_inv]: "tryE m w = (Inr r, w') \<longleftrightarrow> m w = (r, w')"
  by (auto simp: tryE_def split: prod.splits)

text \<open>A run that did not fail, with its value and the world after it.\<close>

lemma run_Inr: "\<not> isl (fst (m w)) \<Longrightarrow> m w = (Inr (projr (fst (m w))), snd (m w))"
  by (simp add: prod_eq_iff)

section \<open>Relations kept by computations\<close>

text \<open>
  A reflexive and transitive relation between the world before and after is kept by a composed
  computation when its parts keep it.  Invariants, frame conditions and monotone quantities are
  all instances.
\<close>

locale kept_relation =
  fixes R :: "'w \<Rightarrow> 'w \<Rightarrow> bool"
  assumes R_refl: "R w w"
    and R_trans: "R a b \<Longrightarrow> R b c \<Longrightarrow> R a c"
begin

definition keeps :: "('w, 'a) act \<Rightarrow> bool" where
  "keeps m \<longleftrightarrow> (\<forall>w. R w (snd (m w)))"

lemma keepsI: "(\<And>w. R w (snd (m w))) \<Longrightarrow> keeps m"
  by (simp add: keeps_def)

lemma keepsD: "keeps m \<Longrightarrow> m w = (r, w') \<Longrightarrow> R w w'"
  by (metis keeps_def snd_conv)

lemma keeps_ret: "keeps (ret x)"
  by (simp add: keeps_def ret_def R_refl)

lemma keeps_raise: "keeps (raise e)"
  by (simp add: keeps_def raise_def R_refl)

lemma keeps_lift: "keeps (lift_result r)"
  by (simp add: keeps_def lift_result_def R_refl)

lemma keeps_failIf: "keeps (failIf c s)"
  by (simp add: keeps_def act_simps R_refl)

lemma keeps_bind: "keeps m \<Longrightarrow> (\<And>x. keeps (f x)) \<Longrightarrow> keeps (bindE m f)"
  by (auto simp: keeps_def bindE_def split: prod.split sum.split) (metis R_trans snd_conv)+

text \<open>The continuation has to keep the relation only for values the first part returns.\<close>

lemma keeps_bind_returned:
  assumes "keeps m" and "\<And>x w w'. m w = (Inr x, w') \<Longrightarrow> keeps (f x)"
  shows "keeps (bindE m f)"
proof (rule keepsI)
  fix w
  show "R w (snd (bindE m f w))"
  proof (cases "m w")
    case (Pair r w1)
    with assms(1) have r1: "R w w1" by (metis keepsD)
    show ?thesis
    proof (cases r)
      case (Inl e)
      with Pair r1 show ?thesis by (simp add: bindE_def)
    next
      case (Inr x)
      with Pair assms(2) have "R w1 (snd (f x w1))" by (simp add: keeps_def)
      with Pair Inr r1 show ?thesis by (auto simp: bindE_def intro: R_trans)
    qed
  qed
qed

lemma keeps_lift_bind: "(\<And>x. r = Inr x \<Longrightarrow> keeps (f x)) \<Longrightarrow> keeps (bindE (lift_result r) f)"
  by (rule keeps_bind_returned [OF keeps_lift]) (simp add: lift_result_def)

lemma keeps_seq: "keeps m \<Longrightarrow> keeps n \<Longrightarrow> keeps (seqE m n)"
  by (simp add: seqE_def keeps_bind)

lemma keeps_try: "keeps m \<Longrightarrow> keeps (tryE m)"
  by (simp add: keeps_def tryE_apply)

lemma keeps_if: "keeps m \<Longrightarrow> keeps n \<Longrightarrow> keeps (if c then m else n)"
  by simp

lemma keeps_option: "keeps m \<Longrightarrow> (\<And>x. keeps (f x)) \<Longrightarrow> keeps (case y of None \<Rightarrow> m | Some x \<Rightarrow> f x)"
  by (cases y) simp_all

lemma keeps_sum: "(\<And>e. keeps (g e)) \<Longrightarrow> (\<And>x. keeps (f x)) \<Longrightarrow> keeps (case y of Inl e \<Rightarrow> g e | Inr x \<Rightarrow> f x)"
  by (cases y) simp_all

lemma keeps_for: "(\<And>x. keeps (f x)) \<Longrightarrow> keeps (forE xs f)"
  by (induction xs) (simp_all add: keeps_ret keeps_seq)

lemma for_visits:
  assumes "\<And>x. keeps (f x)" and "forE xs f w = (Inr u, w')" and "x \<in> set xs"
  shows "\<exists>w1 w2. R w w1 \<and> f x w1 = (Inr (), w2) \<and> R w2 w'"
  using assms(2,3)
proof (induction xs arbitrary: w)
  case (Cons y ys)
  from Cons.prems(1) obtain w1 where y: "f y w = (Inr (), w1)" "forE ys f w1 = (Inr u, w')"
    by (auto simp: seqE_Inr)
  show ?case
  proof (cases "x = y")
    case True
    have "R w1 w'" using keepsD [OF keeps_for [OF assms(1)] y(2)] .
    with True y R_refl show ?thesis by blast
  next
    case False
    with Cons.prems(2) Cons.IH [OF y(2)] obtain w2 w3 where "R w1 w2" "f x w2 = (Inr (), w3)" "R w3 w'" by auto
    with keepsD [OF assms(1) y(1)] R_trans show ?thesis by blast
  qed
qed simp

lemmas keeps_intros =
  keeps_ret keeps_raise keeps_lift keeps_failIf keeps_bind keeps_seq keeps_try keeps_if
  keeps_option keeps_sum keeps_for

end

section \<open>Tables as lists of rows\<close>

text \<open>\<open>UPDATE t SET ... WHERE p\<close> on a table kept as the list of its rows.\<close>

definition update_where :: "('r \<Rightarrow> bool) \<Rightarrow> ('r \<Rightarrow> 'r) \<Rightarrow> 'r list \<Rightarrow> 'r list" where
  "update_where p f rows = map (\<lambda>r. if p r then f r else r) rows"

lemma filter_update_where:
  assumes "\<And>r. p r \<Longrightarrow> \<not> q r" and "\<And>r. p r \<Longrightarrow> \<not> q (f r)"
  shows "filter q (update_where p f rows) = filter q rows"
  using assms by (induction rows) (auto simp: update_where_def)

lemma map_update_where:
  "(\<And>r. p r \<Longrightarrow> k (f r) = k r) \<Longrightarrow> map k (update_where p f rows) = map k rows"
  by (induction rows) (auto simp: update_where_def)

lemma find_update_where:
  assumes "\<And>r. p r \<Longrightarrow> q (f r) = q r"
  shows "find q (update_where p f rows) = map_option (\<lambda>r. if p r then f r else r) (find q rows)"
  using assms by (induction rows) (auto simp: update_where_def)

lemma set_update_where: "set (update_where p f rows) = (\<lambda>r. if p r then f r else r) ` set rows"
  by (simp add: update_where_def)

lemma find_append: "find p (xs @ ys) = (case find p xs of None \<Rightarrow> find p ys | Some x \<Rightarrow> Some x)"
  by (induction xs) simp_all

lemma find_filter: "find p (filter q xs) = find (\<lambda>x. q x \<and> p x) xs"
  by (induction xs) auto

lemma find_SomeD: "find p xs = Some x \<Longrightarrow> p x \<and> x \<in> set xs"
  by (induction xs) (auto split: if_splits)

lemma find_NoneD: "find p xs = None \<Longrightarrow> x \<in> set xs \<Longrightarrow> \<not> p x"
  by (induction xs) (auto split: if_splits)

text \<open>A key that is unique in a table identifies at most one row.\<close>

lemma distinct_key_eq:
  "distinct (map k rows) \<Longrightarrow> r \<in> set rows \<Longrightarrow> s \<in> set rows \<Longrightarrow> k r = k s \<Longrightarrow> r = s"
  by (auto simp: distinct_map inj_on_def)

lemma find_distinct_key:
  assumes "distinct (map k rows)" and "r \<in> set rows" and "p r" and "\<And>s. p s \<Longrightarrow> k s = k r"
  shows "find p rows = Some r"
proof (cases "find p rows")
  case None
  from find_NoneD [OF this assms(2)] assms(3) show ?thesis by contradiction
next
  case (Some s)
  then have s: "p s" "s \<in> set rows" using find_SomeD [OF Some] by blast+
  from distinct_key_eq [OF assms(1) s(2) assms(2) assms(4) [OF s(1)]] Some show ?thesis by simp
qed

text \<open>
  An update that selects rows by a unique key and writes one value into another unique column
  keeps that column unique when no other row has the value.
\<close>

lemma distinct_update_where:
  assumes "distinct (map k rows)" and "distinct (map n rows)"
    and sel: "\<And>r. p r \<Longrightarrow> k r = k0" and new: "\<And>r. p r \<Longrightarrow> n (f r) = n0"
    and "n0 \<notin> n ` {y \<in> set rows. k y \<noteq> k0}"
  shows "distinct (map n (update_where p f rows))"
  using assms(1,2,5)
proof (induction rows)
  case Nil
  then show ?case by (simp add: update_where_def)
next
  case (Cons a rows)
  have IH: "distinct (map n (update_where p f rows))"
    using Cons.prems by (intro Cons.IH) auto
  have "n (if p a then f a else a) \<notin> n ` set (update_where p f rows)"
  proof
    assume "n (if p a then f a else a) \<in> n ` set (update_where p f rows)"
    then obtain y where y: "y \<in> set rows"
      and ny: "n (if p a then f a else a) = n (if p y then f y else y)"
      by (auto simp: set_update_where)
    have ka: "k y \<noteq> k a" using Cons.prems(1) y by (auto simp: image_iff)
    consider "p a" "p y" | "p a" "\<not> p y" | "\<not> p a" "p y" | "\<not> p a" "\<not> p y" by blast
    then show False
    proof cases
      case 1
      with sel [of a] sel [of y] ka show False by simp
    next
      case 2
      with sel [of a] ka have "k y \<noteq> k0" by simp
      with 2 new [of a] ny y Cons.prems(3) show False by (auto simp: image_iff)
    next
      case 3
      with sel [of y] ka have "k a \<noteq> k0" by simp
      with 3 new [of y] ny Cons.prems(3) show False by (auto simp: image_iff)
    next
      case 4
      with ny y Cons.prems(2) show False by (auto simp: image_iff)
    qed
  qed
  moreover have "update_where p f (a # rows) = (if p a then f a else a) # update_where p f rows"
    by (simp add: update_where_def)
  ultimately show ?case using IH by (simp only: list.map distinct.simps set_map)  simp
qed

section \<open>Machine integers\<close>

text \<open>\<open>int64\<close> arithmetic on integers: results wrap around at 64 bits.\<close>

definition wrap64 :: "int \<Rightarrow> int" where
  "wrap64 n = (n + 2 ^ 63) mod 2 ^ 64 - 2 ^ 63"

lemma wrap64_id: "- (2 ^ 63) \<le> n \<Longrightarrow> n < 2 ^ 63 \<Longrightarrow> wrap64 n = n"
  by (simp add: wrap64_def)

lemma wrap64_range: "- (2 ^ 63) \<le> wrap64 n \<and> wrap64 n < 2 ^ 63"
  unfolding wrap64_def
  using pos_mod_sign [of "2 ^ 64" "n + 2 ^ 63"] pos_mod_bound [of "2 ^ 64" "n + 2 ^ 63"] by simp

lemma wrap64_add: "wrap64 (wrap64 a + b) = wrap64 (a + b)"
proof -
  have "wrap64 a + b + 2 ^ 63 = (a + 2 ^ 63) mod 2 ^ 64 + b" by (simp add: wrap64_def)
  then show ?thesis unfolding wrap64_def [of "wrap64 a + b"] wrap64_def [of "a + b"]
    by (simp only: mod_add_left_eq) (simp add: ac_simps)
qed

end
