(* ===== verification/Float64.thy ===== *)
theory Float64
  imports Complex_Main
begin

text \<open>
  Go's \<open>float64\<close>: IEEE 754 binary64 with round-to-nearest-even.  A finite value is the
  rational number it denotes; the two zeros are one value, since no code modelled here divides by
  a zero or prints one.  Infinities and the quiet NaN are constructors, so that the guards of the
  program are evaluated on them the way Go evaluates them.
\<close>

datatype float64 = Fin rat | PInf | NInf | NaN

subsection \<open>Powers of two, binary logarithm, rounding to an integer\<close>

definition pow2 :: "int \<Rightarrow> rat" where
  "pow2 k = (if 0 \<le> k then 2 ^ nat k else 1 / 2 ^ nat (- k))"

function ilog2i :: "int \<Rightarrow> int" where
  "ilog2i n = (if n < 2 then 0 else 1 + ilog2i (n div 2))"
  by pat_completeness auto
termination
  by (relation "measure nat") auto

declare ilog2i.simps [simp del]

definition ilog2 :: "rat \<Rightarrow> int" where
  "ilog2 x = (case quotient_of x of (p, q) \<Rightarrow>
     (let k = ilog2i p - ilog2i q in if pow2 k \<le> x then k else k - 1))"

definition rhe :: "rat \<Rightarrow> int" where
  "rhe x = (let f = \<lfloor>x\<rfloor>; d = x - of_int f in
     if d < 1 / 2 then f else if 1 / 2 < d then f + 1 else if even f then f else f + 1)"

subsection \<open>Rounding a rational to binary64\<close>

definition ulp_of :: "rat \<Rightarrow> rat" where
  "ulp_of x = pow2 (max (ilog2 \<bar>x\<bar>) (- 1022) - 52)"

definition rnd_val :: "rat \<Rightarrow> rat" where
  "rnd_val x = (if x = 0 then 0 else of_int (rhe (x / ulp_of x)) * ulp_of x)"

definition rnd :: "rat \<Rightarrow> float64" where
  "rnd x = (let y = rnd_val x in
     if 2 ^ 1024 \<le> y then PInf else if y \<le> - (2 ^ 1024) then NInf else Fin y)"

subsection \<open>The operations of the language and of package math\<close>

fun fneg :: "float64 \<Rightarrow> float64" where
  "fneg (Fin x) = Fin (- x)"
| "fneg PInf = NInf"
| "fneg NInf = PInf"
| "fneg NaN = NaN"

fun fadd :: "float64 \<Rightarrow> float64 \<Rightarrow> float64" where
  "fadd (Fin x) (Fin y) = rnd (x + y)"
| "fadd NaN _ = NaN"
| "fadd _ NaN = NaN"
| "fadd PInf NInf = NaN"
| "fadd NInf PInf = NaN"
| "fadd PInf _ = PInf"
| "fadd _ PInf = PInf"
| "fadd NInf _ = NInf"
| "fadd _ NInf = NInf"

definition fsub :: "float64 \<Rightarrow> float64 \<Rightarrow> float64" where
  "fsub x y = fadd x (fneg y)"

definition inf_sgn :: "rat \<Rightarrow> float64" where
  "inf_sgn s = (if s = 0 then NaN else if 0 < s then PInf else NInf)"

fun fmul :: "float64 \<Rightarrow> float64 \<Rightarrow> float64" where
  "fmul (Fin x) (Fin y) = rnd (x * y)"
| "fmul NaN _ = NaN"
| "fmul _ NaN = NaN"
| "fmul PInf PInf = PInf"
| "fmul PInf NInf = NInf"
| "fmul NInf PInf = NInf"
| "fmul NInf NInf = PInf"
| "fmul PInf (Fin y) = inf_sgn y"
| "fmul NInf (Fin y) = inf_sgn (- y)"
| "fmul (Fin x) PInf = inf_sgn x"
| "fmul (Fin x) NInf = inf_sgn (- x)"

text \<open>Division by a nonzero constant, the only division the modelled code performs.\<close>

fun fdivc :: "float64 \<Rightarrow> rat \<Rightarrow> float64" where
  "fdivc (Fin x) c = rnd (x / c)"
| "fdivc PInf c = inf_sgn c"
| "fdivc NInf c = inf_sgn (- c)"
| "fdivc NaN c = NaN"

fun flt :: "float64 \<Rightarrow> float64 \<Rightarrow> bool" where
  "flt (Fin x) (Fin y) = (x < y)"
| "flt NaN _ = False"
| "flt _ NaN = False"
| "flt _ NInf = False"
| "flt NInf _ = True"
| "flt PInf _ = False"
| "flt _ PInf = True"

fun feq :: "float64 \<Rightarrow> float64 \<Rightarrow> bool" where
  "feq (Fin x) (Fin y) = (x = y)"
| "feq PInf PInf = True"
| "feq NInf NInf = True"
| "feq _ _ = False"

definition fle :: "float64 \<Rightarrow> float64 \<Rightarrow> bool" where
  "fle x y = (flt x y \<or> feq x y)"

text \<open>\<open>math.Abs\<close> and \<open>math.Round\<close> (half away from zero; exact).\<close>

fun fabs :: "float64 \<Rightarrow> float64" where
  "fabs (Fin x) = Fin \<bar>x\<bar>"
| "fabs PInf = PInf"
| "fabs NInf = PInf"
| "fabs NaN = NaN"

definition round_away :: "rat \<Rightarrow> int" where
  "round_away x = (if 0 \<le> x then \<lfloor>x + 1 / 2\<rfloor> else - \<lfloor>- x + 1 / 2\<rfloor>)"

fun math_Round :: "float64 \<Rightarrow> float64" where
  "math_Round (Fin x) = Fin (of_int (round_away x))"
| "math_Round PInf = PInf"
| "math_Round NInf = NInf"
| "math_Round NaN = NaN"

text \<open>
  Conversions.  \<open>float64(n)\<close> rounds.  \<open>int64(x)\<close> truncates towards zero; outside
  the range of \<open>int64\<close> the language leaves the result to the platform, which is the argument
  \<open>oor\<close> of every definition that converts.
\<close>

definition truncate :: "rat \<Rightarrow> int" where
  "truncate x = (if 0 \<le> x then \<lfloor>x\<rfloor> else - \<lfloor>- x\<rfloor>)"

definition float_of_int64 :: "int \<Rightarrow> float64" where
  "float_of_int64 n = rnd (of_int n)"

fun int64_of_float :: "(float64 \<Rightarrow> int) \<Rightarrow> float64 \<Rightarrow> int" where
  "int64_of_float oor (Fin x) =
     (if - (2 ^ 63) \<le> truncate x \<and> truncate x < 2 ^ 63 then truncate x else oor (Fin x))"
| "int64_of_float oor v = oor v"

fun isFinite :: "float64 \<Rightarrow> bool" where
  "isFinite (Fin x) = True"
| "isFinite _ = False"

subsection \<open>Error bounds and exactness\<close>

lemma pow2_pos [simp]: "0 < pow2 k"
  by (simp add: pow2_def)

lemma pow2_powi: "pow2 k = 2 powi k"
  by (auto simp: pow2_def power_int_def field_simps)

lemma pow2_add: "pow2 (a + b) = pow2 a * pow2 b"
  by (simp add: pow2_powi power_int_add)

lemma pow2_diff: "pow2 (a - b) = pow2 a / pow2 b"
  by (simp add: pow2_powi power_int_diff)

lemma pow2_mono: "a \<le> b \<Longrightarrow> pow2 a \<le> pow2 b"
  by (simp add: pow2_powi power_int_increasing)

lemma pow2_strict_mono: "a < b \<Longrightarrow> pow2 a < pow2 b"
  by (simp add: pow2_powi power_int_strict_increasing)

lemma pow2_le_iff [simp]: "pow2 a \<le> pow2 b \<longleftrightarrow> a \<le> b"
  using pow2_mono pow2_strict_mono by (meson linorder_not_le)

lemma ilog2i_bounds:
  "0 < n \<Longrightarrow> 0 \<le> ilog2i n \<and> pow2 (ilog2i n) \<le> of_int n \<and> of_int n < pow2 (ilog2i n + 1)"
proof (induction n rule: ilog2i.induct)
  case (1 n)
  show ?case
  proof (cases "n < 2")
    case True
    with "1.prems" have "n = 1" by simp
    then show ?thesis by (simp add: ilog2i.simps [of 1] pow2_def)
  next
    case False
    let ?m = "n div 2" let ?l = "ilog2i ?m"
    have m: "0 < ?m" using False by simp
    with "1.IH" False have l: "0 \<le> ?l" and lo: "pow2 ?l \<le> of_int ?m" and hi: "of_int ?m < pow2 (?l + 1)"
      by auto
    have il: "ilog2i n = 1 + ?l" using False by (simp add: ilog2i.simps [of n])
    have "pow2 (1 + ?l) = 2 * pow2 ?l" by (simp add: pow2_add pow2_def [of 1])
    also have "\<dots> \<le> 2 * of_int ?m" using lo by simp
    also have "\<dots> = of_int (2 * ?m)" by simp
    also have "\<dots> \<le> (of_int n :: rat)" unfolding of_int_le_iff by linarith
    finally have a: "pow2 (1 + ?l) \<le> of_int n" .
    have p: "pow2 (?l + 1) = of_int (2 ^ nat (?l + 1))" using l by (simp add: pow2_def)
    from hi have "?m < 2 ^ nat (?l + 1)" unfolding p of_int_less_iff .
    then have "n < 2 * 2 ^ nat (?l + 1)" by linarith
    then have "(of_int n :: rat) < of_int (2 * 2 ^ nat (?l + 1))" unfolding of_int_less_iff .
    also have "\<dots> = pow2 (1 + ?l + 1)" using p by (simp add: pow2_add pow2_def [of 1] pow2_def [of 2])
    finally show ?thesis using il l a by simp
  qed
qed


lemma ilog2_bounds:
  assumes "0 < x"
  shows "pow2 (ilog2 x) \<le> x \<and> x < pow2 (ilog2 x + 1)"
proof -
  obtain p q where pq: "quotient_of x = (p, q)" by force
  have q: "0 < q" using quotient_of_denom_pos [OF pq] .
  have x: "x = of_int p / of_int q" using quotient_of_div [OF pq] .
  with assms q have p: "0 < p" by (simp add: zero_less_divide_iff)
  let ?k = "ilog2i p - ilog2i q"
  note P = ilog2i_bounds [OF p] and Q = ilog2i_bounds [OF q]
  have q': "0 < (of_int q :: rat)" using q by simp
  have "x < pow2 (ilog2i p + 1) / pow2 (ilog2i q)"
    unfolding x using P Q q' p by (intro frac_less) auto
  also have "\<dots> = pow2 (?k + 1)" by (simp add: pow2_diff pow2_add)
  finally have hi: "x < pow2 (?k + 1)" .
  have "pow2 (?k - 1) = pow2 (ilog2i p) / pow2 (ilog2i q + 1)"
    by (simp add: pow2_diff pow2_add)
  also have "\<dots> \<le> x"
    unfolding x using P Q q' p by (intro frac_le) auto
  finally have lo: "pow2 (?k - 1) \<le> x" .
  show ?thesis
    using hi lo by (auto simp: ilog2_def pq Let_def)
qed

lemma rhe_error: "\<bar>of_int (rhe x) - x\<bar> \<le> 1 / 2"
proof -
  define f where "f = (of_int \<lfloor>x\<rfloor> :: rat)"
  have f: "f \<le> x" "x < f + 1" unfolding f_def by linarith+
  have "of_int (rhe x) = (if x - f < 1 / 2 then f else if 1 / 2 < x - f then f + 1
      else if even \<lfloor>x\<rfloor> then f else f + 1)"
    by (simp add: rhe_def Let_def f_def)
  with f show ?thesis by (auto simp: abs_le_iff split: if_splits)
qed

lemma rhe_of_int [simp]: "rhe (of_int n) = n"
  by (simp add: rhe_def)

lemma ulp_of_pos [simp]: "0 < ulp_of x"
  by (simp add: ulp_of_def)

lemma ulp_of_nz [simp]: "ulp_of x \<noteq> 0"
  using ulp_of_pos [of x] by linarith

lemma ulp_of_normal:
  assumes "x \<noteq> 0" and "pow2 (- 1022) \<le> \<bar>x\<bar>"
  shows "ulp_of x \<le> \<bar>x\<bar> / 2 ^ 52"
proof -
  have b: "pow2 (ilog2 \<bar>x\<bar>) \<le> \<bar>x\<bar>" "\<bar>x\<bar> < pow2 (ilog2 \<bar>x\<bar> + 1)"
    using ilog2_bounds [of "\<bar>x\<bar>"] assms(1) by auto
  have "- 1022 \<le> ilog2 \<bar>x\<bar>"
  proof (rule ccontr)
    assume "\<not> ?thesis"
    then have "pow2 (ilog2 \<bar>x\<bar> + 1) \<le> pow2 (- 1022)" by (intro pow2_mono) simp
    with b(2) assms(2) show False by linarith
  qed
  then have "ulp_of x = pow2 (ilog2 \<bar>x\<bar>) / 2 ^ 52"
    by (simp add: ulp_of_def pow2_diff pow2_def [of 52])
  with b(1) show ?thesis by (simp add: divide_right_mono)
qed

lemma rnd_val_abs_error: "\<bar>rnd_val x - x\<bar> \<le> ulp_of x / 2"
proof (cases "x = 0")
  case True
  then show ?thesis by (simp add: rnd_val_def less_imp_le)
next
  case False
  let ?u = "ulp_of x"
  have "rnd_val x - x = (of_int (rhe (x / ?u)) - x / ?u) * ?u"
    using False by (simp add: rnd_val_def left_diff_distrib)
  then have "\<bar>rnd_val x - x\<bar> = \<bar>of_int (rhe (x / ?u)) - x / ?u\<bar> * ?u"
    by (simp add: abs_mult less_imp_le)
  also have "\<dots> \<le> 1 / 2 * ?u"
    by (intro mult_right_mono rhe_error) (simp add: less_imp_le)
  finally show ?thesis by simp
qed

text \<open>The relative error of one rounding is at most \<open>2^-53\<close> on normal numbers.\<close>

lemma rnd_val_rel_error:
  assumes "x = 0 \<or> pow2 (- 1022) \<le> \<bar>x\<bar>"
  shows "\<bar>rnd_val x - x\<bar> \<le> \<bar>x\<bar> / 2 ^ 53"
proof (cases "x = 0")
  case True
  then show ?thesis by (simp add: rnd_val_def)
next
  case False
  with assms have "ulp_of x / 2 \<le> \<bar>x\<bar> / 2 ^ 53"
    using ulp_of_normal [of x] by simp
  with rnd_val_abs_error [of x] show ?thesis by linarith
qed

text \<open>Integers of at most 53 bits are represented exactly.\<close>

lemma rnd_val_of_int:
  assumes "\<bar>n\<bar> \<le> 2 ^ 53"
  shows "rnd_val (of_int n) = of_int n"
proof (cases "n = 0")
  case True
  then show ?thesis by (simp add: rnd_val_def)
next
  case False
  let ?x = "of_int n :: rat"
  have n1: "1 \<le> \<bar>n\<bar>" using False by linarith
  then have x1: "1 \<le> \<bar>?x\<bar>" by (simp flip: of_int_abs)
  have b: "pow2 (ilog2 \<bar>?x\<bar>) \<le> \<bar>?x\<bar>" "\<bar>?x\<bar> < pow2 (ilog2 \<bar>?x\<bar> + 1)"
    using ilog2_bounds [of "\<bar>?x\<bar>"] False by auto
  have e0: "0 \<le> ilog2 \<bar>?x\<bar>"
  proof (rule ccontr)
    assume "\<not> ?thesis"
    then have "pow2 (ilog2 \<bar>?x\<bar> + 1) \<le> pow2 0" by (intro pow2_mono) simp
    with b(2) x1 show False by (simp add: pow2_def [of 0])
  qed
  have "pow2 (ilog2 \<bar>?x\<bar>) \<le> pow2 53"
    using b(1) assms by (simp add: pow2_def [of 53] flip: of_int_abs)
  then have e53: "ilog2 \<bar>?x\<bar> \<le> 53" by simp
  show ?thesis
  proof (cases "ilog2 \<bar>?x\<bar> = 53")
    case True
    have "\<bar>?x\<bar> \<le> 2 ^ 53" using assms by (simp flip: of_int_abs)
    with b(1) True have "\<bar>?x\<bar> = 2 ^ 53" by (simp add: pow2_def [of 53])
    then have "\<bar>n\<bar> = 2 ^ 53" by (simp flip: of_int_abs of_int_power)
    then have n: "n = 2 ^ 53 \<or> n = - (2 ^ 53)" by linarith
    have u: "ulp_of ?x = 2" using True by (simp add: ulp_of_def pow2_def)
    have "?x / ulp_of ?x = of_int (if n > 0 then 2 ^ 52 else - (2 ^ 52))"
      unfolding u using n by auto
    then have "rhe (?x / ulp_of ?x) = (if n > 0 then 2 ^ 52 else - (2 ^ 52))"
      by (simp only: rhe_of_int)
    with n u show ?thesis by (auto simp: rnd_val_def)
  next
    case False
    with e53 e0 have u: "ulp_of ?x = 1 / 2 ^ nat (52 - ilog2 \<bar>?x\<bar>)"
      by (auto simp: ulp_of_def pow2_def max_def algebra_simps)
    have "?x / ulp_of ?x = of_int (n * 2 ^ nat (52 - ilog2 \<bar>?x\<bar>))"
      by (simp add: u)
    then have "rhe (?x / ulp_of ?x) = n * 2 ^ nat (52 - ilog2 \<bar>?x\<bar>)"
      by (simp only: rhe_of_int)
    with \<open>n \<noteq> 0\<close> show ?thesis by (simp add: rnd_val_def u)
  qed
qed

lemma rnd_of_int: "\<bar>n\<bar> \<le> 2 ^ 53 \<Longrightarrow> rnd (of_int n) = Fin (of_int n)"
proof -
  assume n: "\<bar>n\<bar> \<le> 2 ^ 53"
  have "\<bar>of_int n\<bar> \<le> (2 ^ 53 :: rat)" using n by (simp flip: of_int_abs of_int_power)
  also have "(2 ^ 53 :: rat) < 2 ^ 1024" by simp
  finally show ?thesis by (auto simp: rnd_def Let_def rnd_val_of_int [OF n] abs_less_iff)
qed


lemma rnd_val_0 [simp]: "rnd_val 0 = 0"
  by (simp add: rnd_val_def)

lemma rnd_small:
  assumes "\<bar>x\<bar> \<le> 2 ^ 1000" and "x = 0 \<or> pow2 (- 1022) \<le> \<bar>x\<bar>"
  shows "rnd x = Fin (rnd_val x)"
proof -
  have "\<bar>rnd_val x\<bar> \<le> \<bar>x\<bar> + \<bar>x\<bar> / 2 ^ 53" using rnd_val_rel_error [OF assms(2)] by linarith
  also have "\<dots> \<le> 2 ^ 1000 + 2 ^ 1000" using assms(1) by (intro add_mono) simp_all
  also have "\<dots> < (2 ^ 1024 :: rat)" by simp
  finally show ?thesis by (auto simp: rnd_def Let_def abs_less_iff)
qed

lemma round_away_near:
  assumes "\<bar>x - of_int n\<bar> < 1 / 2"
  shows "round_away x = n"
proof -
  have lo: "x - of_int n < 1 / 2" and hi: "of_int n - x < 1 / 2"
    using assms by linarith+
  show ?thesis
  proof (cases "0 \<le> x")
    case True
    have "\<lfloor>x + 1 / 2\<rfloor> = n" by (rule floor_unique) (use lo hi in linarith)+
    with True show ?thesis by (simp add: round_away_def)
  next
    case False
    have "\<lfloor>- x + 1 / 2\<rfloor> = - n" by (rule floor_unique) (use lo hi in \<open>simp; linarith\<close>)+
    with False show ?thesis by (simp add: round_away_def)
  qed
qed

lemma round_away_of_int [simp]: "round_away (of_int n) = n"
  by (rule round_away_near) simp

lemma truncate_of_int [simp]: "truncate (of_int n) = n"
  by (simp add: truncate_def flip: of_int_minus)

lemma pow2_tiny: "pow2 (- 1022) \<le> 1 / 128"
  using pow2_mono [of "- 1022" "- 7"] by (simp add: pow2_def [of "- 7"])

text \<open>
  Dividing an amount of minor units by 100, rounding, multiplying by 100 and rounding again ends
  less than half a unit away from the amount, for amounts up to \<open>2^50\<close> units.
\<close>

lemma two_roundings_near:
  fixes n :: int
  assumes n: "\<bar>n\<bar> \<le> 2 ^ 50"
  shows "\<bar>rnd_val (rnd_val (of_int n / 100) * 100) - of_int n\<bar> < 1 / 2
    \<and> rnd (of_int n / 100) = Fin (rnd_val (of_int n / 100))
    \<and> rnd (rnd_val (of_int n / 100) * 100) = Fin (rnd_val (rnd_val (of_int n / 100) * 100))"
proof (cases "n = 0")
  case True
  then show ?thesis by (simp add: rnd_def)
next
  case False
  define a where "a = (of_int n :: rat)"
  define f where "f = rnd_val (a / 100)"
  have a1: "1 \<le> \<bar>a\<bar>" using False unfolding a_def by (simp flip: of_int_abs)
  have a50: "\<bar>a\<bar> \<le> 2 ^ 50" using n unfolding a_def by (simp flip: of_int_abs)
  have na: "pow2 (- 1022) \<le> \<bar>a / 100\<bar>" using a1 pow2_tiny by simp
  have fx: "\<bar>f - a / 100\<bar> \<le> \<bar>a / 100\<bar> / 2 ^ 53"
    unfolding f_def using na by (intro rnd_val_rel_error) simp
  have ya: "\<bar>f * 100 - a\<bar> \<le> \<bar>a\<bar> / 2 ^ 53"
    using fx unfolding abs_le_iff by (simp add: field_simps)
  have d2: "\<bar>a\<bar> / 2 ^ 53 \<le> \<bar>a\<bar> / 2" and d8: "\<bar>a\<bar> / 2 ^ 53 \<le> 1 / 8"
    using a50 by simp_all
  have y1: "1 / 2 \<le> \<bar>f * 100\<bar>" using ya a1 d2 by arith
  have y2: "\<bar>f * 100\<bar> \<le> 2 * \<bar>a\<bar>" using ya d2 by arith
  have ny: "pow2 (- 1022) \<le> \<bar>f * 100\<bar>" using y1 pow2_tiny by linarith
  have ry: "\<bar>rnd_val (f * 100) - f * 100\<bar> \<le> \<bar>f * 100\<bar> / 2 ^ 53"
    using ny by (intro rnd_val_rel_error) simp
  have y4: "\<bar>f * 100\<bar> / 2 ^ 53 \<le> 1 / 4" using y2 a50 by simp
  have "\<bar>rnd_val (f * 100) - a\<bar> < 1 / 2"
    using ry ya d8 y4 by arith
  moreover have "rnd (a / 100) = Fin f"
    unfolding f_def using na a50 by (intro rnd_small) simp_all
  moreover have "rnd (f * 100) = Fin (rnd_val (f * 100))"
    using ny y2 a50 by (intro rnd_small) simp_all
  ultimately show ?thesis by (simp add: f_def a_def)
qed

lemma round_away_le_int:
  assumes "\<bar>y\<bar> \<le> of_int k"
  shows "\<bar>round_away y\<bar> \<le> k"
proof (cases "0 \<le> y")
  case True
  have "y + 1 / 2 < of_int (k + 1)" using assms True by simp
  then have "\<lfloor>y + 1 / 2\<rfloor> < k + 1" by (simp only: floor_less_iff)
  moreover have "0 \<le> \<lfloor>y + 1 / 2\<rfloor>" using True by simp
  ultimately show ?thesis using True by (simp add: round_away_def)
next
  case False
  have "- y + 1 / 2 < of_int (k + 1)" using assms False by simp
  then have "\<lfloor>- y + 1 / 2\<rfloor> < k + 1" by (simp only: floor_less_iff)
  moreover have "0 \<le> \<lfloor>- y + 1 / 2\<rfloor>" using False by simp
  ultimately show ?thesis using False by (simp add: round_away_def)
qed

subsection \<open>Signs, and the grid of representable values\<close>

text \<open>Every finite binary64 number is an integral multiple of \<open>2^-1074\<close>.\<close>

definition on_grid :: "rat \<Rightarrow> bool" where
  "on_grid x \<longleftrightarrow> x / pow2 (- 1074) \<in> \<int>"

lemma on_gridE:
  assumes "on_grid x"
  obtains k where "x = of_int k * pow2 (- 1074)"
proof -
  from assms obtain k where "x / pow2 (- 1074) = of_int k"
    unfolding on_grid_def by (auto elim: Ints_cases)
  then have "x = of_int k * pow2 (- 1074)" by (simp add: field_simps pow2_powi)
  then show thesis by (rule that)
qed

lemma on_grid_diff: "on_grid x \<Longrightarrow> on_grid y \<Longrightarrow> on_grid (x - y)"
  unfolding on_grid_def diff_divide_distrib by (rule Ints_diff)

lemma on_grid_0 [simp]: "on_grid 0"
  by (simp add: on_grid_def)

lemma rnd_val_grid: "on_grid (rnd_val x)"
proof -
  define e where "e = max (ilog2 \<bar>x\<bar>) (- 1022) - 52"
  have e: "- 1074 \<le> e" by (simp add: e_def)
  have "ulp_of x / pow2 (- 1074) = pow2 (e + 1074)"
    unfolding ulp_of_def e_def [symmetric] by (simp add: pow2_diff [symmetric])
  also have "\<dots> = of_int (2 ^ nat (e + 1074))" using e by (simp add: pow2_def)
  finally have u: "ulp_of x / pow2 (- 1074) = of_int (2 ^ nat (e + 1074))" .
  have "of_int (rhe (x / ulp_of x)) * ulp_of x / pow2 (- 1074)
      = of_int (rhe (x / ulp_of x)) * (ulp_of x / pow2 (- 1074))" by simp
  also have "\<dots> \<in> \<int>" unfolding u by simp
  finally show ?thesis by (simp add: rnd_val_def on_grid_def)
qed

lemma rnd_val_pos: "0 \<le> x \<Longrightarrow> 0 \<le> rnd_val x"
proof -
  assume x: "0 \<le> x"
  have "0 \<le> x / ulp_of x" using x ulp_of_pos [of x] by (intro divide_nonneg_pos)
  with rhe_error [of "x / ulp_of x"] have "- 1 < (of_int (rhe (x / ulp_of x)) :: rat)"
    by linarith
  then have "0 \<le> rhe (x / ulp_of x)" by linarith
  then show ?thesis by (simp add: rnd_val_def less_imp_le)
qed

lemma rnd_val_grid_nonzero:
  assumes "on_grid x" and "x \<noteq> 0"
  shows "rnd_val x \<noteq> 0"
proof (cases "pow2 (- 1022) \<le> \<bar>x\<bar>")
  case True
  then have "\<bar>rnd_val x - x\<bar> \<le> \<bar>x\<bar> / 2 ^ 53" by (intro rnd_val_rel_error) simp
  moreover have "\<bar>x\<bar> / 2 ^ 53 < \<bar>x\<bar>" using assms(2) by simp
  ultimately show ?thesis by auto
next
  case False
  obtain k where k: "x = of_int k * pow2 (- 1074)" using assms(1) by (rule on_gridE)
  have "pow2 (ilog2 \<bar>x\<bar>) \<le> \<bar>x\<bar>" using ilog2_bounds [of "\<bar>x\<bar>"] assms(2) by simp
  also have "\<dots> < pow2 (- 1022)" using False by simp
  finally have "ilog2 \<bar>x\<bar> < - 1022" by (meson not_less pow2_mono)
  then have u: "ulp_of x = pow2 (- 1074)" by (simp add: ulp_of_def)
  have "x / ulp_of x = of_int k" unfolding u unfolding k using pow2_pos [of "- 1074"]
    by (metis less_irrefl nonzero_mult_div_cancel_right)
  then have "rhe (x / ulp_of x) = k" by (simp only: rhe_of_int)
  moreover have "k \<noteq> 0" using assms(2) k by auto
  ultimately show ?thesis using assms(2) by (simp add: rnd_val_def)
qed

lemma rnd_val_neg: "x \<le> 0 \<Longrightarrow> rnd_val x \<le> 0"
proof -
  assume x: "x \<le> 0"
  have "x / ulp_of x \<le> 0" using x ulp_of_pos [of x] by (intro divide_nonpos_pos)
  with rhe_error [of "x / ulp_of x"] have "(of_int (rhe (x / ulp_of x)) :: rat) < 1"
    by linarith
  then have "rhe (x / ulp_of x) \<le> 0" by linarith
  then show ?thesis
    by (auto simp: rnd_val_def mult_nonpos_nonneg less_imp_le)
qed

text \<open>Rounding the difference of two representable values keeps its sign.\<close>

lemma rnd_val_sign:
  assumes "on_grid x"
  shows "(rnd_val x < 0 \<longleftrightarrow> x < 0) \<and> (rnd_val x = 0 \<longleftrightarrow> x = 0) \<and> (0 < rnd_val x \<longleftrightarrow> 0 < x)"
proof -
  note nz = rnd_val_grid_nonzero [OF assms] and ge = rnd_val_pos [of x] and le = rnd_val_neg [of x]
  consider "x < 0" | "x = 0" | "0 < x" by linarith
  then show ?thesis
  proof cases
    case 1
    with nz le have "rnd_val x < 0" by simp
    with 1 show ?thesis by simp
  next
    case 2
    then show ?thesis by simp
  next
    case 3
    with nz ge have "0 < rnd_val x" by simp
    with 3 show ?thesis by simp
  qed
qed

lemma rnd_flt_0:
  assumes "on_grid x"
  shows "(flt (rnd x) (Fin 0) \<longleftrightarrow> x < 0) \<and> (feq (rnd x) (Fin 0) \<longleftrightarrow> x = 0)"
proof -
  have big: "(0 :: rat) < 2 ^ 1024" by simp
  consider "2 ^ 1024 \<le> rnd_val x" | "rnd_val x \<le> - (2 ^ 1024)"
    | "rnd_val x < 2 ^ 1024" "- (2 ^ 1024) < rnd_val x" by linarith
  then show ?thesis
  proof cases
    case 1
    then have "0 < rnd_val x" using big by linarith
    with 1 rnd_val_sign [OF assms] show ?thesis by (simp add: rnd_def)
  next
    case 2
    then have "rnd_val x < 0" using big by linarith
    moreover have "\<not> 2 ^ 1024 \<le> rnd_val x" using 2 big by linarith
    ultimately show ?thesis using 2 rnd_val_sign [OF assms] by (simp add: rnd_def)
  next
    case 3
    then have "rnd x = Fin (rnd_val x)" by (simp add: rnd_def Let_def)
    with rnd_val_sign [OF assms] show ?thesis by simp
  qed
qed

text \<open>A \<open>float64\<close> value: a finite one is on the grid.\<close>

fun f64 :: "float64 \<Rightarrow> bool" where
  "f64 (Fin x) = on_grid x"
| "f64 _ = True"

lemma f64_rnd [simp]: "f64 (rnd x)"
  by (simp add: rnd_def Let_def rnd_val_grid)

lemma f64_fadd [simp]: "f64 (fadd x y)" if "f64 x" "f64 y"
  using that by (cases x; cases y) simp_all

subsection \<open>Evaluation\<close>

text \<open>Overflow read off the exponent, so that \<open>rnd\<close> evaluates without the power \<open>2^1024\<close>.\<close>

lemma rnd_exponent:
  "rnd x = (let y = rnd_val x in
     if y = 0 then Fin 0
     else if 1024 \<le> ilog2 \<bar>y\<bar> then (if 0 < y then PInf else NInf) else Fin y)"
proof -
  define y where "y = rnd_val x"
  have big: "(2 ^ 1024 :: rat) = pow2 1024" by (simp add: pow2_def)
  show ?thesis
  proof (cases "y = 0")
    case True
    then show ?thesis by (simp add: rnd_def Let_def flip: y_def)
  next
    case False
    have b: "pow2 (ilog2 \<bar>y\<bar>) \<le> \<bar>y\<bar>" "\<bar>y\<bar> < pow2 (ilog2 \<bar>y\<bar> + 1)"
      using ilog2_bounds [of "\<bar>y\<bar>"] False by auto
    have "pow2 1024 \<le> \<bar>y\<bar> \<longleftrightarrow> 1024 \<le> ilog2 \<bar>y\<bar>"
    proof
      assume "pow2 1024 \<le> \<bar>y\<bar>"
      with b(2) have "pow2 1024 < pow2 (ilog2 \<bar>y\<bar> + 1)" by linarith
      then show "1024 \<le> ilog2 \<bar>y\<bar>" using pow2_le_iff [of "ilog2 \<bar>y\<bar> + 1" 1024] by linarith
    next
      assume "1024 \<le> ilog2 \<bar>y\<bar>"
      then show "pow2 1024 \<le> \<bar>y\<bar>" using b(1) pow2_mono [of 1024 "ilog2 \<bar>y\<bar>"] by linarith
    qed
    note exp = this
    show ?thesis
    proof (cases "0 < y")
      case True
      then have "\<not> y \<le> - pow2 1024" using pow2_pos [of 1024] by linarith
      with True exp show ?thesis unfolding rnd_def Let_def y_def [symmetric] big by auto
    next
      case neg: False
      then have "\<not> pow2 1024 \<le> y" using pow2_pos [of 1024] by linarith
      moreover have "y \<le> - pow2 1024 \<longleftrightarrow> pow2 1024 \<le> \<bar>y\<bar>" using neg by linarith
      ultimately show ?thesis
        using neg False exp unfolding rnd_def Let_def y_def [symmetric] big by auto
    qed
  qed
qed

text \<open>
  Powers of two and rounded values in lowest terms, so that each is computed once; small integers are
  exact.
\<close>

function two_pow :: "int \<Rightarrow> int" where
  "two_pow n = (if n \<le> 0 then 1 else let h = two_pow (n div 2) in if even n then h * h else 2 * (h * h))"
  by pat_completeness auto
termination
  by (relation "measure nat") auto

declare two_pow.simps [simp del]

lemma two_pow: "two_pow n = 2 ^ nat n"
proof (induction n rule: two_pow.induct)
  case (1 n)
  show ?case
  proof (cases "n \<le> 0")
    case True
    then show ?thesis by (subst two_pow.simps) simp
  next
    case False
    have add: "nat (a + a + b) = nat a + nat a + nat b" if "0 \<le> a" "0 \<le> b" for a b :: int using that by simp
    have "n = n div 2 + n div 2 + n mod 2" by presburger
    moreover have "0 \<le> n div 2" "0 \<le> n mod 2" using False by auto
    ultimately have "nat n = nat (n div 2) + nat (n div 2) + nat (n mod 2)" by (metis add)
    moreover have "even n \<Longrightarrow> nat (n mod 2) = 0" "odd n \<Longrightarrow> nat (n mod 2) = 1"
      by (simp_all add: even_iff_mod_2_eq_zero odd_iff_mod_2_eq_one)
    ultimately show ?thesis using 1 False
      by (subst two_pow.simps) (auto simp: Let_def power_add)
  qed
qed

lemma ilog2i_step: "2 ^ k \<le> n \<Longrightarrow> ilog2i n = int k + ilog2i (n div 2 ^ k)"
proof (induction k arbitrary: n)
  case (Suc k)
  have "2 \<le> n" using Suc.prems by (rule order_trans [rotated]) simp
  then have "ilog2i n = 1 + ilog2i (n div 2)" by (subst ilog2i.simps) simp
  moreover have "2 ^ k \<le> n div 2" using Suc.prems by simp
  moreover have "n div 2 div 2 ^ k = n div 2 ^ Suc k" by (simp add: zdiv_zmult2_eq)
  ultimately show ?case using Suc.IH [of "n div 2"] by simp
qed simp

lemma ilog2i_code [code]:
  "ilog2i n =
     (if 4294967296 \<le> n then 32 + ilog2i (n div 4294967296)
      else if 256 \<le> n then 8 + ilog2i (n div 256)
      else if n < 2 then 0 else 1 + ilog2i (n div 2))"
proof -
  have "4294967296 \<le> n \<Longrightarrow> ilog2i n = 32 + ilog2i (n div 4294967296)" using ilog2i_step [of 32 n] by simp
  moreover have "256 \<le> n \<Longrightarrow> ilog2i n = 8 + ilog2i (n div 256)" using ilog2i_step [of 8 n] by simp
  moreover note ilog2i.simps [of n]
  ultimately show ?thesis by (smt (verit))
qed

lemma pow2_code [code]:
  "pow2 k = (if 0 \<le> k then of_int (two_pow k) else Fract 1 (two_pow (- k)))"
  by (simp add: pow2_def two_pow Fract_of_int_quotient)

lemma rnd_code [code]:
  "rnd x = (case quotient_of x of (p, q) \<Rightarrow>
     if q = 1 \<and> \<bar>p\<bar> \<le> 9007199254740992 then Fin (of_int p)
     else (case quotient_of (rnd_val x) of (a, b) \<Rightarrow>
       if a = 0 then Fin 0
       else (let y = Fract a b in
         if 1024 \<le> ilog2 \<bar>y\<bar> then (if 0 < a then PInf else NInf) else Fin y)))"
proof -
  obtain p q where x: "quotient_of x = (p, q)" by fastforce
  obtain a b where y: "quotient_of (rnd_val x) = (a, b)" by fastforce
  from quotient_of_div [OF y] quotient_of_denom_pos [OF y] have v: "rnd_val x = Fract a b" "0 < b"
    by (simp_all add: Fract_of_int_quotient)
  then have s: "rnd_val x = 0 \<longleftrightarrow> a = 0" "0 < rnd_val x \<longleftrightarrow> 0 < a"
    by (simp_all add: Fract_of_int_quotient zero_less_divide_iff)
  show ?thesis
  proof (cases "q = 1 \<and> \<bar>p\<bar> \<le> 9007199254740992")
    case True
    then have "x = of_int p" using quotient_of_div [OF x] by simp
    with True rnd_of_int [of p] show ?thesis by (simp add: x)
  next
    case False
    from rnd_exponent [of x] s show ?thesis
      unfolding x y prod.case if_not_P [OF False] by (simp add: Let_def flip: v(1))
  qed
qed

text \<open>Only a numeral is converted, so that a term with a variable is left as it is.\<close>

lemma float_of_int64_code [code]:
  "float_of_int64 0 = Fin 0"
  "float_of_int64 (Int.Pos k) = rnd (of_int (Int.Pos k))"
  "float_of_int64 (Int.Neg k) = rnd (of_int (Int.Neg k))"
  by (simp_all add: float_of_int64_def rnd_exponent)

end
