(* ===== verification/Shared_Kernel.thy ===== *)
theory Shared_Kernel
  imports Prelude Float64 "HOL-Library.Signed_Division"
begin

text \<open>
  The shared kernel (\<open>internal/shared\<close>): \<open>Money\<close>, tenant identifiers and the
  request context they travel in, list-page parameters.  An \<open>int64\<close> or \<open>int\<close> is an
  integer whose arithmetic wraps at 64 bits (\<open>wrap64\<close>); a \<open>float64\<close> is a value of
  theory Float64.
\<close>

section \<open>Money\<close>

record Money =
  Amount :: int
  Currency :: string

definition NewMoney :: "int \<Rightarrow> string \<Rightarrow> Money result" where
  "NewMoney amount currency =
     (if currency = '''' then Inl (ErrorString ''currency is required'')
      else Inr \<lparr>Amount = amount, Currency = currency\<rparr>)"

definition FloatToMoney :: "(float64 \<Rightarrow> int) \<Rightarrow> float64 \<Rightarrow> string \<Rightarrow> Money" where
  "FloatToMoney oor val currency =
     \<lparr>Amount = int64_of_float oor (math_Round (fmul val (Fin 100))), Currency = currency\<rparr>"

definition MoneyToFloat :: "Money \<Rightarrow> float64" where
  "MoneyToFloat m = fdivc (float_of_int64 (Amount m)) 100"

definition Money_Add :: "Money \<Rightarrow> Money \<Rightarrow> Money result" where
  "Money_Add m other =
     (if Currency m \<noteq> Currency other
      then Inl (ErrorString ''currencies must match to perform addition'')
      else Inr \<lparr>Amount = wrap64 (Amount m + Amount other), Currency = Currency m\<rparr>)"

definition Money_Subtract :: "Money \<Rightarrow> Money \<Rightarrow> Money result" where
  "Money_Subtract m other =
     (if Currency m \<noteq> Currency other
      then Inl (ErrorString ''currencies must match to perform subtraction'')
      else Inr \<lparr>Amount = wrap64 (Amount m - Amount other), Currency = Currency m\<rparr>)"

definition Money_Multiply :: "Money \<Rightarrow> int \<Rightarrow> Money" where
  "Money_Multiply m multiplier =
     \<lparr>Amount = wrap64 (Amount m * multiplier), Currency = Currency m\<rparr>"

definition Money_Equals :: "Money \<Rightarrow> Money \<Rightarrow> bool" where
  "Money_Equals m other \<longleftrightarrow> Amount m = Amount other \<and> Currency m = Currency other"

definition Money_IsZero :: "Money \<Rightarrow> bool" where
  "Money_IsZero m \<longleftrightarrow> Amount m = 0"

text \<open>The amounts a variable of type \<open>int64\<close> can hold.\<close>

definition Money_wf :: "Money \<Rightarrow> bool" where
  "Money_wf m \<longleftrightarrow> - (2 ^ 63) \<le> Amount m \<and> Amount m < 2 ^ 63"

section \<open>Tenants\<close>

type_synonym TenantID = string

definition DefaultTenant :: TenantID where
  "DefaultTenant = ''1''"

definition NewTenantID :: "string \<Rightarrow> TenantID result" where
  "NewTenantID i =
     (if i = '''' then Inl (ErrorString ''tenant ID cannot be empty'') else Inr i)"

text \<open>
  The request context: the tenant stored under \<open>TenantIDKey\<close>, and the session user and client
  address stored by the authentication middleware (\<open>None\<close> when the key is unset).
\<close>

record context_values =
  ctx_tenant :: "TenantID option"
  ctx_user :: "string option"
  ctx_ip :: "string option"

definition ContextWithTenantID :: "context_values \<Rightarrow> TenantID \<Rightarrow> context_values" where
  "ContextWithTenantID ctx i = ctx\<lparr>ctx_tenant := Some i\<rparr>"

definition TenantIDFromContext :: "context_values \<Rightarrow> TenantID" where
  "TenantIDFromContext ctx =
     (case ctx_tenant ctx of Some val \<Rightarrow> (if val \<noteq> '''' then val else '''') | None \<Rightarrow> '''')"

definition TenantRequired :: "context_values \<Rightarrow> TenantID result" where
  "TenantRequired ctx =
     (let t = TenantIDFromContext ctx in
      if t = '''' then Inl (ErrorString ''tenant not set in context'') else Inr t)"

section \<open>Pagination\<close>

record QueryParams =
  q_Search :: string
  q_Status :: string
  q_SortBy :: string
  q_SortOrder :: string
  q_Page :: int
  q_PerPage :: int

record 'a PagedResult =
  Items :: "'a list"
  TotalCount :: int
  Page :: int
  PerPage :: int
  TotalPages :: int

definition NormalizedPage :: "QueryParams \<Rightarrow> int" where
  "NormalizedPage q = (if q_Page q \<le> 0 then 1 else q_Page q)"

definition NormalizedPerPage :: "QueryParams \<Rightarrow> int" where
  "NormalizedPerPage q =
     (if q_PerPage q \<le> 0 then 10 else if q_PerPage q > 100 then 100 else q_PerPage q)"

definition QueryParams_Offset :: "QueryParams \<Rightarrow> int" where
  "QueryParams_Offset q = wrap64 (wrap64 (NormalizedPage q - 1) * NormalizedPerPage q)"

definition NewPagedResult :: "'a list \<Rightarrow> int \<Rightarrow> QueryParams \<Rightarrow> 'a PagedResult" where
  "NewPagedResult items count params =
     (let perPage = NormalizedPerPage params;
          totalPages = wrap64 (wrap64 (wrap64 (count + perPage) - 1) sdiv perPage);
          totalPages = (if totalPages = 0 then 1 else totalPages)
      in \<lparr>Items = items, TotalCount = count, Page = NormalizedPage params, PerPage = perPage,
          TotalPages = totalPages\<rparr>)"

section \<open>Lemmas\<close>

text \<open>
  Property C39.  Storing an amount as a REAL number of rupees and reading it back loses nothing, for
  every amount of up to \<open>2^50\<close> paise in absolute value: \<open>FloatToMoney\<close> undoes
  \<open>MoneyToFloat\<close> although both round.
\<close>

theorem FloatToMoney_MoneyToFloat:
  assumes "\<bar>Amount m\<bar> \<le> 2 ^ 50"
  shows "FloatToMoney oor (MoneyToFloat m) (Currency m) = m"
proof -
  let ?a = "of_int (Amount m) :: rat"
  note near = two_roundings_near [OF assms]
  have f: "MoneyToFloat m = Fin (rnd_val (?a / 100))"
    using near assms by (simp add: MoneyToFloat_def float_of_int64_def rnd_of_int)
  have "math_Round (fmul (MoneyToFloat m) (Fin 100)) = Fin ?a"
    using near round_away_near [of "rnd_val (rnd_val (?a / 100) * 100)" "Amount m"]
    by (simp add: f)
  with assms show ?thesis by (simp add: FloatToMoney_def abs_le_iff)
qed

theorem FloatToMoney_MoneyToFloat_witness:
  "FloatToMoney (\<lambda>_. 0) (MoneyToFloat \<lparr>Amount = 1999, Currency = ''INR''\<rparr>) ''INR''
     = \<lparr>Amount = 1999, Currency = ''INR''\<rparr>"
  using FloatToMoney_MoneyToFloat [of "\<lparr>Amount = 1999, Currency = ''INR''\<rparr>" "\<lambda>_. 0"] by simp

text \<open>
  Subtracting what was added gives the original amount back, also when the addition
  overflowed \<open>int64\<close>.
\<close>

theorem Money_Add_Subtract:
  assumes "Money_wf m" and "Money_Add m d = Inr s"
  shows "Money_Subtract s d = Inr m \<and> Money_wf s"
proof -
  from assms(2) have c: "Currency m = Currency d"
    and s: "s = \<lparr>Amount = wrap64 (Amount m + Amount d), Currency = Currency m\<rparr>"
    by (auto simp: Money_Add_def split: if_splits)
  have "wrap64 (wrap64 (Amount m + Amount d) - Amount d) = Amount m"
    using wrap64_add [of "Amount m + Amount d" "- Amount d"] assms(1)
    by (simp add: wrap64_id Money_wf_def)
  then show ?thesis
    using wrap64_range [of "Amount m + Amount d"] by (simp add: Money_Subtract_def s c Money_wf_def)
qed

theorem Money_Add_Subtract_witness:
  "Money_Subtract \<lparr>Amount = - (2 ^ 63), Currency = ''INR''\<rparr> \<lparr>Amount = 1, Currency = ''INR''\<rparr>
     = Inr \<lparr>Amount = 2 ^ 63 - 1, Currency = ''INR''\<rparr>"
  using Money_Add_Subtract
    [of "\<lparr>Amount = 2 ^ 63 - 1, Currency = ''INR''\<rparr>" "\<lparr>Amount = 1, Currency = ''INR''\<rparr>"
        "\<lparr>Amount = - (2 ^ 63), Currency = ''INR''\<rparr>"]
  by (simp add: Money_wf_def Money_Add_def wrap64_def)

lemma NormalizedPerPage_range: "1 \<le> NormalizedPerPage q \<and> NormalizedPerPage q \<le> 100"
  by (auto simp: NormalizedPerPage_def)

text \<open>
  The pages of a list cover it without an empty page at the end: \<open>TotalPages\<close>
  pages of \<open>PerPage\<close> items hold \<open>total\<close> items, one page fewer does not, and an empty
  list has one page.
\<close>

theorem NewPagedResult_covers:
  fixes items :: "'a list" and q :: QueryParams
  assumes "0 \<le> count" and "count \<le> 2 ^ 62"
  defines "r \<equiv> NewPagedResult items count q"
  shows "1 \<le> TotalPages r \<and> count \<le> TotalPages r * PerPage r
    \<and> (TotalPages r = 1 \<or> (TotalPages r - 1) * PerPage r < count)
    \<and> 1 \<le> PerPage r \<and> PerPage r \<le> 100 \<and> 1 \<le> Page r"
proof -
  define k where "k = NormalizedPerPage q"
  have k: "1 \<le> k" "k \<le> 100" using NormalizedPerPage_range [of q] by (simp_all add: k_def)
  define d where "d = (count + k - 1) div k"
  have dm: "d * k + (count + k - 1) mod k = count + k - 1" unfolding d_def by simp
  have m: "0 \<le> (count + k - 1) mod k" "(count + k - 1) mod k < k"
    using k by (auto intro: pos_mod_sign pos_mod_bound)
  have d0: "0 \<le> d" using assms(1) k unfolding d_def by (intro pos_imp_zdiv_nonneg_iff [THEN iffD2]) auto
  have dk: "d \<le> d * k" using d0 k mult_left_mono [of 1 k d] by simp
  then have "d \<le> 2 ^ 62 + 100" using dm m k assms(2) by linarith
  have w1: "wrap64 (count + k) = count + k"
    using assms k by (intro wrap64_id) auto
  have w2: "wrap64 (count + k - 1) = count + k - 1"
    using assms k by (intro wrap64_id) auto
  have "wrap64 ((count + k - 1) sdiv k) = d"
    using \<open>d \<le> 2 ^ 62 + 100\<close> d0 k assms(1)
    by (simp add: signed_divide_int_def sgn_if d_def wrap64_id)
  then have r: "TotalPages r = (if d = 0 then 1 else d)" "PerPage r = k" "1 \<le> Page r"
    by (simp_all add: r_def NewPagedResult_def Let_def w1 w2 NormalizedPage_def flip: k_def)
  have "(d - 1) * k = d * k - k" by (simp add: algebra_simps)
  then have "(d - 1) * k < count" using dm m by linarith
  moreover have "count \<le> d * k" using dm m by linarith
  ultimately show ?thesis using r k d0 by auto
qed

theorem NewPagedResult_covers_witness:
  "TotalPages (NewPagedResult [True, False] 42
      \<lparr>q_Search = [], q_Status = [], q_SortBy = [], q_SortOrder = [], q_Page = 1, q_PerPage = 10\<rparr>) \<ge> 1"
  using NewPagedResult_covers [of 42 "[True, False]"
    "\<lparr>q_Search = [], q_Status = [], q_SortBy = [], q_SortOrder = [], q_Page = 1, q_PerPage = 10\<rparr>"]
  by simp

end
