(* ===== verification/Booking_Aggregate.thy ===== *)
theory Booking_Aggregate
  imports Shared_Kernel
begin

text \<open>
  The booking aggregate (\<open>internal/booking/domain/aggregate\<close>): its state, its events and its
  transitions.  A method that can fail returns the updated aggregate or the error; every method
  checks its guards before it assigns, so an error leaves the aggregate as it was.  A
  \<open>BookingStatus\<close> is a string type in the source and stays one here; the named constants
  are its literals.  A \<open>time.Time\<close> is the number of nanoseconds since the zero time.
\<close>

type_synonym go_time = int
type_synonym BookingID = string
type_synonym BookingStatus = string

definition BookingDraft :: BookingStatus where "BookingDraft = ''draft''"
definition BookingPending :: BookingStatus where "BookingPending = ''pending''"
definition BookingConfirmed :: BookingStatus where "BookingConfirmed = ''confirmed''"
definition BookingCancelled :: BookingStatus where "BookingCancelled = ''cancelled''"
definition BookingCompleted :: BookingStatus where "BookingCompleted = ''completed''"

lemmas booking_status_defs =
  BookingDraft_def BookingPending_def BookingConfirmed_def BookingCancelled_def BookingCompleted_def

lemma booking_status_neq [simp]:
  "BookingDraft \<noteq> BookingPending" "BookingDraft \<noteq> BookingConfirmed"
  "BookingDraft \<noteq> BookingCancelled" "BookingDraft \<noteq> BookingCompleted"
  "BookingPending \<noteq> BookingDraft" "BookingPending \<noteq> BookingConfirmed"
  "BookingPending \<noteq> BookingCancelled" "BookingPending \<noteq> BookingCompleted"
  "BookingConfirmed \<noteq> BookingDraft" "BookingConfirmed \<noteq> BookingPending"
  "BookingConfirmed \<noteq> BookingCancelled" "BookingConfirmed \<noteq> BookingCompleted"
  "BookingCancelled \<noteq> BookingDraft" "BookingCancelled \<noteq> BookingPending"
  "BookingCancelled \<noteq> BookingConfirmed" "BookingCancelled \<noteq> BookingCompleted"
  "BookingCompleted \<noteq> BookingDraft" "BookingCompleted \<noteq> BookingPending"
  "BookingCompleted \<noteq> BookingConfirmed" "BookingCompleted \<noteq> BookingCancelled"
  by (simp_all add: booking_status_defs)

datatype booking_event =
    BookingCreatedEvent BookingID TenantID string go_time
  | BookingConfirmedEvent BookingID TenantID go_time
  | BookingCancelledEvent BookingID TenantID go_time
  | BookingUpdatedEvent BookingID TenantID go_time
  | BookingCompletedEvent BookingID TenantID go_time

record BookingAggregate =
  bk_ID :: BookingID
  bk_TenantID :: TenantID
  bk_BookingNumber :: string
  bk_CustomerID :: string
  bk_RouteID :: string
  bk_PickupDate :: go_time
  bk_VehicleType :: string
  bk_Passengers :: int
  bk_CargoWeight :: "float64 option"
  bk_Price :: Money
  bk_Notes :: string
  bk_Status :: BookingStatus
  bk_CreatedAt :: go_time
  bk_UpdatedAt :: go_time
  bk_Version :: int
  bk_events :: "booking_event list"

definition BookingAggregate_RecordEvent :: "booking_event \<Rightarrow> BookingAggregate \<Rightarrow> BookingAggregate" where
  "BookingAggregate_RecordEvent ev b = b\<lparr>bk_events := bk_events b @ [ev]\<rparr>"

definition BookingAggregate_ClearEvents :: "BookingAggregate \<Rightarrow> BookingAggregate" where
  "BookingAggregate_ClearEvents b = b\<lparr>bk_events := []\<rparr>"

definition NewBookingAggregate ::
  "BookingID \<Rightarrow> TenantID \<Rightarrow> string \<Rightarrow> string \<Rightarrow> string \<Rightarrow> go_time \<Rightarrow> string \<Rightarrow> int \<Rightarrow> float64 option
     \<Rightarrow> Money \<Rightarrow> string \<Rightarrow> go_time \<Rightarrow> BookingAggregate" where
  "NewBookingAggregate i tenantID bookingNumber customerID routeID pickupDate vehicleType passengers
     cargoWeight price notes now =
     BookingAggregate_RecordEvent (BookingCreatedEvent i tenantID bookingNumber now)
       \<lparr>bk_ID = i, bk_TenantID = tenantID, bk_BookingNumber = bookingNumber,
        bk_CustomerID = customerID, bk_RouteID = routeID, bk_PickupDate = pickupDate,
        bk_VehicleType = vehicleType, bk_Passengers = passengers, bk_CargoWeight = cargoWeight,
        bk_Price = price, bk_Notes = notes, bk_Status = BookingPending, bk_CreatedAt = now,
        bk_UpdatedAt = now, bk_Version = 0, bk_events = []\<rparr>"

definition BookingAggregate_Confirm :: "go_time \<Rightarrow> BookingAggregate \<Rightarrow> BookingAggregate result" where
  "BookingAggregate_Confirm now b =
     (if bk_Status b = BookingCancelled
      then Inl (ErrorString ''cancelled bookings cannot be confirmed'')
      else if bk_Status b \<noteq> BookingPending
      then Inl (ErrorString ''only pending bookings can be confirmed'')
      else Inr (BookingAggregate_RecordEvent (BookingConfirmedEvent (bk_ID b) (bk_TenantID b) now)
        (b\<lparr>bk_Status := BookingConfirmed, bk_UpdatedAt := now\<rparr>)))"

definition BookingAggregate_Complete :: "go_time \<Rightarrow> BookingAggregate \<Rightarrow> BookingAggregate result" where
  "BookingAggregate_Complete now b =
     (if bk_Status b \<noteq> BookingConfirmed
      then Inl (ErrorString ''only confirmed bookings can be completed'')
      else Inr (BookingAggregate_RecordEvent (BookingCompletedEvent (bk_ID b) (bk_TenantID b) now)
        (b\<lparr>bk_Status := BookingCompleted, bk_UpdatedAt := now\<rparr>)))"

definition BookingAggregate_Cancel :: "go_time \<Rightarrow> BookingAggregate \<Rightarrow> BookingAggregate result" where
  "BookingAggregate_Cancel now b =
     (if bk_Status b = BookingCompleted
      then Inl (ErrorString ''completed bookings cannot be cancelled'')
      else Inr (BookingAggregate_RecordEvent (BookingCancelledEvent (bk_ID b) (bk_TenantID b) now)
        (b\<lparr>bk_Status := BookingCancelled, bk_UpdatedAt := now\<rparr>)))"

definition BookingAggregate_Update ::
  "string \<Rightarrow> string \<Rightarrow> go_time \<Rightarrow> string \<Rightarrow> int \<Rightarrow> float64 option \<Rightarrow> Money \<Rightarrow> string \<Rightarrow> go_time
     \<Rightarrow> BookingAggregate \<Rightarrow> BookingAggregate result" where
  "BookingAggregate_Update customerID routeID pickupDate vehicleType passengers cargoWeight price
     notes now b =
     (if bk_Status b = BookingCancelled \<or> bk_Status b = BookingCompleted
      then Inl (ErrorString ''cannot update cancelled or completed bookings'')
      else Inr (BookingAggregate_RecordEvent (BookingUpdatedEvent (bk_ID b) (bk_TenantID b) now)
        (b\<lparr>bk_CustomerID := customerID, bk_RouteID := routeID, bk_PickupDate := pickupDate,
           bk_VehicleType := vehicleType, bk_Passengers := passengers,
           bk_CargoWeight := cargoWeight, bk_Price := price, bk_Notes := notes,
           bk_UpdatedAt := now\<rparr>)))"

text \<open>\<open>BookingWorkflow.CanComplete\<close> and \<open>BookingWorkflow.CanCancel\<close>.\<close>

definition BookingWorkflow_CanComplete :: "BookingStatus \<Rightarrow> bool" where
  "BookingWorkflow_CanComplete status \<longleftrightarrow> status = BookingConfirmed"

definition BookingWorkflow_CanCancel :: "BookingStatus \<Rightarrow> bool" where
  "BookingWorkflow_CanCancel status \<longleftrightarrow> status \<noteq> BookingCompleted"

section \<open>The life cycle as a step relation\<close>

lemmas booking_transition_defs =
  BookingAggregate_Confirm_def BookingAggregate_Complete_def BookingAggregate_Cancel_def
  BookingAggregate_Update_def BookingAggregate_RecordEvent_def

lemma Booking_Confirm_Inr:
  "BookingAggregate_Confirm now b = Inr b' \<longleftrightarrow> bk_Status b = BookingPending
     \<and> b' = b\<lparr>bk_Status := BookingConfirmed, bk_UpdatedAt := now,
              bk_events := bk_events b @ [BookingConfirmedEvent (bk_ID b) (bk_TenantID b) now]\<rparr>"
  by (auto simp: booking_transition_defs)

lemma Booking_Complete_Inr:
  "BookingAggregate_Complete now b = Inr b' \<longleftrightarrow> bk_Status b = BookingConfirmed
     \<and> b' = b\<lparr>bk_Status := BookingCompleted, bk_UpdatedAt := now,
              bk_events := bk_events b @ [BookingCompletedEvent (bk_ID b) (bk_TenantID b) now]\<rparr>"
  by (auto simp: booking_transition_defs)

lemma Booking_Cancel_Inr:
  "BookingAggregate_Cancel now b = Inr b' \<longleftrightarrow> bk_Status b \<noteq> BookingCompleted
     \<and> b' = b\<lparr>bk_Status := BookingCancelled, bk_UpdatedAt := now,
              bk_events := bk_events b @ [BookingCancelledEvent (bk_ID b) (bk_TenantID b) now]\<rparr>"
  by (auto simp: booking_transition_defs)

lemma Booking_Update_Inr:
  "BookingAggregate_Update c r d v p cw pr n now b = Inr b' \<longleftrightarrow>
     bk_Status b \<noteq> BookingCancelled \<and> bk_Status b \<noteq> BookingCompleted
     \<and> b' = b\<lparr>bk_CustomerID := c, bk_RouteID := r, bk_PickupDate := d, bk_VehicleType := v,
              bk_Passengers := p, bk_CargoWeight := cw, bk_Price := pr, bk_Notes := n,
              bk_UpdatedAt := now,
              bk_events := bk_events b @ [BookingUpdatedEvent (bk_ID b) (bk_TenantID b) now]\<rparr>"
  by (auto simp: booking_transition_defs)

lemmas booking_Inr =
  Booking_Confirm_Inr Booking_Complete_Inr Booking_Cancel_Inr Booking_Update_Inr

text \<open>One call of a mutating method that returned nil.\<close>

inductive booking_step :: "BookingAggregate \<Rightarrow> BookingAggregate \<Rightarrow> bool" where
  step_Confirm: "BookingAggregate_Confirm now b = Inr b' \<Longrightarrow> booking_step b b'"
| step_Complete: "BookingAggregate_Complete now b = Inr b' \<Longrightarrow> booking_step b b'"
| step_Cancel: "BookingAggregate_Cancel now b = Inr b' \<Longrightarrow> booking_step b b'"
| step_Update: "BookingAggregate_Update c r d v p cw pr n now b = Inr b' \<Longrightarrow> booking_step b b'"

inductive_cases booking_stepE: "booking_step b b'"

definition booking_statuses :: "BookingStatus set" where
  "booking_statuses = {BookingPending, BookingConfirmed, BookingCancelled, BookingCompleted}"

text \<open>The status changes a call can make, as a table.\<close>

definition booking_edge :: "BookingStatus \<Rightarrow> BookingStatus \<Rightarrow> bool" where
  "booking_edge s s' \<longleftrightarrow>
     s = BookingPending \<and> s' \<in> {BookingPending, BookingConfirmed, BookingCancelled}
     \<or> s = BookingConfirmed \<and> s' \<in> {BookingConfirmed, BookingCompleted, BookingCancelled}
     \<or> s = BookingCancelled \<and> s' = BookingCancelled"

lemma booking_step_status:
  assumes "booking_step b b'"
  shows "bk_Status b = BookingPending \<and> bk_Status b' = BookingConfirmed
    \<or> bk_Status b = BookingConfirmed \<and> bk_Status b' = BookingCompleted
    \<or> bk_Status b \<noteq> BookingCompleted \<and> bk_Status b' = BookingCancelled
    \<or> bk_Status b \<noteq> BookingCompleted \<and> bk_Status b \<noteq> BookingCancelled \<and> bk_Status b' = bk_Status b"
  using assms by (cases rule: booking_step.cases) (simp_all add: booking_Inr)

lemma booking_step_edge:
  assumes "booking_step b b'" and "bk_Status b \<in> booking_statuses"
  shows "booking_edge (bk_Status b) (bk_Status b')"
  using booking_step_status [OF assms(1)] assms(2)
  unfolding booking_edge_def booking_statuses_def by (elim disjE conjE) auto

lemma booking_edge_statuses: "booking_edge s s' \<Longrightarrow> s' \<in> booking_statuses"
  unfolding booking_edge_def booking_statuses_def by blast

lemma booking_step_identity:
  assumes "booking_step b b'"
  shows "bk_ID b' = bk_ID b \<and> bk_TenantID b' = bk_TenantID b
    \<and> bk_BookingNumber b' = bk_BookingNumber b \<and> bk_Version b' = bk_Version b
    \<and> bk_CreatedAt b' = bk_CreatedAt b"
  using assms
  by (cases rule: booking_step.cases) (simp_all add: booking_Inr)

lemma booking_step_event:
  assumes "booking_step b b'"
  shows "\<exists>ev. bk_events b' = bk_events b @ [ev]"
  using assms
  by (cases rule: booking_step.cases) (simp_all add: booking_Inr)

lemma booking_steps_status:
  assumes "booking_step\<^sup>*\<^sup>* b b'" and "bk_Status b \<in> booking_statuses"
  shows "bk_Status b' \<in> booking_statuses"
  using assms
proof (induction rule: rtranclp_induct)
  case base
  then show ?case .
next
  case (step y z)
  then show ?case using booking_step_edge booking_edge_statuses by blast
qed

lemma booking_completed_final:
  "booking_step b b' \<Longrightarrow> bk_Status b \<noteq> BookingCompleted"
  using booking_step_status [of b b'] by auto

lemma booking_cancelled_stays:
  assumes "booking_step\<^sup>*\<^sup>* b b'" and "bk_Status b = BookingCancelled"
  shows "bk_Status b' = BookingCancelled"
  using assms
proof (induction rule: rtranclp_induct)
  case base
  then show ?case .
next
  case (step y z)
  from booking_step_status [OF step.hyps(2)] step.IH [OF step.prems] show ?case by auto
qed

lemma booking_steps_identity:
  assumes "booking_step\<^sup>*\<^sup>* b b'" and "bk_events b \<noteq> []"
  shows "bk_ID b' = bk_ID b \<and> bk_TenantID b' = bk_TenantID b
    \<and> bk_BookingNumber b' = bk_BookingNumber b \<and> bk_events b' \<noteq> []
    \<and> hd (bk_events b') = hd (bk_events b)"
  using assms
proof (induction rule: rtranclp_induct)
  case base
  then show ?case by simp
next
  case (step y z)
  from booking_step_identity [OF step.hyps(2)] booking_step_event [OF step.hyps(2)]
    step.IH [OF step.prems]
  show ?case by auto
qed

text \<open>
  Life cycle of a booking.  Whatever sequence of method calls is made on a new
  booking, its status stays one of the four persisted ones, exactly one event is recorded per
  successful call, and its identity never changes; a completed booking accepts no further call and
  a cancelled one never becomes active again.
\<close>

theorem booking_lifecycle:
  assumes "booking_step\<^sup>*\<^sup>* (NewBookingAggregate i t n c r d v p cw pr nt now) b"
  shows "bk_Status b \<in> booking_statuses
    \<and> bk_ID b = i \<and> bk_TenantID b = t \<and> bk_BookingNumber b = n
    \<and> hd (bk_events b) = BookingCreatedEvent i t n now
    \<and> (\<forall>b'. booking_step b b' \<longrightarrow> (\<exists>ev. bk_events b' = bk_events b @ [ev]))
    \<and> (bk_Status b = BookingCompleted \<longrightarrow> (\<nexists>b'. booking_step b b'))
    \<and> (bk_Status b = BookingCancelled \<longrightarrow> (\<forall>b'. booking_step\<^sup>*\<^sup>* b b' \<longrightarrow> bk_Status b' = BookingCancelled))"
proof (intro conjI impI allI)
  let ?b0 = "NewBookingAggregate i t n c r d v p cw pr nt now"
  note new = NewBookingAggregate_def BookingAggregate_RecordEvent_def
  show "bk_Status b \<in> booking_statuses"
    using booking_steps_status [OF assms] by (simp add: new booking_statuses_def)
  have e: "bk_events ?b0 \<noteq> []" by (simp add: new)
  note ids = booking_steps_identity [OF assms e]
  show "bk_ID b = i" "bk_TenantID b = t" "bk_BookingNumber b = n"
    "hd (bk_events b) = BookingCreatedEvent i t n now"
    using ids by (simp_all add: new)
  show "\<exists>ev. bk_events b' = bk_events b @ [ev]" if "booking_step b b'" for b'
    using booking_step_event that by blast
  show "\<nexists>b'. booking_step b b'" if "bk_Status b = BookingCompleted"
    using booking_completed_final that by blast
  show "bk_Status b' = BookingCancelled"
    if "bk_Status b = BookingCancelled" and "booking_step\<^sup>*\<^sup>* b b'" for b'
    using booking_cancelled_stays that by blast
qed

theorem booking_lifecycle_witness:
  "bk_Status (NewBookingAggregate ''b1'' ''t1'' ''BK-1'' ''c1'' ''r1'' 0 ''truck'' 1 None
      \<lparr>Amount = 100, Currency = ''INR''\<rparr> [] 5) \<in> booking_statuses"
  using booking_lifecycle [of "''b1''" "''t1''" "''BK-1''" "''c1''" "''r1''" 0 "''truck''" 1 None
      "\<lparr>Amount = 100, Currency = ''INR''\<rparr>" "[]" 5
      "NewBookingAggregate ''b1'' ''t1'' ''BK-1'' ''c1'' ''r1'' 0 ''truck'' 1 None
      \<lparr>Amount = 100, Currency = ''INR''\<rparr> [] 5"]
  by simp

text \<open>
  The eligibility checks of the booking workflow agree with the aggregate: completion
  (cancellation) is offered exactly for the statuses in which \<open>Complete\<close> (\<open>Cancel\<close>)
  succeeds.
\<close>

theorem booking_workflow_agrees:
  "(BookingWorkflow_CanComplete (bk_Status b) \<longleftrightarrow> (\<exists>b'. BookingAggregate_Complete now b = Inr b'))
   \<and> (BookingWorkflow_CanCancel (bk_Status b) \<longleftrightarrow> (\<exists>b'. BookingAggregate_Cancel now b = Inr b'))"
  by (simp add: BookingWorkflow_CanComplete_def BookingWorkflow_CanCancel_def booking_transition_defs)

end
