(* ===== verification/Trip_Aggregate.thy ===== *)
theory Trip_Aggregate
  imports Booking_Aggregate
begin

text \<open>
  The trip aggregate (\<open>internal/trip/domain/aggregate\<close>) and the eligibility checks of the
  trip workflow.  Conventions are those of theory Booking_Aggregate.
\<close>

type_synonym TripID = string
type_synonym TripStatus = string

definition TripDraft :: TripStatus where "TripDraft = ''draft''"
definition TripScheduled :: TripStatus where "TripScheduled = ''scheduled''"
definition TripAssigned :: TripStatus where "TripAssigned = ''assigned''"
definition TripStarted :: TripStatus where "TripStarted = ''started''"
definition TripReachedPickup :: TripStatus where "TripReachedPickup = ''reached_pickup''"
definition TripInTransit :: TripStatus where "TripInTransit = ''in_transit''"
definition TripDelivered :: TripStatus where "TripDelivered = ''delivered''"
definition TripCompleted :: TripStatus where "TripCompleted = ''completed''"
definition TripCancelled :: TripStatus where "TripCancelled = ''cancelled''"

lemmas trip_status_defs =
  TripDraft_def TripScheduled_def TripAssigned_def TripStarted_def TripReachedPickup_def
  TripInTransit_def TripDelivered_def TripCompleted_def TripCancelled_def

lemma trip_status_neq [simp]:
  "TripDraft \<noteq> TripScheduled" "TripDraft \<noteq> TripAssigned"
  "TripDraft \<noteq> TripStarted" "TripDraft \<noteq> TripReachedPickup"
  "TripDraft \<noteq> TripInTransit" "TripDraft \<noteq> TripDelivered"
  "TripDraft \<noteq> TripCompleted" "TripDraft \<noteq> TripCancelled"
  "TripScheduled \<noteq> TripDraft" "TripScheduled \<noteq> TripAssigned"
  "TripScheduled \<noteq> TripStarted" "TripScheduled \<noteq> TripReachedPickup"
  "TripScheduled \<noteq> TripInTransit" "TripScheduled \<noteq> TripDelivered"
  "TripScheduled \<noteq> TripCompleted" "TripScheduled \<noteq> TripCancelled"
  "TripAssigned \<noteq> TripDraft" "TripAssigned \<noteq> TripScheduled"
  "TripAssigned \<noteq> TripStarted" "TripAssigned \<noteq> TripReachedPickup"
  "TripAssigned \<noteq> TripInTransit" "TripAssigned \<noteq> TripDelivered"
  "TripAssigned \<noteq> TripCompleted" "TripAssigned \<noteq> TripCancelled"
  "TripStarted \<noteq> TripDraft" "TripStarted \<noteq> TripScheduled"
  "TripStarted \<noteq> TripAssigned" "TripStarted \<noteq> TripReachedPickup"
  "TripStarted \<noteq> TripInTransit" "TripStarted \<noteq> TripDelivered"
  "TripStarted \<noteq> TripCompleted" "TripStarted \<noteq> TripCancelled"
  "TripReachedPickup \<noteq> TripDraft" "TripReachedPickup \<noteq> TripScheduled"
  "TripReachedPickup \<noteq> TripAssigned" "TripReachedPickup \<noteq> TripStarted"
  "TripReachedPickup \<noteq> TripInTransit" "TripReachedPickup \<noteq> TripDelivered"
  "TripReachedPickup \<noteq> TripCompleted" "TripReachedPickup \<noteq> TripCancelled"
  "TripInTransit \<noteq> TripDraft" "TripInTransit \<noteq> TripScheduled"
  "TripInTransit \<noteq> TripAssigned" "TripInTransit \<noteq> TripStarted"
  "TripInTransit \<noteq> TripReachedPickup" "TripInTransit \<noteq> TripDelivered"
  "TripInTransit \<noteq> TripCompleted" "TripInTransit \<noteq> TripCancelled"
  "TripDelivered \<noteq> TripDraft" "TripDelivered \<noteq> TripScheduled"
  "TripDelivered \<noteq> TripAssigned" "TripDelivered \<noteq> TripStarted"
  "TripDelivered \<noteq> TripReachedPickup" "TripDelivered \<noteq> TripInTransit"
  "TripDelivered \<noteq> TripCompleted" "TripDelivered \<noteq> TripCancelled"
  "TripCompleted \<noteq> TripDraft" "TripCompleted \<noteq> TripScheduled"
  "TripCompleted \<noteq> TripAssigned" "TripCompleted \<noteq> TripStarted"
  "TripCompleted \<noteq> TripReachedPickup" "TripCompleted \<noteq> TripInTransit"
  "TripCompleted \<noteq> TripDelivered" "TripCompleted \<noteq> TripCancelled"
  "TripCancelled \<noteq> TripDraft" "TripCancelled \<noteq> TripScheduled"
  "TripCancelled \<noteq> TripAssigned" "TripCancelled \<noteq> TripStarted"
  "TripCancelled \<noteq> TripReachedPickup" "TripCancelled \<noteq> TripInTransit"
  "TripCancelled \<noteq> TripDelivered" "TripCancelled \<noteq> TripCompleted"
  by (simp_all add: trip_status_defs)

datatype trip_event =
    TripCreatedEvent TripID TenantID string go_time
  | TripScheduledEvent TripID TenantID go_time
  | TripAssignedEvent TripID TenantID string string go_time
  | TripStartedEvent TripID TenantID go_time
  | TripReachedPickupEvent TripID TenantID go_time
  | TripInTransitEvent TripID TenantID go_time
  | TripDeliveredEvent TripID TenantID go_time
  | TripCompletedEvent TripID TenantID go_time
  | TripCancelledEvent TripID TenantID go_time

record TripAggregate =
  tr_ID :: TripID
  tr_TenantID :: TenantID
  tr_TripNumber :: string
  tr_BookingID :: "string option"
  tr_DriverID :: "string option"
  tr_VehicleID :: "string option"
  tr_RouteID :: string
  tr_DepartureTime :: go_time
  tr_ArrivalTime :: "go_time option"
  tr_Status :: TripStatus
  tr_Remarks :: string
  tr_StartedAt :: "go_time option"
  tr_ReachedPickupAt :: "go_time option"
  tr_InTransitAt :: "go_time option"
  tr_DeliveredAt :: "go_time option"
  tr_CompletedAt :: "go_time option"
  tr_CreatedAt :: go_time
  tr_UpdatedAt :: go_time
  tr_Version :: int
  tr_events :: "trip_event list"

definition TripAggregate_RecordEvent :: "trip_event \<Rightarrow> TripAggregate \<Rightarrow> TripAggregate" where
  "TripAggregate_RecordEvent ev t = t\<lparr>tr_events := tr_events t @ [ev]\<rparr>"

definition TripAggregate_ClearEvents :: "TripAggregate \<Rightarrow> TripAggregate" where
  "TripAggregate_ClearEvents t = t\<lparr>tr_events := []\<rparr>"

definition NewTripAggregate ::
  "TripID \<Rightarrow> TenantID \<Rightarrow> string \<Rightarrow> string option \<Rightarrow> string \<Rightarrow> go_time \<Rightarrow> string \<Rightarrow> go_time \<Rightarrow> TripAggregate" where
  "NewTripAggregate i tenantID tripNumber bookingID routeID departureTime remarks now =
     TripAggregate_RecordEvent (TripCreatedEvent i tenantID tripNumber now)
       \<lparr>tr_ID = i, tr_TenantID = tenantID, tr_TripNumber = tripNumber, tr_BookingID = bookingID,
        tr_DriverID = None, tr_VehicleID = None, tr_RouteID = routeID,
        tr_DepartureTime = departureTime, tr_ArrivalTime = None, tr_Status = TripDraft,
        tr_Remarks = remarks, tr_StartedAt = None, tr_ReachedPickupAt = None,
        tr_InTransitAt = None, tr_DeliveredAt = None, tr_CompletedAt = None,
        tr_CreatedAt = now, tr_UpdatedAt = now, tr_Version = 0, tr_events = []\<rparr>"

definition TripAggregate_Schedule :: "go_time \<Rightarrow> TripAggregate \<Rightarrow> TripAggregate result" where
  "TripAggregate_Schedule now t =
     (if tr_Status t \<noteq> TripDraft then Inl (ErrorString ''only draft trips can be scheduled'')
      else Inr (TripAggregate_RecordEvent (TripScheduledEvent (tr_ID t) (tr_TenantID t) now)
        (t\<lparr>tr_Status := TripScheduled, tr_UpdatedAt := now\<rparr>)))"

definition TripAggregate_AssignDriver :: "string \<Rightarrow> go_time \<Rightarrow> TripAggregate \<Rightarrow> TripAggregate result" where
  "TripAggregate_AssignDriver driverID now t =
     (if tr_Status t = TripCompleted \<or> tr_Status t = TripCancelled
      then Inl (ErrorString ''cannot assign driver to completed or cancelled trip'')
      else Inr (TripAggregate_RecordEvent
        (TripAssignedEvent (tr_ID t) (tr_TenantID t) driverID [] now)
        (t\<lparr>tr_DriverID := Some driverID, tr_Status := TripAssigned, tr_UpdatedAt := now\<rparr>)))"

definition TripAggregate_AssignVehicle :: "string \<Rightarrow> go_time \<Rightarrow> TripAggregate \<Rightarrow> TripAggregate result" where
  "TripAggregate_AssignVehicle vehicleID now t =
     (if tr_DriverID t = None \<or> tr_DriverID t = Some []
      then Inl (ErrorString ''driver must be assigned before vehicle'')
      else if tr_Status t = TripCompleted \<or> tr_Status t = TripCancelled
      then Inl (ErrorString ''cannot assign vehicle to completed or cancelled trip'')
      else let driverID = (case tr_DriverID t of Some d \<Rightarrow> d | None \<Rightarrow> []) in
        Inr (TripAggregate_RecordEvent
          (TripAssignedEvent (tr_ID t) (tr_TenantID t) driverID vehicleID now)
          (t\<lparr>tr_VehicleID := Some vehicleID, tr_UpdatedAt := now\<rparr>)))"

definition TripAggregate_Start :: "go_time \<Rightarrow> TripAggregate \<Rightarrow> TripAggregate result" where
  "TripAggregate_Start now t =
     (if tr_Status t \<noteq> TripAssigned \<and> tr_Status t \<noteq> TripScheduled
      then Inl (ErrorString ''trip must be scheduled or assigned to start'')
      else Inr (TripAggregate_RecordEvent (TripStartedEvent (tr_ID t) (tr_TenantID t) now)
        (t\<lparr>tr_Status := TripStarted, tr_StartedAt := Some now, tr_UpdatedAt := now\<rparr>)))"

definition TripAggregate_ReachPickup :: "go_time \<Rightarrow> TripAggregate \<Rightarrow> TripAggregate result" where
  "TripAggregate_ReachPickup now t =
     (if tr_Status t \<noteq> TripStarted
      then Inl (ErrorString ''trip must be started before reaching pickup'')
      else Inr (TripAggregate_RecordEvent (TripReachedPickupEvent (tr_ID t) (tr_TenantID t) now)
        (t\<lparr>tr_Status := TripReachedPickup, tr_ReachedPickupAt := Some now, tr_UpdatedAt := now\<rparr>)))"

definition TripAggregate_StartTransit :: "go_time \<Rightarrow> TripAggregate \<Rightarrow> TripAggregate result" where
  "TripAggregate_StartTransit now t =
     (if tr_Status t \<noteq> TripReachedPickup
      then Inl (ErrorString ''trip must have reached pickup before going in transit'')
      else Inr (TripAggregate_RecordEvent (TripInTransitEvent (tr_ID t) (tr_TenantID t) now)
        (t\<lparr>tr_Status := TripInTransit, tr_InTransitAt := Some now, tr_UpdatedAt := now\<rparr>)))"

definition TripAggregate_Deliver :: "go_time \<Rightarrow> TripAggregate \<Rightarrow> TripAggregate result" where
  "TripAggregate_Deliver now t =
     (if tr_Status t \<noteq> TripInTransit
      then Inl (ErrorString ''trip must be in transit before being delivered'')
      else Inr (TripAggregate_RecordEvent (TripDeliveredEvent (tr_ID t) (tr_TenantID t) now)
        (t\<lparr>tr_Status := TripDelivered, tr_DeliveredAt := Some now, tr_ArrivalTime := Some now,
           tr_UpdatedAt := now\<rparr>)))"

definition TripAggregate_Complete :: "go_time \<Rightarrow> TripAggregate \<Rightarrow> TripAggregate result" where
  "TripAggregate_Complete now t =
     (if tr_Status t = TripCompleted then Inr t
      else if tr_Status t \<noteq> TripDelivered
      then Inl (ErrorString ''only delivered trips can be completed'')
      else Inr (TripAggregate_RecordEvent (TripCompletedEvent (tr_ID t) (tr_TenantID t) now)
        (t\<lparr>tr_Status := TripCompleted, tr_CompletedAt := Some now, tr_UpdatedAt := now\<rparr>)))"

definition TripAggregate_Cancel :: "go_time \<Rightarrow> TripAggregate \<Rightarrow> TripAggregate result" where
  "TripAggregate_Cancel now t =
     (if tr_Status t = TripCompleted then Inl (ErrorString ''completed trips cannot be cancelled'')
      else Inr (TripAggregate_RecordEvent (TripCancelledEvent (tr_ID t) (tr_TenantID t) now)
        (t\<lparr>tr_Status := TripCancelled, tr_UpdatedAt := now\<rparr>)))"

definition TripWorkflow_CanComplete :: "TripStatus \<Rightarrow> bool" where
  "TripWorkflow_CanComplete status \<longleftrightarrow> status = TripStarted"

definition TripWorkflow_CanCancel :: "TripStatus \<Rightarrow> bool" where
  "TripWorkflow_CanCancel status \<longleftrightarrow> status \<noteq> TripCompleted"

section \<open>Calls on a trip\<close>

lemmas trip_transition_defs =
  TripAggregate_Schedule_def TripAggregate_AssignDriver_def TripAggregate_AssignVehicle_def
  TripAggregate_Start_def TripAggregate_ReachPickup_def TripAggregate_StartTransit_def
  TripAggregate_Deliver_def TripAggregate_Complete_def TripAggregate_Cancel_def
  TripAggregate_RecordEvent_def

text \<open>The mutating methods as data, and one call that returned nil at a time \<open>now\<close>.\<close>

datatype trip_call =
    CallSchedule | CallAssignDriver string | CallAssignVehicle string | CallStart
  | CallReachPickup | CallStartTransit | CallDeliver | CallComplete | CallCancel

fun trip_apply :: "trip_call \<Rightarrow> go_time \<Rightarrow> TripAggregate \<Rightarrow> TripAggregate result" where
  "trip_apply CallSchedule now t = TripAggregate_Schedule now t"
| "trip_apply (CallAssignDriver d) now t = TripAggregate_AssignDriver d now t"
| "trip_apply (CallAssignVehicle v) now t = TripAggregate_AssignVehicle v now t"
| "trip_apply CallStart now t = TripAggregate_Start now t"
| "trip_apply CallReachPickup now t = TripAggregate_ReachPickup now t"
| "trip_apply CallStartTransit now t = TripAggregate_StartTransit now t"
| "trip_apply CallDeliver now t = TripAggregate_Deliver now t"
| "trip_apply CallComplete now t = TripAggregate_Complete now t"
| "trip_apply CallCancel now t = TripAggregate_Cancel now t"

text \<open>The clock never runs backwards between calls: \<open>now\<close> is not before the last update.\<close>

inductive trip_step :: "TripAggregate \<Rightarrow> TripAggregate \<Rightarrow> bool" where
  trip_call: "trip_apply c now t = Inr t' \<Longrightarrow> tr_UpdatedAt t \<le> now \<Longrightarrow> trip_step t t'"

inductive_cases trip_stepE: "trip_step t t'"

lemma trip_apply_keeps_identity:
  assumes "trip_apply c now t = Inr t'"
  shows "tr_ID t' = tr_ID t \<and> tr_TenantID t' = tr_TenantID t \<and> tr_TripNumber t' = tr_TripNumber t
    \<and> tr_Version t' = tr_Version t \<and> tr_RouteID t' = tr_RouteID t \<and> tr_BookingID t' = tr_BookingID t"
  using assms
  by (cases c) (auto simp: trip_transition_defs Let_def split: if_splits)

lemma trip_apply_created:
  assumes "trip_apply c now t = Inr t'"
  shows "tr_CreatedAt t' = tr_CreatedAt t"
  using assms
  by (cases c) (auto simp: trip_transition_defs Let_def split: if_splits)

text \<open>
  The timeline of a trip: the stage it is in fixes which timestamps are set, and they are in the
  order of the journey, none of them after the last update.
\<close>

definition before :: "go_time option \<Rightarrow> go_time \<Rightarrow> bool" where
  "before a b \<longleftrightarrow> (case a of Some x \<Rightarrow> x \<le> b | None \<Rightarrow> False)"

definition in_order :: "go_time option \<Rightarrow> go_time option \<Rightarrow> bool" where
  "in_order a b \<longleftrightarrow> (case b of Some y \<Rightarrow> before a y | None \<Rightarrow> False)"

definition reached_in_order :: "TripAggregate \<Rightarrow> bool" where
  "reached_in_order t \<longleftrightarrow> in_order (tr_StartedAt t) (tr_ReachedPickupAt t)"

definition transit_in_order :: "TripAggregate \<Rightarrow> bool" where
  "transit_in_order t \<longleftrightarrow> reached_in_order t \<and> in_order (tr_ReachedPickupAt t) (tr_InTransitAt t)"

definition delivered_in_order :: "TripAggregate \<Rightarrow> bool" where
  "delivered_in_order t \<longleftrightarrow> transit_in_order t \<and> in_order (tr_InTransitAt t) (tr_DeliveredAt t)
     \<and> tr_ArrivalTime t = tr_DeliveredAt t"

definition trip_timeline :: "TripAggregate \<Rightarrow> bool" where
  "trip_timeline t \<longleftrightarrow>
     (tr_Status t = TripStarted \<longrightarrow> before (tr_StartedAt t) (tr_UpdatedAt t))
   \<and> (tr_Status t = TripReachedPickup \<longrightarrow>
        reached_in_order t \<and> before (tr_ReachedPickupAt t) (tr_UpdatedAt t))
   \<and> (tr_Status t = TripInTransit \<longrightarrow>
        transit_in_order t \<and> before (tr_InTransitAt t) (tr_UpdatedAt t))
   \<and> (tr_Status t = TripDelivered \<longrightarrow>
        delivered_in_order t \<and> before (tr_DeliveredAt t) (tr_UpdatedAt t))
   \<and> (tr_Status t = TripCompleted \<longrightarrow>
        delivered_in_order t \<and> in_order (tr_DeliveredAt t) (tr_CompletedAt t))"

definition trip_statuses :: "TripStatus set" where
  "trip_statuses = {TripDraft, TripScheduled, TripAssigned, TripStarted, TripReachedPickup,
     TripInTransit, TripDelivered, TripCompleted, TripCancelled}"

definition trip_wf :: "TripAggregate \<Rightarrow> bool" where
  "trip_wf t \<longleftrightarrow> tr_Status t \<in> trip_statuses \<and> trip_timeline t
     \<and> (tr_VehicleID t \<noteq> None \<longrightarrow> tr_DriverID t \<noteq> None)
     \<and> (tr_Status t = TripAssigned \<longrightarrow> tr_DriverID t \<noteq> None)"

lemma trip_wf_new: "trip_wf (NewTripAggregate i tn n b r d rm now)"
  by (simp add: trip_wf_def NewTripAggregate_def TripAggregate_RecordEvent_def trip_timeline_def
      trip_statuses_def)

lemma before_mono: "before a b \<Longrightarrow> b \<le> c \<Longrightarrow> before a c"
  by (auto simp: before_def split: option.splits)

lemma before_Some [simp]: "before (Some x) y \<longleftrightarrow> x \<le> y"
  by (simp add: before_def)

lemma in_order_Some [simp]: "in_order a (Some y) \<longleftrightarrow> before a y"
  by (simp add: in_order_def)

lemma trip_apply_status:
  assumes "trip_apply c now t = Inr t'" and "tr_Status t \<in> trip_statuses"
  shows "tr_Status t' \<in> trip_statuses"
  using assms
  by (cases c) (auto simp: trip_transition_defs trip_statuses_def Let_def split: if_splits)

lemma trip_apply_assignment:
  assumes "trip_apply c now t = Inr t'" and "trip_wf t"
  shows "(tr_VehicleID t' \<noteq> None \<longrightarrow> tr_DriverID t' \<noteq> None)
     \<and> (tr_Status t' = TripAssigned \<longrightarrow> tr_DriverID t' \<noteq> None)"
  using assms
  by (cases c) (auto simp: trip_transition_defs trip_wf_def Let_def split: if_splits)

lemma trip_apply_timeline:
  assumes "trip_apply c now t = Inr t'" and "tr_UpdatedAt t \<le> now" and "trip_timeline t"
  shows "trip_timeline t'"
proof -
  note order = reached_in_order_def transit_in_order_def delivered_in_order_def
  have up: "before a (tr_UpdatedAt t) \<Longrightarrow> before a now" for a
    using before_mono assms(2) by blast
  show ?thesis
  proof (cases c)
    case (CallAssignVehicle v)
    with assms(1) have t': "tr_Status t' = tr_Status t" "tr_StartedAt t' = tr_StartedAt t"
      "tr_ReachedPickupAt t' = tr_ReachedPickupAt t" "tr_InTransitAt t' = tr_InTransitAt t"
      "tr_DeliveredAt t' = tr_DeliveredAt t" "tr_ArrivalTime t' = tr_ArrivalTime t"
      "tr_CompletedAt t' = tr_CompletedAt t" "tr_UpdatedAt t' = now"
      by (auto simp: trip_transition_defs Let_def split: if_split_asm)
    from assms(3) show ?thesis unfolding trip_timeline_def order t' by (simp add: up)
  qed (use assms(1,3) in \<open>clarsimp simp: trip_transition_defs trip_timeline_def order up
      split: if_split_asm\<close>)+
qed

lemma trip_apply_wf:
  assumes "trip_apply c now t = Inr t'" and "tr_UpdatedAt t \<le> now" and "trip_wf t"
  shows "trip_wf t'"
  using trip_apply_status [OF assms(1)] trip_apply_assignment [OF assms(1,3)]
    trip_apply_timeline [OF assms(1,2)] assms(3)
  by (simp add: trip_wf_def)

text \<open>
  Journey of a trip.  In every trip reached from a new one by method calls under a
  clock that does not run backwards, the status is one of the nine persisted ones, a vehicle is
  only ever assigned together with a driver, and a completed trip went through start, pickup,
  transit and delivery: all five timestamps are set, in this order, and the arrival time is the
  delivery time.
\<close>

theorem trip_journey:
  assumes "trip_step\<^sup>*\<^sup>* (NewTripAggregate i tn n b r d rm now) t"
  shows "tr_Status t \<in> trip_statuses
    \<and> (tr_VehicleID t \<noteq> None \<longrightarrow> tr_DriverID t \<noteq> None)
    \<and> (tr_Status t = TripCompleted \<longrightarrow>
        (\<exists>a p x y z. tr_StartedAt t = Some a \<and> tr_ReachedPickupAt t = Some p
           \<and> tr_InTransitAt t = Some x \<and> tr_DeliveredAt t = Some y \<and> tr_ArrivalTime t = Some y
           \<and> tr_CompletedAt t = Some z \<and> a \<le> p \<and> p \<le> x \<and> x \<le> y \<and> y \<le> z))"
proof -
  have "trip_wf t" using assms
  proof (induction rule: rtranclp_induct)
    case base
    show ?case by (rule trip_wf_new)
  next
    case (step y z)
    from step.hyps(2) step.IH show ?case by (auto elim!: trip_stepE intro: trip_apply_wf)
  qed
  then show ?thesis
    by (auto simp: trip_wf_def trip_timeline_def reached_in_order_def transit_in_order_def
        delivered_in_order_def in_order_def before_def split: option.splits)
qed

theorem trip_journey_witness:
  "tr_Status (NewTripAggregate ''t1'' ''1'' ''TR-1'' None ''r1'' 7 [] 5) \<in> trip_statuses"
  using trip_journey [of "''t1''" "''1''" "''TR-1''" None "''r1''" 7 "[]" 5
    "NewTripAggregate ''t1'' ''1'' ''TR-1'' None ''r1'' 7 [] 5"] by simp

text \<open>
  Reassigning a driver takes a trip that is already on the road back to
  \<open>assigned\<close>: from every status but \<open>completed\<close> and \<open>cancelled\<close> the call
  succeeds, and the milestones passed so far stay recorded although the trip has to be started
  again.
\<close>

theorem assign_driver_restarts_trip:
  assumes "tr_Status t \<in> {TripStarted, TripReachedPickup, TripInTransit, TripDelivered}"
  shows "\<exists>t'. TripAggregate_AssignDriver d now t = Inr t'
     \<and> tr_Status t' = TripAssigned \<and> tr_StartedAt t' = tr_StartedAt t
     \<and> tr_DeliveredAt t' = tr_DeliveredAt t
     \<and> (\<forall>later. TripAggregate_Complete later t' = Inl (ErrorString ''only delivered trips can be completed''))
     \<and> (\<forall>later. \<exists>t''. TripAggregate_Start later t' = Inr t'')"
  using assms by (auto simp: trip_transition_defs)

theorem assign_driver_restarts_trip_witness:
  "\<exists>t'. TripAggregate_AssignDriver ''d2'' 9
      ((NewTripAggregate ''t1'' ''1'' ''TR-1'' None ''r1'' 7 [] 5)\<lparr>tr_Status := TripDelivered\<rparr>) = Inr t'
    \<and> tr_Status t' = TripAssigned"
  using assign_driver_restarts_trip
    [of "(NewTripAggregate ''t1'' ''1'' ''TR-1'' None ''r1'' 7 [] 5)\<lparr>tr_Status := TripDelivered\<rparr>"
        "''d2''" 9]
  by auto

text \<open>
  The completion check of the trip workflow never agrees with the aggregate: it
  offers completion for \<open>started\<close> trips, on which \<open>Complete\<close> always fails, and denies
  it for \<open>delivered\<close> trips, the only ones \<open>Complete\<close> moves.
\<close>

theorem trip_workflow_CanComplete_disagrees:
  "(TripWorkflow_CanComplete (tr_Status t) \<longrightarrow>
      TripAggregate_Complete now t = Inl (ErrorString ''only delivered trips can be completed''))
   \<and> (tr_Status t = TripDelivered \<longrightarrow> \<not> TripWorkflow_CanComplete (tr_Status t)
      \<and> (\<exists>t'. TripAggregate_Complete now t = Inr t' \<and> tr_Status t' = TripCompleted))"
  by (auto simp: TripWorkflow_CanComplete_def trip_transition_defs)

theorem trip_workflow_CanComplete_disagrees_witness:
  "TripWorkflow_CanComplete TripStarted \<and>
   TripAggregate_Complete 9 ((NewTripAggregate ''t1'' ''1'' ''TR-1'' None ''r1'' 7 [] 5)\<lparr>tr_Status := TripStarted\<rparr>)
     = Inl (ErrorString ''only delivered trips can be completed'')"
  using trip_workflow_CanComplete_disagrees
    [of "(NewTripAggregate ''t1'' ''1'' ''TR-1'' None ''r1'' 7 [] 5)\<lparr>tr_Status := TripStarted\<rparr>" 9]
  by (simp add: TripWorkflow_CanComplete_def)

end
