(* ===== verification/Invoice_Aggregate.thy ===== *)
theory Invoice_Aggregate
  imports Booking_Aggregate
begin

text \<open>
  The invoice aggregate (\<open>internal/invoice/domain/aggregate\<close>): line items and totals,
  application of payments, issue and void.  All amounts are \<open>float64\<close>, as in the source.
\<close>

type_synonym InvoiceID = string
type_synonym PaymentStatus = string
type_synonym InvoiceStatus = string

definition PaymentStatusPending :: PaymentStatus where "PaymentStatusPending = ''pending''"
definition PaymentStatusPaid :: PaymentStatus where "PaymentStatusPaid = ''paid''"
definition PaymentStatusPartiallyPaid :: PaymentStatus where "PaymentStatusPartiallyPaid = ''partially_paid''"

definition InvoiceStatusDraft :: InvoiceStatus where "InvoiceStatusDraft = ''draft''"
definition InvoiceStatusIssued :: InvoiceStatus where "InvoiceStatusIssued = ''issued''"
definition InvoiceStatusOutstanding :: InvoiceStatus where "InvoiceStatusOutstanding = ''outstanding''"
definition InvoiceStatusPaid :: InvoiceStatus where "InvoiceStatusPaid = ''paid''"
definition InvoiceStatusCancelled :: InvoiceStatus where "InvoiceStatusCancelled = ''cancelled''"

lemmas payment_status_defs =
  PaymentStatusPending_def PaymentStatusPaid_def PaymentStatusPartiallyPaid_def

lemmas invoice_status_defs =
  InvoiceStatusDraft_def InvoiceStatusIssued_def InvoiceStatusOutstanding_def
  InvoiceStatusPaid_def InvoiceStatusCancelled_def

lemma payment_status_neq [simp]:
  "PaymentStatusPending \<noteq> PaymentStatusPaid"
  "PaymentStatusPending \<noteq> PaymentStatusPartiallyPaid"
  "PaymentStatusPaid \<noteq> PaymentStatusPending"
  "PaymentStatusPaid \<noteq> PaymentStatusPartiallyPaid"
  "PaymentStatusPartiallyPaid \<noteq> PaymentStatusPending"
  "PaymentStatusPartiallyPaid \<noteq> PaymentStatusPaid"
  by (simp_all add: payment_status_defs)

lemma invoice_status_neq [simp]:
  "InvoiceStatusDraft \<noteq> InvoiceStatusIssued"
  "InvoiceStatusDraft \<noteq> InvoiceStatusOutstanding"
  "InvoiceStatusDraft \<noteq> InvoiceStatusPaid"
  "InvoiceStatusDraft \<noteq> InvoiceStatusCancelled"
  "InvoiceStatusIssued \<noteq> InvoiceStatusDraft"
  "InvoiceStatusIssued \<noteq> InvoiceStatusOutstanding"
  "InvoiceStatusIssued \<noteq> InvoiceStatusPaid"
  "InvoiceStatusIssued \<noteq> InvoiceStatusCancelled"
  "InvoiceStatusOutstanding \<noteq> InvoiceStatusDraft"
  "InvoiceStatusOutstanding \<noteq> InvoiceStatusIssued"
  "InvoiceStatusOutstanding \<noteq> InvoiceStatusPaid"
  "InvoiceStatusOutstanding \<noteq> InvoiceStatusCancelled"
  "InvoiceStatusPaid \<noteq> InvoiceStatusDraft" "InvoiceStatusPaid \<noteq> InvoiceStatusIssued"
  "InvoiceStatusPaid \<noteq> InvoiceStatusOutstanding"
  "InvoiceStatusPaid \<noteq> InvoiceStatusCancelled"
  "InvoiceStatusCancelled \<noteq> InvoiceStatusDraft"
  "InvoiceStatusCancelled \<noteq> InvoiceStatusIssued"
  "InvoiceStatusCancelled \<noteq> InvoiceStatusOutstanding"
  "InvoiceStatusCancelled \<noteq> InvoiceStatusPaid"
  by (simp_all add: invoice_status_defs)

definition LineTypeFreight :: string where "LineTypeFreight = ''freight''"
definition LineTypeDetention :: string where "LineTypeDetention = ''detention''"
definition LineTypeAccessorial :: string where "LineTypeAccessorial = ''accessorial''"

record LineItem =
  li_ID :: string
  li_TenantID :: TenantID
  li_InvoiceID :: InvoiceID
  li_TripID :: "string option"
  li_LineType :: string
  li_HSNSACCode :: "string option"
  li_Description :: string
  li_Unit :: "string option"
  li_Quantity :: float64
  li_UnitPrice :: float64
  li_Rate :: float64
  li_TaxableValue :: float64
  li_CgstRate :: float64
  li_SgstRate :: float64
  li_IgstRate :: float64
  li_CgstAmount :: float64
  li_SgstAmount :: float64
  li_IgstAmount :: float64
  li_Amount :: float64
  li_Total :: float64
  li_RefID :: "string option"

datatype invoice_event =
    InvoiceGeneratedEvent InvoiceID TenantID string float64 go_time
  | InvoicePaymentUpdatedEvent InvoiceID TenantID PaymentStatus go_time
  | InvoicePaymentAppliedEvent InvoiceID TenantID float64 float64 PaymentStatus go_time
  | InvoiceIssuedEvent InvoiceID TenantID go_time go_time
  | InvoiceVoidedEvent InvoiceID TenantID go_time

record InvoiceAggregate =
  iv_ID :: InvoiceID
  iv_TenantID :: TenantID
  iv_InvoiceNumber :: string
  iv_BookingID :: string
  iv_CustomerID :: string
  iv_TripID :: "string option"
  iv_Subtotal :: float64
  iv_Tax :: float64
  iv_Cgst :: float64
  iv_Sgst :: float64
  iv_Igst :: float64
  iv_Discount :: float64
  iv_Total :: float64
  iv_PaymentStatus :: PaymentStatus
  iv_PaidAmount :: float64
  iv_Status :: InvoiceStatus
  iv_DueDate :: "go_time option"
  iv_FinancialYear :: string
  iv_CreditBalance :: float64
  iv_Remarks :: string
  iv_IRN :: "string option"
  iv_IRNAckNo :: "string option"
  iv_IRNAckDate :: "string option"
  iv_SignedQR :: "string option"
  iv_EwbNumber :: "string option"
  iv_CreatedAt :: go_time
  iv_UpdatedAt :: go_time
  iv_Version :: int
  iv_LineItems :: "LineItem list"
  iv_events :: "invoice_event list"

definition NewInvoiceAggregate ::
  "InvoiceID \<Rightarrow> TenantID \<Rightarrow> string \<Rightarrow> string \<Rightarrow> string \<Rightarrow> string option \<Rightarrow> float64 \<Rightarrow> float64 \<Rightarrow> float64
     \<Rightarrow> float64 \<Rightarrow> PaymentStatus \<Rightarrow> go_time \<Rightarrow> InvoiceAggregate" where
  "NewInvoiceAggregate i tenantID invoiceNumber bookingID customerID tripID subtotal tax discount
     total' status now =
     \<lparr>iv_ID = i, iv_TenantID = tenantID, iv_InvoiceNumber = invoiceNumber, iv_BookingID = bookingID,
      iv_CustomerID = customerID, iv_TripID = tripID, iv_Subtotal = subtotal, iv_Tax = tax,
      iv_Cgst = Fin 0, iv_Sgst = Fin 0, iv_Igst = Fin 0, iv_Discount = discount, iv_Total = total',
      iv_PaymentStatus = status, iv_PaidAmount = Fin 0, iv_Status = InvoiceStatusOutstanding,
      iv_DueDate = None, iv_FinancialYear = [], iv_CreditBalance = Fin 0, iv_Remarks = [],
      iv_IRN = None, iv_IRNAckNo = None, iv_IRNAckDate = None, iv_SignedQR = None,
      iv_EwbNumber = None, iv_CreatedAt = now, iv_UpdatedAt = now, iv_Version = 0,
      iv_LineItems = [], iv_events = [InvoiceGeneratedEvent i tenantID invoiceNumber total' now]\<rparr>"

definition RehydrateInvoiceAggregate ::
  "InvoiceID \<Rightarrow> TenantID \<Rightarrow> string \<Rightarrow> string \<Rightarrow> string \<Rightarrow> string option \<Rightarrow> float64 \<Rightarrow> float64 \<Rightarrow> float64
     \<Rightarrow> float64 \<Rightarrow> PaymentStatus \<Rightarrow> InvoiceStatus \<Rightarrow> float64 \<Rightarrow> float64 \<Rightarrow> go_time option \<Rightarrow> string
     \<Rightarrow> string \<Rightarrow> go_time \<Rightarrow> go_time \<Rightarrow> int \<Rightarrow> InvoiceAggregate" where
  "RehydrateInvoiceAggregate i tenantID invoiceNumber bookingID customerID tripID subtotal tax
     discount total' paymentStatus invoiceStatus paidAmount creditBalance dueDate financialYear
     remarks createdAt updatedAt version =
     \<lparr>iv_ID = i, iv_TenantID = tenantID, iv_InvoiceNumber = invoiceNumber, iv_BookingID = bookingID,
      iv_CustomerID = customerID, iv_TripID = tripID, iv_Subtotal = subtotal, iv_Tax = tax,
      iv_Cgst = Fin 0, iv_Sgst = Fin 0, iv_Igst = Fin 0, iv_Discount = discount, iv_Total = total',
      iv_PaymentStatus = paymentStatus, iv_PaidAmount = paidAmount, iv_Status = invoiceStatus,
      iv_DueDate = dueDate, iv_FinancialYear = financialYear, iv_CreditBalance = creditBalance,
      iv_Remarks = remarks, iv_IRN = None, iv_IRNAckNo = None, iv_IRNAckDate = None,
      iv_SignedQR = None, iv_EwbNumber = None, iv_CreatedAt = createdAt, iv_UpdatedAt = updatedAt,
      iv_Version = version, iv_LineItems = [], iv_events = []\<rparr>"

definition InvoiceAggregate_ClearEvents :: "InvoiceAggregate \<Rightarrow> InvoiceAggregate" where
  "InvoiceAggregate_ClearEvents a = a\<lparr>iv_events := []\<rparr>"

definition RoundMoney :: "float64 \<Rightarrow> float64" where
  "RoundMoney v = fdivc (math_Round (fmul v (Fin 100))) 100"

text \<open>The accumulators of the loop in \<open>RecomputeTotals\<close>.\<close>

record line_sums =
  ls_subtotal :: float64
  ls_cgst :: float64
  ls_sgst :: float64
  ls_igst :: float64
  ls_hasLineTaxes :: bool

definition add_line :: "LineItem \<Rightarrow> line_sums \<Rightarrow> line_sums" where
  "add_line li s =
     (let s = s\<lparr>ls_subtotal := fadd (ls_subtotal s) (li_Amount li)\<rparr> in
      if flt (Fin 0) (li_CgstAmount li) \<or> flt (Fin 0) (li_SgstAmount li) \<or> flt (Fin 0) (li_IgstAmount li)
      then s\<lparr>ls_hasLineTaxes := True, ls_cgst := fadd (ls_cgst s) (li_CgstAmount li),
             ls_sgst := fadd (ls_sgst s) (li_SgstAmount li),
             ls_igst := fadd (ls_igst s) (li_IgstAmount li)\<rparr>
      else s)"

definition InvoiceAggregate_RecomputeTotals :: "InvoiceAggregate \<Rightarrow> InvoiceAggregate" where
  "InvoiceAggregate_RecomputeTotals a =
     (if iv_LineItems a = [] then a
      else let s = fold add_line (iv_LineItems a)
                 \<lparr>ls_subtotal = Fin 0, ls_cgst = Fin 0, ls_sgst = Fin 0, ls_igst = Fin 0,
                  ls_hasLineTaxes = False\<rparr>;
               a = a\<lparr>iv_Subtotal := RoundMoney (ls_subtotal s)\<rparr>;
               a = (if ls_hasLineTaxes s
                    then (let c = RoundMoney (ls_cgst s); g = RoundMoney (ls_sgst s);
                              i = RoundMoney (ls_igst s)
                          in a\<lparr>iv_Cgst := c, iv_Sgst := g, iv_Igst := i,
                               iv_Tax := RoundMoney (fadd (fadd c g) i)\<rparr>)
                    else a)
           in a\<lparr>iv_Total := RoundMoney (fsub (fadd (iv_Subtotal a) (iv_Tax a)) (iv_Discount a))\<rparr>)"

definition InvoiceAggregate_AddLineItem :: "LineItem \<Rightarrow> InvoiceAggregate \<Rightarrow> InvoiceAggregate" where
  "InvoiceAggregate_AddLineItem item a =
     InvoiceAggregate_RecomputeTotals
       (a\<lparr>iv_LineItems := iv_LineItems a @ [item\<lparr>li_Amount := RoundMoney (li_Amount item)\<rparr>]\<rparr>)"

definition InvoiceAggregate_UpdatePaymentStatus ::
  "PaymentStatus \<Rightarrow> go_time \<Rightarrow> InvoiceAggregate \<Rightarrow> InvoiceAggregate result" where
  "InvoiceAggregate_UpdatePaymentStatus status now a =
     Inr (a\<lparr>iv_PaymentStatus := status, iv_UpdatedAt := now,
            iv_events := iv_events a @ [InvoicePaymentUpdatedEvent (iv_ID a) (iv_TenantID a) status now]\<rparr>)"

definition OutstandingBalance :: "InvoiceAggregate \<Rightarrow> float64" where
  "OutstandingBalance a = fsub (iv_Total a) (iv_PaidAmount a)"

definition InvoiceAggregate_ApplyPayment ::
  "float64 \<Rightarrow> go_time \<Rightarrow> InvoiceAggregate \<Rightarrow> InvoiceAggregate result" where
  "InvoiceAggregate_ApplyPayment amount now a =
     (if iv_Status a = InvoiceStatusCancelled
      then Inl (ErrorString ''cannot apply payment to cancelled invoice'')
      else
        let a = a\<lparr>iv_PaidAmount := fadd (iv_PaidAmount a) amount\<rparr>;
            outstanding = fsub (iv_Total a) (iv_PaidAmount a);
            a = (if flt outstanding (Fin 0)
                 then a\<lparr>iv_CreditBalance := fneg outstanding, iv_PaidAmount := iv_Total a,
                        iv_PaymentStatus := PaymentStatusPaid, iv_Status := InvoiceStatusPaid\<rparr>
                 else if feq outstanding (Fin 0)
                 then a\<lparr>iv_PaymentStatus := PaymentStatusPaid, iv_Status := InvoiceStatusPaid\<rparr>
                 else if flt (Fin 0) (iv_PaidAmount a)
                 then a\<lparr>iv_PaymentStatus := PaymentStatusPartiallyPaid\<rparr>
                 else a\<lparr>iv_PaymentStatus := PaymentStatusPending\<rparr>)
        in Inr (a\<lparr>iv_UpdatedAt := now,
                  iv_events := iv_events a @ [InvoicePaymentAppliedEvent (iv_ID a) (iv_TenantID a)
                    amount (iv_PaidAmount a) (iv_PaymentStatus a) now]\<rparr>))"

definition InvoiceAggregate_MarkIssued ::
  "go_time \<Rightarrow> go_time \<Rightarrow> InvoiceAggregate \<Rightarrow> InvoiceAggregate result" where
  "InvoiceAggregate_MarkIssued dueDate now a =
     (if iv_Status a \<noteq> InvoiceStatusDraft then Inl (ErrorString ''only draft invoices can be issued'')
      else Inr (a\<lparr>iv_Status := InvoiceStatusIssued, iv_DueDate := Some dueDate, iv_UpdatedAt := now,
                  iv_events := iv_events a @ [InvoiceIssuedEvent (iv_ID a) (iv_TenantID a) dueDate now]\<rparr>))"

definition InvoiceAggregate_Void :: "go_time \<Rightarrow> InvoiceAggregate \<Rightarrow> InvoiceAggregate result" where
  "InvoiceAggregate_Void now a =
     (if iv_Status a = InvoiceStatusPaid then Inl (ErrorString ''paid invoices cannot be voided'')
      else if iv_Status a = InvoiceStatusCancelled then Inl (ErrorString ''invoice already cancelled'')
      else Inr (a\<lparr>iv_Status := InvoiceStatusCancelled, iv_UpdatedAt := now,
                  iv_events := iv_events a @ [InvoiceVoidedEvent (iv_ID a) (iv_TenantID a) now]\<rparr>))"

definition ValidateInvoiceNumber :: "string \<Rightarrow> unit result" where
  "ValidateInvoiceNumber number =
     (if number = [] then Inl (ErrorString ''invoice number is required'') else Inr ())"

text \<open>\<open>InvoiceWorkflow.CanPay\<close> and \<open>PaymentWorkflow.CanProcessPayment\<close>.\<close>

definition InvoiceWorkflow_CanPay :: "PaymentStatus \<Rightarrow> bool" where
  "InvoiceWorkflow_CanPay status \<longleftrightarrow> status = PaymentStatusPending \<or> status = PaymentStatusPartiallyPaid"

definition PaymentWorkflow_CanProcessPayment :: "string \<Rightarrow> bool" where
  "PaymentWorkflow_CanProcessPayment invoiceStatus \<longleftrightarrow>
     invoiceStatus = ''pending'' \<or> invoiceStatus = ''partially_paid''"

section \<open>Line items and totals\<close>

text \<open>
  Rounding to paise is stable: an amount of up to \<open>2^50\<close> paise that went
  through \<open>RoundMoney\<close> is not changed by rounding it again.
\<close>

theorem RoundMoney_idempotent:
  assumes "v = Fin x" and "fmul v (Fin 100) = Fin y" and "\<bar>y\<bar> \<le> 2 ^ 50"
  shows "RoundMoney (RoundMoney v) = RoundMoney v"
proof -
  define n where "n = round_away y"
  have "\<bar>n\<bar> \<le> 2 ^ 50" unfolding n_def using round_away_le_int [of y "2 ^ 50"] assms(3) by simp
  note near = two_roundings_near [OF this]
  have r: "RoundMoney v = Fin (rnd_val (of_int n / 100))"
    using near by (simp add: RoundMoney_def assms(2) n_def)
  from near round_away_near [of "rnd_val (rnd_val (of_int n / 100) * 100)" n] show ?thesis
    unfolding r by (simp add: RoundMoney_def)
qed

theorem RoundMoney_idempotent_witness:
  "RoundMoney (RoundMoney (Fin 5)) = RoundMoney (Fin 5)"
  using RoundMoney_idempotent [of "Fin 5" 5 500] rnd_of_int [of 500] by simp

text \<open>
  Recomputing the totals of an invoice twice is the same as recomputing them once,
  and does not touch what has been paid, the status or the recorded events.
\<close>

theorem RecomputeTotals_idempotent:
  "InvoiceAggregate_RecomputeTotals (InvoiceAggregate_RecomputeTotals a) = InvoiceAggregate_RecomputeTotals a
   \<and> iv_PaidAmount (InvoiceAggregate_RecomputeTotals a) = iv_PaidAmount a
   \<and> iv_Status (InvoiceAggregate_RecomputeTotals a) = iv_Status a
   \<and> iv_events (InvoiceAggregate_RecomputeTotals a) = iv_events a"
  by (simp add: InvoiceAggregate_RecomputeTotals_def Let_def)

section \<open>Payments\<close>

text \<open>The three-way classification of an invoice by what has been paid of its total.\<close>

definition payment_status_of :: "rat \<Rightarrow> rat \<Rightarrow> PaymentStatus" where
  "payment_status_of paid due =
     (if paid = due then PaymentStatusPaid
      else if 0 < paid then PaymentStatusPartiallyPaid else PaymentStatusPending)"

lemma outstanding_sign:
  assumes "f64 (Fin due)" and "f64 (Fin paid)"
  shows "flt (fsub (Fin due) (Fin paid)) (Fin 0) \<longleftrightarrow> due < paid"
    and "feq (fsub (Fin due) (Fin paid)) (Fin 0) \<longleftrightarrow> due = paid"
  using rnd_flt_0 [of "due - paid"] on_grid_diff [of due paid] assms by (simp_all add: fsub_def)

lemma ApplyPayment_finite:
  assumes "iv_Status a \<noteq> InvoiceStatusCancelled"
    and "iv_Total a = Fin due" and "f64 (Fin due)"
    and "fadd (iv_PaidAmount a) amount = Fin paid" and "f64 (Fin paid)"
  shows "\<exists>a'. InvoiceAggregate_ApplyPayment amount now a = Inr a'
    \<and> iv_PaidAmount a' = Fin (min paid due)
    \<and> iv_PaymentStatus a' = payment_status_of (min paid due) due
    \<and> iv_Status a' = (if due \<le> paid then InvoiceStatusPaid else iv_Status a)
    \<and> iv_CreditBalance a' = (if due < paid then fneg (fsub (Fin due) (Fin paid)) else iv_CreditBalance a)
    \<and> iv_Total a' = iv_Total a"
proof -
  note sign = outstanding_sign [OF assms(3,5)]
  note unf = InvoiceAggregate_ApplyPayment_def Let_def payment_status_of_def
  consider "due < paid" | "due = paid" | "paid < due" "0 < paid" | "paid < due" "\<not> 0 < paid"
    by linarith
  then show ?thesis
    by cases (use sign assms(1,2,4) in \<open>simp_all add: unf\<close>)
qed

text \<open>
  Applying a payment keeps the books of the invoice consistent.  The amount paid is
  the old amount plus the payment (rounded once), capped at the total, and the payment status is
  exactly the one this amount calls for; the invoice becomes \<open>paid\<close> when and only when the
  payments reach the total, and an excess is shown as credit.  A cancelled invoice refuses payment.
\<close>

theorem ApplyPayment_balance:
  assumes "iv_Total a = Fin due" and "f64 (Fin due)"
    and "fadd (iv_PaidAmount a) amount = Fin paid" and "f64 (Fin paid)"
  shows "InvoiceAggregate_ApplyPayment amount now a =
           Inl (ErrorString ''cannot apply payment to cancelled invoice'')
           \<and> iv_Status a = InvoiceStatusCancelled
       \<or> (\<exists>a'. InvoiceAggregate_ApplyPayment amount now a = Inr a'
           \<and> iv_Status a \<noteq> InvoiceStatusCancelled
           \<and> iv_PaidAmount a' = Fin (min paid due)
           \<and> iv_PaymentStatus a' = payment_status_of (min paid due) due
           \<and> iv_Status a' = (if due \<le> paid then InvoiceStatusPaid else iv_Status a)
           \<and> iv_CreditBalance a' = (if due < paid then fneg (fsub (Fin due) (Fin paid)) else iv_CreditBalance a)
           \<and> iv_Total a' = iv_Total a)"
proof (cases "iv_Status a = InvoiceStatusCancelled")
  case True
  then show ?thesis by (simp add: InvoiceAggregate_ApplyPayment_def)
next
  case False
  from ApplyPayment_finite [OF False assms, of now] show ?thesis using False by blast
qed

theorem ApplyPayment_balance_witness:
  "InvoiceAggregate_ApplyPayment (Fin 0) 9
     (NewInvoiceAggregate ''i1'' ''1'' ''INV-1'' ''b1'' ''c1'' None (Fin 0) (Fin 0) (Fin 0) (Fin 0)
        PaymentStatusPending 5) \<noteq> Inl (ErrorString ''cannot apply payment to cancelled invoice'')"
  using ApplyPayment_balance [of "NewInvoiceAggregate ''i1'' ''1'' ''INV-1'' ''b1'' ''c1'' None
      (Fin 0) (Fin 0) (Fin 0) (Fin 0) PaymentStatusPending 5" 0 "Fin 0" 0 9]
  by (auto simp: NewInvoiceAggregate_def rnd_def)

text \<open>
  A reversal reopens the balance but not the invoice.  Applying a negative amount
  to a \<open>paid\<close> invoice makes its payment status \<open>pending\<close> or \<open>partially_paid\<close>
  again while its status stays \<open>paid\<close>, so that \<open>Void\<close> still refuses it.
\<close>

theorem reversal_leaves_status_paid:
  assumes "iv_Status a = InvoiceStatusPaid" and "iv_Total a = Fin due" and "f64 (Fin due)"
    and "fadd (iv_PaidAmount a) amount = Fin paid" and "f64 (Fin paid)" and "paid < due"
  shows "\<exists>a'. InvoiceAggregate_ApplyPayment amount now a = Inr a'
     \<and> iv_PaymentStatus a' \<in> {PaymentStatusPending, PaymentStatusPartiallyPaid}
     \<and> InvoiceWorkflow_CanPay (iv_PaymentStatus a')
     \<and> iv_Status a' = InvoiceStatusPaid
     \<and> InvoiceAggregate_Void now a' = Inl (ErrorString ''paid invoices cannot be voided'')"
proof -
  have "iv_Status a \<noteq> InvoiceStatusCancelled" using assms(1) by simp
  from ApplyPayment_finite [OF this assms(2-5), of now]
  obtain a' where a': "InvoiceAggregate_ApplyPayment amount now a = Inr a'"
    "iv_PaymentStatus a' = payment_status_of (min paid due) due"
    "iv_Status a' = (if due \<le> paid then InvoiceStatusPaid else iv_Status a)" by blast
  with assms(1,6) show ?thesis
    by (simp add: payment_status_of_def InvoiceAggregate_Void_def InvoiceWorkflow_CanPay_def)
qed

lemma one_on_grid [simp]: "on_grid 1"
proof -
  have "rnd_val (of_int 1) = of_int 1" by (rule rnd_val_of_int) simp
  with rnd_val_grid [of 1] show ?thesis by simp
qed

theorem reversal_leaves_status_paid_witness:
  "\<exists>a'. InvoiceAggregate_ApplyPayment (Fin (- 1)) 9
     ((NewInvoiceAggregate ''i1'' ''1'' ''INV-1'' ''b1'' ''c1'' None (Fin 1) (Fin 0) (Fin 0) (Fin 1)
        PaymentStatusPaid 5)\<lparr>iv_PaidAmount := Fin 1, iv_Status := InvoiceStatusPaid\<rparr>) = Inr a'
    \<and> iv_Status a' = InvoiceStatusPaid"
  using reversal_leaves_status_paid [of "(NewInvoiceAggregate ''i1'' ''1'' ''INV-1'' ''b1'' ''c1'' None
      (Fin 1) (Fin 0) (Fin 0) (Fin 1) PaymentStatusPaid 5)\<lparr>iv_PaidAmount := Fin 1,
      iv_Status := InvoiceStatusPaid\<rparr>" 1 "Fin (- 1)" 0 9]
  by (auto simp: NewInvoiceAggregate_def rnd_def)

end
