(* ===== verification/Payment_Aggregate.thy ===== *)
theory Payment_Aggregate
  imports Invoice_Aggregate
begin

text \<open>The payment aggregate (\<open>internal/payment/domain/aggregate\<close>).\<close>

type_synonym PaymentID = string
type_synonym PaymentMethod = string

definition PaymentMethodCash :: PaymentMethod where "PaymentMethodCash = ''cash''"
definition PaymentMethodUPI :: PaymentMethod where "PaymentMethodUPI = ''upi''"
definition PaymentMethodBankTransfer :: PaymentMethod where "PaymentMethodBankTransfer = ''bank_transfer''"
definition PaymentMethodCheque :: PaymentMethod where "PaymentMethodCheque = ''cheque''"
definition PaymentMethodRazorpay :: PaymentMethod where "PaymentMethodRazorpay = ''razorpay''"

lemmas payment_method_defs =
  PaymentMethodCash_def PaymentMethodUPI_def PaymentMethodBankTransfer_def PaymentMethodCheque_def
  PaymentMethodRazorpay_def

datatype payment_event = PaymentReceivedEvent PaymentID TenantID string float64 go_time

record PaymentAggregate =
  py_ID :: PaymentID
  py_TenantID :: TenantID
  py_InvoiceID :: string
  py_PaymentDate :: go_time
  py_Amount :: float64
  py_Method :: PaymentMethod
  py_Reference :: "string option"
  py_Remarks :: "string option"
  py_IdempotencyKey :: string
  py_CreatedAt :: go_time
  py_UpdatedAt :: go_time
  py_events :: "payment_event list"

definition NewPaymentAggregate ::
  "PaymentID \<Rightarrow> TenantID \<Rightarrow> string \<Rightarrow> go_time \<Rightarrow> float64 \<Rightarrow> PaymentMethod \<Rightarrow> string option \<Rightarrow> string option
     \<Rightarrow> go_time \<Rightarrow> PaymentAggregate" where
  "NewPaymentAggregate i tenantID invoiceID paymentDate amount meth reference remarks now =
     \<lparr>py_ID = i, py_TenantID = tenantID, py_InvoiceID = invoiceID, py_PaymentDate = paymentDate,
      py_Amount = amount, py_Method = meth, py_Reference = reference, py_Remarks = remarks,
      py_IdempotencyKey = [], py_CreatedAt = now, py_UpdatedAt = now,
      py_events = [PaymentReceivedEvent i tenantID invoiceID amount now]\<rparr>"

definition PaymentAggregate_ClearEvents :: "PaymentAggregate \<Rightarrow> PaymentAggregate" where
  "PaymentAggregate_ClearEvents p = p\<lparr>py_events := []\<rparr>"

end
