(* ===== verification/Fleet_Aggregates.thy ===== *)
theory Fleet_Aggregates
  imports Booking_Aggregate
begin

text \<open>
  The driver and vehicle aggregates (\<open>internal/driver/domain/aggregate\<close>,
  \<open>internal/vehicle/domain/aggregate\<close>).
\<close>

section \<open>Drivers\<close>

type_synonym DriverID = string
type_synonym DriverStatus = string

definition DriverAvailable :: DriverStatus where "DriverAvailable = ''available''"
definition DriverOnTrip :: DriverStatus where "DriverOnTrip = ''on_trip''"
definition DriverLeave :: DriverStatus where "DriverLeave = ''leave''"
definition DriverInactive :: DriverStatus where "DriverInactive = ''inactive''"

datatype driver_event =
    DriverCreatedEvent DriverID TenantID string string string go_time
  | DriverUpdatedEvent DriverID TenantID DriverStatus go_time

record DriverAggregate =
  dr_ID :: DriverID
  dr_TenantID :: TenantID
  dr_DriverDisplayID :: string
  dr_FirstName :: string
  dr_LastName :: string
  dr_Phone :: string
  dr_Email :: "string option"
  dr_Address :: "string option"
  dr_LicenseNumber :: string
  dr_LicenseExpiry :: go_time
  dr_ExperienceYears :: int
  dr_Status :: DriverStatus
  dr_EmergencyContactName :: "string option"
  dr_EmergencyContactPhone :: "string option"
  dr_Notes :: "string option"
  dr_CreatedAt :: go_time
  dr_UpdatedAt :: go_time
  dr_Version :: int
  dr_events :: "driver_event list"

definition NewDriverAggregate ::
  "DriverID \<Rightarrow> TenantID \<Rightarrow> string \<Rightarrow> string \<Rightarrow> string \<Rightarrow> string \<Rightarrow> string option \<Rightarrow> string option \<Rightarrow> string
     \<Rightarrow> go_time \<Rightarrow> int \<Rightarrow> DriverStatus \<Rightarrow> string option \<Rightarrow> string option \<Rightarrow> string option \<Rightarrow> go_time
     \<Rightarrow> DriverAggregate" where
  "NewDriverAggregate i tenantID driverDisplayID firstName lastName phone email address licenseNumber
     licenseExpiry experienceYears status emergencyContactName emergencyContactPhone notes now =
     \<lparr>dr_ID = i, dr_TenantID = tenantID, dr_DriverDisplayID = driverDisplayID,
      dr_FirstName = firstName, dr_LastName = lastName, dr_Phone = phone, dr_Email = email,
      dr_Address = address, dr_LicenseNumber = licenseNumber, dr_LicenseExpiry = licenseExpiry,
      dr_ExperienceYears = experienceYears, dr_Status = status,
      dr_EmergencyContactName = emergencyContactName,
      dr_EmergencyContactPhone = emergencyContactPhone, dr_Notes = notes, dr_CreatedAt = now,
      dr_UpdatedAt = now, dr_Version = 0,
      dr_events = [DriverCreatedEvent i tenantID driverDisplayID phone licenseNumber now]\<rparr>"

definition DriverAggregate_ClearEvents :: "DriverAggregate \<Rightarrow> DriverAggregate" where
  "DriverAggregate_ClearEvents a = a\<lparr>dr_events := []\<rparr>"

definition DriverAggregate_UpdateDetails ::
  "string \<Rightarrow> string \<Rightarrow> string \<Rightarrow> string option \<Rightarrow> string option \<Rightarrow> string \<Rightarrow> go_time \<Rightarrow> int \<Rightarrow> DriverStatus
     \<Rightarrow> string option \<Rightarrow> string option \<Rightarrow> string option \<Rightarrow> go_time \<Rightarrow> DriverAggregate \<Rightarrow> DriverAggregate result" where
  "DriverAggregate_UpdateDetails firstName lastName phone email address licenseNumber licenseExpiry
     experienceYears status emergencyContactName emergencyContactPhone notes now a =
     (if firstName = [] \<or> lastName = [] then Inl (ErrorString ''first and last name are required'')
      else if phone = [] then Inl (ErrorString ''phone number is required'')
      else Inr (a\<lparr>dr_FirstName := firstName, dr_LastName := lastName, dr_Phone := phone,
        dr_Email := email, dr_Address := address, dr_LicenseNumber := licenseNumber,
        dr_LicenseExpiry := licenseExpiry, dr_ExperienceYears := experienceYears,
        dr_Status := status, dr_EmergencyContactName := emergencyContactName,
        dr_EmergencyContactPhone := emergencyContactPhone, dr_Notes := notes, dr_UpdatedAt := now,
        dr_events := dr_events a @ [DriverUpdatedEvent (dr_ID a) (dr_TenantID a) status now]\<rparr>))"

section \<open>Vehicles\<close>

type_synonym VehicleID = string
type_synonym VehicleStatus = string
type_synonym VehicleType = string
type_synonym FuelType = string

definition VehicleAvailable :: VehicleStatus where "VehicleAvailable = ''available''"
definition VehicleRunning :: VehicleStatus where "VehicleRunning = ''running''"
definition VehicleMaintenance :: VehicleStatus where "VehicleMaintenance = ''maintenance''"
definition VehicleInactive :: VehicleStatus where "VehicleInactive = ''inactive''"

datatype vehicle_event =
    VehicleCreatedEvent VehicleID TenantID string string go_time
  | VehicleUpdatedEvent VehicleID TenantID VehicleStatus string go_time

record VehicleAggregate =
  vh_ID :: VehicleID
  vh_TenantID :: TenantID
  vh_RegistrationNumber :: string
  vh_VehicleNumber :: string
  vh_VehicleType :: VehicleType
  vh_Capacity :: int
  vh_FuelType :: FuelType
  vh_InsuranceExpiry :: go_time
  vh_FitnessExpiry :: go_time
  vh_PermitExpiry :: go_time
  vh_Status :: VehicleStatus
  vh_CurrentMileage :: "float64 option"
  vh_CreatedAt :: go_time
  vh_UpdatedAt :: go_time
  vh_Version :: int
  vh_events :: "vehicle_event list"

definition NewVehicleAggregate ::
  "VehicleID \<Rightarrow> TenantID \<Rightarrow> string \<Rightarrow> string \<Rightarrow> VehicleType \<Rightarrow> int \<Rightarrow> FuelType \<Rightarrow> go_time \<Rightarrow> go_time \<Rightarrow> go_time
     \<Rightarrow> VehicleStatus \<Rightarrow> float64 option \<Rightarrow> go_time \<Rightarrow> VehicleAggregate" where
  "NewVehicleAggregate i tenantID registrationNumber vehicleNumber vehicleType capacity fuelType
     insuranceExpiry fitnessExpiry permitExpiry status currentMileage now =
     \<lparr>vh_ID = i, vh_TenantID = tenantID, vh_RegistrationNumber = registrationNumber,
      vh_VehicleNumber = vehicleNumber, vh_VehicleType = vehicleType, vh_Capacity = capacity,
      vh_FuelType = fuelType, vh_InsuranceExpiry = insuranceExpiry,
      vh_FitnessExpiry = fitnessExpiry, vh_PermitExpiry = permitExpiry, vh_Status = status,
      vh_CurrentMileage = currentMileage, vh_CreatedAt = now, vh_UpdatedAt = now, vh_Version = 0,
      vh_events = [VehicleCreatedEvent i tenantID registrationNumber vehicleNumber now]\<rparr>"

definition VehicleAggregate_ClearEvents :: "VehicleAggregate \<Rightarrow> VehicleAggregate" where
  "VehicleAggregate_ClearEvents a = a\<lparr>vh_events := []\<rparr>"

definition VehicleAggregate_UpdateDetails ::
  "string \<Rightarrow> string \<Rightarrow> VehicleType \<Rightarrow> int \<Rightarrow> FuelType \<Rightarrow> go_time \<Rightarrow> go_time \<Rightarrow> go_time \<Rightarrow> VehicleStatus
     \<Rightarrow> float64 option \<Rightarrow> go_time \<Rightarrow> VehicleAggregate \<Rightarrow> VehicleAggregate result" where
  "VehicleAggregate_UpdateDetails registrationNumber vehicleNumber vehicleType capacity fuelType
     insuranceExpiry fitnessExpiry permitExpiry status currentMileage now a =
     (if registrationNumber = [] \<or> vehicleNumber = []
      then Inl (ErrorString ''registration and vehicle number are required'')
      else Inr (a\<lparr>vh_RegistrationNumber := registrationNumber, vh_VehicleNumber := vehicleNumber,
        vh_VehicleType := vehicleType, vh_Capacity := capacity, vh_FuelType := fuelType,
        vh_InsuranceExpiry := insuranceExpiry, vh_FitnessExpiry := fitnessExpiry,
        vh_PermitExpiry := permitExpiry, vh_Status := status, vh_CurrentMileage := currentMileage,
        vh_UpdatedAt := now,
        vh_events := vh_events a @ [VehicleUpdatedEvent (vh_ID a) (vh_TenantID a) status
          registrationNumber now]\<rparr>))"

end
