(* ===== verification/Go_Time.thy ===== *)
theory Go_Time
  imports Booking_Aggregate
begin

text \<open>
  \<open>time.Parse\<close> for the four layouts the booking use cases accept, over the proleptic
  Gregorian calendar.  A time is the number of nanoseconds since 0001-01-01T00:00:00Z, Go's zero
  time.  The parser follows package \<open>time\<close>: \<open>01\<close>, \<open>02\<close>, \<open>04\<close> and
  \<open>05\<close> take exactly two digits, \<open>15\<close> takes one or two, a space in the layout matches
  any run of spaces, and a fraction after the seconds is accepted although the layout has none.
\<close>

section \<open>Calendar\<close>

definition leap :: "int \<Rightarrow> bool" where
  "leap y \<longleftrightarrow> y mod 4 = 0 \<and> (y mod 100 \<noteq> 0 \<or> y mod 400 = 0)"

definition days_before_month :: "int list" where
  "days_before_month = [0, 31, 59, 90, 120, 151, 181, 212, 243, 273, 304, 334, 365]"

definition daysIn :: "int \<Rightarrow> int \<Rightarrow> int" where
  "daysIn m y =
     (if m = 2 \<and> leap y then 29
      else days_before_month ! nat m - days_before_month ! nat (m - 1))"

text \<open>Days from 0001-01-01 to the given date.\<close>

definition days_of_date :: "int \<Rightarrow> int \<Rightarrow> int \<Rightarrow> int" where
  "days_of_date y m d =
     (let p = y - 1 in
      365 * p + p div 4 - p div 100 + p div 400
      + days_before_month ! nat (m - 1) + (if m > 2 \<and> leap y then 1 else 0) + d - 1)"

definition second_ns :: int where
  "second_ns = 10 ^ 9"

definition time_Date :: "int \<Rightarrow> int \<Rightarrow> int \<Rightarrow> int \<Rightarrow> int \<Rightarrow> int \<Rightarrow> int \<Rightarrow> go_time" where
  "time_Date y m d hour mi sec nsec =
     ((days_of_date y m d * 24 + hour) * 3600 + mi * 60 + sec) * second_ns + nsec"

section \<open>Scanning\<close>

definition is_digit :: "char \<Rightarrow> bool" where
  "is_digit c \<longleftrightarrow> 48 \<le> (of_char c :: int) \<and> (of_char c :: int) \<le> 57"

definition digit_val :: "char \<Rightarrow> int" where
  "digit_val c = of_char c - 48"

fun digits_val :: "int \<Rightarrow> string \<Rightarrow> int" where
  "digits_val acc [] = acc"
| "digits_val acc (c # s) = digits_val (acc * 10 + digit_val c) s"

text \<open>\<open>getnum\<close>: one or two digits, exactly two when \<open>fixed\<close>.\<close>

fun getnum :: "bool \<Rightarrow> string \<Rightarrow> (int \<times> string) option" where
  "getnum fixed (a # b # s) =
     (if \<not> is_digit a then None
      else if \<not> is_digit b then (if fixed then None else Some (digit_val a, b # s))
      else Some (digit_val a * 10 + digit_val b, s))"
| "getnum fixed [a] = (if is_digit a \<and> \<not> fixed then Some (digit_val a, []) else None)"
| "getnum fixed [] = None"

definition p_year :: "string \<Rightarrow> (int \<times> string) option" where
  "p_year s =
     (if length s < 4 \<or> \<not> list_all is_digit (take 4 s) then None
      else Some (digits_val 0 (take 4 s), drop 4 s))"

definition p_char :: "char \<Rightarrow> string \<Rightarrow> string option" where
  "p_char c s = (case s of [] \<Rightarrow> None | x # r \<Rightarrow> if x = c then Some r else None)"

definition p_space :: "string \<Rightarrow> string option" where
  "p_space s =
     (if s \<noteq> [] \<and> hd s \<noteq> CHR '' '' then None else Some (dropWhile (\<lambda>c. c = CHR '' '') s))"

definition p_range :: "bool \<Rightarrow> int \<Rightarrow> int \<Rightarrow> string \<Rightarrow> (int \<times> string) option" where
  "p_range fixed lo hi s =
     (case getnum fixed s of Some (n, r) \<Rightarrow> (if lo \<le> n \<and> n \<le> hi then Some (n, r) else None)
      | None \<Rightarrow> None)"

text \<open>The fraction after the seconds, in nanoseconds; digits beyond the ninth are dropped.\<close>

definition p_fraction :: "string \<Rightarrow> int \<times> string" where
  "p_fraction s =
     (case s of
        c # a # r \<Rightarrow>
          (if (c = CHR ''.'' \<or> c = CHR '','') \<and> is_digit a
           then let ds = takeWhile is_digit (a # r); ks = take 9 ds in
             (digits_val 0 ks * 10 ^ (9 - length ks), dropWhile is_digit (a # r))
           else (0, s))
      | _ \<Rightarrow> (0, s))"

text \<open>\<open>Z07:00\<close>: \<open>Z\<close> or a signed offset, in seconds.\<close>

definition p_zone :: "string \<Rightarrow> (int \<times> string) option" where
  "p_zone s =
     (case s of
        [] \<Rightarrow> None
      | c # r \<Rightarrow>
        if c = CHR ''Z'' then Some (0, r)
        else if length s < 6 \<or> s ! 3 \<noteq> CHR '':'' then None
        else (case (getnum True (take 2 r), getnum True (take 2 (drop 3 r))) of
            (Some (hr, _), Some (mm, _)) \<Rightarrow>
              (if hr > 24 \<or> mm > 60 then None
               else let off = (hr * 60 + mm) * 60 in
                 if c = CHR ''+'' then Some (off, drop 6 s)
                 else if c = CHR ''-'' then Some (- off, drop 6 s) else None)
          | _ \<Rightarrow> None))"

text \<open>\<open>2006-01-02\<close>; the day is checked against the month last.\<close>

definition p_date :: "string \<Rightarrow> ((int \<times> int \<times> int) \<times> string) option" where
  "p_date s =
     Option.bind (p_year s) (\<lambda>(y, s1).
     Option.bind (p_char (CHR ''-'') s1) (\<lambda>s2.
     Option.bind (p_range True 1 12 s2) (\<lambda>(m, s3).
     Option.bind (p_char (CHR ''-'') s3) (\<lambda>s4.
     Option.bind (getnum True s4) (\<lambda>(d, s5). Some ((y, m, d), s5))))))"

definition date_ok :: "int \<Rightarrow> int \<Rightarrow> int \<Rightarrow> bool" where
  "date_ok y m d \<longleftrightarrow> 1 \<le> d \<and> d \<le> daysIn m y"

definition p_clock :: "bool \<Rightarrow> string \<Rightarrow> ((int \<times> int \<times> int \<times> int) \<times> string) option" where
  "p_clock secs s =
     Option.bind (p_range False 0 23 s) (\<lambda>(h, s1).
     Option.bind (p_char (CHR '':'') s1) (\<lambda>s2.
     Option.bind (p_range True 0 59 s2) (\<lambda>(mi, s3).
     if \<not> secs then Some ((h, mi, 0, 0), s3)
     else Option.bind (p_char (CHR '':'') s3) (\<lambda>s4.
       Option.bind (p_range True 0 59 s4) (\<lambda>(sec, s5).
       case p_fraction s5 of (ns, s6) \<Rightarrow> Some ((h, mi, sec, ns), s6))))))"

definition time_Parse_date :: "string \<Rightarrow> go_time option" where
  "time_Parse_date s =
     Option.bind (p_date s) (\<lambda>((y, m, d), r).
     if r = [] \<and> date_ok y m d then Some (time_Date y m d 0 0 0 0) else None)"

definition time_Parse_RFC3339 :: "string \<Rightarrow> go_time option" where
  "time_Parse_RFC3339 s =
     Option.bind (p_date s) (\<lambda>((y, m, d), r1).
     Option.bind (p_char (CHR ''T'') r1) (\<lambda>r2.
     Option.bind (p_clock True r2) (\<lambda>((h, mi, sec, ns), r3).
     Option.bind (p_zone r3) (\<lambda>(off, r4).
     if r4 = [] \<and> date_ok y m d then Some (time_Date y m d h mi sec ns - off * second_ns) else None))))"

definition time_Parse_space :: "bool \<Rightarrow> string \<Rightarrow> go_time option" where
  "time_Parse_space secs s =
     Option.bind (p_date s) (\<lambda>((y, m, d), r1).
     Option.bind (p_space r1) (\<lambda>r2.
     Option.bind (p_clock secs r2) (\<lambda>((h, mi, sec, ns), r3).
     if r3 = [] \<and> date_ok y m d then Some (time_Date y m d h mi sec ns) else None)))"

text \<open>
  The chain of layouts in \<open>CreateBookingUseCase.Execute\<close> and
  \<open>UpdateBookingUseCase.Execute\<close>.
\<close>

definition parse_pickup_date :: "string \<Rightarrow> go_time result" where
  "parse_pickup_date s =
     (case time_Parse_date s of Some t \<Rightarrow> Inr t
      | None \<Rightarrow> (case time_Parse_RFC3339 s of Some t \<Rightarrow> Inr t
      | None \<Rightarrow> (case time_Parse_space False s of Some t \<Rightarrow> Inr t
      | None \<Rightarrow> (case time_Parse_space True s of Some t \<Rightarrow> Inr t
      | None \<Rightarrow> Inl (ErrorString ''invalid pickup date format'')))))"

section \<open>Printing and parsing\<close>

definition digit_char :: "int \<Rightarrow> char" where
  "digit_char n = char_of (48 + n)"

definition fmt2 :: "int \<Rightarrow> string" where
  "fmt2 n = [digit_char (n div 10), digit_char (n mod 10)]"

definition fmt4 :: "int \<Rightarrow> string" where
  "fmt4 n = fmt2 (n div 100) @ fmt2 (n mod 100)"

definition fmt_date :: "int \<Rightarrow> int \<Rightarrow> int \<Rightarrow> string" where
  "fmt_date y m d = fmt4 y @ ''-'' @ fmt2 m @ ''-'' @ fmt2 d"

lemma of_char_digit_char: "0 \<le> n \<Longrightarrow> n \<le> 9 \<Longrightarrow> of_char (digit_char n) = 48 + n"
  unfolding digit_char_def by (simp add: of_char_of take_bit_eq_mod)

lemma is_digit_digit_char [simp]: "0 \<le> n \<Longrightarrow> n \<le> 9 \<Longrightarrow> is_digit (digit_char n)"
  by (simp add: is_digit_def of_char_digit_char)

lemma digit_val_digit_char [simp]: "0 \<le> n \<Longrightarrow> n \<le> 9 \<Longrightarrow> digit_val (digit_char n) = n"
  by (simp add: digit_val_def of_char_digit_char)

lemma two_digits: "0 \<le> n \<Longrightarrow> n \<le> 99 \<Longrightarrow> 0 \<le> n div 10 \<and> n div 10 \<le> 9 \<and> 0 \<le> n mod 10 \<and> n mod 10 \<le> (9::int)"
  by auto

lemma getnum_fmt2: "0 \<le> n \<Longrightarrow> n \<le> 99 \<Longrightarrow> getnum fixed (fmt2 n @ s) = Some (n, s)"
  using two_digits [of n] by (simp add: fmt2_def)

lemma p_year_fmt4:
  assumes "0 \<le> n" and "n \<le> 9999"
  shows "p_year (fmt4 n @ s) = Some (n, s)"
proof -
  have a: "0 \<le> n div 100" "n div 100 \<le> 99" and b: "0 \<le> n mod 100" "n mod 100 \<le> 99"
    using assms by auto
  note d = two_digits [OF a] two_digits [OF b]
  have "((n div 100 div 10 * 10 + n div 100 mod 10) * 10 + n mod 100 div 10) * 10 + n mod 100 mod 10 = n"
    by simp
  with d show ?thesis by (simp add: p_year_def fmt4_def fmt2_def)
qed

lemma p_date_fmt:
  assumes "0 \<le> y" "y \<le> 9999" and "1 \<le> m" "m \<le> 12" and "0 \<le> d" "d \<le> 99"
  shows "p_date (fmt_date y m d @ s) = Some ((y, m, d), s)"
  using assms
  by (simp add: p_date_def fmt_date_def p_year_fmt4 p_char_def p_range_def getnum_fmt2)

text \<open>
  Every calendar date of the years 0 to 9999, written as \<open>yyyy-mm-dd\<close>, is
  accepted as a pickup date and denotes midnight UTC of that day.
\<close>

theorem parse_pickup_date_fmt:
  assumes "0 \<le> y" "y \<le> 9999" and "1 \<le> m" "m \<le> 12" and "1 \<le> d" "d \<le> daysIn m y"
  shows "parse_pickup_date (fmt_date y m d) = Inr (days_of_date y m d * 24 * 3600 * second_ns)"
proof -
  have "m \<in> {1, 2, 3, 4, 5, 6, 7, 8, 9, 10, 11, 12}" using assms(3,4) by simp presburger
  then have "daysIn m y \<le> 31" by (auto simp: daysIn_def days_before_month_def)
  with assms(6) have "d \<le> 99" by linarith
  with p_date_fmt [of y m d "[]"] assms have "p_date (fmt_date y m d) = Some ((y, m, d), [])" by simp
  with assms show ?thesis
    by (simp add: parse_pickup_date_def time_Parse_date_def date_ok_def time_Date_def)
qed

theorem parse_pickup_date_fmt_witness:
  "parse_pickup_date ''2024-02-29'' = Inr (738944 * 24 * 3600 * second_ns)"
proof -
  have f: "fmt_date 2024 2 29 = ''2024-02-29''" by (simp add: fmt_date_def fmt4_def fmt2_def digit_char_def) code_simp
  have "days_of_date 2024 2 29 = 738944"
    by (simp add: days_of_date_def days_before_month_def leap_def)
  with parse_pickup_date_fmt [of 2024 2 29] f show ?thesis
    by (simp add: daysIn_def leap_def)
qed

end
