(* ===== verification/Geo.thy ===== *)
theory Geo
  imports Go_Time
begin

text \<open>
  The domain of geofences (\<open>internal/geofence/domain\<close>): the even-odd rule on a ring, distances,
  zones with their two tests, engine states and fixes.  The trigonometric functions, the square
  root and \<open>Hypot\<close> of package \<open>math\<close> are a parameter; products and sums are rounded one
  by one, as on a processor without fused operations.
\<close>

section \<open>Package math\<close>

record math_funs =
  m_Sin :: "float64 \<Rightarrow> float64"
  m_Cos :: "float64 \<Rightarrow> float64"
  m_Atan2 :: "float64 \<Rightarrow> float64 \<Rightarrow> float64"
  m_Sqrt :: "float64 \<Rightarrow> float64"
  m_Hypot :: "float64 \<Rightarrow> float64 \<Rightarrow> float64"

definition math_Pi :: float64 where
  "math_Pi = Fin (884279719003555 / 281474976710656)"

definition MaxFloat64 :: float64 where
  "MaxFloat64 = Fin ((2 ^ 53 - 1) * 2 ^ 971)"

definition math_Min :: "float64 \<Rightarrow> float64 \<Rightarrow> float64" where
  "math_Min x y =
     (if x = NInf \<or> y = NInf then NInf else if x = NaN \<or> y = NaN then NaN else if flt x y then x else y)"

definition math_Max :: "float64 \<Rightarrow> float64 \<Rightarrow> float64" where
  "math_Max x y =
     (if x = PInf \<or> y = PInf then PInf else if x = NaN \<or> y = NaN then NaN else if flt y x then x else y)"

text \<open>
  Division.  A zero divisor counts as the positive zero: the only divisors here are a difference of
  two distinct latitudes and a sum of squares.
\<close>

fun fdiv :: "float64 \<Rightarrow> float64 \<Rightarrow> float64" where
  "fdiv (Fin x) (Fin y) = (if y = 0 then inf_sgn x else rnd (x / y))"
| "fdiv NaN _ = NaN"
| "fdiv _ NaN = NaN"
| "fdiv (Fin x) _ = Fin 0"
| "fdiv PInf (Fin y) = inf_sgn (if y = 0 then 1 else y)"
| "fdiv NInf (Fin y) = inf_sgn (if y = 0 then - 1 else - y)"
| "fdiv _ _ = NaN"

lemma MaxFloat64_code [code]: "MaxFloat64 = Fin (of_int (9007199254740991 * two_pow 971))"
  by (simp add: MaxFloat64_def two_pow)

section \<open>Points and rings\<close>

record Point =
  pt_Lat :: float64
  pt_Lng :: float64

text \<open>\<open>==\<close> on points.\<close>

definition point_eq :: "Point \<Rightarrow> Point \<Rightarrow> bool" where
  "point_eq a b \<longleftrightarrow> feq (pt_Lat a) (pt_Lat b) \<and> feq (pt_Lng a) (pt_Lng b)"

definition EarthRadiusM :: rat where
  "EarthRadiusM = 6371000"

definition Haversine :: "math_funs \<Rightarrow> float64 \<Rightarrow> float64 \<Rightarrow> float64 \<Rightarrow> float64 \<Rightarrow> float64" where
  "Haversine m lat1 lng1 lat2 lng2 =
     (let lat1r = fdivc (fmul lat1 math_Pi) 180;
          lat2r = fdivc (fmul lat2 math_Pi) 180;
          dLat = fdivc (fmul (fsub lat2 lat1) math_Pi) 180;
          dLng = fdivc (fmul (fsub lng2 lng1) math_Pi) 180;
          a = fadd (fmul (m_Sin m (fdivc dLat 2)) (m_Sin m (fdivc dLat 2)))
                (fmul (fmul (fmul (m_Cos m lat1r) (m_Cos m lat2r)) (m_Sin m (fdivc dLng 2))) (m_Sin m (fdivc dLng 2)))
      in fmul (Fin (EarthRadiusM * 2)) (m_Atan2 m (m_Sqrt m a) (m_Sqrt m (fsub (Fin 1) a))))"

definition onSegment :: "Point \<Rightarrow> Point \<Rightarrow> Point \<Rightarrow> float64 \<Rightarrow> bool" where
  "onSegment a b c eps =
     (let cross = fsub (fmul (fsub (pt_Lat c) (pt_Lat a)) (fsub (pt_Lng b) (pt_Lng a)))
                    (fmul (fsub (pt_Lng c) (pt_Lng a)) (fsub (pt_Lat b) (pt_Lat a))) in
      if flt eps (fabs cross) then False
      else if flt (pt_Lat c) (fsub (math_Min (pt_Lat a) (pt_Lat b)) eps)
            \<or> flt (fadd (math_Max (pt_Lat a) (pt_Lat b)) eps) (pt_Lat c) then False
      else if flt (pt_Lng c) (fsub (math_Min (pt_Lng a) (pt_Lng b)) eps)
            \<or> flt (fadd (math_Max (pt_Lng a) (pt_Lng b)) eps) (pt_Lng c) then False
      else True)"

definition ring_eps :: float64 where
  "ring_eps = rnd (1 / 10 ^ 9)"

lemma ring_eps_code [code]: "ring_eps = Fin (Fract 4835703278458517 4835703278458516698824704)"
  unfolding ring_eps_def by code_simp

text \<open>Does the ray to the east of the point cross the edge?\<close>

definition crosses :: "Point \<Rightarrow> Point \<Rightarrow> Point \<Rightarrow> bool" where
  "crosses p a b \<longleftrightarrow>
     flt (pt_Lat p) (pt_Lat a) \<noteq> flt (pt_Lat p) (pt_Lat b)
     \<and> flt (pt_Lng p) (fadd (pt_Lng a)
         (fdiv (fmul (fsub (pt_Lat p) (pt_Lat a)) (fsub (pt_Lng b) (pt_Lng a))) (fsub (pt_Lat b) (pt_Lat a))))"

text \<open>The loop over the edges, with its early return.\<close>

primrec ray_loop :: "Point \<Rightarrow> Point list \<Rightarrow> nat \<Rightarrow> bool \<Rightarrow> nat list \<Rightarrow> bool" where
  "ray_loop p ring n inside [] = inside"
| "ray_loop p ring n inside (i # is) =
     (let a = ring ! i; b = ring ! ((i + 1) mod n) in
      if onSegment a b p ring_eps then True
      else ray_loop p ring n (if crosses p a b then \<not> inside else inside) is)"

text \<open>The number of vertices without a closing point that repeats the first.\<close>

definition ring_size :: "Point list \<Rightarrow> nat" where
  "ring_size ring = (if point_eq (ring ! 0) (ring ! (length ring - 1)) then length ring - 1 else length ring)"

definition PointInPolygon :: "float64 \<Rightarrow> float64 \<Rightarrow> Point list \<Rightarrow> bool" where
  "PointInPolygon lat lng ring =
     (if length ring < 3 then False
      else (let n = ring_size ring in
        if n < 3 then False
        else ray_loop \<lparr>pt_Lat = lat, pt_Lng = lng\<rparr> ring n False [0..<n]))"

section \<open>Distances\<close>

definition equirectM :: "math_funs \<Rightarrow> float64 \<Rightarrow> float64 \<Rightarrow> float64 \<Rightarrow> float64 \<times> float64" where
  "equirectM m lat lng anchorLat =
     (let latScale = Fin 111320;
          lngScale = fmul (Fin 111320) (m_Cos m (fdivc (fmul anchorLat math_Pi) 180))
      in (fmul lng lngScale, fmul lat latScale))"

definition PointToSegmentDistance :: "math_funs \<Rightarrow> Point \<Rightarrow> Point \<Rightarrow> Point \<Rightarrow> float64" where
  "PointToSegmentDistance m p a b =
     (let (ax, ay) = equirectM m (pt_Lat a) (pt_Lng a) (pt_Lat p);
          (bx, b_y) = equirectM m (pt_Lat b) (pt_Lng b) (pt_Lat p);
          (px, py) = equirectM m (pt_Lat p) (pt_Lng p) (pt_Lat p);
          dx = fsub bx ax; dy = fsub b_y ay in
      if feq dx (Fin 0) \<and> feq dy (Fin 0) then m_Hypot m (fsub px ax) (fsub py ay)
      else (let t = fdiv (fadd (fmul (fsub px ax) dx) (fmul (fsub py ay) dy)) (fadd (fmul dx dx) (fmul dy dy)) in
        if flt t (Fin 0) then m_Hypot m (fsub px ax) (fsub py ay)
        else if flt (Fin 1) t then m_Hypot m (fsub px bx) (fsub py b_y)
        else m_Hypot m (fsub px (fadd ax (fmul t dx))) (fsub py (fadd ay (fmul t dy)))))"

definition PointToPolygonDistance :: "math_funs \<Rightarrow> Point \<Rightarrow> Point list \<Rightarrow> float64" where
  "PointToPolygonDistance m p ring =
     (if PointInPolygon (pt_Lat p) (pt_Lng p) ring then Fin 0
      else if length ring < 2 then MaxFloat64
      else (let n = ring_size ring in
        foldl (\<lambda>minDist i. let d = PointToSegmentDistance m p (ring ! i) (ring ! ((i + 1) mod n)) in
                 if flt d minDist then d else minDist) MaxFloat64 [0..<n]))"

definition CircleContains :: "math_funs \<Rightarrow> float64 \<Rightarrow> float64 \<Rightarrow> float64 \<Rightarrow> float64 \<Rightarrow> float64 \<Rightarrow> bool" where
  "CircleContains m centerLat centerLng radiusM lat lng = fle (Haversine m centerLat centerLng lat lng) radiusM"

section \<open>Zones\<close>

definition KindPickup :: string where "KindPickup = ''pickup''"
definition KindDrop :: string where "KindDrop = ''drop''"
definition KindDepot :: string where "KindDepot = ''depot''"
definition KindRestricted :: string where "KindRestricted = ''restricted''"
definition KindNoEntry :: string where "KindNoEntry = ''no_entry''"
definition ShapeCircle :: string where "ShapeCircle = ''circle''"
definition ShapePolygon :: string where "ShapePolygon = ''polygon''"

record Geofence =
  gf_ID :: string
  gf_TenantID :: string
  gf_Name :: string
  gf_Kind :: string
  gf_Shape :: string
  gf_CenterLat :: float64
  gf_CenterLng :: float64
  gf_RadiusM :: float64
  gf_Polygon :: "Point list"
  gf_RouteName :: string
  gf_Priority :: int
  gf_IsActive :: bool
  gf_CreatedBy :: "string option"
  gf_CreatedAt :: go_time
  gf_UpdatedAt :: go_time

text \<open>The text of the polygon column: an array of arrays of numbers, or text that is none.\<close>

datatype polygon_text = Coords "float64 list list" | NoCoords string

definition PolygonFromJSON :: "polygon_text \<Rightarrow> Point list result" where
  "PolygonFromJSON raw =
     (case raw of
        NoCoords s \<Rightarrow> Inl (ErrorString ''parse polygon'')
      | Coords coords \<Rightarrow>
          if \<exists>c\<in>set coords. length c < 2 then Inl (ErrorString ''polygon point needs [lat,lng]'')
          else Inr (map (\<lambda>c. \<lparr>pt_Lat = c ! 0, pt_Lng = c ! 1\<rparr>) coords))"

definition PolygonJSON :: "Point list \<Rightarrow> polygon_text result" where
  "PolygonJSON pts =
     (if \<exists>p\<in>set pts. \<not> isFinite (pt_Lat p) \<or> \<not> isFinite (pt_Lng p) then Inl (ErrorString ''serialize polygon'')
      else Inr (Coords (map (\<lambda>p. [pt_Lat p, pt_Lng p]) pts)))"

definition ContainsEntry :: "math_funs \<Rightarrow> Geofence \<Rightarrow> float64 \<Rightarrow> float64 \<Rightarrow> float64 \<Rightarrow> bool" where
  "ContainsEntry m g lat lng bufferM =
     (if gf_Shape g = ShapeCircle then
        (let r = fadd (gf_RadiusM g) bufferM in
         flt (Fin 0) r \<and> CircleContains m (gf_CenterLat g) (gf_CenterLng g) r lat lng)
      else if gf_Shape g = ShapePolygon then
        PointInPolygon lat lng (gf_Polygon g)
        \<or> fle (PointToPolygonDistance m \<lparr>pt_Lat = lat, pt_Lng = lng\<rparr> (gf_Polygon g)) bufferM
      else False)"

definition ContainsExit :: "math_funs \<Rightarrow> Geofence \<Rightarrow> float64 \<Rightarrow> float64 \<Rightarrow> float64 \<Rightarrow> bool" where
  "ContainsExit m g lat lng hysteresisM =
     (if gf_Shape g = ShapeCircle then
        (let r = fsub (gf_RadiusM g) hysteresisM in
         flt (Fin 0) r \<and> CircleContains m (gf_CenterLat g) (gf_CenterLng g) r lat lng)
      else if gf_Shape g = ShapePolygon then
        (if \<not> PointInPolygon lat lng (gf_Polygon g) then False
         else flt hysteresisM (PointToPolygonDistance m \<lparr>pt_Lat = lat, pt_Lng = lng\<rparr> (gf_Polygon g)))
      else False)"

section \<open>States, fixes and detentions\<close>

definition StateOutside :: string where "StateOutside = ''outside''"
definition StateEntering :: string where "StateEntering = ''entering''"
definition StateInside :: string where "StateInside = ''inside''"
definition StateLeaving :: string where "StateLeaving = ''leaving''"
definition EventEntering :: string where "EventEntering = ''entering''"
definition EventLeaving :: string where "EventLeaving = ''leaving''"
definition EventBreach :: string where "EventBreach = ''breach''"
definition DetentionOpen :: string where "DetentionOpen = ''open''"
definition DetentionClosed :: string where "DetentionClosed = ''closed''"
definition DetentionAttached :: string where "DetentionAttached = ''attached''"
definition DetentionInvoiced :: string where "DetentionInvoiced = ''invoiced''"
definition DetentionWaived :: string where "DetentionWaived = ''waived''"

lemmas engine_names = StateOutside_def StateEntering_def StateInside_def StateLeaving_def
  EventEntering_def EventLeaving_def EventBreach_def

lemmas detention_names = DetentionOpen_def DetentionClosed_def DetentionAttached_def DetentionInvoiced_def DetentionWaived_def

record Fix =
  fx_VehicleID :: string
  fx_TripID :: "string option"
  fx_Timestamp :: go_time
  fx_Latitude :: float64
  fx_Longitude :: float64
  fx_Speed :: float64

record EngineState =
  es_VehicleID :: string
  es_TenantID :: string
  es_State :: string
  es_TripID :: "string option"
  es_GeofenceID :: "string option"
  es_ZoneKind :: "string option"
  es_ZoneEnteredAt :: "go_time option"
  es_ConfirmedAt :: "go_time option"
  es_ExitStartedAt :: "go_time option"
  es_LastFixAt :: go_time
  es_LastLat :: float64
  es_LastLng :: float64
  es_UpdatedAt :: go_time

section \<open>The even-odd rule\<close>

text \<open>The reference: on an edge, or an odd number of edges crossed.\<close>

definition ring_edges :: "Point list \<Rightarrow> (Point \<times> Point) list" where
  "ring_edges ps = zip ps (rotate1 ps)"

definition even_odd :: "Point \<Rightarrow> Point list \<Rightarrow> bool" where
  "even_odd p ps \<longleftrightarrow>
     (\<exists>(a, b)\<in>set (ring_edges ps). onSegment a b p ring_eps)
     \<or> odd (length (filter (\<lambda>(a, b). crosses p a b) (ring_edges ps)))"

text \<open>The vertices without the closing point.\<close>

definition open_ring :: "Point list \<Rightarrow> Point list" where
  "open_ring ring = take (ring_size ring) ring"

lemma ray_loop_even_odd:
  "ray_loop p ring n inside is \<longleftrightarrow>
     (\<exists>i\<in>set is. onSegment (ring ! i) (ring ! ((i + 1) mod n)) p ring_eps)
     \<or> (odd (length (filter (\<lambda>i. crosses p (ring ! i) (ring ! ((i + 1) mod n))) is)) \<noteq> inside)"
  by (induction "is" arbitrary: inside) (auto simp: Let_def)

lemma ring_edges_nth: "ring_edges ps = map (\<lambda>i. (ps ! i, ps ! ((i + 1) mod length ps))) [0..<length ps]"
  by (rule nth_equalityI) (simp_all add: ring_edges_def nth_rotate1)

lemma ring_size_le: "ring_size ring \<le> length ring"
  by (simp add: ring_size_def)

lemma open_ring_edges:
  "ring_edges (open_ring ring) = map (\<lambda>i. (ring ! i, ring ! ((i + 1) mod ring_size ring))) [0..<ring_size ring]"
proof (cases "ring_size ring = 0")
  case False
  then have "0 < ring_size ring" by simp
  then show ?thesis
    using ring_size_le [of ring] by (auto simp: ring_edges_nth open_ring_def)
qed (simp add: open_ring_def ring_edges_def)


end
