(* ===== verification/Store.thy ===== *)
theory Store
  imports Trip_Aggregate Payment_Aggregate Fleet_Aggregates Geo
begin

text \<open>
  The database the services run on and the environment they run in.  A table is the list of its
  rows; the rows carry the columns the modelled queries touch (schema: \<open>db/migrations\<close>).  A
  statement is a function on the database that returns a constraint failure or a result and the
  new contents.  The world adds what the code gets from outside: the clock, the UUID source, the
  outcome of each database operation (any of them may fail), the result of out-of-range
  float-to-integer conversions, whether foreign keys are enforced on the connection, and the
  values of the request context.
\<close>

section \<open>JSON values\<close>

text \<open>
  A JSON text stored in a column is represented by the value it denotes.  A \<open>time.Time\<close>
  is rendered in RFC 3339 and only for years 0 to 9999; infinities and NaN cannot be rendered.
  \<open>JMalformed\<close> is a text that is not JSON; no value is rendered as one.
\<close>

datatype json =
    JString string
  | JNumber float64
  | JTime go_time
  | JObject "(string \<times> json) list"
  | JMalformed string

definition day_ns :: int where
  "day_ns = 86400 * 10 ^ 9"

definition json_time_ok :: "go_time \<Rightarrow> bool" where
  "json_time_ok t \<longleftrightarrow> - 366 * day_ns \<le> t \<and> t < 3652059 * day_ns"

fun json_ok :: "json \<Rightarrow> bool" where
  "json_ok (JString s) = True"
| "json_ok (JNumber x) = isFinite x"
| "json_ok (JTime t) = json_time_ok t"
| "json_ok (JObject fs) = (\<forall>(k, v)\<in>set fs. json_ok v)"
| "json_ok (JMalformed s) = False"

section \<open>Rows\<close>

record customer_row =
  cu_id :: string
  cu_name :: string
  cu_company :: "string option"

record route_row =
  ro_id :: string
  ro_source :: string
  ro_destination :: string

record booking_row =
  br_id :: string
  br_booking_number :: string
  br_customer_id :: string
  br_pickup_date :: go_time
  br_route_id :: string
  br_vehicle_type :: string
  br_passengers :: int
  br_cargo_weight :: "float64 option"
  br_price :: float64
  br_notes :: "string option"
  br_status :: string
  br_tenant_id :: string
  br_version :: int
  br_created_at :: go_time
  br_updated_at :: go_time

record trip_row =
  tw_id :: string
  tw_trip_number :: string
  tw_booking_id :: "string option"
  tw_driver_id :: "string option"
  tw_vehicle_id :: "string option"
  tw_route_id :: string
  tw_departure_time :: go_time
  tw_arrival_time :: "go_time option"
  tw_status :: string
  tw_remarks :: "string option"
  tw_tenant_id :: string
  tw_version :: int
  tw_created_at :: go_time
  tw_updated_at :: go_time
  tw_started_at :: "go_time option"
  tw_reached_pickup_at :: "go_time option"
  tw_in_transit_at :: "go_time option"
  tw_delivered_at :: "go_time option"
  tw_completed_at :: "go_time option"

record driver_row =
  dw_id :: string
  dw_driver_id :: string
  dw_first_name :: string
  dw_last_name :: string
  dw_phone :: string
  dw_email :: "string option"
  dw_address :: "string option"
  dw_license_number :: string
  dw_license_expiry :: go_time
  dw_experience_years :: int
  dw_status :: string
  dw_emergency_contact_name :: "string option"
  dw_emergency_contact_phone :: "string option"
  dw_notes :: "string option"
  dw_tenant_id :: string
  dw_created_at :: go_time
  dw_updated_at :: go_time

record vehicle_row =
  vw_id :: string
  vw_registration_number :: string
  vw_vehicle_number :: string
  vw_vehicle_type :: string
  vw_capacity :: int
  vw_fuel_type :: string
  vw_insurance_expiry :: go_time
  vw_fitness_expiry :: go_time
  vw_permit_expiry :: go_time
  vw_status :: string
  vw_current_mileage :: "float64 option"
  vw_tenant_id :: string
  vw_created_at :: go_time
  vw_updated_at :: go_time
  vw_puc_expiry :: "go_time option"
  vw_maintenance_due :: "string option"
  vw_maintenance_override_by :: "string option"
  vw_maintenance_override_at :: "go_time option"

record invoice_row =
  ir_id :: string
  ir_invoice_number :: string
  ir_booking_id :: string
  ir_customer_id :: string
  ir_trip_id :: "string option"
  ir_subtotal :: float64
  ir_tax :: float64
  ir_cgst :: float64
  ir_sgst :: float64
  ir_igst :: float64
  ir_discount :: float64
  ir_total :: float64
  ir_payment_status :: string
  ir_paid_amount :: float64
  ir_status :: string
  ir_due_date :: "go_time option"
  ir_irn :: "string option"
  ir_irn_ack_no :: "string option"
  ir_irn_ack_date :: "string option"
  ir_signed_qr :: "string option"
  ir_ewb_number :: "string option"
  ir_tenant_id :: string
  ir_version :: int
  ir_created_at :: go_time
  ir_updated_at :: go_time

record payment_row =
  pw_id :: string
  pw_invoice_id :: string
  pw_payment_date :: go_time
  pw_amount :: float64
  pw_method :: string
  pw_reference :: "string option"
  pw_remarks :: "string option"
  pw_tenant_id :: string
  pw_idempotency_key :: "string option"
  pw_razorpay_order_id :: "string option"
  pw_razorpay_payment_id :: "string option"
  pw_razorpay_signature :: "string option"
  pw_webhook_event_id :: "string option"
  pw_created_at :: go_time
  pw_updated_at :: go_time

record outbox_row =
  ob_id :: string
  ob_aggregate_id :: string
  ob_aggregate_type :: string
  ob_event_type :: string
  ob_payload :: json
  ob_created_at :: go_time
  ob_published_at :: "go_time option"

record audit_row =
  au_id :: string
  au_user_id :: "string option"
  au_action :: string
  au_table_name :: string
  au_record_id :: "string option"
  au_old_values :: "json option"
  au_new_values :: "json option"
  au_ip_address :: "string option"
  au_created_at :: go_time

record exemption_row =
  ex_id :: string
  ex_entity_type :: string
  ex_entity_id :: string
  ex_doc_type :: string
  ex_exempt_until :: go_time

record dtc_row =
  dt_vehicle_id :: string
  dt_dtc_code :: string
  dt_severity :: string
  dt_occurred_at :: go_time
  dt_resolved_at :: "go_time option"

record company_settings_row =
  cs_gst_enabled :: bool
  cs_gst_rate :: float64

record geofence_row =
  gw_id :: string
  gw_tenant_id :: string
  gw_name :: string
  gw_kind :: string
  gw_shape :: string
  gw_center_lat :: "float64 option"
  gw_center_lng :: "float64 option"
  gw_radius_m :: "float64 option"
  gw_polygon :: "polygon_text option"
  gw_route_name :: "string option"
  gw_priority :: int
  gw_is_active :: int
  gw_created_by :: "string option"
  gw_created_at :: go_time
  gw_updated_at :: go_time

record geofence_event_row =
  gv_id :: string
  gv_tenant_id :: string
  gv_vehicle_id :: "string option"
  gv_trip_id :: "string option"
  gv_geofence_id :: "string option"
  gv_zone_kind :: "string option"
  gv_event_type :: string
  gv_alert_type :: "string option"
  gv_severity :: "string option"
  gv_latitude :: "float64 option"
  gv_longitude :: "float64 option"
  gv_details :: "string option"
  gv_created_at :: go_time

record detention_row =
  dn_id :: string
  dn_tenant_id :: string
  dn_trip_id :: string
  dn_vehicle_id :: "string option"
  dn_geofence_id :: "string option"
  dn_zone_kind :: string
  dn_entered_at :: go_time
  dn_exited_at :: "go_time option"
  dn_dwell_seconds :: int
  dn_free_seconds :: int
  dn_billable_seconds :: int
  dn_rate_per_hour :: float64
  dn_amount :: float64
  dn_status :: string
  dn_updated_at :: go_time

record snapshot_row =
  sn_vehicle_id :: "string option"
  sn_trip_id :: "string option"
  sn_timestamp :: go_time
  sn_latitude :: "float64 option"
  sn_longitude :: "float64 option"
  sn_speed :: "float64 option"

record database =
  db_users :: "string list"
  db_customers :: "customer_row list"
  db_routes :: "route_row list"
  db_bookings :: "booking_row list"
  db_trips :: "trip_row list"
  db_drivers :: "driver_row list"
  db_vehicles :: "vehicle_row list"
  db_invoices :: "invoice_row list"
  db_invoice_line_items :: "LineItem list"
  db_payments :: "payment_row list"
  db_outbox_events :: "outbox_row list"
  db_audit_logs :: "audit_row list"
  db_compliance_exemptions :: "exemption_row list"
  db_dtc_events :: "dtc_row list"
  db_hsn_sac_master :: "string list"
  db_company_settings :: "company_settings_row option"
  db_geofences :: "geofence_row list"
  db_vehicle_geofences :: "(string \<times> string) list"
  db_geofence_events :: "geofence_event_row list"
  db_engine_state :: "EngineState list"
  db_trip_detentions :: "detention_row list"
  db_telemetry_snapshots :: "snapshot_row list"
  db_company_config :: "(string \<times> string \<times> string) list"

text \<open>
  The tables the dispatch checks write through the connection pool, outside the transaction of
  the use case: they keep their rows when that transaction is rolled back.
\<close>

record compliance_check_row =
  ck_id :: string
  ck_entity_type :: string
  ck_entity_id :: string
  ck_check_type :: string
  ck_status :: string
  ck_details :: string
  ck_created_at :: go_time

record dispatch_override_row =
  ov_id :: string
  ov_tenant_id :: string
  ov_trip_id :: string
  ov_vehicle_id :: string
  ov_driver_id :: string
  ov_blocked_by :: string
  ov_reason :: string
  ov_overridden_by :: string
  ov_created_at :: go_time

record side_tables =
  sd_compliance_checks :: "compliance_check_row list"
  sd_dispatch_overrides :: "dispatch_override_row list"

section \<open>World and primitive operations\<close>

record env =
  env_fault :: "nat \<Rightarrow> goerr option"
  env_clk :: "nat \<Rightarrow> go_time"
  env_uuid :: "nat \<Rightarrow> string"
  env_oor :: "float64 \<Rightarrow> int"
  env_fk :: bool
  env_ctx :: context_values

record world =
  w_db :: database
  w_side :: side_tables
  w_nop :: nat
  w_nclk :: nat
  w_nuuid :: nat
  w_env :: env

type_synonym 'a wact = "(world, 'a) act"
type_synonym 'a query = "bool \<Rightarrow> go_time \<Rightarrow> database \<Rightarrow> ('a \<times> database) result"

definition trunc_second :: "go_time \<Rightarrow> go_time" where
  "trunc_second t = t - t mod 10 ^ 9"

definition time_Truncate :: "go_time \<Rightarrow> int \<Rightarrow> go_time" where
  "time_Truncate t d = t - t mod d"

definition time_IsZero :: "go_time \<Rightarrow> bool" where
  "time_IsZero t \<longleftrightarrow> t = 0"

text \<open>
  One SQL statement: it may fail for reasons of the driver, and \<open>datetime('now')\<close> inside it
  is the time of the statement in whole seconds.
\<close>

definition stmt :: "'a query \<Rightarrow> 'a wact" where
  "stmt q = (\<lambda>w.
     let e = w_env w; w1 = w\<lparr>w_nop := Suc (w_nop w), w_nclk := Suc (w_nclk w)\<rparr> in
     case env_fault e (w_nop w) of
       Some err \<Rightarrow> (Inl err, w1)
     | None \<Rightarrow> (case q (env_fk e) (trunc_second (env_clk e (w_nclk w))) (w_db w) of
         Inl err \<Rightarrow> (Inl err, w1)
       | Inr (x, d) \<Rightarrow> (Inr x, w1\<lparr>w_db := d\<rparr>)))"

definition side_stmt :: "(go_time \<Rightarrow> side_tables \<Rightarrow> side_tables result) \<Rightarrow> unit wact" where
  "side_stmt q = (\<lambda>w.
     let e = w_env w; w1 = w\<lparr>w_nop := Suc (w_nop w), w_nclk := Suc (w_nclk w)\<rparr> in
     case env_fault e (w_nop w) of
       Some err \<Rightarrow> (Inl err, w1)
     | None \<Rightarrow> (case q (trunc_second (env_clk e (w_nclk w))) (w_side w) of
         Inl err \<Rightarrow> (Inl err, w1)
       | Inr s \<Rightarrow> (Inr (), w1\<lparr>w_side := s\<rparr>)))"

text \<open>A query that only reads.\<close>

definition query :: "(go_time \<Rightarrow> database \<Rightarrow> 'a result) \<Rightarrow> 'a wact" where
  "query q = stmt (\<lambda>fk t d. case q t d of Inl e \<Rightarrow> Inl e | Inr x \<Rightarrow> Inr (x, d))"

definition Now :: "go_time wact" where
  "Now = (\<lambda>w. (Inr (env_clk (w_env w) (w_nclk w)), w\<lparr>w_nclk := Suc (w_nclk w)\<rparr>))"

definition GenerateUUID :: "string wact" where
  "GenerateUUID = (\<lambda>w. (Inr (env_uuid (w_env w) (w_nuuid w)), w\<lparr>w_nuuid := Suc (w_nuuid w)\<rparr>))"

definition GenerateDisplayID :: "string \<Rightarrow> string wact" where
  "GenerateDisplayID prefix = bindE GenerateUUID (\<lambda>i. ret (prefix @ ''-'' @ take 8 i))"

definition getEnv :: "env wact" where
  "getEnv = (\<lambda>w. (Inr (w_env w), w))"

text \<open>
  \<open>txManager.WithTransaction\<close>, to which \<open>sqlUnitOfWork.Execute\<close> hands its function:
  begin, run, roll back on an error, commit otherwise.  Begin and commit are database operations
  that may fail; a failed commit leaves nothing of the transaction behind.
\<close>

definition WithTransaction :: "'a wact \<Rightarrow> 'a wact" where
  "WithTransaction fn = (\<lambda>w.
     let w0 = w\<lparr>w_nop := Suc (w_nop w)\<rparr> in
     case env_fault (w_env w) (w_nop w) of
       Some err \<Rightarrow> (Inl err, w0)
     | None \<Rightarrow> (case fn w0 of
         (Inl err, w1) \<Rightarrow> (Inl err, w1\<lparr>w_db := w_db w\<rparr>)
       | (Inr x, w1) \<Rightarrow>
           (let w2 = w1\<lparr>w_nop := Suc (w_nop w1)\<rparr> in
            case env_fault (w_env w1) (w_nop w1) of
              Some err \<Rightarrow> (Inl err, w2\<lparr>w_db := w_db w\<rparr>)
            | None \<Rightarrow> (Inr x, w2))))"

definition uow_Execute :: "'a wact \<Rightarrow> 'a wact" where
  "uow_Execute fn = WithTransaction fn"

text \<open>A component with a state of its own runs on that state and the world.\<close>

definition in_world :: "'a wact \<Rightarrow> ('s \<times> world, 'a) act" where
  "in_world m = (\<lambda>(s, w). case m w of (r, w') \<Rightarrow> (r, (s, w')))"

section \<open>A small concrete world\<close>

text \<open>Used where a theorem is applied at concrete data: two tenants, no faults, a ticking clock.\<close>

definition demo_uuid :: "nat \<Rightarrow> string" where
  "demo_uuid n = ''uuid-'' @ replicate n (CHR ''x'')"

definition demo_env :: env where
  "demo_env = \<lparr>env_fault = (\<lambda>_. None), env_clk = (\<lambda>n. 60 * 10 ^ 9 * int n), env_uuid = demo_uuid,
     env_oor = (\<lambda>_. 0), env_fk = True,
     env_ctx = \<lparr>ctx_tenant = Some ''t1'', ctx_user = None, ctx_ip = None\<rparr>\<rparr>"

definition demo_booking :: "string \<Rightarrow> string \<Rightarrow> string \<Rightarrow> booking_row" where
  "demo_booking i t st =
     \<lparr>br_id = i, br_booking_number = ''BK-'' @ i, br_customer_id = ''c1'', br_pickup_date = 0,
      br_route_id = ''r1'', br_vehicle_type = ''truck'', br_passengers = 1, br_cargo_weight = None,
      br_price = Fin 1, br_notes = None, br_status = st, br_tenant_id = t, br_version = 1,
      br_created_at = 0, br_updated_at = 0\<rparr>"

definition demo_db :: database where
  "demo_db =
     \<lparr>db_users = [], db_customers = [\<lparr>cu_id = ''c1'', cu_name = ''Asha'', cu_company = None\<rparr>],
      db_routes = [\<lparr>ro_id = ''r1'', ro_source = ''Pune'', ro_destination = ''Goa''\<rparr>],
      db_bookings = [demo_booking ''b1'' ''t1'' ''pending'', demo_booking ''b2'' ''t2'' ''pending''],
      db_trips = [], db_drivers = [], db_vehicles = [], db_invoices = [],
      db_invoice_line_items = [], db_payments = [], db_outbox_events = [], db_audit_logs = [],
      db_compliance_exemptions = [], db_dtc_events = [], db_hsn_sac_master = [],
      db_company_settings = Some \<lparr>cs_gst_enabled = True, cs_gst_rate = Fin 18\<rparr>,
      db_geofences = [], db_vehicle_geofences = [], db_geofence_events = [], db_engine_state = [],
      db_trip_detentions = [], db_telemetry_snapshots = [], db_company_config = []\<rparr>"

definition demo_world :: world where
  "demo_world = \<lparr>w_db = demo_db,
     w_side = \<lparr>sd_compliance_checks = [], sd_dispatch_overrides = []\<rparr>,
     w_nop = 0, w_nclk = 0, w_nuuid = 0, w_env = demo_env\<rparr>"

section \<open>Rules for runs\<close>

lemma stmt_Inr:
  "stmt q w = (Inr x, w') \<longleftrightarrow>
     (\<exists>d. env_fault (w_env w) (w_nop w) = None
        \<and> q (env_fk (w_env w)) (trunc_second (env_clk (w_env w) (w_nclk w))) (w_db w) = Inr (x, d)
        \<and> w' = w\<lparr>w_nop := Suc (w_nop w), w_nclk := Suc (w_nclk w), w_db := d\<rparr>)"
  by (auto simp: stmt_def Let_def split: option.splits sum.splits prod.splits)

lemma query_Inr [act_inv]:
  "query q w = (Inr x, w') \<longleftrightarrow>
     env_fault (w_env w) (w_nop w) = None
     \<and> q (trunc_second (env_clk (w_env w) (w_nclk w))) (w_db w) = Inr x
     \<and> w' = w\<lparr>w_nop := Suc (w_nop w), w_nclk := Suc (w_nclk w)\<rparr>"
  by (auto simp: query_def stmt_Inr split: sum.splits)

lemma Now_Inr [act_inv]:
  "Now w = (Inr t, w') \<longleftrightarrow> t = env_clk (w_env w) (w_nclk w) \<and> w' = w\<lparr>w_nclk := Suc (w_nclk w)\<rparr>"
  by (auto simp: Now_def)

lemma GenerateUUID_Inr [act_inv]:
  "GenerateUUID w = (Inr t, w') \<longleftrightarrow>
     t = env_uuid (w_env w) (w_nuuid w) \<and> w' = w\<lparr>w_nuuid := Suc (w_nuuid w)\<rparr>"
  by (auto simp: GenerateUUID_def)

lemma getEnv_Inr [act_inv]: "getEnv w = (Inr e, w') \<longleftrightarrow> e = w_env w \<and> w' = w"
  by (auto simp: getEnv_def)

lemma uow_Inr:
  "uow_Execute fn w = (Inr x, w') \<longleftrightarrow>
     (\<exists>w1. env_fault (w_env w) (w_nop w) = None \<and> fn (w\<lparr>w_nop := Suc (w_nop w)\<rparr>) = (Inr x, w1)
        \<and> env_fault (w_env w1) (w_nop w1) = None \<and> w' = w1\<lparr>w_nop := Suc (w_nop w1)\<rparr>)"
  by (auto simp: uow_Execute_def WithTransaction_def Let_def split: option.splits prod.splits sum.splits)

text \<open>A unit of work that returns an error leaves the database as it was.\<close>

lemma uow_atomic: "uow_Execute fn w = (Inl e, w') \<Longrightarrow> w_db w' = w_db w"
  by (auto simp: uow_Execute_def WithTransaction_def Let_def split: option.splits prod.splits sum.splits)

section \<open>Relations on the database\<close>

text \<open>
  A reflexive and transitive relation between database contents, propagated through statements
  and units of work.  Rolling back takes the database to where it was, so every such relation
  survives it.
\<close>

locale db_relation =
  fixes Q :: "database \<Rightarrow> database \<Rightarrow> bool"
  assumes Q_refl: "Q d d"
    and Q_trans: "Q a b \<Longrightarrow> Q b c \<Longrightarrow> Q a c"

sublocale db_relation \<subseteq> kept_relation "\<lambda>w w'. Q (w_db w) (w_db w')"
  by unfold_locales (auto intro: Q_refl Q_trans)

context db_relation
begin

lemma keeps_stmt: "(\<And>fk t d x d'. q fk t d = Inr (x, d') \<Longrightarrow> Q d d') \<Longrightarrow> keeps (stmt q)"
  by (rule keepsI) (auto simp: stmt_def Let_def Q_refl split: option.splits sum.splits prod.splits)

lemma keeps_query: "keeps (query q)"
  unfolding query_def by (rule keeps_stmt) (auto intro: Q_refl split: sum.splits)

lemma keeps_side: "keeps (side_stmt q)"
  by (rule keepsI) (auto simp: side_stmt_def Let_def Q_refl split: option.splits sum.splits prod.splits)

lemma keeps_Now: "keeps Now"
  by (rule keepsI) (simp add: Now_def Q_refl)

lemma keeps_GenerateUUID: "keeps GenerateUUID"
  by (rule keepsI) (simp add: GenerateUUID_def Q_refl)

lemma keeps_getEnv: "keeps getEnv"
  by (rule keepsI) (simp add: getEnv_def Q_refl)

lemma keeps_GenerateDisplayID: "keeps (GenerateDisplayID p)"
  unfolding GenerateDisplayID_def by (intro keeps_bind keeps_GenerateUUID keeps_ret)

lemma keeps_uow:
  assumes "keeps fn"
  shows "keeps (uow_Execute fn)"
proof (rule keepsI)
  fix w
  have "Q (w_db w) (w_db (snd (fn (w\<lparr>w_nop := Suc (w_nop w)\<rparr>))))"
    using assms [unfolded keeps_def] by (metis (mono_tags) select_convs(1) surjective update_convs(3))
  then show "Q (w_db w) (w_db (snd (uow_Execute fn w)))"
    by (auto simp: uow_Execute_def WithTransaction_def Let_def Q_refl
        split: option.splits prod.splits sum.splits)
qed

lemmas db_intros =
  keeps_query keeps_side keeps_Now keeps_GenerateUUID keeps_getEnv keeps_GenerateDisplayID
  keeps_uow keeps_intros

end

end
