(* ===== verification/Own_State.thy ===== *)
theory Own_State
  imports Store
begin

text \<open>
  Components with a state of their own beside the database (a cache, a log of what was handed to
  the bus): computations on that state and the world, the unit of work over both, and the rules
  that carry a relation on the database through them.
\<close>

type_synonym ('s, 'a) own_act = "('s \<times> world, 'a) act"

definition get_own :: "('s, 's) own_act" where
  "get_own = (\<lambda>(s, w). (Inr s, (s, w)))"

definition modify_own :: "('s \<Rightarrow> 's) \<Rightarrow> ('s, unit) own_act" where
  "modify_own f = (\<lambda>(s, w). (Inr (), (f s, w)))"

text \<open>
  \<open>uow.Execute\<close> of a function that also changes the state of the component: a rollback
  takes back the database, not that state.
\<close>

definition uow_own :: "('s, 'a) own_act \<Rightarrow> ('s, 'a) own_act" where
  "uow_own fn = (\<lambda>(s, w).
     let w0 = w\<lparr>w_nop := Suc (w_nop w)\<rparr> in
     case env_fault (w_env w) (w_nop w) of
       Some err \<Rightarrow> (Inl err, (s, w0))
     | None \<Rightarrow> (case fn (s, w0) of
         (Inl err, (s1, w1)) \<Rightarrow> (Inl err, (s1, w1\<lparr>w_db := w_db w\<rparr>))
       | (Inr x, (s1, w1)) \<Rightarrow>
           (let w2 = w1\<lparr>w_nop := Suc (w_nop w1)\<rparr> in
            case env_fault (w_env w1) (w_nop w1) of
              Some err \<Rightarrow> (Inl err, (s1, w2\<lparr>w_db := w_db w\<rparr>))
            | None \<Rightarrow> (Inr x, (s1, w2)))))"

text \<open>On a function that only touches the world it is the unit of work.\<close>

lemma uow_own_in_world: "uow_own (in_world m) = in_world (uow_Execute m)"
  by (rule ext) (auto simp: uow_own_def in_world_def uow_Execute_def WithTransaction_def Let_def
      split: option.split prod.split sum.split)

lemma get_own_apply [act_simps]: "get_own (s, w) = (Inr s, (s, w))"
  by (simp add: get_own_def)

lemma modify_own_apply [act_simps]: "modify_own f (s, w) = (Inr (), (f s, w))"
  by (simp add: modify_own_def)

lemma in_world_apply: "in_world m (s, w) = (fst (m w), (s, snd (m w)))"
  by (simp add: in_world_def split: prod.split)

lemma get_own_Inr [act_inv]: "get_own p = (Inr x, p') \<longleftrightarrow> x = fst p \<and> p' = p"
  by (auto simp: get_own_def split: prod.split)

lemma modify_own_Inr [act_inv]: "modify_own f p = (Inr x, p') \<longleftrightarrow> p' = (f (fst p), snd p)"
  by (auto simp: modify_own_def split: prod.split)

lemma in_world_Inr [act_inv]:
  "in_world m p = (Inr x, p') \<longleftrightarrow> (\<exists>w'. m (snd p) = (Inr x, w') \<and> p' = (fst p, w'))"
  by (auto simp: in_world_def split: prod.splits)

lemma uow_own_Inr:
  "uow_own fn (s, w) = (Inr x, p') \<longleftrightarrow>
     (\<exists>s1 w1. env_fault (w_env w) (w_nop w) = None \<and> fn (s, w\<lparr>w_nop := Suc (w_nop w)\<rparr>) = (Inr x, (s1, w1))
        \<and> env_fault (w_env w1) (w_nop w1) = None \<and> p' = (s1, w1\<lparr>w_nop := Suc (w_nop w1)\<rparr>))"
  by (auto simp: uow_own_def Let_def split: option.splits prod.splits sum.splits)

text \<open>A unit of work that returns an error leaves the database as it was.\<close>

lemma uow_own_atomic: "uow_own fn (s, w) = (Inl e, (s', w')) \<Longrightarrow> w_db w' = w_db w"
  by (auto simp: uow_own_def Let_def split: option.splits prod.splits sum.splits)

section \<open>Relations on the database\<close>

text \<open>A relation on the database seen through the pair of own state and world.\<close>

definition own_rel :: "(database \<Rightarrow> database \<Rightarrow> bool) \<Rightarrow> 's \<times> world \<Rightarrow> 's \<times> world \<Rightarrow> bool" where
  "own_rel Q p p' \<longleftrightarrow> Q (w_db (snd p)) (w_db (snd p'))"

sublocale db_relation \<subseteq> own: kept_relation "own_rel Q"
  by unfold_locales (auto simp: own_rel_def intro: Q_refl Q_trans)

context db_relation
begin

lemma own_in_world: "keeps m \<Longrightarrow> own.keeps (in_world m)"
  by (rule own.keepsI) (auto simp: own_rel_def in_world_def split: prod.split dest: keepsD)

lemma own_get: "own.keeps get_own"
  by (rule own.keepsI) (auto simp: own_rel_def get_own_def Q_refl split: prod.split)

lemma own_modify: "own.keeps (modify_own f)"
  by (rule own.keepsI) (auto simp: own_rel_def modify_own_def Q_refl split: prod.split)

lemma own_uow:
  assumes "own.keeps fn"
  shows "own.keeps (uow_own fn)"
proof (rule own.keepsI)
  fix p :: "'a \<times> world"
  obtain s w where p: "p = (s, w)" by fastforce
  have "own_rel Q (s, w\<lparr>w_nop := Suc (w_nop w)\<rparr>) (snd (fn (s, w\<lparr>w_nop := Suc (w_nop w)\<rparr>)))"
    using assms unfolding own.keeps_def by blast
  then show "own_rel Q p (snd (uow_own fn p))"
    by (auto simp: p own_rel_def uow_own_def Let_def Q_refl split: option.splits prod.splits sum.splits)
qed

lemmas own_intros = own_in_world own_get own_modify own_uow own.keeps_intros

end

end
