(* ===== verification/Outbox.thy ===== *)
theory Outbox
  imports Own_State
begin

text \<open>
  The transactional outbox writer (\<open>internal/shared/outbox/outbox.go\<close>) with the event
  catalog it consults (\<open>internal/events/events.go\<close>), and the audit log every use case
  writes (\<open>internal/booking/application/audit.go\<close>,
  \<open>internal/repository/sqlite/audit_logs.go\<close>).
\<close>

section \<open>Events as values with a dynamic type\<close>

text \<open>
  The domain events reach the outbox as \<open>any\<close>.  A dynamic type is the import path of its
  package and its name.  \<open>OtherEvent\<close> stands for a value of any other struct type.
\<close>

type_synonym go_type = "string \<times> string"

datatype domain_event =
    EvBooking booking_event
  | EvTrip trip_event
  | EvInvoice invoice_event
  | EvPayment payment_event
  | EvDriver driver_event
  | EvVehicle vehicle_event
  | OtherEvent go_type json

fun booking_event_name :: "booking_event \<Rightarrow> string" where
  "booking_event_name (BookingCreatedEvent _ _ _ _) = ''BookingCreatedEvent''"
| "booking_event_name (BookingConfirmedEvent _ _ _) = ''BookingConfirmedEvent''"
| "booking_event_name (BookingCancelledEvent _ _ _) = ''BookingCancelledEvent''"
| "booking_event_name (BookingUpdatedEvent _ _ _) = ''BookingUpdatedEvent''"
| "booking_event_name (BookingCompletedEvent _ _ _) = ''BookingCompletedEvent''"

fun trip_event_name :: "trip_event \<Rightarrow> string" where
  "trip_event_name (TripCreatedEvent _ _ _ _) = ''TripCreatedEvent''"
| "trip_event_name (TripScheduledEvent _ _ _) = ''TripScheduledEvent''"
| "trip_event_name (TripAssignedEvent _ _ _ _ _) = ''TripAssignedEvent''"
| "trip_event_name (TripStartedEvent _ _ _) = ''TripStartedEvent''"
| "trip_event_name (TripReachedPickupEvent _ _ _) = ''TripReachedPickupEvent''"
| "trip_event_name (TripInTransitEvent _ _ _) = ''TripInTransitEvent''"
| "trip_event_name (TripDeliveredEvent _ _ _) = ''TripDeliveredEvent''"
| "trip_event_name (TripCompletedEvent _ _ _) = ''TripCompletedEvent''"
| "trip_event_name (TripCancelledEvent _ _ _) = ''TripCancelledEvent''"

fun invoice_event_name :: "invoice_event \<Rightarrow> string" where
  "invoice_event_name (InvoiceGeneratedEvent _ _ _ _ _) = ''InvoiceGeneratedEvent''"
| "invoice_event_name (InvoicePaymentUpdatedEvent _ _ _ _) = ''InvoicePaymentUpdatedEvent''"
| "invoice_event_name (InvoicePaymentAppliedEvent _ _ _ _ _ _) = ''InvoicePaymentAppliedEvent''"
| "invoice_event_name (InvoiceIssuedEvent _ _ _ _) = ''InvoiceIssuedEvent''"
| "invoice_event_name (InvoiceVoidedEvent _ _ _) = ''InvoiceVoidedEvent''"

fun driver_event_name :: "driver_event \<Rightarrow> string" where
  "driver_event_name (DriverCreatedEvent _ _ _ _ _ _) = ''DriverCreatedEvent''"
| "driver_event_name (DriverUpdatedEvent _ _ _ _) = ''DriverUpdatedEvent''"

fun vehicle_event_name :: "vehicle_event \<Rightarrow> string" where
  "vehicle_event_name (VehicleCreatedEvent _ _ _ _ _) = ''VehicleCreatedEvent''"
| "vehicle_event_name (VehicleUpdatedEvent _ _ _ _ _) = ''VehicleUpdatedEvent''"

fun reflect_TypeOf :: "domain_event \<Rightarrow> go_type" where
  "reflect_TypeOf (EvBooking e) = (''transport-app/internal/booking/domain/aggregate'', booking_event_name e)"
| "reflect_TypeOf (EvTrip e) = (''transport-app/internal/trip/domain/aggregate'', trip_event_name e)"
| "reflect_TypeOf (EvInvoice e) = (''transport-app/internal/invoice/domain/aggregate'', invoice_event_name e)"
| "reflect_TypeOf (EvPayment e) = (''transport-app/internal/payment/domain/aggregate'', ''PaymentReceivedEvent'')"
| "reflect_TypeOf (EvDriver e) = (''transport-app/internal/driver/domain/aggregate'', driver_event_name e)"
| "reflect_TypeOf (EvVehicle e) = (''transport-app/internal/vehicle/domain/aggregate'', vehicle_event_name e)"
| "reflect_TypeOf (OtherEvent t _) = t"

section \<open>JSON of events\<close>

definition jobj3 :: "string \<Rightarrow> string \<Rightarrow> string \<Rightarrow> go_time \<Rightarrow> json" where
  "jobj3 idname i t now =
     JObject [(idname, JString i), (''TenantID'', JString t), (''OccurredAt'', JTime now)]"

fun booking_event_json :: "booking_event \<Rightarrow> json" where
  "booking_event_json (BookingCreatedEvent i t n now) =
     JObject [(''BookingID'', JString i), (''TenantID'', JString t), (''BookingNumber'', JString n),
              (''OccurredAt'', JTime now)]"
| "booking_event_json (BookingConfirmedEvent i t now) = jobj3 ''BookingID'' i t now"
| "booking_event_json (BookingCancelledEvent i t now) = jobj3 ''BookingID'' i t now"
| "booking_event_json (BookingUpdatedEvent i t now) = jobj3 ''BookingID'' i t now"
| "booking_event_json (BookingCompletedEvent i t now) = jobj3 ''BookingID'' i t now"

fun trip_event_json :: "trip_event \<Rightarrow> json" where
  "trip_event_json (TripCreatedEvent i t n now) =
     JObject [(''TripID'', JString i), (''TenantID'', JString t), (''TripNumber'', JString n),
              (''OccurredAt'', JTime now)]"
| "trip_event_json (TripAssignedEvent i t d v now) =
     JObject [(''TripID'', JString i), (''TenantID'', JString t), (''DriverID'', JString d),
              (''VehicleID'', JString v), (''OccurredAt'', JTime now)]"
| "trip_event_json (TripScheduledEvent i t now) = jobj3 ''TripID'' i t now"
| "trip_event_json (TripStartedEvent i t now) = jobj3 ''TripID'' i t now"
| "trip_event_json (TripReachedPickupEvent i t now) = jobj3 ''TripID'' i t now"
| "trip_event_json (TripInTransitEvent i t now) = jobj3 ''TripID'' i t now"
| "trip_event_json (TripDeliveredEvent i t now) = jobj3 ''TripID'' i t now"
| "trip_event_json (TripCompletedEvent i t now) = jobj3 ''TripID'' i t now"
| "trip_event_json (TripCancelledEvent i t now) = jobj3 ''TripID'' i t now"

fun invoice_event_json :: "invoice_event \<Rightarrow> json" where
  "invoice_event_json (InvoiceGeneratedEvent i t n x now) =
     JObject [(''ID'', JString i), (''TenantID'', JString t), (''InvoiceNumber'', JString n),
              (''Total'', JNumber x), (''CreatedAt'', JTime now)]"
| "invoice_event_json (InvoicePaymentUpdatedEvent i t s now) =
     JObject [(''ID'', JString i), (''TenantID'', JString t), (''PaymentStatus'', JString s),
              (''UpdatedAt'', JTime now)]"
| "invoice_event_json (InvoicePaymentAppliedEvent i t x p s now) =
     JObject [(''ID'', JString i), (''TenantID'', JString t), (''Amount'', JNumber x),
              (''PaidAmount'', JNumber p), (''PaymentStatus'', JString s), (''OccurredAt'', JTime now)]"
| "invoice_event_json (InvoiceIssuedEvent i t d now) =
     JObject [(''ID'', JString i), (''TenantID'', JString t), (''DueDate'', JTime d),
              (''OccurredAt'', JTime now)]"
| "invoice_event_json (InvoiceVoidedEvent i t now) = jobj3 ''ID'' i t now"

fun payment_event_json :: "payment_event \<Rightarrow> json" where
  "payment_event_json (PaymentReceivedEvent i t v x now) =
     JObject [(''ID'', JString i), (''TenantID'', JString t), (''InvoiceID'', JString v),
              (''Amount'', JNumber x), (''CreatedAt'', JTime now)]"

fun driver_event_json :: "driver_event \<Rightarrow> json" where
  "driver_event_json (DriverCreatedEvent i t d p l now) =
     JObject [(''ID'', JString i), (''TenantID'', JString t), (''DriverDisplayID'', JString d),
              (''Phone'', JString p), (''LicenseNumber'', JString l), (''CreatedAt'', JTime now)]"
| "driver_event_json (DriverUpdatedEvent i t s now) =
     JObject [(''ID'', JString i), (''TenantID'', JString t), (''Status'', JString s),
              (''UpdatedAt'', JTime now)]"

fun vehicle_event_json :: "vehicle_event \<Rightarrow> json" where
  "vehicle_event_json (VehicleCreatedEvent i t r n now) =
     JObject [(''ID'', JString i), (''TenantID'', JString t), (''RegistrationNumber'', JString r),
              (''VehicleNumber'', JString n), (''CreatedAt'', JTime now)]"
| "vehicle_event_json (VehicleUpdatedEvent i t s r now) =
     JObject [(''ID'', JString i), (''TenantID'', JString t), (''Status'', JString s),
              (''RegistrationNumber'', JString r), (''UpdatedAt'', JTime now)]"

fun event_json :: "domain_event \<Rightarrow> json" where
  "event_json (EvBooking e) = booking_event_json e"
| "event_json (EvTrip e) = trip_event_json e"
| "event_json (EvInvoice e) = invoice_event_json e"
| "event_json (EvPayment e) = payment_event_json e"
| "event_json (EvDriver e) = driver_event_json e"
| "event_json (EvVehicle e) = vehicle_event_json e"
| "event_json (OtherEvent _ j) = j"

definition json_Marshal :: "domain_event \<Rightarrow> json result" where
  "json_Marshal ev =
     (if json_ok (event_json ev) then Inr (event_json ev)
      else Inl (ErrorString ''json: unsupported value''))"

section \<open>The event catalog and the writer\<close>

definition EventTypeOf :: "(go_type \<times> string) list" where
  "EventTypeOf =
     [((''transport-app/internal/domain/booking'', ''BookingCreatedEvent''), ''booking.created''),
      ((''transport-app/internal/domain/booking'', ''BookingConfirmedEvent''), ''booking.confirmed''),
      ((''transport-app/internal/domain/booking'', ''BookingCancelledEvent''), ''booking.cancelled''),
      ((''transport-app/internal/domain/booking'', ''BookingCompletedEvent''), ''booking.completed''),
      ((''transport-app/internal/domain/trip'', ''TripCreatedEvent''), ''trip.created''),
      ((''transport-app/internal/domain/trip'', ''TripScheduledEvent''), ''trip.scheduled''),
      ((''transport-app/internal/domain/trip'', ''TripAssignedEvent''), ''trip.assigned''),
      ((''transport-app/internal/domain/trip'', ''TripStartedEvent''), ''trip.started''),
      ((''transport-app/internal/domain/trip'', ''TripCompletedEvent''), ''trip.completed''),
      ((''transport-app/internal/domain/trip'', ''TripCancelledEvent''), ''trip.cancelled''),
      ((''transport-app/internal/geofence/application'', ''GeofenceAlertEvent''), ''geofence.zone_breach'')]"

text \<open>The part of a string after its last occurrence of a character, or all of it.\<close>

definition after_last :: "char \<Rightarrow> string \<Rightarrow> string" where
  "after_last c s = rev (takeWhile (\<lambda>x. x \<noteq> c) (rev s))"

text \<open>\<open>fmt.Sprintf("%T", ev)\<close>: the last element of the package path, a dot, the name.\<close>

definition type_string :: "go_type \<Rightarrow> string" where
  "type_string t = after_last (CHR ''/'') (fst t) @ ''.'' @ snd t"

definition getEventTypeName :: "domain_event \<Rightarrow> string" where
  "getEventTypeName ev =
     (case map_of EventTypeOf (reflect_TypeOf ev) of
        Some name \<Rightarrow> name
      | None \<Rightarrow> after_last (CHR ''.'') (type_string (reflect_TypeOf ev)))"

definition CreateOutboxEvent ::
  "string \<Rightarrow> string \<Rightarrow> string \<Rightarrow> string \<Rightarrow> json \<Rightarrow> go_time \<Rightarrow> unit query" where
  "CreateOutboxEvent i aggregateID aggregateType eventType payload createdAt fk now d =
     (if i \<in> ob_id ` set (db_outbox_events d) then Inl (ErrConstraint UniqueConstraint ''outbox_events.id'')
      else Inr ((), d\<lparr>db_outbox_events := db_outbox_events d @
        [\<lparr>ob_id = i, ob_aggregate_id = aggregateID, ob_aggregate_type = aggregateType,
          ob_event_type = eventType, ob_payload = payload, ob_created_at = createdAt,
          ob_published_at = None\<rparr>]\<rparr>))"

text \<open>The body of the loop of \<open>SaveEvents\<close>.\<close>

definition save_event :: "string \<Rightarrow> string \<Rightarrow> domain_event \<Rightarrow> unit wact" where
  "save_event aggregateID aggregateType ev =
     bindE (lift_result (json_Marshal ev)) (\<lambda>payload.
     bindE GenerateUUID (\<lambda>i.
     bindE Now (\<lambda>now.
     stmt (CreateOutboxEvent i aggregateID aggregateType (getEventTypeName ev) payload now))))"

definition OutboxWriter_SaveEvents :: "string \<Rightarrow> string \<Rightarrow> domain_event list \<Rightarrow> unit wact" where
  "OutboxWriter_SaveEvents aggregateID aggregateType evs =
     (if evs = [] then ret () else forE evs (save_event aggregateID aggregateType))"

section \<open>Audit log\<close>

definition CreateAuditLog ::
  "string \<Rightarrow> string option \<Rightarrow> string \<Rightarrow> string \<Rightarrow> string option \<Rightarrow> json option \<Rightarrow> json option
     \<Rightarrow> string option \<Rightarrow> unit query" where
  "CreateAuditLog i userID action tableName recordID oldValues newValues ip fk now d =
     (if i \<in> au_id ` set (db_audit_logs d) then Inl (ErrConstraint UniqueConstraint ''audit_logs.id'')
      else if fk \<and> (case userID of Some u \<Rightarrow> u \<notin> set (db_users d) | None \<Rightarrow> False)
      then Inl (ErrConstraint ForeignKeyConstraint ''audit_logs.user_id'')
      else Inr ((), d\<lparr>db_audit_logs := db_audit_logs d @
        [\<lparr>au_id = i, au_user_id = userID, au_action = action, au_table_name = tableName,
          au_record_id = recordID, au_old_values = oldValues, au_new_values = newValues,
          au_ip_address = ip, au_created_at = now\<rparr>]\<rparr>))"

definition getUserID :: "context_values \<Rightarrow> string option" where
  "getUserID ctx = (case ctx_user ctx of Some u \<Rightarrow> (if u = [] then None else Some u) | None \<Rightarrow> None)"

definition getUserIP :: "context_values \<Rightarrow> string option" where
  "getUserIP ctx = (case ctx_ip ctx of Some ip \<Rightarrow> (if ip \<noteq> [] then Some ip else None) | None \<Rightarrow> None)"

text \<open>\<open>logAudit\<close> drops the error of the insert: \<open>_, _ = auditRepo.CreateAuditLog(...)\<close>.\<close>

definition logAudit :: "string \<Rightarrow> string \<Rightarrow> string \<Rightarrow> json option \<Rightarrow> json option \<Rightarrow> unit wact" where
  "logAudit tableName action recordID oldValues newValues =
     bindE getEnv (\<lambda>e.
     bindE GenerateUUID (\<lambda>i.
     bindE (tryE (stmt (CreateAuditLog i (getUserID (env_ctx e)) action tableName (Some recordID)
       oldValues newValues (getUserIP (env_ctx e))))) (\<lambda>_. ret ())))"

section \<open>What the writer does\<close>

text \<open>The rows a successful \<open>SaveEvents\<close> appends, up to identifiers and times.\<close>

definition outbox_rows_for :: "string \<Rightarrow> string \<Rightarrow> domain_event list \<Rightarrow> outbox_row list \<Rightarrow> bool" where
  "outbox_rows_for aggregateID aggregateType evs rows \<longleftrightarrow>
     map ob_payload rows = map event_json evs
     \<and> map ob_event_type rows = map getEventTypeName evs
     \<and> (\<forall>r\<in>set rows. ob_aggregate_id r = aggregateID \<and> ob_aggregate_type r = aggregateType
          \<and> ob_published_at r = None)"

lemma outbox_rows_for_Nil: "outbox_rows_for i t [] []"
  by (simp add: outbox_rows_for_def)

lemma outbox_rows_for_Cons:
  "outbox_rows_for i t (ev # evs) (r # rows) \<longleftrightarrow>
     ob_payload r = event_json ev \<and> ob_event_type r = getEventTypeName ev
     \<and> ob_aggregate_id r = i \<and> ob_aggregate_type r = t \<and> ob_published_at r = None
     \<and> outbox_rows_for i t evs rows"
  by (auto simp: outbox_rows_for_def)

lemma CreateOutboxEvent_Inr:
  "CreateOutboxEvent i a t ty p c fk now d = Inr (x, d') \<longleftrightarrow>
     i \<notin> ob_id ` set (db_outbox_events d) \<and>
     d' = d\<lparr>db_outbox_events := db_outbox_events d @
        [\<lparr>ob_id = i, ob_aggregate_id = a, ob_aggregate_type = t, ob_event_type = ty,
          ob_payload = p, ob_created_at = c, ob_published_at = None\<rparr>]\<rparr>"
  by (auto simp: CreateOutboxEvent_def)

lemma json_Marshal_Inr:
  "json_Marshal ev = Inr p \<longleftrightarrow> json_ok (event_json ev) \<and> p = event_json ev"
  by (auto simp: json_Marshal_def)

lemma save_event_effect:
  assumes "save_event i t ev w = (Inr u, w')"
  shows "\<exists>row. outbox_rows_for i t [ev] [row]
    \<and> w_db w' = (w_db w)\<lparr>db_outbox_events := db_outbox_events (w_db w) @ [row]\<rparr>
    \<and> w_env w' = w_env w \<and> w_side w' = w_side w"
  using assms unfolding save_event_def
  by (intro exI [of _ "\<lparr>ob_id = env_uuid (w_env w) (w_nuuid w), ob_aggregate_id = i,
      ob_aggregate_type = t, ob_event_type = getEventTypeName ev, ob_payload = event_json ev,
      ob_created_at = env_clk (w_env w) (w_nclk w), ob_published_at = None\<rparr>"])
    (clarsimp simp: act_inv stmt_Inr CreateOutboxEvent_Inr json_Marshal_Inr outbox_rows_for_Cons
      outbox_rows_for_Nil)

lemma save_events_effect:
  assumes "forE evs (save_event i t) w = (Inr u, w')"
  shows "\<exists>rows. outbox_rows_for i t evs rows
    \<and> w_db w' = (w_db w)\<lparr>db_outbox_events := db_outbox_events (w_db w) @ rows\<rparr>
    \<and> w_env w' = w_env w \<and> w_side w' = w_side w"
  using assms
proof (induction evs arbitrary: w)
  case Nil
  then show ?case
    by (intro exI [of _ "[]"]) (simp add: act_inv outbox_rows_for_Nil)
next
  case (Cons ev evs)
  from Cons.prems obtain x w1
    where b: "save_event i t ev w = (Inr x, w1)" and r: "forE evs (save_event i t) w1 = (Inr u, w')"
    by (auto simp: seqE_Inr)
  from save_event_effect [OF b] obtain row where row: "outbox_rows_for i t [ev] [row]"
    "w_db w1 = (w_db w)\<lparr>db_outbox_events := db_outbox_events (w_db w) @ [row]\<rparr>"
    "w_env w1 = w_env w" "w_side w1 = w_side w" by blast
  from Cons.IH [OF r] obtain rows where rows: "outbox_rows_for i t evs rows"
    "w_db w' = (w_db w1)\<lparr>db_outbox_events := db_outbox_events (w_db w1) @ rows\<rparr>"
    "w_env w' = w_env w1" "w_side w' = w_side w1" by blast
  from row rows show ?case
    by (intro exI [of _ "row # rows"]) (simp add: outbox_rows_for_Cons)
qed

lemma SaveEvents_effect:
  assumes "OutboxWriter_SaveEvents i t evs w = (Inr u, w')"
  shows "\<exists>rows. outbox_rows_for i t evs rows
    \<and> w_db w' = (w_db w)\<lparr>db_outbox_events := db_outbox_events (w_db w) @ rows\<rparr>
    \<and> w_env w' = w_env w \<and> w_side w' = w_side w"
proof -
  have "forE evs (save_event i t) w = (Inr u, w')"
    using assms by (cases "evs = []") (simp_all add: OutboxWriter_SaveEvents_def)
  then show ?thesis by (rule save_events_effect)
qed

text \<open>Whatever happens to the insert, an audit call succeeds and changes only the audit log.\<close>

lemma logAudit_effect:
  assumes "logAudit tb ac rid ov nv w = (r, w')"
  shows "r = Inr () \<and> w_env w' = w_env w \<and> w_side w' = w_side w
    \<and> (\<exists>rows. w_db w' = (w_db w)\<lparr>db_audit_logs := db_audit_logs (w_db w) @ rows\<rparr> \<and> length rows \<le> 1)"
proof -
  note unf = logAudit_def bindE_def getEnv_def GenerateUUID_def tryE_def ret_def stmt_def Let_def
    CreateAuditLog_def
  show ?thesis
    using assms unfolding unf
    by (auto split: option.splits if_splits sum.splits prod.splits)
      (rule exI [of _ "[]"], simp)+
qed

text \<open>
  No event of an aggregate is stored under a name of the event catalog: the
  catalog is keyed by the types of \<open>internal/domain\<close>, so the booking, trip, invoice, payment,
  driver and vehicle aggregates are all stored under their Go type names.  In particular a
  confirmed booking is stored as \<open>BookingConfirmedEvent\<close> and never as
  \<open>booking.confirmed\<close>, the type on which trips are created automatically.
\<close>

theorem aggregate_events_not_canonical:
  "(\<forall>e. getEventTypeName (EvBooking e) = booking_event_name e)
   \<and> (\<forall>e. getEventTypeName (EvTrip e) = trip_event_name e)
   \<and> (\<forall>e. getEventTypeName (EvInvoice e) = invoice_event_name e)
   \<and> (\<forall>e. getEventTypeName (EvDriver e) = driver_event_name e)
   \<and> (\<forall>e. getEventTypeName (EvVehicle e) = vehicle_event_name e)
   \<and> (\<forall>e. getEventTypeName (EvPayment e) = ''PaymentReceivedEvent'')
   \<and> (\<forall>i t now. getEventTypeName (EvBooking (BookingConfirmedEvent i t now)) \<notin> snd ` set EventTypeOf)"
proof -
  note unf = getEventTypeName_def EventTypeOf_def type_string_def after_last_def
  have b: "getEventTypeName (EvBooking e) = booking_event_name e" for e
    by (cases e) (simp_all add: unf)
  have t: "getEventTypeName (EvTrip e) = trip_event_name e" for e
    by (cases e) (simp_all add: unf)
  have i: "getEventTypeName (EvInvoice e) = invoice_event_name e" for e
    by (cases e) (simp_all add: unf)
  have d: "getEventTypeName (EvDriver e) = driver_event_name e" for e
    by (cases e) (simp_all add: unf)
  have v: "getEventTypeName (EvVehicle e) = vehicle_event_name e" for e
    by (cases e) (simp_all add: unf)
  have p: "getEventTypeName (EvPayment e) = ''PaymentReceivedEvent''" for e
    by (simp add: unf)
  have "''BookingConfirmedEvent'' \<notin> snd ` set EventTypeOf" by (simp add: EventTypeOf_def)
  with b t i d v p show ?thesis by simp
qed

end
