(* ===== verification/Repository_Contract.thy ===== *)
theory Repository_Contract
  imports Outbox
begin

text \<open>
  What the use cases rely on in a repository of versioned aggregates, and what follows for every
  use case of the common shape "load, transition, save, audit" inside one unit of work.
\<close>

definition same_store :: "world \<Rightarrow> world \<Rightarrow> bool" where
  "same_store w w' \<longleftrightarrow> w_db w' = w_db w \<and> w_env w' = w_env w \<and> w_side w' = w_side w"

lemma same_store_refl [simp]: "same_store w w"
  by (simp add: same_store_def)

lemma same_store_trans: "same_store a b \<Longrightarrow> same_store b c \<Longrightarrow> same_store a c"
  by (simp add: same_store_def)

text \<open>\<open>if errors.Is(err, sql.ErrNoRows) { return errors.New(msg) }; return err\<close>\<close>

definition noRowsAs :: "string \<Rightarrow> 'a wact \<Rightarrow> 'a wact" where
  "noRowsAs msg m = bindE (tryE m) (\<lambda>r. case r of
     Inr x \<Rightarrow> ret x
   | Inl e \<Rightarrow> raise (if errors_Is_NoRows e then ErrorString msg else e))"

lemma noRowsAs_Inr [act_inv]: "noRowsAs msg m w = (Inr x, w') \<longleftrightarrow> m w = (Inr x, w')"
  by (auto simp: noRowsAs_def bindE_def tryE_def ret_def raise_def split: prod.splits sum.splits)

text \<open>\<open>fmt.Errorf("...: %w", err)\<close> around a call that failed.\<close>

definition wrap_err :: "(goerr \<Rightarrow> goerr) \<Rightarrow> 'a wact \<Rightarrow> 'a wact" where
  "wrap_err f m = bindE (tryE m) (\<lambda>r. case r of Inl e \<Rightarrow> raise (f e) | Inr x \<Rightarrow> ret x)"

lemma wrap_err_Inr: "wrap_err f m w = (Inr x, w') \<longleftrightarrow> m w = (Inr x, w')"
proof -
  obtain r w1 where "m w = (r, w1)" by fastforce
  then show ?thesis by (cases r) (simp_all add: wrap_err_def act_simps)
qed

text \<open>A query ran: the store is the one before, whatever it returned.\<close>

lemma query_same_store: "query q w = (r, w') \<Longrightarrow> same_store w w'"
  by (auto simp: query_def stmt_def same_store_def Let_def split: option.splits sum.splits prod.splits)

lemma noRowsAs_query_same_store: "noRowsAs msg (query q) w = (r, w') \<Longrightarrow> same_store w w'"
  by (auto simp: noRowsAs_def bindE_def tryE_def ret_def raise_def dest: query_same_store
      split: prod.splits sum.splits)

section \<open>The shape of the transition use cases\<close>

text \<open>
  \<open>repo.Find\<close>, a transition of the aggregate at the time of the clock, \<open>repo.Save\<close>, an
  audit entry, all in one unit of work.
\<close>

definition transition_use_case ::
  "'a wact \<Rightarrow> (go_time \<Rightarrow> 'a \<Rightarrow> 'a result) \<Rightarrow> ('a \<Rightarrow> 'a wact) \<Rightarrow> ('a \<Rightarrow> unit wact) \<Rightarrow> unit wact" where
  "transition_use_case load f save audit =
     uow_Execute
       (bindE load (\<lambda>a.
        bindE Now (\<lambda>now.
        bindE (lift_result (f now a)) (\<lambda>a'.
        bindE (save a') (\<lambda>a''. audit a'')))))"

lemma transition_use_case_Inr:
  assumes "transition_use_case load f save audit w = (Inr u, w')"
  obtains a w1 a' a'' w2 w3 where "load (w\<lparr>w_nop := Suc (w_nop w)\<rparr>) = (Inr a, w1)"
    and "f (env_clk (w_env w1) (w_nclk w1)) a = Inr a'"
    and "save a' (w1\<lparr>w_nclk := Suc (w_nclk w1)\<rparr>) = (Inr a'', w2)"
    and "audit a'' w2 = (Inr u, w3)" and "w' = w3\<lparr>w_nop := Suc (w_nop w3)\<rparr>"
  using assms unfolding transition_use_case_def
  by (auto simp: uow_Inr act_inv)

section \<open>Errors leave no trace\<close>

interpretation dbeq: db_relation "(=)"
  by unfold_locales simp_all

definition fails_clean :: "'a wact \<Rightarrow> bool" where
  "fails_clean m \<longleftrightarrow> (\<forall>w e w'. m w = (Inl e, w') \<longrightarrow> w_db w' = w_db w)"

lemma fails_clean_uow: "fails_clean (uow_Execute fn)"
  unfolding fails_clean_def using uow_atomic by blast

lemma fails_clean_pure: "dbeq.keeps m \<Longrightarrow> fails_clean m"
  unfolding fails_clean_def by (metis dbeq.keepsD)

lemma fails_clean_bind:
  assumes "dbeq.keeps m" and "\<And>x. fails_clean (f x)"
  shows "fails_clean (bindE m f)"
  unfolding fails_clean_def
proof (intro allI impI)
  fix w e w' assume b: "bindE m f w = (Inl e, w')"
  obtain r w1 where m: "m w = (r, w1)" by fastforce
  have d: "w_db w1 = w_db w" using dbeq.keepsD [OF assms(1) m] by simp
  show "w_db w' = w_db w"
  proof (cases r)
    case (Inl e')
    with b m d show ?thesis by (simp add: bindE_def)
  next
    case (Inr x)
    with b m have "f x w1 = (Inl e, w')" by (simp add: bindE_def)
    with assms(2) d show ?thesis unfolding fails_clean_def by metis
  qed
qed

lemma fails_clean_seq: "dbeq.keeps m \<Longrightarrow> fails_clean n \<Longrightarrow> fails_clean (seqE m n)"
  unfolding seqE_def by (rule fails_clean_bind)

lemma fails_clean_seq_ret: "fails_clean m \<Longrightarrow> fails_clean (seqE m (ret x))"
  by (auto simp: fails_clean_def seqE_def bindE_def ret_def split: prod.splits sum.splits)

lemma fails_clean_transition: "fails_clean (transition_use_case load f save audit)"
  unfolding transition_use_case_def by (rule fails_clean_uow)

lemma fails_cleanD: "fails_clean m \<Longrightarrow> fst (m w) = Inl e \<Longrightarrow> w_db (snd (m w)) = w_db w"
  unfolding fails_clean_def by (metis prod.collapse)

section \<open>Versioned repositories\<close>

locale versioned_repository =
  fixes ok :: "database \<Rightarrow> bool"
    and stored :: "database \<Rightarrow> string \<Rightarrow> string \<Rightarrow> int option"
    and find_agg :: "string \<Rightarrow> string \<Rightarrow> 'a wact"
    and save_agg :: "'a \<Rightarrow> 'a wact"
    and ident :: "'a \<Rightarrow> string"
    and tenant :: "'a \<Rightarrow> string"
    and version :: "'a \<Rightarrow> int"
  assumes find_store: "find_agg i t w = (r, w') \<Longrightarrow> same_store w w'"
    and find_stored: "ok (w_db w) \<Longrightarrow> find_agg i t w = (Inr a, w') \<Longrightarrow>
      ident a = i \<and> tenant a = t \<and> stored (w_db w) i t = Some (version a)"
    and save_ok: "ok (w_db w) \<Longrightarrow> save_agg a w = (Inr a', w') \<Longrightarrow> ok (w_db w')"
    and save_stored: "ok (w_db w) \<Longrightarrow> save_agg a w = (Inr a', w') \<Longrightarrow>
      stored (w_db w) (ident a) (tenant a) = Some v \<Longrightarrow>
      v = version a \<and> stored (w_db w') (ident a) (tenant a) = Some (v + 1)"
begin

text \<open>
  Two copies of an aggregate were loaded; after the first was saved the second cannot be: its
  save fails, whatever the copies were changed to, as long as they keep identity and version.
\<close>

lemma no_lost_update:
  assumes "ok (w_db w0)"
    and "find_agg i t w0 = (Inr a, w1)" and "find_agg i t w1 = (Inr b, w2)"
    and "ident a' = ident a" "tenant a' = tenant a" "version a' = version a"
    and "ident b' = ident b" "tenant b' = tenant b" "version b' = version b"
    and "save_agg a' w2 = (Inr a'', w3)"
  shows "\<exists>e w4. save_agg b' w3 = (Inl e, w4)"
proof -
  have s1: "w_db w1 = w_db w0" using find_store [OF assms(2)] by (simp add: same_store_def)
  have s2: "w_db w2 = w_db w0" using find_store [OF assms(3)] s1 by (simp add: same_store_def)
  have fa: "ident a = i" "tenant a = t" "stored (w_db w0) i t = Some (version a)"
    using find_stored [OF assms(1,2)] by auto
  have fb: "ident b = i" "tenant b = t" "stored (w_db w0) i t = Some (version b)"
    using find_stored [OF _ assms(3)] assms(1) s1 by auto
  have o2: "ok (w_db w2)" using assms(1) s2 by simp
  have st: "stored (w_db w2) (ident a') (tenant a') = Some (version a)"
    using fa assms(4,5) s2 by simp
  have a3: "stored (w_db w3) i t = Some (version a + 1)"
    using save_stored [OF o2 assms(10) st] fa assms(4,5) by simp
  show ?thesis
  proof (cases "save_agg b' w3")
    case (Pair r w4)
    show ?thesis
    proof (cases r)
      case (Inr b'')
      have "stored (w_db w3) (ident b') (tenant b') = Some (version a + 1)"
        using a3 fb assms(7,8) by simp
      from save_stored [OF save_ok [OF o2 assms(10)] Pair [unfolded Inr] this]
      have "version a + 1 = version b'" by simp
      then show ?thesis using fa fb assms(9) by simp
    qed (use Pair in simp)
  qed
qed

text \<open>A transition use case that returns nil moved the stored version forward by exactly one.\<close>

lemma transition_version:
  assumes "ok (w_db w)"
    and "transition_use_case (find_agg i t) f save_agg audit w = (Inr u, w')"
    and "\<And>now a a'. f now a = Inr a' \<Longrightarrow> ident a' = ident a \<and> tenant a' = tenant a \<and> version a' = version a"
    and "\<And>a w r w'. audit a w = (r, w') \<Longrightarrow> stored (w_db w') = stored (w_db w)"
  shows "\<exists>v. stored (w_db w) i t = Some v \<and> stored (w_db w') i t = Some (v + 1)"
proof -
  from assms(2) obtain a w1 a' a'' w2 w3
    where l: "find_agg i t (w\<lparr>w_nop := Suc (w_nop w)\<rparr>) = (Inr a, w1)"
      and f: "f (env_clk (w_env w1) (w_nclk w1)) a = Inr a'"
      and s: "save_agg a' (w1\<lparr>w_nclk := Suc (w_nclk w1)\<rparr>) = (Inr a'', w2)"
      and au: "audit a'' w2 = (Inr u, w3)" and w': "w' = w3\<lparr>w_nop := Suc (w_nop w3)\<rparr>"
    by (rule transition_use_case_Inr)
  have d1: "w_db w1 = w_db w" using find_store [OF l] by (simp add: same_store_def)
  have fa: "ident a = i" "tenant a = t" "stored (w_db w) i t = Some (version a)"
    using find_stored [OF _ l] assms(1) by auto
  have "stored (w_db w2) i t = Some (version a + 1)"
    using save_stored [OF _ s, of "version a"] assms(1) d1 assms(3) [OF f] fa by simp
  with assms(4) [OF au] fa w' show ?thesis by simp
qed

end

end
