(* ===== verification/Booking_Repository.thy ===== *)
theory Booking_Repository
  imports Repository_Contract Go_Time
begin

text \<open>
  Persistence of bookings: the SQL statements (\<open>db/query/bookings.sql\<close>, generated as
  \<open>db/generated/sqlite/bookings.sql.go\<close>), the converter and the repository
  (\<open>internal/booking/infrastructure/persistence/sql\<close>).  \<open>SQLBookingModel\<close> has the
  columns of the table, so it is the row type.
\<close>

section \<open>SQL\<close>

text \<open>\<open>LIKE\<close>: \<open>%\<close> matches any run of characters, \<open>_\<close> one, letters without regard to case.\<close>

definition ascii_lower :: "char \<Rightarrow> char" where
  "ascii_lower c = (let n = (of_char c :: nat) in if 65 \<le> n \<and> n \<le> 90 then char_of (n + 32) else c)"

fun sql_like :: "string \<Rightarrow> string \<Rightarrow> bool" where
  "sql_like [] t \<longleftrightarrow> t = []"
| "sql_like (p # ps) [] \<longleftrightarrow> p = CHR ''%'' \<and> sql_like ps []"
| "sql_like (p # ps) (c # t) \<longleftrightarrow>
     (if p = CHR ''%'' then sql_like ps (c # t) \<or> sql_like (p # ps) t
      else (p = CHR ''_'' \<or> ascii_lower p = ascii_lower c) \<and> sql_like ps t)"

declare sql_like.simps [simp del]

definition contains_pattern :: "string \<Rightarrow> string" where
  "contains_pattern q = ''%'' @ q @ ''%''"

text \<open>\<open>LIMIT ? OFFSET ?\<close>: a negative limit means no limit, a negative offset none.\<close>

definition sql_page :: "int \<Rightarrow> int \<Rightarrow> 'a list \<Rightarrow> 'a list" where
  "sql_page limit offset rows =
     (let rows = drop (nat offset) rows in if limit < 0 then rows else take (nat limit) rows)"

type_synonym SQLBookingModel = booking_row
type_synonym booking_joined = "booking_row \<times> customer_row \<times> route_row"

definition find_customer :: "database \<Rightarrow> string \<Rightarrow> customer_row option" where
  "find_customer d i = find (\<lambda>c. cu_id c = i) (db_customers d)"

definition find_route :: "database \<Rightarrow> string \<Rightarrow> route_row option" where
  "find_route d i = find (\<lambda>r. ro_id r = i) (db_routes d)"

text \<open>\<open>bookings b JOIN customers c ON ... JOIN routes r ON ...\<close>\<close>

definition join_booking :: "database \<Rightarrow> booking_row \<Rightarrow> booking_joined option" where
  "join_booking d b =
     (case find_customer d (br_customer_id b) of None \<Rightarrow> None
      | Some c \<Rightarrow> (case find_route d (br_route_id b) of None \<Rightarrow> None | Some r \<Rightarrow> Some (b, c, r)))"

definition bookings_joined :: "database \<Rightarrow> booking_joined list" where
  "bookings_joined d = List.map_filter (join_booking d) (db_bookings d)"

definition one_row :: "'a option \<Rightarrow> 'a result" where
  "one_row x = (case x of None \<Rightarrow> Inl ErrNoRows | Some r \<Rightarrow> Inr r)"

definition GetBookingByID :: "string \<Rightarrow> string \<Rightarrow> go_time \<Rightarrow> database \<Rightarrow> booking_joined result" where
  "GetBookingByID i t now d =
     one_row (find (\<lambda>(b, c, r). br_id b = i \<and> br_tenant_id b = t) (bookings_joined d))"

definition GetBookingByNumber :: "string \<Rightarrow> string \<Rightarrow> go_time \<Rightarrow> database \<Rightarrow> booking_joined result" where
  "GetBookingByNumber n t now d =
     one_row (find (\<lambda>(b, c, r). br_booking_number b = n \<and> br_tenant_id b = t) (bookings_joined d))"

definition booking_check_statuses :: "string list" where
  "booking_check_statuses = [''pending'', ''confirmed'', ''cancelled'', ''completed'']"

text \<open>The constraints of table \<open>bookings\<close> on a row about to be stored beside \<open>others\<close>.\<close>

definition booking_violation :: "bool \<Rightarrow> database \<Rightarrow> booking_row list \<Rightarrow> booking_row \<Rightarrow> goerr option" where
  "booking_violation fk d others r =
     (if br_price r = NaN then Some (ErrConstraint NotNullConstraint ''bookings.price'')
      else if br_status r \<notin> set booking_check_statuses
      then Some (ErrConstraint CheckConstraint ''bookings.status'')
      else if br_id r \<in> br_id ` set others then Some (ErrConstraint UniqueConstraint ''bookings.id'')
      else if br_booking_number r \<in> br_booking_number ` set others
      then Some (ErrConstraint UniqueConstraint ''bookings.booking_number'')
      else if fk \<and> (find_customer d (br_customer_id r) = None \<or> find_route d (br_route_id r) = None)
      then Some (ErrConstraint ForeignKeyConstraint ''bookings'')
      else None)"

definition CreateBooking :: "SQLBookingModel \<Rightarrow> SQLBookingModel query" where
  "CreateBooking p fk now d =
     (let r = p\<lparr>br_version := 1, br_created_at := now, br_updated_at := now,
                br_cargo_weight := (if br_cargo_weight p = Some NaN then None else br_cargo_weight p)\<rparr> in
      case booking_violation fk d (db_bookings d) r of
        Some e \<Rightarrow> Inl e
      | None \<Rightarrow> Inr (r, d\<lparr>db_bookings := db_bookings d @ [r]\<rparr>))"

definition booking_selected :: "SQLBookingModel \<Rightarrow> booking_row \<Rightarrow> bool" where
  "booking_selected p r \<longleftrightarrow> br_id r = br_id p \<and> br_tenant_id r = br_tenant_id p \<and> br_version r = br_version p"

definition booking_set :: "SQLBookingModel \<Rightarrow> go_time \<Rightarrow> booking_row \<Rightarrow> booking_row" where
  "booking_set p now r =
     r\<lparr>br_booking_number := br_booking_number p, br_customer_id := br_customer_id p,
       br_pickup_date := br_pickup_date p, br_route_id := br_route_id p,
       br_vehicle_type := br_vehicle_type p, br_passengers := br_passengers p,
       br_cargo_weight := (if br_cargo_weight p = Some NaN then None else br_cargo_weight p),
       br_price := br_price p, br_notes := br_notes p, br_status := br_status p,
       br_version := br_version r + 1, br_updated_at := now\<rparr>"

definition UpdateBooking :: "SQLBookingModel \<Rightarrow> SQLBookingModel query" where
  "UpdateBooking p fk now d =
     (case find (booking_selected p) (db_bookings d) of
        None \<Rightarrow> Inl ErrNoRows
      | Some r \<Rightarrow>
          (case booking_violation fk d (filter (\<lambda>x. br_id x \<noteq> br_id p) (db_bookings d)) (booking_set p now r) of
             Some e \<Rightarrow> Inl e
           | None \<Rightarrow> Inr (booking_set p now r,
               d\<lparr>db_bookings := update_where (booking_selected p) (booking_set p now) (db_bookings d)\<rparr>)))"

text \<open>A booking that a trip or an invoice refers to cannot be deleted while foreign keys are on.\<close>

definition DeleteBooking :: "string \<Rightarrow> string \<Rightarrow> unit query" where
  "DeleteBooking i t fk now d =
     (if fk \<and> (\<exists>r\<in>set (db_bookings d). br_id r = i \<and> br_tenant_id r = t)
          \<and> ((\<exists>x\<in>set (db_trips d). tw_booking_id x = Some i) \<or> (\<exists>x\<in>set (db_invoices d). ir_booking_id x = i))
      then Inl (ErrConstraint ForeignKeyConstraint ''bookings.id'')
      else Inr ((), d\<lparr>db_bookings := filter (\<lambda>r. \<not> (br_id r = i \<and> br_tenant_id r = t)) (db_bookings d)\<rparr>))"

definition booking_matches :: "string \<Rightarrow> string \<Rightarrow> string \<Rightarrow> booking_row \<Rightarrow> customer_row \<Rightarrow> bool" where
  "booking_matches t q status b c \<longleftrightarrow>
     br_tenant_id b = t
     \<and> (sql_like (contains_pattern q) (br_booking_number b) \<or> sql_like (contains_pattern q) (cu_name c)
        \<or> (case cu_company c of Some co \<Rightarrow> sql_like (contains_pattern q) co | None \<Rightarrow> False))
     \<and> (status = [] \<or> br_status b = status)"

definition SearchBookings ::
  "string \<Rightarrow> string \<Rightarrow> string \<Rightarrow> int \<Rightarrow> int \<Rightarrow> go_time \<Rightarrow> database \<Rightarrow> booking_joined list result" where
  "SearchBookings t q status limit offset now d =
     Inr (sql_page limit offset
       (sort_key (\<lambda>(b, c, r). - br_pickup_date b)
         (filter (\<lambda>(b, c, r). booking_matches t q status b c) (bookings_joined d))))"

definition CountBookings :: "string \<Rightarrow> string \<Rightarrow> string \<Rightarrow> go_time \<Rightarrow> database \<Rightarrow> int result" where
  "CountBookings t q status now d =
     Inr (int (length (filter (\<lambda>b. case find_customer d (br_customer_id b) of
        Some c \<Rightarrow> booking_matches t q status b c | None \<Rightarrow> False) (db_bookings d))))"

section \<open>Converter\<close>

definition Booking_MapToAggregate :: "(float64 \<Rightarrow> int) \<Rightarrow> SQLBookingModel \<Rightarrow> BookingAggregate" where
  "Booking_MapToAggregate oor m =
     \<lparr>bk_ID = br_id m, bk_TenantID = br_tenant_id m, bk_BookingNumber = br_booking_number m,
      bk_CustomerID = br_customer_id m, bk_RouteID = br_route_id m,
      bk_PickupDate = br_pickup_date m, bk_VehicleType = br_vehicle_type m,
      bk_Passengers = br_passengers m, bk_CargoWeight = br_cargo_weight m,
      bk_Price = FloatToMoney oor (br_price m) ''INR'',
      bk_Notes = (case br_notes m of Some s \<Rightarrow> s | None \<Rightarrow> []), bk_Status = br_status m,
      bk_CreatedAt = br_created_at m, bk_UpdatedAt = br_updated_at m, bk_Version = br_version m,
      bk_events = []\<rparr>"

definition Booking_MapToPersistence :: "BookingAggregate \<Rightarrow> SQLBookingModel" where
  "Booking_MapToPersistence agg =
     \<lparr>br_id = bk_ID agg, br_booking_number = bk_BookingNumber agg,
      br_customer_id = bk_CustomerID agg, br_pickup_date = bk_PickupDate agg,
      br_route_id = bk_RouteID agg, br_vehicle_type = bk_VehicleType agg,
      br_passengers = bk_Passengers agg, br_cargo_weight = bk_CargoWeight agg,
      br_price = MoneyToFloat (bk_Price agg),
      br_notes = (if bk_Notes agg \<noteq> [] then Some (bk_Notes agg) else None),
      br_status = bk_Status agg, br_tenant_id = bk_TenantID agg, br_version = bk_Version agg,
      br_created_at = bk_CreatedAt agg, br_updated_at = bk_UpdatedAt agg\<rparr>"

section \<open>Repository\<close>

record BookingReadModel =
  brm_ID :: string
  brm_BookingNumber :: string
  brm_CustomerID :: string
  brm_CustomerName :: string
  brm_CustomerCompany :: string
  brm_RouteID :: string
  brm_RouteSource :: string
  brm_RouteDestination :: string
  brm_PickupDate :: go_time
  brm_VehicleType :: string
  brm_Passengers :: int
  brm_CargoWeight :: "float64 option"
  brm_Price :: float64
  brm_Notes :: string
  brm_Status :: string
  brm_CreatedAt :: go_time
  brm_UpdatedAt :: go_time

definition booking_read_model :: "booking_joined \<Rightarrow> BookingReadModel" where
  "booking_read_model = (\<lambda>(b, c, r).
     \<lparr>brm_ID = br_id b, brm_BookingNumber = br_booking_number b, brm_CustomerID = br_customer_id b,
      brm_CustomerName = cu_name c,
      brm_CustomerCompany = (case cu_company c of Some s \<Rightarrow> s | None \<Rightarrow> []),
      brm_RouteID = br_route_id b, brm_RouteSource = ro_source r,
      brm_RouteDestination = ro_destination r, brm_PickupDate = br_pickup_date b,
      brm_VehicleType = br_vehicle_type b, brm_Passengers = br_passengers b,
      brm_CargoWeight = br_cargo_weight b, brm_Price = br_price b,
      brm_Notes = (case br_notes b of Some s \<Rightarrow> s | None \<Rightarrow> []), brm_Status = br_status b,
      brm_CreatedAt = br_created_at b, brm_UpdatedAt = br_updated_at b\<rparr>)"

definition BookingRepository_Exists :: "BookingID \<Rightarrow> TenantID \<Rightarrow> bool wact" where
  "BookingRepository_Exists i t =
     bindE (tryE (query (GetBookingByID i t))) (\<lambda>r. case r of
       Inr _ \<Rightarrow> ret True
     | Inl e \<Rightarrow> (if errors_Is_NoRows e then ret False else raise e))"

definition BookingRepository_Find :: "BookingID \<Rightarrow> TenantID \<Rightarrow> BookingAggregate wact" where
  "BookingRepository_Find i t =
     bindE (noRowsAs ''booking not found'' (query (GetBookingByID i t))) (\<lambda>(b, c, r).
     bindE getEnv (\<lambda>e. ret (Booking_MapToAggregate (env_oor e) b)))"

definition BookingRepository_FindByNumber :: "string \<Rightarrow> TenantID \<Rightarrow> BookingAggregate wact" where
  "BookingRepository_FindByNumber n t =
     bindE (noRowsAs ''booking not found'' (query (GetBookingByNumber n t))) (\<lambda>(b, c, r).
     bindE getEnv (\<lambda>e. ret (Booking_MapToAggregate (env_oor e) b)))"

definition BookingRepository_Save :: "BookingAggregate \<Rightarrow> BookingAggregate wact" where
  "BookingRepository_Save b =
     bindE (BookingRepository_Exists (bk_ID b) (bk_TenantID b)) (\<lambda>ex.
     bindE (let p = Booking_MapToPersistence b in
            if ex
            then seqE (noRowsAs ''concurrency conflict: booking modified by another process''
                         (stmt (UpdateBooking p)))
                   (ret (b\<lparr>bk_Version := wrap64 (bk_Version b + 1)\<rparr>))
            else seqE (stmt (CreateBooking p)) (ret (b\<lparr>bk_Version := 1\<rparr>))) (\<lambda>b'.
     seqE (OutboxWriter_SaveEvents (bk_ID b') ''Booking'' (map EvBooking (bk_events b')))
       (ret (BookingAggregate_ClearEvents b'))))"

definition BookingRepository_GetReadModel :: "BookingID \<Rightarrow> TenantID \<Rightarrow> BookingReadModel wact" where
  "BookingRepository_GetReadModel i t =
     bindE (noRowsAs ''booking not found'' (query (GetBookingByID i t))) (\<lambda>x. ret (booking_read_model x))"

definition BookingRepository_SearchReadModels ::
  "TenantID \<Rightarrow> string \<Rightarrow> string \<Rightarrow> int \<Rightarrow> int \<Rightarrow> (BookingReadModel list \<times> int) wact" where
  "BookingRepository_SearchReadModels t q status limit offset =
     bindE (query (SearchBookings t q status limit offset)) (\<lambda>rows.
     bindE (query (CountBookings t q status)) (\<lambda>count.
     ret (map booking_read_model rows, count)))"

definition BookingRepository_Delete :: "BookingID \<Rightarrow> TenantID \<Rightarrow> unit wact" where
  "BookingRepository_Delete i t = stmt (DeleteBooking i t)"

end
