(* ===== verification/Trip_Repository.thy ===== *)
theory Trip_Repository
  imports Booking_Repository
begin

text \<open>
  Persistence of trips: the SQL statements (\<open>db/query/trips.sql\<close>, generated as
  \<open>db/generated/sqlite/trips.sql.go\<close>, and the two searches written out in the repository),
  the converter and the repository (\<open>internal/trip/infrastructure/persistence/sql\<close>).
  \<open>SQLTripModel\<close> has the columns the statements read and write, so it is the row type.
\<close>

section \<open>SQL\<close>

type_synonym SQLTripModel = trip_row
type_synonym trip_joined = "trip_row \<times> driver_row option \<times> vehicle_row option \<times> route_row option"

definition find_driver :: "database \<Rightarrow> string \<Rightarrow> driver_row option" where
  "find_driver d i = find (\<lambda>r. dw_id r = i) (db_drivers d)"

definition find_vehicle :: "database \<Rightarrow> string \<Rightarrow> vehicle_row option" where
  "find_vehicle d i = find (\<lambda>r. vw_id r = i) (db_vehicles d)"

text \<open>\<open>trips t LEFT JOIN drivers d ... LEFT JOIN vehicles v ... LEFT JOIN routes r ...\<close>\<close>

definition join_trip :: "database \<Rightarrow> trip_row \<Rightarrow> trip_joined" where
  "join_trip d t =
     (t, Option.bind (tw_driver_id t) (find_driver d), Option.bind (tw_vehicle_id t) (find_vehicle d),
      find_route d (tw_route_id t))"

definition GetTripByID :: "string \<Rightarrow> string \<Rightarrow> go_time \<Rightarrow> database \<Rightarrow> trip_joined result" where
  "GetTripByID i t now d =
     one_row (map_option (join_trip d) (find (\<lambda>r. tw_id r = i \<and> tw_tenant_id r = t) (db_trips d)))"

definition GetTripByNumber :: "string \<Rightarrow> string \<Rightarrow> go_time \<Rightarrow> database \<Rightarrow> trip_joined result" where
  "GetTripByNumber n t now d =
     one_row (map_option (join_trip d) (find (\<lambda>r. tw_trip_number r = n \<and> tw_tenant_id r = t) (db_trips d)))"

definition trip_check_statuses :: "string list" where
  "trip_check_statuses = [''draft'', ''scheduled'', ''assigned'', ''started'', ''reached_pickup'',
     ''in_transit'', ''delivered'', ''completed'', ''cancelled'']"

definition trip_references :: "database \<Rightarrow> trip_row \<Rightarrow> bool" where
  "trip_references d r \<longleftrightarrow>
     (case tw_booking_id r of None \<Rightarrow> True | Some i \<Rightarrow> i \<in> br_id ` set (db_bookings d))
     \<and> (case tw_driver_id r of None \<Rightarrow> True | Some i \<Rightarrow> i \<in> dw_id ` set (db_drivers d))
     \<and> (case tw_vehicle_id r of None \<Rightarrow> True | Some i \<Rightarrow> i \<in> vw_id ` set (db_vehicles d))
     \<and> tw_route_id r \<in> ro_id ` set (db_routes d)"

definition trip_violation :: "bool \<Rightarrow> database \<Rightarrow> trip_row list \<Rightarrow> trip_row \<Rightarrow> goerr option" where
  "trip_violation fk d others r =
     (if tw_status r \<notin> set trip_check_statuses
      then Some (ErrConstraint CheckConstraint ''trips.status'')
      else if tw_id r \<in> tw_id ` set others then Some (ErrConstraint UniqueConstraint ''trips.id'')
      else if tw_trip_number r \<in> tw_trip_number ` set others
      then Some (ErrConstraint UniqueConstraint ''trips.trip_number'')
      else if fk \<and> \<not> trip_references d r then Some (ErrConstraint ForeignKeyConstraint ''trips'')
      else None)"

definition CreateTrip :: "SQLTripModel \<Rightarrow> SQLTripModel query" where
  "CreateTrip p fk now d =
     (let r = p\<lparr>tw_version := 1, tw_created_at := now, tw_updated_at := now\<rparr> in
      case trip_violation fk d (db_trips d) r of
        Some e \<Rightarrow> Inl e
      | None \<Rightarrow> Inr (r, d\<lparr>db_trips := db_trips d @ [r]\<rparr>))"

definition trip_selected :: "SQLTripModel \<Rightarrow> trip_row \<Rightarrow> bool" where
  "trip_selected p r \<longleftrightarrow> tw_id r = tw_id p \<and> tw_tenant_id r = tw_tenant_id p \<and> tw_version r = tw_version p"

definition trip_set :: "SQLTripModel \<Rightarrow> go_time \<Rightarrow> trip_row \<Rightarrow> trip_row" where
  "trip_set p now r =
     r\<lparr>tw_trip_number := tw_trip_number p, tw_booking_id := tw_booking_id p,
       tw_driver_id := tw_driver_id p, tw_vehicle_id := tw_vehicle_id p, tw_route_id := tw_route_id p,
       tw_departure_time := tw_departure_time p, tw_arrival_time := tw_arrival_time p,
       tw_status := tw_status p, tw_remarks := tw_remarks p, tw_started_at := tw_started_at p,
       tw_reached_pickup_at := tw_reached_pickup_at p, tw_in_transit_at := tw_in_transit_at p,
       tw_delivered_at := tw_delivered_at p, tw_completed_at := tw_completed_at p,
       tw_version := tw_version r + 1, tw_updated_at := now\<rparr>"

definition UpdateTrip :: "SQLTripModel \<Rightarrow> SQLTripModel query" where
  "UpdateTrip p fk now d =
     (case find (trip_selected p) (db_trips d) of
        None \<Rightarrow> Inl ErrNoRows
      | Some r \<Rightarrow>
          (case trip_violation fk d (filter (\<lambda>x. tw_id x \<noteq> tw_id p) (db_trips d)) (trip_set p now r) of
             Some e \<Rightarrow> Inl e
           | None \<Rightarrow> Inr (trip_set p now r,
               d\<lparr>db_trips := update_where (trip_selected p) (trip_set p now) (db_trips d)\<rparr>)))"

definition conflict_statuses :: "string list" where
  "conflict_statuses = [''scheduled'', ''assigned'', ''started'', ''reached_pickup'', ''in_transit'',
     ''delivered'']"

text \<open>
  The conflict queries compare with a nullable parameter, which is NULL for the empty id and then
  selects nothing; the excluded trip may be empty.
\<close>

definition nullString :: "string \<Rightarrow> string option" where
  "nullString s = (if s \<noteq> [] then Some s else None)"

definition CheckDriverConflict ::
  "string option \<Rightarrow> string \<Rightarrow> string \<Rightarrow> go_time \<Rightarrow> database \<Rightarrow> trip_row list result" where
  "CheckDriverConflict driverID t excl now d =
     Inr (filter (\<lambda>r. driverID \<noteq> None \<and> tw_driver_id r = driverID \<and> tw_tenant_id r = t
        \<and> tw_status r \<in> set conflict_statuses \<and> (excl = [] \<or> tw_id r \<noteq> excl)) (db_trips d))"

definition CheckVehicleConflict ::
  "string option \<Rightarrow> string \<Rightarrow> string \<Rightarrow> go_time \<Rightarrow> database \<Rightarrow> trip_row list result" where
  "CheckVehicleConflict vehicleID t excl now d =
     Inr (filter (\<lambda>r. vehicleID \<noteq> None \<and> tw_vehicle_id r = vehicleID \<and> tw_tenant_id r = t
        \<and> tw_status r \<in> set conflict_statuses \<and> (excl = [] \<or> tw_id r \<noteq> excl)) (db_trips d))"

text \<open>A \<open>LIKE\<close> on a column of a joined row that is missing is NULL, and so not true.\<close>

definition like_opt :: "string \<Rightarrow> string option \<Rightarrow> bool" where
  "like_opt p s \<longleftrightarrow> (case s of None \<Rightarrow> False | Some t \<Rightarrow> sql_like p t)"

definition trip_matches :: "string \<Rightarrow> string \<Rightarrow> string \<Rightarrow> trip_joined \<Rightarrow> bool" where
  "trip_matches t q status = (\<lambda>(tr, dr, vh, ro).
     let pat = contains_pattern q in
     tw_tenant_id tr = t
     \<and> (q = [] \<or> sql_like pat (tw_trip_number tr)
        \<or> like_opt pat (map_option dw_first_name dr) \<or> like_opt pat (map_option dw_last_name dr)
        \<or> like_opt pat (map_option vw_registration_number vh)
        \<or> like_opt pat (map_option ro_source ro) \<or> like_opt pat (map_option ro_destination ro))
     \<and> (status = [] \<or> tw_status tr = status))"

definition search_trips ::
  "(trip_row \<Rightarrow> bool) \<Rightarrow> string \<Rightarrow> string \<Rightarrow> string \<Rightarrow> int \<Rightarrow> int \<Rightarrow> go_time \<Rightarrow> database \<Rightarrow> trip_joined list result" where
  "search_trips driverClause t q status limit offset now d =
     Inr (sql_page limit offset (sort_key (\<lambda>(tr, _). - tw_departure_time tr)
       (filter (trip_matches t q status) (map (join_trip d) (filter driverClause (db_trips d))))))"

definition count_trips ::
  "(trip_row \<Rightarrow> bool) \<Rightarrow> string \<Rightarrow> string \<Rightarrow> string \<Rightarrow> go_time \<Rightarrow> database \<Rightarrow> int result" where
  "count_trips driverClause t q status now d =
     Inr (int (length (filter (trip_matches t q status) (map (join_trip d) (filter driverClause (db_trips d))))))"

section \<open>Converter\<close>

definition Trip_MapToAggregate :: "SQLTripModel \<Rightarrow> TripAggregate" where
  "Trip_MapToAggregate m =
     \<lparr>tr_ID = tw_id m, tr_TenantID = tw_tenant_id m, tr_TripNumber = tw_trip_number m,
      tr_BookingID = tw_booking_id m, tr_DriverID = tw_driver_id m, tr_VehicleID = tw_vehicle_id m,
      tr_RouteID = tw_route_id m, tr_DepartureTime = tw_departure_time m,
      tr_ArrivalTime = tw_arrival_time m, tr_Status = tw_status m,
      tr_Remarks = (case tw_remarks m of Some s \<Rightarrow> s | None \<Rightarrow> []),
      tr_StartedAt = tw_started_at m, tr_ReachedPickupAt = tw_reached_pickup_at m,
      tr_InTransitAt = tw_in_transit_at m, tr_DeliveredAt = tw_delivered_at m,
      tr_CompletedAt = tw_completed_at m, tr_CreatedAt = tw_created_at m,
      tr_UpdatedAt = tw_updated_at m, tr_Version = tw_version m, tr_events = []\<rparr>"

definition Trip_MapToPersistence :: "TripAggregate \<Rightarrow> SQLTripModel" where
  "Trip_MapToPersistence agg =
     \<lparr>tw_id = tr_ID agg, tw_trip_number = tr_TripNumber agg, tw_booking_id = tr_BookingID agg,
      tw_driver_id = tr_DriverID agg, tw_vehicle_id = tr_VehicleID agg, tw_route_id = tr_RouteID agg,
      tw_departure_time = tr_DepartureTime agg, tw_arrival_time = tr_ArrivalTime agg,
      tw_status = tr_Status agg, tw_remarks = nullString (tr_Remarks agg),
      tw_tenant_id = tr_TenantID agg, tw_version = tr_Version agg, tw_created_at = tr_CreatedAt agg,
      tw_updated_at = tr_UpdatedAt agg, tw_started_at = tr_StartedAt agg,
      tw_reached_pickup_at = tr_ReachedPickupAt agg, tw_in_transit_at = tr_InTransitAt agg,
      tw_delivered_at = tr_DeliveredAt agg, tw_completed_at = tr_CompletedAt agg\<rparr>"

section \<open>Repository\<close>

record TripReadModel =
  trm_ID :: string
  trm_TripNumber :: string
  trm_BookingID :: "string option"
  trm_DriverID :: "string option"
  trm_DriverDisplayID :: string
  trm_DriverFirstName :: string
  trm_DriverLastName :: string
  trm_VehicleID :: "string option"
  trm_VehicleRegistrationNumber :: string
  trm_VehicleNumber :: string
  trm_RouteID :: string
  trm_RouteSource :: string
  trm_RouteDestination :: string
  trm_DepartureTime :: go_time
  trm_ArrivalTime :: "go_time option"
  trm_Status :: string
  trm_Remarks :: string
  trm_CreatedAt :: go_time
  trm_UpdatedAt :: go_time
  trm_StartedAt :: "go_time option"
  trm_ReachedPickupAt :: "go_time option"
  trm_InTransitAt :: "go_time option"
  trm_DeliveredAt :: "go_time option"
  trm_CompletedAt :: "go_time option"

record ConflictInfo =
  ci_ID :: string
  ci_TripNumber :: string
  ci_Status :: string
  ci_DepartureTime :: go_time
  ci_ArrivalTime :: "go_time option"

definition str_or_empty :: "string option \<Rightarrow> string" where
  "str_or_empty s = (case s of Some x \<Rightarrow> x | None \<Rightarrow> [])"

definition trip_read_model :: "trip_joined \<Rightarrow> TripReadModel" where
  "trip_read_model = (\<lambda>(t, d, v, r).
     \<lparr>trm_ID = tw_id t, trm_TripNumber = tw_trip_number t, trm_BookingID = tw_booking_id t,
      trm_DriverID = tw_driver_id t, trm_DriverDisplayID = str_or_empty (map_option dw_driver_id d),
      trm_DriverFirstName = str_or_empty (map_option dw_first_name d),
      trm_DriverLastName = str_or_empty (map_option dw_last_name d), trm_VehicleID = tw_vehicle_id t,
      trm_VehicleRegistrationNumber = str_or_empty (map_option vw_registration_number v),
      trm_VehicleNumber = str_or_empty (map_option vw_vehicle_number v), trm_RouteID = tw_route_id t,
      trm_RouteSource = str_or_empty (map_option ro_source r),
      trm_RouteDestination = str_or_empty (map_option ro_destination r),
      trm_DepartureTime = tw_departure_time t, trm_ArrivalTime = tw_arrival_time t,
      trm_Status = tw_status t, trm_Remarks = str_or_empty (tw_remarks t),
      trm_CreatedAt = tw_created_at t, trm_UpdatedAt = tw_updated_at t,
      trm_StartedAt = tw_started_at t, trm_ReachedPickupAt = tw_reached_pickup_at t,
      trm_InTransitAt = tw_in_transit_at t, trm_DeliveredAt = tw_delivered_at t,
      trm_CompletedAt = tw_completed_at t\<rparr>)"

definition conflict_info :: "trip_row \<Rightarrow> ConflictInfo" where
  "conflict_info r =
     \<lparr>ci_ID = tw_id r, ci_TripNumber = tw_trip_number r, ci_Status = tw_status r,
      ci_DepartureTime = tw_departure_time r, ci_ArrivalTime = tw_arrival_time r\<rparr>"

definition TripRepository_Exists :: "TripID \<Rightarrow> TenantID \<Rightarrow> bool wact" where
  "TripRepository_Exists i t =
     bindE (tryE (query (GetTripByID i t))) (\<lambda>r. case r of
       Inr _ \<Rightarrow> ret True
     | Inl e \<Rightarrow> (if errors_Is_NoRows e then ret False else raise e))"

definition TripRepository_Save :: "TripAggregate \<Rightarrow> TripAggregate wact" where
  "TripRepository_Save t =
     bindE (TripRepository_Exists (tr_ID t) (tr_TenantID t)) (\<lambda>ex.
     bindE (let p = Trip_MapToPersistence t in
            if ex
            then seqE (noRowsAs ''concurrency conflict: trip modified by another process''
                         (stmt (UpdateTrip p)))
                   (ret (t\<lparr>tr_Version := wrap64 (tr_Version t + 1)\<rparr>))
            else seqE (stmt (CreateTrip p)) (ret (t\<lparr>tr_Version := 1\<rparr>))) (\<lambda>t'.
     seqE (OutboxWriter_SaveEvents (tr_ID t') ''Trip'' (map EvTrip (tr_events t')))
       (ret (TripAggregate_ClearEvents t'))))"

definition TripRepository_Find :: "TripID \<Rightarrow> TenantID \<Rightarrow> TripAggregate wact" where
  "TripRepository_Find i t =
     bindE (noRowsAs ''trip not found'' (query (GetTripByID i t))) (\<lambda>x. ret (Trip_MapToAggregate (fst x)))"

definition TripRepository_FindByNumber :: "string \<Rightarrow> TenantID \<Rightarrow> TripAggregate wact" where
  "TripRepository_FindByNumber n t =
     bindE (noRowsAs ''trip not found'' (query (GetTripByNumber n t))) (\<lambda>x. ret (Trip_MapToAggregate (fst x)))"

definition TripRepository_CheckDriverConflict :: "string \<Rightarrow> TenantID \<Rightarrow> string \<Rightarrow> ConflictInfo list wact" where
  "TripRepository_CheckDriverConflict driverID t excl =
     bindE (query (CheckDriverConflict (nullString driverID) t excl)) (\<lambda>rows. ret (map conflict_info rows))"

definition TripRepository_CheckVehicleConflict :: "string \<Rightarrow> TenantID \<Rightarrow> string \<Rightarrow> ConflictInfo list wact" where
  "TripRepository_CheckVehicleConflict vehicleID t excl =
     bindE (query (CheckVehicleConflict (nullString vehicleID) t excl)) (\<lambda>rows. ret (map conflict_info rows))"

definition TripRepository_GetReadModel :: "TripID \<Rightarrow> TenantID \<Rightarrow> TripReadModel wact" where
  "TripRepository_GetReadModel i t =
     bindE (noRowsAs ''trip not found'' (query (GetTripByID i t))) (\<lambda>x. ret (trip_read_model x))"

definition TripRepository_SearchReadModels ::
  "TenantID \<Rightarrow> string \<Rightarrow> string \<Rightarrow> int \<Rightarrow> int \<Rightarrow> (TripReadModel list \<times> int) wact" where
  "TripRepository_SearchReadModels t q status limit offset =
     bindE (query (search_trips (\<lambda>_. True) t q status limit offset)) (\<lambda>rows.
     bindE (query (count_trips (\<lambda>_. True) t q status)) (\<lambda>count.
     ret (map trip_read_model rows, count)))"

end
