(* ===== verification/Trip_Laws.thy ===== *)
theory Trip_Laws
  imports Trip_Repository
begin

text \<open>
  Laws of the trip repository: the constraints of the table are an invariant, a load returns
  the stored row, a save updates exactly the loaded version and appends the events of the
  aggregate to the outbox.  The versioned-repository contract is interpreted here.
\<close>

definition trips_ok :: "database \<Rightarrow> bool" where
  "trips_ok d \<longleftrightarrow> distinct (map tw_id (db_trips d))
     \<and> distinct (map tw_trip_number (db_trips d))
     \<and> (\<forall>r\<in>set (db_trips d). tw_status r \<in> set trip_check_statuses \<and> 1 \<le> tw_version r)"

definition trip_at :: "database \<Rightarrow> string \<Rightarrow> string \<Rightarrow> trip_row option" where
  "trip_at d i t = find (\<lambda>r. tw_id r = i \<and> tw_tenant_id r = t) (db_trips d)"

definition trip_stored :: "database \<Rightarrow> string \<Rightarrow> string \<Rightarrow> int option" where
  "trip_stored d i t = map_option tw_version (trip_at d i t)"

section \<open>Statements\<close>

lemma trip_violation_None:
  "trip_violation fk d others r = None \<longleftrightarrow>
     tw_status r \<in> set trip_check_statuses
     \<and> tw_id r \<notin> tw_id ` set others \<and> tw_trip_number r \<notin> tw_trip_number ` set others
     \<and> (fk \<longrightarrow> trip_references d r)"
  by (simp add: trip_violation_def)

lemma trip_set_simps [simp]:
  "tw_id (trip_set p now r) = tw_id r"
  "tw_tenant_id (trip_set p now r) = tw_tenant_id r"
  "tw_trip_number (trip_set p now r) = tw_trip_number p"
  "tw_status (trip_set p now r) = tw_status p"
  "tw_version (trip_set p now r) = tw_version r + 1"
  by (simp_all add: trip_set_def)

lemma CreateTrip_Inr:
  assumes "CreateTrip p fk now d = Inr (x, d')"
  shows "d' = d\<lparr>db_trips := db_trips d @ [x]\<rparr> \<and> tw_id x = tw_id p
    \<and> tw_tenant_id x = tw_tenant_id p \<and> tw_status x = tw_status p \<and> tw_version x = 1
    \<and> tw_trip_number x = tw_trip_number p
    \<and> trip_violation fk d (db_trips d) x = None"
  using assms by (auto simp: CreateTrip_def Let_def split: option.splits)

lemma UpdateTrip_Inr:
  assumes "UpdateTrip p fk now d = Inr (x, d')"
  shows "\<exists>r. r \<in> set (db_trips d) \<and> trip_selected p r \<and> x = trip_set p now r
    \<and> d' = d\<lparr>db_trips := update_where (trip_selected p) (trip_set p now) (db_trips d)\<rparr>
    \<and> trip_violation fk d (filter (\<lambda>y. tw_id y \<noteq> tw_id p) (db_trips d)) x = None"
  using assms by (auto simp: UpdateTrip_def split: option.splits dest!: find_SomeD)

lemma trips_ok_create:
  assumes "trips_ok d" and "CreateTrip p fk now d = Inr (x, d')"
  shows "trips_ok d'"
  using assms(1) CreateTrip_Inr [OF assms(2)]
  by (auto simp: trips_ok_def trip_violation_None)

lemma trips_ok_update:
  assumes "trips_ok d" and "UpdateTrip p fk now d = Inr (x, d')"
  shows "trips_ok d'"
proof -
  from UpdateTrip_Inr [OF assms(2)] obtain r where r: "r \<in> set (db_trips d)" "trip_selected p r"
    "x = trip_set p now r"
    "d' = d\<lparr>db_trips := update_where (trip_selected p) (trip_set p now) (db_trips d)\<rparr>"
    "trip_violation fk d (filter (\<lambda>y. tw_id y \<noteq> tw_id p) (db_trips d)) x = None" by blast
  have ids: "map tw_id (update_where (trip_selected p) (trip_set p now) (db_trips d)) = map tw_id (db_trips d)"
    by (rule map_update_where) simp
  have "distinct (map tw_trip_number (update_where (trip_selected p) (trip_set p now) (db_trips d)))"
    using assms(1) r(3,5)
    by (intro distinct_update_where [of tw_id _ _ _ "tw_id p" _ "tw_trip_number p"])
      (auto simp: trips_ok_def trip_violation_None trip_selected_def)
  moreover have "\<forall>y\<in>set (db_trips d'). tw_status y \<in> set trip_check_statuses \<and> 1 \<le> tw_version y"
    using assms(1) r by (auto simp: trips_ok_def trip_violation_None set_update_where
        trip_selected_def)
  ultimately show ?thesis using assms(1) ids r(4) by (simp add: trips_ok_def)
qed

lemma GetTripByID_at:
  assumes "GetTripByID i t now d = Inr x"
  shows "trip_at d i t = Some (fst x) \<and> tw_id (fst x) = i \<and> tw_tenant_id (fst x) = t"
  using assms
  by (auto simp: GetTripByID_def one_row_def trip_at_def join_trip_def split: option.splits dest: find_SomeD)

section \<open>Repository\<close>

lemma Trip_Exists_Inr:
  assumes "TripRepository_Exists i t w = (r, w')"
  shows "same_store w w'"
  using assms
  by (auto simp: TripRepository_Exists_def bindE_def tryE_def ret_def raise_def
      dest: query_same_store split: prod.splits sum.splits if_splits)

lemma Trip_Find_store:
  assumes "TripRepository_Find i t w = (r, w')"
  shows "same_store w w'"
  using assms
  by (auto simp: TripRepository_Find_def bindE_def ret_def
      dest: noRowsAs_query_same_store split: prod.splits sum.splits)

lemma Trip_Find_Inr:
  assumes "TripRepository_Find i t w = (Inr a, w')"
  shows "\<exists>r. trip_at (w_db w) i t = Some r \<and> tw_id r = i \<and> tw_tenant_id r = t \<and> a = Trip_MapToAggregate r"
proof -
  from assms obtain x now where "GetTripByID i t now (w_db w) = Inr x" and "a = Trip_MapToAggregate (fst x)"
    by (auto simp: TripRepository_Find_def act_inv)
  with GetTripByID_at show ?thesis by blast
qed

text \<open>What a successful save leaves in the tables.\<close>

lemma Trip_Save_Inr:
  assumes "TripRepository_Save b w = (Inr b', w')"
  obtains d1 x fk now rows where
    "UpdateTrip (Trip_MapToPersistence b) fk now (w_db w) = Inr (x, d1)
      \<or> CreateTrip (Trip_MapToPersistence b) fk now (w_db w) = Inr (x, d1)"
    and "outbox_rows_for (tr_ID b) ''Trip'' (map EvTrip (tr_events b)) rows"
    and "w_db w' = d1\<lparr>db_outbox_events := db_outbox_events d1 @ rows\<rparr>"
    and "w_env w' = w_env w" and "w_side w' = w_side w"
proof -
  let ?p = "Trip_MapToPersistence b"
  from assms obtain ex w1 b1 w2 w3 where
    e: "TripRepository_Exists (tr_ID b) (tr_TenantID b) w = (Inr ex, w1)"
    and m: "(if ex then seqE (noRowsAs ''concurrency conflict: trip modified by another process''
          (stmt (UpdateTrip ?p))) (ret (b\<lparr>tr_Version := wrap64 (tr_Version b + 1)\<rparr>))
        else seqE (stmt (CreateTrip ?p)) (ret (b\<lparr>tr_Version := 1\<rparr>))) w1 = (Inr b1, w2)"
    and o: "OutboxWriter_SaveEvents (tr_ID b1) ''Trip'' (map EvTrip (tr_events b1)) w2 = (Inr (), w3)"
    and w3: "w' = w3"
    by (auto simp: TripRepository_Save_def act_inv Let_def)
  note s1 = Trip_Exists_Inr [OF e, unfolded same_store_def]
  obtain x fk now where u: "UpdateTrip ?p fk now (w_db w) = Inr (x, w_db w2)
      \<or> CreateTrip ?p fk now (w_db w) = Inr (x, w_db w2)"
    and b1: "tr_ID b1 = tr_ID b" "tr_events b1 = tr_events b"
    and s2: "w_env w2 = w_env w" "w_side w2 = w_side w"
    using m s1 by (cases ex) (auto simp: act_inv stmt_Inr, blast+)
  from SaveEvents_effect [OF o] obtain rows where
    "outbox_rows_for (tr_ID b1) ''Trip'' (map EvTrip (tr_events b1)) rows"
    "w_db w3 = (w_db w2)\<lparr>db_outbox_events := db_outbox_events (w_db w2) @ rows\<rparr>"
    "w_env w3 = w_env w2" "w_side w3 = w_side w2" by blast
  with that u b1 s2 w3 show thesis by simp
qed

lemma Trip_Save_ok:
  assumes "trips_ok (w_db w)" and "TripRepository_Save b w = (Inr b', w')"
  shows "trips_ok (w_db w')"
proof -
  from assms(2) obtain d1 x fk now rows where
    u: "UpdateTrip (Trip_MapToPersistence b) fk now (w_db w) = Inr (x, d1)
      \<or> CreateTrip (Trip_MapToPersistence b) fk now (w_db w) = Inr (x, d1)"
    and w': "w_db w' = d1\<lparr>db_outbox_events := db_outbox_events d1 @ rows\<rparr>"
    by (rule Trip_Save_Inr)
  from u have "trips_ok d1" using trips_ok_update trips_ok_create assms(1) by blast
  then show ?thesis by (simp add: trips_ok_def w')
qed

lemma UpdateTrip_at:
  assumes "trips_ok d" and "UpdateTrip p fk now d = Inr (x, d')"
  shows "\<exists>r. trip_at d (tw_id p) (tw_tenant_id p) = Some r \<and> tw_version r = tw_version p
    \<and> trip_at d' (tw_id p) (tw_tenant_id p) = Some (trip_set p now r)"
proof -
  from UpdateTrip_Inr [OF assms(2)] obtain r where r: "r \<in> set (db_trips d)" "trip_selected p r"
    "d' = d\<lparr>db_trips := update_where (trip_selected p) (trip_set p now) (db_trips d)\<rparr>"
    by blast
  have "trip_at d (tw_id p) (tw_tenant_id p) = Some r"
    unfolding trip_at_def using assms(1) r(1,2)
    by (intro find_distinct_key [of tw_id]) (auto simp: trips_ok_def trip_selected_def)
  moreover from this have "trip_at d' (tw_id p) (tw_tenant_id p) = Some (trip_set p now r)"
    unfolding trip_at_def r(3) using r(2) by (simp add: find_update_where)
  ultimately show ?thesis using r(2) by (simp add: trip_selected_def)
qed

interpretation trip_repo: versioned_repository trips_ok trip_stored
  TripRepository_Find TripRepository_Save tr_ID tr_TenantID tr_Version
proof
  fix i t w r w' assume "TripRepository_Find i t w = (r, w')"
  then show "same_store w w'" by (rule Trip_Find_store)
next
  fix w i t a w' assume "trips_ok (w_db w)" "TripRepository_Find i t w = (Inr a, w')"
  from Trip_Find_Inr [OF this(2)]
  show "tr_ID a = i \<and> tr_TenantID a = t \<and> trip_stored (w_db w) i t = Some (tr_Version a)"
    by (auto simp: trip_stored_def Trip_MapToAggregate_def)
next
  fix w a a' w' assume "trips_ok (w_db w)" "TripRepository_Save a w = (Inr a', w')"
  then show "trips_ok (w_db w')" by (rule Trip_Save_ok)
next
  fix w a a' w' v
  assume ok: "trips_ok (w_db w)" and s: "TripRepository_Save a w = (Inr a', w')"
    and st: "trip_stored (w_db w) (tr_ID a) (tr_TenantID a) = Some v"
  let ?p = "Trip_MapToPersistence a"
  have p: "tw_id ?p = tr_ID a" "tw_tenant_id ?p = tr_TenantID a" "tw_version ?p = tr_Version a"
    by (simp_all add: Trip_MapToPersistence_def)
  from s obtain d1 x fk now rows where
    u: "UpdateTrip ?p fk now (w_db w) = Inr (x, d1) \<or> CreateTrip ?p fk now (w_db w) = Inr (x, d1)"
    and w': "w_db w' = d1\<lparr>db_outbox_events := db_outbox_events d1 @ rows\<rparr>"
    by (rule Trip_Save_Inr)
  from st obtain r where at: "trip_at (w_db w) (tr_ID a) (tr_TenantID a) = Some r" "tw_version r = v"
    by (auto simp: trip_stored_def)
  then have "tr_ID a \<in> tw_id ` set (db_trips (w_db w))"
    by (force simp: trip_at_def dest!: find_SomeD)
  then have "CreateTrip ?p fk now (w_db w) \<noteq> Inr (x, d1)"
    using CreateTrip_Inr [of ?p fk now "w_db w" x d1] p by (auto simp: trip_violation_None)
  with u have "UpdateTrip ?p fk now (w_db w) = Inr (x, d1)" by blast
  from UpdateTrip_at [OF ok this] at p
  show "v = tr_Version a \<and> trip_stored (w_db w') (tr_ID a) (tr_TenantID a) = Some (v + 1)"
    by (auto simp: trip_stored_def w' trip_at_def)
qed

end
