(* ===== verification/Fleet.thy ===== *)
theory Fleet
  imports Booking_Repository
begin

text \<open>
  Drivers and vehicles: SQL, converters and repositories
  (\<open>internal/driver/infrastructure/persistence/sql\<close>,
  \<open>internal/vehicle/infrastructure/persistence/sql\<close>) and their use cases.
\<close>

section \<open>Drivers: SQL and repository\<close>

definition GetDriverByID :: "string \<Rightarrow> string \<Rightarrow> go_time \<Rightarrow> database \<Rightarrow> driver_row result" where
  "GetDriverByID i t now d = one_row (find (\<lambda>r. dw_id r = i \<and> dw_tenant_id r = t) (db_drivers d))"

definition driver_violation :: "driver_row list \<Rightarrow> driver_row \<Rightarrow> goerr option" where
  "driver_violation others r =
     (if dw_status r \<notin> {''available'', ''on_trip'', ''leave'', ''inactive''}
      then Some (ErrConstraint CheckConstraint ''drivers.status'')
      else if dw_id r \<in> dw_id ` set others then Some (ErrConstraint UniqueConstraint ''drivers.id'')
      else if dw_driver_id r \<in> dw_driver_id ` set others
      then Some (ErrConstraint UniqueConstraint ''drivers.driver_id'') else None)"

definition CreateDriver :: "driver_row \<Rightarrow> driver_row query" where
  "CreateDriver p fk now d =
     (let r = p\<lparr>dw_created_at := now, dw_updated_at := now\<rparr> in
      case driver_violation (db_drivers d) r of
        Some e \<Rightarrow> Inl e | None \<Rightarrow> Inr (r, d\<lparr>db_drivers := db_drivers d @ [r]\<rparr>))"

definition driver_set :: "driver_row \<Rightarrow> go_time \<Rightarrow> driver_row \<Rightarrow> driver_row" where
  "driver_set p now r =
     p\<lparr>dw_id := dw_id r, dw_tenant_id := dw_tenant_id r, dw_created_at := dw_created_at r, dw_updated_at := now\<rparr>"

definition UpdateDriver :: "driver_row \<Rightarrow> driver_row query" where
  "UpdateDriver p fk now d =
     (let sel = (\<lambda>r. dw_id r = dw_id p \<and> dw_tenant_id r = dw_tenant_id p) in
      case find sel (db_drivers d) of
        None \<Rightarrow> Inl ErrNoRows
      | Some r \<Rightarrow> (case driver_violation (filter (\<lambda>x. dw_id x \<noteq> dw_id p) (db_drivers d)) (driver_set p now r) of
            Some e \<Rightarrow> Inl e
          | None \<Rightarrow> Inr (driver_set p now r,
              d\<lparr>db_drivers := update_where sel (driver_set p now) (db_drivers d)\<rparr>)))"

definition Driver_ToDomain :: "driver_row \<Rightarrow> DriverAggregate" where
  "Driver_ToDomain d =
     NewDriverAggregate (dw_id d) (dw_tenant_id d) (dw_driver_id d) (dw_first_name d)
       (dw_last_name d) (dw_phone d) (dw_email d) (dw_address d) (dw_license_number d)
       (dw_license_expiry d) (dw_experience_years d) (dw_status d) (dw_emergency_contact_name d)
       (dw_emergency_contact_phone d) (dw_notes d) (dw_created_at d)"

text \<open>The parameters \<open>Save\<close> hands to \<open>CreateDriver\<close> and \<open>UpdateDriver\<close>.\<close>

definition driver_params :: "DriverAggregate \<Rightarrow> driver_row" where
  "driver_params d =
     \<lparr>dw_id = dr_ID d, dw_driver_id = dr_DriverDisplayID d, dw_first_name = dr_FirstName d,
      dw_last_name = dr_LastName d, dw_phone = dr_Phone d, dw_email = dr_Email d,
      dw_address = dr_Address d, dw_license_number = dr_LicenseNumber d,
      dw_license_expiry = dr_LicenseExpiry d, dw_experience_years = dr_ExperienceYears d,
      dw_status = dr_Status d, dw_emergency_contact_name = dr_EmergencyContactName d,
      dw_emergency_contact_phone = dr_EmergencyContactPhone d, dw_notes = dr_Notes d,
      dw_tenant_id = dr_TenantID d, dw_created_at = 0, dw_updated_at = 0\<rparr>"

definition DriverRepository_Save :: "DriverAggregate \<Rightarrow> DriverAggregate wact" where
  "DriverRepository_Save d =
     bindE (tryE (query (GetDriverByID (dr_ID d) (dr_TenantID d)))) (\<lambda>g.
     bindE (case g of
         Inl e \<Rightarrow> (if errors_Is_NoRows e then stmt (CreateDriver (driver_params d)) else raise e)
       | Inr _ \<Rightarrow> stmt (UpdateDriver (driver_params d))) (\<lambda>_.
     seqE (OutboxWriter_SaveEvents (dr_ID d) ''Driver'' (map EvDriver (dr_events d)))
       (ret (DriverAggregate_ClearEvents d))))"

definition DriverRepository_Find :: "DriverID \<Rightarrow> TenantID \<Rightarrow> DriverAggregate wact" where
  "DriverRepository_Find i t = bindE (query (GetDriverByID i t)) (\<lambda>row. ret (Driver_ToDomain row))"

section \<open>Vehicles: SQL and repository\<close>

definition GetVehicleByID :: "string \<Rightarrow> string \<Rightarrow> go_time \<Rightarrow> database \<Rightarrow> vehicle_row result" where
  "GetVehicleByID i t now d = one_row (find (\<lambda>r. vw_id r = i \<and> vw_tenant_id r = t) (db_vehicles d))"

definition vehicle_violation :: "vehicle_row list \<Rightarrow> vehicle_row \<Rightarrow> goerr option" where
  "vehicle_violation others r =
     (if vw_vehicle_type r \<notin> {''truck'', ''mini_truck'', ''bus'', ''van'', ''pickup'', ''tempo''}
      then Some (ErrConstraint CheckConstraint ''vehicles.vehicle_type'')
      else if vw_fuel_type r \<notin> {''diesel'', ''petrol'', ''gas'', ''electric'', ''cng''}
      then Some (ErrConstraint CheckConstraint ''vehicles.fuel_type'')
      else if vw_status r \<notin> {''available'', ''running'', ''maintenance'', ''inactive''}
      then Some (ErrConstraint CheckConstraint ''vehicles.status'')
      else if vw_id r \<in> vw_id ` set others then Some (ErrConstraint UniqueConstraint ''vehicles.id'')
      else if vw_registration_number r \<in> vw_registration_number ` set others
      then Some (ErrConstraint UniqueConstraint ''vehicles.registration_number'') else None)"

definition CreateVehicle :: "vehicle_row \<Rightarrow> vehicle_row query" where
  "CreateVehicle p fk now d =
     (let r = p\<lparr>vw_created_at := now, vw_updated_at := now\<rparr> in
      case vehicle_violation (db_vehicles d) r of
        Some e \<Rightarrow> Inl e | None \<Rightarrow> Inr (r, d\<lparr>db_vehicles := db_vehicles d @ [r]\<rparr>))"

definition vehicle_set :: "vehicle_row \<Rightarrow> go_time \<Rightarrow> vehicle_row \<Rightarrow> vehicle_row" where
  "vehicle_set p now r =
     r\<lparr>vw_registration_number := vw_registration_number p, vw_vehicle_number := vw_vehicle_number p,
       vw_vehicle_type := vw_vehicle_type p, vw_capacity := vw_capacity p,
       vw_fuel_type := vw_fuel_type p, vw_insurance_expiry := vw_insurance_expiry p,
       vw_fitness_expiry := vw_fitness_expiry p, vw_permit_expiry := vw_permit_expiry p,
       vw_status := vw_status p, vw_current_mileage := vw_current_mileage p, vw_updated_at := now\<rparr>"

definition UpdateVehicle :: "vehicle_row \<Rightarrow> vehicle_row query" where
  "UpdateVehicle p fk now d =
     (let sel = (\<lambda>r. vw_id r = vw_id p \<and> vw_tenant_id r = vw_tenant_id p) in
      case find sel (db_vehicles d) of
        None \<Rightarrow> Inl ErrNoRows
      | Some r \<Rightarrow> (case vehicle_violation (filter (\<lambda>x. vw_id x \<noteq> vw_id p) (db_vehicles d)) (vehicle_set p now r) of
            Some e \<Rightarrow> Inl e
          | None \<Rightarrow> Inr (vehicle_set p now r,
              d\<lparr>db_vehicles := update_where sel (vehicle_set p now) (db_vehicles d)\<rparr>)))"

definition Vehicle_ToDomain :: "vehicle_row \<Rightarrow> VehicleAggregate" where
  "Vehicle_ToDomain v =
     NewVehicleAggregate (vw_id v) (vw_tenant_id v) (vw_registration_number v) (vw_vehicle_number v)
       (vw_vehicle_type v) (vw_capacity v) (vw_fuel_type v) (vw_insurance_expiry v)
       (vw_fitness_expiry v) (vw_permit_expiry v) (vw_status v) (vw_current_mileage v)
       (vw_created_at v)"

definition vehicle_params :: "VehicleAggregate \<Rightarrow> vehicle_row" where
  "vehicle_params v =
     \<lparr>vw_id = vh_ID v, vw_registration_number = vh_RegistrationNumber v,
      vw_vehicle_number = vh_VehicleNumber v, vw_vehicle_type = vh_VehicleType v,
      vw_capacity = vh_Capacity v, vw_fuel_type = vh_FuelType v,
      vw_insurance_expiry = vh_InsuranceExpiry v, vw_fitness_expiry = vh_FitnessExpiry v,
      vw_permit_expiry = vh_PermitExpiry v, vw_status = vh_Status v,
      vw_current_mileage = (if vh_CurrentMileage v = Some NaN then None else vh_CurrentMileage v),
      vw_tenant_id = vh_TenantID v, vw_created_at = 0, vw_updated_at = 0, vw_puc_expiry = None,
      vw_maintenance_due = None, vw_maintenance_override_by = None,
      vw_maintenance_override_at = None\<rparr>"

definition VehicleRepository_Save :: "VehicleAggregate \<Rightarrow> VehicleAggregate wact" where
  "VehicleRepository_Save v =
     bindE (tryE (query (GetVehicleByID (vh_ID v) (vh_TenantID v)))) (\<lambda>g.
     bindE (case g of
         Inl e \<Rightarrow> (if errors_Is_NoRows e then stmt (CreateVehicle (vehicle_params v)) else raise e)
       | Inr _ \<Rightarrow> stmt (UpdateVehicle (vehicle_params v))) (\<lambda>_.
     seqE (OutboxWriter_SaveEvents (vh_ID v) ''Vehicle'' (map EvVehicle (vh_events v)))
       (ret (VehicleAggregate_ClearEvents v))))"

definition VehicleRepository_Find :: "VehicleID \<Rightarrow> TenantID \<Rightarrow> VehicleAggregate wact" where
  "VehicleRepository_Find i t = bindE (query (GetVehicleByID i t)) (\<lambda>row. ret (Vehicle_ToDomain row))"

section \<open>Use cases\<close>

record CreateDriverCommand =
  cdc_TenantID :: TenantID
  cdc_FirstName :: string
  cdc_LastName :: string
  cdc_Phone :: string
  cdc_Email :: "string option"
  cdc_Address :: "string option"
  cdc_LicenseNumber :: string
  cdc_LicenseExpiry :: go_time
  cdc_ExperienceYears :: int
  cdc_EmergencyContactName :: "string option"
  cdc_EmergencyContactPhone :: "string option"
  cdc_Notes :: "string option"

record UpdateDriverCommand = CreateDriverCommand +
  udc_ID :: DriverID
  udc_Status :: DriverStatus

definition CreateDriverUseCase_Execute :: "CreateDriverCommand \<Rightarrow> DriverID wact" where
  "CreateDriverUseCase_Execute cmd =
     seqE (failIf (cdc_FirstName cmd = [] \<or> cdc_LastName cmd = []) ''first and last name are required'')
    (seqE (failIf (cdc_Phone cmd = []) ''phone number is required'')
    (bindE GenerateUUID (\<lambda>i.
     bindE (GenerateDisplayID ''DR'') (\<lambda>displayID.
     bindE Now (\<lambda>now.
     let d = NewDriverAggregate i (cdc_TenantID cmd) displayID (cdc_FirstName cmd) (cdc_LastName cmd)
           (cdc_Phone cmd) (cdc_Email cmd) (cdc_Address cmd) (cdc_LicenseNumber cmd)
           (cdc_LicenseExpiry cmd) (cdc_ExperienceYears cmd) DriverAvailable
           (cdc_EmergencyContactName cmd) (cdc_EmergencyContactPhone cmd) (cdc_Notes cmd) now
     in seqE (uow_Execute (DriverRepository_Save d)) (ret i))))))"

definition UpdateDriverUseCase_Execute :: "UpdateDriverCommand \<Rightarrow> unit wact" where
  "UpdateDriverUseCase_Execute cmd =
     transition_use_case (DriverRepository_Find (udc_ID cmd) (cdc_TenantID cmd))
       (DriverAggregate_UpdateDetails (cdc_FirstName cmd) (cdc_LastName cmd) (cdc_Phone cmd)
          (cdc_Email cmd) (cdc_Address cmd) (cdc_LicenseNumber cmd) (cdc_LicenseExpiry cmd)
          (cdc_ExperienceYears cmd) (udc_Status cmd) (cdc_EmergencyContactName cmd)
          (cdc_EmergencyContactPhone cmd) (cdc_Notes cmd))
       DriverRepository_Save (\<lambda>_. ret ())"

record CreateVehicleCommand =
  cvc_TenantID :: TenantID
  cvc_RegistrationNumber :: string
  cvc_VehicleNumber :: string
  cvc_VehicleType :: VehicleType
  cvc_Capacity :: int
  cvc_FuelType :: FuelType
  cvc_InsuranceExpiry :: go_time
  cvc_FitnessExpiry :: go_time
  cvc_PermitExpiry :: go_time
  cvc_CurrentMileage :: "float64 option"

record UpdateVehicleCommand = CreateVehicleCommand +
  uvc_ID :: VehicleID
  uvc_Status :: VehicleStatus

definition CreateVehicleUseCase_Execute :: "CreateVehicleCommand \<Rightarrow> VehicleID wact" where
  "CreateVehicleUseCase_Execute cmd =
     seqE (failIf (cvc_RegistrationNumber cmd = [] \<or> cvc_VehicleNumber cmd = [])
             ''registration number and vehicle number are required'')
    (bindE GenerateUUID (\<lambda>i.
     bindE Now (\<lambda>now.
     let v = NewVehicleAggregate i (cvc_TenantID cmd) (cvc_RegistrationNumber cmd)
           (cvc_VehicleNumber cmd) (cvc_VehicleType cmd) (cvc_Capacity cmd) (cvc_FuelType cmd)
           (cvc_InsuranceExpiry cmd) (cvc_FitnessExpiry cmd) (cvc_PermitExpiry cmd)
           VehicleAvailable (cvc_CurrentMileage cmd) now
     in seqE (uow_Execute (VehicleRepository_Save v)) (ret i))))"

definition UpdateVehicleUseCase_Execute :: "UpdateVehicleCommand \<Rightarrow> unit wact" where
  "UpdateVehicleUseCase_Execute cmd =
     transition_use_case (VehicleRepository_Find (uvc_ID cmd) (cvc_TenantID cmd))
       (VehicleAggregate_UpdateDetails (cvc_RegistrationNumber cmd) (cvc_VehicleNumber cmd)
          (cvc_VehicleType cmd) (cvc_Capacity cmd) (cvc_FuelType cmd) (cvc_InsuranceExpiry cmd)
          (cvc_FitnessExpiry cmd) (cvc_PermitExpiry cmd) (uvc_Status cmd) (cvc_CurrentMileage cmd))
       VehicleRepository_Save (\<lambda>_. ret ())"

section \<open>What is stored\<close>

lemma Driver_Find_Inr:
  assumes "DriverRepository_Find i t w = (Inr a, w')"
  shows "\<exists>row. dw_id row = i \<and> dw_tenant_id row = t \<and> row \<in> set (db_drivers (w_db w))
    \<and> a = Driver_ToDomain row \<and> same_store w w'"
proof -
  from assms obtain row now where q: "query (GetDriverByID i t) w = (Inr row, w')"
    and a: "a = Driver_ToDomain row" and g: "GetDriverByID i t now (w_db w) = Inr row"
    by (auto simp: DriverRepository_Find_def act_inv)
  from g have "find (\<lambda>r. dw_id r = i \<and> dw_tenant_id r = t) (db_drivers (w_db w)) = Some row"
    by (auto simp: GetDriverByID_def one_row_def split: option.splits)
  from find_SomeD [OF this] a query_same_store [OF q] show ?thesis by blast
qed

lemma CreateDriver_outbox:
  "CreateDriver p fk now d = Inr (x, d') \<Longrightarrow> db_outbox_events d' = db_outbox_events d"
  by (auto simp: CreateDriver_def Let_def split: option.splits)

lemma UpdateDriver_outbox:
  "UpdateDriver p fk now d = Inr (x, d') \<Longrightarrow> db_outbox_events d' = db_outbox_events d"
  by (auto simp: UpdateDriver_def Let_def split: option.splits)

lemma Driver_Save_outbox:
  assumes "DriverRepository_Save d w = (Inr d', w')"
  shows "\<exists>rows. outbox_rows_for (dr_ID d) ''Driver'' (map EvDriver (dr_events d)) rows
    \<and> db_outbox_events (w_db w') = db_outbox_events (w_db w) @ rows"
proof -
  from assms obtain g w1 x w2 w3 where
    g: "query (GetDriverByID (dr_ID d) (dr_TenantID d)) w = (g, w1)"
    and m: "(case g of
         Inl e \<Rightarrow> (if errors_Is_NoRows e then stmt (CreateDriver (driver_params d)) else raise e)
       | Inr _ \<Rightarrow> stmt (UpdateDriver (driver_params d))) w1 = (Inr x, w2)"
    and o: "OutboxWriter_SaveEvents (dr_ID d) ''Driver'' (map EvDriver (dr_events d)) w2 = (Inr (), w3)"
    and w3: "w' = w3"
    by (auto simp: DriverRepository_Save_def act_inv)
  have d1: "w_db w1 = w_db w" using query_same_store [OF g] by (simp add: same_store_def)
  have "db_outbox_events (w_db w2) = db_outbox_events (w_db w1)"
    using m by (cases g) (auto simp: act_inv stmt_Inr dest: CreateDriver_outbox UpdateDriver_outbox split: if_splits)
  with SaveEvents_effect [OF o] d1 w3 show ?thesis by auto
qed

text \<open>
  Every update of a driver announces a driver that was just created: loading an
  aggregate goes through its constructor, which records \<open>DriverCreatedEvent\<close>, so a
  successful \<open>UpdateDriver\<close> appends a creation event and the update event to the outbox.
\<close>

theorem update_driver_reannounces_creation:
  assumes "UpdateDriverUseCase_Execute cmd w = (Inr u, w')"
  shows "\<exists>e1 e2. db_outbox_events (w_db w') = db_outbox_events (w_db w) @ [e1, e2]
    \<and> ob_event_type e1 = ''DriverCreatedEvent'' \<and> ob_event_type e2 = ''DriverUpdatedEvent''
    \<and> ob_aggregate_id e1 = udc_ID cmd \<and> ob_aggregate_id e2 = udc_ID cmd"
proof -
  from assms [unfolded UpdateDriverUseCase_Execute_def] obtain a w1 a' a'' w2 w3
    where l: "DriverRepository_Find (udc_ID cmd) (cdc_TenantID cmd) (w\<lparr>w_nop := Suc (w_nop w)\<rparr>) = (Inr a, w1)"
      and f: "DriverAggregate_UpdateDetails (cdc_FirstName cmd) (cdc_LastName cmd) (cdc_Phone cmd)
          (cdc_Email cmd) (cdc_Address cmd) (cdc_LicenseNumber cmd) (cdc_LicenseExpiry cmd)
          (cdc_ExperienceYears cmd) (udc_Status cmd) (cdc_EmergencyContactName cmd)
          (cdc_EmergencyContactPhone cmd) (cdc_Notes cmd) (env_clk (w_env w1) (w_nclk w1)) a = Inr a'"
      and s: "DriverRepository_Save a' (w1\<lparr>w_nclk := Suc (w_nclk w1)\<rparr>) = (Inr a'', w2)"
      and au: "ret () w2 = (Inr u, w3)" and w': "w' = w3\<lparr>w_nop := Suc (w_nop w3)\<rparr>"
    by (rule transition_use_case_Inr)
  from Driver_Find_Inr [OF l] obtain row where row: "dw_id row = udc_ID cmd" "a = Driver_ToDomain row"
    "w_db w1 = w_db w" by (auto simp: same_store_def)
  obtain x1 x2 where ev: "dr_events a' = [x1, x2]" "driver_event_name x1 = ''DriverCreatedEvent''"
    "driver_event_name x2 = ''DriverUpdatedEvent''" and i: "dr_ID a' = udc_ID cmd"
    using f row by (auto simp: DriverAggregate_UpdateDetails_def Driver_ToDomain_def NewDriverAggregate_def
        split: if_splits)
  have nm: "getEventTypeName (EvDriver e) = driver_event_name e" for e
    by (cases e) (simp_all add: getEventTypeName_def EventTypeOf_def type_string_def after_last_def)
  from Driver_Save_outbox [OF s] obtain rows where
    rows: "outbox_rows_for (dr_ID a') ''Driver'' (map EvDriver (dr_events a')) rows"
    "db_outbox_events (w_db w2) = db_outbox_events (w_db w) @ rows" using row(3) by auto
  then obtain e1 e2 where "rows = [e1, e2]"
    by (auto simp: outbox_rows_for_def ev)
  with rows ev i nm w' au show ?thesis
    by (auto simp: outbox_rows_for_def act_inv)
qed

definition demo_driver :: "string \<Rightarrow> go_time \<Rightarrow> driver_row" where
  "demo_driver i expiry =
     \<lparr>dw_id = i, dw_driver_id = ''DR-'' @ i, dw_first_name = ''Ravi'', dw_last_name = ''Rao'',
      dw_phone = ''98'', dw_email = None, dw_address = None, dw_license_number = ''L1'',
      dw_license_expiry = expiry, dw_experience_years = 3, dw_status = DriverAvailable,
      dw_emergency_contact_name = None, dw_emergency_contact_phone = None, dw_notes = None,
      dw_tenant_id = ''t1'', dw_created_at = 0, dw_updated_at = 0\<rparr>"

definition demo_driver_update :: UpdateDriverCommand where
  "demo_driver_update =
     \<lparr>cdc_TenantID = ''t1'', cdc_FirstName = ''Ravi'', cdc_LastName = ''Rao'', cdc_Phone = ''99'',
      cdc_Email = None, cdc_Address = None, cdc_LicenseNumber = ''L1'', cdc_LicenseExpiry = 10 ^ 18,
      cdc_ExperienceYears = 4, cdc_EmergencyContactName = None, cdc_EmergencyContactPhone = None,
      cdc_Notes = None, udc_ID = ''d1'', udc_Status = DriverAvailable\<rparr>"

theorem update_driver_reannounces_creation_witness:
  "\<exists>w w' e1 e2. UpdateDriverUseCase_Execute demo_driver_update w = (Inr (), w')
    \<and> db_outbox_events (w_db w') = db_outbox_events (w_db w) @ [e1, e2]
    \<and> ob_event_type e1 = ''DriverCreatedEvent''"
proof -
  let ?w = "demo_world\<lparr>w_db := demo_db\<lparr>db_drivers := [demo_driver ''d1'' 5]\<rparr>\<rparr>"
  have "\<not> isl (fst (UpdateDriverUseCase_Execute demo_driver_update ?w))" by code_simp
  then have run: "UpdateDriverUseCase_Execute demo_driver_update ?w
      = (Inr (), snd (UpdateDriverUseCase_Execute demo_driver_update ?w))"
    using run_Inr [of "UpdateDriverUseCase_Execute demo_driver_update" ?w] by simp
  from update_driver_reannounces_creation [OF run] run show ?thesis by blast
qed

lemma bindE_ret_run:
  "w_db (snd (bindE m (\<lambda>x. ret (f x)) w)) = w_db (snd (m w))"
  "isl (fst (bindE m (\<lambda>x. ret (f x)) w)) = isl (fst (m w))"
  by (simp_all add: act_simps split: prod.splits sum.splits)

lemma bindE_assoc: "bindE (bindE m f) g = bindE m (\<lambda>x. bindE (f x) g)"
  by (rule ext) (simp add: act_simps split: prod.splits sum.splits)

lemma seqE_ret_bind: "bindE (seqE m (ret x)) (\<lambda>x. ret (f x)) = seqE m (ret (f x))"
  by (rule ext) (simp add: act_simps split: prod.splits sum.splits)

lemma Driver_Save_version:
  "DriverRepository_Save (d\<lparr>dr_Version := n\<rparr>)
     = bindE (DriverRepository_Save d) (\<lambda>x. ret (x\<lparr>dr_Version := n\<rparr>))"
proof -
  have "driver_params (d\<lparr>dr_Version := n\<rparr>) = driver_params d" by (simp add: driver_params_def)
  moreover have "DriverAggregate_ClearEvents (d\<lparr>dr_Version := n\<rparr>) = (DriverAggregate_ClearEvents d)\<lparr>dr_Version := n\<rparr>"
    by (simp add: DriverAggregate_ClearEvents_def)
  ultimately show ?thesis
    by (simp add: DriverRepository_Save_def bindE_assoc seqE_ret_bind cong: sum.case_cong if_cong)
qed

lemma Vehicle_Save_version:
  "VehicleRepository_Save (v\<lparr>vh_Version := n\<rparr>)
     = bindE (VehicleRepository_Save v) (\<lambda>x. ret (x\<lparr>vh_Version := n\<rparr>))"
proof -
  have "vehicle_params (v\<lparr>vh_Version := n\<rparr>) = vehicle_params v" by (simp add: vehicle_params_def)
  moreover have "VehicleAggregate_ClearEvents (v\<lparr>vh_Version := n\<rparr>) = (VehicleAggregate_ClearEvents v)\<lparr>vh_Version := n\<rparr>"
    by (simp add: VehicleAggregate_ClearEvents_def)
  ultimately show ?thesis
    by (simp add: VehicleRepository_Save_def bindE_assoc seqE_ret_bind cong: sum.case_cong if_cong)
qed

text \<open>
  Updates of drivers and vehicles are last-writer-wins: the version of the
  aggregate has no influence on what a save does, so of two requests that loaded the same driver
  the later save overwrites the earlier one.
\<close>

theorem fleet_save_ignores_version:
  "w_db (snd (DriverRepository_Save (d\<lparr>dr_Version := n\<rparr>) w)) = w_db (snd (DriverRepository_Save d w))
   \<and> w_db (snd (VehicleRepository_Save (v\<lparr>vh_Version := n\<rparr>) w)) = w_db (snd (VehicleRepository_Save v w))
   \<and> isl (fst (DriverRepository_Save (d\<lparr>dr_Version := n\<rparr>) w)) = isl (fst (DriverRepository_Save d w))
   \<and> isl (fst (VehicleRepository_Save (v\<lparr>vh_Version := n\<rparr>) w)) = isl (fst (VehicleRepository_Save v w))"
  by (simp add: Driver_Save_version Vehicle_Save_version bindE_ret_run)

end
