(* ===== verification/Go_Text.thy ===== *)
theory Go_Text
  imports Store Go_Time
begin

text \<open>
  What the code uses of \<open>strconv\<close>, \<open>strings\<close>, \<open>fmt\<close> and \<open>time.Format\<close> to make
  identifiers, keys and messages.
\<close>

section \<open>Text of numbers and errors\<close>

function itoa_nat :: "int \<Rightarrow> string" where
  "itoa_nat n = (if n < 10 then [char_of (48 + n)] else itoa_nat (n div 10) @ [char_of (48 + n mod 10)])"
  by pat_completeness auto
termination
  by (relation "measure nat") auto

declare itoa_nat.simps [simp del]

text \<open>\<open>%d\<close>\<close>

definition itoa :: "int \<Rightarrow> string" where
  "itoa n = (if n < 0 then CHR ''-'' # itoa_nat (- n) else itoa_nat n)"

text \<open>\<open>time.Time.UnixNano\<close>: nanoseconds since 1970, 719162 days after the zero time, as an int64.\<close>

definition UnixNano :: "go_time \<Rightarrow> int" where
  "UnixNano t = wrap64 (t - 719162 * day_ns)"

text \<open>
  \<open>err.Error()\<close>.  The message of a failed constraint is SQLite's: the kind of constraint and
  the columns it is on.
\<close>

primrec constraint_text :: "constraint \<Rightarrow> string" where
  "constraint_text UniqueConstraint = ''UNIQUE constraint failed: ''"
| "constraint_text ForeignKeyConstraint = ''FOREIGN KEY constraint failed: ''"
| "constraint_text CheckConstraint = ''CHECK constraint failed: ''"
| "constraint_text NotNullConstraint = ''NOT NULL constraint failed: ''"

primrec error_text :: "goerr \<Rightarrow> string" where
  "error_text (ErrorString s) = s"
| "error_text ErrNoRows = ''sql: no rows in result set''"
| "error_text (ErrConstraint c s) = constraint_text c @ s"
| "error_text (ErrDriver s) = s"
| "error_text (WrapError s e) = s @ '': '' @ error_text e"

text \<open>\<open>strings.TrimSpace\<close> on ASCII text.\<close>

definition is_space :: "char \<Rightarrow> bool" where
  "is_space c \<longleftrightarrow> (of_char c :: nat) \<in> {9, 10, 11, 12, 13, 32}"

definition TrimSpace :: "string \<Rightarrow> string" where
  "TrimSpace s = rev (dropWhile is_space (rev (dropWhile is_space s)))"

text \<open>\<open>strings.Contains\<close>\<close>

fun strings_Contains :: "string \<Rightarrow> string \<Rightarrow> bool" where
  "strings_Contains [] sub \<longleftrightarrow> sub = []"
| "strings_Contains (c # s) sub \<longleftrightarrow> take (length sub) (c # s) = sub \<or> strings_Contains s sub"

text \<open>
  \<open>strconv.FormatFloat(x, 'f', 2, 64)\<close>: the decimal with two digits after the point nearest to
  the exact value, halves to the even digit.
\<close>

definition format_cents :: "int \<Rightarrow> string" where
  "format_cents n = itoa_nat (n div 100) @ ''.'' @ fmt2 (n mod 100)"

fun FormatFloat_f2 :: "float64 \<Rightarrow> string" where
  "FormatFloat_f2 (Fin x) = (if x < 0 then CHR ''-'' # format_cents (rhe (- x * 100)) else format_cents (rhe (x * 100)))"
| "FormatFloat_f2 PInf = ''+Inf''"
| "FormatFloat_f2 NInf = ''-Inf''"
| "FormatFloat_f2 NaN = ''NaN''"

text \<open>
  The civil date of a number of days since 1 January of year 1, by cycles of 400, 100, 4 and 1
  years as \<open>time.Time\<close> computes it; the last year of a cycle may have a day more.
\<close>

definition civil_date :: "int \<Rightarrow> int \<times> int \<times> int" where
  "civil_date d =
     (let n400 = d div 146097; d = d mod 146097;
          n100 = min 3 (d div 36524); d = d - n100 * 36524;
          n4 = d div 1461; d = d mod 1461;
          n1 = min 3 (d div 365); yday = d - n1 * 365;
          y = 1 + 400 * n400 + 100 * n100 + 4 * n4 + n1;
          starts = map (\<lambda>m. days_of_date y m 1 - days_of_date y 1 1) [1..12];
          m = int (length (filter (\<lambda>s. s \<le> yday) starts))
      in (y, m, yday - starts ! nat (m - 1) + 1))"

text \<open>\<open>t.Format("2006-01-02")\<close> of a time in UTC; years outside 0 to 9999 are not padded to four digits only.\<close>

definition fmt_year :: "int \<Rightarrow> string" where
  "fmt_year y = (if 0 \<le> y \<and> y \<le> 9999 then fmt4 y
     else if y < 0 then (if - y \<le> 9999 then CHR ''-'' # fmt4 (- y) else itoa y) else itoa y)"

definition Format_date :: "go_time \<Rightarrow> string" where
  "Format_date t = (case civil_date (t div day_ns) of (y, m, d) \<Rightarrow> fmt_year y @ ''-'' @ fmt2 m @ ''-'' @ fmt2 d)"

end
