(* ===== verification/Trip_Dispatch.thy ===== *)
theory Trip_Dispatch
  imports Trip_Laws Fleet Go_Text
begin

text \<open>
  The dispatch gate of a trip: document expiry of driver and vehicle, exemptions, overrides and
  the maintenance block (\<open>internal/trip/application/assign_driver.go\<close>,
  \<open>assign_vehicle.go\<close>, \<open>start_trip.go\<close>,
  \<open>internal/maintenance/infrastructure/sql/maintenance_repository.go\<close>).  The checks reach
  the database through the connection pool, not through the transaction of the use case; their
  writes go to the side tables of the world.
\<close>

section \<open>Exemptions, check log, PUC\<close>

definition exemption_applies :: "string \<Rightarrow> string \<Rightarrow> string \<Rightarrow> go_time \<Rightarrow> exemption_row \<Rightarrow> bool" where
  "exemption_applies entityType entityID docType now x \<longleftrightarrow>
     ex_entity_type x = entityType \<and> ex_entity_id x = entityID
     \<and> (ex_doc_type x = docType \<or> ex_doc_type x = ''all''
        \<or> docType = ''permit'' \<and> ex_doc_type x = ''rc'' \<or> docType = ''rc'' \<and> ex_doc_type x = ''permit'')
     \<and> now < ex_exempt_until x"

definition isExempt :: "string \<Rightarrow> string \<Rightarrow> string \<Rightarrow> bool wact" where
  "isExempt entityType entityID docType =
     bindE (tryE (query (\<lambda>now d. one_row (map_option ex_id
       (find (exemption_applies entityType entityID docType now) (db_compliance_exemptions d)))))) (\<lambda>r.
     ret (case r of Inr i \<Rightarrow> i \<noteq> [] | Inl _ \<Rightarrow> False))"

definition insert_compliance_check :: "compliance_check_row \<Rightarrow> go_time \<Rightarrow> side_tables \<Rightarrow> side_tables result" where
  "insert_compliance_check p now s =
     (if ck_id p \<in> ck_id ` set (sd_compliance_checks s)
      then Inl (ErrConstraint UniqueConstraint ''compliance_checks.id'')
      else Inr (s\<lparr>sd_compliance_checks := sd_compliance_checks s @ [p\<lparr>ck_created_at := now\<rparr>]\<rparr>))"

definition recordComplianceCheck :: "string \<Rightarrow> string \<Rightarrow> string \<Rightarrow> string \<Rightarrow> string \<Rightarrow> unit wact" where
  "recordComplianceCheck entityType entityID checkType status details =
     bindE Now (\<lambda>now.
     bindE (tryE (side_stmt (insert_compliance_check
       \<lparr>ck_id = ''chk-'' @ itoa (UnixNano now), ck_entity_type = entityType, ck_entity_id = entityID,
        ck_check_type = checkType, ck_status = status, ck_details = details, ck_created_at = 0\<rparr>))) (\<lambda>_.
     ret ()))"

definition getPUCExpiry :: "string \<Rightarrow> go_time option wact" where
  "getPUCExpiry vehicleID =
     bindE (tryE (query (\<lambda>now d. one_row (map_option vw_puc_expiry (find_vehicle d vehicleID))))) (\<lambda>r.
     ret (case r of Inr (Some t) \<Rightarrow> (if time_IsZero t then None else Some t) | _ \<Rightarrow> None))"

text \<open>The row of \<open>dispatch_overrides\<close>; the table is created first when it is missing.\<close>

definition insert_override :: "dispatch_override_row \<Rightarrow> go_time \<Rightarrow> side_tables \<Rightarrow> side_tables result" where
  "insert_override p now s =
     (if ov_id p \<in> ov_id ` set (sd_dispatch_overrides s)
      then Inl (ErrConstraint UniqueConstraint ''dispatch_overrides.id'')
      else Inr (s\<lparr>sd_dispatch_overrides := sd_dispatch_overrides s @ [p\<lparr>ov_created_at := now\<rparr>]\<rparr>))"

definition record_override ::
  "TenantID \<Rightarrow> string \<Rightarrow> string \<Rightarrow> string \<Rightarrow> string \<Rightarrow> string \<Rightarrow> unit wact" where
  "record_override tenantID tripID vehicleID driverID blockedBy reason =
     bindE (tryE (side_stmt (\<lambda>now s. Inr s))) (\<lambda>_.
     bindE getEnv (\<lambda>e.
     bindE Now (\<lambda>now.
     bindE (tryE (side_stmt (insert_override
       \<lparr>ov_id = ''ovr-'' @ itoa (UnixNano now),
        ov_tenant_id = (if tenantID = [] then DefaultTenant else tenantID), ov_trip_id = tripID,
        ov_vehicle_id = vehicleID, ov_driver_id = driverID, ov_blocked_by = blockedBy,
        ov_reason = reason, ov_overridden_by = str_or_empty (getUserID (env_ctx e)),
        ov_created_at = 0\<rparr>))) (\<lambda>_. ret ()))))"

section \<open>Maintenance block\<close>

definition critical_dtc :: "string \<Rightarrow> go_time \<Rightarrow> database \<Rightarrow> string result" where
  "critical_dtc vehicleID now d =
     (case sort_key (\<lambda>x. - dt_occurred_at x)
        (filter (\<lambda>x. dt_vehicle_id x = vehicleID \<and> dt_severity x = ''critical'' \<and> dt_resolved_at x = None)
          (db_dtc_events d)) of
        [] \<Rightarrow> Inl ErrNoRows | x # _ \<Rightarrow> Inr (dt_dtc_code x))"

definition IsMaintenanceBlocked :: "string \<Rightarrow> (bool \<times> string) wact" where
  "IsMaintenanceBlocked vehicleID =
     bindE (query (\<lambda>now d. one_row (find_vehicle d vehicleID))) (\<lambda>v.
     bindE (tryE (query (critical_dtc vehicleID))) (\<lambda>r.
     let dtcCode = (case r of Inr c \<Rightarrow> c | Inl _ \<Rightarrow> []);
         hasCriticalDTC = (dtcCode \<noteq> []);
         due = str_or_empty (vw_maintenance_due v);
         isDue = (due \<noteq> [])
     in if \<not> isDue \<and> \<not> hasCriticalDTC then ret (False, [])
        else if str_or_empty (vw_maintenance_override_by v) \<noteq> [] \<and> vw_maintenance_override_at v \<noteq> None
        then ret (False, [])
        else if isDue
        then ret (True, ''vehicle '' @ vehicleID @ '' is blocked for maintenance (due since: '' @ due
          @ ''); override requires maintenance:update permission'')
        else ret (True, ''vehicle '' @ vehicleID @ '' is blocked for maintenance (unresolved critical DTC ''
          @ dtcCode @ ''); override requires maintenance:update permission'')))"

text \<open>A blocked vehicle stops the assignment unless the caller overrides, which is audited.\<close>

definition maintenance_gate :: "string \<Rightarrow> bool \<Rightarrow> unit wact \<Rightarrow> unit wact" where
  "maintenance_gate vehicleID override audit =
     bindE (tryE (IsMaintenanceBlocked vehicleID)) (\<lambda>r. case r of
       Inl _ \<Rightarrow> ret ()
     | Inr (blocked, reason) \<Rightarrow>
         (if blocked then (if \<not> override then raise (ErrorString reason) else audit) else ret ()))"

section \<open>Driver\<close>

definition driver_not_found :: "string \<Rightarrow> goerr \<Rightarrow> goerr" where
  "driver_not_found driverID e = WrapError (''driver '' @ driverID @ '' not found'') e"

definition license_expired_error :: goerr where
  "license_expired_error = ErrorString ''Dispatch blocked: driver license expired (compliance)''"

definition require_assignable_driver :: "string \<Rightarrow> TenantID \<Rightarrow> DriverAggregate wact" where
  "require_assignable_driver driverID tenantID =
     bindE (wrap_err (driver_not_found driverID) (DriverRepository_Find driverID tenantID)) (\<lambda>d.
     if dr_Status d = DriverInactive \<or> dr_Status d = DriverLeave
     then raise (ErrorString (''driver '' @ driverID @ '' is not assignable (status: '' @ dr_Status d @ '')''))
     else ret d)"

definition AssignDriver_checkDriverCompliance :: "string \<Rightarrow> TenantID \<Rightarrow> unit wact" where
  "AssignDriver_checkDriverCompliance driverID tenantID =
     bindE (require_assignable_driver driverID tenantID) (\<lambda>d.
     bindE Now (\<lambda>t. let now = time_Truncate t day_ns in
     if \<not> time_IsZero (dr_LicenseExpiry d) \<and> dr_LicenseExpiry d < now
     then bindE (isExempt ''driver'' driverID ''license'') (\<lambda>ex.
       if ex then recordComplianceCheck ''driver'' driverID ''license'' ''warning'' ''bypassed by exemption''
       else seqE (recordComplianceCheck ''driver'' driverID ''license'' ''expired'' ''driver license expired'')
              (raise license_expired_error))
     else ret ()))"

definition StartTrip_checkDriverCompliance :: "string \<Rightarrow> TenantID \<Rightarrow> unit wact" where
  "StartTrip_checkDriverCompliance driverID tenantID =
     bindE (require_assignable_driver driverID tenantID) (\<lambda>d.
     bindE Now (\<lambda>t. let now = time_Truncate t day_ns in
     if \<not> time_IsZero (dr_LicenseExpiry d) \<and> dr_LicenseExpiry d < now
     then bindE (isExempt ''driver'' driverID ''license'') (\<lambda>ex.
       if ex then ret () else raise license_expired_error)
     else ret ()))"

section \<open>Vehicle\<close>

record AssignVehicleCommand =
  avc_TripID :: TripID
  avc_VehicleID :: string
  avc_TenantID :: TenantID
  avc_OverrideMaintenance :: bool
  avc_OverrideReason :: string

definition require_assignable_vehicle :: "string \<Rightarrow> TenantID \<Rightarrow> VehicleAggregate wact" where
  "require_assignable_vehicle vehicleID tenantID =
     bindE (wrap_err (WrapError (''vehicle '' @ vehicleID @ '' not found''))
              (VehicleRepository_Find vehicleID tenantID)) (\<lambda>v.
     if vh_Status v = VehicleInactive \<or> vh_Status v = VehicleMaintenance
     then raise (ErrorString (''vehicle '' @ vehicleID @ '' is not assignable (status: '' @ vh_Status v @ '')''))
     else ret v)"

definition vehicle_documents :: "VehicleAggregate \<Rightarrow> (string \<times> go_time) list" where
  "vehicle_documents v =
     [(''insurance'', vh_InsuranceExpiry v), (''fitness'', vh_FitnessExpiry v), (''permit'', vh_PermitExpiry v)]"

definition document_expired_error :: "string \<Rightarrow> goerr" where
  "document_expired_error name = ErrorString (''Dispatch blocked: vehicle '' @ name @ '' expired (compliance)'')"

text \<open>\<open>OverrideMaintenance\<close> with a reason of at least ten characters.\<close>

definition override_accepted :: "bool \<Rightarrow> string \<Rightarrow> bool" where
  "override_accepted flag reason \<longleftrightarrow> flag \<and> length (TrimSpace reason) \<ge> 10"

definition vehicle_override :: "AssignVehicleCommand \<Rightarrow> string \<Rightarrow> unit wact" where
  "vehicle_override cmd name =
     seqE (logAudit ''trips'' ''assign_vehicle_override'' (avc_TripID cmd) None
       (Some (JObject [(''vehicle_id'', JString (avc_VehicleID cmd)), (''blocked_by'', JString name),
          (''reason'', JString (avc_OverrideReason cmd))])))
    (seqE (record_override (avc_TenantID cmd) (avc_TripID cmd) (avc_VehicleID cmd) [] (name @ ''_expiry'')
             (avc_OverrideReason cmd))
          (recordComplianceCheck ''vehicle'' (avc_VehicleID cmd) name ''warning'' ''bypassed by override''))"

definition check_vehicle_document :: "AssignVehicleCommand \<Rightarrow> go_time \<Rightarrow> string \<times> go_time \<Rightarrow> unit wact" where
  "check_vehicle_document cmd now = (\<lambda>(name, when).
     if \<not> time_IsZero when \<and> when < now
     then bindE (isExempt ''vehicle'' (avc_VehicleID cmd) name) (\<lambda>ex.
       if ex then recordComplianceCheck ''vehicle'' (avc_VehicleID cmd) name ''warning'' ''bypassed by exemption''
       else if override_accepted (avc_OverrideMaintenance cmd) (avc_OverrideReason cmd)
       then vehicle_override cmd name
       else seqE (recordComplianceCheck ''vehicle'' (avc_VehicleID cmd) name ''expired''
                    (''vehicle '' @ name @ '' expired''))
              (raise (document_expired_error name)))
     else if \<not> time_IsZero when \<and> when < now + 7 * day_ns
     then recordComplianceCheck ''vehicle'' (avc_VehicleID cmd) name ''warning''
            (''vehicle '' @ name @ '' expires in <7 days'')
     else ret ())"

definition check_vehicle_puc :: "AssignVehicleCommand \<Rightarrow> go_time \<Rightarrow> unit wact" where
  "check_vehicle_puc cmd now =
     bindE (getPUCExpiry (avc_VehicleID cmd)) (\<lambda>p. case p of
       None \<Rightarrow> ret ()
     | Some puc \<Rightarrow>
         (if puc < now
          then bindE (isExempt ''vehicle'' (avc_VehicleID cmd) ''puc'') (\<lambda>ex.
            if \<not> ex
            then (if override_accepted (avc_OverrideMaintenance cmd) (avc_OverrideReason cmd)
                  then vehicle_override cmd ''puc''
                  else seqE (recordComplianceCheck ''vehicle'' (avc_VehicleID cmd) ''puc'' ''expired'' ''vehicle PUC expired'')
                         (raise (document_expired_error ''PUC'')))
            else recordComplianceCheck ''vehicle'' (avc_VehicleID cmd) ''puc'' ''warning'' ''bypassed by exemption'')
          else if puc < now + 7 * day_ns
          then recordComplianceCheck ''vehicle'' (avc_VehicleID cmd) ''puc'' ''warning'' ''vehicle PUC expires in <7 days''
          else ret ()))"

definition AssignVehicle_checkVehicleCompliance :: "AssignVehicleCommand \<Rightarrow> unit wact" where
  "AssignVehicle_checkVehicleCompliance cmd =
     bindE (require_assignable_vehicle (avc_VehicleID cmd) (avc_TenantID cmd)) (\<lambda>v.
     bindE Now (\<lambda>t. let now = time_Truncate t day_ns in
     seqE (forE (vehicle_documents v) (check_vehicle_document cmd now))
    (seqE (check_vehicle_puc cmd now)
          (maintenance_gate (avc_VehicleID cmd) (avc_OverrideMaintenance cmd)
             (logAudit ''trips'' ''assign_vehicle_override'' (avc_TripID cmd) None
               (Some (JObject [(''vehicle_id'', JString (avc_VehicleID cmd)),
                  (''reason'', JString (avc_OverrideReason cmd))])))))))"

text \<open>The checks of \<open>StartTrip\<close> write no log and know no override.\<close>

definition start_document :: "string \<Rightarrow> go_time \<Rightarrow> string \<times> go_time \<Rightarrow> unit wact" where
  "start_document vehicleID now = (\<lambda>(name, when).
     if \<not> time_IsZero when \<and> when < now
     then bindE (isExempt ''vehicle'' vehicleID name) (\<lambda>ex.
       if ex then ret () else raise (document_expired_error name))
     else ret ())"

definition start_puc :: "string \<Rightarrow> go_time \<Rightarrow> unit wact" where
  "start_puc vehicleID now =
     bindE (getPUCExpiry vehicleID) (\<lambda>p. case p of
       None \<Rightarrow> ret ()
     | Some puc \<Rightarrow>
         (if puc < now
          then bindE (isExempt ''vehicle'' vehicleID ''puc'') (\<lambda>ex.
            if \<not> ex then raise (document_expired_error ''PUC'') else ret ())
          else ret ()))"

definition StartTrip_checkVehicleCompliance :: "string \<Rightarrow> TenantID \<Rightarrow> unit wact" where
  "StartTrip_checkVehicleCompliance vehicleID tenantID =
     bindE (require_assignable_vehicle vehicleID tenantID) (\<lambda>v.
     bindE Now (\<lambda>t. let now = time_Truncate t day_ns in
     seqE (forE (vehicle_documents v) (start_document vehicleID now)) (start_puc vehicleID now)))"

end
