(* ===== verification/Booking_Laws.thy ===== *)
theory Booking_Laws
  imports Booking_Repository
begin

text \<open>
  Laws of the booking repository: the constraints of the table are an invariant, a load returns
  the stored row, a save updates exactly the loaded version and appends the events of the
  aggregate to the outbox.  The versioned-repository contract is interpreted here.
\<close>

definition bookings_ok :: "database \<Rightarrow> bool" where
  "bookings_ok d \<longleftrightarrow> distinct (map br_id (db_bookings d))
     \<and> distinct (map br_booking_number (db_bookings d))
     \<and> (\<forall>r\<in>set (db_bookings d). br_status r \<in> set booking_check_statuses \<and> 1 \<le> br_version r)"

definition booking_at :: "database \<Rightarrow> string \<Rightarrow> string \<Rightarrow> booking_row option" where
  "booking_at d i t = find (\<lambda>r. br_id r = i \<and> br_tenant_id r = t) (db_bookings d)"

definition booking_stored :: "database \<Rightarrow> string \<Rightarrow> string \<Rightarrow> int option" where
  "booking_stored d i t = map_option br_version (booking_at d i t)"

section \<open>Statements\<close>

lemma booking_violation_None:
  "booking_violation fk d others r = None \<longleftrightarrow>
     br_price r \<noteq> NaN \<and> br_status r \<in> set booking_check_statuses
     \<and> br_id r \<notin> br_id ` set others \<and> br_booking_number r \<notin> br_booking_number ` set others
     \<and> (fk \<longrightarrow> find_customer d (br_customer_id r) \<noteq> None \<and> find_route d (br_route_id r) \<noteq> None)"
  by (simp add: booking_violation_def)

lemma booking_set_simps [simp]:
  "br_id (booking_set p now r) = br_id r"
  "br_tenant_id (booking_set p now r) = br_tenant_id r"
  "br_booking_number (booking_set p now r) = br_booking_number p"
  "br_status (booking_set p now r) = br_status p"
  "br_version (booking_set p now r) = br_version r + 1"
  by (simp_all add: booking_set_def)

lemma CreateBooking_Inr:
  assumes "CreateBooking p fk now d = Inr (x, d')"
  shows "d' = d\<lparr>db_bookings := db_bookings d @ [x]\<rparr> \<and> br_id x = br_id p
    \<and> br_tenant_id x = br_tenant_id p \<and> br_status x = br_status p \<and> br_version x = 1
    \<and> br_booking_number x = br_booking_number p \<and> br_price x = br_price p
    \<and> booking_violation fk d (db_bookings d) x = None"
  using assms by (auto simp: CreateBooking_def Let_def split: option.splits)

lemma UpdateBooking_Inr:
  assumes "UpdateBooking p fk now d = Inr (x, d')"
  shows "\<exists>r. r \<in> set (db_bookings d) \<and> booking_selected p r \<and> x = booking_set p now r
    \<and> d' = d\<lparr>db_bookings := update_where (booking_selected p) (booking_set p now) (db_bookings d)\<rparr>
    \<and> booking_violation fk d (filter (\<lambda>y. br_id y \<noteq> br_id p) (db_bookings d)) x = None"
  using assms by (auto simp: UpdateBooking_def split: option.splits dest!: find_SomeD)

lemma DeleteBooking_Inr:
  assumes "DeleteBooking i t fk now d = Inr (x, d')"
  shows "d' = d\<lparr>db_bookings := filter (\<lambda>r. \<not> (br_id r = i \<and> br_tenant_id r = t)) (db_bookings d)\<rparr>"
  using assms by (auto simp: DeleteBooking_def split: if_splits)

lemma bookings_ok_create:
  assumes "bookings_ok d" and "CreateBooking p fk now d = Inr (x, d')"
  shows "bookings_ok d'"
  using assms(1) CreateBooking_Inr [OF assms(2)]
  by (auto simp: bookings_ok_def booking_violation_None)

lemma bookings_ok_update:
  assumes "bookings_ok d" and "UpdateBooking p fk now d = Inr (x, d')"
  shows "bookings_ok d'"
proof -
  from UpdateBooking_Inr [OF assms(2)] obtain r where r: "r \<in> set (db_bookings d)" "booking_selected p r"
    "x = booking_set p now r"
    "d' = d\<lparr>db_bookings := update_where (booking_selected p) (booking_set p now) (db_bookings d)\<rparr>"
    "booking_violation fk d (filter (\<lambda>y. br_id y \<noteq> br_id p) (db_bookings d)) x = None" by blast
  have ids: "map br_id (update_where (booking_selected p) (booking_set p now) (db_bookings d)) = map br_id (db_bookings d)"
    by (rule map_update_where) simp
  have "distinct (map br_booking_number (update_where (booking_selected p) (booking_set p now) (db_bookings d)))"
    using assms(1) r(3,5)
    by (intro distinct_update_where [of br_id _ _ _ "br_id p" _ "br_booking_number p"])
      (auto simp: bookings_ok_def booking_violation_None booking_selected_def)
  moreover have "\<forall>y\<in>set (db_bookings d'). br_status y \<in> set booking_check_statuses \<and> 1 \<le> br_version y"
    using assms(1) r by (auto simp: bookings_ok_def booking_violation_None set_update_where
        booking_selected_def)
  ultimately show ?thesis using assms(1) ids r(4) by (simp add: bookings_ok_def)
qed

lemma bookings_ok_delete:
  assumes "bookings_ok d" and "DeleteBooking i t fk now d = Inr (x, d')"
  shows "bookings_ok d'"
  using assms(1) DeleteBooking_Inr [OF assms(2)]
  by (auto simp: bookings_ok_def intro: distinct_map_filter)

lemma bookings_joined_row: "(b, c, r) \<in> set (bookings_joined d) \<Longrightarrow> b \<in> set (db_bookings d)"
  by (auto simp: bookings_joined_def map_filter_def join_booking_def split: option.splits)

lemma GetBookingByID_at:
  assumes "bookings_ok d" and "GetBookingByID i t now d = Inr (b, c, r)"
  shows "booking_at d i t = Some b \<and> br_id b = i \<and> br_tenant_id b = t"
proof -
  from assms(2) have f: "find (\<lambda>(b, c, r). br_id b = i \<and> br_tenant_id b = t) (bookings_joined d) = Some (b, c, r)"
    by (auto simp: GetBookingByID_def one_row_def split: option.splits)
  from find_SomeD [OF f] have b: "br_id b = i" "br_tenant_id b = t" "b \<in> set (db_bookings d)"
    by (auto dest: bookings_joined_row)
  have "find (\<lambda>r. br_id r = i \<and> br_tenant_id r = t) (db_bookings d) = Some b"
    using assms(1) b by (intro find_distinct_key [of br_id]) (auto simp: bookings_ok_def)
  with b show ?thesis by (simp add: booking_at_def)
qed

section \<open>Repository\<close>

lemma Booking_Exists_Inr:
  assumes "BookingRepository_Exists i t w = (r, w')"
  shows "same_store w w'"
  using assms
  by (auto simp: BookingRepository_Exists_def bindE_def tryE_def ret_def raise_def
      dest: query_same_store split: prod.splits sum.splits if_splits)

lemma Booking_Find_store:
  assumes "BookingRepository_Find i t w = (r, w')"
  shows "same_store w w'"
  using assms
  by (auto simp: BookingRepository_Find_def bindE_def getEnv_def ret_def
      dest: noRowsAs_query_same_store split: prod.splits sum.splits)

lemma Booking_Find_Inr:
  assumes "BookingRepository_Find i t w = (Inr a, w')" and "bookings_ok (w_db w)"
  shows "\<exists>b. booking_at (w_db w) i t = Some b \<and> br_id b = i \<and> br_tenant_id b = t
    \<and> a = Booking_MapToAggregate (env_oor (w_env w)) b"
proof -
  from assms(1) obtain b c r now where "GetBookingByID i t now (w_db w) = Inr (b, c, r)"
    and "a = Booking_MapToAggregate (env_oor (w_env w)) b"
    by (auto simp: BookingRepository_Find_def act_inv)
  with GetBookingByID_at [OF assms(2)] show ?thesis by blast
qed

text \<open>What a successful save leaves in the tables.\<close>

lemma Booking_Save_Inr:
  assumes "BookingRepository_Save b w = (Inr b', w')"
  obtains d1 x fk now rows where
    "UpdateBooking (Booking_MapToPersistence b) fk now (w_db w) = Inr (x, d1)
      \<or> CreateBooking (Booking_MapToPersistence b) fk now (w_db w) = Inr (x, d1)"
    and "outbox_rows_for (bk_ID b) ''Booking'' (map EvBooking (bk_events b)) rows"
    and "w_db w' = d1\<lparr>db_outbox_events := db_outbox_events d1 @ rows\<rparr>"
    and "w_env w' = w_env w" and "w_side w' = w_side w"
proof -
  let ?p = "Booking_MapToPersistence b"
  from assms obtain ex w1 b1 w2 w3 where
    e: "BookingRepository_Exists (bk_ID b) (bk_TenantID b) w = (Inr ex, w1)"
    and m: "(if ex then seqE (noRowsAs ''concurrency conflict: booking modified by another process''
          (stmt (UpdateBooking ?p))) (ret (b\<lparr>bk_Version := wrap64 (bk_Version b + 1)\<rparr>))
        else seqE (stmt (CreateBooking ?p)) (ret (b\<lparr>bk_Version := 1\<rparr>))) w1 = (Inr b1, w2)"
    and o: "OutboxWriter_SaveEvents (bk_ID b1) ''Booking'' (map EvBooking (bk_events b1)) w2 = (Inr (), w3)"
    and w3: "w' = w3"
    by (auto simp: BookingRepository_Save_def act_inv Let_def)
  note s1 = Booking_Exists_Inr [OF e, unfolded same_store_def]
  obtain x fk now where u: "UpdateBooking ?p fk now (w_db w) = Inr (x, w_db w2)
      \<or> CreateBooking ?p fk now (w_db w) = Inr (x, w_db w2)"
    and b1: "bk_ID b1 = bk_ID b" "bk_events b1 = bk_events b"
    and s2: "w_env w2 = w_env w" "w_side w2 = w_side w"
    using m s1 by (cases ex) (auto simp: act_inv stmt_Inr, blast+)
  from SaveEvents_effect [OF o] obtain rows where
    "outbox_rows_for (bk_ID b1) ''Booking'' (map EvBooking (bk_events b1)) rows"
    "w_db w3 = (w_db w2)\<lparr>db_outbox_events := db_outbox_events (w_db w2) @ rows\<rparr>"
    "w_env w3 = w_env w2" "w_side w3 = w_side w2" by blast
  with that u b1 s2 w3 show thesis by simp
qed

lemma Booking_Save_ok:
  assumes "bookings_ok (w_db w)" and "BookingRepository_Save b w = (Inr b', w')"
  shows "bookings_ok (w_db w')"
proof -
  from assms(2) obtain d1 x fk now rows where
    u: "UpdateBooking (Booking_MapToPersistence b) fk now (w_db w) = Inr (x, d1)
      \<or> CreateBooking (Booking_MapToPersistence b) fk now (w_db w) = Inr (x, d1)"
    and w': "w_db w' = d1\<lparr>db_outbox_events := db_outbox_events d1 @ rows\<rparr>"
    by (rule Booking_Save_Inr)
  from u have "bookings_ok d1" using bookings_ok_update bookings_ok_create assms(1) by blast
  then show ?thesis by (simp add: bookings_ok_def w')
qed

lemma UpdateBooking_at:
  assumes "bookings_ok d" and "UpdateBooking p fk now d = Inr (x, d')"
  shows "\<exists>r. booking_at d (br_id p) (br_tenant_id p) = Some r \<and> br_version r = br_version p
    \<and> booking_at d' (br_id p) (br_tenant_id p) = Some (booking_set p now r)"
proof -
  from UpdateBooking_Inr [OF assms(2)] obtain r where r: "r \<in> set (db_bookings d)" "booking_selected p r"
    "d' = d\<lparr>db_bookings := update_where (booking_selected p) (booking_set p now) (db_bookings d)\<rparr>"
    by blast
  have "booking_at d (br_id p) (br_tenant_id p) = Some r"
    unfolding booking_at_def using assms(1) r(1,2)
    by (intro find_distinct_key [of br_id]) (auto simp: bookings_ok_def booking_selected_def)
  moreover from this have "booking_at d' (br_id p) (br_tenant_id p) = Some (booking_set p now r)"
    unfolding booking_at_def r(3) using r(2) by (simp add: find_update_where)
  ultimately show ?thesis using r(2) by (simp add: booking_selected_def)
qed

interpretation booking_repo: versioned_repository bookings_ok booking_stored
  BookingRepository_Find BookingRepository_Save bk_ID bk_TenantID bk_Version
proof
  fix i t w r w' assume "BookingRepository_Find i t w = (r, w')"
  then show "same_store w w'" by (rule Booking_Find_store)
next
  fix w i t a w' assume "bookings_ok (w_db w)" "BookingRepository_Find i t w = (Inr a, w')"
  from Booking_Find_Inr [OF this(2,1)]
  show "bk_ID a = i \<and> bk_TenantID a = t \<and> booking_stored (w_db w) i t = Some (bk_Version a)"
    by (auto simp: booking_stored_def Booking_MapToAggregate_def)
next
  fix w a a' w' assume "bookings_ok (w_db w)" "BookingRepository_Save a w = (Inr a', w')"
  then show "bookings_ok (w_db w')" by (rule Booking_Save_ok)
next
  fix w a a' w' v
  assume ok: "bookings_ok (w_db w)" and s: "BookingRepository_Save a w = (Inr a', w')"
    and st: "booking_stored (w_db w) (bk_ID a) (bk_TenantID a) = Some v"
  let ?p = "Booking_MapToPersistence a"
  have p: "br_id ?p = bk_ID a" "br_tenant_id ?p = bk_TenantID a" "br_version ?p = bk_Version a"
    by (simp_all add: Booking_MapToPersistence_def)
  from s obtain d1 x fk now rows where
    u: "UpdateBooking ?p fk now (w_db w) = Inr (x, d1) \<or> CreateBooking ?p fk now (w_db w) = Inr (x, d1)"
    and w': "w_db w' = d1\<lparr>db_outbox_events := db_outbox_events d1 @ rows\<rparr>"
    by (rule Booking_Save_Inr)
  from st obtain r where at: "booking_at (w_db w) (bk_ID a) (bk_TenantID a) = Some r" "br_version r = v"
    by (auto simp: booking_stored_def)
  then have "bk_ID a \<in> br_id ` set (db_bookings (w_db w))"
    by (force simp: booking_at_def dest!: find_SomeD)
  then have "CreateBooking ?p fk now (w_db w) \<noteq> Inr (x, d1)"
    using CreateBooking_Inr [of ?p fk now "w_db w" x d1] p by (auto simp: booking_violation_None)
  with u have "UpdateBooking ?p fk now (w_db w) = Inr (x, d1)" by blast
  from UpdateBooking_at [OF ok this] at p
  show "v = bk_Version a \<and> booking_stored (w_db w') (bk_ID a) (bk_TenantID a) = Some (v + 1)"
    by (auto simp: booking_stored_def w' booking_at_def)
qed

end
