(* ===== verification/Booking_Application.thy ===== *)
theory Booking_Application
  imports Booking_Laws
begin

text \<open>
  The booking use cases (\<open>internal/booking/application\<close>) and the workflow that forwards to
  them (\<open>internal/booking/domain/workflow\<close>).
\<close>

section \<open>Commands and use cases\<close>

definition BookingTableName :: string where "BookingTableName = ''bookings''"

record CreateBookingCommand =
  cbc_TenantID :: TenantID
  cbc_CustomerID :: string
  cbc_RouteID :: string
  cbc_PickupDate :: string
  cbc_VehicleType :: string
  cbc_Passengers :: int
  cbc_CargoWeight :: "float64 option"
  cbc_Price :: float64
  cbc_Notes :: string

record UpdateBookingCommand =
  ubc_BookingID :: BookingID
  ubc_TenantID :: TenantID
  ubc_CustomerID :: string
  ubc_RouteID :: string
  ubc_PickupDate :: string
  ubc_VehicleType :: string
  ubc_Passengers :: int
  ubc_CargoWeight :: "float64 option"
  ubc_Price :: float64
  ubc_Notes :: string

text \<open>The field checks shared word for word by \<open>CreateBooking\<close> and \<open>UpdateBooking\<close>.\<close>

definition validate_booking_fields :: "string \<Rightarrow> string \<Rightarrow> string \<Rightarrow> int \<Rightarrow> float64 \<Rightarrow> unit wact" where
  "validate_booking_fields customerID routeID vehicleType passengers price =
     seqE (failIf (customerID = []) ''customer ID is required'')
    (seqE (failIf (routeID = []) ''route ID is required'')
    (seqE (failIf (vehicleType = []) ''vehicle type is required'')
    (seqE (failIf (passengers < 1) ''passengers must be at least 1'')
          (failIf (flt price (Fin 0)) ''price cannot be negative''))))"

definition CreateBookingUseCase_Execute :: "CreateBookingCommand \<Rightarrow> BookingID wact" where
  "CreateBookingUseCase_Execute cmd =
     seqE (validate_booking_fields (cbc_CustomerID cmd) (cbc_RouteID cmd) (cbc_VehicleType cmd)
             (cbc_Passengers cmd) (cbc_Price cmd))
    (bindE (lift_result (parse_pickup_date (cbc_PickupDate cmd))) (\<lambda>pickupDate.
     bindE GenerateUUID (\<lambda>bookingID.
     bindE (GenerateDisplayID ''BK'') (\<lambda>bookingNumber.
     bindE getEnv (\<lambda>e.
     bindE Now (\<lambda>now.
     let booking = NewBookingAggregate bookingID (cbc_TenantID cmd) bookingNumber
           (cbc_CustomerID cmd) (cbc_RouteID cmd) pickupDate (cbc_VehicleType cmd)
           (cbc_Passengers cmd) (cbc_CargoWeight cmd)
           (FloatToMoney (env_oor e) (cbc_Price cmd) ''INR'') (cbc_Notes cmd) now
     in seqE (uow_Execute
          (bindE (BookingRepository_Save booking) (\<lambda>b.
           logAudit BookingTableName ''create'' (bk_ID b) None None)))
        (ret bookingID)))))))"

definition UpdateBookingUseCase_Execute :: "UpdateBookingCommand \<Rightarrow> unit wact" where
  "UpdateBookingUseCase_Execute cmd =
     seqE (validate_booking_fields (ubc_CustomerID cmd) (ubc_RouteID cmd) (ubc_VehicleType cmd)
             (ubc_Passengers cmd) (ubc_Price cmd))
    (bindE (lift_result (parse_pickup_date (ubc_PickupDate cmd))) (\<lambda>pickupDate.
     bindE getEnv (\<lambda>e.
     transition_use_case (BookingRepository_Find (ubc_BookingID cmd) (ubc_TenantID cmd))
       (BookingAggregate_Update (ubc_CustomerID cmd) (ubc_RouteID cmd) pickupDate
          (ubc_VehicleType cmd) (ubc_Passengers cmd) (ubc_CargoWeight cmd)
          (FloatToMoney (env_oor e) (ubc_Price cmd) ''INR'') (ubc_Notes cmd))
       BookingRepository_Save
       (\<lambda>b. logAudit BookingTableName ''update'' (bk_ID b) None None))))"

definition ConfirmBookingUseCase_Execute :: "BookingID \<Rightarrow> TenantID \<Rightarrow> unit wact" where
  "ConfirmBookingUseCase_Execute bookingID tenantID =
     transition_use_case (BookingRepository_Find bookingID tenantID) BookingAggregate_Confirm
       BookingRepository_Save (\<lambda>b. logAudit BookingTableName ''confirm'' (bk_ID b) None None)"

definition CompleteBookingUseCase_Execute :: "BookingID \<Rightarrow> TenantID \<Rightarrow> unit wact" where
  "CompleteBookingUseCase_Execute bookingID tenantID =
     transition_use_case (BookingRepository_Find bookingID tenantID) BookingAggregate_Complete
       BookingRepository_Save (\<lambda>b. logAudit BookingTableName ''complete'' (bk_ID b) None None)"

definition CancelBookingUseCase_Execute :: "BookingID \<Rightarrow> TenantID \<Rightarrow> unit wact" where
  "CancelBookingUseCase_Execute bookingID tenantID =
     transition_use_case (BookingRepository_Find bookingID tenantID) BookingAggregate_Cancel
       BookingRepository_Save (\<lambda>b. logAudit BookingTableName ''cancel'' (bk_ID b) None None)"

definition DeleteBookingUseCase_Execute :: "BookingID \<Rightarrow> TenantID \<Rightarrow> unit wact" where
  "DeleteBookingUseCase_Execute bookingID tenantID =
     uow_Execute
       (bindE (BookingRepository_Exists bookingID tenantID) (\<lambda>ex.
        seqE (failIf (\<not> ex) ''booking not found'')
       (seqE (BookingRepository_Delete bookingID tenantID)
             (logAudit BookingTableName ''delete'' bookingID None None))))"

text \<open>\<open>BookingResponseDTO\<close> has the fields of the read model, copied one by one.\<close>

type_synonym BookingResponseDTO = BookingReadModel

definition GetBookingUseCase_Execute :: "BookingID \<Rightarrow> TenantID \<Rightarrow> BookingResponseDTO wact" where
  "GetBookingUseCase_Execute bookingID tenantID =
     uow_Execute (BookingRepository_GetReadModel bookingID tenantID)"

definition ListBookingsUseCase_Execute ::
  "TenantID \<Rightarrow> int \<Rightarrow> int \<Rightarrow> string \<Rightarrow> string \<Rightarrow> (BookingResponseDTO list \<times> int) wact" where
  "ListBookingsUseCase_Execute tenantID page limit search status =
     (let limit = (if limit \<le> 0 then 10 else limit);
          page = (if page \<le> 0 then 1 else page);
          offset = wrap64 (wrap64 (page - 1) * limit)
      in uow_Execute (BookingRepository_SearchReadModels tenantID search status limit offset))"

definition BookingWorkflow_ConfirmBooking :: "BookingID \<Rightarrow> TenantID \<Rightarrow> unit wact" where
  "BookingWorkflow_ConfirmBooking i t = ConfirmBookingUseCase_Execute i t"

definition BookingWorkflow_CompleteBooking :: "BookingID \<Rightarrow> TenantID \<Rightarrow> unit wact" where
  "BookingWorkflow_CompleteBooking i t = CompleteBookingUseCase_Execute i t"

definition BookingWorkflow_CancelBooking :: "BookingID \<Rightarrow> TenantID \<Rightarrow> unit wact" where
  "BookingWorkflow_CancelBooking i t = CancelBookingUseCase_Execute i t"

section \<open>Tenant isolation\<close>

text \<open>
  What a booking operation of tenant \<open>t\<close> may do to the database: change its own bookings,
  append to the outbox and to the audit log.
\<close>

definition booking_frame :: "TenantID \<Rightarrow> database \<Rightarrow> database \<Rightarrow> bool" where
  "booking_frame t d d' \<longleftrightarrow>
     (\<exists>bs ob au. d' = d\<lparr>db_bookings := bs, db_outbox_events := db_outbox_events d @ ob,
                        db_audit_logs := db_audit_logs d @ au\<rparr>
        \<and> filter (\<lambda>r. br_tenant_id r \<noteq> t) bs = filter (\<lambda>r. br_tenant_id r \<noteq> t) (db_bookings d))"

lemma booking_frame_refl: "booking_frame t d d"
  unfolding booking_frame_def by (intro exI [of _ "db_bookings d"] exI [of _ "[]"]) simp

lemma booking_frame_trans: "booking_frame t a b \<Longrightarrow> booking_frame t b c \<Longrightarrow> booking_frame t a c"
  unfolding booking_frame_def by force

interpretation bframe: db_relation "booking_frame t" for t
  by unfold_locales (auto intro: booking_frame_refl booking_frame_trans)

lemma booking_frame_bookings:
  "filter (\<lambda>r. br_tenant_id r \<noteq> t) bs = filter (\<lambda>r. br_tenant_id r \<noteq> t) (db_bookings d)
     \<Longrightarrow> booking_frame t d (d\<lparr>db_bookings := bs\<rparr>)"
  unfolding booking_frame_def by (intro exI [of _ bs] exI [of _ "[]"]) simp

lemma booking_frame_outbox: "booking_frame t d (d\<lparr>db_outbox_events := db_outbox_events d @ ob\<rparr>)"
  unfolding booking_frame_def by (intro exI [of _ "db_bookings d"] exI [of _ ob] exI [of _ "[]"]) simp

lemma booking_frame_audit: "booking_frame t d (d\<lparr>db_audit_logs := db_audit_logs d @ au\<rparr>)"
  unfolding booking_frame_def by (intro exI [of _ "db_bookings d"] exI [of _ "[]"] exI [of _ au]) simp

lemma bframe_SaveEvents: "bframe.keeps t (OutboxWriter_SaveEvents i ty evs)"
  unfolding OutboxWriter_SaveEvents_def save_event_def
  by (intro bframe.db_intros bframe.keeps_stmt)
    (auto simp: CreateOutboxEvent_Inr intro: booking_frame_outbox)

lemma bframe_logAudit: "bframe.keeps t (logAudit tb ac i ov nv)"
  by (rule bframe.keepsI) (metis booking_frame_audit logAudit_effect prod.collapse)

lemma bframe_noRowsAs: "bframe.keeps t m \<Longrightarrow> bframe.keeps t (noRowsAs s m)"
  unfolding noRowsAs_def by (intro bframe.db_intros)

lemma bframe_Update: "br_tenant_id p = t \<Longrightarrow> bframe.keeps t (stmt (UpdateBooking p))"
  by (rule bframe.keeps_stmt)
    (auto dest!: UpdateBooking_Inr intro!: booking_frame_bookings filter_update_where
      simp: booking_selected_def)

lemma bframe_Create: "br_tenant_id p = t \<Longrightarrow> bframe.keeps t (stmt (CreateBooking p))"
  by (rule bframe.keeps_stmt) (auto dest!: CreateBooking_Inr intro!: booking_frame_bookings)

lemma bframe_Delete: "bframe.keeps t (BookingRepository_Delete i t)"
  unfolding BookingRepository_Delete_def
  by (rule bframe.keeps_stmt)
    (auto dest!: DeleteBooking_Inr intro!: booking_frame_bookings simp: conj_commute intro: filter_cong)

lemma bframe_Exists: "bframe.keeps t (BookingRepository_Exists i s)"
  unfolding BookingRepository_Exists_def by (intro bframe.db_intros)

lemma bframe_Find: "bframe.keeps t (BookingRepository_Find i s)"
  unfolding BookingRepository_Find_def
  by (intro bframe.db_intros bframe_noRowsAs) (auto intro: bframe.db_intros)

lemma bframe_Save: "bk_TenantID b = t \<Longrightarrow> bframe.keeps t (BookingRepository_Save b)"
  unfolding BookingRepository_Save_def Let_def
  by (intro bframe.db_intros bframe_SaveEvents bframe_noRowsAs bframe_Exists bframe_Update bframe_Create)
    (simp_all add: Booking_MapToPersistence_def)

lemma Booking_Find_tenant:
  assumes "BookingRepository_Find i t w = (Inr a, w')"
  shows "bk_TenantID a = t \<and> bk_ID a = i"
  using assms
  by (auto simp: BookingRepository_Find_def act_inv GetBookingByID_def one_row_def
      Booking_MapToAggregate_def split: option.splits dest!: find_SomeD)

lemma bframe_transition:
  assumes "\<And>now a a'. f now a = Inr a' \<Longrightarrow> bk_TenantID a' = bk_TenantID a"
  shows "bframe.keeps t (transition_use_case (BookingRepository_Find i t) f BookingRepository_Save
    (\<lambda>b. logAudit tb ac (bk_ID b) None None))"
  unfolding transition_use_case_def
proof (rule bframe.keeps_uow, rule bframe.keeps_bind_returned [OF bframe_Find])
  fix a w w' assume "BookingRepository_Find i t w = (Inr a, w')"
  then have a: "bk_TenantID a = t" using Booking_Find_tenant by blast
  show "bframe.keeps t (bindE Now (\<lambda>now. bindE (lift_result (f now a)) (\<lambda>a'.
      bindE (BookingRepository_Save a') (\<lambda>b. logAudit tb ac (bk_ID b) None None))))"
    using assms a
    by (intro bframe.keeps_bind bframe.keeps_Now bframe.keeps_lift_bind bframe_Save bframe_logAudit) auto
qed

lemma booking_transitions_keep_tenant:
  "BookingAggregate_Confirm now a = Inr a' \<Longrightarrow> bk_TenantID a' = bk_TenantID a"
  "BookingAggregate_Complete now a = Inr a' \<Longrightarrow> bk_TenantID a' = bk_TenantID a"
  "BookingAggregate_Cancel now a = Inr a' \<Longrightarrow> bk_TenantID a' = bk_TenantID a"
  "BookingAggregate_Update c r d v p cw pr n now a = Inr a' \<Longrightarrow> bk_TenantID a' = bk_TenantID a"
  by (simp_all add: booking_Inr)

lemma bframe_validate: "bframe.keeps t (validate_booking_fields c r v p pr)"
  unfolding validate_booking_fields_def by (intro bframe.db_intros)

lemma bframe_CreateBooking: "bframe.keeps (cbc_TenantID cmd) (CreateBookingUseCase_Execute cmd)"
  unfolding CreateBookingUseCase_Execute_def Let_def
  by (intro bframe.db_intros bframe_validate bframe_Save bframe_logAudit)
    (simp add: NewBookingAggregate_def BookingAggregate_RecordEvent_def)

lemma bframe_UpdateBooking: "bframe.keeps (ubc_TenantID cmd) (UpdateBookingUseCase_Execute cmd)"
  unfolding UpdateBookingUseCase_Execute_def
  by (intro bframe.keeps_seq bframe.keeps_bind bframe.keeps_lift bframe.keeps_getEnv bframe_validate
      bframe_transition booking_transitions_keep_tenant)

lemma bframe_DeleteBooking: "bframe.keeps t (DeleteBookingUseCase_Execute i t)"
  unfolding DeleteBookingUseCase_Execute_def
  by (intro bframe.db_intros bframe_Exists bframe_Delete bframe_logAudit)

lemma bframe_ConfirmBooking: "bframe.keeps t (ConfirmBookingUseCase_Execute i t)"
  unfolding ConfirmBookingUseCase_Execute_def
  by (intro bframe_transition booking_transitions_keep_tenant(1))

lemma bframe_CompleteBooking: "bframe.keeps t (CompleteBookingUseCase_Execute i t)"
  unfolding CompleteBookingUseCase_Execute_def
  by (intro bframe_transition booking_transitions_keep_tenant(2))

lemma bframe_CancelBooking: "bframe.keeps t (CancelBookingUseCase_Execute i t)"
  unfolding CancelBookingUseCase_Execute_def
  by (intro bframe_transition booking_transitions_keep_tenant(3))

text \<open>
  Tenant isolation of bookings.  No booking use case run for a tenant changes,
  removes or adds a booking of another tenant, and none removes or changes an outbox or audit
  entry or touches another table; this holds on success, on every error and under every failure
  of the database.
\<close>

theorem booking_tenant_isolation:
  "booking_frame (cbc_TenantID c) (w_db w) (w_db (snd (CreateBookingUseCase_Execute c w)))
   \<and> booking_frame (ubc_TenantID u) (w_db w) (w_db (snd (UpdateBookingUseCase_Execute u w)))
   \<and> booking_frame t (w_db w) (w_db (snd (ConfirmBookingUseCase_Execute i t w)))
   \<and> booking_frame t (w_db w) (w_db (snd (CompleteBookingUseCase_Execute i t w)))
   \<and> booking_frame t (w_db w) (w_db (snd (CancelBookingUseCase_Execute i t w)))
   \<and> booking_frame t (w_db w) (w_db (snd (DeleteBookingUseCase_Execute i t w)))"
  using bframe_CreateBooking [of c] bframe_UpdateBooking [of u] bframe_ConfirmBooking [of t i]
    bframe_CompleteBooking [of t i] bframe_CancelBooking [of t i] bframe_DeleteBooking [of t i]
  by (simp add: bframe.keeps_def)

section \<open>Atomicity\<close>

lemma dbeq_validate: "dbeq.keeps (validate_booking_fields c r v p pr)"
  unfolding validate_booking_fields_def by (intro dbeq.db_intros)

lemma CreateBooking_fails_clean: "fails_clean (CreateBookingUseCase_Execute cmd)"
  unfolding CreateBookingUseCase_Execute_def Let_def
  by (intro fails_clean_seq fails_clean_bind fails_clean_seq_ret fails_clean_uow dbeq_validate
      dbeq.keeps_lift dbeq.keeps_GenerateUUID dbeq.keeps_GenerateDisplayID dbeq.keeps_getEnv dbeq.keeps_Now)

lemma UpdateBooking_fails_clean: "fails_clean (UpdateBookingUseCase_Execute cmd)"
  unfolding UpdateBookingUseCase_Execute_def
  by (intro fails_clean_seq fails_clean_bind fails_clean_transition dbeq_validate dbeq.keeps_lift
      dbeq.keeps_getEnv)

text \<open>
  A booking use case that returns an error has changed nothing in the database: no
  booking, no outbox event, no audit entry.
\<close>

theorem booking_use_cases_atomic:
  "(fst (CreateBookingUseCase_Execute c w) = Inl e \<longrightarrow>
      w_db (snd (CreateBookingUseCase_Execute c w)) = w_db w)
   \<and> (fst (UpdateBookingUseCase_Execute u w) = Inl e \<longrightarrow>
      w_db (snd (UpdateBookingUseCase_Execute u w)) = w_db w)
   \<and> (fst (ConfirmBookingUseCase_Execute i t w) = Inl e \<longrightarrow>
      w_db (snd (ConfirmBookingUseCase_Execute i t w)) = w_db w)
   \<and> (fst (CompleteBookingUseCase_Execute i t w) = Inl e \<longrightarrow>
      w_db (snd (CompleteBookingUseCase_Execute i t w)) = w_db w)
   \<and> (fst (CancelBookingUseCase_Execute i t w) = Inl e \<longrightarrow>
      w_db (snd (CancelBookingUseCase_Execute i t w)) = w_db w)
   \<and> (fst (DeleteBookingUseCase_Execute i t w) = Inl e \<longrightarrow>
      w_db (snd (DeleteBookingUseCase_Execute i t w)) = w_db w)"
  unfolding ConfirmBookingUseCase_Execute_def CompleteBookingUseCase_Execute_def
    CancelBookingUseCase_Execute_def DeleteBookingUseCase_Execute_def
  by (intro conjI impI fails_cleanD CreateBooking_fails_clean UpdateBooking_fails_clean
      fails_clean_transition fails_clean_uow)

theorem booking_use_cases_atomic_witness:
  "fst (CompleteBookingUseCase_Execute ''b1'' ''t1'' demo_world)
       = Inl (ErrorString ''only confirmed bookings can be completed'')
   \<and> w_db (snd (CompleteBookingUseCase_Execute ''b1'' ''t1'' demo_world)) = w_db demo_world"
proof -
  have e: "fst (CompleteBookingUseCase_Execute ''b1'' ''t1'' demo_world)
      = Inl (ErrorString ''only confirmed bookings can be completed'')" by code_simp
  with booking_use_cases_atomic [of undefined demo_world
      "ErrorString ''only confirmed bookings can be completed''" undefined "''b1''" "''t1''"]
  show ?thesis by simp
qed

section \<open>Effects of the transitions\<close>

lemma booking_at_same:
  "db_bookings d' = db_bookings d \<Longrightarrow> booking_at d' = booking_at d"
  by (intro ext) (simp add: booking_at_def)

lemma logAudit_bookings:
  assumes "logAudit tb ac i ov nv w = (r, w')"
  shows "db_bookings (w_db w') = db_bookings (w_db w) \<and> db_outbox_events (w_db w') = db_outbox_events (w_db w)"
  using logAudit_effect [OF assms] by auto

lemma booking_transition_effect:
  assumes ok: "bookings_ok (w_db w)"
    and run: "transition_use_case (BookingRepository_Find i t) f BookingRepository_Save
      (\<lambda>b. logAudit tb ac (bk_ID b) None None) w = (Inr u, w')"
    and f: "\<And>now a a'. f now a = Inr a' \<Longrightarrow>
      bk_ID a' = bk_ID a \<and> bk_TenantID a' = bk_TenantID a \<and> bk_Version a' = bk_Version a"
  shows "\<exists>r a' now now' rows. booking_at (w_db w) i t = Some r
    \<and> f now (Booking_MapToAggregate (env_oor (w_env w)) r) = Inr a'
    \<and> booking_at (w_db w') i t = Some (booking_set (Booking_MapToPersistence a') now' r)
    \<and> outbox_rows_for i ''Booking'' (map EvBooking (bk_events a')) rows
    \<and> db_outbox_events (w_db w') = db_outbox_events (w_db w) @ rows"
proof -
  from run obtain a w1 a' a'' w2 w3
    where l: "BookingRepository_Find i t (w\<lparr>w_nop := Suc (w_nop w)\<rparr>) = (Inr a, w1)"
      and tr: "f (env_clk (w_env w1) (w_nclk w1)) a = Inr a'"
      and s: "BookingRepository_Save a' (w1\<lparr>w_nclk := Suc (w_nclk w1)\<rparr>) = (Inr a'', w2)"
      and au: "logAudit tb ac (bk_ID a'') None None w2 = (Inr u, w3)"
      and w': "w' = w3\<lparr>w_nop := Suc (w_nop w3)\<rparr>"
    by (rule transition_use_case_Inr)
  from Booking_Find_Inr [OF l] ok obtain r where r: "booking_at (w_db w) i t = Some r"
    "br_id r = i" "br_tenant_id r = t" "a = Booking_MapToAggregate (env_oor (w_env w)) r" by auto
  have d1: "w_db w1 = w_db w" using Booking_Find_store [OF l] by (simp add: same_store_def)
  let ?p = "Booking_MapToPersistence a'"
  have p: "br_id ?p = i" "br_tenant_id ?p = t" "bk_ID a' = i"
    using f [OF tr] r by (simp_all add: Booking_MapToPersistence_def Booking_MapToAggregate_def)
  from s obtain d2 x fk now' rows where
    u: "UpdateBooking ?p fk now' (w_db w) = Inr (x, d2) \<or> CreateBooking ?p fk now' (w_db w) = Inr (x, d2)"
    and rows: "outbox_rows_for (bk_ID a') ''Booking'' (map EvBooking (bk_events a')) rows"
    and w2: "w_db w2 = d2\<lparr>db_outbox_events := db_outbox_events d2 @ rows\<rparr>"
    by (rule Booking_Save_Inr) (simp add: d1)
  have "i \<in> br_id ` set (db_bookings (w_db w))"
    using r(1,2) by (force simp: booking_at_def dest!: find_SomeD)
  then have "CreateBooking ?p fk now' (w_db w) \<noteq> Inr (x, d2)"
    using CreateBooking_Inr [of ?p fk now' "w_db w" x d2] p by (auto simp: booking_violation_None)
  with u have up: "UpdateBooking ?p fk now' (w_db w) = Inr (x, d2)" by blast
  from UpdateBooking_at [OF ok up] r p have at: "booking_at d2 i t = Some (booking_set ?p now' r)" by auto
  from UpdateBooking_Inr [OF up] have ob: "db_outbox_events d2 = db_outbox_events (w_db w)" by auto
  have "booking_at (w_db w') i t = booking_at d2 i t"
    using logAudit_bookings [OF au] booking_at_same [of "w_db w3" d2] w2 w' by simp
  moreover have "db_outbox_events (w_db w') = db_outbox_events (w_db w) @ rows"
    using logAudit_bookings [OF au] w2 w' ob by simp
  moreover note tr [unfolded r(4)] rows [unfolded p(3)]
  ultimately show ?thesis using r(1) at by metis
qed

text \<open>A stored booking moved to a new status, with one event for it.\<close>

definition booking_changed :: "database \<Rightarrow> database \<Rightarrow> string \<Rightarrow> string \<Rightarrow> (string \<Rightarrow> bool) \<Rightarrow> string \<Rightarrow> string \<Rightarrow> bool" where
  "booking_changed d d' i t old new evtype \<longleftrightarrow>
     (\<exists>r r' ev. booking_at d i t = Some r \<and> booking_at d' i t = Some r' \<and> old (br_status r)
        \<and> br_status r' = new \<and> br_version r' = br_version r + 1
        \<and> br_booking_number r' = br_booking_number r \<and> br_customer_id r' = br_customer_id r
        \<and> br_route_id r' = br_route_id r \<and> br_vehicle_type r' = br_vehicle_type r
        \<and> br_passengers r' = br_passengers r \<and> br_pickup_date r' = br_pickup_date r
        \<and> (br_notes r \<noteq> Some [] \<longrightarrow> br_notes r' = br_notes r)
        \<and> db_outbox_events d' = db_outbox_events d @ [ev] \<and> ob_event_type ev = evtype
        \<and> ob_aggregate_id ev = i \<and> ob_aggregate_type ev = ''Booking'' \<and> ob_published_at ev = None)"

lemma booking_changedI:
  assumes "booking_at d i t = Some r"
    and a': "a' = (Booking_MapToAggregate oor r)\<lparr>bk_Status := new, bk_UpdatedAt := u, bk_events := [e]\<rparr>"
    and "old (br_status r)"
    and "booking_at d' i t = Some (booking_set (Booking_MapToPersistence a') now' r)"
    and "outbox_rows_for i ''Booking'' (map EvBooking (bk_events a')) rows"
    and "db_outbox_events d' = db_outbox_events d @ rows"
    and "getEventTypeName (EvBooking e) = evtype"
  shows "booking_changed d d' i t old new evtype"
proof -
  obtain ev where ev: "rows = [ev]" using assms(5) by (auto simp: outbox_rows_for_def a')
  with assms(5,7) have "ob_event_type ev = evtype \<and> ob_aggregate_id ev = i
      \<and> ob_aggregate_type ev = ''Booking'' \<and> ob_published_at ev = None"
    by (simp add: outbox_rows_for_def a')
  with assms ev show ?thesis
    unfolding booking_changed_def
    by (intro exI [of _ r] exI [of _ "booking_set (Booking_MapToPersistence a') now' r"] exI [of _ ev])
      (auto simp: booking_set_def Booking_MapToPersistence_def Booking_MapToAggregate_def
        split: option.splits)
qed

lemma event_name_booking: "getEventTypeName (EvBooking e) = booking_event_name e"
  by (cases e) (simp_all add: getEventTypeName_def EventTypeOf_def type_string_def after_last_def)

lemma Booking_agg_proj:
  "bk_Status (Booking_MapToAggregate oor r) = br_status r"
  "bk_ID (Booking_MapToAggregate oor r) = br_id r"
  "bk_events (Booking_MapToAggregate oor r) = []"
  by (simp_all add: Booking_MapToAggregate_def)

lemma booking_change_effect:
  assumes ok: "bookings_ok (w_db w)"
    and run: "transition_use_case (BookingRepository_Find i t) f BookingRepository_Save
      (\<lambda>b. logAudit tb ac (bk_ID b) None None) w = (Inr u, w')"
    and f: "\<And>now a a'. f now a = Inr a' \<Longrightarrow> old (bk_Status a) \<and>
      a' = a\<lparr>bk_Status := new, bk_UpdatedAt := now,
             bk_events := bk_events a @ [ev (bk_ID a) (bk_TenantID a) now]\<rparr>"
    and ev: "\<And>x y z. booking_event_name (ev x y z) = evtype"
  shows "booking_changed (w_db w) (w_db w') i t old new evtype"
proof -
  have ids: "bk_ID a' = bk_ID a \<and> bk_TenantID a' = bk_TenantID a \<and> bk_Version a' = bk_Version a"
    if "f now a = Inr a'" for now a a' using f [OF that] by simp
  have "\<exists>r a' now now' rows. booking_at (w_db w) i t = Some r
    \<and> f now (Booking_MapToAggregate (env_oor (w_env w)) r) = Inr a'
    \<and> booking_at (w_db w') i t = Some (booking_set (Booking_MapToPersistence a') now' r)
    \<and> outbox_rows_for i ''Booking'' (map EvBooking (bk_events a')) rows
    \<and> db_outbox_events (w_db w') = db_outbox_events (w_db w) @ rows"
    by (rule booking_transition_effect [OF ok run]) (erule ids)
  then obtain r a' now now' rows
    where r: "booking_at (w_db w) i t = Some r"
      and tr: "f now (Booking_MapToAggregate (env_oor (w_env w)) r) = Inr a'"
      and at: "booking_at (w_db w') i t = Some (booking_set (Booking_MapToPersistence a') now' r)"
      and rows: "outbox_rows_for i ''Booking'' (map EvBooking (bk_events a')) rows"
      and ob: "db_outbox_events (w_db w') = db_outbox_events (w_db w) @ rows" by blast
  from f [OF tr] have old: "old (br_status r)"
    and a': "a' = (Booking_MapToAggregate (env_oor (w_env w)) r)
        \<lparr>bk_Status := new, bk_UpdatedAt := now, bk_events := [ev (br_id r)
          (bk_TenantID (Booking_MapToAggregate (env_oor (w_env w)) r)) now]\<rparr>"
    by (simp_all add: Booking_agg_proj)
  show ?thesis
    by (rule booking_changedI [of "w_db w" i t r a', where old = old, OF r a' old at rows ob])
      (simp add: event_name_booking ev)
qed

text \<open>
  Confirming (completing, cancelling) a booking does exactly that.  When the use
  case returns nil the stored booking was pending (confirmed, not completed) and now has the new
  status and the next version; its number, customer, route, vehicle type, passengers and notes are
  as before; and exactly one event, unpublished and of the right type, was appended to the outbox.
\<close>

theorem booking_transition_use_cases:
  assumes "bookings_ok (w_db w)"
  shows "(ConfirmBookingUseCase_Execute i t w = (Inr u, w') \<longrightarrow>
      booking_changed (w_db w) (w_db w') i t (\<lambda>s. s = BookingPending) BookingConfirmed ''BookingConfirmedEvent'')
   \<and> (CompleteBookingUseCase_Execute i t w = (Inr u, w') \<longrightarrow>
      booking_changed (w_db w) (w_db w') i t (\<lambda>s. s = BookingConfirmed) BookingCompleted ''BookingCompletedEvent'')
   \<and> (CancelBookingUseCase_Execute i t w = (Inr u, w') \<longrightarrow>
      booking_changed (w_db w) (w_db w') i t (\<lambda>s. s \<noteq> BookingCompleted) BookingCancelled ''BookingCancelledEvent'')"
  unfolding ConfirmBookingUseCase_Execute_def CompleteBookingUseCase_Execute_def
    CancelBookingUseCase_Execute_def
  by (intro conjI impI;
      erule booking_change_effect [OF assms, where ev = BookingConfirmedEvent]
        booking_change_effect [OF assms, where ev = BookingCompletedEvent]
        booking_change_effect [OF assms, where ev = BookingCancelledEvent];
      simp add: booking_Inr)

theorem booking_transition_use_cases_witness:
  "booking_changed demo_db (w_db (snd (ConfirmBookingUseCase_Execute ''b1'' ''t1'' demo_world)))
     ''b1'' ''t1'' (\<lambda>s. s = BookingPending) BookingConfirmed ''BookingConfirmedEvent''"
proof -
  have ok: "bookings_ok (w_db demo_world)"
    by (simp add: bookings_ok_def demo_world_def demo_db_def demo_booking_def booking_check_statuses_def)
  have "fst (ConfirmBookingUseCase_Execute ''b1'' ''t1'' demo_world) = Inr ()" by code_simp
  then have "ConfirmBookingUseCase_Execute ''b1'' ''t1'' demo_world
      = (Inr (), snd (ConfirmBookingUseCase_Execute ''b1'' ''t1'' demo_world))" by (simp add: prod_eq_iff)
  with booking_transition_use_cases [OF ok, of "''b1''" "''t1''" "()"] show ?thesis
    by (simp add: demo_world_def)
qed

text \<open>
  No lost updates.  When two requests loaded the same booking, each made a valid
  transition on its copy and the first saved it, the save of the second fails, whatever the
  interleaving of their other database operations was.
\<close>

theorem booking_no_lost_update:
  assumes "bookings_ok (w_db w0)"
    and "BookingRepository_Find i t w0 = (Inr a, w1)" and "BookingRepository_Find i t w1 = (Inr b, w2)"
    and "booking_step a a'" and "booking_step b b'"
    and "BookingRepository_Save a' w2 = (Inr a'', w3)"
  shows "\<exists>e w4. BookingRepository_Save b' w3 = (Inl e, w4)"
  using booking_repo.no_lost_update [OF assms(1-3) _ _ _ _ _ _ assms(6), of b']
    booking_step_identity [OF assms(4)] booking_step_identity [OF assms(5)] by blast

theorem booking_no_lost_update_witness:
  "\<exists>b' w3 e w4. BookingRepository_Save b' w3 = (Inl e, w4)"
proof -
  define w1 where "w1 = snd (BookingRepository_Find ''b1'' ''t1'' demo_world)"
  define w2 where "w2 = snd (BookingRepository_Find ''b1'' ''t1'' w1)"
  define a where "a = projr (fst (BookingRepository_Find ''b1'' ''t1'' demo_world))"
  define b where "b = projr (fst (BookingRepository_Find ''b1'' ''t1'' w1))"
  define a' where "a' = projr (BookingAggregate_Confirm 1 a)"
  define b' where "b' = projr (BookingAggregate_Cancel 1 b)"
  define w3 where "w3 = snd (BookingRepository_Save a' w2)"
  have ok: "bookings_ok (w_db demo_world)"
    by (simp add: bookings_ok_def demo_world_def demo_db_def demo_booking_def booking_check_statuses_def)
  have f1: "BookingRepository_Find ''b1'' ''t1'' demo_world = (Inr a, w1)"
    unfolding a_def w1_def by (rule run_Inr) code_simp
  have f2: "BookingRepository_Find ''b1'' ''t1'' w1 = (Inr b, w2)"
    unfolding b_def w2_def w1_def by (rule run_Inr) code_simp
  have "\<not> isl (BookingAggregate_Confirm 1 a)" unfolding a_def by code_simp
  then have c: "BookingAggregate_Confirm 1 a = Inr a'" by (simp add: a'_def)
  have "\<not> isl (BookingAggregate_Cancel 1 b)" unfolding b_def w1_def by code_simp
  then have d: "BookingAggregate_Cancel 1 b = Inr b'" by (simp add: b'_def)
  have s: "BookingRepository_Save a' w2 = (Inr (projr (fst (BookingRepository_Save a' w2))), w3)"
    unfolding w3_def by (rule run_Inr) (unfold a'_def a_def w2_def w1_def, code_simp)
  show ?thesis
    using booking_no_lost_update [OF ok f1 f2 step_Confirm [OF c] step_Cancel [OF d] s] by blast
qed

section \<open>Creation\<close>

lemma CreateBooking_run:
  assumes "CreateBookingUseCase_Execute cmd w = (Inr i, w')"
  obtains pd n now wS b' wA u wL where
    "cbc_CustomerID cmd \<noteq> []" "cbc_RouteID cmd \<noteq> []" "cbc_VehicleType cmd \<noteq> []" "1 \<le> cbc_Passengers cmd"
    and "parse_pickup_date (cbc_PickupDate cmd) = Inr pd"
    and "BookingRepository_Save (NewBookingAggregate i (cbc_TenantID cmd) n (cbc_CustomerID cmd)
        (cbc_RouteID cmd) pd (cbc_VehicleType cmd) (cbc_Passengers cmd) (cbc_CargoWeight cmd)
        (FloatToMoney (env_oor (w_env w)) (cbc_Price cmd) ''INR'') (cbc_Notes cmd) now) wS = (Inr b', wA)"
    and "w_db wS = w_db w"
    and "logAudit BookingTableName ''create'' (bk_ID b') None None wA = (Inr u, wL)"
    and "w_db w' = w_db wL"
  using assms unfolding CreateBookingUseCase_Execute_def validate_booking_fields_def Let_def
    GenerateDisplayID_def
  by (clarsimp simp: act_inv uow_Inr not_less)

text \<open>
  A booking that was created is there.  When \<open>CreateBooking\<close> returns an
  identifier, no booking had it before; the row stored under it belongs to the tenant of the
  command, is pending in version 1, carries the customer, route, vehicle type and passenger count
  of the command and its price to the paisa; the checks of the command hold of it; and the
  creation event is in the outbox.
\<close>

theorem CreateBooking_stores:
  assumes "CreateBookingUseCase_Execute cmd w = (Inr i, w')" and "bookings_ok (w_db w)"
  shows "\<exists>r ev. booking_at (w_db w') i (cbc_TenantID cmd) = Some r
    \<and> i \<notin> br_id ` set (db_bookings (w_db w))
    \<and> br_status r = BookingPending \<and> br_version r = 1
    \<and> br_customer_id r = cbc_CustomerID cmd \<and> br_route_id r = cbc_RouteID cmd
    \<and> br_vehicle_type r = cbc_VehicleType cmd \<and> br_passengers r = cbc_Passengers cmd
    \<and> br_price r = MoneyToFloat (FloatToMoney (env_oor (w_env w)) (cbc_Price cmd) ''INR'')
    \<and> parse_pickup_date (cbc_PickupDate cmd) = Inr (br_pickup_date r)
    \<and> br_customer_id r \<noteq> [] \<and> br_route_id r \<noteq> [] \<and> br_vehicle_type r \<noteq> [] \<and> 1 \<le> br_passengers r
    \<and> db_outbox_events (w_db w') = db_outbox_events (w_db w) @ [ev]
    \<and> ob_event_type ev = ''BookingCreatedEvent'' \<and> ob_aggregate_id ev = i"
proof -
  from assms(1) obtain pd n now wS b' wA u wL where
    fields: "cbc_CustomerID cmd \<noteq> []" "cbc_RouteID cmd \<noteq> []" "cbc_VehicleType cmd \<noteq> []"
      "1 \<le> cbc_Passengers cmd" "parse_pickup_date (cbc_PickupDate cmd) = Inr pd"
    and s: "BookingRepository_Save (NewBookingAggregate i (cbc_TenantID cmd) n (cbc_CustomerID cmd)
        (cbc_RouteID cmd) pd (cbc_VehicleType cmd) (cbc_Passengers cmd) (cbc_CargoWeight cmd)
        (FloatToMoney (env_oor (w_env w)) (cbc_Price cmd) ''INR'') (cbc_Notes cmd) now) wS = (Inr b', wA)"
    and dS: "w_db wS = w_db w"
    and au: "logAudit BookingTableName ''create'' (bk_ID b') None None wA = (Inr u, wL)"
    and w': "w_db w' = w_db wL"
    by (rule CreateBooking_run)
  let ?b = "NewBookingAggregate i (cbc_TenantID cmd) n (cbc_CustomerID cmd)
        (cbc_RouteID cmd) pd (cbc_VehicleType cmd) (cbc_Passengers cmd) (cbc_CargoWeight cmd)
        (FloatToMoney (env_oor (w_env w)) (cbc_Price cmd) ''INR'') (cbc_Notes cmd) now"
  note new = NewBookingAggregate_def BookingAggregate_RecordEvent_def Booking_MapToPersistence_def
  from s obtain d1 x fk now' rows where
    u: "UpdateBooking (Booking_MapToPersistence ?b) fk now' (w_db w) = Inr (x, d1)
      \<or> CreateBooking (Booking_MapToPersistence ?b) fk now' (w_db w) = Inr (x, d1)"
    and rows: "outbox_rows_for (bk_ID ?b) ''Booking'' (map EvBooking (bk_events ?b)) rows"
    and wA: "w_db wA = d1\<lparr>db_outbox_events := db_outbox_events d1 @ rows\<rparr>"
    by (rule Booking_Save_Inr) (simp add: dS)
  have "UpdateBooking (Booking_MapToPersistence ?b) fk now' (w_db w) \<noteq> Inr (x, d1)"
    using UpdateBooking_Inr [of "Booking_MapToPersistence ?b" fk now' "w_db w" x d1] assms(2)
    by (force simp: bookings_ok_def booking_selected_def new)
  with u have c: "CreateBooking (Booking_MapToPersistence ?b) fk now' (w_db w) = Inr (x, d1)" by blast
  note cr = CreateBooking_Inr [OF c]
  have x: "br_id x = i" "br_tenant_id x = cbc_TenantID cmd" "i \<notin> br_id ` set (db_bookings (w_db w))"
    using cr by (auto simp: new booking_violation_None)
  have xf: "br_status x = BookingPending" "br_version x = 1" "br_customer_id x = cbc_CustomerID cmd"
    "br_route_id x = cbc_RouteID cmd" "br_vehicle_type x = cbc_VehicleType cmd"
    "br_passengers x = cbc_Passengers cmd" "br_pickup_date x = pd"
    "br_price x = MoneyToFloat (FloatToMoney (env_oor (w_env w)) (cbc_Price cmd) ''INR'')"
    using c by (auto simp: CreateBooking_def new Let_def split: option.splits)
  have "find (\<lambda>r. br_id r = i \<and> br_tenant_id r = cbc_TenantID cmd) (db_bookings (w_db w)) = None"
    using x(3) by (auto simp: find_None_iff)
  then have "booking_at d1 i (cbc_TenantID cmd) = Some x"
    using cr x by (simp add: booking_at_def find_append)
  then have at: "booking_at (w_db w') i (cbc_TenantID cmd) = Some x"
    using logAudit_bookings [OF au] booking_at_same [of "w_db wL" d1] wA w' by simp
  obtain ev where ev: "rows = [ev]" "ob_event_type ev = ''BookingCreatedEvent''" "ob_aggregate_id ev = i"
    using rows by (auto simp: outbox_rows_for_def new event_name_booking)
  have "db_outbox_events (w_db w') = db_outbox_events (w_db w) @ [ev]"
    using logAudit_bookings [OF au] wA w' cr ev by simp
  with at x xf fields ev show ?thesis by metis
qed

theorem CreateBooking_stores_witness:
  "\<exists>r. booking_at (w_db (snd (CreateBookingUseCase_Execute
      \<lparr>cbc_TenantID = ''t1'', cbc_CustomerID = ''c1'', cbc_RouteID = ''r1'',
       cbc_PickupDate = ''2024-02-29'', cbc_VehicleType = ''truck'', cbc_Passengers = 2,
       cbc_CargoWeight = None, cbc_Price = Fin 5, cbc_Notes = []\<rparr> demo_world)))
      ''uuid-'' ''t1'' = Some r"
proof -
  let ?c = "\<lparr>cbc_TenantID = ''t1'', cbc_CustomerID = ''c1'', cbc_RouteID = ''r1'',
       cbc_PickupDate = ''2024-02-29'', cbc_VehicleType = ''truck'', cbc_Passengers = 2,
       cbc_CargoWeight = None, cbc_Price = Fin 5, cbc_Notes = []\<rparr>"
  have ok: "bookings_ok (w_db demo_world)"
    by (simp add: bookings_ok_def demo_world_def demo_db_def demo_booking_def booking_check_statuses_def)
  have "fst (CreateBookingUseCase_Execute ?c demo_world) = Inr ''uuid-''" by code_simp
  then have "CreateBookingUseCase_Execute ?c demo_world
      = (Inr ''uuid-'', snd (CreateBookingUseCase_Execute ?c demo_world))" by (simp add: prod_eq_iff)
  from CreateBooking_stores [OF this ok] show ?thesis by auto
qed

end
