(* ===== verification/Trip_Application.thy ===== *)
theory Trip_Application
  imports Trip_Dispatch Booking_Application
begin

text \<open>
  The trip use cases (\<open>internal/trip/application\<close>), the workflow that forwards to them
  (\<open>internal/trip/domain/workflow\<close>) and the facade (\<open>internal/trip/facade_impl.go\<close>).
\<close>

section \<open>Use cases\<close>

definition TripTableName :: string where "TripTableName = ''trips''"

record CreateTripCommand =
  ctc_TenantID :: TenantID
  ctc_BookingID :: "string option"
  ctc_RouteID :: string
  ctc_DepartureTime :: go_time
  ctc_Remarks :: string

definition CreateTripUseCase_Execute :: "CreateTripCommand \<Rightarrow> TripID wact" where
  "CreateTripUseCase_Execute cmd =
     seqE (failIf (ctc_RouteID cmd = []) ''route ID is required'')
    (seqE (failIf (time_IsZero (ctc_DepartureTime cmd)) ''departure time is required'')
    (bindE GenerateUUID (\<lambda>tripID.
     bindE (GenerateDisplayID ''TR'') (\<lambda>tripNumber.
     bindE Now (\<lambda>now.
     let trip = NewTripAggregate tripID (ctc_TenantID cmd) tripNumber (ctc_BookingID cmd)
           (ctc_RouteID cmd) (ctc_DepartureTime cmd) (ctc_Remarks cmd) now
     in seqE (uow_Execute
          (bindE (TripRepository_Save trip) (\<lambda>t. logAudit TripTableName ''create'' (tr_ID t) None None)))
        (ret tripID))))))"

text \<open>
  Load the trip, run a check of its own on it, apply a transition at the time of the clock, save
  and audit: the body shared by the use cases below.
\<close>

definition guarded_trip_use_case ::
  "TripID \<Rightarrow> TenantID \<Rightarrow> (TripAggregate \<Rightarrow> unit wact) \<Rightarrow>
   (go_time \<Rightarrow> TripAggregate \<Rightarrow> TripAggregate result) \<Rightarrow> (TripAggregate \<Rightarrow> unit wact) \<Rightarrow> unit wact" where
  "guarded_trip_use_case tripID tenantID guard f after =
     uow_Execute
       (bindE (TripRepository_Find tripID tenantID) (\<lambda>t.
        seqE (guard t)
       (bindE Now (\<lambda>now.
        bindE (lift_result (f now t)) (\<lambda>t'.
        bindE (TripRepository_Save t') after)))))"

definition audit_trip :: "string \<Rightarrow> TripAggregate \<Rightarrow> unit wact" where
  "audit_trip action t = logAudit TripTableName action (tr_ID t) None None"

definition ScheduleTripUseCase_Execute :: "TripID \<Rightarrow> TenantID \<Rightarrow> unit wact" where
  "ScheduleTripUseCase_Execute tripID tenantID =
     guarded_trip_use_case tripID tenantID (\<lambda>_. ret ()) TripAggregate_Schedule (audit_trip ''schedule'')"

definition ReachPickupUseCase_Execute :: "TripID \<Rightarrow> TenantID \<Rightarrow> unit wact" where
  "ReachPickupUseCase_Execute tripID tenantID =
     guarded_trip_use_case tripID tenantID (\<lambda>_. ret ()) TripAggregate_ReachPickup (audit_trip ''reach_pickup'')"

definition StartTransitUseCase_Execute :: "TripID \<Rightarrow> TenantID \<Rightarrow> unit wact" where
  "StartTransitUseCase_Execute tripID tenantID =
     guarded_trip_use_case tripID tenantID (\<lambda>_. ret ()) TripAggregate_StartTransit (audit_trip ''start_transit'')"

definition DeliverUseCase_Execute :: "TripID \<Rightarrow> TenantID \<Rightarrow> unit wact" where
  "DeliverUseCase_Execute tripID tenantID =
     guarded_trip_use_case tripID tenantID (\<lambda>_. ret ()) TripAggregate_Deliver (audit_trip ''deliver'')"

definition CancelTripUseCase_Execute :: "TripID \<Rightarrow> TenantID \<Rightarrow> unit wact" where
  "CancelTripUseCase_Execute tripID tenantID =
     guarded_trip_use_case tripID tenantID (\<lambda>_. ret ()) TripAggregate_Cancel (audit_trip ''cancel'')"

text \<open>\<open>OnCompleted\<close> runs in the same transaction after the audit entry; it may be nil.\<close>

definition CompleteTripUseCase_Execute ::
  "TripID \<Rightarrow> TenantID \<Rightarrow> (TripAggregate \<Rightarrow> unit wact) option \<Rightarrow> unit wact" where
  "CompleteTripUseCase_Execute tripID tenantID onCompleted =
     guarded_trip_use_case tripID tenantID (\<lambda>_. ret ()) TripAggregate_Complete
       (\<lambda>t. seqE (audit_trip ''complete'' t)
          (case onCompleted of Some f \<Rightarrow> f t | None \<Rightarrow> ret ()))"

definition start_guard :: "TenantID \<Rightarrow> TripAggregate \<Rightarrow> unit wact" where
  "start_guard tenantID t =
     seqE (case tr_DriverID t of
         Some d \<Rightarrow> (if d \<noteq> [] then StartTrip_checkDriverCompliance d tenantID else ret ())
       | None \<Rightarrow> ret ())
     (case tr_VehicleID t of
         Some v \<Rightarrow> (if v \<noteq> [] then StartTrip_checkVehicleCompliance v tenantID else ret ())
       | None \<Rightarrow> ret ())"

definition StartTripUseCase_Execute :: "TripID \<Rightarrow> TenantID \<Rightarrow> unit wact" where
  "StartTripUseCase_Execute tripID tenantID =
     guarded_trip_use_case tripID tenantID (start_guard tenantID) TripAggregate_Start (audit_trip ''start'')"

record AssignDriverCommand =
  adc_TripID :: TripID
  adc_DriverID :: string
  adc_TenantID :: TenantID
  adc_OverrideMaintenance :: bool
  adc_OverrideReason :: string

text \<open>What an accepted override of the driver check leaves behind.\<close>

definition driver_override :: "AssignDriverCommand \<Rightarrow> TripAggregate \<Rightarrow> goerr \<Rightarrow> unit wact" where
  "driver_override cmd t e =
     seqE (logAudit TripTableName ''assign_driver_override'' (adc_TripID cmd) None
       (Some (JObject [(''driver_id'', JString (adc_DriverID cmd)), (''reason'', JString (adc_OverrideReason cmd)),
          (''blocked_by'', JString (error_text e))])))
     (record_override (adc_TenantID cmd) (adc_TripID cmd) (str_or_empty (tr_VehicleID t)) (adc_DriverID cmd)
        ''license_expiry'' (adc_OverrideReason cmd))"

definition driver_compliance_gate :: "AssignDriverCommand \<Rightarrow> TripAggregate \<Rightarrow> unit wact" where
  "driver_compliance_gate cmd t =
     bindE (tryE (AssignDriver_checkDriverCompliance (adc_DriverID cmd) (adc_TenantID cmd))) (\<lambda>r. case r of
       Inr _ \<Rightarrow> ret ()
     | Inl e \<Rightarrow>
         (if override_accepted (adc_OverrideMaintenance cmd) (adc_OverrideReason cmd)
          then driver_override cmd t e else raise e))"

definition driver_conflict_gate :: "AssignDriverCommand \<Rightarrow> unit wact" where
  "driver_conflict_gate cmd =
     bindE (TripRepository_CheckDriverConflict (adc_DriverID cmd) (adc_TenantID cmd) (adc_TripID cmd)) (\<lambda>cs.
     case cs of
       [] \<Rightarrow> ret ()
     | c # _ \<Rightarrow> raise (ErrorString (''driver '' @ adc_DriverID cmd @ '' has conflicting trips: '' @ ci_TripNumber c)))"

text \<open>A trip that already carries a vehicle must not carry one that is blocked for maintenance.\<close>

definition driver_maintenance_gate :: "AssignDriverCommand \<Rightarrow> TripAggregate \<Rightarrow> unit wact" where
  "driver_maintenance_gate cmd t =
     (case tr_VehicleID t of
        Some v \<Rightarrow> (if v \<noteq> []
          then maintenance_gate v (adc_OverrideMaintenance cmd)
            (logAudit TripTableName ''assign_driver_override'' (adc_TripID cmd) None
              (Some (JObject [(''vehicle_id'', JString v), (''driver_id'', JString (adc_DriverID cmd)),
                 (''reason'', JString (adc_OverrideReason cmd))])))
          else ret ())
      | None \<Rightarrow> ret ())"

definition assign_driver_guard :: "AssignDriverCommand \<Rightarrow> TripAggregate \<Rightarrow> unit wact" where
  "assign_driver_guard cmd t =
     seqE (driver_compliance_gate cmd t)
    (seqE (driver_maintenance_gate cmd t) (driver_conflict_gate cmd))"

definition AssignDriverUseCase_Execute :: "AssignDriverCommand \<Rightarrow> unit wact" where
  "AssignDriverUseCase_Execute cmd =
     seqE (failIf (adc_DriverID cmd = []) ''driver ID is required'')
       (guarded_trip_use_case (adc_TripID cmd) (adc_TenantID cmd) (assign_driver_guard cmd)
          (TripAggregate_AssignDriver (adc_DriverID cmd)) (audit_trip ''assign''))"

definition vehicle_conflict_gate :: "AssignVehicleCommand \<Rightarrow> unit wact" where
  "vehicle_conflict_gate cmd =
     bindE (TripRepository_CheckVehicleConflict (avc_VehicleID cmd) (avc_TenantID cmd) (avc_TripID cmd)) (\<lambda>cs.
     case cs of
       [] \<Rightarrow> ret ()
     | c # _ \<Rightarrow> raise (ErrorString (''vehicle '' @ avc_VehicleID cmd @ '' has conflicting trips: '' @ ci_TripNumber c)))"

definition AssignVehicleUseCase_Execute :: "AssignVehicleCommand \<Rightarrow> unit wact" where
  "AssignVehicleUseCase_Execute cmd =
     seqE (failIf (avc_VehicleID cmd = []) ''vehicle ID is required'')
       (guarded_trip_use_case (avc_TripID cmd) (avc_TenantID cmd)
          (\<lambda>_. seqE (AssignVehicle_checkVehicleCompliance cmd) (vehicle_conflict_gate cmd))
          (TripAggregate_AssignVehicle (avc_VehicleID cmd)) (audit_trip ''assign''))"

text \<open>\<open>TripResponseDTO\<close> has the fields of the read model, copied one by one.\<close>

type_synonym TripResponseDTO = TripReadModel

definition GetTripUseCase_Execute :: "TripID \<Rightarrow> TenantID \<Rightarrow> TripResponseDTO wact" where
  "GetTripUseCase_Execute tripID tenantID = uow_Execute (TripRepository_GetReadModel tripID tenantID)"

section \<open>Workflow and facade\<close>

definition TripWorkflow_Schedule :: "TripID \<Rightarrow> TenantID \<Rightarrow> unit wact" where
  "TripWorkflow_Schedule i t = ScheduleTripUseCase_Execute i t"

definition TripWorkflow_Start :: "TripID \<Rightarrow> TenantID \<Rightarrow> unit wact" where
  "TripWorkflow_Start i t = StartTripUseCase_Execute i t"

definition TripWorkflow_Complete :: "TripID \<Rightarrow> TenantID \<Rightarrow> unit wact" where
  "TripWorkflow_Complete i t = CompleteTripUseCase_Execute i t None"

definition TripWorkflow_Cancel :: "TripID \<Rightarrow> TenantID \<Rightarrow> unit wact" where
  "TripWorkflow_Cancel i t = CancelTripUseCase_Execute i t"

definition TripWorkflow_CompleteBookingForTrip :: "bool \<Rightarrow> string \<Rightarrow> TenantID \<Rightarrow> unit wact" where
  "TripWorkflow_CompleteBookingForTrip configured bookingID tenantID =
     (if \<not> configured then ret () else CompleteBookingUseCase_Execute bookingID tenantID)"

definition TripFacade_CreateTrip :: "CreateTripCommand \<Rightarrow> TripID wact" where
  "TripFacade_CreateTrip cmd = CreateTripUseCase_Execute cmd"

definition TripFacade_StartTrip :: "TripID \<Rightarrow> TenantID \<Rightarrow> unit wact" where
  "TripFacade_StartTrip i t = StartTripUseCase_Execute i t"

definition TripFacade_CompleteTrip :: "TripID \<Rightarrow> TenantID \<Rightarrow> unit wact" where
  "TripFacade_CompleteTrip i t = CompleteTripUseCase_Execute i t None"

definition TripFacade_CancelTrip :: "TripID \<Rightarrow> TenantID \<Rightarrow> unit wact" where
  "TripFacade_CancelTrip i t = CancelTripUseCase_Execute i t"

end
