(* ===== verification/Trip_Rules.thy ===== *)
theory Trip_Rules
  imports Trip_Application
begin

text \<open>
  What the parts of a trip use case do to the database: the checks only append to the audit log,
  a successful use case replaces exactly the row it loaded.
\<close>

section \<open>Requests\<close>

text \<open>The operations of the trip module as data, so that properties can speak of all of them.\<close>

datatype trip_request =
    ReqCreate CreateTripCommand | ReqSchedule TripID TenantID | ReqAssignDriver AssignDriverCommand
  | ReqAssignVehicle AssignVehicleCommand | ReqStart TripID TenantID | ReqReachPickup TripID TenantID
  | ReqStartTransit TripID TenantID | ReqDeliver TripID TenantID | ReqComplete TripID TenantID
  | ReqCancel TripID TenantID

fun trip_handle :: "trip_request \<Rightarrow> unit wact" where
  "trip_handle (ReqCreate cmd) = bindE (CreateTripUseCase_Execute cmd) (\<lambda>_. ret ())"
| "trip_handle (ReqSchedule i t) = ScheduleTripUseCase_Execute i t"
| "trip_handle (ReqAssignDriver cmd) = AssignDriverUseCase_Execute cmd"
| "trip_handle (ReqAssignVehicle cmd) = AssignVehicleUseCase_Execute cmd"
| "trip_handle (ReqStart i t) = StartTripUseCase_Execute i t"
| "trip_handle (ReqReachPickup i t) = ReachPickupUseCase_Execute i t"
| "trip_handle (ReqStartTransit i t) = StartTransitUseCase_Execute i t"
| "trip_handle (ReqDeliver i t) = DeliverUseCase_Execute i t"
| "trip_handle (ReqComplete i t) = CompleteTripUseCase_Execute i t None"
| "trip_handle (ReqCancel i t) = CancelTripUseCase_Execute i t"

fun request_tenant :: "trip_request \<Rightarrow> TenantID" where
  "request_tenant (ReqCreate cmd) = ctc_TenantID cmd"
| "request_tenant (ReqAssignDriver cmd) = adc_TenantID cmd"
| "request_tenant (ReqAssignVehicle cmd) = avc_TenantID cmd"
| "request_tenant (ReqSchedule i t) = t"
| "request_tenant (ReqStart i t) = t"
| "request_tenant (ReqReachPickup i t) = t"
| "request_tenant (ReqStartTransit i t) = t"
| "request_tenant (ReqDeliver i t) = t"
| "request_tenant (ReqComplete i t) = t"
| "request_tenant (ReqCancel i t) = t"

section \<open>Checks only write the audit log\<close>

definition audit_only :: "database \<Rightarrow> database \<Rightarrow> bool" where
  "audit_only d d' \<longleftrightarrow> (\<exists>au. d' = d\<lparr>db_audit_logs := db_audit_logs d @ au\<rparr>)"

interpretation aud: db_relation audit_only
proof
  show "audit_only d d" for d unfolding audit_only_def by (rule exI [of _ "[]"]) simp
  show "audit_only a b \<Longrightarrow> audit_only b c \<Longrightarrow> audit_only a c" for a b c
    unfolding audit_only_def by force
qed

lemma audit_only_simps:
  assumes "audit_only d d'"
  shows "db_trips d' = db_trips d" "db_drivers d' = db_drivers d" "db_vehicles d' = db_vehicles d"
    "db_outbox_events d' = db_outbox_events d" "db_compliance_exemptions d' = db_compliance_exemptions d"
    "trip_at d' = trip_at d"
  using assms by (auto simp: audit_only_def trip_at_def fun_eq_iff)

lemma aud_logAudit: "aud.keeps (logAudit tb ac i ov nv)"
  by (rule aud.keepsI) (metis audit_only_def logAudit_effect prod.collapse)

lemma aud_wrap_err: "aud.keeps m \<Longrightarrow> aud.keeps (wrap_err f m)"
  unfolding wrap_err_def by (intro aud.db_intros)

lemma aud_noRowsAs: "aud.keeps m \<Longrightarrow> aud.keeps (noRowsAs s m)"
  unfolding noRowsAs_def by (intro aud.db_intros)

lemma aud_finds:
  "aud.keeps (DriverRepository_Find i t)" "aud.keeps (VehicleRepository_Find i t)"
  "aud.keeps (TripRepository_Find i t)" "aud.keeps (TripRepository_Exists i t)"
  "aud.keeps (TripRepository_CheckDriverConflict i t x)"
  "aud.keeps (TripRepository_CheckVehicleConflict i t x)"
  unfolding DriverRepository_Find_def VehicleRepository_Find_def TripRepository_Find_def
    TripRepository_Exists_def TripRepository_CheckDriverConflict_def
    TripRepository_CheckVehicleConflict_def
  by (intro aud.db_intros aud_noRowsAs)+

lemma aud_checks:
  "aud.keeps (isExempt a b c)" "aud.keeps (recordComplianceCheck a b c d e)"
  "aud.keeps (getPUCExpiry v)" "aud.keeps (record_override a b c d e f)"
  unfolding isExempt_def recordComplianceCheck_def getPUCExpiry_def record_override_def
  by (intro aud.db_intros)+

lemma aud_IsMaintenanceBlocked: "aud.keeps (IsMaintenanceBlocked v)"
  unfolding IsMaintenanceBlocked_def Let_def by (intro aud.db_intros)

lemma aud_maintenance_gate: "aud.keeps a \<Longrightarrow> aud.keeps (maintenance_gate v ov a)"
  unfolding maintenance_gate_def
  by (intro aud.db_intros aud_IsMaintenanceBlocked) (auto intro!: aud.db_intros split: prod.splits)

lemma aud_require:
  "aud.keeps (require_assignable_driver x t)" "aud.keeps (require_assignable_vehicle v t)"
  unfolding require_assignable_driver_def require_assignable_vehicle_def
  by (intro aud.db_intros aud_wrap_err aud_finds)+

lemma aud_driver_checks:
  "aud.keeps (AssignDriver_checkDriverCompliance x t)" "aud.keeps (StartTrip_checkDriverCompliance x t)"
  unfolding AssignDriver_checkDriverCompliance_def StartTrip_checkDriverCompliance_def Let_def
  by (intro aud.db_intros aud_require aud_checks)+

lemma aud_vehicle_override: "aud.keeps (vehicle_override cmd n)"
  unfolding vehicle_override_def by (intro aud.db_intros aud_logAudit aud_checks)

lemma aud_document: "aud.keeps (check_vehicle_document cmd now x)"
  unfolding check_vehicle_document_def
  by (cases x) (auto intro!: aud.db_intros aud_checks aud_vehicle_override)

lemma aud_puc: "aud.keeps (check_vehicle_puc cmd now)"
  unfolding check_vehicle_puc_def by (intro aud.db_intros aud_checks aud_vehicle_override)

lemma aud_start_checks: "aud.keeps (start_document v now x)" "aud.keeps (start_puc v now)"
proof -
  show "aud.keeps (start_document v now x)"
    unfolding start_document_def by (cases x) (auto intro!: aud.db_intros aud_checks)
  show "aud.keeps (start_puc v now)" unfolding start_puc_def by (intro aud.db_intros aud_checks)
qed

lemma aud_vehicle_checks:
  "aud.keeps (AssignVehicle_checkVehicleCompliance cmd)" "aud.keeps (StartTrip_checkVehicleCompliance v t)"
  unfolding AssignVehicle_checkVehicleCompliance_def StartTrip_checkVehicleCompliance_def Let_def
  by (intro aud.db_intros aud_require aud_document aud_puc aud_maintenance_gate aud_logAudit aud_start_checks)+

lemma aud_conflict_gates: "aud.keeps (driver_conflict_gate c)" "aud.keeps (vehicle_conflict_gate c')"
  unfolding driver_conflict_gate_def vehicle_conflict_gate_def
  by (intro aud.keeps_bind aud_finds; simp split: list.split add: aud.keeps_ret aud.keeps_raise)+

lemma aud_driver_gates:
  "aud.keeps (driver_compliance_gate c t)" "aud.keeps (driver_maintenance_gate c t)"
  unfolding driver_compliance_gate_def driver_override_def driver_maintenance_gate_def
  by (intro aud.db_intros aud_driver_checks aud_maintenance_gate aud_logAudit aud_checks)+

lemma aud_guards:
  "aud.keeps (assign_driver_guard c t)" "aud.keeps (start_guard tn t)"
  "aud.keeps (seqE (AssignVehicle_checkVehicleCompliance c') (vehicle_conflict_gate c'))"
  unfolding assign_driver_guard_def start_guard_def
  by (intro aud.db_intros aud_driver_checks aud_vehicle_checks aud_driver_gates aud_conflict_gates)+

lemma aud_after: "aud.keeps (audit_trip ac t)" "aud.keeps (seqE (audit_trip ac t) (ret ()))"
  unfolding audit_trip_def by (intro aud.db_intros aud_logAudit)+

section \<open>Successful runs\<close>

lemma guarded_trip_Inr:
  assumes "guarded_trip_use_case i t guard f after w = (Inr u, w')"
  obtains r w1 w2 now a' a'' w3 w4 where "trip_at (w_db w) i t = Some r" "tw_id r = i" "tw_tenant_id r = t"
    "same_store w w1" "guard (Trip_MapToAggregate r) w1 = (Inr (), w2)"
    "f now (Trip_MapToAggregate r) = Inr a'" "now = env_clk (w_env w2) (w_nclk w2)"
    "TripRepository_Save a' (w2\<lparr>w_nclk := Suc (w_nclk w2)\<rparr>) = (Inr a'', w3)"
    "after a'' w3 = (Inr u, w4)" "w_db w' = w_db w4"
proof -
  from assms obtain a w1 w2 a' a'' w3 w4 where
    l: "TripRepository_Find i t (w\<lparr>w_nop := Suc (w_nop w)\<rparr>) = (Inr a, w1)"
    and rest: "guard a w1 = (Inr (), w2)" "f (env_clk (w_env w2) (w_nclk w2)) a = Inr a'"
    "TripRepository_Save a' (w2\<lparr>w_nclk := Suc (w_nclk w2)\<rparr>) = (Inr a'', w3)"
    "after a'' w3 = (Inr u, w4)" "w_db w' = w_db w4"
    unfolding guarded_trip_use_case_def by (auto simp: uow_Inr act_inv)
  from Trip_Find_Inr [OF l] Trip_Find_store [OF l] that rest show thesis
    by (auto simp: same_store_def)
qed

lemma guarded_trip_effect:
  assumes ok: "trips_ok (w_db w)"
    and run: "guarded_trip_use_case i t guard (trip_apply c) after w = (Inr u, w')"
    and guard: "\<And>a. aud.keeps (guard a)" and after: "\<And>a. aud.keeps (after a)"
  obtains r w1 w2 now now' a' rows where "trip_at (w_db w) i t = Some r" "tw_id r = i" "tw_tenant_id r = t"
    "same_store w w1" "guard (Trip_MapToAggregate r) w1 = (Inr (), w2)"
    "trip_apply c now (Trip_MapToAggregate r) = Inr a'"
    "db_trips (w_db w') = update_where (trip_selected (Trip_MapToPersistence a'))
        (trip_set (Trip_MapToPersistence a') now') (db_trips (w_db w))"
    "trip_at (w_db w') i t = Some (trip_set (Trip_MapToPersistence a') now' r)"
    "outbox_rows_for i ''Trip'' (map EvTrip (tr_events a')) rows"
    "db_outbox_events (w_db w') = db_outbox_events (w_db w) @ rows" "trips_ok (w_db w')"
proof -
  from run obtain r w1 w2 now a' a'' w3 w4 where r: "trip_at (w_db w) i t = Some r" "tw_id r = i" "tw_tenant_id r = t"
    and w1: "same_store w w1" and g: "guard (Trip_MapToAggregate r) w1 = (Inr (), w2)"
    and f: "trip_apply c now (Trip_MapToAggregate r) = Inr a'"
    and s: "TripRepository_Save a' (w2\<lparr>w_nclk := Suc (w_nclk w2)\<rparr>) = (Inr a'', w3)"
    and af: "after a'' w3 = (Inr u, w4)" and w': "w_db w' = w_db w4"
    by (rule guarded_trip_Inr)
  have "audit_only (w_db w1) (w_db w2)" using aud.keepsD [OF guard g] .
  with w1 have g2: "audit_only (w_db w) (w_db w2)" by (simp add: same_store_def)
  note g2' = audit_only_simps [OF g2]
  have a2: "audit_only (w_db w3) (w_db w')" using aud.keepsD [OF after af] w' by simp
  note a2' = audit_only_simps [OF a2]
  let ?p = "Trip_MapToPersistence a'"
  have p: "tw_id ?p = i" "tw_tenant_id ?p = t" "tr_ID a' = i"
    using trip_apply_keeps_identity [OF f] r by (simp_all add: Trip_MapToPersistence_def Trip_MapToAggregate_def)
  have ok2: "trips_ok (w_db w2)" using ok g2' by (simp add: trips_ok_def)
  from s obtain d1 x fk now' rows where
    u: "UpdateTrip ?p fk now' (w_db w2) = Inr (x, d1) \<or> CreateTrip ?p fk now' (w_db w2) = Inr (x, d1)"
    and rows: "outbox_rows_for (tr_ID a') ''Trip'' (map EvTrip (tr_events a')) rows"
    and w3: "w_db w3 = d1\<lparr>db_outbox_events := db_outbox_events d1 @ rows\<rparr>"
    by (rule Trip_Save_Inr) simp
  have "i \<in> tw_id ` set (db_trips (w_db w2))"
    using r(1,2) g2' by (force simp: trip_at_def dest!: find_SomeD)
  then have "CreateTrip ?p fk now' (w_db w2) \<noteq> Inr (x, d1)"
    using CreateTrip_Inr [of ?p fk now' "w_db w2" x d1] p by (auto simp: trip_violation_None)
  with u have up: "UpdateTrip ?p fk now' (w_db w2) = Inr (x, d1)" by blast
  from UpdateTrip_at [OF ok2 up] r p g2' have at: "trip_at d1 i t = Some (trip_set ?p now' r)" by auto
  from UpdateTrip_Inr [OF up] have d1: "db_outbox_events d1 = db_outbox_events (w_db w2)"
    "db_trips d1 = update_where (trip_selected ?p) (trip_set ?p now') (db_trips (w_db w2))" by auto
  have ok1: "trips_ok d1" using trips_ok_update [OF ok2 up] .
  show thesis
  proof (rule that [OF r w1 g f])
    show "db_trips (w_db w') = update_where (trip_selected ?p) (trip_set ?p now') (db_trips (w_db w))"
      using a2' w3 d1 g2' by simp
    show "trip_at (w_db w') i t = Some (trip_set ?p now' r)"
      using a2' w3 at by (simp add: trip_at_def)
    show "outbox_rows_for i ''Trip'' (map EvTrip (tr_events a')) rows" using rows p by simp
    show "db_outbox_events (w_db w') = db_outbox_events (w_db w) @ rows"
      using a2' w3 d1 g2' by simp
    show "trips_ok (w_db w')" using ok1 a2' w3 by (simp add: trips_ok_def)
  qed
qed

end
