(* ===== verification/Trip_Safety.thy ===== *)
theory Trip_Safety
  imports Trip_Rules
begin

text \<open>
  Trip requests as a whole: what a successful request did to the row it loaded, and that a request
  that fails leaves the database as it was.
\<close>

section \<open>Successful requests\<close>

fun request_call :: "trip_request \<Rightarrow> trip_call option" where
  "request_call (ReqCreate cmd) = None"
| "request_call (ReqSchedule i t) = Some CallSchedule"
| "request_call (ReqAssignDriver cmd) = Some (CallAssignDriver (adc_DriverID cmd))"
| "request_call (ReqAssignVehicle cmd) = Some (CallAssignVehicle (avc_VehicleID cmd))"
| "request_call (ReqStart i t) = Some CallStart"
| "request_call (ReqReachPickup i t) = Some CallReachPickup"
| "request_call (ReqStartTransit i t) = Some CallStartTransit"
| "request_call (ReqDeliver i t) = Some CallDeliver"
| "request_call (ReqComplete i t) = Some CallComplete"
| "request_call (ReqCancel i t) = Some CallCancel"

fun request_trip :: "trip_request \<Rightarrow> TripID" where
  "request_trip (ReqCreate cmd) = []"
| "request_trip (ReqAssignDriver cmd) = adc_TripID cmd"
| "request_trip (ReqAssignVehicle cmd) = avc_TripID cmd"
| "request_trip (ReqSchedule i t) = i"
| "request_trip (ReqStart i t) = i"
| "request_trip (ReqReachPickup i t) = i"
| "request_trip (ReqStartTransit i t) = i"
| "request_trip (ReqDeliver i t) = i"
| "request_trip (ReqComplete i t) = i"
| "request_trip (ReqCancel i t) = i"

fun request_guard :: "trip_request \<Rightarrow> TripAggregate \<Rightarrow> unit wact" where
  "request_guard (ReqAssignDriver cmd) = assign_driver_guard cmd"
| "request_guard (ReqAssignVehicle cmd) =
     (\<lambda>_. seqE (AssignVehicle_checkVehicleCompliance cmd) (vehicle_conflict_gate cmd))"
| "request_guard (ReqStart i t) = start_guard t"
| "request_guard q = (\<lambda>_. ret ())"

fun request_after :: "trip_request \<Rightarrow> TripAggregate \<Rightarrow> unit wact" where
  "request_after (ReqSchedule i t) = audit_trip ''schedule''"
| "request_after (ReqStart i t) = audit_trip ''start''"
| "request_after (ReqReachPickup i t) = audit_trip ''reach_pickup''"
| "request_after (ReqStartTransit i t) = audit_trip ''start_transit''"
| "request_after (ReqDeliver i t) = audit_trip ''deliver''"
| "request_after (ReqComplete i t) = (\<lambda>a. seqE (audit_trip ''complete'' a) (ret ()))"
| "request_after (ReqCancel i t) = audit_trip ''cancel''"
| "request_after q = audit_trip ''assign''"

definition request_precheck :: "trip_request \<Rightarrow> unit wact" where
  "request_precheck q = (case q of
     ReqAssignDriver cmd \<Rightarrow> failIf (adc_DriverID cmd = []) ''driver ID is required''
   | ReqAssignVehicle cmd \<Rightarrow> failIf (avc_VehicleID cmd = []) ''vehicle ID is required''
   | _ \<Rightarrow> ret ())"

lemma seqE_ret: "seqE (ret ()) m = m"
  by (rule ext) (simp add: act_simps)

text \<open>Every request but the creation of a trip is one guarded use case.\<close>

lemma trip_handle_guarded:
  assumes "request_call q = Some c"
  shows "trip_handle q = seqE (request_precheck q)
    (guarded_trip_use_case (request_trip q) (request_tenant q) (request_guard q) (trip_apply c) (request_after q))"
proof -
  have eta: "trip_apply CallSchedule = TripAggregate_Schedule" "trip_apply CallStart = TripAggregate_Start"
    "trip_apply (CallAssignDriver x) = TripAggregate_AssignDriver x"
    "trip_apply (CallAssignVehicle x) = TripAggregate_AssignVehicle x"
    "trip_apply CallReachPickup = TripAggregate_ReachPickup"
    "trip_apply CallStartTransit = TripAggregate_StartTransit" "trip_apply CallDeliver = TripAggregate_Deliver"
    "trip_apply CallComplete = TripAggregate_Complete" "trip_apply CallCancel = TripAggregate_Cancel" for x
    by (simp_all add: fun_eq_iff)
  show ?thesis
    using assms
    by (cases q) (auto simp: eta request_precheck_def seqE_ret ScheduleTripUseCase_Execute_def
        AssignDriverUseCase_Execute_def AssignVehicleUseCase_Execute_def StartTripUseCase_Execute_def
        ReachPickupUseCase_Execute_def StartTransitUseCase_Execute_def DeliverUseCase_Execute_def
        CompleteTripUseCase_Execute_def CancelTripUseCase_Execute_def)
qed

lemma request_aud: "aud.keeps (request_guard q a)" "aud.keeps (request_after q a)"
  by (cases q; simp add: aud_guards aud_after aud.keeps_ret)+

lemma request_precheck_Inr:
  "request_precheck q w = (Inr x, w') \<Longrightarrow> w' = w"
  by (cases q) (auto simp: request_precheck_def act_inv)

lemma trip_request_effect:
  assumes ok: "trips_ok (w_db w)" and run: "trip_handle q w = (Inr u, w')" and c: "request_call q = Some c"
  obtains r w1 w2 now now' a' rows where "trip_at (w_db w) (request_trip q) (request_tenant q) = Some r"
    "tw_id r = request_trip q" "tw_tenant_id r = request_tenant q"
    "same_store w w1" "request_guard q (Trip_MapToAggregate r) w1 = (Inr (), w2)"
    "trip_apply c now (Trip_MapToAggregate r) = Inr a'"
    "db_trips (w_db w') = update_where (trip_selected (Trip_MapToPersistence a'))
        (trip_set (Trip_MapToPersistence a') now') (db_trips (w_db w))"
    "trip_at (w_db w') (request_trip q) (request_tenant q) = Some (trip_set (Trip_MapToPersistence a') now' r)"
    "outbox_rows_for (request_trip q) ''Trip'' (map EvTrip (tr_events a')) rows"
    "db_outbox_events (w_db w') = db_outbox_events (w_db w) @ rows" "trips_ok (w_db w')"
proof -
  from run trip_handle_guarded [OF c]
  have "guarded_trip_use_case (request_trip q) (request_tenant q) (request_guard q) (trip_apply c) (request_after q) w
      = (Inr u, w')"
    by (auto simp: seqE_Inr dest: request_precheck_Inr)
  then show thesis by (rule guarded_trip_effect [OF ok _ request_aud]) (rule that)
qed

lemma CreateTrip_run:
  assumes "CreateTripUseCase_Execute cmd w = (Inr i, w')"
  obtains n now wS t' wA u wL where "ctc_RouteID cmd \<noteq> []" "\<not> time_IsZero (ctc_DepartureTime cmd)"
    and "TripRepository_Save (NewTripAggregate i (ctc_TenantID cmd) n (ctc_BookingID cmd) (ctc_RouteID cmd)
        (ctc_DepartureTime cmd) (ctc_Remarks cmd) now) wS = (Inr t', wA)"
    and "w_db wS = w_db w"
    and "logAudit TripTableName ''create'' (tr_ID t') None None wA = (Inr u, wL)"
    and "w_db w' = w_db wL"
  using assms unfolding CreateTripUseCase_Execute_def Let_def GenerateDisplayID_def
  by (clarsimp simp: act_inv uow_Inr)

text \<open>The row a creation appends.\<close>

definition created_trip :: "CreateTripCommand \<Rightarrow> TripID \<Rightarrow> trip_row \<Rightarrow> bool" where
  "created_trip cmd i x \<longleftrightarrow> tw_id x = i \<and> tw_tenant_id x = ctc_TenantID cmd \<and> tw_status x = TripDraft
     \<and> tw_driver_id x = None \<and> tw_vehicle_id x = None \<and> tw_version x = 1 \<and> tw_route_id x = ctc_RouteID cmd
     \<and> tw_booking_id x = ctc_BookingID cmd \<and> tw_departure_time x = ctc_DepartureTime cmd
     \<and> tw_route_id x \<noteq> [] \<and> \<not> time_IsZero (tw_departure_time x)"

lemma trip_create_effect:
  assumes "CreateTripUseCase_Execute cmd w = (Inr i, w')" and ok: "trips_ok (w_db w)"
  obtains x n now rows where "db_trips (w_db w') = db_trips (w_db w) @ [x]" "trips_ok (w_db w')"
    "created_trip cmd i x"
    "outbox_rows_for i ''Trip'' [EvTrip (TripCreatedEvent i (ctc_TenantID cmd) n now)] rows"
    "db_outbox_events (w_db w') = db_outbox_events (w_db w) @ rows"
proof -
  from assms(1) obtain n now wS t' wA u wL where
    fields: "ctc_RouteID cmd \<noteq> []" "\<not> time_IsZero (ctc_DepartureTime cmd)"
    and s: "TripRepository_Save (NewTripAggregate i (ctc_TenantID cmd) n (ctc_BookingID cmd) (ctc_RouteID cmd)
        (ctc_DepartureTime cmd) (ctc_Remarks cmd) now) wS = (Inr t', wA)"
    and dS: "w_db wS = w_db w"
    and au: "logAudit TripTableName ''create'' (tr_ID t') None None wA = (Inr u, wL)"
    and w': "w_db w' = w_db wL"
    by (rule CreateTrip_run)
  let ?t = "NewTripAggregate i (ctc_TenantID cmd) n (ctc_BookingID cmd) (ctc_RouteID cmd)
        (ctc_DepartureTime cmd) (ctc_Remarks cmd) now"
  let ?p = "Trip_MapToPersistence ?t"
  note new = NewTripAggregate_def TripAggregate_RecordEvent_def Trip_MapToPersistence_def
  from s obtain d1 x fk now' rows where
    u: "UpdateTrip ?p fk now' (w_db w) = Inr (x, d1) \<or> CreateTrip ?p fk now' (w_db w) = Inr (x, d1)"
    and rows: "outbox_rows_for (tr_ID ?t) ''Trip'' (map EvTrip (tr_events ?t)) rows"
    and wA: "w_db wA = d1\<lparr>db_outbox_events := db_outbox_events d1 @ rows\<rparr>"
    by (rule Trip_Save_Inr) (simp add: dS)
  have "UpdateTrip ?p fk now' (w_db w) \<noteq> Inr (x, d1)"
    using UpdateTrip_Inr [of ?p fk now' "w_db w" x d1] ok
    by (force simp: trips_ok_def trip_selected_def new)
  with u have c: "CreateTrip ?p fk now' (w_db w) = Inr (x, d1)" by blast
  have a: "audit_only (w_db wA) (w_db w')" using aud.keepsD [OF aud_logAudit au] w' by simp
  have x: "x = ?p\<lparr>tw_version := 1, tw_created_at := now', tw_updated_at := now'\<rparr>"
    "d1 = (w_db w)\<lparr>db_trips := db_trips (w_db w) @ [x]\<rparr>"
    using c by (auto simp: CreateTrip_def Let_def split: option.splits)
  show thesis
  proof (rule that)
    show "db_trips (w_db w') = db_trips (w_db w) @ [x]" using audit_only_simps [OF a] wA x(2) by simp
    show "trips_ok (w_db w')" using trips_ok_create [OF ok c] audit_only_simps [OF a] wA by (simp add: trips_ok_def)
    show "created_trip cmd i x" using fields unfolding x(1) by (simp add: created_trip_def new)
    show "outbox_rows_for i ''Trip'' [EvTrip (TripCreatedEvent i (ctc_TenantID cmd) n now)] rows"
      using rows by (simp add: new)
    show "db_outbox_events (w_db w') = db_outbox_events (w_db w) @ rows"
      using audit_only_simps [OF a] wA x(2) by simp
  qed
qed

lemma trip_handle_create:
  "trip_handle (ReqCreate cmd) w = (Inr u, w') \<Longrightarrow> \<exists>i. CreateTripUseCase_Execute cmd w = (Inr i, w')"
  by (auto simp: act_inv)

section \<open>Atomicity\<close>

lemma CreateTrip_fails_clean: "fails_clean (CreateTripUseCase_Execute cmd)"
  unfolding CreateTripUseCase_Execute_def Let_def
  by (intro fails_clean_seq fails_clean_bind fails_clean_seq_ret fails_clean_uow dbeq.keeps_failIf
      dbeq.keeps_GenerateUUID dbeq.keeps_GenerateDisplayID dbeq.keeps_Now)

lemma guarded_fails_clean: "fails_clean (guarded_trip_use_case i t g f af)"
  unfolding guarded_trip_use_case_def by (rule fails_clean_uow)

lemma request_precheck_clean: "dbeq.keeps (request_precheck q)"
  unfolding request_precheck_def by (cases q) (simp_all add: dbeq.keeps_failIf dbeq.keeps_ret)

lemma bind_ret_fails_clean: "fails_clean m \<Longrightarrow> fails_clean (bindE m (\<lambda>_. ret ()))"
  by (auto simp: fails_clean_def act_simps split: prod.splits sum.splits)

lemma trip_fails_clean: "fails_clean (trip_handle q)"
proof (cases "request_call q")
  case None
  then show ?thesis by (cases q) (simp_all add: bind_ret_fails_clean CreateTrip_fails_clean)
next
  case (Some c)
  show ?thesis unfolding trip_handle_guarded [OF Some]
    by (intro fails_clean_seq request_precheck_clean guarded_fails_clean)
qed



end
