(* ===== verification/Trip_Invariants.thy ===== *)
theory Trip_Invariants
  imports Trip_Safety
begin

text \<open>
  Tenant isolation of the trip module and the dispatch invariant: within a tenant, no driver and
  no vehicle is on two active trips.
\<close>

section \<open>Tenant isolation\<close>

definition trip_frame :: "TenantID \<Rightarrow> database \<Rightarrow> database \<Rightarrow> bool" where
  "trip_frame t d d' \<longleftrightarrow>
     (\<exists>ts ob au. d' = d\<lparr>db_trips := ts, db_outbox_events := db_outbox_events d @ ob,
                        db_audit_logs := db_audit_logs d @ au\<rparr>
        \<and> filter (\<lambda>r. tw_tenant_id r \<noteq> t) ts = filter (\<lambda>r. tw_tenant_id r \<noteq> t) (db_trips d))"

lemma trip_frame_audit: "audit_only d d' \<Longrightarrow> trip_frame t d d'"
  unfolding trip_frame_def audit_only_def
  by (clarify, rule exI [of _ "db_trips d"], rule exI [of _ "[]"]) auto

lemma trip_frame_trans: "trip_frame t a b \<Longrightarrow> trip_frame t b c \<Longrightarrow> trip_frame t a c"
  unfolding trip_frame_def by force

interpretation tframe: db_relation "trip_frame t" for t
  by unfold_locales (auto intro: trip_frame_audit aud.Q_refl trip_frame_trans)

lemma tframe_aud: "aud.keeps m \<Longrightarrow> tframe.keeps t m"
  by (simp add: aud.keeps_def tframe.keeps_def trip_frame_audit)

lemma trip_frame_trips:
  "filter (\<lambda>r. tw_tenant_id r \<noteq> t) ts = filter (\<lambda>r. tw_tenant_id r \<noteq> t) (db_trips d)
     \<Longrightarrow> trip_frame t d (d\<lparr>db_trips := ts\<rparr>)"
  unfolding trip_frame_def by (intro exI [of _ ts] exI [of _ "[]"]) simp

lemma trip_frame_outbox: "trip_frame t d (d\<lparr>db_outbox_events := db_outbox_events d @ ob\<rparr>)"
  unfolding trip_frame_def by (intro exI [of _ "db_trips d"] exI [of _ ob] exI [of _ "[]"]) simp

lemma tframe_SaveEvents: "tframe.keeps t (OutboxWriter_SaveEvents i ty evs)"
  unfolding OutboxWriter_SaveEvents_def save_event_def
  by (intro tframe.db_intros tframe.keeps_stmt)
    (auto simp: CreateOutboxEvent_Inr intro: trip_frame_outbox)

lemma tframe_noRowsAs: "tframe.keeps t m \<Longrightarrow> tframe.keeps t (noRowsAs s m)"
  unfolding noRowsAs_def by (intro tframe.db_intros)

lemma tframe_Update: "tw_tenant_id p = t \<Longrightarrow> tframe.keeps t (stmt (UpdateTrip p))"
  by (rule tframe.keeps_stmt)
    (auto dest!: UpdateTrip_Inr intro!: trip_frame_trips filter_update_where simp: trip_selected_def)

lemma tframe_Create: "tw_tenant_id p = t \<Longrightarrow> tframe.keeps t (stmt (CreateTrip p))"
  by (rule tframe.keeps_stmt) (auto dest!: CreateTrip_Inr intro!: trip_frame_trips)

lemma tframe_Save: "tr_TenantID a = t \<Longrightarrow> tframe.keeps t (TripRepository_Save a)"
  unfolding TripRepository_Save_def Let_def
  by (intro tframe.db_intros tframe_SaveEvents tframe_noRowsAs tframe_aud [OF aud_finds(4)]
      tframe_Update tframe_Create)
    (simp_all add: Trip_MapToPersistence_def)

lemma tframe_guarded:
  assumes "\<And>a. aud.keeps (g a)" and "\<And>a. aud.keeps (af a)"
  shows "tframe.keeps t (guarded_trip_use_case i t g (trip_apply c) af)"
  unfolding guarded_trip_use_case_def
proof (rule tframe.keeps_uow, rule tframe.keeps_bind_returned [OF tframe_aud [OF aud_finds(3)]])
  fix a w w' assume "TripRepository_Find i t w = (Inr a, w')"
  then have a: "tr_TenantID a = t" using Trip_Find_Inr by (fastforce simp: Trip_MapToAggregate_def)
  show "tframe.keeps t (seqE (g a) (bindE Now (\<lambda>now. bindE (lift_result (trip_apply c now a)) (\<lambda>t'.
      bindE (TripRepository_Save t') af))))"
    using assms a
    by (intro tframe.keeps_seq tframe.keeps_bind tframe.keeps_Now tframe.keeps_lift_bind tframe_Save tframe_aud)
      (auto dest: trip_apply_keeps_identity)
qed

lemma tframe_request: "tframe.keeps (request_tenant q) (trip_handle q)"
proof (cases "request_call q")
  case None
  then obtain cmd where q: "q = ReqCreate cmd" by (cases q) simp_all
  show ?thesis unfolding q trip_handle.simps request_tenant.simps CreateTripUseCase_Execute_def Let_def
    by (intro tframe.db_intros tframe_Save tframe_aud [OF aud_logAudit])
      (simp add: NewTripAggregate_def TripAggregate_RecordEvent_def)
next
  case (Some c)
  have "dbeq.keeps (request_precheck q)" by (rule request_precheck_clean)
  then have "tframe.keeps (request_tenant q) (request_precheck q)"
    by (simp add: dbeq.keeps_def tframe.keeps_def tframe.Q_refl)
  then show ?thesis unfolding trip_handle_guarded [OF Some]
    by (intro tframe.keeps_seq tframe_guarded request_aud)
qed


section \<open>No double booking\<close>

definition active_trip :: "trip_row \<Rightarrow> bool" where
  "active_trip r \<longleftrightarrow> tw_status r \<in> set conflict_statuses"

definition exclusive :: "(trip_row \<Rightarrow> string option) \<Rightarrow> trip_row set \<Rightarrow> bool" where
  "exclusive key S \<longleftrightarrow> (\<forall>r\<in>S. \<forall>r'\<in>S. active_trip r \<and> active_trip r' \<and> tw_tenant_id r = tw_tenant_id r'
     \<and> key r \<noteq> None \<and> key r = key r' \<longrightarrow> tw_id r = tw_id r')"

definition draft_unassigned :: "trip_row \<Rightarrow> bool" where
  "draft_unassigned r \<longleftrightarrow> (tw_status r = TripDraft \<longrightarrow> tw_driver_id r = None \<and> tw_vehicle_id r = None)"

definition dispatch_ok :: "database \<Rightarrow> bool" where
  "dispatch_ok d \<longleftrightarrow> trips_ok d \<and> (\<forall>r\<in>set (db_trips d). draft_unassigned r)
     \<and> exclusive tw_driver_id (set (db_trips d)) \<and> exclusive tw_vehicle_id (set (db_trips d))"

definition uncontended :: "(trip_row \<Rightarrow> string option) \<Rightarrow> trip_row \<Rightarrow> trip_row set \<Rightarrow> bool" where
  "uncontended key x S \<longleftrightarrow> (active_trip x \<and> key x \<noteq> None \<longrightarrow>
     (\<forall>r\<in>S. active_trip r \<and> tw_tenant_id r = tw_tenant_id x \<and> key r = key x \<longrightarrow> tw_id r = tw_id x))"

lemma exclusive_insert:
  assumes "exclusive key S" and "uncontended key x S" and "S' \<subseteq> insert x S"
  shows "exclusive key S'"
  unfolding exclusive_def
proof (intro ballI impI)
  fix r r' assume r: "r \<in> S'" "r' \<in> S'" and c: "active_trip r \<and> active_trip r' \<and> tw_tenant_id r = tw_tenant_id r'
     \<and> key r \<noteq> None \<and> key r = key r'"
  from r assms(3) consider "r \<in> S" "r' \<in> S" | "r = x" "r' \<in> S" | "r \<in> S" "r' = x" | "r = x" "r' = x" by blast
  then show "tw_id r = tw_id r'"
  proof cases
    case 1
    with c assms(1) show ?thesis unfolding exclusive_def by blast
  next
    case 2
    with c assms(2) have "tw_id r' = tw_id x" unfolding uncontended_def by metis
    with 2 show ?thesis by simp
  next
    case 3
    with c assms(2) show ?thesis unfolding uncontended_def by metis
  qed simp
qed

lemma conflict_statuses_eq:
  "conflict_statuses = [TripScheduled, TripAssigned, TripStarted, TripReachedPickup, TripInTransit, TripDelivered]"
  by (simp add: conflict_statuses_def trip_status_defs)

lemma trip_check_statuses_eq:
  "trip_check_statuses = [TripDraft, TripScheduled, TripAssigned, TripStarted, TripReachedPickup, TripInTransit,
     TripDelivered, TripCompleted, TripCancelled]"
  by (simp add: trip_check_statuses_def trip_status_defs)

text \<open>
  A call on a stored trip either leaves a driver or vehicle where it was, on a trip that was active
  already, or is the assignment.
\<close>

lemma trip_call_assignment:
  assumes "trip_apply c now a = Inr a'" and "tr_Status a \<in> set trip_check_statuses"
    and "tr_Status a = TripDraft \<Longrightarrow> tr_DriverID a = None \<and> tr_VehicleID a = None"
  shows "(tr_Status a' = TripDraft \<longrightarrow> tr_DriverID a' = None \<and> tr_VehicleID a' = None)
    \<and> (tr_Status a' \<in> set conflict_statuses \<and> tr_DriverID a' \<noteq> None \<longrightarrow>
        tr_Status a \<in> set conflict_statuses \<and> tr_DriverID a' = tr_DriverID a
        \<or> (\<exists>d. c = CallAssignDriver d \<and> tr_DriverID a' = Some d))
    \<and> (tr_Status a' \<in> set conflict_statuses \<and> tr_VehicleID a' \<noteq> None \<longrightarrow>
        tr_Status a \<in> set conflict_statuses \<and> tr_VehicleID a' = tr_VehicleID a
        \<or> (\<exists>v. c = CallAssignVehicle v \<and> tr_VehicleID a' = Some v))"
  using assms
  by (cases c) (auto simp: trip_transition_defs conflict_statuses_eq trip_check_statuses_eq Let_def split: if_splits)

lemma set_replaced:
  assumes "distinct (map tw_id ts)" and "r \<in> set ts" and "tw_id r = tw_id p"
  shows "set (update_where (trip_selected p) (trip_set p now) ts) \<subseteq> insert (trip_set p now r) (set ts)"
proof
  fix y assume "y \<in> set (update_where (trip_selected p) (trip_set p now) ts)"
  then obtain z where z: "z \<in> set ts" "y = (if trip_selected p z then trip_set p now z else z)"
    by (auto simp: set_update_where)
  then show "y \<in> insert (trip_set p now r) (set ts)"
    using assms distinct_key_eq [OF assms(1) z(1) assms(2)] by (auto simp: trip_selected_def split: if_splits)
qed

lemma driver_gate_clear:
  assumes "assign_driver_guard cmd a w = (Inr u, w')" and "adc_DriverID cmd \<noteq> []"
    and "r \<in> set (db_trips (w_db w))" and "tw_driver_id r = Some (adc_DriverID cmd)"
    and "tw_tenant_id r = adc_TenantID cmd" and "active_trip r"
  shows "tw_id r = adc_TripID cmd"
proof -
  from assms(1) obtain x1 w1 x2 w2 where g: "driver_compliance_gate cmd a w = (Inr x1, w1)"
    "driver_maintenance_gate cmd a w1 = (Inr x2, w2)" "driver_conflict_gate cmd w2 = (Inr u, w')"
    by (auto simp: assign_driver_guard_def act_inv)
  have d: "db_trips (w_db w2) = db_trips (w_db w)"
    using audit_only_simps(1) [OF aud.keepsD [OF aud_driver_gates(1) g(1)]]
      audit_only_simps(1) [OF aud.keepsD [OF aud_driver_gates(2) g(2)]] by simp
  from g(3) have "filter (\<lambda>r. tw_driver_id r = Some (adc_DriverID cmd) \<and> tw_tenant_id r = adc_TenantID cmd
        \<and> tw_status r \<in> set conflict_statuses \<and> (adc_TripID cmd = [] \<or> tw_id r \<noteq> adc_TripID cmd)) (db_trips (w_db w2)) = []"
    using assms(2)
    by (auto simp: driver_conflict_gate_def act_inv TripRepository_CheckDriverConflict_def
        CheckDriverConflict_def nullString_def split: list.splits)
  with assms(3-) d show ?thesis by (auto simp: filter_empty_conv active_trip_def)
qed

lemma vehicle_gate_clear:
  assumes "seqE (AssignVehicle_checkVehicleCompliance cmd) (vehicle_conflict_gate cmd) w = (Inr u, w')"
    and "avc_VehicleID cmd \<noteq> []" and "r \<in> set (db_trips (w_db w))"
    and "tw_vehicle_id r = Some (avc_VehicleID cmd)" and "tw_tenant_id r = avc_TenantID cmd" and "active_trip r"
  shows "tw_id r = avc_TripID cmd"
proof -
  from assms(1) obtain x1 w1 where g: "AssignVehicle_checkVehicleCompliance cmd w = (Inr x1, w1)"
    "vehicle_conflict_gate cmd w1 = (Inr u, w')" by (auto simp: act_inv)
  have d: "db_trips (w_db w1) = db_trips (w_db w)"
    using audit_only_simps(1) [OF aud.keepsD [OF aud_vehicle_checks(1) g(1)]] by simp
  from g(2) have "filter (\<lambda>r. tw_vehicle_id r = Some (avc_VehicleID cmd) \<and> tw_tenant_id r = avc_TenantID cmd
        \<and> tw_status r \<in> set conflict_statuses \<and> (avc_TripID cmd = [] \<or> tw_id r \<noteq> avc_TripID cmd)) (db_trips (w_db w1)) = []"
    using assms(2)
    by (auto simp: vehicle_conflict_gate_def act_inv TripRepository_CheckVehicleConflict_def
        CheckVehicleConflict_def nullString_def split: list.splits)
  with assms(3-) d show ?thesis by (auto simp: filter_empty_conv active_trip_def)
qed

text \<open>What the gate of an assignment request established about the other trips.\<close>

lemma request_gate_driver:
  assumes "trip_handle q w0 = (Inr u0, w0')" and "request_call q = Some (CallAssignDriver d)"
    and "request_guard q a w = (Inr u, w')" and "r \<in> set (db_trips (w_db w))"
    and "tw_tenant_id r = request_tenant q" and "active_trip r" and "tw_driver_id r = Some d"
  shows "tw_id r = request_trip q"
proof -
  from assms(2) obtain cmd where q: "q = ReqAssignDriver cmd" "d = adc_DriverID cmd" by (cases q) simp_all
  from assms(1) have "adc_DriverID cmd \<noteq> []" by (simp add: q AssignDriverUseCase_Execute_def act_inv)
  with assms(3-) q show ?thesis using driver_gate_clear [of cmd a w u w' r] by simp
qed

lemma request_gate_vehicle:
  assumes "trip_handle q w0 = (Inr u0, w0')" and "request_call q = Some (CallAssignVehicle d)"
    and "request_guard q a w = (Inr u, w')" and "r \<in> set (db_trips (w_db w))"
    and "tw_tenant_id r = request_tenant q" and "active_trip r" and "tw_vehicle_id r = Some d"
  shows "tw_id r = request_trip q"
proof -
  from assms(2) obtain cmd where q: "q = ReqAssignVehicle cmd" "d = avc_VehicleID cmd" by (cases q) simp_all
  from assms(1) have "avc_VehicleID cmd \<noteq> []" by (simp add: q AssignVehicleUseCase_Execute_def act_inv)
  with assms(3-) q show ?thesis using vehicle_gate_clear [of cmd w u w' r] by simp
qed

lemma dispatch_ok_step:
  assumes ok: "dispatch_ok (w_db w)" and run: "trip_handle q w = (Inr u, w')"
  shows "dispatch_ok (w_db w')"
proof (cases "request_call q")
  case None
  then obtain cmd where q: "q = ReqCreate cmd" by (cases q) simp_all
  from trip_handle_create run q obtain i where i: "CreateTripUseCase_Execute cmd w = (Inr i, w')" by blast
  from i obtain x where x: "db_trips (w_db w') = db_trips (w_db w) @ [x]" "trips_ok (w_db w')" "created_trip cmd i x"
    by (rule trip_create_effect) (use ok in \<open>simp add: dispatch_ok_def\<close>)
  have "exclusive k (set (db_trips (w_db w')))" if "k x = None" "exclusive k (set (db_trips (w_db w)))" for k
    by (rule exclusive_insert [OF that(2), of x]) (simp_all add: uncontended_def that x(1))
  with x ok show ?thesis by (auto simp: dispatch_ok_def created_trip_def draft_unassigned_def)
next
  case (Some c)
  have tok: "trips_ok (w_db w)" using ok by (simp add: dispatch_ok_def)
  from trip_request_effect [OF tok run Some] obtain r w1 w2 now now' a' where
    r: "trip_at (w_db w) (request_trip q) (request_tenant q) = Some r" "tw_id r = request_trip q"
      "tw_tenant_id r = request_tenant q" and w1: "same_store w w1"
    and g: "request_guard q (Trip_MapToAggregate r) w1 = (Inr (), w2)"
    and ap: "trip_apply c now (Trip_MapToAggregate r) = Inr a'"
    and ts: "db_trips (w_db w') = update_where (trip_selected (Trip_MapToPersistence a'))
        (trip_set (Trip_MapToPersistence a') now') (db_trips (w_db w))"
    and tok': "trips_ok (w_db w')" by metis
  let ?x = "trip_set (Trip_MapToPersistence a') now' r" and ?S = "set (db_trips (w_db w))"
  have rS: "r \<in> ?S" using r(1) by (auto simp: trip_at_def dest: find_SomeD)
  have x: "tw_id ?x = request_trip q" "tw_tenant_id ?x = request_tenant q" "tw_status ?x = tr_Status a'"
    "tw_driver_id ?x = tr_DriverID a'" "tw_vehicle_id ?x = tr_VehicleID a'"
    using r by (simp_all add: trip_set_def Trip_MapToPersistence_def)
  have sub: "set (db_trips (w_db w')) \<subseteq> insert ?x ?S"
    unfolding ts using tok rS r(2) trip_apply_keeps_identity [OF ap]
    by (intro set_replaced) (simp_all add: trips_ok_def Trip_MapToPersistence_def Trip_MapToAggregate_def)
  have dr: "draft_unassigned r" and st: "tw_status r \<in> set trip_check_statuses"
    using ok rS tok by (auto simp: dispatch_ok_def trips_ok_def)
  note call = trip_call_assignment [OF ap]
  have call': "(tr_Status a' = TripDraft \<longrightarrow> tr_DriverID a' = None \<and> tr_VehicleID a' = None)"
    "active_trip ?x \<Longrightarrow> tr_DriverID a' \<noteq> None \<Longrightarrow> active_trip r \<and> tr_DriverID a' = tw_driver_id r
        \<or> (\<exists>d. c = CallAssignDriver d \<and> tr_DriverID a' = Some d)"
    "active_trip ?x \<Longrightarrow> tr_VehicleID a' \<noteq> None \<Longrightarrow> active_trip r \<and> tr_VehicleID a' = tw_vehicle_id r
        \<or> (\<exists>d. c = CallAssignVehicle d \<and> tr_VehicleID a' = Some d)"
    using call dr st unfolding active_trip_def x draft_unassigned_def by (auto simp: Trip_MapToAggregate_def)
  have dS: "db_trips (w_db w1) = db_trips (w_db w)" using w1 by (simp add: same_store_def)
  have clear: "tw_id y = request_trip q"
    if "y \<in> ?S" "tw_tenant_id y = request_tenant q" "active_trip y"
      "c = CallAssignDriver d \<and> tw_driver_id y = Some d \<or> c = CallAssignVehicle d \<and> tw_vehicle_id y = Some d" for y d
    using that request_gate_driver [OF run _ g, of d y] request_gate_vehicle [OF run _ g, of d y] Some dS by auto
  have "uncontended tw_driver_id ?x ?S"
    using ok call'(2) clear rS r(2,3) x unfolding uncontended_def dispatch_ok_def exclusive_def by metis
  moreover have "uncontended tw_vehicle_id ?x ?S"
    using ok call'(3) clear rS r(2,3) x unfolding uncontended_def dispatch_ok_def exclusive_def by metis
  moreover have "\<forall>y\<in>set (db_trips (w_db w')). draft_unassigned y"
    using sub ok call'(1) x by (auto simp: dispatch_ok_def draft_unassigned_def)
  ultimately show ?thesis
    using ok tok' exclusive_insert [OF _ _ sub] by (simp add: dispatch_ok_def)
qed

text \<open>A sequence of requests, each handled to its end whatever it returns.\<close>

fun trip_session :: "trip_request list \<Rightarrow> world \<Rightarrow> world" where
  "trip_session [] w = w"
| "trip_session (q # qs) w = trip_session qs (snd (trip_handle q w))"

lemma dispatch_ok_handle: "dispatch_ok (w_db w) \<Longrightarrow> dispatch_ok (w_db (snd (trip_handle q w)))"
  using dispatch_ok_step [of w q] trip_fails_clean [of q]
  by (cases "trip_handle q w"; cases "fst (trip_handle q w)") (auto simp: fails_clean_def)

lemma dispatch_ok_session: "dispatch_ok (w_db w) \<Longrightarrow> dispatch_ok (w_db (trip_session qs w))"
  by (induction qs arbitrary: w) (simp_all add: dispatch_ok_handle)

text \<open>
  Property C1.  No double booking.  Starting without trips, after any sequence of requests of any
  tenants, with any errors and database failures on the way, no driver and no vehicle is on two
  active trips (scheduled to delivered) of the same tenant.
\<close>

theorem no_double_booking:
  assumes "db_trips (w_db w) = []"
  shows "exclusive tw_driver_id (set (db_trips (w_db (trip_session qs w))))
    \<and> exclusive tw_vehicle_id (set (db_trips (w_db (trip_session qs w))))"
proof -
  have "dispatch_ok (w_db w)" using assms by (simp add: dispatch_ok_def trips_ok_def exclusive_def)
  from dispatch_ok_session [OF this] show ?thesis by (simp add: dispatch_ok_def)
qed

definition demo_create_trip :: trip_request where
  "demo_create_trip = ReqCreate \<lparr>ctc_TenantID = ''t1'', ctc_BookingID = None, ctc_RouteID = ''r1'',
     ctc_DepartureTime = 5, ctc_Remarks = []\<rparr>"

definition demo_assign :: "TripID \<Rightarrow> trip_request" where
  "demo_assign i = ReqAssignDriver \<lparr>adc_TripID = i, adc_DriverID = ''d1'', adc_TenantID = ''t1'',
     adc_OverrideMaintenance = False, adc_OverrideReason = []\<rparr>"

definition demo_fleet_world :: world where
  "demo_fleet_world = demo_world\<lparr>w_db := demo_db\<lparr>db_drivers := [demo_driver ''d1'' (10 ^ 18)]\<rparr>\<rparr>"

theorem no_double_booking_witness:
  "db_trips (w_db (trip_session [demo_create_trip, demo_assign ''uuid-''] demo_fleet_world)) \<noteq> []
   \<and> exclusive tw_driver_id
       (set (db_trips (w_db (trip_session [demo_create_trip, demo_assign ''uuid-''] demo_fleet_world))))"
proof
  show "db_trips (w_db (trip_session [demo_create_trip, demo_assign ''uuid-''] demo_fleet_world)) \<noteq> []"
    by code_simp
  have "db_trips (w_db demo_fleet_world) = []"
    by (simp add: demo_fleet_world_def demo_db_def)
  from no_double_booking [OF this]
  show "exclusive tw_driver_id
       (set (db_trips (w_db (trip_session [demo_create_trip, demo_assign ''uuid-''] demo_fleet_world))))"
    by blast
qed

section \<open>The database implements the aggregate\<close>

text \<open>
  Property C6.  The stored trip simulates the aggregate.  When a request (other than a creation)
  succeeds, the trip loaded from the row before it accepted the corresponding call of the
  aggregate, and what a later load returns is exactly the aggregate after that call with the next
  version; the events the call recorded, and only those, were appended to the outbox.
\<close>

theorem trip_requests_refine_aggregate:
  assumes "trips_ok (w_db w)" and "trip_handle q w = (Inr u, w')" and "request_call q = Some c"
  shows "\<exists>r r' a' now rows. trip_at (w_db w) (request_trip q) (request_tenant q) = Some r
    \<and> trip_at (w_db w') (request_trip q) (request_tenant q) = Some r'
    \<and> trip_apply c now (Trip_MapToAggregate r) = Inr a'
    \<and> Trip_MapToAggregate r' = a'\<lparr>tr_Version := tr_Version a' + 1, tr_UpdatedAt := tw_updated_at r', tr_events := []\<rparr>
    \<and> outbox_rows_for (request_trip q) ''Trip'' (map EvTrip (tr_events a')) rows
    \<and> db_outbox_events (w_db w') = db_outbox_events (w_db w) @ rows"
proof -
  from trip_request_effect [OF assms] obtain r now now' a' rows where
    r: "trip_at (w_db w) (request_trip q) (request_tenant q) = Some r"
    and ap: "trip_apply c now (Trip_MapToAggregate r) = Inr a'"
    and at: "trip_at (w_db w') (request_trip q) (request_tenant q) = Some (trip_set (Trip_MapToPersistence a') now' r)"
    and ob: "outbox_rows_for (request_trip q) ''Trip'' (map EvTrip (tr_events a')) rows"
    "db_outbox_events (w_db w') = db_outbox_events (w_db w) @ rows" by metis
  let ?r' = "trip_set (Trip_MapToPersistence a') now' r"
  have "Trip_MapToAggregate ?r' = a'\<lparr>tr_Version := tr_Version a' + 1, tr_UpdatedAt := tw_updated_at ?r', tr_events := []\<rparr>"
    using trip_apply_keeps_identity [OF ap] trip_apply_created [OF ap]
    by (cases a') (simp add: Trip_MapToAggregate_def trip_set_def Trip_MapToPersistence_def nullString_def)
  with r ap at ob show ?thesis by blast
qed

theorem trip_requests_refine_aggregate_witness:
  "\<exists>w w' r'. trip_handle (demo_assign ''uuid-'') w = (Inr (), w') \<and> trip_at (w_db w') ''uuid-'' ''t1'' = Some r'
     \<and> tr_DriverID (Trip_MapToAggregate r') = Some ''d1''"
proof -
  define w where "w = snd (trip_handle demo_create_trip demo_fleet_world)"
  have "dispatch_ok (w_db demo_fleet_world)"
    by (simp add: demo_fleet_world_def demo_db_def dispatch_ok_def trips_ok_def exclusive_def)
  then have ok: "trips_ok (w_db w)" unfolding w_def using dispatch_ok_handle by (auto simp: dispatch_ok_def)
  have "\<not> isl (fst (trip_handle (demo_assign ''uuid-'') w))" unfolding w_def by code_simp
  then have run: "trip_handle (demo_assign ''uuid-'') w = (Inr (), snd (trip_handle (demo_assign ''uuid-'') w))"
    using run_Inr [of "trip_handle (demo_assign ''uuid-'')" w] by simp
  from trip_requests_refine_aggregate [OF ok run] obtain r r' a' now where
    "trip_at (w_db (snd (trip_handle (demo_assign ''uuid-'') w))) ''uuid-'' ''t1'' = Some r'"
    "trip_apply (CallAssignDriver ''d1'') now (Trip_MapToAggregate r) = Inr a'"
    "Trip_MapToAggregate r' = a'\<lparr>tr_Version := tr_Version a' + 1, tr_UpdatedAt := tw_updated_at r', tr_events := []\<rparr>"
    by (auto simp: demo_assign_def)
  moreover from this(2,3) have "tr_DriverID (Trip_MapToAggregate r') = Some ''d1''"
    by (auto simp: trip_transition_defs split: if_splits)
  ultimately show ?thesis using run by blast
qed

text \<open>
  Property C32.  No lost updates of trips.  When two requests loaded the same trip, each made a
  call that succeeded on its copy and the first saved it, the save of the second fails.
\<close>

theorem trip_no_lost_update:
  assumes "trips_ok (w_db w0)"
    and "TripRepository_Find i t w0 = (Inr a, w1)" and "TripRepository_Find i t w1 = (Inr b, w2)"
    and "trip_step a a'" and "trip_step b b'"
    and "TripRepository_Save a' w2 = (Inr a'', w3)"
  shows "\<exists>e w4. TripRepository_Save b' w3 = (Inl e, w4)"
proof -
  have keep: "tr_ID y = tr_ID x \<and> tr_TenantID y = tr_TenantID x \<and> tr_Version y = tr_Version x"
    if "trip_step x y" for x y
    using that by (auto elim!: trip_stepE dest: trip_apply_keeps_identity)
  show ?thesis
    using trip_repo.no_lost_update [OF assms(1-3) _ _ _ _ _ _ assms(6), of b'] keep [OF assms(4)] keep [OF assms(5)]
    by blast
qed

theorem trip_no_lost_update_witness:
  "\<exists>b' w3 e w4. TripRepository_Save b' w3 = (Inl e, w4)"
proof -
  define w0 where "w0 = snd (trip_handle demo_create_trip demo_fleet_world)"
  define w1 where "w1 = snd (TripRepository_Find ''uuid-'' ''t1'' w0)"
  define w2 where "w2 = snd (TripRepository_Find ''uuid-'' ''t1'' w1)"
  define a where "a = projr (fst (TripRepository_Find ''uuid-'' ''t1'' w0))"
  define b where "b = projr (fst (TripRepository_Find ''uuid-'' ''t1'' w1))"
  define a' where "a' = projr (TripAggregate_Schedule (10 ^ 15) a)"
  define b' where "b' = projr (TripAggregate_Cancel (10 ^ 15) b)"
  define w3 where "w3 = snd (TripRepository_Save a' w2)"
  have "dispatch_ok (w_db demo_fleet_world)"
    by (simp add: demo_fleet_world_def demo_db_def dispatch_ok_def trips_ok_def exclusive_def)
  then have ok: "trips_ok (w_db w0)" unfolding w0_def using dispatch_ok_handle by (auto simp: dispatch_ok_def)
  have f1: "TripRepository_Find ''uuid-'' ''t1'' w0 = (Inr a, w1)"
    unfolding a_def w1_def w0_def by (rule run_Inr) code_simp
  have f2: "TripRepository_Find ''uuid-'' ''t1'' w1 = (Inr b, w2)"
    unfolding b_def w2_def w1_def w0_def by (rule run_Inr) code_simp
  have "\<not> isl (TripAggregate_Schedule (10 ^ 15) a) \<and> tr_UpdatedAt a \<le> 10 ^ 15" unfolding a_def w0_def by code_simp
  then have c: "trip_step a a'"
    by (intro trip_call [of CallSchedule "10 ^ 15"]) (simp_all add: a'_def)
  have "\<not> isl (TripAggregate_Cancel (10 ^ 15) b) \<and> tr_UpdatedAt b \<le> 10 ^ 15"
    unfolding b_def w1_def w0_def by code_simp
  then have d: "trip_step b b'"
    by (intro trip_call [of CallCancel "10 ^ 15"]) (simp_all add: b'_def)
  have s: "TripRepository_Save a' w2 = (Inr (projr (fst (TripRepository_Save a' w2))), w3)"
    unfolding w3_def by (rule run_Inr) (unfold a'_def a_def w2_def w1_def w0_def, code_simp)
  show ?thesis using trip_no_lost_update [OF ok f1 f2 c d s] by blast
qed

end
