(* ===== verification/Trip_Gate.thy ===== *)
theory Trip_Gate
  imports Trip_Invariants
begin

text \<open>
  What the dispatch gate guarantees when a trip starts or a vehicle is assigned, and what the
  override of the driver check lets through.
\<close>

section \<open>Time and environment\<close>

interpretation ticks: kept_relation "\<lambda>w w'. w_env w' = w_env w \<and> w_nclk w \<le> w_nclk w'"
  by unfold_locales auto

lemma ticks_prims:
  "ticks.keeps (stmt q)" "ticks.keeps (query g)" "ticks.keeps (side_stmt s)" "ticks.keeps Now"
  "ticks.keeps GenerateUUID" "ticks.keeps getEnv"
  unfolding query_def
  by (rule ticks.keepsI; auto simp: stmt_def side_stmt_def Now_def GenerateUUID_def getEnv_def Let_def
      split: option.splits sum.splits prod.splits)+

lemma bindE_Now_Inr:
  "bindE Now f w = (Inr x, w') \<longleftrightarrow> f (env_clk (w_env w) (w_nclk w)) (w\<lparr>w_nclk := Suc (w_nclk w)\<rparr>) = (Inr x, w')"
  by (simp add: bindE_def Now_def)

lemmas ticks_intros = ticks_prims ticks.keeps_intros

section \<open>Fitness for dispatch\<close>

text \<open>
  A document that expires at \<open>when\<close> is in order for a run that starts in \<open>w\<close> and ends
  after \<open>e\<close> readings of the clock: it has no expiry date, or at a reading of the run it was
  not expired on the day, or at a reading of the run an exemption for it was in force.
\<close>

definition document_in_order :: "world \<Rightarrow> nat \<Rightarrow> string \<Rightarrow> string \<Rightarrow> string \<Rightarrow> go_time \<Rightarrow> bool" where
  "document_in_order w e entity i doc when \<longleftrightarrow>
     time_IsZero when
     \<or> (\<exists>n\<in>{w_nclk w..<e}. time_Truncate (env_clk (w_env w) n) day_ns \<le> when)
     \<or> (\<exists>n\<in>{w_nclk w..<e}. \<exists>x\<in>set (db_compliance_exemptions (w_db w)).
          exemption_applies entity i doc (trunc_second (env_clk (w_env w) n)) x)"

definition driver_fit :: "world \<Rightarrow> nat \<Rightarrow> string \<Rightarrow> TenantID \<Rightarrow> bool" where
  "driver_fit w e i t \<longleftrightarrow> (\<exists>d\<in>set (db_drivers (w_db w)). dw_id d = i \<and> dw_tenant_id d = t
     \<and> dw_status d \<noteq> DriverInactive \<and> dw_status d \<noteq> DriverLeave
     \<and> document_in_order w e ''driver'' i ''license'' (dw_license_expiry d))"

definition vehicle_available :: "world \<Rightarrow> nat \<Rightarrow> (string \<Rightarrow> bool) \<Rightarrow> string \<Rightarrow> TenantID \<Rightarrow> bool" where
  "vehicle_available w e waived i t \<longleftrightarrow> (\<exists>v\<in>set (db_vehicles (w_db w)). vw_id v = i \<and> vw_tenant_id v = t
     \<and> vw_status v \<noteq> VehicleInactive \<and> vw_status v \<noteq> VehicleMaintenance
     \<and> (waived ''insurance'' \<or> document_in_order w e ''vehicle'' i ''insurance'' (vw_insurance_expiry v))
     \<and> (waived ''fitness'' \<or> document_in_order w e ''vehicle'' i ''fitness'' (vw_fitness_expiry v))
     \<and> (waived ''permit'' \<or> document_in_order w e ''vehicle'' i ''permit'' (vw_permit_expiry v)))"

text \<open>Database, clock and environment at once: what every part of the gate keeps.\<close>

interpretation gate: kept_relation
  "\<lambda>w w'. audit_only (w_db w) (w_db w') \<and> w_env w' = w_env w \<and> w_nclk w \<le> w_nclk w'"
  by unfold_locales (auto intro: aud.Q_refl aud.Q_trans)

lemma gate_keeps: "aud.keeps m \<Longrightarrow> ticks.keeps m \<Longrightarrow> gate.keeps m"
  by (simp add: aud.keeps_def ticks.keeps_def gate.keeps_def)

lemma document_in_order_later:
  assumes "document_in_order w' e' en i doc when" and "e' \<le> e"
    and "audit_only (w_db w) (w_db w') \<and> w_env w' = w_env w \<and> w_nclk w \<le> w_nclk w'"
  shows "document_in_order w e en i doc when"
proof -
  have "{w_nclk w'..<e'} \<subseteq> {w_nclk w..<e}" using assms(2,3) by auto
  moreover have "w_env w' = w_env w" "db_compliance_exemptions (w_db w') = db_compliance_exemptions (w_db w)"
    using assms(3) audit_only_simps(5) by blast+
  ultimately show ?thesis using assms(1) unfolding document_in_order_def by auto
qed

lemma isExempt_True:
  assumes "isExempt e i doc w = (Inr True, w')"
  shows "document_in_order w (w_nclk w') e i doc when"
proof -
  let ?q = "query (\<lambda>now d. one_row (map_option ex_id
      (find (exemption_applies e i doc now) (db_compliance_exemptions d))))"
  obtain r w1 where q: "?q w = (r, w1)" by fastforce
  with assms obtain y where r: "r = Inr y" and w': "w' = w1"
    by (cases r) (simp_all add: isExempt_def act_simps)
  with q obtain x where "find (exemption_applies e i doc (trunc_second (env_clk (w_env w) (w_nclk w))))
      (db_compliance_exemptions (w_db w)) = Some x" and "w_nclk w' = Suc (w_nclk w)"
    by (auto simp: query_Inr one_row_def split: option.splits)
  from find_SomeD [OF this(1)] this(2) show ?thesis unfolding document_in_order_def by auto
qed

lemma same_store_db: "same_store w w' \<Longrightarrow> w_db w' = w_db w"
  by (simp add: same_store_def)

section \<open>Start of a trip\<close>

lemma require_driver_Inr:
  assumes "require_assignable_driver i t w = (Inr d, w')"
  shows "\<exists>row\<in>set (db_drivers (w_db w)). dw_id row = i \<and> dw_tenant_id row = t
    \<and> dw_status row \<noteq> DriverInactive \<and> dw_status row \<noteq> DriverLeave
    \<and> dr_LicenseExpiry d = dw_license_expiry row \<and> same_store w w'"
proof -
  from assms have f: "DriverRepository_Find i t w = (Inr d, w')"
    and st: "dr_Status d \<noteq> DriverInactive" "dr_Status d \<noteq> DriverLeave"
    by (auto simp: require_assignable_driver_def bindE_Inr wrap_err_Inr ret_Inr raise_Inr split: if_splits)
  from Driver_Find_Inr [OF f] obtain row where "dw_id row = i" "dw_tenant_id row = t"
    "row \<in> set (db_drivers (w_db w))" "d = Driver_ToDomain row" "same_store w w'" by blast
  with st show ?thesis by (intro bexI [of _ row]) (simp_all add: Driver_ToDomain_def NewDriverAggregate_def)
qed

lemma require_vehicle_Inr:
  assumes "require_assignable_vehicle i t w = (Inr v, w')"
  shows "\<exists>row\<in>set (db_vehicles (w_db w)). vw_id row = i \<and> vw_tenant_id row = t
    \<and> vw_status row \<noteq> VehicleInactive \<and> vw_status row \<noteq> VehicleMaintenance
    \<and> vehicle_documents v = [(''insurance'', vw_insurance_expiry row), (''fitness'', vw_fitness_expiry row),
         (''permit'', vw_permit_expiry row)] \<and> same_store w w'"
proof -
  from assms have f: "VehicleRepository_Find i t w = (Inr v, w')"
    and st: "vh_Status v \<noteq> VehicleInactive" "vh_Status v \<noteq> VehicleMaintenance"
    by (auto simp: require_assignable_vehicle_def bindE_Inr wrap_err_Inr ret_Inr raise_Inr split: if_splits)
  from f obtain row now where q: "query (GetVehicleByID i t) w = (Inr row, w')"
    and v: "v = Vehicle_ToDomain row" and g: "GetVehicleByID i t now (w_db w) = Inr row"
    by (auto simp: VehicleRepository_Find_def act_inv)
  from g have "find (\<lambda>r. vw_id r = i \<and> vw_tenant_id r = t) (db_vehicles (w_db w)) = Some row"
    by (auto simp: GetVehicleByID_def one_row_def split: option.splits)
  from find_SomeD [OF this] query_same_store [OF q] st v show ?thesis
    by (intro bexI [of _ row]) (simp_all add: Vehicle_ToDomain_def NewVehicleAggregate_def vehicle_documents_def)
qed

lemma ticks_wrap_err: "ticks.keeps m \<Longrightarrow> ticks.keeps (wrap_err f m)"
  unfolding wrap_err_def by (intro ticks_intros)

lemma ticks_require: "ticks.keeps (require_assignable_driver i t)" "ticks.keeps (require_assignable_vehicle i t)"
  unfolding require_assignable_driver_def require_assignable_vehicle_def DriverRepository_Find_def
    VehicleRepository_Find_def
  by (intro ticks_intros ticks_wrap_err)+

lemma ticks_isExempt: "ticks.keeps (isExempt a b c)"
  unfolding isExempt_def by (intro ticks_intros)

text \<open>A document check that did not raise found the document in order.\<close>

lemma document_check:
  assumes "\<not> time_IsZero when \<Longrightarrow> when < time_Truncate (env_clk (w_env w) (w_nclk w)) day_ns \<Longrightarrow>
      \<exists>w1 w2. isExempt en i doc w1 = (Inr True, w2) \<and> w_nclk w2 \<le> e
        \<and> audit_only (w_db w) (w_db w1) \<and> w_env w1 = w_env w \<and> w_nclk w \<le> w_nclk w1"
    and "w_nclk w < e"
  shows "document_in_order w e en i doc when"
proof (cases "time_IsZero when \<or> time_Truncate (env_clk (w_env w) (w_nclk w)) day_ns \<le> when")
  case True
  with assms(2) show ?thesis unfolding document_in_order_def by (meson atLeastLessThan_iff order_refl)
next
  case False
  then obtain w1 w2 where "isExempt en i doc w1 = (Inr True, w2)" "w_nclk w2 \<le> e"
    "audit_only (w_db w) (w_db w1) \<and> w_env w1 = w_env w \<and> w_nclk w \<le> w_nclk w1"
    using assms(1) by (auto simp: not_le)
  then show ?thesis using isExempt_True document_in_order_later by blast
qed

lemma same_store_audit: "same_store w w' \<Longrightarrow> audit_only (w_db w) (w_db w')"
  by (simp add: same_store_def aud.Q_refl)

text \<open>The part of the driver check after the driver was found.\<close>

definition start_licence :: "string \<Rightarrow> DriverAggregate \<Rightarrow> unit wact" where
  "start_licence i d = bindE Now (\<lambda>t. let now = time_Truncate t day_ns in
     if \<not> time_IsZero (dr_LicenseExpiry d) \<and> dr_LicenseExpiry d < now
     then bindE (isExempt ''driver'' i ''license'') (\<lambda>ex.
       if ex then ret () else raise license_expired_error)
     else ret ())"

lemma start_licence_checked:
  assumes "start_licence i d w = (Inr u, w')"
  shows "document_in_order w (w_nclk w') ''driver'' i ''license'' (dr_LicenseExpiry d)"
proof -
  let ?e = "dr_LicenseExpiry d" and ?w = "w\<lparr>w_nclk := Suc (w_nclk w)\<rparr>"
  from assms have c: "if \<not> time_IsZero ?e \<and> ?e < time_Truncate (env_clk (w_env w) (w_nclk w)) day_ns
      then isExempt ''driver'' i ''license'' ?w = (Inr True, w') else w' = ?w"
    by (auto simp: start_licence_def bindE_Inr Now_def Let_def raise_Inr ret_Inr split: if_splits)
  have le: "w_nclk w < w_nclk w'"
    using c ticks.keepsD [OF ticks_isExempt, of "''driver''" i "''license''" ?w "Inr True" w'] by (auto split: if_splits)
  show ?thesis
  proof (rule document_check [OF _ le])
    assume "\<not> time_IsZero ?e" "?e < time_Truncate (env_clk (w_env w) (w_nclk w)) day_ns"
    with c show "\<exists>w1 w2. isExempt ''driver'' i ''license'' w1 = (Inr True, w2) \<and> w_nclk w2 \<le> w_nclk w'
        \<and> audit_only (w_db w) (w_db w1) \<and> w_env w1 = w_env w \<and> w_nclk w \<le> w_nclk w1"
      by (intro exI [of _ ?w] exI [of _ w']) (simp add: aud.Q_refl)
  qed
qed

lemma start_driver_fit:
  assumes "StartTrip_checkDriverCompliance i t w = (Inr u, w')"
  shows "driver_fit w (w_nclk w') i t"
proof -
  from assms obtain d w1 where rq: "require_assignable_driver i t w = (Inr d, w1)"
    and rest: "start_licence i d w1 = (Inr u, w')"
    by (auto simp: StartTrip_checkDriverCompliance_def start_licence_def bindE_Inr)
  from require_driver_Inr [OF rq] obtain row where row: "row \<in> set (db_drivers (w_db w))" "dw_id row = i"
    "dw_tenant_id row = t" "dw_status row \<noteq> DriverInactive" "dw_status row \<noteq> DriverLeave"
    "dr_LicenseExpiry d = dw_license_expiry row" "same_store w w1" by blast
  have "document_in_order w (w_nclk w') ''driver'' i ''license'' (dw_license_expiry row)"
    using document_in_order_later [OF start_licence_checked [OF rest] order_refl]
      ticks.keepsD [OF ticks_require(1) rq] row(6) same_store_audit [OF row(7)] by simp
  with row show ?thesis unfolding driver_fit_def by blast
qed

text \<open>
  The loop over the documents of a vehicle, for any body whose success on a document means that it
  is waived or in order.
\<close>

lemma documents_checked:
  assumes body: "\<And>x. gate.keeps (f x)"
    and checked: "\<And>name when w1 w2. f (name, when) w1 = (Inr (), w2) \<Longrightarrow>
      audit_only (w_db w) (w_db w1) \<and> w_env w1 = w_env w \<and> w_nclk w \<le> w_nclk w1 \<Longrightarrow> w_nclk w < w_nclk w2 \<Longrightarrow>
      waived name \<or> document_in_order w (w_nclk w2) ''vehicle'' i name when"
    and run: "forE docs f (w\<lparr>w_nclk := Suc (w_nclk w)\<rparr>) = (Inr u, w')" and d: "(name, when) \<in> set docs"
  shows "waived name \<or> document_in_order w (w_nclk w') ''vehicle'' i name when"
proof -
  from gate.for_visits [OF body run d] obtain w1 w2 where
    1: "audit_only (w_db w) (w_db w1)" "w_env w1 = w_env w" "Suc (w_nclk w) \<le> w_nclk w1"
    and f: "f (name, when) w1 = (Inr (), w2)" and 2: "w_nclk w2 \<le> w_nclk w'" by auto
  have "w_nclk w < w_nclk w2" using gate.keepsD [OF body f] 1 by simp
  with checked [OF f] 1 have "waived name \<or> document_in_order w (w_nclk w2) ''vehicle'' i name when" by simp
  moreover have "document_in_order w (w_nclk w') ''vehicle'' i name when"
    if "document_in_order w (w_nclk w2) ''vehicle'' i name when"
    using document_in_order_later [OF that 2] by (simp add: aud.Q_refl)
  ultimately show ?thesis by blast
qed

lemma exempted_document:
  assumes "\<not> time_IsZero when \<Longrightarrow> when < time_Truncate (env_clk (w_env w) (w_nclk w)) day_ns \<Longrightarrow>
      waived \<or> (\<exists>w3. isExempt ''vehicle'' i name w1 = (Inr True, w3) \<and> w_nclk w3 \<le> w_nclk w2)"
    and "audit_only (w_db w) (w_db w1) \<and> w_env w1 = w_env w \<and> w_nclk w \<le> w_nclk w1" and "w_nclk w < w_nclk w2"
  shows "waived \<or> document_in_order w (w_nclk w2) ''vehicle'' i name when"
proof (cases waived)
  case False
  then show ?thesis
    using assms by (intro disjI2 document_check) blast+
qed simp

lemma ticks_start_checks: "ticks.keeps (start_document v now x)" "ticks.keeps (start_puc v now)"
proof -
  show "ticks.keeps (start_document v now x)"
    unfolding start_document_def by (cases x) (auto intro!: ticks_intros ticks_isExempt)
  show "ticks.keeps (start_puc v now)"
    unfolding start_puc_def getPUCExpiry_def by (intro ticks_intros ticks_isExempt)
qed

lemma start_document_checked:
  assumes "start_document i (time_Truncate (env_clk (w_env w) (w_nclk w)) day_ns) (name, when) w1 = (Inr (), w2)"
    and "audit_only (w_db w) (w_db w1) \<and> w_env w1 = w_env w \<and> w_nclk w \<le> w_nclk w1" and "w_nclk w < w_nclk w2"
  shows "False \<or> document_in_order w (w_nclk w2) ''vehicle'' i name when"
proof (rule exempted_document [OF _ assms(2,3)])
  assume "\<not> time_IsZero when" "when < time_Truncate (env_clk (w_env w) (w_nclk w)) day_ns"
  with assms(1) show "False \<or> (\<exists>w3. isExempt ''vehicle'' i name w1 = (Inr True, w3) \<and> w_nclk w3 \<le> w_nclk w2)"
    by (auto simp: start_document_def bindE_Inr raise_Inr ret_Inr split: if_splits)
qed

lemma vehicle_availableI:
  assumes rq: "require_assignable_vehicle i t w = (Inr v, w1)" and "e' \<le> e"
    and docs: "\<And>name when. (name, when) \<in> set (vehicle_documents v) \<Longrightarrow>
      waived name \<or> document_in_order w1 e' ''vehicle'' i name when"
  shows "vehicle_available w e waived i t"
proof -
  from require_vehicle_Inr [OF rq] obtain row where row: "row \<in> set (db_vehicles (w_db w))" "vw_id row = i"
    "vw_tenant_id row = t" "vw_status row \<noteq> VehicleInactive" "vw_status row \<noteq> VehicleMaintenance"
    "vehicle_documents v = [(''insurance'', vw_insurance_expiry row), (''fitness'', vw_fitness_expiry row),
         (''permit'', vw_permit_expiry row)]" "same_store w w1" by blast
  have "waived name \<or> document_in_order w e ''vehicle'' i name when"
    if "(name, when) \<in> set (vehicle_documents v)" for name "when"
    using docs [OF that] document_in_order_later [OF _ assms(2), of w1 "''vehicle''" i name "when" w]
      ticks.keepsD [OF ticks_require(2) rq] same_store_audit [OF row(7)] by blast
  with row show ?thesis unfolding vehicle_available_def by (intro bexI [of _ row]) simp_all
qed

lemma start_vehicle_available:
  assumes "StartTrip_checkVehicleCompliance i t w = (Inr u, w')"
  shows "vehicle_available w (w_nclk w') (\<lambda>_. False) i t"
proof -
  from assms obtain v w1 w2 where rq: "require_assignable_vehicle i t w = (Inr v, w1)"
    and docs: "forE (vehicle_documents v) (start_document i (time_Truncate (env_clk (w_env w1) (w_nclk w1)) day_ns))
      (w1\<lparr>w_nclk := Suc (w_nclk w1)\<rparr>) = (Inr (), w2)"
    and rest: "start_puc i (time_Truncate (env_clk (w_env w1) (w_nclk w1)) day_ns) w2 = (Inr u, w')"
    by (auto simp: StartTrip_checkVehicleCompliance_def bindE_Inr [of "require_assignable_vehicle i t"]
        bindE_Now_Inr seqE_Inr Let_def)
  have "w_nclk w2 \<le> w_nclk w'" using ticks.keepsD [OF ticks_start_checks(2) rest] by simp
  then show ?thesis
    using documents_checked [OF gate_keeps [OF aud_start_checks(1) ticks_start_checks(1)] start_document_checked docs]
    by (intro vehicle_availableI [OF rq]) blast+
qed

section \<open>Assignment of a vehicle\<close>

lemma ticks_logAudit: "ticks.keeps (logAudit tb ac i ov nv)"
  unfolding logAudit_def by (intro ticks_intros)

lemma ticks_checks:
  "ticks.keeps (recordComplianceCheck a b c d e)" "ticks.keeps (record_override a b c d e f)"
  "ticks.keeps (vehicle_override cmd n)"
  unfolding vehicle_override_def recordComplianceCheck_def record_override_def
  by (intro ticks_intros ticks_logAudit)+

lemma ticks_document: "ticks.keeps (check_vehicle_document cmd now x)"
  unfolding check_vehicle_document_def
  by (cases x) (auto intro!: ticks_intros ticks_isExempt ticks_checks)

lemma ticks_puc: "ticks.keeps (check_vehicle_puc cmd now)"
  unfolding check_vehicle_puc_def getPUCExpiry_def by (intro ticks_intros ticks_isExempt ticks_checks)

lemma ticks_maintenance_gate: "ticks.keeps a \<Longrightarrow> ticks.keeps (maintenance_gate v ov a)"
  unfolding maintenance_gate_def IsMaintenanceBlocked_def Let_def
  by (intro ticks_intros) (auto intro!: ticks_intros split: prod.splits)

lemma check_document_checked:
  assumes "check_vehicle_document cmd (time_Truncate (env_clk (w_env w) (w_nclk w)) day_ns) (name, when) w1 = (Inr (), w2)"
    and "audit_only (w_db w) (w_db w1) \<and> w_env w1 = w_env w \<and> w_nclk w \<le> w_nclk w1" and "w_nclk w < w_nclk w2"
  shows "override_accepted (avc_OverrideMaintenance cmd) (avc_OverrideReason cmd)
    \<or> document_in_order w (w_nclk w2) ''vehicle'' (avc_VehicleID cmd) name when"
proof (rule exempted_document [OF _ assms(2,3)])
  assume "\<not> time_IsZero when" "when < time_Truncate (env_clk (w_env w) (w_nclk w)) day_ns"
  with assms(1) obtain ex w3 where ex: "isExempt ''vehicle'' (avc_VehicleID cmd) name w1 = (Inr ex, w3)"
    and rest: "ex \<Longrightarrow> recordComplianceCheck ''vehicle'' (avc_VehicleID cmd) name ''warning''
        ''bypassed by exemption'' w3 = (Inr (), w2)"
      "\<not> ex \<Longrightarrow> override_accepted (avc_OverrideMaintenance cmd) (avc_OverrideReason cmd)"
    by (fastforce simp: check_vehicle_document_def bindE_Inr raise_Inr seqE_Inr split: if_splits)
  have "w_nclk w3 \<le> w_nclk w2" if ex using ticks.keepsD [OF ticks_checks(1) rest(1) [OF that]] by simp
  with ex rest(2) show "override_accepted (avc_OverrideMaintenance cmd) (avc_OverrideReason cmd)
      \<or> (\<exists>w3. isExempt ''vehicle'' (avc_VehicleID cmd) name w1 = (Inr True, w3) \<and> w_nclk w3 \<le> w_nclk w2)"
    by (cases ex) auto
qed

lemma assign_vehicle_available:
  assumes "AssignVehicle_checkVehicleCompliance cmd w = (Inr u, w')"
  shows "vehicle_available w (w_nclk w')
    (\<lambda>_. override_accepted (avc_OverrideMaintenance cmd) (avc_OverrideReason cmd)) (avc_VehicleID cmd) (avc_TenantID cmd)"
proof -
  let ?now = "\<lambda>w1. time_Truncate (env_clk (w_env w1) (w_nclk w1)) day_ns"
  let ?au = "logAudit ''trips'' ''assign_vehicle_override'' (avc_TripID cmd) None
      (Some (JObject [(''vehicle_id'', JString (avc_VehicleID cmd)), (''reason'', JString (avc_OverrideReason cmd))]))"
  from assms obtain v w1 w2 x where
    rq: "require_assignable_vehicle (avc_VehicleID cmd) (avc_TenantID cmd) w = (Inr v, w1)"
    and docs: "forE (vehicle_documents v) (check_vehicle_document cmd (?now w1)) (w1\<lparr>w_nclk := Suc (w_nclk w1)\<rparr>)
      = (Inr (), w2)"
    and rest: "seqE (check_vehicle_puc cmd (?now w1)) (maintenance_gate (avc_VehicleID cmd)
        (avc_OverrideMaintenance cmd) ?au) w2 = (Inr x, w')"
    by (auto simp: AssignVehicle_checkVehicleCompliance_def bindE_Inr [of "require_assignable_vehicle i t" for i t]
        bindE_Now_Inr seqE_Inr [of "forE xs f" for xs f] Let_def)
  have "ticks.keeps (seqE (check_vehicle_puc cmd (?now w1)) (maintenance_gate (avc_VehicleID cmd)
        (avc_OverrideMaintenance cmd) ?au))"
    by (intro ticks.keeps_seq ticks_puc ticks_maintenance_gate ticks_logAudit)
  from ticks.keepsD [OF this rest] have "w_nclk w2 \<le> w_nclk w'" by simp
  then show ?thesis
    using documents_checked [OF gate_keeps [OF aud_document ticks_document], where w = w1 and
        waived = "\<lambda>_. override_accepted (avc_OverrideMaintenance cmd) (avc_OverrideReason cmd)",
        OF check_document_checked docs]
    by (intro vehicle_availableI [OF rq]) blast+
qed

section \<open>The gate of the use cases\<close>

lemma ticks_noRowsAs: "ticks.keeps m \<Longrightarrow> ticks.keeps (noRowsAs s m)"
  unfolding noRowsAs_def by (intro ticks_intros)

lemma ticks_Trip_Find: "ticks.keeps (TripRepository_Find i t)"
  unfolding TripRepository_Find_def by (intro ticks_intros ticks_noRowsAs)

lemma ticks_Trip_Save: "ticks.keeps (TripRepository_Save a)"
  unfolding TripRepository_Save_def TripRepository_Exists_def OutboxWriter_SaveEvents_def save_event_def Let_def
  by (intro ticks_intros ticks_noRowsAs)

text \<open>The guard of a successful use case ran within the time of the use case, on its database.\<close>

lemma guarded_trip_times:
  assumes "guarded_trip_use_case i t g f af w = (Inr u, w')" and "\<And>a. ticks.keeps (af a)"
  obtains r w1 w2 now a' where "trip_at (w_db w) i t = Some r" "w_db w1 = w_db w" "w_env w1 = w_env w"
    "w_nclk w \<le> w_nclk w1" "g (Trip_MapToAggregate r) w1 = (Inr (), w2)" "w_nclk w2 \<le> w_nclk w'"
    "f now (Trip_MapToAggregate r) = Inr a'"
proof -
  from assms(1) obtain a w1 w2 a' a'' w3 w4 where
    l: "TripRepository_Find i t (w\<lparr>w_nop := Suc (w_nop w)\<rparr>) = (Inr a, w1)"
    and g: "g a w1 = (Inr (), w2)" and f: "f (env_clk (w_env w2) (w_nclk w2)) a = Inr a'"
    and s: "TripRepository_Save a' (w2\<lparr>w_nclk := Suc (w_nclk w2)\<rparr>) = (Inr a'', w3)"
    and af: "af a'' w3 = (Inr u, w4)" and w': "w' = w4\<lparr>w_nop := Suc (w_nop w4)\<rparr>"
    unfolding guarded_trip_use_case_def by (auto simp: uow_Inr act_inv)
  from Trip_Find_Inr [OF l] obtain r where "trip_at (w_db w) i t = Some r" "a = Trip_MapToAggregate r" by auto
  moreover have "w_db w1 = w_db w" "w_env w1 = w_env w" using Trip_Find_store [OF l] by (simp_all add: same_store_def)
  moreover have "w_nclk w \<le> w_nclk w1" using ticks.keepsD [OF ticks_Trip_Find l] by simp
  moreover have "w_nclk w2 \<le> w_nclk w'"
    using ticks.keepsD [OF ticks_Trip_Save s] ticks.keepsD [OF assms(2) af] w' by simp
  ultimately show thesis using that g f by blast
qed

lemma fit_earlier:
  assumes "audit_only (w_db w) (w_db w1)" "w_env w1 = w_env w" "w_nclk w \<le> w_nclk w1" "e' \<le> e"
  shows "driver_fit w1 e' i t \<Longrightarrow> driver_fit w e i t"
    and "vehicle_available w1 e' wv i t \<Longrightarrow> vehicle_available w e wv i t"
  using assms audit_only_simps(2,3) [OF assms(1)] document_in_order_later [OF _ assms(4), of w1 _ _ _ _ w]
  unfolding driver_fit_def vehicle_available_def by (simp, blast)+

lemma ticks_audit_trip: "ticks.keeps (audit_trip ac a)"
  unfolding audit_trip_def by (rule ticks_logAudit)

lemma ticks_start_driver: "ticks.keeps (StartTrip_checkDriverCompliance d t)"
  unfolding StartTrip_checkDriverCompliance_def Let_def
  by (intro ticks_intros ticks_require ticks_isExempt)

lemma ticks_start_vehicle: "ticks.keeps (StartTrip_checkVehicleCompliance d t)"
  unfolding StartTrip_checkVehicleCompliance_def Let_def
  by (intro ticks_intros ticks_require ticks_start_checks)

lemma start_guard_fit:
  assumes "start_guard t a w = (Inr u, w')"
  shows "tr_DriverID a = Some d \<Longrightarrow> d \<noteq> [] \<Longrightarrow> driver_fit w (w_nclk w') d t"
    and "tr_VehicleID a = Some v \<Longrightarrow> v \<noteq> [] \<Longrightarrow> vehicle_available w (w_nclk w') (\<lambda>_. False) v t"
proof -
  define dr where "dr = (case tr_DriverID a of
         Some d \<Rightarrow> (if d \<noteq> [] then StartTrip_checkDriverCompliance d t else ret ()) | None \<Rightarrow> ret ())"
  define vh where "vh = (case tr_VehicleID a of
         Some v \<Rightarrow> (if v \<noteq> [] then StartTrip_checkVehicleCompliance v t else ret ()) | None \<Rightarrow> ret ())"
  from assms obtain w1 where d: "dr w = (Inr (), w1)" and v: "vh w1 = (Inr u, w')"
    by (auto simp: start_guard_def seqE_Inr dr_def vh_def)
  have k: "ticks.keeps dr" "ticks.keeps vh" "aud.keeps dr"
    unfolding dr_def vh_def
    by (intro ticks_intros ticks_start_driver ticks_start_vehicle aud.db_intros aud_driver_checks)+
  have 1: "audit_only (w_db w) (w_db w1)" "w_env w1 = w_env w" "w_nclk w \<le> w_nclk w1" "w_nclk w1 \<le> w_nclk w'"
    using ticks.keepsD [OF k(1) d] ticks.keepsD [OF k(2) v] aud.keepsD [OF k(3) d] by auto
  show "driver_fit w (w_nclk w') d t" if "tr_DriverID a = Some d" "d \<noteq> []"
    using d that start_driver_fit [of d t w "()" w1] fit_earlier(1) [of w w "w_nclk w1" "w_nclk w'"] 1(4)
    by (simp add: dr_def aud.Q_refl)
  show "vehicle_available w (w_nclk w') (\<lambda>_. False) v t" if "tr_VehicleID a = Some v" "v \<noteq> []"
    using v that start_vehicle_available [of v t w1 u w'] fit_earlier(2) [OF 1(1-3) order_refl]
    by (simp add: vh_def)
qed


definition demo_assigned_world :: world where
  "demo_assigned_world = trip_session [demo_create_trip, demo_assign ''uuid-''] demo_fleet_world"


text \<open>
  Only available vehicles are assigned.  When \<open>AssignVehicle\<close> returns nil, the
  vehicle belongs to the tenant, is not inactive or in maintenance, and each of its insurance,
  fitness and permit is in order, unless the caller overrode the check with a reason of at least
  ten characters; the override never admits a vehicle of another tenant.
\<close>

theorem assigned_vehicles_are_available:
  assumes "AssignVehicleUseCase_Execute cmd w = (Inr u, w')"
  shows "vehicle_available w (w_nclk w')
    (\<lambda>_. override_accepted (avc_OverrideMaintenance cmd) (avc_OverrideReason cmd)) (avc_VehicleID cmd) (avc_TenantID cmd)"
proof -
  from assms have "guarded_trip_use_case (avc_TripID cmd) (avc_TenantID cmd)
      (\<lambda>_. seqE (AssignVehicle_checkVehicleCompliance cmd) (vehicle_conflict_gate cmd))
      (TripAggregate_AssignVehicle (avc_VehicleID cmd)) (audit_trip ''assign'') w = (Inr u, w')"
    by (auto simp: AssignVehicleUseCase_Execute_def seqE_Inr failIf_Inr)
  then obtain w1 w2 where w1: "w_db w1 = w_db w" "w_env w1 = w_env w" "w_nclk w \<le> w_nclk w1"
    and g: "seqE (AssignVehicle_checkVehicleCompliance cmd) (vehicle_conflict_gate cmd) w1 = (Inr (), w2)"
    and w2: "w_nclk w2 \<le> w_nclk w'"
    by (rule guarded_trip_times [OF _ ticks_audit_trip])
  from g obtain w3 where c: "AssignVehicle_checkVehicleCompliance cmd w1 = (Inr (), w3)"
    and v: "vehicle_conflict_gate cmd w3 = (Inr (), w2)" by (auto simp: seqE_Inr)
  have "ticks.keeps (vehicle_conflict_gate cmd)"
    unfolding vehicle_conflict_gate_def TripRepository_CheckVehicleConflict_def
    by (intro ticks_intros; simp split: list.split add: ticks_intros)
  from ticks.keepsD [OF this v] w2 have "w_nclk w3 \<le> w_nclk w'" by simp
  with assign_vehicle_available [OF c] fit_earlier(2) [of w w1 "w_nclk w3" "w_nclk w'"] w1
  show ?thesis by (simp add: aud.Q_refl)
qed

definition demo_vehicle :: "string \<Rightarrow> vehicle_row" where
  "demo_vehicle i =
     \<lparr>vw_id = i, vw_registration_number = ''MH12'' @ i, vw_vehicle_number = i, vw_vehicle_type = ''truck'',
      vw_capacity = 10, vw_fuel_type = ''diesel'', vw_insurance_expiry = 10 ^ 18, vw_fitness_expiry = 10 ^ 18,
      vw_permit_expiry = 0, vw_status = VehicleAvailable, vw_current_mileage = None, vw_tenant_id = ''t1'',
      vw_created_at = 0, vw_updated_at = 0, vw_puc_expiry = None, vw_maintenance_due = None,
      vw_maintenance_override_by = None, vw_maintenance_override_at = None\<rparr>"

definition demo_assign_vehicle :: AssignVehicleCommand where
  "demo_assign_vehicle = \<lparr>avc_TripID = ''uuid-'', avc_VehicleID = ''v1'', avc_TenantID = ''t1'',
     avc_OverrideMaintenance = False, avc_OverrideReason = []\<rparr>"

definition demo_vehicle_world :: world where
  "demo_vehicle_world = demo_assigned_world\<lparr>w_db := (w_db demo_assigned_world)\<lparr>db_vehicles := [demo_vehicle ''v1'']\<rparr>\<rparr>"

theorem assigned_vehicles_are_available_witness:
  "\<exists>e. vehicle_available demo_vehicle_world e
    (\<lambda>_. override_accepted (avc_OverrideMaintenance demo_assign_vehicle) (avc_OverrideReason demo_assign_vehicle))
    (avc_VehicleID demo_assign_vehicle) (avc_TenantID demo_assign_vehicle)"
proof -
  have "\<not> isl (fst (AssignVehicleUseCase_Execute demo_assign_vehicle demo_vehicle_world))" by code_simp
  then have "AssignVehicleUseCase_Execute demo_assign_vehicle demo_vehicle_world
      = (Inr (), snd (AssignVehicleUseCase_Execute demo_assign_vehicle demo_vehicle_world))"
    using run_Inr [of "AssignVehicleUseCase_Execute demo_assign_vehicle" demo_vehicle_world] by simp
  from assigned_vehicles_are_available [OF this] show ?thesis by blast
qed

section \<open>The override of the driver check\<close>

definition demo_foreign_driver :: driver_row where
  "demo_foreign_driver = (demo_driver ''d9'' (10 ^ 18))\<lparr>dw_tenant_id := ''t2''\<rparr>"

definition demo_override :: AssignDriverCommand where
  "demo_override = \<lparr>adc_TripID = ''uuid-'', adc_DriverID = ''d9'', adc_TenantID = ''t1'',
     adc_OverrideMaintenance = True, adc_OverrideReason = ''approved by operations''\<rparr>"

definition demo_foreign_world :: world where
  "demo_foreign_world = trip_session [demo_create_trip]
     (demo_world\<lparr>w_db := demo_db\<lparr>db_drivers := [demo_foreign_driver]\<rparr>\<rparr>)"

text \<open>
  The override of the driver check admits more than an expired licence: any error
  of the check is overridden, so with a reason of ten characters a driver of another tenant, whom
  the check does not even find, is assigned to the trip, and the override is logged as one of the
  licence.
\<close>

theorem driver_override_crosses_tenants:
  "\<exists>row w'. find_driver (w_db demo_foreign_world) (adc_DriverID demo_override) = Some row
    \<and> dw_tenant_id row \<noteq> adc_TenantID demo_override
    \<and> AssignDriverUseCase_Execute demo_override demo_foreign_world = (Inr (), w')
    \<and> map_option tw_driver_id (trip_at (w_db w') (adc_TripID demo_override) (adc_TenantID demo_override))
        = Some (Some (adc_DriverID demo_override))
    \<and> map ov_blocked_by (sd_dispatch_overrides (w_side w')) = [''license_expiry'']"
proof -
  let ?run = "AssignDriverUseCase_Execute demo_override demo_foreign_world"
  have "\<not> isl (fst ?run)" by code_simp
  then have run: "?run = (Inr (), snd ?run)"
    using run_Inr [of "AssignDriverUseCase_Execute demo_override" demo_foreign_world] by simp
  have "find_driver (w_db demo_foreign_world) (adc_DriverID demo_override) = Some demo_foreign_driver" by code_simp
  moreover have "dw_tenant_id demo_foreign_driver \<noteq> adc_TenantID demo_override" by code_simp
  moreover have "map_option tw_driver_id (trip_at (w_db (snd ?run)) (adc_TripID demo_override) (adc_TenantID demo_override))
        = Some (Some (adc_DriverID demo_override))" by code_simp
  moreover have "map ov_blocked_by (sd_dispatch_overrides (w_side (snd ?run))) = [''license_expiry'']" by code_simp
  ultimately show ?thesis
    using run by (intro exI [of _ demo_foreign_driver] exI [of _ "snd ?run"] conjI) assumption+
qed

end
