(* ===== verification/Event_Bus.thy ===== *)
theory Event_Bus
  imports Store
begin

text \<open>
  The in-memory event bus (\<open>internal/events/bus.go\<close>): registrations per event type,
  publishing that survives failing and panicking handlers, and removal by identity.
\<close>

section \<open>The bus\<close>

record event =
  ev_Type :: string
  ev_Payload :: json

text \<open>
  A handler is code of the subscriber: it changes the world and returns nil, an error, or panics.
\<close>

datatype handler_result = HandlerOk | HandlerError goerr | HandlerPanic string

type_synonym 'w handler = "event \<Rightarrow> 'w \<Rightarrow> handler_result \<times> 'w"

text \<open>
  The code keeps pointers to \<open>registeredHandler\<close>, so that two registrations of the same
  function stay apart.  The address of a registration is a number that is never used again; the
  bus carries the next one.
\<close>

record 'w registeredHandler =
  rh_addr :: nat
  rh_handler :: "'w handler"

record 'w InMemoryBus =
  bus_subs :: "string \<Rightarrow> 'w registeredHandler list"
  bus_next :: nat

datatype log_entry = EventHandlerFailed string goerr | EventHandlerPanicked string string

text \<open>An event type that was never subscribed to reads as the nil slice.\<close>

definition NewInMemoryBus :: "'w InMemoryBus" where
  "NewInMemoryBus = \<lparr>bus_subs = (\<lambda>_. []), bus_next = 0\<rparr>"

definition bus_dispatch :: "event \<Rightarrow> 'w handler \<Rightarrow> 'w \<Rightarrow> log_entry list \<times> 'w" where
  "bus_dispatch e h w =
     (case h e w of
        (HandlerOk, w') \<Rightarrow> ([], w')
      | (HandlerError err, w') \<Rightarrow> ([EventHandlerFailed (ev_Type e) err], w')
      | (HandlerPanic r, w') \<Rightarrow> ([EventHandlerPanicked (ev_Type e) r], w'))"

text \<open>The loop over the copy of the registrations.\<close>

primrec publish_loop :: "event \<Rightarrow> 'w registeredHandler list \<Rightarrow> 'w \<Rightarrow> log_entry list \<times> 'w" where
  "publish_loop e [] w = ([], w)"
| "publish_loop e (rh # rhs) w =
     (let (l, w1) = bus_dispatch e (rh_handler rh) w; (ls, w2) = publish_loop e rhs w1
      in (l @ ls, w2))"

definition bus_Publish :: "'w InMemoryBus \<Rightarrow> event \<Rightarrow> 'w \<Rightarrow> log_entry list \<times> 'w" where
  "bus_Publish b e = publish_loop e (bus_subs b (ev_Type e))"

text \<open>The unsubscribe function that \<open>Subscribe\<close> returns closes over the type and the pointer.\<close>

type_synonym unsubscribe = "string \<times> nat"

definition bus_Subscribe :: "'w InMemoryBus \<Rightarrow> string \<Rightarrow> 'w handler \<Rightarrow> 'w InMemoryBus \<times> unsubscribe" where
  "bus_Subscribe b eventType h =
     (let rh = \<lparr>rh_addr = bus_next b, rh_handler = h\<rparr> in
      (b\<lparr>bus_subs := (bus_subs b)(eventType := bus_subs b eventType @ [rh]),
         bus_next := Suc (bus_next b)\<rparr>,
       (eventType, rh_addr rh)))"

primrec remove_registered :: "nat \<Rightarrow> 'w registeredHandler list \<Rightarrow> 'w registeredHandler list" where
  "remove_registered a [] = []"
| "remove_registered a (s # subs) = (if rh_addr s = a then subs else s # remove_registered a subs)"

definition bus_unsubscribe :: "'w InMemoryBus \<Rightarrow> unsubscribe \<Rightarrow> 'w InMemoryBus" where
  "bus_unsubscribe b u =
     (let (eventType, a) = u in
      b\<lparr>bus_subs := (bus_subs b)(eventType := remove_registered a (bus_subs b eventType))\<rparr>)"

section \<open>Sequences of calls\<close>

text \<open>
  The calls clients make over time.  \<open>CallUnsubscribe n\<close> calls the function the \<open>n\<close>-th
  \<open>Subscribe\<close> returned, possibly more than once; before it exists the call cannot be made.
\<close>

datatype 'w bus_op = CallSubscribe string "'w handler" | CallUnsubscribe nat

fun bus_call :: "'w bus_op \<Rightarrow> 'w InMemoryBus \<times> unsubscribe list \<Rightarrow> 'w InMemoryBus \<times> unsubscribe list" where
  "bus_call (CallSubscribe t h) (b, us) = (let (b', u) = bus_Subscribe b t h in (b', us @ [u]))"
| "bus_call (CallUnsubscribe n) (b, us) = (if n < length us then (bus_unsubscribe b (us ! n), us) else (b, us))"

definition bus_after :: "'w bus_op list \<Rightarrow> 'w InMemoryBus" where
  "bus_after cs = fst (fold bus_call cs (NewInMemoryBus, []))"

text \<open>
  What the bus promises: the registrations in the order they were made, each with its number,
  and an unsubscribe call removes the one with that number and nothing else.
\<close>

type_synonym 'w registrations = "nat \<times> (nat \<times> string \<times> 'w handler) list"

fun reg_call :: "'w bus_op \<Rightarrow> 'w registrations \<Rightarrow> 'w registrations" where
  "reg_call (CallSubscribe t h) (k, rs) = (Suc k, rs @ [(k, t, h)])"
| "reg_call (CallUnsubscribe n) (k, rs) = (k, filter (\<lambda>(m, t, h). m \<noteq> n) rs)"

definition registered :: "'w bus_op list \<Rightarrow> string \<Rightarrow> 'w handler list" where
  "registered cs ty =
     map (\<lambda>(m, t, h). h) (filter (\<lambda>(m, t, h). t = ty) (snd (fold reg_call cs (0, []))))"

text \<open>The bus represents the registrations.\<close>

definition bus_represents :: "'w InMemoryBus \<times> unsubscribe list \<Rightarrow> 'w registrations \<Rightarrow> bool" where
  "bus_represents s r \<longleftrightarrow>
     bus_next (fst s) = fst r \<and> length (snd s) = fst r
     \<and> (\<forall>n < fst r. snd (snd s ! n) = n)
     \<and> (\<forall>(m, t, h)\<in>set (snd r). m < fst r \<and> fst (snd s ! m) = t)
     \<and> distinct (map fst (snd r))
     \<and> (\<forall>ty. map (\<lambda>rh. (rh_addr rh, rh_handler rh)) (bus_subs (fst s) ty)
             = map (\<lambda>(m, t, h). (m, h)) (filter (\<lambda>(m, t, h). t = ty) (snd r)))"

lemma remove_registered_map:
  assumes "distinct (map f xs)"
  shows "map (\<lambda>rh. (rh_addr rh, rh_handler rh)) rhs = map (\<lambda>x. (f x, g x)) xs \<Longrightarrow>
    map (\<lambda>rh. (rh_addr rh, rh_handler rh)) (remove_registered a rhs)
      = map (\<lambda>x. (f x, g x)) (filter (\<lambda>x. f x \<noteq> a) xs)"
  using assms
proof (induction xs arbitrary: rhs)
  case (Cons x xs)
  then obtain rh rhs' where r: "rhs = rh # rhs'" "rh_addr rh = f x" "rh_handler rh = g x"
    "map (\<lambda>rh. (rh_addr rh, rh_handler rh)) rhs' = map (\<lambda>x. (f x, g x)) xs"
    by (auto simp: map_eq_Cons_conv)
  show ?case
  proof (cases "f x = a")
    case True
    have "filter (\<lambda>y. f y \<noteq> a) xs = xs"
      using Cons.prems(2) True by (intro filter_True) (metis distinct.simps(2) image_eqI list.simps(9) set_map)
    with r True show ?thesis by simp
  next
    case False
    with r Cons.IH [OF r(4)] Cons.prems(2) show ?thesis by simp
  qed
qed simp

lemma represents_subscribe:
  assumes "bus_represents (b, us) (k, rs)"
  shows "bus_represents (bus_call (CallSubscribe t h) (b, us)) (reg_call (CallSubscribe t h) (k, rs))"
  using assms unfolding bus_represents_def
  by (auto simp: bus_Subscribe_def Let_def nth_append less_Suc_eq split: if_splits)

lemma represents_unsubscribe:
  assumes "bus_represents (b, us) (k, rs)"
  shows "bus_represents (bus_call (CallUnsubscribe n) (b, us)) (reg_call (CallUnsubscribe n) (k, rs))"
proof (cases "n < k")
  case False
  from assms False have "filter (\<lambda>(m, t, h). m \<noteq> n) rs = rs"
    unfolding bus_represents_def by (intro filter_True) auto
  with assms False show ?thesis by (simp add: bus_represents_def)
next
  case True
  let ?rs = "filter (\<lambda>(m, t, h). m \<noteq> n) rs"
  obtain t0 where u: "us ! n = (t0, n)"
    using assms True unfolding bus_represents_def by (cases "us ! n") force
  have subs: "map (\<lambda>rh. (rh_addr rh, rh_handler rh)) (bus_subs (bus_unsubscribe b (us ! n)) ty)
      = map (\<lambda>(m, t, h). (m, h)) (filter (\<lambda>(m, t, h). t = ty) ?rs)" for ty
  proof -
    let ?old = "filter (\<lambda>(m, t, h). t = ty) rs"
    have old: "map (\<lambda>rh. (rh_addr rh, rh_handler rh)) (bus_subs b ty)
        = map (\<lambda>x. (fst x, snd (snd x))) ?old"
      using assms unfolding bus_represents_def by (auto simp: case_prod_unfold)
    have d: "distinct (map fst ?old)"
      using assms unfolding bus_represents_def by (auto simp: distinct_map_filter)
    show ?thesis
    proof (cases "ty = t0")
      case True
      from remove_registered_map [OF d old, of n] u True show ?thesis
        by (simp add: bus_unsubscribe_def case_prod_unfold conj_commute)
    next
      case False
      have "\<forall>x\<in>set ?old. fst x \<noteq> n"
        using assms False u unfolding bus_represents_def by force
      then have "filter (\<lambda>x. fst x \<noteq> n) ?old = ?old" by (intro filter_True)
      with old u False show ?thesis
        by (simp add: bus_unsubscribe_def case_prod_unfold conj_commute)
    qed
  qed
  have "distinct (map fst ?rs)"
    using assms unfolding bus_represents_def by (auto simp: distinct_map_filter)
  with assms True subs show ?thesis
    unfolding bus_represents_def by (auto simp: bus_unsubscribe_def u)
qed

lemma represents_call: "bus_represents s r \<Longrightarrow> bus_represents (bus_call c s) (reg_call c r)"
  by (cases s; cases r; cases c) (simp_all only: represents_subscribe represents_unsubscribe)

lemma represents_calls:
  "bus_represents s r \<Longrightarrow> bus_represents (fold bus_call cs s) (fold reg_call cs r)"
  by (induction cs arbitrary: s r) (simp_all add: represents_call)

lemma represents_new: "bus_represents (NewInMemoryBus, []) (0, [])"
  by (simp add: bus_represents_def NewInMemoryBus_def)

lemma bus_after_registered: "map rh_handler (bus_subs (bus_after cs) ty) = registered cs ty"
proof -
  have "map (\<lambda>rh. (rh_addr rh, rh_handler rh)) (bus_subs (bus_after cs) ty)
      = map (\<lambda>(m, t, h). (m, h)) (filter (\<lambda>(m, t, h). t = ty) (snd (fold reg_call cs (0, []))))"
    using represents_calls [OF represents_new, of cs] unfolding bus_represents_def bus_after_def by blast
  from arg_cong [OF this, of "map snd"] show ?thesis
    by (simp add: registered_def case_prod_unfold comp_def)
qed

section \<open>Publishing reaches every registered handler\<close>

text \<open>The effect of running handlers one after the other, whatever each of them returns.\<close>

definition run_all :: "event \<Rightarrow> 'w handler list \<Rightarrow> 'w \<Rightarrow> 'w" where
  "run_all e hs = fold (\<lambda>h w. snd (h e w)) hs"

text \<open>The results of that run that are not nil, in order.\<close>

primrec failures :: "event \<Rightarrow> 'w handler list \<Rightarrow> 'w \<Rightarrow> handler_result list" where
  "failures e [] w = []"
| "failures e (h # hs) w =
     (if fst (h e w) = HandlerOk then [] else [fst (h e w)]) @ failures e hs (snd (h e w))"

fun logged :: "string \<Rightarrow> handler_result \<Rightarrow> log_entry list" where
  "logged t HandlerOk = []"
| "logged t (HandlerError err) = [EventHandlerFailed t err]"
| "logged t (HandlerPanic r) = [EventHandlerPanicked t r]"

lemma bus_dispatch_logged: "bus_dispatch e h w = (logged (ev_Type e) (fst (h e w)), snd (h e w))"
  by (simp add: bus_dispatch_def split: prod.split handler_result.split)

lemma publish_loop_run_all:
  "publish_loop e rhs w =
     (concat (map (logged (ev_Type e)) (failures e (map rh_handler rhs) w)),
      run_all e (map rh_handler rhs) w)"
  by (induction rhs arbitrary: w)
    (auto simp: bus_dispatch_logged run_all_def split: prod.split)

text \<open>
  After any sequence of subscribe and unsubscribe calls, publishing an event runs
  exactly the handlers registered for its type and not since removed, in the order of
  registration; a handler that fails or panics keeps no other from running, and each such
  failure is logged once.
\<close>

theorem publish_reaches_registered:
  "bus_Publish (bus_after cs) e w =
     (concat (map (logged (ev_Type e)) (failures e (registered cs (ev_Type e)) w)),
      run_all e (registered cs (ev_Type e)) w)"
  by (simp add: bus_Publish_def publish_loop_run_all bus_after_registered)

end
