(* ===== verification/Relay.thy ===== *)
theory Relay
  imports Outbox Event_Bus
begin

text \<open>
  The outbox relay (\<open>internal/shared/outbox/relay.go\<close>): it polls the pending rows of
  \<open>outbox_events\<close>, hands each to the event bus, marks it published, and keeps retry
  counters for the rows that failed.
\<close>

section \<open>The relay\<close>

text \<open>The fields; \<open>NewRelay\<close> sets the interval to \<open>DefaultPollInterval\<close>.\<close>

record relay =
  rl_bus :: "world InMemoryBus option"
  rl_interval :: int
  rl_attempts :: "string \<rightharpoonup> int"
  rl_nextAttempt :: "string \<rightharpoonup> go_time"

definition DefaultPollInterval :: int where
  "DefaultPollInterval = 5 * 10 ^ 9"

definition maxAttempts :: int where
  "maxAttempts = 5"

definition NewRelay :: "world InMemoryBus option \<Rightarrow> relay" where
  "NewRelay bus = \<lparr>rl_bus = bus, rl_interval = DefaultPollInterval, rl_attempts = (\<lambda>_. None),
     rl_nextAttempt = (\<lambda>_. None)\<rparr>"

record pendingEvent =
  pe_id :: string
  pe_aggregateID :: string
  pe_aggregateType :: string
  pe_eventType :: string
  pe_payload :: json

definition selectPending :: "database \<Rightarrow> pendingEvent list" where
  "selectPending d =
     map (\<lambda>r. \<lparr>pe_id = ob_id r, pe_aggregateID = ob_aggregate_id r, pe_aggregateType = ob_aggregate_type r,
        pe_eventType = ob_event_type r, pe_payload = ob_payload r\<rparr>)
       (filter (\<lambda>r. ob_published_at r = None) (db_outbox_events d))"

definition setPublished :: "go_time \<Rightarrow> string \<Rightarrow> nat query" where
  "setPublished publishedAt i fk now d =
     (let sel = (\<lambda>r. ob_id r = i \<and> ob_published_at r = None) in
      Inr (length (filter sel (db_outbox_events d)),
        d\<lparr>db_outbox_events := update_where sel (\<lambda>r. r\<lparr>ob_published_at := Some publishedAt\<rparr>) (db_outbox_events d)\<rparr>))"

text \<open>Parsing a text that denotes a value gives the value; \<open>JTime\<close> stands for its rendered string.\<close>

definition json_Unmarshal :: "json \<Rightarrow> json result" where
  "json_Unmarshal payload =
     (case payload of JMalformed s \<Rightarrow> Inl (ErrorString ''invalid character'') | _ \<Rightarrow> Inr payload)"

text \<open>\<open>r.bus.Publish(ctx, ...)\<close> returns nothing: what the handlers did to the world is all.\<close>

definition publish_on :: "world InMemoryBus option \<Rightarrow> event \<Rightarrow> unit wact" where
  "publish_on bus ev =
     (case bus of Some b \<Rightarrow> (\<lambda>w. (Inr (), snd (bus_Publish b ev w))) | None \<Rightarrow> ret ())"

definition relay_publish :: "relay \<Rightarrow> pendingEvent \<Rightarrow> unit wact" where
  "relay_publish r e =
     bindE (lift_result (json_Unmarshal (pe_payload e))) (\<lambda>payload.
     seqE (publish_on (rl_bus r) \<lparr>ev_Type = pe_eventType e, ev_Payload = payload\<rparr>)
     (bindE Now (\<lambda>now.
     bindE (stmt (setPublished now (pe_id e))) (\<lambda>n. ret ()))))"

definition shouldSkip :: "relay \<Rightarrow> string \<Rightarrow> bool wact" where
  "shouldSkip r i =
     (case rl_nextAttempt r i of
        Some t \<Rightarrow> bindE Now (\<lambda>now. ret (now < t))
      | None \<Rightarrow> ret False)"

definition markFailed :: "relay \<Rightarrow> string \<Rightarrow> relay wact" where
  "markFailed r i =
     (let n = wrap64 ((case rl_attempts r i of Some k \<Rightarrow> k | None \<Rightarrow> 0) + 1);
          r1 = r\<lparr>rl_attempts := (rl_attempts r)(i \<mapsto> n)\<rparr> in
      if n \<ge> maxAttempts
      then ret (r1\<lparr>rl_attempts := (rl_attempts r1)(i := None), rl_nextAttempt := (rl_nextAttempt r1)(i := None)\<rparr>)
      else bindE Now (\<lambda>now.
        ret (r1\<lparr>rl_nextAttempt := (rl_nextAttempt r1)(i \<mapsto> now + wrap64 (rl_interval r1 * wrap64 (2 ^ nat n)))\<rparr>)))"

definition markPublished :: "relay \<Rightarrow> string \<Rightarrow> relay" where
  "markPublished r i =
     r\<lparr>rl_attempts := (rl_attempts r)(i := None), rl_nextAttempt := (rl_nextAttempt r)(i := None)\<rparr>"

text \<open>One round of the loop over the pending events.\<close>

definition relay_attempt :: "relay \<Rightarrow> pendingEvent \<Rightarrow> relay wact" where
  "relay_attempt r e =
     bindE (shouldSkip r (pe_id e)) (\<lambda>skip.
     if skip then ret r
     else bindE (tryE (relay_publish r e)) (\<lambda>res.
       case res of
         Inl err \<Rightarrow> markFailed r (pe_id e)
       | Inr u \<Rightarrow> ret (markPublished r (pe_id e))))"

primrec dispatch_loop :: "relay \<Rightarrow> pendingEvent list \<Rightarrow> relay wact" where
  "dispatch_loop r [] = ret r"
| "dispatch_loop r (e # es) = bindE (relay_attempt r e) (\<lambda>r'. dispatch_loop r' es)"

text \<open>Only the query can end \<open>dispatch\<close> early; its error is logged.\<close>

definition relay_dispatch :: "relay \<Rightarrow> relay wact" where
  "relay_dispatch r =
     bindE (tryE (query (\<lambda>now d. Inr (selectPending d)))) (\<lambda>res.
     case res of Inl err \<Rightarrow> ret r | Inr pending \<Rightarrow> dispatch_loop r pending)"

text \<open>
  \<open>Run\<close>: one round at once and one per tick until the context is cancelled.  Between two
  rounds the rest of the server has changed the world; each tick comes with that change.
\<close>

primrec relay_ticks :: "relay \<Rightarrow> (world \<Rightarrow> world) list \<Rightarrow> relay wact" where
  "relay_ticks r [] = ret r"
| "relay_ticks r (step # steps) =
     bindE (\<lambda>w. relay_dispatch r (step w)) (\<lambda>r'. relay_ticks r' steps)"

definition relay_Run :: "bool \<Rightarrow> relay \<Rightarrow> (world \<Rightarrow> world) list \<Rightarrow> relay wact" where
  "relay_Run db_nil r steps =
     (if db_nil then ret r else bindE (relay_dispatch r) (\<lambda>r'. relay_ticks r' steps))"

section \<open>Retry counters\<close>

text \<open>
  A counter exists exactly while an event is backing off; it never reaches the limit, so the
  shift and the product stay far from 64 bits.
\<close>

definition retry_ok :: "relay \<Rightarrow> bool" where
  "retry_ok r \<longleftrightarrow> rl_interval r = DefaultPollInterval \<and> dom (rl_attempts r) = dom (rl_nextAttempt r)
     \<and> (\<forall>i n. rl_attempts r i = Some n \<longrightarrow> 1 \<le> n \<and> n < maxAttempts)"

lemma NewRelay_retry_ok: "retry_ok (NewRelay bus)"
  by (simp add: retry_ok_def NewRelay_def)

text \<open>What a failure does to the counters of a well-formed relay.\<close>

lemma markFailed_spec:
  assumes "retry_ok r" and "markFailed r i w = (res, w')"
  shows "\<exists>n. n = (case rl_attempts r i of Some k \<Rightarrow> k | None \<Rightarrow> 0) + 1 \<and> 1 \<le> n \<and> n \<le> maxAttempts
    \<and> res = Inr (if n = maxAttempts then markPublished r i
        else r\<lparr>rl_attempts := (rl_attempts r)(i \<mapsto> n),
               rl_nextAttempt := (rl_nextAttempt r)(i \<mapsto>
                 env_clk (w_env w) (w_nclk w) + DefaultPollInterval * 2 ^ nat n)\<rparr>)
    \<and> w' = (if n = maxAttempts then w else w\<lparr>w_nclk := Suc (w_nclk w)\<rparr>)"
proof -
  define n where "n = (case rl_attempts r i of Some k \<Rightarrow> k | None \<Rightarrow> 0) + 1"
  have n: "1 \<le> n" "n \<le> 5"
    using assms(1) by (fastforce simp: retry_ok_def maxAttempts_def n_def split: option.splits)+
  have wn: "wrap64 n = n" using n by (intro wrap64_id) auto
  have iv: "rl_interval r = DefaultPollInterval" using assms(1) by (simp add: retry_ok_def)
  have "n = 1 \<or> n = 2 \<or> n = 3 \<or> n = 4 \<or> n = 5" using n by linarith
  then have "n < 5 \<Longrightarrow> wrap64 (DefaultPollInterval * wrap64 (2 ^ nat n)) = DefaultPollInterval * 2 ^ nat n"
    by (auto simp: wrap64_def DefaultPollInterval_def)
  then show ?thesis
    using assms(2) n iv
    unfolding markFailed_def n_def [symmetric] wn
    by (auto simp: Let_def maxAttempts_def markPublished_def act_simps Now_def split: if_splits)
qed

lemma markPublished_retry_ok: "retry_ok r \<Longrightarrow> retry_ok (markPublished r i)"
  by (auto simp: retry_ok_def markPublished_def)

lemma markFailed_retry_ok:
  assumes "retry_ok r" and "markFailed r i w = (res, w')"
  shows "\<exists>r'. res = Inr r' \<and> retry_ok r'"
  using markFailed_spec [OF assms] assms(1) markPublished_retry_ok [OF assms(1)]
  by (auto simp: retry_ok_def)

text \<open>Reading the clock: an event that backs off is skipped before its time.\<close>

lemma shouldSkip_spec:
  "shouldSkip r i w = (res, w') \<Longrightarrow>
     res = Inr (case rl_nextAttempt r i of Some t \<Rightarrow> env_clk (w_env w) (w_nclk w) < t | None \<Rightarrow> False)
     \<and> w' = (if rl_nextAttempt r i = None then w else w\<lparr>w_nclk := Suc (w_nclk w)\<rparr>)"
  by (auto simp: shouldSkip_def Now_def act_simps split: option.splits)

lemma relay_attempt_cases:
  assumes "relay_attempt r e w = (res, w')"
  obtains (skip) w1 where "shouldSkip r (pe_id e) w = (Inr True, w1)" "res = Inr r" "w' = w1"
  | (failed) w1 err w2 where "shouldSkip r (pe_id e) w = (Inr False, w1)"
      "relay_publish r e w1 = (Inl err, w2)" "markFailed r (pe_id e) w2 = (res, w')"
  | (published) w1 w2 where "shouldSkip r (pe_id e) w = (Inr False, w1)"
      "relay_publish r e w1 = (Inr (), w2)" "res = Inr (markPublished r (pe_id e))" "w' = w2"
proof -
  obtain s w1 where s: "shouldSkip r (pe_id e) w = (s, w1)" by fastforce
  then obtain b where b: "s = Inr b" using shouldSkip_spec by blast
  obtain p w2 where p: "relay_publish r e w1 = (p, w2)" by fastforce
  show thesis
  proof (cases b)
    case True
    with assms s b show thesis by (intro skip) (auto simp: relay_attempt_def act_simps)
  next
    case False
    show thesis
    proof (cases p)
      case (Inl err)
      with assms s b False p show thesis
        by (intro failed) (auto simp: relay_attempt_def act_simps)
    next
      case (Inr u)
      with assms s b False p show thesis
        by (intro published) (auto simp: relay_attempt_def act_simps)
    qed
  qed
qed

lemma relay_attempt_retry_ok:
  assumes "retry_ok r" and "relay_attempt r e w = (res, w')"
  shows "\<exists>r'. res = Inr r' \<and> retry_ok r'"
  using assms(2)
  by (cases rule: relay_attempt_cases)
    (auto simp: assms(1) markPublished_retry_ok dest: markFailed_retry_ok [OF assms(1)])

lemma dispatch_loop_retry_ok:
  "retry_ok r \<Longrightarrow> dispatch_loop r es w = (res, w') \<Longrightarrow> \<exists>r'. res = Inr r' \<and> retry_ok r'"
proof (induction es arbitrary: r w)
  case (Cons e es)
  obtain s w1 where s: "relay_attempt r e w = (s, w1)" by fastforce
  with relay_attempt_retry_ok [OF Cons.prems(1)] obtain r1 where "s = Inr r1" "retry_ok r1" by blast
  with Cons.IH [of r1 w1] Cons.prems(2) s show ?case by (simp add: act_simps)
qed (auto simp: act_simps)

lemma relay_dispatch_retry_ok:
  assumes "retry_ok r" and "relay_dispatch r w = (res, w')"
  shows "\<exists>r'. res = Inr r' \<and> retry_ok r'"
proof -
  obtain q w1 where "query (\<lambda>now d. Inr (selectPending d)) w = (q, w1)" by fastforce
  with assms show ?thesis
    by (cases q) (auto simp: relay_dispatch_def act_simps dest: dispatch_loop_retry_ok)
qed

lemma relay_ticks_retry_ok:
  "retry_ok r \<Longrightarrow> relay_ticks r steps w = (res, w') \<Longrightarrow> \<exists>r'. res = Inr r' \<and> retry_ok r'"
proof (induction steps arbitrary: r w)
  case (Cons step steps)
  obtain s w1 where s: "relay_dispatch r (step w) = (s, w1)" by fastforce
  with relay_dispatch_retry_ok [OF Cons.prems(1)] obtain r1 where "s = Inr r1" "retry_ok r1" by blast
  with Cons.IH [of r1 w1] Cons.prems(2) s show ?case by (simp add: act_simps)
qed (auto simp: act_simps)

section \<open>The world between two moments of the relay\<close>

text \<open>Rows of the outbox are only appended, or stamped once; counters only advance.\<close>

definition outbox_le :: "database \<Rightarrow> database \<Rightarrow> bool" where
  "outbox_le d d' \<longleftrightarrow> (\<exists>g new. db_outbox_events d' = map g (db_outbox_events d) @ new
     \<and> (\<forall>r. g r = r \<or> (ob_published_at r = None \<and> (\<exists>t. g r = r\<lparr>ob_published_at := Some t\<rparr>))))"

definition relay_le :: "world \<Rightarrow> world \<Rightarrow> bool" where
  "relay_le w w' \<longleftrightarrow> w_env w' = w_env w \<and> w_nclk w \<le> w_nclk w' \<and> w_nop w \<le> w_nop w'
     \<and> outbox_le (w_db w) (w_db w')"

text \<open>Handlers write to the outbox only through \<open>SaveEvents\<close>: they append pending rows.\<close>

definition appends :: "world \<Rightarrow> world \<Rightarrow> bool" where
  "appends w w' \<longleftrightarrow> w_env w' = w_env w \<and> w_nclk w \<le> w_nclk w' \<and> w_nop w \<le> w_nop w'
     \<and> (\<exists>new. db_outbox_events (w_db w') = db_outbox_events (w_db w) @ new
          \<and> (\<forall>r\<in>set new. ob_published_at r = None))"

definition bus_appends :: "world InMemoryBus option \<Rightarrow> bool" where
  "bus_appends bus \<longleftrightarrow> (\<forall>b ty rh. bus = Some b \<longrightarrow> rh \<in> set (bus_subs b ty) \<longrightarrow>
     (\<forall>e w. appends w (snd (rh_handler rh e w))))"

lemma outbox_le_refl: "outbox_le d d"
  unfolding outbox_le_def by (rule exI [of _ id], rule exI [of _ "[]"]) simp

lemma outbox_le_trans:
  assumes "outbox_le a b" and "outbox_le b c"
  shows "outbox_le a c"
proof -
  from assms(1) obtain g new where 1: "db_outbox_events b = map g (db_outbox_events a) @ new"
    "\<forall>r. g r = r \<or> (ob_published_at r = None \<and> (\<exists>t. g r = r\<lparr>ob_published_at := Some t\<rparr>))"
    unfolding outbox_le_def by blast
  from assms(2) obtain h new' where 2: "db_outbox_events c = map h (db_outbox_events b) @ new'"
    "\<forall>r. h r = r \<or> (ob_published_at r = None \<and> (\<exists>t. h r = r\<lparr>ob_published_at := Some t\<rparr>))"
    unfolding outbox_le_def by blast
  have "db_outbox_events c = map (h \<circ> g) (db_outbox_events a) @ (map h new @ new')"
    using 1(1) 2(1) by simp
  moreover have "(h \<circ> g) r = r \<or> (ob_published_at r = None \<and> (\<exists>t. (h \<circ> g) r = r\<lparr>ob_published_at := Some t\<rparr>))" for r
    using 1(2)[rule_format, of r] 2(2)[rule_format, of "g r"] by fastforce
  ultimately show ?thesis unfolding outbox_le_def by blast
qed

lemma relay_le_refl: "relay_le w w"
  by (simp add: relay_le_def outbox_le_refl)

lemma relay_le_trans: "relay_le a b \<Longrightarrow> relay_le b c \<Longrightarrow> relay_le a c"
  unfolding relay_le_def using outbox_le_trans by fastforce

interpretation rle: kept_relation relay_le
  by unfold_locales (rule relay_le_refl, rule relay_le_trans)

lemma appends_relay_le: "appends w w' \<Longrightarrow> relay_le w w'"
  unfolding appends_def relay_le_def outbox_le_def by (metis list.map_ident)

lemma appends_refl: "appends w w"
  by (simp add: appends_def)

lemma appends_trans: "appends a b \<Longrightarrow> appends b c \<Longrightarrow> appends a c"
  by (auto simp: appends_def)

lemma outbox_le_row:
  "outbox_le d d' \<Longrightarrow> r \<in> set (db_outbox_events d) \<Longrightarrow>
     r \<in> set (db_outbox_events d') \<or>
     (ob_published_at r = None \<and> (\<exists>t. r\<lparr>ob_published_at := Some t\<rparr> \<in> set (db_outbox_events d')))"
  unfolding outbox_le_def by (metis Un_iff image_eqI set_append set_map)

section \<open>What one attempt does\<close>

lemma run_all_keeps:
  assumes "\<And>a. R a a" and "\<And>a b c. R a b \<Longrightarrow> R b c \<Longrightarrow> R a c"
    and "\<And>h w. h \<in> set hs \<Longrightarrow> R w (snd (h e w))"
  shows "R w (run_all e hs w)"
  using assms(3)
proof (induction hs arbitrary: w)
  case (Cons h hs)
  have "R w (snd (h e w))" by (rule Cons.prems) simp
  moreover have "R (snd (h e w)) (run_all e hs (snd (h e w)))"
    using Cons.prems by (intro Cons.IH) simp
  ultimately have "R w (run_all e hs (snd (h e w)))" by (rule assms(2))
  then show ?case by (simp add: run_all_def)
qed (simp add: run_all_def assms(1))

lemma publish_on_run_all:
  "publish_on bus ev w =
     (Inr (), case bus of Some b \<Rightarrow> run_all ev (map rh_handler (bus_subs b (ev_Type ev))) w | None \<Rightarrow> w)"
  by (simp add: publish_on_def bus_Publish_def publish_loop_run_all ret_def split: option.split)

lemma publish_on_appends: "bus_appends bus \<Longrightarrow> appends w (snd (publish_on bus ev w))"
proof (cases bus)
  case (Some b)
  assume "bus_appends bus"
  with Some have "h \<in> set (map rh_handler (bus_subs b (ev_Type ev))) \<Longrightarrow> appends a (snd (h ev a))" for h a
    by (auto simp: bus_appends_def)
  then have "appends w (run_all ev (map rh_handler (bus_subs b (ev_Type ev))) w)"
    using run_all_keeps [of appends "map rh_handler (bus_subs b (ev_Type ev))" ev w] appends_refl appends_trans
    by blast
  with Some show ?thesis by (simp add: publish_on_run_all)
qed (simp add: publish_on_run_all appends_refl)

definition malformed :: "json \<Rightarrow> bool" where
  "malformed j \<longleftrightarrow> (case j of JMalformed s \<Rightarrow> True | _ \<Rightarrow> False)"

lemma json_Unmarshal_wf: "\<not> malformed j \<Longrightarrow> json_Unmarshal j = Inr j"
  by (simp add: malformed_def json_Unmarshal_def split: json.splits)

lemma json_Unmarshal_malformed: "malformed j \<Longrightarrow> \<exists>err. json_Unmarshal j = Inl err"
  by (simp add: malformed_def json_Unmarshal_def split: json.splits)

text \<open>The event a row becomes on the bus.\<close>

abbreviation bus_event :: "pendingEvent \<Rightarrow> event" where
  "bus_event e \<equiv> \<lparr>ev_Type = pe_eventType e, ev_Payload = pe_payload e\<rparr>"

lemma relay_publish_cases:
  assumes "relay_publish r e w = (res, w')"
  obtains (malformed) err where "malformed (pe_payload e)" "res = Inl err" "w' = w"
  | (unmarked) w1 err where "\<not> malformed (pe_payload e)" "publish_on (rl_bus r) (bus_event e) w = (Inr (), w1)"
      "env_fault (w_env w1) (w_nop w1) = Some err" "res = Inl err"
      "w' = w1\<lparr>w_nop := Suc (w_nop w1), w_nclk := Suc (Suc (w_nclk w1))\<rparr>"
  | (marked) w1 where "\<not> malformed (pe_payload e)" "publish_on (rl_bus r) (bus_event e) w = (Inr (), w1)"
      "env_fault (w_env w1) (w_nop w1) = None" "res = Inr ()"
      "w' = w1\<lparr>w_nop := Suc (w_nop w1), w_nclk := Suc (Suc (w_nclk w1)),
         w_db := (w_db w1)\<lparr>db_outbox_events := update_where (\<lambda>r. ob_id r = pe_id e \<and> ob_published_at r = None)
           (\<lambda>r. r\<lparr>ob_published_at := Some (env_clk (w_env w1) (w_nclk w1))\<rparr>) (db_outbox_events (w_db w1))\<rparr>\<rparr>"
proof (cases "malformed (pe_payload e)")
  case True
  then obtain err where "json_Unmarshal (pe_payload e) = Inl err" using json_Unmarshal_malformed by blast
  with assms True show thesis by (intro malformed [of err]) (auto simp: relay_publish_def act_simps)
next
  case False
  obtain w1 where p: "publish_on (rl_bus r) (bus_event e) w = (Inr (), w1)"
    by (simp add: publish_on_run_all)
  show thesis
  proof (cases "env_fault (w_env w1) (w_nop w1)")
    case None
    with assms False p show thesis
      by (intro marked)
        (auto simp: relay_publish_def act_simps json_Unmarshal_wf Now_def stmt_def setPublished_def Let_def)
  next
    case (Some err)
    with assms False p show thesis
      by (intro unmarked)
        (auto simp: relay_publish_def act_simps json_Unmarshal_wf Now_def stmt_def setPublished_def Let_def)
  qed
qed

lemma update_published_outbox_le:
  "outbox_le d (d\<lparr>db_outbox_events := update_where (\<lambda>r. ob_id r = i \<and> ob_published_at r = None)
     (\<lambda>r. r\<lparr>ob_published_at := Some t\<rparr>) (db_outbox_events d)\<rparr>)"
  unfolding outbox_le_def update_where_def
  by (rule exI [of _ "\<lambda>r. if ob_id r = i \<and> ob_published_at r = None then r\<lparr>ob_published_at := Some t\<rparr> else r"])
    auto

lemma relay_publish_le:
  assumes "bus_appends (rl_bus r)" and "relay_publish r e w = (res, w')"
  shows "relay_le w w'"
  using assms(2)
proof (cases rule: relay_publish_cases)
  case malformed
  then show ?thesis by (simp add: relay_le_refl)
next
  case (unmarked w1 err)
  with publish_on_appends [OF assms(1), of w "bus_event e"] have "relay_le w w1" by (simp add: appends_relay_le)
  with unmarked show ?thesis by (simp add: relay_le_def)
next
  case (marked w1)
  with publish_on_appends [OF assms(1), of w "bus_event e"] have "relay_le w w1" by (simp add: appends_relay_le)
  moreover have "relay_le w1 w'"
    using marked by (simp add: relay_le_def update_published_outbox_le)
  ultimately show ?thesis by (rule relay_le_trans)
qed

lemma clock_relay_le: "relay_le w (w\<lparr>w_nclk := Suc (w_nclk w)\<rparr>)"
  by (simp add: relay_le_def outbox_le_refl)

lemma shouldSkip_le: "shouldSkip r i w = (res, w') \<Longrightarrow> relay_le w w'"
  using shouldSkip_spec clock_relay_le relay_le_refl by metis

lemma markFailed_le: "retry_ok r \<Longrightarrow> markFailed r i w = (res, w') \<Longrightarrow> relay_le w w'"
  using markFailed_spec clock_relay_le relay_le_refl by metis

lemma relay_attempt_le:
  assumes "retry_ok r" and "bus_appends (rl_bus r)" and "relay_attempt r e w = (res, w')"
  shows "relay_le w w'"
  using assms(3)
proof (cases rule: relay_attempt_cases)
  case skip
  then show ?thesis using shouldSkip_le by blast
next
  case failed
  then show ?thesis
    using shouldSkip_le relay_publish_le [OF assms(2)] markFailed_le [OF assms(1)] relay_le_trans by meson
next
  case published
  then show ?thesis using shouldSkip_le relay_publish_le [OF assms(2)] relay_le_trans by meson
qed

text \<open>An attempt touches the counters of its own event only, and never the bus.\<close>

lemma relay_attempt_counters:
  assumes "retry_ok r" and "relay_attempt r e w = (Inr r', w')"
  shows "rl_bus r' = rl_bus r \<and> (i \<noteq> pe_id e \<longrightarrow>
    rl_attempts r' i = rl_attempts r i \<and> rl_nextAttempt r' i = rl_nextAttempt r i)"
  using assms(2)
proof (cases rule: relay_attempt_cases)
  case (failed w1 err w2)
  from markFailed_spec [OF assms(1) failed(3)] show ?thesis by (auto simp: markPublished_def)
qed (auto simp: markPublished_def)

text \<open>
  The loop, for a relation between worlds that every attempt of the loop respects: it holds
  across the loop, and the counters of an event that is not in the list stay.
\<close>

lemma dispatch_loop_frame:
  assumes "retry_ok r" and "dispatch_loop r es w = (Inr r', w')"
    and "\<And>a. R a a" and "\<And>a b c. R a b \<Longrightarrow> R b c \<Longrightarrow> R a c"
    and "\<And>s e w s' w'. e \<in> set es \<Longrightarrow> retry_ok s \<Longrightarrow> rl_bus s = rl_bus r \<Longrightarrow>
      relay_attempt s e w = (Inr s', w') \<Longrightarrow> R w w'"
  shows "R w w' \<and> rl_bus r' = rl_bus r \<and> retry_ok r' \<and> (i \<notin> pe_id ` set es \<longrightarrow>
    rl_attempts r' i = rl_attempts r i \<and> rl_nextAttempt r' i = rl_nextAttempt r i)"
  using assms(1,2,5)
proof (induction es arbitrary: r w)
  case (Cons e es)
  from Cons.prems(2) obtain r1 w1 where 1: "relay_attempt r e w = (Inr r1, w1)"
    and 2: "dispatch_loop r1 es w1 = (Inr r', w')" by (auto simp: bindE_Inr)
  have ok: "retry_ok r1" using relay_attempt_retry_ok [OF Cons.prems(1) 1] by simp
  have c: "rl_bus r1 = rl_bus r" "i \<noteq> pe_id e \<Longrightarrow>
      rl_attempts r1 i = rl_attempts r i \<and> rl_nextAttempt r1 i = rl_nextAttempt r i"
    using relay_attempt_counters [OF Cons.prems(1) 1] by auto
  have "R w w1" using Cons.prems(3) [OF _ Cons.prems(1) _ 1] by simp
  moreover have "R w1 w' \<and> rl_bus r' = rl_bus r1 \<and> retry_ok r' \<and> (i \<notin> pe_id ` set es \<longrightarrow>
      rl_attempts r' i = rl_attempts r1 i \<and> rl_nextAttempt r' i = rl_nextAttempt r1 i)"
    by (rule Cons.IH [OF ok 2]) (metis Cons.prems(3) c(1) list.set_intros(2))
  ultimately show ?case using c assms(4) by auto
qed (use assms(3) in \<open>auto simp: act_simps\<close>)

lemma dispatch_loop_append:
  "dispatch_loop r (xs @ ys) w = bindE (dispatch_loop r xs) (\<lambda>r'. dispatch_loop r' ys) w"
proof (induction xs arbitrary: r w)
  case (Cons x xs)
  obtain s w1 where "relay_attempt r x w = (s, w1)" by fastforce
  with Cons.IH show ?case by (cases s) (simp_all add: bindE_def)
qed (simp add: act_simps)

text \<open>
  A round visits every pending event once: what happened before and after its turn left its
  counters alone and moved the world forward.
\<close>

lemma relay_dispatch_visits:
  assumes "retry_ok r" and "bus_appends (rl_bus r)" and "relay_dispatch r w = (res, w')"
    and "env_fault (w_env w) (w_nop w) = None"
    and "distinct (map ob_id (db_outbox_events (w_db w)))"
    and "e \<in> set (selectPending (w_db w))"
  shows "\<exists>xs ys r1 w1 r2 w2 r'. selectPending (w_db w) = xs @ e # ys
    \<and> pe_id e \<notin> pe_id ` set xs \<and> pe_id e \<notin> pe_id ` set ys
    \<and> dispatch_loop r xs (w\<lparr>w_nop := Suc (w_nop w), w_nclk := Suc (w_nclk w)\<rparr>) = (Inr r1, w1)
    \<and> relay_attempt r1 e w1 = (Inr r2, w2) \<and> dispatch_loop r2 ys w2 = (Inr r', w')
    \<and> res = Inr r' \<and> retry_ok r1 \<and> retry_ok r2 \<and> rl_bus r1 = rl_bus r \<and> rl_bus r2 = rl_bus r
    \<and> rl_attempts r1 (pe_id e) = rl_attempts r (pe_id e) \<and> rl_nextAttempt r1 (pe_id e) = rl_nextAttempt r (pe_id e)
    \<and> rl_attempts r' (pe_id e) = rl_attempts r2 (pe_id e) \<and> rl_nextAttempt r' (pe_id e) = rl_nextAttempt r2 (pe_id e)
    \<and> relay_le w w1 \<and> relay_le w2 w'"
proof -
  let ?w = "w\<lparr>w_nop := Suc (w_nop w), w_nclk := Suc (w_nclk w)\<rparr>"
  obtain xs ys where sp: "selectPending (w_db w) = xs @ e # ys"
    using assms(6) by (meson split_list)
  have "distinct (map pe_id (selectPending (w_db w)))"
    using distinct_map_filter [OF assms(5), of "\<lambda>r. ob_published_at r = None"]
    by (simp add: selectPending_def comp_def)
  then have d: "pe_id e \<notin> pe_id ` set xs" "pe_id e \<notin> pe_id ` set ys" by (auto simp: sp)
  have q: "query (\<lambda>now d. Inr (selectPending d)) w = (Inr (selectPending (w_db w)), ?w)"
    using assms(4) by (simp add: query_Inr)
  then have run: "dispatch_loop r (xs @ e # ys) ?w = (res, w')"
    using assms(3) by (simp add: relay_dispatch_def act_simps sp del: dispatch_loop.simps)
  then obtain r' where r': "res = Inr r'" using dispatch_loop_retry_ok [OF assms(1)] by blast
  with run obtain r1 w1 r2 w2 where l: "dispatch_loop r xs ?w = (Inr r1, w1)"
    "relay_attempt r1 e w1 = (Inr r2, w2)" "dispatch_loop r2 ys w2 = (Inr r', w')"
    by (auto simp: dispatch_loop_append bindE_Inr)
  have 1: "relay_le ?w w1 \<and> rl_bus r1 = rl_bus r \<and> retry_ok r1 \<and> (pe_id e \<notin> pe_id ` set xs \<longrightarrow>
      rl_attempts r1 (pe_id e) = rl_attempts r (pe_id e) \<and> rl_nextAttempt r1 (pe_id e) = rl_nextAttempt r (pe_id e))"
    by (rule dispatch_loop_frame [OF assms(1) l(1) relay_le_refl relay_le_trans])
      (use relay_attempt_le assms(2) in auto)
  then have ok2: "retry_ok r2" "rl_bus r2 = rl_bus r"
    using relay_attempt_retry_ok [OF _ l(2)] relay_attempt_counters [OF _ l(2)] by auto
  have 2: "relay_le w2 w' \<and> rl_bus r' = rl_bus r2 \<and> retry_ok r' \<and> (pe_id e \<notin> pe_id ` set ys \<longrightarrow>
      rl_attempts r' (pe_id e) = rl_attempts r2 (pe_id e) \<and> rl_nextAttempt r' (pe_id e) = rl_nextAttempt r2 (pe_id e))"
    by (rule dispatch_loop_frame [OF ok2(1) l(3) relay_le_refl relay_le_trans])
      (use relay_attempt_le assms(2) ok2 in auto)
  have "relay_le w ?w" by (simp add: relay_le_def outbox_le_refl)
  with 1 have "relay_le w w1" using relay_le_trans by blast
  with sp d l r' 1 2 ok2 show ?thesis by blast
qed

section \<open>Backing off\<close>

text \<open>Every time at which an event is due again lies at most 80 seconds after a moment of the past.\<close>

definition backoff_limit :: int where
  "backoff_limit = 80 * 10 ^ 9"

definition backing_off :: "relay \<Rightarrow> world \<Rightarrow> bool" where
  "backing_off r w \<longleftrightarrow> (\<forall>i t. rl_nextAttempt r i = Some t \<longrightarrow>
     (\<exists>m < w_nclk w. t \<le> env_clk (w_env w) m + backoff_limit))"

lemma backing_off_le: "backing_off r w \<Longrightarrow> relay_le w w' \<Longrightarrow> backing_off r w'"
  by (force simp: backing_off_def relay_le_def)

lemma backing_off_markPublished: "backing_off r w \<Longrightarrow> backing_off (markPublished r i) w"
  by (auto simp: backing_off_def markPublished_def)

lemma backing_off_markFailed:
  assumes "retry_ok r" and "backing_off r w" and "markFailed r i w = (Inr r', w')"
  shows "backing_off r' w'"
proof -
  obtain n where n: "1 \<le> n" "n \<le> maxAttempts"
    and r: "r' = (if n = maxAttempts then markPublished r i
        else r\<lparr>rl_attempts := (rl_attempts r)(i \<mapsto> n),
               rl_nextAttempt := (rl_nextAttempt r)(i \<mapsto>
                 env_clk (w_env w) (w_nclk w) + DefaultPollInterval * 2 ^ nat n)\<rparr>)"
    and w: "w' = (if n = maxAttempts then w else w\<lparr>w_nclk := Suc (w_nclk w)\<rparr>)"
    using markFailed_spec [OF assms(1,3)] unfolding sum.inject by blast
  show ?thesis
  proof (cases "n = maxAttempts")
    case True
    with r w assms(2) show ?thesis by (simp add: backing_off_markPublished)
  next
    case False
    have "n = 1 \<or> n = 2 \<or> n = 3 \<or> n = 4" using n False by (simp add: maxAttempts_def) linarith
    then have "DefaultPollInterval * 2 ^ nat n \<le> backoff_limit"
      by (auto simp: DefaultPollInterval_def backoff_limit_def)
    with assms(2) r w False show ?thesis by (auto simp: backing_off_def less_Suc_eq)
  qed
qed

text \<open>The invariant of the relay against the world it runs in.\<close>

definition relay_inv :: "relay \<Rightarrow> world \<Rightarrow> bool" where
  "relay_inv r w \<longleftrightarrow> retry_ok r \<and> bus_appends (rl_bus r) \<and> backing_off r w"

lemma relay_inv_attempt:
  assumes "relay_inv r w" and "relay_attempt r e w = (Inr r', w')"
  shows "relay_inv r' w'"
proof -
  have ok: "retry_ok r" "bus_appends (rl_bus r)" "backing_off r w" using assms(1) by (auto simp: relay_inv_def)
  have "backing_off r' w'"
    using assms(2)
  proof (cases rule: relay_attempt_cases)
    case skip
    then show ?thesis using backing_off_le [OF ok(3) shouldSkip_le] by simp
  next
    case (failed w1 err w2)
    have "relay_le w w2"
      using relay_le_trans [OF shouldSkip_le [OF failed(1)] relay_publish_le [OF ok(2) failed(2)]] .
    from backing_off_markFailed [OF ok(1) backing_off_le [OF ok(3) this] failed(3)] show ?thesis .
  next
    case (published w1 w2)
    have "relay_le w w2"
      using relay_le_trans [OF shouldSkip_le [OF published(1)] relay_publish_le [OF ok(2) published(2)]] .
    with published backing_off_markPublished [OF backing_off_le [OF ok(3)]] show ?thesis by simp
  qed
  with ok relay_attempt_retry_ok [OF ok(1) assms(2)] relay_attempt_counters [OF ok(1) assms(2)]
  show ?thesis by (simp add: relay_inv_def)
qed

lemma relay_inv_loop: "relay_inv r w \<Longrightarrow> dispatch_loop r es w = (Inr r', w') \<Longrightarrow> relay_inv r' w'"
proof (induction es arbitrary: r w)
  case (Cons e es)
  then show ?case using relay_inv_attempt by (simp add: bindE_Inr) blast
qed (simp add: act_simps)

lemma relay_inv_le: "relay_inv r w \<Longrightarrow> relay_le w w' \<Longrightarrow> relay_inv r w'"
  by (auto simp: relay_inv_def intro: backing_off_le)

lemma query_relay_le: "query q w = (res, w') \<Longrightarrow> relay_le w w'"
  by (auto simp: query_def stmt_def Let_def relay_le_def outbox_le_refl split: option.splits sum.splits prod.splits)

lemma relay_inv_dispatch:
  assumes "relay_inv r w" and "relay_dispatch r w = (res, w')"
  shows "\<exists>r'. res = Inr r' \<and> relay_inv r' w'"
proof -
  obtain q w1 where q: "query (\<lambda>now d. Inr (selectPending d)) w = (q, w1)" by fastforce
  have i: "relay_inv r w1" using relay_inv_le [OF assms(1) query_relay_le [OF q]] .
  obtain r' where r': "res = Inr r'"
    using relay_dispatch_retry_ok [OF _ assms(2)] assms(1) by (auto simp: relay_inv_def)
  show ?thesis
  proof (cases q)
    case (Inl err)
    with assms(2) q i show ?thesis by (auto simp: relay_dispatch_def act_simps)
  next
    case (Inr es)
    with assms(2) q r' have "dispatch_loop r es w1 = (Inr r', w')" by (simp add: relay_dispatch_def act_simps)
    with relay_inv_loop [OF i] r' show ?thesis by blast
  qed
qed

text \<open>What the rest of the server does between two rounds.\<close>

definition steps_ok :: "(world \<Rightarrow> world) list \<Rightarrow> bool" where
  "steps_ok steps \<longleftrightarrow> (\<forall>step\<in>set steps. \<forall>w. relay_le w (step w))"

lemma relay_inv_ticks:
  "relay_inv r w \<Longrightarrow> relay_ticks r steps w = (res, w') \<Longrightarrow> steps_ok steps \<Longrightarrow>
     \<exists>r'. res = Inr r' \<and> relay_inv r' w'"
proof (induction steps arbitrary: r w)
  case (Cons step steps)
  obtain s w1 where s: "relay_dispatch r (step w) = (s, w1)" by fastforce
  have "relay_inv r (step w)" using relay_inv_le [OF Cons.prems(1)] Cons.prems(3) by (simp add: steps_ok_def)
  with relay_inv_dispatch [OF _ s] obtain r1 where "s = Inr r1" "relay_inv r1 w1" by blast
  with Cons.IH [of r1 w1] Cons.prems(2,3) s show ?case by (simp add: act_simps steps_ok_def)
qed (auto simp: act_simps)

lemma relay_inv_Run:
  assumes "bus_appends bus" and "steps_ok steps"
    and "relay_Run False (NewRelay bus) steps w = (res, w')"
  shows "\<exists>r'. res = Inr r' \<and> relay_inv r' w'"
proof -
  have "relay_inv (NewRelay bus) w"
    using assms(1) NewRelay_retry_ok by (simp add: relay_inv_def backing_off_def NewRelay_def)
  moreover obtain s w1 where s: "relay_dispatch (NewRelay bus) w = (s, w1)" by fastforce
  ultimately obtain r1 where "s = Inr r1" "relay_inv r1 w1" using relay_inv_dispatch by blast
  with relay_inv_ticks [OF _ _ assms(2)] assms(3) s show ?thesis by (simp add: relay_Run_def act_simps)
qed

lemma dispatch_loop_le:
  assumes "retry_ok r" and "bus_appends (rl_bus r)" and "dispatch_loop r es w = (Inr r', w')"
  shows "relay_le w w'"
proof -
  have "relay_le w w' \<and> rl_bus r' = rl_bus r \<and> retry_ok r' \<and> ([] \<notin> pe_id ` set es \<longrightarrow>
      rl_attempts r' [] = rl_attempts r [] \<and> rl_nextAttempt r' [] = rl_nextAttempt r [])"
    by (rule dispatch_loop_frame [OF assms(1,3) relay_le_refl relay_le_trans])
      (use relay_attempt_le assms(2) in auto)
  then show ?thesis ..
qed

lemma relay_dispatch_le:
  assumes "relay_inv r w" and "relay_dispatch r w = (res, w')"
  shows "relay_le w w'"
proof -
  obtain q w1 where q: "query (\<lambda>now d. Inr (selectPending d)) w = (q, w1)" by fastforce
  have ok: "retry_ok r" "bus_appends (rl_bus r)" using assms(1) by (auto simp: relay_inv_def)
  obtain r' where r': "res = Inr r'" using relay_inv_dispatch [OF assms] by blast
  have "relay_le w1 w'"
    using assms(2) q r' dispatch_loop_le [OF ok]
    by (cases q) (auto simp: relay_dispatch_def act_simps relay_le_refl)
  then show ?thesis using query_relay_le [OF q] relay_le_trans by blast
qed

end
