(* ===== verification/Relay_Delivery.thy ===== *)
theory Relay_Delivery
  imports Relay Repository_Contract
begin

text \<open>
  What the outbox relay guarantees: bounded back-off, delivery of every event that can be
  delivered, no row marked published before its handlers ran, and what becomes of the events
  that cannot be delivered.
\<close>

section \<open>A bus for concrete runs\<close>

text \<open>A handler of the trip topic that fails, after one that succeeds.\<close>

definition demo_bus :: "world InMemoryBus" where
  "demo_bus = bus_after
     [CallSubscribe ''TripStartedEvent'' (\<lambda>e w. (HandlerOk, w)),
      CallSubscribe ''TripStartedEvent'' (\<lambda>e w. (HandlerError (ErrorString ''down''), w))]"

definition demo_outbox :: "string \<Rightarrow> json \<Rightarrow> outbox_row" where
  "demo_outbox i j = \<lparr>ob_id = i, ob_aggregate_id = ''tr1'', ob_aggregate_type = ''trip'',
     ob_event_type = ''TripStartedEvent'', ob_payload = j, ob_created_at = 0, ob_published_at = None\<rparr>"

definition demo_relay_world :: world where
  "demo_relay_world = demo_world\<lparr>w_db := demo_db\<lparr>db_outbox_events :=
     [demo_outbox ''e1'' (JString ''x''), demo_outbox ''e2'' (JMalformed ''{'')]\<rparr>\<rparr>"

lemma demo_bus_appends: "bus_appends (Some demo_bus)"
proof -
  have s: "bus_subs demo_bus ty = (if ty = ''TripStartedEvent'' then
      [\<lparr>rh_addr = 0, rh_handler = \<lambda>e w. (HandlerOk, w)\<rparr>,
       \<lparr>rh_addr = 1, rh_handler = \<lambda>e w. (HandlerError (ErrorString ''down''), w)\<rparr>] else [])" for ty
    by (simp add: demo_bus_def bus_after_def NewInMemoryBus_def bus_Subscribe_def Let_def)
  show ?thesis by (auto simp: bus_appends_def s appends_refl split: if_splits)
qed

section \<open>Back-off\<close>

text \<open>
  Property C37.  However long the relay runs, with whatever failures: it never stops with an
  error, an event has a retry counter exactly while it is backing off, the counter stays between
  one and four, and the next attempt is due at most 80 seconds after a moment of the past.
\<close>

theorem relay_backoff_bounded:
  assumes "bus_appends bus" and "steps_ok steps"
    and "relay_Run False (NewRelay bus) steps w = (res, w')"
  shows "\<exists>r. res = Inr r
    \<and> (\<forall>i. rl_attempts r i = None \<longleftrightarrow> rl_nextAttempt r i = None)
    \<and> (\<forall>i n. rl_attempts r i = Some n \<longrightarrow> 1 \<le> n \<and> n \<le> 4)
    \<and> (\<forall>i t. rl_nextAttempt r i = Some t \<longrightarrow>
         (\<exists>m < w_nclk w'. t \<le> env_clk (w_env w') m + 80 * 10 ^ 9))"
proof -
  obtain r where r: "res = Inr r" "relay_inv r w'" using relay_inv_Run [OF assms] by blast
  then have "\<forall>i. rl_attempts r i = None \<longleftrightarrow> rl_nextAttempt r i = None"
    by (auto simp: relay_inv_def retry_ok_def dom_def set_eq_iff) (metis option.distinct(1) option.exhaust)+
  moreover have "\<forall>i n. rl_attempts r i = Some n \<longrightarrow> 1 \<le> n \<and> n \<le> 4"
    using r(2) by (force simp: relay_inv_def retry_ok_def maxAttempts_def)
  ultimately show ?thesis
    using r by (auto simp: relay_inv_def backing_off_def backoff_limit_def)
qed

lemma steps_ok_id: "steps_ok [id, id]"
  by (simp add: steps_ok_def relay_le_refl)

theorem relay_backoff_bounded_witness:
  "\<exists>r. fst (relay_Run False (NewRelay (Some demo_bus)) [id, id] demo_relay_world) = Inr r
    \<and> (\<forall>i n. rl_attempts r i = Some n \<longrightarrow> 1 \<le> n \<and> n \<le> 4)"
  using relay_backoff_bounded [OF demo_bus_appends steps_ok_id prod.collapse [symmetric], of demo_relay_world]
  by blast

section \<open>Delivery\<close>

lemma due_not_skipped:
  assumes "shouldSkip r i w = (Inr b, w1)"
    and "\<And>t. rl_nextAttempt r i = Some t \<Longrightarrow> t \<le> env_clk (w_env w) (w_nclk w)"
  shows "\<not> b"
  using shouldSkip_spec [OF assms(1)] assms(2) by (auto split: option.splits)

text \<open>A due event with a readable payload is published when its turn comes and the update succeeds.\<close>

lemma attempt_publishes:
  assumes "retry_ok r" and "bus_appends (rl_bus r)" and "\<not> malformed (pe_payload e)"
    and due: "\<And>t. rl_nextAttempt r (pe_id e) = Some t \<Longrightarrow> t \<le> env_clk (w_env w) (w_nclk w)"
    and nofault: "\<And>n. n \<ge> w_nop w \<Longrightarrow> env_fault (w_env w) n = None"
    and row: "row \<in> set (db_outbox_events (w_db w))" "ob_id row = pe_id e" "ob_published_at row = None"
    and run: "relay_attempt r e w = (res, w')"
  shows "\<exists>t. row\<lparr>ob_published_at := Some t\<rparr> \<in> set (db_outbox_events (w_db w'))"
proof -
  have pub: "\<exists>t. row\<lparr>ob_published_at := Some t\<rparr> \<in> set (db_outbox_events (w_db w2))"
    if s: "relay_le w w1" and p: "relay_publish r e w1 = (q, w2)" for w1 q w2
    using p
  proof (cases rule: relay_publish_cases)
    case malformed
    with assms(3) show ?thesis by simp
  next
    case (unmarked w3 err)
    have "relay_le w1 w3"
      using publish_on_appends [OF assms(2), of w1 "bus_event e"] unmarked(2) appends_relay_le by simp
    with s have "w_env w3 = w_env w" "w_nop w \<le> w_nop w3" by (auto simp: relay_le_def)
    with nofault unmarked(3) show ?thesis by simp
  next
    case (marked w3)
    have "relay_le w1 w3"
      using publish_on_appends [OF assms(2), of w1 "bus_event e"] marked(2) appends_relay_le by simp
    from relay_le_trans [OF s this] have "outbox_le (w_db w) (w_db w3)" by (simp add: relay_le_def)
    from outbox_le_row [OF this row(1)] marked(5) row(2,3) show ?thesis
      by (auto simp: set_update_where image_iff)
  qed
  from run show ?thesis
  proof (cases rule: relay_attempt_cases)
    case skip
    with due_not_skipped [OF skip(1) due] show ?thesis by simp
  next
    case (failed w1 err w2)
    from pub [OF shouldSkip_le [OF failed(1)] failed(2)] obtain t
      where t: "row\<lparr>ob_published_at := Some t\<rparr> \<in> set (db_outbox_events (w_db w2))" by blast
    have "outbox_le (w_db w2) (w_db w')"
      using markFailed_le [OF assms(1) failed(3)] by (simp add: relay_le_def)
    from outbox_le_row [OF this t] show ?thesis by auto
  next
    case (published w1 w2)
    with pub [OF shouldSkip_le [OF published(1)] published(2)] show ?thesis by simp
  qed
qed

lemma dispatch_publishes:
  assumes inv: "relay_inv r w" and run: "relay_dispatch r w = (res, w')"
    and nofault: "\<And>n. n \<ge> w_nop w \<Longrightarrow> env_fault (w_env w) n = None"
    and clock: "mono (env_clk (w_env w))"
    and due: "\<And>t. rl_nextAttempt r (ob_id row) = Some t \<Longrightarrow> t \<le> env_clk (w_env w) (w_nclk w)"
    and keys: "distinct (map ob_id (db_outbox_events (w_db w)))"
    and row: "row \<in> set (db_outbox_events (w_db w))" "ob_published_at row = None" "\<not> malformed (ob_payload row)"
  shows "\<exists>t. row\<lparr>ob_published_at := Some t\<rparr> \<in> set (db_outbox_events (w_db w'))"
proof -
  have ok: "retry_ok r" "bus_appends (rl_bus r)" using inv by (auto simp: relay_inv_def)
  define e where "e = \<lparr>pe_id = ob_id row, pe_aggregateID = ob_aggregate_id row,
    pe_aggregateType = ob_aggregate_type row, pe_eventType = ob_event_type row, pe_payload = ob_payload row\<rparr>"
  have e: "e \<in> set (selectPending (w_db w))" "pe_id e = ob_id row"
    using row by (auto simp: selectPending_def e_def)
  obtain r1 w1 r2 w2 where v: "relay_attempt r1 e w1 = (Inr r2, w2)" "retry_ok r1" "rl_bus r1 = rl_bus r"
    "rl_nextAttempt r1 (pe_id e) = rl_nextAttempt r (pe_id e)" "relay_le w w1" "relay_le w2 w'"
    using relay_dispatch_visits [OF ok run nofault [OF order_refl] keys e(1)] by blast
  have w1: "w_env w1 = w_env w" "w_nop w \<le> w_nop w1" "w_nclk w \<le> w_nclk w1" "outbox_le (w_db w) (w_db w1)"
    using v(5) by (auto simp: relay_le_def)
  have "\<exists>t. row\<lparr>ob_published_at := Some t\<rparr> \<in> set (db_outbox_events (w_db w2))"
    using outbox_le_row [OF w1(4) row(1)]
  proof
    assume r1: "row \<in> set (db_outbox_events (w_db w1))"
    show ?thesis
    proof (rule attempt_publishes [OF v(2) _ _ _ _ r1 _ row(2) v(1)])
      show "bus_appends (rl_bus r1)" using ok(2) v(3) by simp
      show "\<not> malformed (pe_payload e)" using row(3) by (simp add: e_def)
      show "t \<le> env_clk (w_env w1) (w_nclk w1)" if "rl_nextAttempt r1 (pe_id e) = Some t" for t
        using due [of t] that v(4) e(2) w1(1) monoD [OF clock w1(3)] by simp
      show "env_fault (w_env w1) n = None" if "n \<ge> w_nop w1" for n
        using nofault [of n] that w1(1,2) by simp
      show "ob_id row = pe_id e" using e(2) by simp
    qed
  next
    assume "ob_published_at row = None \<and>
      (\<exists>t. row\<lparr>ob_published_at := Some t\<rparr> \<in> set (db_outbox_events (w_db w1)))"
    then obtain t where "row\<lparr>ob_published_at := Some t\<rparr> \<in> set (db_outbox_events (w_db w1))" by blast
    from outbox_le_row [OF _ this] relay_attempt_le [OF v(2) _ v(1)] ok(2) v(3) show ?thesis
      by (auto simp: relay_le_def)
  qed
  then obtain t where t: "row\<lparr>ob_published_at := Some t\<rparr> \<in> set (db_outbox_events (w_db w2))" by blast
  have "outbox_le (w_db w2) (w_db w')" using v(6) by (simp add: relay_le_def)
  from outbox_le_row [OF this t] show ?thesis by auto
qed

text \<open>
  Property C36.  Whatever went wrong before: once the database works again and 80 seconds have
  passed, one round of the relay publishes every pending event with a readable payload.
\<close>

theorem relay_publishes_pending:
  assumes "bus_appends bus" and "steps_ok steps"
    and "relay_Run False (NewRelay bus) steps w0 = (Inr r, w1)"
    and "relay_le w1 w" and "mono (env_clk (w_env w))"
    and "\<And>m. m < w_nclk w1 \<Longrightarrow> env_clk (w_env w) m + 80 * 10 ^ 9 \<le> env_clk (w_env w) (w_nclk w)"
    and "\<And>n. n \<ge> w_nop w \<Longrightarrow> env_fault (w_env w) n = None"
    and "distinct (map ob_id (db_outbox_events (w_db w)))"
    and "relay_dispatch r w = (res, w')"
  shows "\<forall>row\<in>set (db_outbox_events (w_db w)). ob_published_at row = None \<and> \<not> malformed (ob_payload row) \<longrightarrow>
    (\<exists>t. row\<lparr>ob_published_at := Some t\<rparr> \<in> set (db_outbox_events (w_db w')))"
proof (intro ballI impI)
  fix row
  assume row: "row \<in> set (db_outbox_events (w_db w))"
    "ob_published_at row = None \<and> \<not> malformed (ob_payload row)"
  have inv1: "relay_inv r w1" using relay_inv_Run [OF assms(1-3)] by simp
  have inv: "relay_inv r w" using relay_inv_le [OF inv1 assms(4)] .
  have "t \<le> env_clk (w_env w) (w_nclk w)" if t: "rl_nextAttempt r (ob_id row) = Some t" for t
  proof -
    obtain m where m: "m < w_nclk w1" "t \<le> env_clk (w_env w1) m + 80 * 10 ^ 9"
      using inv1 t by (auto simp: relay_inv_def backing_off_def backoff_limit_def)
    with assms(4) assms(6) [OF m(1)] show ?thesis by (simp add: relay_le_def)
  qed
  from dispatch_publishes [OF inv assms(9,7,5) this assms(8)] row
  show "\<exists>t. row\<lparr>ob_published_at := Some t\<rparr> \<in> set (db_outbox_events (w_db w'))" by blast
qed

text \<open>The update of the first round fails, so that the event is backing off when the round starts.\<close>

definition demo_flaky_world :: world where
  "demo_flaky_world = demo_relay_world\<lparr>w_env := demo_env\<lparr>env_fault :=
     (\<lambda>n. if n = 1 then Some (ErrDriver ''database is locked'') else None)\<rparr>\<rparr>"

definition demo_flaky_run :: "relay result \<times> world" where
  "demo_flaky_run = relay_Run False (NewRelay (Some demo_bus)) [] demo_flaky_world"

definition demo_recovered_world :: world where
  "demo_recovered_world = (snd demo_flaky_run)\<lparr>w_nclk := Suc (w_nclk (snd demo_flaky_run))\<rparr>"

lemma demo_flaky_run_facts:
  "w_nop (snd demo_flaky_run) = 2" "w_env (snd demo_flaky_run) = w_env demo_flaky_world"
  "db_outbox_events (w_db (snd demo_flaky_run)) = db_outbox_events (w_db demo_relay_world)"
proof -
  show "w_nop (snd demo_flaky_run) = 2" by code_simp
  show "db_outbox_events (w_db (snd demo_flaky_run)) = db_outbox_events (w_db demo_relay_world)" by code_simp
  have "relay_inv (NewRelay (Some demo_bus)) demo_flaky_world"
    using demo_bus_appends NewRelay_retry_ok by (simp add: relay_inv_def backing_off_def NewRelay_def)
  from relay_dispatch_le [OF this prod.collapse [symmetric]]
  have "relay_le demo_flaky_world (snd demo_flaky_run)"
    by (auto simp: demo_flaky_run_def relay_Run_def bindE_def ret_def split: prod.split sum.split)
  then show "w_env (snd demo_flaky_run) = w_env demo_flaky_world" by (simp add: relay_le_def)
qed

theorem relay_publishes_pending_witness:
  "\<exists>t. (demo_outbox ''e1'' (JString ''x''))\<lparr>ob_published_at := Some t\<rparr>
     \<in> set (db_outbox_events (w_db (snd (relay_dispatch (projr (fst demo_flaky_run)) demo_recovered_world))))"
proof -
  have ok: "steps_ok []" by (simp add: steps_ok_def)
  obtain r where r: "fst demo_flaky_run = Inr r"
    using relay_inv_Run [OF demo_bus_appends ok prod.collapse [symmetric], of demo_flaky_world]
    by (auto simp: demo_flaky_run_def)
  have run: "relay_Run False (NewRelay (Some demo_bus)) [] demo_flaky_world = (Inr r, snd demo_flaky_run)"
    using r by (simp add: demo_flaky_run_def prod_eq_iff)
  have le: "relay_le (snd demo_flaky_run) demo_recovered_world"
    by (simp add: demo_recovered_world_def relay_le_def outbox_le_refl)
  have env: "w_env demo_recovered_world = w_env demo_flaky_world" "w_nop demo_recovered_world = 2"
    "db_outbox_events (w_db demo_recovered_world) = db_outbox_events (w_db demo_relay_world)"
    "w_nclk demo_recovered_world = Suc (w_nclk (snd demo_flaky_run))"
    by (simp_all add: demo_recovered_world_def demo_flaky_run_facts)
  have "\<forall>row\<in>set (db_outbox_events (w_db demo_recovered_world)).
      ob_published_at row = None \<and> \<not> malformed (ob_payload row) \<longrightarrow>
      (\<exists>t. row\<lparr>ob_published_at := Some t\<rparr>
         \<in> set (db_outbox_events (w_db (snd (relay_dispatch r demo_recovered_world)))))"
  proof (rule relay_publishes_pending [OF demo_bus_appends ok run le _ _ _ _ prod.collapse [symmetric]])
    show "mono (env_clk (w_env demo_recovered_world))"
      by (simp add: env demo_flaky_world_def demo_env_def mono_def)
    show "env_clk (w_env demo_recovered_world) m + 80 * 10 ^ 9
        \<le> env_clk (w_env demo_recovered_world) (w_nclk demo_recovered_world)"
      if "m < w_nclk (snd demo_flaky_run)" for m
      using that by (simp add: env demo_flaky_world_def demo_env_def)
    show "env_fault (w_env demo_recovered_world) n = None" if "n \<ge> w_nop demo_recovered_world" for n
      using that by (simp add: env demo_flaky_world_def demo_env_def)
    show "distinct (map ob_id (db_outbox_events (w_db demo_recovered_world)))"
      by (simp add: env demo_relay_world_def demo_outbox_def)
  qed
  then show ?thesis
    by (simp add: env demo_relay_world_def demo_outbox_def malformed_def r)
qed

section \<open>At least once\<close>

text \<open>Worlds that agree on everything but the outbox and the counters.\<close>

definition same_but_outbox :: "world \<Rightarrow> world \<Rightarrow> bool" where
  "same_but_outbox w w' \<longleftrightarrow> w_env w' = w_env w \<and> w_side w' = w_side w
     \<and> (w_db w')\<lparr>db_outbox_events := []\<rparr> = (w_db w)\<lparr>db_outbox_events := []\<rparr>"

text \<open>
  An effect that a handler leaves behind when it has run for an event, and that neither the relay
  nor any handler of the bus takes back.
\<close>

definition lasting_effect :: "world InMemoryBus \<Rightarrow> event \<Rightarrow> (world \<Rightarrow> bool) \<Rightarrow> bool" where
  "lasting_effect b ev P \<longleftrightarrow>
     (\<exists>rh\<in>set (bus_subs b (ev_Type ev)). \<forall>w. P (snd (rh_handler rh ev w)))
     \<and> (\<forall>ty. \<forall>rh\<in>set (bus_subs b ty). \<forall>e w. P w \<longrightarrow> P (snd (rh_handler rh e w)))
     \<and> (\<forall>w w'. P w \<longrightarrow> same_but_outbox w w' \<longrightarrow> P w')"

lemma lasting_stable:
  "lasting_effect b ev P \<Longrightarrow> h \<in> set (map rh_handler (bus_subs b ty)) \<Longrightarrow> P w \<Longrightarrow> P (snd (h e w))"
  by (auto simp: lasting_effect_def)

lemma lasting_quiet: "lasting_effect b ev P \<Longrightarrow> same_but_outbox w w' \<Longrightarrow> P w \<Longrightarrow> P w'"
  by (simp add: lasting_effect_def)

lemma run_all_stable:
  assumes "\<And>h w. h \<in> set hs \<Longrightarrow> P w \<Longrightarrow> P (snd (h e w))"
  shows "P w \<Longrightarrow> P (run_all e hs w)"
  using assms by (induction hs arbitrary: w) (simp_all add: run_all_def)

lemma publish_on_stable:
  assumes "lasting_effect b ev P" and "P w"
  shows "P (snd (publish_on (Some b) ev' w))"
  using run_all_stable [of "map rh_handler (bus_subs b (ev_Type ev'))" P ev'] lasting_stable [OF assms(1)] assms(2)
  by (simp add: publish_on_run_all)

lemma publish_on_established:
  assumes "lasting_effect b ev P"
  shows "P (snd (publish_on (Some b) ev w))"
proof -
  obtain rh where rh: "rh \<in> set (bus_subs b (ev_Type ev))" "\<And>w. P (snd (rh_handler rh ev w))"
    using assms by (auto simp: lasting_effect_def)
  from split_list [OF rh(1)] obtain xs ys where s: "bus_subs b (ev_Type ev) = xs @ rh # ys" by blast
  have "P (run_all ev (map rh_handler ys) v)" if "P v" for v
    using run_all_stable [of "map rh_handler ys" P ev v] lasting_stable [OF assms, of _ "ev_Type ev"] s that by simp
  then show ?thesis using rh(2) by (simp add: publish_on_run_all s run_all_def)
qed

text \<open>
  No row with the given id is marked published, unless the effect is there.
\<close>

definition handled_if_published :: "string \<Rightarrow> (world \<Rightarrow> bool) \<Rightarrow> world \<Rightarrow> bool" where
  "handled_if_published i P w \<longleftrightarrow>
     P w \<or> (\<forall>r\<in>set (db_outbox_events (w_db w)). ob_id r = i \<longrightarrow> ob_published_at r = None)"

lemma handled_appends:
  assumes "lasting_effect b ev P" and "bus_appends (Some b)" and "handled_if_published i P w"
  shows "handled_if_published i P (snd (publish_on (Some b) ev' w))"
  using publish_on_stable [OF assms(1)] publish_on_appends [OF assms(2), of w ev'] assms(3)
  by (auto simp: handled_if_published_def appends_def)

lemma same_but_outbox_counters: "same_but_outbox w (w\<lparr>w_nop := a, w_nclk := c\<rparr>)" "same_but_outbox w (w\<lparr>w_nclk := c\<rparr>)"
  by (simp_all add: same_but_outbox_def)

lemma handled_publish:
  assumes "lasting_effect b ev P" and "bus_appends (Some b)" and "handled_if_published i P w"
    and "rl_bus r = Some b" and "pe_id e = i \<Longrightarrow> bus_event e = ev"
    and "relay_publish r e w = (res, w')"
  shows "handled_if_published i P w'"
  using assms(6)
proof (cases rule: relay_publish_cases)
  case malformed
  with assms(3) show ?thesis by simp
next
  case (unmarked w1 err)
  have "handled_if_published i P w1"
    using handled_appends [OF assms(1-3), of "bus_event e"] unmarked(2) assms(4) by simp
  then show ?thesis
    using unmarked(5) lasting_quiet [OF assms(1) same_but_outbox_counters(1), of w1]
    by (auto simp: handled_if_published_def)
next
  case (marked w1)
  have h1: "handled_if_published i P w1"
    using handled_appends [OF assms(1-3), of "bus_event e"] marked(2) assms(4) by simp
  have q: "same_but_outbox w1 w'" using marked(5) by (simp add: same_but_outbox_def)
  show ?thesis
  proof (cases "P w1")
    case True
    then show ?thesis using lasting_quiet [OF assms(1) q] by (simp add: handled_if_published_def)
  next
    case False
    have "pe_id e \<noteq> i"
      using publish_on_established [OF assms(1), of w] assms(4,5) marked(2) False by auto
    with h1 False marked(5) show ?thesis by (auto simp: handled_if_published_def set_update_where)
  qed
qed

lemma handled_attempt:
  assumes "lasting_effect b ev P" and "bus_appends (Some b)" and "handled_if_published i P w"
    and "rl_bus r = Some b" and "pe_id e = i \<Longrightarrow> bus_event e = ev"
    and "retry_ok r" and "relay_attempt r e w = (res, w')"
  shows "handled_if_published i P w'"
proof -
  have clk: "handled_if_published i P (a\<lparr>w_nclk := Suc (w_nclk a)\<rparr>)" if "handled_if_published i P a" for a
    using that lasting_quiet [OF assms(1) same_but_outbox_counters(2), of a] by (auto simp: handled_if_published_def)
  have skipped: "handled_if_published i P w1" if "shouldSkip r (pe_id e) w = (s, w1)" for s w1
    using shouldSkip_spec [OF that] assms(3) clk [OF assms(3)] by simp
  from assms(7) show ?thesis
  proof (cases rule: relay_attempt_cases)
    case skip
    with skipped [OF skip(1)] show ?thesis by simp
  next
    case (failed w1 err w2)
    have "handled_if_published i P w2"
      using handled_publish [OF assms(1,2) skipped [OF failed(1)] assms(4,5) failed(2)] .
    with markFailed_spec [OF assms(6) failed(3)] clk show ?thesis by metis
  next
    case (published w1 w2)
    with handled_publish [OF assms(1,2) skipped [OF published(1)] assms(4,5) published(2)] show ?thesis by simp
  qed
qed

lemma handled_loop:
  assumes "lasting_effect b ev P" and "bus_appends (Some b)"
  shows "handled_if_published i P w \<Longrightarrow> rl_bus r = Some b \<Longrightarrow> retry_ok r \<Longrightarrow>
    (\<And>e. e \<in> set es \<Longrightarrow> pe_id e = i \<Longrightarrow> bus_event e = ev) \<Longrightarrow>
    dispatch_loop r es w = (Inr r', w') \<Longrightarrow> handled_if_published i P w'"
proof (induction es arbitrary: r w)
  case (Cons e es)
  from Cons.prems(5) obtain r1 w1 where 1: "relay_attempt r e w = (Inr r1, w1)"
    and 2: "dispatch_loop r1 es w1 = (Inr r', w')" by (auto simp: bindE_Inr)
  have "handled_if_published i P w1"
    by (rule handled_attempt [OF assms Cons.prems(1,2) _ Cons.prems(3) 1]) (simp add: Cons.prems(4))
  moreover have "rl_bus r1 = Some b" "retry_ok r1"
    using relay_attempt_counters [OF Cons.prems(3) 1] relay_attempt_retry_ok [OF Cons.prems(3) 1] Cons.prems(2)
    by auto
  ultimately show ?case by (rule Cons.IH [OF _ _ _ _ 2]) (simp add: Cons.prems(4))
qed (simp add: act_simps)


text \<open>A handler that leaves an entry in a table of its own.\<close>

definition demo_recorder :: "world handler" where
  "demo_recorder e w = (HandlerOk, w\<lparr>w_side := (w_side w)\<lparr>sd_compliance_checks :=
     \<lparr>ck_id = ''k'', ck_entity_type = ''event'', ck_entity_id = ev_Type e, ck_check_type = [], ck_status = [],
      ck_details = [], ck_created_at = 0\<rparr> # sd_compliance_checks (w_side w)\<rparr>\<rparr>)"

definition demo_recorder_bus :: "world InMemoryBus" where
  "demo_recorder_bus = bus_after [CallSubscribe ''TripStartedEvent'' demo_recorder]"

lemma demo_recorder_subs:
  "bus_subs demo_recorder_bus ty = (if ty = ''TripStartedEvent'' then [\<lparr>rh_addr = 0, rh_handler = demo_recorder\<rparr>] else [])"
  by (simp add: demo_recorder_bus_def bus_after_def NewInMemoryBus_def bus_Subscribe_def Let_def)


section \<open>Dead letters\<close>

lemma malformed_attempt:
  assumes "retry_ok r" and "malformed (pe_payload e)" and "rl_attempts r (pe_id e) = Some 4"
    and "\<And>t. rl_nextAttempt r (pe_id e) = Some t \<Longrightarrow> t \<le> env_clk (w_env w) (w_nclk w)"
    and "relay_attempt r e w = (Inr r', w')"
  shows "w_db w' = w_db w \<and> r' = markPublished r (pe_id e)"
  using assms(5)
proof (cases rule: relay_attempt_cases)
  case skip
  with due_not_skipped [OF skip(1) assms(4)] show ?thesis by simp
next
  case (failed w1 err w2)
  have "w_db w1 = w_db w" using shouldSkip_spec [OF failed(1)] by simp
  moreover have "w2 = w1" using failed(2)
    by (cases rule: relay_publish_cases) (use assms(2) in simp_all)
  ultimately show ?thesis
    using markFailed_spec [OF assms(1) failed(3)] assms(3) by (auto simp: maxAttempts_def)
next
  case (published w1 w2)
  from published(2) have False by (cases rule: relay_publish_cases) (use assms(2) in simp_all)
  then show ?thesis ..
qed

text \<open>Attempts at other events leave a pending row pending.\<close>

lemma publish_other_row:
  assumes "bus_appends (rl_bus r)" and "relay_publish r e w = (res, w')" and "pe_id e \<noteq> ob_id row"
    and "row \<in> set (db_outbox_events (w_db w))"
  shows "row \<in> set (db_outbox_events (w_db w'))"
  using assms(2)
proof (cases rule: relay_publish_cases)
  case malformed
  with assms(4) show ?thesis by simp
next
  case (unmarked w1 err)
  with publish_on_appends [OF assms(1), of w "bus_event e"] assms(4) show ?thesis by (auto simp: appends_def)
next
  case (marked w1)
  have "row \<in> set (db_outbox_events (w_db w1))"
    using publish_on_appends [OF assms(1), of w "bus_event e"] assms(4) marked(2) by (auto simp: appends_def)
  with marked(5) assms(3) show ?thesis by (force simp: set_update_where image_iff)
qed

lemma attempt_other_row:
  assumes "retry_ok r" and "bus_appends (rl_bus r)" and "relay_attempt r e w = (res, w')"
    and "pe_id e \<noteq> ob_id row" and "row \<in> set (db_outbox_events (w_db w))"
  shows "row \<in> set (db_outbox_events (w_db w'))"
proof -
  have skipped: "row \<in> set (db_outbox_events (w_db w1))" if "shouldSkip r (pe_id e) w = (s, w1)" for s w1
    using shouldSkip_spec [OF that] assms(5) by simp
  from assms(3) show ?thesis
  proof (cases rule: relay_attempt_cases)
    case skip
    with skipped [OF skip(1)] show ?thesis by simp
  next
    case (failed w1 err w2)
    have "w_db w' = w_db w2" using markFailed_spec [OF assms(1) failed(3)] by auto
    with publish_other_row [OF assms(2) failed(2) assms(4) skipped [OF failed(1)]] show ?thesis by simp
  next
    case (published w1 w2)
    with publish_other_row [OF assms(2) published(2) assms(4) skipped [OF published(1)]] show ?thesis by simp
  qed
qed

text \<open>
  An event with an unreadable payload that failed for the fifth time is logged as
  dead-lettered, but the row stays pending and its counters are deleted as they are after a
  publication: the next round does not skip it, and its five attempts start over.
\<close>

theorem dead_letter_starts_over:
  assumes "retry_ok r" and "bus_appends (rl_bus r)"
    and "distinct (map ob_id (db_outbox_events (w_db w)))" and "env_fault (w_env w) (w_nop w) = None"
    and "mono (env_clk (w_env w))"
    and "row \<in> set (db_outbox_events (w_db w))" and "ob_published_at row = None" and "malformed (ob_payload row)"
    and "rl_attempts r (ob_id row) = Some 4"
    and "\<And>t. rl_nextAttempt r (ob_id row) = Some t \<Longrightarrow> t \<le> env_clk (w_env w) (w_nclk w)"
    and "relay_dispatch r w = (res, w')"
  shows "\<exists>r'. res = Inr r' \<and> row \<in> set (db_outbox_events (w_db w'))
    \<and> rl_attempts r' (ob_id row) = None \<and> (\<forall>v. shouldSkip r' (ob_id row) v = (Inr False, v))"
proof -
  define e where "e = \<lparr>pe_id = ob_id row, pe_aggregateID = ob_aggregate_id row,
    pe_aggregateType = ob_aggregate_type row, pe_eventType = ob_event_type row, pe_payload = ob_payload row\<rparr>"
  have e: "e \<in> set (selectPending (w_db w))" "pe_id e = ob_id row" "malformed (pe_payload e)"
    using assms(6-8) by (auto simp: selectPending_def e_def)
  let ?w = "w\<lparr>w_nop := Suc (w_nop w), w_nclk := Suc (w_nclk w)\<rparr>"
  let ?R = "\<lambda>a b. row \<in> set (db_outbox_events (w_db a)) \<longrightarrow> row \<in> set (db_outbox_events (w_db b))"
  obtain xs ys r1 w1 r2 w2 r' where v: "pe_id e \<notin> pe_id ` set xs" "pe_id e \<notin> pe_id ` set ys"
      "dispatch_loop r xs ?w = (Inr r1, w1)" "relay_attempt r1 e w1 = (Inr r2, w2)"
      "dispatch_loop r2 ys w2 = (Inr r', w')" "res = Inr r'" "retry_ok r1" "retry_ok r2"
      "rl_bus r1 = rl_bus r" "rl_bus r2 = rl_bus r"
      "rl_attempts r1 (pe_id e) = rl_attempts r (pe_id e)" "rl_nextAttempt r1 (pe_id e) = rl_nextAttempt r (pe_id e)"
      "rl_attempts r' (pe_id e) = rl_attempts r2 (pe_id e)" "rl_nextAttempt r' (pe_id e) = rl_nextAttempt r2 (pe_id e)"
      "relay_le w w1"
    using relay_dispatch_visits [OF assms(1,2,11,4,3) e(1)] by blast
  have loop: "?R a b" if "dispatch_loop s es a = (Inr s', b)" "retry_ok s" "rl_bus s = rl_bus r"
      "pe_id e \<notin> pe_id ` set es" for s es a s' b
  proof -
    have "?R a b \<and> rl_bus s' = rl_bus s \<and> retry_ok s' \<and> (pe_id e \<notin> pe_id ` set es \<longrightarrow>
        rl_attempts s' (pe_id e) = rl_attempts s (pe_id e) \<and> rl_nextAttempt s' (pe_id e) = rl_nextAttempt s (pe_id e))"
      by (rule dispatch_loop_frame [of s es a s' b ?R])
        (use that assms(2) e(2) attempt_other_row in \<open>auto simp: image_iff\<close>)
    then show ?thesis ..
  qed
  have "env_clk (w_env w) (w_nclk w) \<le> env_clk (w_env w1) (w_nclk w1)"
    using v(15) monoD [OF assms(5)] by (simp add: relay_le_def)
  then have m: "w_db w2 = w_db w1 \<and> r2 = markPublished r1 (pe_id e)"
    using malformed_attempt [OF v(7) e(3) _ _ v(4)] v(11,12) assms(9,10) e(2) by (metis order_trans)
  have "?R ?w w1" using loop [OF v(3) assms(1) _ v(1)] by simp
  moreover have "?R w2 w'" using loop [OF v(5,8,10,2)] .
  ultimately have "row \<in> set (db_outbox_events (w_db w'))" using assms(6) m by simp
  moreover have "rl_attempts r' (ob_id row) = None" "rl_nextAttempt r' (ob_id row) = None"
    using v(13,14) m e(2) by (simp_all add: markPublished_def)
  ultimately show ?thesis using v(6) by (simp add: shouldSkip_def ret_def)
qed

text \<open>A relay for which the malformed row of the demonstration world has failed four times.\<close>

definition demo_tired_relay :: relay where
  "demo_tired_relay = (NewRelay (Some demo_bus))\<lparr>rl_attempts := [''e2'' \<mapsto> 4], rl_nextAttempt := [''e2'' \<mapsto> 0]\<rparr>"

theorem dead_letter_starts_over_witness:
  "\<exists>r'. fst (relay_dispatch demo_tired_relay demo_relay_world) = Inr r'
     \<and> demo_outbox ''e2'' (JMalformed ''{'')
       \<in> set (db_outbox_events (w_db (snd (relay_dispatch demo_tired_relay demo_relay_world))))
     \<and> rl_attempts r' ''e2'' = None \<and> (\<forall>v. shouldSkip r' ''e2'' v = (Inr False, v))"
proof -
  have ok: "retry_ok demo_tired_relay"
    by (auto simp: retry_ok_def demo_tired_relay_def NewRelay_def maxAttempts_def split: if_splits)
  have bus: "bus_appends (rl_bus demo_tired_relay)"
    using demo_bus_appends by (simp add: demo_tired_relay_def NewRelay_def)
  have "mono (env_clk (w_env demo_relay_world))"
    by (simp add: demo_relay_world_def demo_world_def demo_env_def mono_def)
  from dead_letter_starts_over [OF ok bus _ _ this _ _ _ _ _ prod.collapse [symmetric],
      of "demo_outbox ''e2'' (JMalformed ''{'')"]
  show ?thesis
    by (simp add: demo_relay_world_def demo_outbox_def demo_world_def demo_env_def demo_tired_relay_def malformed_def)
qed

end
