(* ===== verification/Invoice_Repository.thy ===== *)
theory Invoice_Repository
  imports Trip_Repository Go_Text
begin

text \<open>
  Persistence of invoices and their line items
  (\<open>internal/invoice/infrastructure/persistence/sql/invoice_repository.go\<close> and
  \<open>db/generated/sqlite/invoices.sql.go\<close>).  The row type has every column; the argument of a
  statement is a row whose remaining columns are ignored.
\<close>

section \<open>SQL\<close>

definition invoice_check_statuses :: "string list" where
  "invoice_check_statuses = [''pending'', ''paid'', ''partially_paid'']"

definition invoice_references :: "database \<Rightarrow> invoice_row \<Rightarrow> bool" where
  "invoice_references d r \<longleftrightarrow>
     ir_booking_id r \<in> br_id ` set (db_bookings d) \<and> ir_customer_id r \<in> cu_id ` set (db_customers d)
     \<and> (case ir_trip_id r of None \<Rightarrow> True | Some i \<Rightarrow> i \<in> tw_id ` set (db_trips d))"

text \<open>The constraints of table \<open>invoices\<close>; SQLite stores NaN as NULL, which no amount column accepts.\<close>

definition invoice_violation :: "bool \<Rightarrow> database \<Rightarrow> invoice_row list \<Rightarrow> invoice_row \<Rightarrow> goerr option" where
  "invoice_violation fk d others r =
     (if NaN \<in> {ir_subtotal r, ir_tax r, ir_discount r, ir_total r, ir_paid_amount r, ir_cgst r, ir_sgst r, ir_igst r}
      then Some (ErrConstraint NotNullConstraint ''invoices'')
      else if ir_payment_status r \<notin> set invoice_check_statuses
      then Some (ErrConstraint CheckConstraint ''invoices.payment_status'')
      else if ir_id r \<in> ir_id ` set others then Some (ErrConstraint UniqueConstraint ''invoices.id'')
      else if ir_invoice_number r \<in> ir_invoice_number ` set others
      then Some (ErrConstraint UniqueConstraint ''invoices.invoice_number'')
      else if ir_irn r \<noteq> None \<and> ir_irn r \<in> ir_irn ` set others
      then Some (ErrConstraint UniqueConstraint ''invoices.irn'')
      else if fk \<and> \<not> invoice_references d r then Some (ErrConstraint ForeignKeyConstraint ''invoices'')
      else None)"

definition CreateInvoice :: "invoice_row \<Rightarrow> invoice_row query" where
  "CreateInvoice p fk now d =
     (let r = p\<lparr>ir_paid_amount := Fin 0, ir_status := ''outstanding'', ir_due_date := None,
                ir_cgst := Fin 0, ir_sgst := Fin 0, ir_igst := Fin 0, ir_irn := None, ir_irn_ack_no := None,
                ir_irn_ack_date := None, ir_signed_qr := None, ir_ewb_number := None, ir_version := 1,
                ir_created_at := now, ir_updated_at := now\<rparr> in
      case invoice_violation fk d (db_invoices d) r of
        Some e \<Rightarrow> Inl e
      | None \<Rightarrow> Inr (r, d\<lparr>db_invoices := db_invoices d @ [r]\<rparr>))"

text \<open>An update of the rows \<open>sel\<close> selects, of which there is at most one; the number of rows is returned.\<close>

definition update_invoices :: "(invoice_row \<Rightarrow> bool) \<Rightarrow> (invoice_row \<Rightarrow> invoice_row) \<Rightarrow> bool \<Rightarrow> database
    \<Rightarrow> (nat \<times> database) result" where
  "update_invoices sel f fk d =
     (case find sel (db_invoices d) of
        None \<Rightarrow> Inr (0, d)
      | Some r \<Rightarrow>
          (case invoice_violation fk d (filter (\<lambda>x. ir_id x \<noteq> ir_id r) (db_invoices d)) (f r) of
             Some e \<Rightarrow> Inl e
           | None \<Rightarrow> Inr (1, d\<lparr>db_invoices := update_where sel f (db_invoices d)\<rparr>)))"

definition invoice_extended :: "invoice_row \<Rightarrow> go_time \<Rightarrow> invoice_row \<Rightarrow> invoice_row" where
  "invoice_extended p now r =
     r\<lparr>ir_status := ir_status p, ir_paid_amount := ir_paid_amount p, ir_due_date := ir_due_date p,
       ir_cgst := ir_cgst p, ir_sgst := ir_sgst p, ir_igst := ir_igst p, ir_irn := ir_irn p,
       ir_irn_ack_no := ir_irn_ack_no p, ir_irn_ack_date := ir_irn_ack_date p,
       ir_signed_qr := ir_signed_qr p, ir_ewb_number := ir_ewb_number p, ir_updated_at := now\<rparr>"

text \<open>It touches no column with a foreign key, so none is checked.\<close>

definition insertInvoiceExtended :: "invoice_row \<Rightarrow> nat query" where
  "insertInvoiceExtended p fk now d =
     update_invoices (\<lambda>r. ir_id r = ir_id p \<and> ir_tenant_id r = ir_tenant_id p) (invoice_extended p now) False d"

definition invoice_selected :: "invoice_row \<Rightarrow> invoice_row \<Rightarrow> bool" where
  "invoice_selected p r \<longleftrightarrow> ir_id r = ir_id p \<and> ir_tenant_id r = ir_tenant_id p \<and> ir_version r = ir_version p"

definition invoice_set :: "invoice_row \<Rightarrow> go_time \<Rightarrow> invoice_row \<Rightarrow> invoice_row" where
  "invoice_set p now r =
     (invoice_extended p now r)\<lparr>ir_invoice_number := ir_invoice_number p, ir_booking_id := ir_booking_id p,
       ir_customer_id := ir_customer_id p, ir_trip_id := ir_trip_id p, ir_subtotal := ir_subtotal p,
       ir_tax := ir_tax p, ir_discount := ir_discount p, ir_total := ir_total p,
       ir_payment_status := ir_payment_status p, ir_version := ir_version r + 1\<rparr>"

definition updateInvoiceFull :: "invoice_row \<Rightarrow> nat query" where
  "updateInvoiceFull p fk now d = update_invoices (invoice_selected p) (invoice_set p now) fk d"

definition findInvoice :: "(invoice_row \<Rightarrow> bool) \<Rightarrow> go_time \<Rightarrow> database \<Rightarrow> invoice_row result" where
  "findInvoice p now d = one_row (find p (db_invoices d))"

definition deleteLineItems :: "string \<Rightarrow> unit query" where
  "deleteLineItems invoiceID fk now d =
     Inr ((), d\<lparr>db_invoice_line_items := filter (\<lambda>li. li_InvoiceID li \<noteq> invoiceID) (db_invoice_line_items d)\<rparr>)"

definition line_item_references :: "database \<Rightarrow> LineItem \<Rightarrow> bool" where
  "line_item_references d li \<longleftrightarrow>
     li_InvoiceID li \<in> ir_id ` set (db_invoices d)
     \<and> (case li_TripID li of None \<Rightarrow> True | Some i \<Rightarrow> i \<in> tw_id ` set (db_trips d))
     \<and> (case li_HSNSACCode li of None \<Rightarrow> True | Some c \<Rightarrow> c \<in> set (db_hsn_sac_master d))"

definition insertLineItem :: "LineItem \<Rightarrow> unit query" where
  "insertLineItem li fk now d =
     (if NaN \<in> {li_Quantity li, li_UnitPrice li, li_Rate li, li_TaxableValue li, li_CgstRate li, li_SgstRate li,
          li_IgstRate li, li_CgstAmount li, li_SgstAmount li, li_IgstAmount li, li_Amount li, li_Total li}
      then Inl (ErrConstraint NotNullConstraint ''invoice_line_items'')
      else if li_LineType li \<notin> {''freight'', ''detention'', ''accessorial''}
      then Inl (ErrConstraint CheckConstraint ''invoice_line_items.line_type'')
      else if li_ID li \<in> li_ID ` set (db_invoice_line_items d)
      then Inl (ErrConstraint UniqueConstraint ''invoice_line_items.id'')
      else if fk \<and> \<not> line_item_references d li
      then Inl (ErrConstraint ForeignKeyConstraint ''invoice_line_items'')
      else Inr ((), d\<lparr>db_invoice_line_items := db_invoice_line_items d @ [li]\<rparr>))"

definition selectLineItems :: "string \<Rightarrow> go_time \<Rightarrow> database \<Rightarrow> LineItem list result" where
  "selectLineItems invoiceID now d = Inr (filter (\<lambda>li. li_InvoiceID li = invoiceID) (db_invoice_line_items d))"

section \<open>Repository\<close>

text \<open>The arguments \<open>Save\<close> hands to its statements.\<close>

definition invoice_columns :: "InvoiceAggregate \<Rightarrow> invoice_row" where
  "invoice_columns iv =
     \<lparr>ir_id = iv_ID iv, ir_invoice_number = iv_InvoiceNumber iv, ir_booking_id = iv_BookingID iv,
      ir_customer_id = iv_CustomerID iv, ir_trip_id = iv_TripID iv, ir_subtotal = iv_Subtotal iv,
      ir_tax = iv_Tax iv, ir_cgst = iv_Cgst iv, ir_sgst = iv_Sgst iv, ir_igst = iv_Igst iv,
      ir_discount = iv_Discount iv, ir_total = iv_Total iv, ir_payment_status = iv_PaymentStatus iv,
      ir_paid_amount = iv_PaidAmount iv, ir_status = iv_Status iv, ir_due_date = iv_DueDate iv,
      ir_irn = iv_IRN iv, ir_irn_ack_no = iv_IRNAckNo iv, ir_irn_ack_date = iv_IRNAckDate iv,
      ir_signed_qr = iv_SignedQR iv, ir_ewb_number = iv_EwbNumber iv, ir_tenant_id = iv_TenantID iv,
      ir_version = iv_Version iv, ir_created_at = iv_CreatedAt iv, ir_updated_at = iv_UpdatedAt iv\<rparr>"

definition errInvoiceConcurrencyConflict :: goerr where
  "errInvoiceConcurrencyConflict = ErrorString ''concurrency conflict: invoice modified by another process''"

definition invoice_exists :: "string \<Rightarrow> string \<Rightarrow> bool wact" where
  "invoice_exists i t = query (\<lambda>now d. Inr (\<exists>r\<in>set (db_invoices d). ir_id r = i \<and> ir_tenant_id r = t))"

definition insert_invoice :: "InvoiceAggregate \<Rightarrow> InvoiceAggregate wact" where
  "insert_invoice iv =
     bindE (stmt (CreateInvoice (invoice_columns iv))) (\<lambda>_.
     bindE (stmt (insertInvoiceExtended (invoice_columns iv))) (\<lambda>_.
     ret (iv\<lparr>iv_Version := 1\<rparr>)))"

definition update_invoice :: "InvoiceAggregate \<Rightarrow> InvoiceAggregate wact" where
  "update_invoice iv =
     bindE (stmt (updateInvoiceFull (invoice_columns iv))) (\<lambda>affected.
     if affected = 0 then raise errInvoiceConcurrencyConflict
     else ret (iv\<lparr>iv_Version := wrap64 (iv_Version iv + 1)\<rparr>))"

definition persistLineItems :: "InvoiceAggregate \<Rightarrow> unit wact" where
  "persistLineItems iv =
     bindE (stmt (deleteLineItems (iv_ID iv))) (\<lambda>_.
     forE (iv_LineItems iv) (\<lambda>li. stmt (insertLineItem li)))"

definition InvoiceRepository_Save :: "InvoiceAggregate \<Rightarrow> InvoiceAggregate wact" where
  "InvoiceRepository_Save iv =
     bindE (invoice_exists (iv_ID iv) (iv_TenantID iv)) (\<lambda>ex.
     bindE (if ex then update_invoice iv else insert_invoice iv) (\<lambda>iv'.
     seqE (OutboxWriter_SaveEvents (iv_ID iv') ''Invoice'' (map EvInvoice (iv_events iv')))
     (seqE (persistLineItems (InvoiceAggregate_ClearEvents iv'))
     (ret (InvoiceAggregate_ClearEvents iv')))))"

definition loadLineItems :: "string \<Rightarrow> LineItem list wact" where
  "loadLineItems invoiceID = query (selectLineItems invoiceID)"

text \<open>The aggregate made of a row and its line items.\<close>

definition rehydrate_invoice :: "invoice_row \<Rightarrow> LineItem list \<Rightarrow> InvoiceAggregate" where
  "rehydrate_invoice r items =
     (let iv = RehydrateInvoiceAggregate (ir_id r) (ir_tenant_id r) (ir_invoice_number r) (ir_booking_id r)
            (ir_customer_id r) (ir_trip_id r) (ir_subtotal r) (ir_tax r) (ir_discount r) (ir_total r)
            (ir_payment_status r) (if ir_status r = [] then InvoiceStatusOutstanding else ir_status r)
            (ir_paid_amount r) (Fin 0) (ir_due_date r) [] [] (ir_created_at r) (ir_updated_at r) (ir_version r)
      in InvoiceAggregate_RecomputeTotals (iv\<lparr>iv_Cgst := ir_cgst r, iv_Sgst := ir_sgst r, iv_Igst := ir_igst r,
           iv_IRN := ir_irn r, iv_IRNAckNo := ir_irn_ack_no r, iv_IRNAckDate := ir_irn_ack_date r,
           iv_SignedQR := ir_signed_qr r, iv_EwbNumber := ir_ewb_number r, iv_LineItems := items\<rparr>))"

definition findInvoiceBySQL :: "(invoice_row \<Rightarrow> bool) \<Rightarrow> InvoiceAggregate wact" where
  "findInvoiceBySQL p =
     bindE (query (findInvoice p)) (\<lambda>r.
     bindE (loadLineItems (ir_id r)) (\<lambda>items.
     ret (rehydrate_invoice r items)))"

definition InvoiceRepository_Find :: "InvoiceID \<Rightarrow> TenantID \<Rightarrow> InvoiceAggregate wact" where
  "InvoiceRepository_Find i t = findInvoiceBySQL (\<lambda>r. ir_id r = i \<and> ir_tenant_id r = t)"

definition InvoiceRepository_FindByBookingID :: "string \<Rightarrow> TenantID \<Rightarrow> InvoiceAggregate wact" where
  "InvoiceRepository_FindByBookingID bookingID t = findInvoiceBySQL (\<lambda>r. ir_booking_id r = bookingID \<and> ir_tenant_id r = t)"

definition InvoiceRepository_FindByTripID :: "string \<Rightarrow> TenantID \<Rightarrow> InvoiceAggregate wact" where
  "InvoiceRepository_FindByTripID tripID t = findInvoiceBySQL (\<lambda>r. ir_trip_id r = Some tripID \<and> ir_tenant_id r = t)"

section \<open>Read side\<close>

record InvoiceReadModel =
  irm_ID :: string
  irm_InvoiceNumber :: string
  irm_BookingID :: string
  irm_BookingNumber :: string
  irm_CustomerID :: string
  irm_CustomerName :: string
  irm_CustomerCompany :: string
  irm_TripID :: "string option"
  irm_TripNumber :: string
  irm_Subtotal :: float64
  irm_Tax :: float64
  irm_Discount :: float64
  irm_Total :: float64
  irm_PaymentStatus :: string
  irm_CGST :: float64
  irm_SGST :: float64
  irm_IGST :: float64
  irm_IRN :: string
  irm_IRNAckNo :: string
  irm_IRNAckDate :: string
  irm_SignedQR :: string
  irm_CreatedAt :: go_time
  irm_UpdatedAt :: go_time

type_synonym invoice_joined = "invoice_row \<times> customer_row \<times> booking_row option \<times> trip_row option"

definition join_invoice :: "database \<Rightarrow> invoice_row \<Rightarrow> invoice_joined option" where
  "join_invoice d r =
     map_option (\<lambda>c. (r, c, find (\<lambda>b. br_id b = ir_booking_id r) (db_bookings d),
        find (\<lambda>x. Some (tw_id x) = ir_trip_id r) (db_trips d))) (find_customer d (ir_customer_id r))"

definition invoices_joined :: "database \<Rightarrow> invoice_joined list" where
  "invoices_joined d = List.map_filter (join_invoice d) (db_invoices d)"

definition GetInvoiceByID :: "string \<Rightarrow> string \<Rightarrow> go_time \<Rightarrow> database \<Rightarrow> invoice_joined result" where
  "GetInvoiceByID i t now d =
     one_row (find (\<lambda>(r, c, b, x). ir_id r = i \<and> ir_tenant_id r = t) (invoices_joined d))"

definition invoice_matches :: "string \<Rightarrow> string \<Rightarrow> string \<Rightarrow> invoice_joined \<Rightarrow> bool" where
  "invoice_matches t q status = (\<lambda>(r, c, b, x).
     ir_tenant_id r = t
     \<and> (sql_like (contains_pattern q) (ir_invoice_number r) \<or> sql_like (contains_pattern q) (cu_name c))
     \<and> (status = [] \<or> ir_payment_status r = status))"

definition SearchInvoices ::
  "string \<Rightarrow> string \<Rightarrow> string \<Rightarrow> int \<Rightarrow> int \<Rightarrow> go_time \<Rightarrow> database \<Rightarrow> invoice_joined list result" where
  "SearchInvoices t q status limit offset now d =
     Inr (sql_page limit offset (sort_key (\<lambda>(r, c, b, x). - ir_created_at r)
       (filter (invoice_matches t q status) (invoices_joined d))))"

definition CountInvoices :: "string \<Rightarrow> string \<Rightarrow> string \<Rightarrow> go_time \<Rightarrow> database \<Rightarrow> int result" where
  "CountInvoices t q status now d =
     Inr (int (length (filter (invoice_matches t q status) (invoices_joined d))))"

text \<open>A search fills only the fields its query selects.\<close>

definition invoice_read_model :: "invoice_joined \<Rightarrow> InvoiceReadModel" where
  "invoice_read_model = (\<lambda>(r, c, b, x).
     \<lparr>irm_ID = ir_id r, irm_InvoiceNumber = ir_invoice_number r, irm_BookingID = ir_booking_id r,
      irm_BookingNumber = str_or_empty (map_option br_booking_number b), irm_CustomerID = ir_customer_id r,
      irm_CustomerName = cu_name c, irm_CustomerCompany = str_or_empty (cu_company c),
      irm_TripID = ir_trip_id r, irm_TripNumber = str_or_empty (map_option tw_trip_number x),
      irm_Subtotal = ir_subtotal r, irm_Tax = ir_tax r, irm_Discount = ir_discount r, irm_Total = ir_total r,
      irm_PaymentStatus = ir_payment_status r, irm_CGST = Fin 0, irm_SGST = Fin 0, irm_IGST = Fin 0,
      irm_IRN = [], irm_IRNAckNo = [], irm_IRNAckDate = [], irm_SignedQR = [],
      irm_CreatedAt = ir_created_at r, irm_UpdatedAt = ir_updated_at r\<rparr>)"

text \<open>The second query of \<open>GetReadModel\<close>; its error is dropped and leaves the zero values.\<close>

definition with_gst_fields :: "invoice_row result \<Rightarrow> InvoiceReadModel \<Rightarrow> InvoiceReadModel" where
  "with_gst_fields res m =
     (case res of
        Inl _ \<Rightarrow> m
      | Inr r \<Rightarrow> m\<lparr>irm_CGST := ir_cgst r, irm_SGST := ir_sgst r, irm_IGST := ir_igst r,
          irm_IRN := str_or_empty (ir_irn r), irm_IRNAckNo := str_or_empty (ir_irn_ack_no r),
          irm_IRNAckDate := str_or_empty (ir_irn_ack_date r), irm_SignedQR := str_or_empty (ir_signed_qr r)\<rparr>)"

definition InvoiceRepository_GetReadModel :: "InvoiceID \<Rightarrow> TenantID \<Rightarrow> InvoiceReadModel wact" where
  "InvoiceRepository_GetReadModel i t =
     bindE (query (GetInvoiceByID i t)) (\<lambda>x.
     bindE (tryE (query (findInvoice (\<lambda>r. ir_id r = i \<and> ir_tenant_id r = t)))) (\<lambda>res.
     ret (with_gst_fields res (invoice_read_model x))))"

definition InvoiceRepository_SearchReadModels ::
  "TenantID \<Rightarrow> string \<Rightarrow> string \<Rightarrow> int \<Rightarrow> int \<Rightarrow> (InvoiceReadModel list \<times> int) wact" where
  "InvoiceRepository_SearchReadModels t q status limit offset =
     bindE (query (SearchInvoices t q status limit offset)) (\<lambda>rows.
     bindE (query (CountInvoices t q status)) (\<lambda>total'.
     ret (map invoice_read_model rows, total')))"

end
