(* ===== verification/Payment_Repository.thy ===== *)
theory Payment_Repository
  imports Invoice_Repository
begin

text \<open>
  Persistence of payments
  (\<open>internal/payment/infrastructure/persistence/sql/payment_repository.go\<close>, its converters and
  \<open>db/generated/sqlite/payments.sql.go\<close>): payments are only inserted, under an idempotency key
  that is unique per tenant.
\<close>

section \<open>SQL\<close>

definition payment_check_methods :: "string list" where
  "payment_check_methods = [''cash'', ''upi'', ''bank_transfer'', ''cheque'', ''razorpay'']"

definition payment_violation :: "bool \<Rightarrow> database \<Rightarrow> payment_row list \<Rightarrow> payment_row \<Rightarrow> goerr option" where
  "payment_violation fk d others r =
     (if pw_amount r = NaN then Some (ErrConstraint NotNullConstraint ''payments.amount'')
      else if pw_method r \<notin> set payment_check_methods
      then Some (ErrConstraint CheckConstraint ''payments.method'')
      else if pw_id r \<in> pw_id ` set others then Some (ErrConstraint UniqueConstraint ''payments.id'')
      else if pw_idempotency_key r \<noteq> None
        \<and> (\<exists>x\<in>set others. pw_tenant_id x = pw_tenant_id r \<and> pw_idempotency_key x = pw_idempotency_key r)
      then Some (ErrConstraint UniqueConstraint ''payments.tenant_id, payments.idempotency_key'')
      else if pw_webhook_event_id r \<noteq> None
        \<and> (\<exists>x\<in>set others. pw_tenant_id x = pw_tenant_id r \<and> pw_webhook_event_id x = pw_webhook_event_id r)
      then Some (ErrConstraint UniqueConstraint ''payments.tenant_id, payments.webhook_event_id'')
      else if pw_razorpay_payment_id r \<noteq> None
        \<and> (\<exists>x\<in>set others. pw_tenant_id x = pw_tenant_id r \<and> pw_razorpay_payment_id x = pw_razorpay_payment_id r)
      then Some (ErrConstraint UniqueConstraint ''payments.tenant_id, payments.razorpay_payment_id'')
      else if fk \<and> pw_invoice_id r \<notin> ir_id ` set (db_invoices d)
      then Some (ErrConstraint ForeignKeyConstraint ''payments.invoice_id'')
      else None)"

definition insert_payment_row :: "payment_row \<Rightarrow> unit query" where
  "insert_payment_row p fk now d =
     (let r = p\<lparr>pw_created_at := now, pw_updated_at := now\<rparr> in
      case payment_violation fk d (db_payments d) r of
        Some e \<Rightarrow> Inl e
      | None \<Rightarrow> Inr ((), d\<lparr>db_payments := db_payments d @ [r]\<rparr>))"

text \<open>The columns of a new payment: \<open>CreatePayment\<close> has no key, \<open>insertPaymentSQL\<close> has one.\<close>

definition payment_columns :: "PaymentAggregate \<Rightarrow> string option \<Rightarrow> payment_row" where
  "payment_columns p key =
     \<lparr>pw_id = py_ID p, pw_invoice_id = py_InvoiceID p, pw_payment_date = py_PaymentDate p, pw_amount = py_Amount p,
      pw_method = py_Method p, pw_reference = py_Reference p, pw_remarks = py_Remarks p,
      pw_tenant_id = py_TenantID p, pw_idempotency_key = key, pw_razorpay_order_id = None,
      pw_razorpay_payment_id = None, pw_razorpay_signature = None, pw_webhook_event_id = None,
      pw_created_at = 0, pw_updated_at = 0\<rparr>"

definition CreatePayment :: "PaymentAggregate \<Rightarrow> unit query" where
  "CreatePayment p = insert_payment_row (payment_columns p None)"

type_synonym payment_joined = "payment_row \<times> invoice_row"

definition join_payment :: "database \<Rightarrow> payment_row \<Rightarrow> payment_joined option" where
  "join_payment d p = map_option (Pair p) (find (\<lambda>i. ir_id i = pw_invoice_id p) (db_invoices d))"

definition payments_joined :: "database \<Rightarrow> payment_joined list" where
  "payments_joined d = List.map_filter (join_payment d) (db_payments d)"

definition GetPaymentByID :: "string \<Rightarrow> string \<Rightarrow> go_time \<Rightarrow> database \<Rightarrow> payment_joined result" where
  "GetPaymentByID i t now d = one_row (find (\<lambda>(p, v). pw_id p = i \<and> pw_tenant_id p = t) (payments_joined d))"

definition GetPaymentsByInvoice :: "string \<Rightarrow> string \<Rightarrow> go_time \<Rightarrow> database \<Rightarrow> payment_joined list result" where
  "GetPaymentsByInvoice invoiceID t now d =
     Inr (sort_key (\<lambda>(p, v). pw_payment_date p)
       (filter (\<lambda>(p, v). pw_invoice_id p = invoiceID \<and> pw_tenant_id p = t) (payments_joined d)))"

definition payment_matches :: "string \<Rightarrow> string \<Rightarrow> payment_joined \<Rightarrow> bool" where
  "payment_matches t meth = (\<lambda>(p, v). pw_tenant_id p = t \<and> (meth = [] \<or> pw_method p = meth))"

definition SearchPayments :: "string \<Rightarrow> string \<Rightarrow> int \<Rightarrow> int \<Rightarrow> go_time \<Rightarrow> database \<Rightarrow> payment_joined list result" where
  "SearchPayments t meth limit offset now d =
     Inr (sql_page limit offset (sort_key (\<lambda>(p, v). - pw_payment_date p)
       (filter (payment_matches t meth) (payments_joined d))))"

definition CountPayments :: "string \<Rightarrow> string \<Rightarrow> go_time \<Rightarrow> database \<Rightarrow> int result" where
  "CountPayments t meth now d = Inr (int (length (filter (payment_matches t meth) (payments_joined d))))"

definition findPaymentID :: "(payment_row \<Rightarrow> bool) \<Rightarrow> go_time \<Rightarrow> database \<Rightarrow> string result" where
  "findPaymentID p now d = one_row (map_option pw_id (find p (db_payments d)))"

text \<open>An update of one payment by id and tenant.\<close>

definition update_payment :: "string \<Rightarrow> string \<Rightarrow> (payment_row \<Rightarrow> payment_row) \<Rightarrow> unit query" where
  "update_payment i t f fk now d =
     (let sel = (\<lambda>r. pw_id r = i \<and> pw_tenant_id r = t); g = (\<lambda>r. (f r)\<lparr>pw_updated_at := now\<rparr>) in
      case find sel (db_payments d) of
        None \<Rightarrow> Inr ((), d)
      | Some r \<Rightarrow>
          (case payment_violation False d (filter (\<lambda>x. pw_id x \<noteq> i) (db_payments d)) (g r) of
             Some e \<Rightarrow> Inl e
           | None \<Rightarrow> Inr ((), d\<lparr>db_payments := update_where sel g (db_payments d)\<rparr>)))"

section \<open>Idempotency key\<close>

definition idempotencyKey :: "(float64 \<Rightarrow> int) \<Rightarrow> PaymentAggregate \<Rightarrow> string" where
  "idempotencyKey oor p =
     (let ref = (case py_Reference p of Some s \<Rightarrow> TrimSpace s | None \<Rightarrow> []) in
      if ref \<noteq> [] then ''ref:'' @ ref
      else ''inv:'' @ py_InvoiceID p @ '':amt:''
        @ FormatFloat_f2 (MoneyToFloat (FloatToMoney oor (py_Amount p) ''INR''))
        @ '':d:'' @ Format_date (py_PaymentDate p))"

definition isIdempotencyConflict :: "goerr \<Rightarrow> bool" where
  "isIdempotencyConflict err \<longleftrightarrow>
     strings_Contains (error_text err) ''UNIQUE constraint failed'' \<and> strings_Contains (error_text err) ''idempotency_key''"

section \<open>Repository\<close>

definition findIDByIdempotencyKey :: "TenantID \<Rightarrow> string \<Rightarrow> string wact" where
  "findIDByIdempotencyKey t key =
     query (findPaymentID (\<lambda>r. pw_tenant_id r = t \<and> pw_idempotency_key r = Some key))"

definition insertPayment :: "PaymentAggregate \<Rightarrow> string \<Rightarrow> unit wact" where
  "insertPayment p key = stmt (insert_payment_row (payment_columns p (Some key)))"

text \<open>The payment with the id a lookup found, if it found one.\<close>

definition found_payment :: "string result \<Rightarrow> PaymentAggregate \<Rightarrow> PaymentAggregate option" where
  "found_payment res p =
     (case res of Inr i \<Rightarrow> (if i \<noteq> [] then Some (p\<lparr>py_ID := i\<rparr>) else None) | Inl _ \<Rightarrow> None)"

text \<open>
  The insertion in \<open>Save\<close>: a conflict on the key ends the save with the payment that has the key.
  The value says whether the save is to go on with the events.
\<close>

definition insert_or_existing :: "PaymentAggregate \<Rightarrow> string \<Rightarrow> PaymentAggregate option wact" where
  "insert_or_existing p key =
     (if key \<noteq> [] then
        bindE (tryE (insertPayment p key)) (\<lambda>res.
        case res of
          Inr _ \<Rightarrow> ret None
        | Inl err \<Rightarrow>
            if isIdempotencyConflict err
            then bindE (tryE (findIDByIdempotencyKey (py_TenantID p) key)) (\<lambda>e.
              case found_payment e p of Some p' \<Rightarrow> ret (Some p') | None \<Rightarrow> raise err)
            else raise err)
      else seqE (stmt (CreatePayment p)) (ret None))"

definition save_new_payment :: "PaymentAggregate \<Rightarrow> string \<Rightarrow> PaymentAggregate wact" where
  "save_new_payment p key =
     bindE (tryE (query (GetPaymentByID (py_ID p) (py_TenantID p)))) (\<lambda>res.
     case res of
       Inr _ \<Rightarrow> raise (ErrorString ''updating payments is not allowed (immutable transaction records)'')
     | Inl err \<Rightarrow>
         if errors_Is_NoRows err
         then bindE (insert_or_existing p key) (\<lambda>existing.
           case existing of
             Some p' \<Rightarrow> ret p'
           | None \<Rightarrow> seqE (OutboxWriter_SaveEvents (py_ID p) ''Payment'' (map EvPayment (py_events p)))
               (ret (PaymentAggregate_ClearEvents p)))
         else raise err)"

definition PaymentRepository_Save :: "PaymentAggregate \<Rightarrow> PaymentAggregate wact" where
  "PaymentRepository_Save p =
     bindE getEnv (\<lambda>env. let key = idempotencyKey (env_oor env) p in
     if key \<noteq> [] then
       bindE (tryE (findIDByIdempotencyKey (py_TenantID p) key)) (\<lambda>res.
       case found_payment res p of Some p' \<Rightarrow> ret p' | None \<Rightarrow> save_new_payment p key)
     else save_new_payment p key)"

definition Payment_ToDomain :: "payment_row \<Rightarrow> PaymentAggregate" where
  "Payment_ToDomain r =
     NewPaymentAggregate (pw_id r) (pw_tenant_id r) (pw_invoice_id r) (pw_payment_date r) (pw_amount r)
       (pw_method r) (pw_reference r) (pw_remarks r) (pw_created_at r)"

definition PaymentRepository_Find :: "PaymentID \<Rightarrow> TenantID \<Rightarrow> PaymentAggregate wact" where
  "PaymentRepository_Find i t =
     bindE (query (GetPaymentByID i t)) (\<lambda>(r, v). ret (Payment_ToDomain r))"

definition PaymentRepository_FindByReference :: "string \<Rightarrow> TenantID \<Rightarrow> PaymentID wact" where
  "PaymentRepository_FindByReference reference t =
     (if TrimSpace reference = [] then raise ErrNoRows
      else findIDByIdempotencyKey t (''ref:'' @ reference))"

definition SetRazorpayFields :: "PaymentID \<Rightarrow> TenantID \<Rightarrow> string \<Rightarrow> string \<Rightarrow> string \<Rightarrow> unit wact" where
  "SetRazorpayFields i t orderID paymentID signature =
     stmt (update_payment i t (\<lambda>r. r\<lparr>pw_razorpay_order_id := Some orderID,
       pw_razorpay_payment_id := Some paymentID, pw_razorpay_signature := Some signature\<rparr>))"

definition ExistsRazorpayPayment :: "TenantID \<Rightarrow> string \<Rightarrow> PaymentID wact" where
  "ExistsRazorpayPayment t paymentID =
     query (findPaymentID (\<lambda>r. pw_tenant_id r = t \<and> pw_razorpay_payment_id r = Some paymentID))"

definition ExistsWebhookEvent :: "TenantID \<Rightarrow> string \<Rightarrow> PaymentID wact" where
  "ExistsWebhookEvent t eventID =
     query (findPaymentID (\<lambda>r. pw_tenant_id r = t \<and> pw_webhook_event_id r = Some eventID))"

definition SetWebhookEventID :: "PaymentID \<Rightarrow> TenantID \<Rightarrow> string \<Rightarrow> unit wact" where
  "SetWebhookEventID i t eventID = stmt (update_payment i t (\<lambda>r. r\<lparr>pw_webhook_event_id := Some eventID\<rparr>))"

section \<open>Read side\<close>

record PaymentReadModel =
  prm_ID :: string
  prm_InvoiceID :: string
  prm_InvoiceNumber :: string
  prm_PaymentDate :: go_time
  prm_Amount :: float64
  prm_Method :: string
  prm_Reference :: "string option"
  prm_Remarks :: "string option"
  prm_CreatedAt :: go_time
  prm_UpdatedAt :: go_time

definition payment_read_model :: "payment_joined \<Rightarrow> PaymentReadModel" where
  "payment_read_model = (\<lambda>(p, v).
     \<lparr>prm_ID = pw_id p, prm_InvoiceID = pw_invoice_id p, prm_InvoiceNumber = ir_invoice_number v,
      prm_PaymentDate = pw_payment_date p, prm_Amount = pw_amount p, prm_Method = pw_method p,
      prm_Reference = pw_reference p, prm_Remarks = pw_remarks p, prm_CreatedAt = pw_created_at p,
      prm_UpdatedAt = pw_updated_at p\<rparr>)"

definition PaymentRepository_GetReadModel :: "PaymentID \<Rightarrow> TenantID \<Rightarrow> PaymentReadModel wact" where
  "PaymentRepository_GetReadModel i t = bindE (query (GetPaymentByID i t)) (\<lambda>x. ret (payment_read_model x))"

definition PaymentRepository_GetPaymentsByInvoice :: "string \<Rightarrow> TenantID \<Rightarrow> PaymentReadModel list wact" where
  "PaymentRepository_GetPaymentsByInvoice invoiceID t =
     bindE (query (GetPaymentsByInvoice invoiceID t)) (\<lambda>rows. ret (map payment_read_model rows))"

definition PaymentRepository_SearchReadModels ::
  "TenantID \<Rightarrow> string \<Rightarrow> int \<Rightarrow> int \<Rightarrow> (PaymentReadModel list \<times> int) wact" where
  "PaymentRepository_SearchReadModels t meth limit offset =
     bindE (query (SearchPayments t meth limit offset)) (\<lambda>rows.
     bindE (query (CountPayments t meth)) (\<lambda>total'.
     ret (map payment_read_model rows, total')))"

end
