(* ===== verification/Billing_Application.thy ===== *)
theory Billing_Application
  imports Payment_Repository Booking_Application
begin

text \<open>
  The use cases of the invoice and payment modules (\<open>internal/invoice/application\<close>,
  \<open>internal/payment/application\<close>), their workflows and facades.
\<close>

section \<open>Errors\<close>

definition ErrInvoiceNotFound :: goerr where "ErrInvoiceNotFound = ErrorString ''invoice not found''"
definition ErrPaymentExceedsBalance :: goerr where
  "ErrPaymentExceedsBalance = ErrorString ''payment exceeds invoice outstanding balance''"
definition ErrPaymentNotFound :: goerr where "ErrPaymentNotFound = ErrorString ''payment not found''"
definition ErrMissingOriginalPayment :: goerr where
  "ErrMissingOriginalPayment = ErrorString ''original payment ID is required''"
definition ErrMissingReversalReason :: goerr where
  "ErrMissingReversalReason = ErrorString ''reversal reason is required''"
definition ErrInvoiceAlreadyCancelled :: goerr where
  "ErrInvoiceAlreadyCancelled = ErrorString ''invoice already cancelled''"
definition ErrInvoiceCannotVoid :: goerr where "ErrInvoiceCannotVoid = ErrorString ''invoice cannot be voided''"

text \<open>\<open>switch err.Error()\<close>: an error whose text is that of a known one becomes that one.\<close>

definition known_errors :: "goerr list \<Rightarrow> 'a wact \<Rightarrow> 'a wact" where
  "known_errors es m = bindE (tryE m) (\<lambda>r. case r of
     Inr x \<Rightarrow> ret x
   | Inl e \<Rightarrow> raise (case find (\<lambda>k. error_text k = error_text e) es of Some k \<Rightarrow> k | None \<Rightarrow> e))"

lemma known_errors_Inr [act_inv]: "known_errors es m w = (Inr x, w') \<longleftrightarrow> m w = (Inr x, w')"
  by (auto simp: known_errors_def bindE_def tryE_def ret_def raise_def split: prod.splits sum.splits)

section \<open>Recording a payment\<close>

record RecordPaymentCommand =
  rpc_TenantID :: TenantID
  rpc_InvoiceID :: string
  rpc_PaymentDate :: go_time
  rpc_Amount :: float64
  rpc_Method :: PaymentMethod
  rpc_Reference :: "string option"
  rpc_Remarks :: "string option"
  rpc_RazorpayOrderID :: string
  rpc_RazorpayPaymentID :: string
  rpc_RazorpaySignature :: string

text \<open>Load the invoice, apply an amount, store it: a step of recording and of reversing.\<close>

definition apply_to_invoice :: "string \<Rightarrow> TenantID \<Rightarrow> float64 \<Rightarrow> unit wact" where
  "apply_to_invoice invoiceID t amount =
     bindE (noRowsAs ''invoice not found'' (InvoiceRepository_Find invoiceID t)) (\<lambda>iv.
     bindE Now (\<lambda>now.
     bindE (lift_result (InvoiceAggregate_ApplyPayment amount now iv)) (\<lambda>iv'.
     bindE (InvoiceRepository_Save iv') (\<lambda>_. ret ()))))"

definition record_payment_tx :: "RecordPaymentCommand \<Rightarrow> PaymentID wact" where
  "record_payment_tx cmd =
     seqE (apply_to_invoice (rpc_InvoiceID cmd) (rpc_TenantID cmd) (rpc_Amount cmd))
     (bindE GenerateUUID (\<lambda>i.
      bindE Now (\<lambda>now.
      bindE (PaymentRepository_Save (NewPaymentAggregate i (rpc_TenantID cmd) (rpc_InvoiceID cmd)
        (rpc_PaymentDate cmd) (rpc_Amount cmd) (rpc_Method cmd) (rpc_Reference cmd) (rpc_Remarks cmd) now)) (\<lambda>p.
      seqE (if rpc_RazorpayPaymentID cmd \<noteq> []
            then SetRazorpayFields (py_ID p) (rpc_TenantID cmd) (rpc_RazorpayOrderID cmd)
              (rpc_RazorpayPaymentID cmd) (rpc_RazorpaySignature cmd)
            else ret ())
      (ret (py_ID p))))))"

definition RecordPaymentUseCase_Execute :: "RecordPaymentCommand \<Rightarrow> PaymentID wact" where
  "RecordPaymentUseCase_Execute cmd =
     seqE (failIf (rpc_InvoiceID cmd = []) ''invoice ID is required'')
     (seqE (failIf (fle (rpc_Amount cmd) (Fin 0)) ''payment amount must be greater than zero'')
     (known_errors [ErrInvoiceNotFound, ErrPaymentExceedsBalance] (uow_Execute (record_payment_tx cmd))))"

section \<open>Reversing a payment\<close>

record ReversePaymentCommand =
  rvc_TenantID :: TenantID
  rvc_OriginalPayID :: PaymentID
  rvc_Reason :: string

definition reversal_reference :: "PaymentID \<Rightarrow> string" where
  "reversal_reference i = ''REVERSAL:'' @ i"

definition new_reversal :: "ReversePaymentCommand \<Rightarrow> PaymentAggregate \<Rightarrow> PaymentID wact" where
  "new_reversal cmd original =
     bindE GenerateUUID (\<lambda>i.
     bindE Now (\<lambda>date.
     bindE Now (\<lambda>now.
     seqE (apply_to_invoice (py_InvoiceID original) (rvc_TenantID cmd) (fneg (py_Amount original)))
     (bindE (PaymentRepository_Save (NewPaymentAggregate i (rvc_TenantID cmd) (py_InvoiceID original) date
        (fneg (py_Amount original)) (py_Method original) (Some (reversal_reference (py_ID original)))
        (Some (rvc_Reason cmd)) now)) (\<lambda>p. ret (py_ID p))))))"

definition reverse_payment_tx :: "ReversePaymentCommand \<Rightarrow> PaymentID wact" where
  "reverse_payment_tx cmd =
     bindE (noRowsAs ''payment not found'' (PaymentRepository_Find (rvc_OriginalPayID cmd) (rvc_TenantID cmd))) (\<lambda>original.
     bindE (tryE (PaymentRepository_FindByReference (reversal_reference (py_ID original)) (rvc_TenantID cmd))) (\<lambda>res.
     case res of
       Inl err \<Rightarrow> if errors_Is_NoRows err then new_reversal cmd original else raise err
     | Inr existing \<Rightarrow> if existing \<noteq> [] then ret existing else new_reversal cmd original))"

definition ReversePaymentUseCase_Execute :: "ReversePaymentCommand \<Rightarrow> PaymentID wact" where
  "ReversePaymentUseCase_Execute cmd =
     seqE (failIf (rvc_OriginalPayID cmd = []) ''original payment ID is required'')
     (seqE (failIf (rvc_Reason cmd = []) ''reversal reason is required'')
     (known_errors [ErrPaymentNotFound, ErrInvoiceNotFound] (uow_Execute (reverse_payment_tx cmd))))"

section \<open>Voiding an invoice\<close>

definition VoidInvoiceUseCase_Execute :: "TenantID \<Rightarrow> InvoiceID \<Rightarrow> unit wact" where
  "VoidInvoiceUseCase_Execute t i =
     seqE (failIf (i = []) ''invoice ID is required'')
     (uow_Execute
       (bindE (noRowsAs ''invoice not found'' (InvoiceRepository_Find i t)) (\<lambda>iv.
        bindE Now (\<lambda>now.
        bindE (case InvoiceAggregate_Void now iv of
            Inr iv' \<Rightarrow> ret iv'
          | Inl e \<Rightarrow> raise (if error_text e = ''invoice already cancelled'' then ErrInvoiceAlreadyCancelled
                           else ErrInvoiceCannotVoid)) (\<lambda>iv'.
        bindE (InvoiceRepository_Save iv') (\<lambda>_. ret ()))))))"

section \<open>Generating an invoice\<close>

record InvoiceLineItemInput =
  ili_TripID :: "string option"
  ili_LineType :: string
  ili_Description :: string
  ili_Quantity :: float64
  ili_UnitPrice :: float64
  ili_RefID :: "string option"

record GenerateInvoiceCommand =
  gic_TenantID :: TenantID
  gic_BookingID :: string
  gic_CustomerID :: string
  gic_TripID :: "string option"
  gic_Subtotal :: float64
  gic_Tax :: float64
  gic_Discount :: float64
  gic_Total :: float64
  gic_LineItems :: "InvoiceLineItemInput list"

definition moneyEpsilon :: float64 where
  "moneyEpsilon = rnd (1 / 100)"

definition validateInvoiceAmounts :: "float64 \<Rightarrow> float64 \<Rightarrow> float64 \<Rightarrow> float64 \<Rightarrow> unit result" where
  "validateInvoiceAmounts subtotal tax discount total' =
     (if flt total' (Fin 0) then Inl (ErrorString ''total cannot be negative'')
      else if flt subtotal (Fin 0) \<or> flt tax (Fin 0) \<or> flt discount (Fin 0)
      then Inl (ErrorString ''invoice amounts cannot be negative'')
      else if flt moneyEpsilon (fabs (fsub total' (fsub (fadd subtotal tax) discount)))
      then Inl (ErrorString ''invoice total does not match subtotal plus tax minus discount'')
      else Inr ())"

record derivedPricing =
  dp_subtotal :: float64
  dp_tax :: float64
  dp_discount :: float64
  dp_total :: float64

definition derive_pricing :: "(float64 \<Rightarrow> int) \<Rightarrow> float64 \<Rightarrow> company_settings_row result \<Rightarrow> derivedPricing" where
  "derive_pricing oor price settings =
     (let subtotalMinor = max 0 (int64_of_float oor (math_Round (fmul price (Fin 100))));
          taxMinor = (case settings of
              Inr s \<Rightarrow> (if cs_gst_enabled s
                then int64_of_float oor (math_Round (fdivc (fmul (float_of_int64 subtotalMinor) (cs_gst_rate s)) 100))
                else 0)
            | Inl _ \<Rightarrow> 0);
          subtotal = fdivc (float_of_int64 subtotalMinor) 100;
          tax = fdivc (float_of_int64 taxMinor) 100
      in \<lparr>dp_subtotal = subtotal, dp_tax = tax, dp_discount = Fin 0, dp_total = fsub (fadd subtotal tax) (Fin 0)\<rparr>)"

definition GetCompanySettings :: "company_settings_row wact" where
  "GetCompanySettings = query (\<lambda>now d. one_row (db_company_settings d))"

definition resolveBookingPricing :: "TenantID \<Rightarrow> string \<Rightarrow> derivedPricing option wact" where
  "resolveBookingPricing t bookingID =
     bindE (tryE (BookingRepository_GetReadModel bookingID t)) (\<lambda>b.
     case b of
       Inl _ \<Rightarrow> ret None
     | Inr booking \<Rightarrow>
         bindE (tryE GetCompanySettings) (\<lambda>settings.
         bindE getEnv (\<lambda>env.
         ret (Some (derive_pricing (env_oor env) (brm_Price booking) settings)))))"

definition blank_line :: "string \<Rightarrow> InvoiceAggregate \<Rightarrow> LineItem" where
  "blank_line i iv =
     \<lparr>li_ID = i, li_TenantID = iv_TenantID iv, li_InvoiceID = iv_ID iv, li_TripID = None, li_LineType = [],
      li_HSNSACCode = None, li_Description = [], li_Unit = None, li_Quantity = Fin 0, li_UnitPrice = Fin 0,
      li_Rate = Fin 0, li_TaxableValue = Fin 0, li_CgstRate = Fin 0, li_SgstRate = Fin 0, li_IgstRate = Fin 0,
      li_CgstAmount = Fin 0, li_SgstAmount = Fin 0, li_IgstAmount = Fin 0, li_Amount = Fin 0,
      li_Total = Fin 0, li_RefID = None\<rparr>"

definition freight_line :: "string \<Rightarrow> InvoiceAggregate \<Rightarrow> LineItem" where
  "freight_line i iv =
     (blank_line i iv)\<lparr>li_TripID := iv_TripID iv, li_LineType := LineTypeFreight, li_Description := ''Freight'',
       li_Quantity := Fin 1, li_UnitPrice := iv_Subtotal iv, li_Amount := iv_Subtotal iv\<rparr>"

definition input_line :: "string \<Rightarrow> InvoiceAggregate \<Rightarrow> InvoiceLineItemInput \<Rightarrow> LineItem" where
  "input_line i iv inp =
     (blank_line i iv)\<lparr>li_TripID := ili_TripID inp, li_LineType := ili_LineType inp,
       li_Description := ili_Description inp, li_Quantity := ili_Quantity inp, li_UnitPrice := ili_UnitPrice inp,
       li_Amount := RoundMoney (fmul (ili_Quantity inp) (ili_UnitPrice inp)), li_RefID := ili_RefID inp\<rparr>"

text \<open>\<open>existingRefs\<close> holds the references the invoice had before; those of new lines are not added.\<close>

definition existing_refs :: "InvoiceAggregate \<Rightarrow> string list" where
  "existing_refs iv = List.map_filter li_RefID (iv_LineItems iv)"

definition already_billed :: "string list \<Rightarrow> InvoiceLineItemInput \<Rightarrow> bool" where
  "already_billed refs inp \<longleftrightarrow> (case ili_RefID inp of Some r \<Rightarrow> r \<in> set refs | None \<Rightarrow> False)"

primrec append_lines :: "string list \<Rightarrow> InvoiceLineItemInput list \<Rightarrow> InvoiceAggregate \<Rightarrow> InvoiceAggregate wact" where
  "append_lines refs [] iv = ret iv"
| "append_lines refs (inp # inps) iv =
     (if already_billed refs inp then append_lines refs inps iv
      else bindE GenerateUUID (\<lambda>i. append_lines refs inps (InvoiceAggregate_AddLineItem (input_line i iv inp) iv)))"

definition attachLineItems :: "InvoiceAggregate \<Rightarrow> InvoiceLineItemInput list \<Rightarrow> InvoiceAggregate wact" where
  "attachLineItems iv inps =
     bindE (if \<exists>li\<in>set (iv_LineItems iv). li_LineType li = LineTypeFreight then ret iv
            else bindE GenerateUUID (\<lambda>i. ret (InvoiceAggregate_AddLineItem (freight_line i iv) iv))) (\<lambda>iv'.
     append_lines (existing_refs iv) inps iv')"

text \<open>What is done when the booking or trip already has an invoice.\<close>

definition attach_to_existing :: "GenerateInvoiceCommand \<Rightarrow> InvoiceAggregate \<Rightarrow> (InvoiceID \<times> bool) wact" where
  "attach_to_existing cmd existing =
     (if iv_PaymentStatus existing = PaymentStatusPaid \<or> iv_PaymentStatus existing = PaymentStatusPartiallyPaid
      then ret (iv_ID existing, False)
      else if gic_LineItems cmd \<noteq> []
      then bindE (attachLineItems existing (gic_LineItems cmd)) (\<lambda>iv.
        bindE (InvoiceRepository_Save iv) (\<lambda>iv'. ret (iv_ID iv', True)))
      else ret (iv_ID existing, False))"

definition create_invoice :: "GenerateInvoiceCommand \<Rightarrow> (InvoiceID \<times> bool) wact" where
  "create_invoice cmd =
     bindE (resolveBookingPricing (gic_TenantID cmd) (gic_BookingID cmd)) (\<lambda>pricing.
     bindE (case pricing of
         Some p \<Rightarrow> ret p
       | None \<Rightarrow> seqE (lift_result (validateInvoiceAmounts (gic_Subtotal cmd) (gic_Tax cmd) (gic_Discount cmd) (gic_Total cmd)))
           (ret \<lparr>dp_subtotal = gic_Subtotal cmd, dp_tax = gic_Tax cmd, dp_discount = gic_Discount cmd, dp_total = gic_Total cmd\<rparr>)) (\<lambda>p.
     bindE GenerateUUID (\<lambda>i.
     bindE (GenerateDisplayID ''INV'') (\<lambda>num.
     bindE Now (\<lambda>now.
     bindE (let iv = NewInvoiceAggregate i (gic_TenantID cmd) num (gic_BookingID cmd) (gic_CustomerID cmd) (gic_TripID cmd)
              (dp_subtotal p) (dp_tax p) (dp_discount p) (dp_total p) PaymentStatusPending now in
            if gic_LineItems cmd \<noteq> [] then attachLineItems iv (gic_LineItems cmd) else ret iv) (\<lambda>iv.
     bindE (InvoiceRepository_Save iv) (\<lambda>iv'.
     ret (iv_ID iv', gic_LineItems cmd \<noteq> []))))))))"

definition GenerateInTx :: "GenerateInvoiceCommand \<Rightarrow> (InvoiceID \<times> bool) wact" where
  "GenerateInTx cmd =
     seqE (failIf (gic_BookingID cmd = [] \<and> gic_TripID cmd = None) ''booking ID is required'')
     (bindE (tryE (if gic_BookingID cmd \<noteq> [] then InvoiceRepository_FindByBookingID (gic_BookingID cmd) (gic_TenantID cmd)
                   else InvoiceRepository_FindByTripID (str_or_empty (gic_TripID cmd)) (gic_TenantID cmd))) (\<lambda>res.
      case res of
        Inr existing \<Rightarrow> attach_to_existing cmd existing
      | Inl err \<Rightarrow> if errors_Is_NoRows err then create_invoice cmd else raise err))"

definition GenerateInvoiceUseCase_Execute :: "GenerateInvoiceCommand \<Rightarrow> InvoiceID wact" where
  "GenerateInvoiceUseCase_Execute cmd = bindE (uow_Execute (GenerateInTx cmd)) (\<lambda>(i, attached). ret i)"

section \<open>GST split\<close>

definition to_upper :: "char \<Rightarrow> char" where
  "to_upper c = (let n = (of_char c :: nat) in if 97 \<le> n \<and> n \<le> 122 then char_of (n - 32) else c)"

definition StateCodeFromGSTIN :: "string \<Rightarrow> string" where
  "StateCodeFromGSTIN gstin = (if length gstin < 2 then [] else map to_upper (take 2 gstin))"

definition IsIntraState :: "string \<Rightarrow> string \<Rightarrow> bool" where
  "IsIntraState supplierGSTIN recipientGSTIN =
     (let supState = StateCodeFromGSTIN supplierGSTIN; recState = StateCodeFromGSTIN recipientGSTIN in
      if supState = [] \<or> recState = [] then True else supState = recState)"

definition round2 :: "float64 \<Rightarrow> float64" where
  "round2 v = fdivc (math_Round (fmul v (Fin 100))) 100"

definition ComputeLineTax :: "float64 \<Rightarrow> float64 \<Rightarrow> bool \<Rightarrow> float64 \<times> float64 \<times> float64" where
  "ComputeLineTax taxable rate intraState =
     (if intraState
      then let half = fdivc rate 2 in
        (round2 (fdivc (fmul taxable half) 100), round2 (fdivc (fmul taxable half) 100), Fin 0)
      else (Fin 0, Fin 0, round2 (fdivc (fmul taxable rate) 100)))"

section \<open>Queries\<close>

definition GetInvoiceUseCase_Execute :: "InvoiceID \<Rightarrow> TenantID \<Rightarrow> InvoiceReadModel wact" where
  "GetInvoiceUseCase_Execute i t = uow_Execute (InvoiceRepository_GetReadModel i t)"

definition list_window :: "int \<Rightarrow> int \<Rightarrow> int \<times> int" where
  "list_window page limit =
     (let limit = (if limit \<le> 0 then 10 else limit); page = (if page \<le> 0 then 1 else page)
      in (limit, wrap64 (wrap64 (page - 1) * limit)))"

definition ListInvoicesUseCase_Execute ::
  "TenantID \<Rightarrow> int \<Rightarrow> int \<Rightarrow> string \<Rightarrow> string \<Rightarrow> (InvoiceReadModel list \<times> int) wact" where
  "ListInvoicesUseCase_Execute t page limit search status =
     (case list_window page limit of (limit, offset) \<Rightarrow>
        uow_Execute (InvoiceRepository_SearchReadModels t search status limit offset))"

definition GetPaymentUseCase_Execute :: "PaymentID \<Rightarrow> TenantID \<Rightarrow> PaymentReadModel wact" where
  "GetPaymentUseCase_Execute i t = uow_Execute (PaymentRepository_GetReadModel i t)"

definition ListPaymentsUseCase_Execute :: "TenantID \<Rightarrow> int \<Rightarrow> int \<Rightarrow> string \<Rightarrow> (PaymentReadModel list \<times> int) wact" where
  "ListPaymentsUseCase_Execute t page limit meth =
     (case list_window page limit of (limit, offset) \<Rightarrow>
        uow_Execute (PaymentRepository_SearchReadModels t meth limit offset))"

definition ListPaymentsByInvoiceUseCase_Execute :: "TenantID \<Rightarrow> string \<Rightarrow> PaymentReadModel list wact" where
  "ListPaymentsByInvoiceUseCase_Execute t invoiceID =
     seqE (failIf (invoiceID = []) ''invoice ID is required'')
     (uow_Execute (PaymentRepository_GetPaymentsByInvoice invoiceID t))"

section \<open>Workflows and facades\<close>

definition InvoiceWorkflow_GenerateInvoice :: "GenerateInvoiceCommand \<Rightarrow> InvoiceID wact" where
  "InvoiceWorkflow_GenerateInvoice cmd =
     seqE (failIf (gic_BookingID cmd = []) ''booking ID is required'')
     (seqE (failIf (gic_CustomerID cmd = []) ''customer ID is required'')
     (GenerateInvoiceUseCase_Execute cmd))"

definition InvoiceWorkflow_VoidInvoice :: "TenantID \<Rightarrow> InvoiceID \<Rightarrow> unit wact" where
  "InvoiceWorkflow_VoidInvoice = VoidInvoiceUseCase_Execute"

text \<open>The command of the facade has no line items.\<close>

definition InvoiceFacade_GenerateInvoice :: "GenerateInvoiceCommand \<Rightarrow> InvoiceID wact" where
  "InvoiceFacade_GenerateInvoice cmd = GenerateInvoiceUseCase_Execute (cmd\<lparr>gic_LineItems := []\<rparr>)"

definition PaymentWorkflow_RecordPayment :: "RecordPaymentCommand \<Rightarrow> PaymentID wact" where
  "PaymentWorkflow_RecordPayment = RecordPaymentUseCase_Execute"

definition PaymentFacade_RecordPayment :: "RecordPaymentCommand \<Rightarrow> PaymentID wact" where
  "PaymentFacade_RecordPayment = RecordPaymentUseCase_Execute"

end
