(* ===== verification/Invoice_Laws.thy ===== *)
theory Invoice_Laws
  imports Invoice_Repository
begin

text \<open>
  Laws of the invoice repository: unique keys are an invariant of the table, a load returns the
  stored row with its line items, a save updates exactly the loaded version, replaces the line
  items and appends the events to the outbox.  The versioned-repository contract is interpreted
  here.
\<close>

definition invoices_ok :: "database \<Rightarrow> bool" where
  "invoices_ok d \<longleftrightarrow> distinct (map ir_id (db_invoices d)) \<and> distinct (map ir_invoice_number (db_invoices d))"

definition invoice_at :: "database \<Rightarrow> string \<Rightarrow> string \<Rightarrow> invoice_row option" where
  "invoice_at d i t = find (\<lambda>r. ir_id r = i \<and> ir_tenant_id r = t) (db_invoices d)"

definition invoice_stored :: "database \<Rightarrow> string \<Rightarrow> string \<Rightarrow> int option" where
  "invoice_stored d i t = map_option ir_version (invoice_at d i t)"

definition items_of :: "database \<Rightarrow> string \<Rightarrow> LineItem list" where
  "items_of d i = filter (\<lambda>li. li_InvoiceID li = i) (db_invoice_line_items d)"

section \<open>Statements\<close>

lemma invoice_violation_None:
  assumes "invoice_violation fk d others r = None"
  shows "ir_id r \<notin> ir_id ` set others \<and> ir_invoice_number r \<notin> ir_invoice_number ` set others"
  using assms unfolding invoice_violation_def by (simp split: if_splits)

lemma invoice_set_simps [simp]:
  "ir_id (invoice_set p now r) = ir_id r" "ir_tenant_id (invoice_set p now r) = ir_tenant_id r"
  "ir_invoice_number (invoice_set p now r) = ir_invoice_number p"
  "ir_booking_id (invoice_set p now r) = ir_booking_id p"
  "ir_version (invoice_set p now r) = ir_version r + 1"
  "ir_paid_amount (invoice_set p now r) = ir_paid_amount p"
  "ir_payment_status (invoice_set p now r) = ir_payment_status p"
  "ir_status (invoice_set p now r) = ir_status p" "ir_total (invoice_set p now r) = ir_total p"
  by (simp_all add: invoice_set_def invoice_extended_def)

lemma invoice_extended_simps [simp]:
  "ir_id (invoice_extended p now r) = ir_id r" "ir_tenant_id (invoice_extended p now r) = ir_tenant_id r"
  "ir_invoice_number (invoice_extended p now r) = ir_invoice_number r"
  "ir_booking_id (invoice_extended p now r) = ir_booking_id r"
  "ir_version (invoice_extended p now r) = ir_version r"
  by (simp_all add: invoice_extended_def)

lemma invoice_columns_simps [simp]:
  "ir_id (invoice_columns a) = iv_ID a" "ir_tenant_id (invoice_columns a) = iv_TenantID a"
  "ir_invoice_number (invoice_columns a) = iv_InvoiceNumber a" "ir_booking_id (invoice_columns a) = iv_BookingID a"
  "ir_version (invoice_columns a) = iv_Version a" "ir_paid_amount (invoice_columns a) = iv_PaidAmount a"
  "ir_payment_status (invoice_columns a) = iv_PaymentStatus a" "ir_status (invoice_columns a) = iv_Status a"
  "ir_total (invoice_columns a) = iv_Total a"
  by (simp_all add: invoice_columns_def)

lemma CreateInvoice_Inr:
  assumes "CreateInvoice p fk now d = Inr (x, d')"
  shows "d' = d\<lparr>db_invoices := db_invoices d @ [x]\<rparr> \<and> ir_id x = ir_id p \<and> ir_tenant_id x = ir_tenant_id p
    \<and> ir_invoice_number x = ir_invoice_number p \<and> ir_booking_id x = ir_booking_id p \<and> ir_version x = 1
    \<and> invoice_violation fk d (db_invoices d) x = None"
  using assms by (auto simp: CreateInvoice_def Let_def split: option.splits)

lemma update_invoices_Inr:
  assumes "update_invoices sel f fk d = Inr (n, d')"
  shows "(n = 0 \<and> find sel (db_invoices d) = None \<and> d' = d)
    \<or> (\<exists>r. n = 1 \<and> find sel (db_invoices d) = Some r \<and> d' = d\<lparr>db_invoices := update_where sel f (db_invoices d)\<rparr>
         \<and> invoice_violation fk d (filter (\<lambda>x. ir_id x \<noteq> ir_id r) (db_invoices d)) (f r) = None)"
  using assms by (auto simp: update_invoices_def split: option.splits)

lemma update_invoices_ok:
  assumes "invoices_ok d" and "update_invoices sel f fk d = Inr (n, d')"
    and "\<And>r. ir_id (f r) = ir_id r" and "\<And>r. sel r \<Longrightarrow> ir_id r = i"
    and "\<And>r. sel r \<Longrightarrow> r \<in> set (db_invoices d) \<Longrightarrow> ir_invoice_number (f r) = num"
  shows "invoices_ok d'"
  using update_invoices_Inr [OF assms(2)]
proof
  assume "\<exists>r. n = 1 \<and> find sel (db_invoices d) = Some r \<and> d' = d\<lparr>db_invoices := update_where sel f (db_invoices d)\<rparr>
     \<and> invoice_violation fk d (filter (\<lambda>x. ir_id x \<noteq> ir_id r) (db_invoices d)) (f r) = None"
  then obtain r where r: "find sel (db_invoices d) = Some r" "d' = d\<lparr>db_invoices := update_where sel f (db_invoices d)\<rparr>"
    "invoice_violation fk d (filter (\<lambda>x. ir_id x \<noteq> ir_id r) (db_invoices d)) (f r) = None" by blast
  have sel: "sel r" "r \<in> set (db_invoices d)" using find_SomeD [OF r(1)] by auto
  define g where "g = (\<lambda>x. if x \<in> set (db_invoices d) then f x else x\<lparr>ir_invoice_number := num\<rparr>)"
  have upd: "update_where sel f (db_invoices d) = update_where sel g (db_invoices d)"
    by (simp add: update_where_def g_def)
  have ids: "map ir_id (update_where sel g (db_invoices d)) = map ir_id (db_invoices d)"
    by (rule map_update_where) (simp add: g_def assms(3))
  have "distinct (map ir_invoice_number (update_where sel g (db_invoices d)))"
    using assms(1) invoice_violation_None [OF r(3)] assms(4,5) sel
    by (intro distinct_update_where [of ir_id _ _ _ i _ num]) (auto simp: invoices_ok_def g_def)
  with ids assms(1) r(2) show ?thesis by (simp add: invoices_ok_def upd)
qed (use assms(1) in simp)

section \<open>Line items\<close>

lemma insert_items_effect:
  assumes "forE items (\<lambda>li. stmt (insertLineItem li)) w = (Inr u, w')"
  shows "w_db w' = (w_db w)\<lparr>db_invoice_line_items := db_invoice_line_items (w_db w) @ items\<rparr>
    \<and> w_env w' = w_env w \<and> w_side w' = w_side w"
  using assms
proof (induction items arbitrary: w)
  case (Cons li items)
  from Cons.prems obtain w1 where 1: "stmt (insertLineItem li) w = (Inr (), w1)"
    and 2: "forE items (\<lambda>li. stmt (insertLineItem li)) w1 = (Inr u, w')" by (auto simp: seqE_Inr)
  from 1 have "w_db w1 = (w_db w)\<lparr>db_invoice_line_items := db_invoice_line_items (w_db w) @ [li]\<rparr>"
    "w_env w1 = w_env w" "w_side w1 = w_side w"
    by (auto simp: stmt_Inr insertLineItem_def split: if_splits)
  with Cons.IH [OF 2] show ?case by simp
qed (simp add: ret_Inr)

lemma persistLineItems_effect:
  assumes "persistLineItems a w = (Inr u, w')"
  shows "w_db w' = (w_db w)\<lparr>db_invoice_line_items :=
      filter (\<lambda>li. li_InvoiceID li \<noteq> iv_ID a) (db_invoice_line_items (w_db w)) @ iv_LineItems a\<rparr>
    \<and> w_env w' = w_env w \<and> w_side w' = w_side w"
proof -
  from assms obtain w1 where 1: "stmt (deleteLineItems (iv_ID a)) w = (Inr (), w1)"
    and 2: "forE (iv_LineItems a) (\<lambda>li. stmt (insertLineItem li)) w1 = (Inr u, w')"
    by (auto simp: persistLineItems_def bindE_Inr)
  from 1 have "w_db w1 = (w_db w)\<lparr>db_invoice_line_items :=
      filter (\<lambda>li. li_InvoiceID li \<noteq> iv_ID a) (db_invoice_line_items (w_db w))\<rparr>"
    "w_env w1 = w_env w" "w_side w1 = w_side w"
    by (auto simp: stmt_Inr deleteLineItems_def)
  with insert_items_effect [OF 2] show ?thesis by simp
qed

section \<open>Repository\<close>

lemma findInvoiceBySQL_store: "findInvoiceBySQL p w = (r, w') \<Longrightarrow> same_store w w'"
  by (auto simp: findInvoiceBySQL_def loadLineItems_def bindE_def ret_def dest!: query_same_store
      split: prod.splits sum.splits) (metis same_store_trans)+

lemma findInvoiceBySQL_Inr:
  assumes "findInvoiceBySQL p w = (Inr a, w')"
  shows "\<exists>r. find p (db_invoices (w_db w)) = Some r \<and> a = rehydrate_invoice r (items_of (w_db w) (ir_id r))"
  using assms
  by (auto simp: findInvoiceBySQL_def loadLineItems_def act_inv findInvoice_def one_row_def selectLineItems_def
      items_of_def split: option.splits)

lemma RecomputeTotals_keeps [simp]:
  "iv_ID (InvoiceAggregate_RecomputeTotals a) = iv_ID a"
  "iv_TenantID (InvoiceAggregate_RecomputeTotals a) = iv_TenantID a"
  "iv_InvoiceNumber (InvoiceAggregate_RecomputeTotals a) = iv_InvoiceNumber a"
  "iv_BookingID (InvoiceAggregate_RecomputeTotals a) = iv_BookingID a"
  "iv_Version (InvoiceAggregate_RecomputeTotals a) = iv_Version a"
  "iv_LineItems (InvoiceAggregate_RecomputeTotals a) = iv_LineItems a"
  "iv_PaidAmount (InvoiceAggregate_RecomputeTotals a) = iv_PaidAmount a"
  "iv_CreditBalance (InvoiceAggregate_RecomputeTotals a) = iv_CreditBalance a"
  by (simp_all add: InvoiceAggregate_RecomputeTotals_def Let_def)

lemma rehydrate_simps [simp]:
  "iv_ID (rehydrate_invoice r items) = ir_id r" "iv_TenantID (rehydrate_invoice r items) = ir_tenant_id r"
  "iv_InvoiceNumber (rehydrate_invoice r items) = ir_invoice_number r"
  "iv_BookingID (rehydrate_invoice r items) = ir_booking_id r"
  "iv_Version (rehydrate_invoice r items) = ir_version r" "iv_LineItems (rehydrate_invoice r items) = items"
  "iv_PaidAmount (rehydrate_invoice r items) = ir_paid_amount r"
  "iv_CreditBalance (rehydrate_invoice r items) = Fin 0"
  by (simp_all add: rehydrate_invoice_def RehydrateInvoiceAggregate_def Let_def)

lemma Invoice_Find_Inr:
  assumes "InvoiceRepository_Find i t w = (Inr a, w')"
  shows "\<exists>r. invoice_at (w_db w) i t = Some r \<and> ir_id r = i \<and> ir_tenant_id r = t
    \<and> a = rehydrate_invoice r (items_of (w_db w) i)"
  using findInvoiceBySQL_Inr [OF assms [unfolded InvoiceRepository_Find_def]]
  by (auto simp: invoice_at_def dest: find_SomeD)

text \<open>The rows after the statements of a save: an insert completed by a second statement, or an update.\<close>

definition invoice_written :: "InvoiceAggregate \<Rightarrow> database \<Rightarrow> database \<Rightarrow> bool" where
  "invoice_written a d d1 \<longleftrightarrow>
     (\<exists>fk now fk' now' x d0 n. \<not> (\<exists>r\<in>set (db_invoices d). ir_id r = iv_ID a \<and> ir_tenant_id r = iv_TenantID a)
        \<and> CreateInvoice (invoice_columns a) fk now d = Inr (x, d0)
        \<and> insertInvoiceExtended (invoice_columns a) fk' now' d0 = Inr (n, d1))
     \<or> (\<exists>fk now r. find (invoice_selected (invoice_columns a)) (db_invoices d) = Some r
        \<and> updateInvoiceFull (invoice_columns a) fk now d = Inr (1, d1))"

lemma insert_invoice_Inr:
  assumes "insert_invoice a w = (Inr a1, w1)"
  shows "\<exists>fk now fk' now' x d0 n. CreateInvoice (invoice_columns a) fk now (w_db w) = Inr (x, d0)
      \<and> insertInvoiceExtended (invoice_columns a) fk' now' d0 = Inr (n, w_db w1)
      \<and> a1 = a\<lparr>iv_Version := 1\<rparr> \<and> w_env w1 = w_env w \<and> w_side w1 = w_side w"
  using assms by (auto simp: insert_invoice_def act_inv stmt_Inr) blast

lemma update_invoice_Inr:
  assumes "update_invoice a w = (Inr a1, w1)"
  shows "\<exists>fk now r. find (invoice_selected (invoice_columns a)) (db_invoices (w_db w)) = Some r
      \<and> updateInvoiceFull (invoice_columns a) fk now (w_db w) = Inr (1, w_db w1)
      \<and> a1 = a\<lparr>iv_Version := wrap64 (iv_Version a + 1)\<rparr> \<and> w_env w1 = w_env w \<and> w_side w1 = w_side w"
proof -
  from assms obtain n w2 where "stmt (updateInvoiceFull (invoice_columns a)) w = (Inr n, w2)" "n \<noteq> 0"
    "w1 = w2" "a1 = a\<lparr>iv_Version := wrap64 (iv_Version a + 1)\<rparr>"
    by (auto simp: update_invoice_def act_inv split: if_splits)
  then obtain fk now where u: "updateInvoiceFull (invoice_columns a) fk now (w_db w) = Inr (n, w_db w1)"
    and e: "w_env w1 = w_env w" "w_side w1 = w_side w" "n \<noteq> 0" "a1 = a\<lparr>iv_Version := wrap64 (iv_Version a + 1)\<rparr>"
    by (auto simp: stmt_Inr)
  from update_invoices_Inr [OF u [unfolded updateInvoiceFull_def]] e(3)
  obtain r where "find (invoice_selected (invoice_columns a)) (db_invoices (w_db w)) = Some r" "n = 1" by blast
  with u e show ?thesis by blast
qed

lemma Invoice_Save_Inr:
  assumes "InvoiceRepository_Save a w = (Inr a', w')"
  obtains d1 rows where "invoice_written a (w_db w) d1"
    and "outbox_rows_for (iv_ID a) ''Invoice'' (map EvInvoice (iv_events a)) rows"
    and "w_db w' = d1\<lparr>db_outbox_events := db_outbox_events d1 @ rows,
      db_invoice_line_items := filter (\<lambda>li. li_InvoiceID li \<noteq> iv_ID a) (db_invoice_line_items d1) @ iv_LineItems a\<rparr>"
    and "iv_ID a' = iv_ID a" and "w_env w' = w_env w" and "w_side w' = w_side w"
proof -
  from assms obtain ex w1 a1 w2 w3 where
    e: "invoice_exists (iv_ID a) (iv_TenantID a) w = (Inr ex, w1)"
    and m: "(if ex then update_invoice a else insert_invoice a) w1 = (Inr a1, w2)"
    and o: "OutboxWriter_SaveEvents (iv_ID a1) ''Invoice'' (map EvInvoice (iv_events a1)) w2 = (Inr (), w3)"
    and l: "persistLineItems (InvoiceAggregate_ClearEvents a1) w3 = (Inr (), w')"
    and a': "a' = InvoiceAggregate_ClearEvents a1"
    by (auto simp: InvoiceRepository_Save_def act_inv)
  have s1: "w_db w1 = w_db w" "w_env w1 = w_env w" "w_side w1 = w_side w"
    and ex: "ex \<longleftrightarrow> (\<exists>r\<in>set (db_invoices (w_db w)). ir_id r = iv_ID a \<and> ir_tenant_id r = iv_TenantID a)"
    using e by (auto simp: invoice_exists_def query_Inr)
  have b: "invoice_written a (w_db w) (w_db w2)" "iv_ID a1 = iv_ID a" "iv_events a1 = iv_events a"
    "iv_LineItems a1 = iv_LineItems a" "w_env w2 = w_env w" "w_side w2 = w_side w"
  proof -
    have "invoice_written a (w_db w) (w_db w2) \<and> iv_ID a1 = iv_ID a \<and> iv_events a1 = iv_events a
      \<and> iv_LineItems a1 = iv_LineItems a \<and> w_env w2 = w_env w \<and> w_side w2 = w_side w"
    proof (cases ex)
      case True
      with m have "update_invoice a w1 = (Inr a1, w2)" by simp
      from update_invoice_Inr [OF this] s1 show ?thesis unfolding invoice_written_def by auto
    next
      case False
      with m have "insert_invoice a w1 = (Inr a1, w2)" by simp
      from insert_invoice_Inr [OF this] s1 ex False show ?thesis unfolding invoice_written_def by auto
    qed
    then show "invoice_written a (w_db w) (w_db w2)" "iv_ID a1 = iv_ID a" "iv_events a1 = iv_events a"
      "iv_LineItems a1 = iv_LineItems a" "w_env w2 = w_env w" "w_side w2 = w_side w" by blast+
  qed
  obtain rows where r: "outbox_rows_for (iv_ID a1) ''Invoice'' (map EvInvoice (iv_events a1)) rows"
    "w_db w3 = (w_db w2)\<lparr>db_outbox_events := db_outbox_events (w_db w2) @ rows\<rparr>"
    "w_env w3 = w_env w2" "w_side w3 = w_side w2" using SaveEvents_effect [OF o] by blast
  from persistLineItems_effect [OF l] b r a' show thesis
    by (intro that [of "w_db w2" rows]) (simp_all add: InvoiceAggregate_ClearEvents_def)
qed

lemma invoice_written_ok:
  assumes "invoices_ok d" and "invoice_written a d d1"
  shows "invoices_ok d1"
  using assms(2) unfolding invoice_written_def
proof (elim disjE exE conjE)
  fix fk now fk' now' x d0 n
  assume c: "CreateInvoice (invoice_columns a) fk now d = Inr (x, d0)"
    and e: "insertInvoiceExtended (invoice_columns a) fk' now' d0 = Inr (n, d1)"
  from CreateInvoice_Inr [OF c] have x: "d0 = d\<lparr>db_invoices := db_invoices d @ [x]\<rparr>" "ir_id x = iv_ID a"
    "ir_invoice_number x = iv_InvoiceNumber a" "invoice_violation fk d (db_invoices d) x = None" by simp_all
  note v = invoice_violation_None [OF x(4)]
  have ok0: "invoices_ok d0" using assms(1) v x(1) by (auto simp: invoices_ok_def)
  show ?thesis
    by (rule update_invoices_ok [OF ok0 e [unfolded insertInvoiceExtended_def], of "iv_ID a" "iv_InvoiceNumber a"])
      (use v x in \<open>auto simp: image_iff\<close>)
next
  fix fk now r
  assume "updateInvoiceFull (invoice_columns a) fk now d = Inr (1, d1)"
  from update_invoices_ok [OF assms(1) this [unfolded updateInvoiceFull_def], of "iv_ID a" "iv_InvoiceNumber a"]
  show ?thesis by (simp add: invoice_selected_def)
qed

lemma Invoice_Save_ok:
  assumes "invoices_ok (w_db w)" and "InvoiceRepository_Save a w = (Inr a', w')"
  shows "invoices_ok (w_db w')"
  using assms(2)
proof (rule Invoice_Save_Inr)
  fix d1 rows
  assume "invoice_written a (w_db w) d1"
    and "w_db w' = d1\<lparr>db_outbox_events := db_outbox_events d1 @ rows,
      db_invoice_line_items := filter (\<lambda>li. li_InvoiceID li \<noteq> iv_ID a) (db_invoice_line_items d1) @ iv_LineItems a\<rparr>"
  with invoice_written_ok [OF assms(1)] show ?thesis by (simp add: invoices_ok_def)
qed

text \<open>A write to an invoice that is stored is the update of its loaded version.\<close>

lemma invoice_written_stored:
  assumes "invoices_ok d" and "invoice_written a d d1" and "invoice_at d (iv_ID a) (iv_TenantID a) = Some r"
  shows "ir_version r = iv_Version a \<and> (\<exists>now. d1 = d\<lparr>db_invoices :=
    update_where (\<lambda>x. x = r) (invoice_set (invoice_columns a) now) (db_invoices d)\<rparr>)"
proof -
  have r: "ir_id r = iv_ID a" "ir_tenant_id r = iv_TenantID a" "r \<in> set (db_invoices d)"
    using find_SomeD [OF assms(3) [unfolded invoice_at_def]] by auto
  with assms(2) obtain fk now s where
    s: "find (invoice_selected (invoice_columns a)) (db_invoices d) = Some s"
    and u: "updateInvoiceFull (invoice_columns a) fk now d = Inr (1, d1)"
    unfolding invoice_written_def by blast
  have sel: "invoice_selected (invoice_columns a) x \<longleftrightarrow> x = r" if "x \<in> set (db_invoices d)" for x
  proof
    assume "invoice_selected (invoice_columns a) x"
    with assms(1) r that show "x = r" using distinct_key_eq [of ir_id "db_invoices d" x r]
      by (simp add: invoices_ok_def invoice_selected_def)
  next
    assume "x = r"
    moreover have "s = r" using find_SomeD [OF s] assms(1) r distinct_key_eq [of ir_id "db_invoices d" s r]
      by (simp add: invoices_ok_def invoice_selected_def)
    ultimately show "invoice_selected (invoice_columns a) x" using find_SomeD [OF s] by simp
  qed
  have "update_where (invoice_selected (invoice_columns a)) g (db_invoices d) = update_where (\<lambda>x. x = r) g (db_invoices d)" for g
    using sel by (simp add: update_where_def)
  then have "d1 = d\<lparr>db_invoices := update_where (\<lambda>x. x = r) (invoice_set (invoice_columns a) now) (db_invoices d)\<rparr>"
    using update_invoices_Inr [OF u [unfolded updateInvoiceFull_def]] by auto
  moreover have "ir_version r = iv_Version a" using sel [OF r(3)] by (simp add: invoice_selected_def)
  ultimately show ?thesis by blast
qed

lemma invoice_at_update:
  assumes "invoice_at d i t = Some r" and "ir_id (f r) = ir_id r" and "ir_tenant_id (f r) = ir_tenant_id r"
  shows "invoice_at (d\<lparr>db_invoices := update_where (\<lambda>x. x = r) f (db_invoices d)\<rparr>) i t = Some (f r)"
proof -
  let ?q = "\<lambda>r. ir_id r = i \<and> ir_tenant_id r = t"
  have "?q r" using find_SomeD [OF assms(1) [unfolded invoice_at_def]] by simp
  then have "find ?q (update_where (\<lambda>x. x = r) f (db_invoices d))
      = map_option (\<lambda>x. if x = r then f x else x) (find ?q (db_invoices d))"
    by (intro find_update_where) (simp add: assms(2,3))
  with assms(1) show ?thesis by (simp add: invoice_at_def)
qed

interpretation invoice_repo: versioned_repository invoices_ok invoice_stored
  InvoiceRepository_Find InvoiceRepository_Save iv_ID iv_TenantID iv_Version
proof
  fix i t w r w' assume "InvoiceRepository_Find i t w = (r, w')"
  then show "same_store w w'" unfolding InvoiceRepository_Find_def by (rule findInvoiceBySQL_store)
next
  fix w i t a w' assume "invoices_ok (w_db w)" "InvoiceRepository_Find i t w = (Inr a, w')"
  from Invoice_Find_Inr [OF this(2)]
  show "iv_ID a = i \<and> iv_TenantID a = t \<and> invoice_stored (w_db w) i t = Some (iv_Version a)"
    by (auto simp: invoice_stored_def)
next
  fix w a a' w' assume "invoices_ok (w_db w)" "InvoiceRepository_Save a w = (Inr a', w')"
  then show "invoices_ok (w_db w')" by (rule Invoice_Save_ok)
next
  fix w a a' w' v
  assume ok: "invoices_ok (w_db w)" and s: "InvoiceRepository_Save a w = (Inr a', w')"
    and st: "invoice_stored (w_db w) (iv_ID a) (iv_TenantID a) = Some v"
  from st obtain r where at: "invoice_at (w_db w) (iv_ID a) (iv_TenantID a) = Some r" "ir_version r = v"
    by (auto simp: invoice_stored_def)
  from s show "v = iv_Version a \<and> invoice_stored (w_db w') (iv_ID a) (iv_TenantID a) = Some (v + 1)"
  proof (rule Invoice_Save_Inr)
    fix d1 rows
    assume wr: "invoice_written a (w_db w) d1"
      and w': "w_db w' = d1\<lparr>db_outbox_events := db_outbox_events d1 @ rows,
        db_invoice_line_items := filter (\<lambda>li. li_InvoiceID li \<noteq> iv_ID a) (db_invoice_line_items d1) @ iv_LineItems a\<rparr>"
    from invoice_written_stored [OF ok wr at(1)] obtain now where
      v: "ir_version r = iv_Version a" and d1: "d1 = (w_db w)\<lparr>db_invoices :=
        update_where (\<lambda>x. x = r) (invoice_set (invoice_columns a) now) (db_invoices (w_db w))\<rparr>" by blast
    from invoice_at_update [OF at(1), of "invoice_set (invoice_columns a) now"] d1 w' v at(2)
    show ?thesis by (simp add: invoice_stored_def invoice_at_def)
  qed
qed

end
