(* ===== verification/Billing_Rules.thy ===== *)
theory Billing_Rules
  imports Billing_Application Invoice_Laws
begin

text \<open>
  What the parts of the billing use cases do when they succeed: a payment is inserted or found
  under its key, an amount is applied to exactly one invoice, an invoice is generated or found.
\<close>

section \<open>Payments\<close>

definition has_key :: "string \<Rightarrow> string \<Rightarrow> payment_row \<Rightarrow> bool" where
  "has_key t k x \<longleftrightarrow> pw_tenant_id x = t \<and> pw_idempotency_key x = Some k"

lemma idempotencyKey_nonempty: "idempotencyKey oor p \<noteq> []"
  by (simp add: idempotencyKey_def Let_def)

lemma find_key_store: "findIDByIdempotencyKey t k w = (r, w') \<Longrightarrow> same_store w w'"
  unfolding findIDByIdempotencyKey_def by (rule query_same_store)

lemma find_key_Inr:
  assumes "findIDByIdempotencyKey t k w = (Inr i, w')"
  shows "map_option pw_id (find (has_key t k) (db_payments (w_db w))) = Some i"
  using assms
  by (auto simp: findIDByIdempotencyKey_def query_Inr findPaymentID_def one_row_def has_key_def [abs_def] split: option.splits)

lemma find_key_NoRows:
  assumes "findIDByIdempotencyKey t k w = (Inl e, w')" and "errors_Is_NoRows e"
    and "\<And>n err. env_fault (w_env w) n = Some err \<Longrightarrow> \<not> errors_Is_NoRows err"
  shows "find (has_key t k) (db_payments (w_db w)) = None"
  using assms
  by (auto simp: findIDByIdempotencyKey_def query_def stmt_def Let_def findPaymentID_def one_row_def
      has_key_def [abs_def] split: option.splits sum.splits prod.splits)

lemma found_payment_Some:
  assumes "found_payment res p = Some p'" and "findIDByIdempotencyKey (py_TenantID p) k w = (res, w')"
  shows "\<exists>x. find (has_key (py_TenantID p) k) (db_payments (w_db w)) = Some x \<and> py_ID p' = pw_id x \<and> pw_id x \<noteq> []"
  using assms find_key_Inr [of "py_TenantID p" k w "projr res" w']
  by (auto simp: found_payment_def split: sum.splits if_splits)

lemma payment_violation_None:
  assumes "payment_violation fk d others r = None"
  shows "pw_id r \<notin> pw_id ` set others"
    and "pw_idempotency_key r = Some k \<Longrightarrow> find (has_key (pw_tenant_id r) k) others = None"
proof -
  from assms show "pw_id r \<notin> pw_id ` set others"
    unfolding payment_violation_def by (simp split: if_splits)
  assume "pw_idempotency_key r = Some k"
  with assms have "\<not> (\<exists>x\<in>set others. pw_tenant_id x = pw_tenant_id r \<and> pw_idempotency_key x = Some k)"
    unfolding payment_violation_def by (simp split: if_splits)
  then show "find (has_key (pw_tenant_id r) k) others = None"
    by (auto simp: find_None_iff has_key_def)
qed

text \<open>The row a new payment becomes.\<close>

definition new_payment_row :: "PaymentAggregate \<Rightarrow> string \<Rightarrow> go_time \<Rightarrow> payment_row" where
  "new_payment_row p k now = (payment_columns p (Some k))\<lparr>pw_created_at := now, pw_updated_at := now\<rparr>"

lemma new_payment_row_simps [simp]:
  "pw_id (new_payment_row p k now) = py_ID p" "pw_tenant_id (new_payment_row p k now) = py_TenantID p"
  "pw_idempotency_key (new_payment_row p k now) = Some k" "pw_amount (new_payment_row p k now) = py_Amount p"
  "pw_invoice_id (new_payment_row p k now) = py_InvoiceID p"
  by (simp_all add: new_payment_row_def payment_columns_def)

lemma insertPayment_Inr:
  assumes "insertPayment p k w = (Inr u, w')"
  shows "\<exists>now. w_db w' = (w_db w)\<lparr>db_payments := db_payments (w_db w) @ [new_payment_row p k now]\<rparr>
    \<and> find (has_key (py_TenantID p) k) (db_payments (w_db w)) = None
    \<and> w_env w' = w_env w \<and> w_side w' = w_side w"
proof -
  from assms obtain fk now d where i: "insert_payment_row (payment_columns p (Some k)) fk now (w_db w) = Inr (u, d)"
    and w: "w_db w' = d" "w_env w' = w_env w" "w_side w' = w_side w"
    by (auto simp: insertPayment_def stmt_Inr)
  from i have v: "payment_violation fk (w_db w) (db_payments (w_db w)) (new_payment_row p k now) = None"
    and d: "d = (w_db w)\<lparr>db_payments := db_payments (w_db w) @ [new_payment_row p k now]\<rparr>"
    by (auto simp: insert_payment_row_def Let_def new_payment_row_def split: option.splits)
  from payment_violation_None(2) [OF v, of k] d w show ?thesis by auto
qed

lemma insertPayment_Inl: "insertPayment p k w = (Inl e, w') \<Longrightarrow> same_store w w'"
  by (auto simp: insertPayment_def stmt_def Let_def same_store_def split: option.splits sum.splits prod.splits)

text \<open>A payment row was found under the key, or there was none and one was added.\<close>

definition payment_found :: "PaymentAggregate \<Rightarrow> string \<Rightarrow> PaymentAggregate \<Rightarrow> world \<Rightarrow> world \<Rightarrow> bool" where
  "payment_found p k p' w w' \<longleftrightarrow>
     (\<exists>x. find (has_key (py_TenantID p) k) (db_payments (w_db w)) = Some x \<and> py_ID p' = pw_id x \<and> pw_id x \<noteq> [])
     \<and> same_store w w'"

definition payment_added :: "PaymentAggregate \<Rightarrow> string \<Rightarrow> PaymentAggregate \<Rightarrow> world \<Rightarrow> world \<Rightarrow> bool" where
  "payment_added p k p' w w' \<longleftrightarrow>
     find (has_key (py_TenantID p) k) (db_payments (w_db w)) = None \<and> py_ID p' = py_ID p
     \<and> (\<exists>now rows. w_db w' = (w_db w)\<lparr>db_payments := db_payments (w_db w) @ [new_payment_row p k now],
          db_outbox_events := db_outbox_events (w_db w) @ rows\<rparr>
        \<and> outbox_rows_for (py_ID p) ''Payment'' (map EvPayment (py_events p)) rows)
     \<and> w_env w' = w_env w \<and> w_side w' = w_side w"

lemma insert_or_existing_Inr:
  assumes "insert_or_existing p k w = (Inr r, w')" and "k \<noteq> []"
  shows "(r = None \<and> insertPayment p k w = (Inr (), w')) \<or> (\<exists>p'. r = Some p' \<and> payment_found p k p' w w')"
proof -
  obtain res w1 where i: "insertPayment p k w = (res, w1)" by fastforce
  show ?thesis
  proof (cases res)
    case (Inr u)
    with assms i show ?thesis by (simp add: insert_or_existing_def act_simps)
  next
    case (Inl err)
    obtain e w2 where f: "findIDByIdempotencyKey (py_TenantID p) k w1 = (e, w2)" by fastforce
    from assms i Inl f obtain p' where p': "found_payment e p = Some p'" "r = Some p'" "w' = w2"
      by (auto simp: insert_or_existing_def act_simps split: if_splits option.splits)
    have s: "same_store w w1" using insertPayment_Inl i Inl by blast
    with found_payment_Some [OF p'(1) f] find_key_store [OF f] p' show ?thesis
      unfolding payment_found_def by (metis same_store_def same_store_trans)
  qed
qed

lemma save_new_payment_Inr:
  assumes "save_new_payment p k w = (Inr p', w')" and "k \<noteq> []"
  shows "payment_found p k p' w w' \<or> payment_added p k p' w w'"
proof -
  obtain g w1 where g: "query (GetPaymentByID (py_ID p) (py_TenantID p)) w = (g, w1)" by fastforce
  note s1 = query_same_store [OF g]
  from assms g obtain ex w2 where i: "insert_or_existing p k w1 = (Inr ex, w2)"
    and rest: "(case ex of Some p' \<Rightarrow> ret p'
       | None \<Rightarrow> seqE (OutboxWriter_SaveEvents (py_ID p) ''Payment'' (map EvPayment (py_events p)))
               (ret (PaymentAggregate_ClearEvents p))) w2 = (Inr p', w')"
    by (cases g) (auto simp: save_new_payment_def tryE_apply bindE_apply raise_apply split: if_splits prod.splits sum.splits)
  from insert_or_existing_Inr [OF i assms(2)] show ?thesis
  proof
    assume n: "ex = None \<and> insertPayment p k w1 = (Inr (), w2)"
    with rest obtain w3 where o: "OutboxWriter_SaveEvents (py_ID p) ''Payment'' (map EvPayment (py_events p)) w2 = (Inr (), w3)"
      and p': "p' = PaymentAggregate_ClearEvents p" "w' = w3" by (auto simp: act_inv)
    from SaveEvents_effect [OF o] insertPayment_Inr [of p k w1 "()" w2] n s1 p'
    have "payment_added p k p' w w'"
      unfolding payment_added_def same_store_def by (auto simp: PaymentAggregate_ClearEvents_def) metis
    then show ?thesis ..
  next
    assume "\<exists>p''. ex = Some p'' \<and> payment_found p k p'' w1 w2"
    with rest s1 have "payment_found p k p' w w'"
      unfolding payment_found_def same_store_def by (auto simp: ret_Inr)
    then show ?thesis ..
  qed
qed

lemma Payment_Save_Inr:
  assumes "PaymentRepository_Save p w = (Inr p', w')"
  shows "payment_found p (idempotencyKey (env_oor (w_env w)) p) p' w w'
    \<or> payment_added p (idempotencyKey (env_oor (w_env w)) p) p' w w'"
proof -
  let ?k = "idempotencyKey (env_oor (w_env w)) p"
  obtain res w1 where f: "findIDByIdempotencyKey (py_TenantID p) ?k w = (res, w1)" by fastforce
  note s1 = find_key_store [OF f]
  show ?thesis
  proof (cases "found_payment res p")
    case None
    with assms f have "save_new_payment p ?k w1 = (Inr p', w')"
      by (simp add: PaymentRepository_Save_def getEnv_def bindE_def tryE_def Let_def idempotencyKey_nonempty)
    from save_new_payment_Inr [OF this idempotencyKey_nonempty] s1 show ?thesis
      unfolding payment_found_def payment_added_def same_store_def by auto
  next
    case (Some q)
    with assms f have "p' = q" "w' = w1"
      by (simp_all add: PaymentRepository_Save_def getEnv_def bindE_def tryE_def ret_def Let_def idempotencyKey_nonempty)
    with found_payment_Some [OF Some f] s1 show ?thesis unfolding payment_found_def by blast
  qed
qed

section \<open>Applying an amount\<close>

text \<open>One invoice of the tenant has the amount applied; its line items are rewritten as they were.\<close>

definition amount_applied :: "string \<Rightarrow> TenantID \<Rightarrow> float64 \<Rightarrow> database \<Rightarrow> database \<Rightarrow> bool" where
  "amount_applied i t amount d d' \<longleftrightarrow>
     (\<exists>r now a set_at rows. invoice_at d i t = Some r
        \<and> InvoiceAggregate_ApplyPayment amount now (rehydrate_invoice r (items_of d i)) = Inr a
        \<and> d' = d\<lparr>db_invoices := update_where (\<lambda>x. x = r) (invoice_set (invoice_columns a) set_at) (db_invoices d),
             db_outbox_events := db_outbox_events d @ rows,
             db_invoice_line_items := filter (\<lambda>li. li_InvoiceID li \<noteq> i) (db_invoice_line_items d) @ items_of d i\<rparr>)"

lemma ApplyPayment_keeps:
  assumes "InvoiceAggregate_ApplyPayment amount now a = Inr a'"
  shows "iv_ID a' = iv_ID a" "iv_TenantID a' = iv_TenantID a" "iv_Version a' = iv_Version a"
    "iv_BookingID a' = iv_BookingID a" "iv_LineItems a' = iv_LineItems a" "iv_InvoiceNumber a' = iv_InvoiceNumber a"
    "iv_Total a' = iv_Total a"
  using assms by (auto simp: InvoiceAggregate_ApplyPayment_def Let_def split: if_splits)

text \<open>Saving a changed copy of a stored invoice.\<close>

lemma save_loaded_invoice:
  assumes "invoices_ok (w_db w)" and "InvoiceRepository_Save a w = (Inr a', w')"
    and "invoice_at (w_db w) (iv_ID a) (iv_TenantID a) = Some r"
  shows "\<exists>set_at rows. w_db w' = (w_db w)\<lparr>db_invoices :=
        update_where (\<lambda>x. x = r) (invoice_set (invoice_columns a) set_at) (db_invoices (w_db w)),
      db_outbox_events := db_outbox_events (w_db w) @ rows,
      db_invoice_line_items := filter (\<lambda>li. li_InvoiceID li \<noteq> iv_ID a) (db_invoice_line_items (w_db w)) @ iv_LineItems a\<rparr>
    \<and> w_env w' = w_env w \<and> w_side w' = w_side w"
  using assms(2)
proof (rule Invoice_Save_Inr)
  fix d1 rows
  assume wr: "invoice_written a (w_db w) d1"
    and w': "w_db w' = d1\<lparr>db_outbox_events := db_outbox_events d1 @ rows,
      db_invoice_line_items := filter (\<lambda>li. li_InvoiceID li \<noteq> iv_ID a) (db_invoice_line_items d1) @ iv_LineItems a\<rparr>"
    and s: "w_env w' = w_env w" "w_side w' = w_side w"
  from invoice_written_stored [OF assms(1) wr assms(3)] obtain now where
    "d1 = (w_db w)\<lparr>db_invoices := update_where (\<lambda>x. x = r) (invoice_set (invoice_columns a) now) (db_invoices (w_db w))\<rparr>"
    by blast
  with w' s show ?thesis by auto
qed

lemma apply_to_invoice_Inr:
  assumes "invoices_ok (w_db w)" and "apply_to_invoice i t amount w = (Inr u, w')"
  shows "amount_applied i t amount (w_db w) (w_db w') \<and> w_env w' = w_env w \<and> w_side w' = w_side w
    \<and> invoices_ok (w_db w')"
proof -
  from assms(2) obtain a w1 a' a'' w2 where f: "InvoiceRepository_Find i t w = (Inr a, w1)"
    and ap: "InvoiceAggregate_ApplyPayment amount (env_clk (w_env w1) (w_nclk w1)) a = Inr a'"
    and s: "InvoiceRepository_Save a' (w1\<lparr>w_nclk := Suc (w_nclk w1)\<rparr>) = (Inr a'', w2)" and w': "w' = w2"
    by (auto simp: apply_to_invoice_def act_inv)
  have st: "w_db w1 = w_db w" "w_env w1 = w_env w" "w_side w1 = w_side w"
    using findInvoiceBySQL_store [OF f [unfolded InvoiceRepository_Find_def]] by (auto simp: same_store_def)
  from Invoice_Find_Inr [OF f] obtain r where r: "invoice_at (w_db w) i t = Some r" "ir_id r = i" "ir_tenant_id r = t"
    "a = rehydrate_invoice r (items_of (w_db w) i)" by blast
  note k = ApplyPayment_keeps [OF ap]
  have "invoices_ok (w_db w2)" using Invoice_Save_ok [OF _ s] assms(1) st by simp
  moreover have "\<exists>set_at rows. w_db w2 = (w_db w)\<lparr>db_invoices :=
        update_where (\<lambda>x. x = r) (invoice_set (invoice_columns a') set_at) (db_invoices (w_db w)),
      db_outbox_events := db_outbox_events (w_db w) @ rows,
      db_invoice_line_items := filter (\<lambda>li. li_InvoiceID li \<noteq> i) (db_invoice_line_items (w_db w)) @ items_of (w_db w) i\<rparr>
    \<and> w_env w2 = w_env w \<and> w_side w2 = w_side w"
    using save_loaded_invoice [OF _ s, of r] assms(1) st k r by simp
  ultimately show ?thesis using r ap w' unfolding amount_applied_def by blast
qed

end
