(* ===== verification/Billing.thy ===== *)
theory Billing
  imports Billing_Rules
begin

text \<open>
  Recording payments: what it does to invoice and ledger, what a repeated submission does, and
  that concurrent changes of an invoice are not lost.
\<close>

section \<open>Recording a payment\<close>

text \<open>The key of the payment a command makes; it does not depend on its id and time.\<close>

definition command_payment :: "RecordPaymentCommand \<Rightarrow> PaymentID \<Rightarrow> go_time \<Rightarrow> PaymentAggregate" where
  "command_payment cmd i now =
     NewPaymentAggregate i (rpc_TenantID cmd) (rpc_InvoiceID cmd) (rpc_PaymentDate cmd) (rpc_Amount cmd)
       (rpc_Method cmd) (rpc_Reference cmd) (rpc_Remarks cmd) now"

definition command_key :: "(float64 \<Rightarrow> int) \<Rightarrow> RecordPaymentCommand \<Rightarrow> string" where
  "command_key oor cmd = idempotencyKey oor (command_payment cmd [] 0)"

lemma command_key_payment: "idempotencyKey oor (command_payment cmd i now) = command_key oor cmd"
  by (simp add: command_key_def command_payment_def idempotencyKey_def NewPaymentAggregate_def Let_def)

lemma command_payment_simps [simp]:
  "py_TenantID (command_payment cmd i now) = rpc_TenantID cmd" "py_ID (command_payment cmd i now) = i"
  "py_Amount (command_payment cmd i now) = rpc_Amount cmd" "py_InvoiceID (command_payment cmd i now) = rpc_InvoiceID cmd"
  by (simp_all add: command_payment_def NewPaymentAggregate_def)

text \<open>What the ledger says about a payment.\<close>

definition ledger_entry :: "payment_row \<Rightarrow> string \<times> string \<times> string \<times> float64 \<times> string option" where
  "ledger_entry x = (pw_id x, pw_tenant_id x, pw_invoice_id x, pw_amount x, pw_idempotency_key x)"

definition ledger :: "database \<Rightarrow> (string \<times> string \<times> string \<times> float64 \<times> string option) list" where
  "ledger d = map ledger_entry (db_payments d)"

text \<open>Two databases that agree on invoices and line items.\<close>

definition same_invoices :: "database \<Rightarrow> database \<Rightarrow> bool" where
  "same_invoices d d' \<longleftrightarrow> db_invoices d' = db_invoices d \<and> db_invoice_line_items d' = db_invoice_line_items d"

lemma SetRazorpayFields_Inr:
  assumes "SetRazorpayFields i t a b c w = (Inr u, w')"
  shows "ledger (w_db w') = ledger (w_db w) \<and> same_invoices (w_db w) (w_db w') \<and> w_env w' = w_env w"
proof -
  from assms obtain f fk now d' where u: "update_payment i t f fk now (w_db w) = Inr (u, d')"
    and w': "w_db w' = d'" "w_env w' = w_env w"
    and f: "\<And>r. ledger_entry (f r) = ledger_entry r"
    by (auto simp: SetRazorpayFields_def stmt_Inr ledger_entry_def)
  have "map ledger_entry (update_where p (\<lambda>r. (f r)\<lparr>pw_updated_at := now\<rparr>) xs) = map ledger_entry xs" for p xs
    using f by (intro map_update_where) (simp add: ledger_entry_def)
  with u show ?thesis
    unfolding w' by (auto simp: update_payment_def Let_def ledger_def same_invoices_def split: option.splits)
qed

lemma record_payment_Inr:
  assumes "invoices_ok (w_db w)" and "RecordPaymentUseCase_Execute cmd w = (Inr pid, w')"
  shows "\<exists>w2 w3 i now p'. amount_applied (rpc_InvoiceID cmd) (rpc_TenantID cmd) (rpc_Amount cmd) (w_db w) (w_db w2)
    \<and> w_env w2 = w_env w \<and> invoices_ok (w_db w2)
    \<and> PaymentRepository_Save (command_payment cmd i now) w2 = (Inr p', w3) \<and> pid = py_ID p'
    \<and> ledger (w_db w') = ledger (w_db w3) \<and> same_invoices (w_db w3) (w_db w')
    \<and> w_env w' = w_env w"
proof -
  let ?w = "w\<lparr>w_nop := Suc (w_nop w)\<rparr>"
  from assms(2) obtain w0 where tx: "record_payment_tx cmd ?w = (Inr pid, w0)" and w': "w_db w' = w_db w0" "w_env w' = w_env w0"
    by (auto simp: RecordPaymentUseCase_Execute_def act_inv uow_Inr)
  then obtain w1 p' w3 where a: "apply_to_invoice (rpc_InvoiceID cmd) (rpc_TenantID cmd) (rpc_Amount cmd) ?w = (Inr (), w1)"
    and s: "PaymentRepository_Save (command_payment cmd (env_uuid (w_env w1) (w_nuuid w1)) (env_clk (w_env w1) (w_nclk w1)))
        (w1\<lparr>w_nuuid := Suc (w_nuuid w1), w_nclk := Suc (w_nclk w1)\<rparr>) = (Inr p', w3)"
    and z: "(if rpc_RazorpayPaymentID cmd \<noteq> []
            then SetRazorpayFields (py_ID p') (rpc_TenantID cmd) (rpc_RazorpayOrderID cmd)
              (rpc_RazorpayPaymentID cmd) (rpc_RazorpaySignature cmd)
            else ret ()) w3 = (Inr (), w0)" and pid: "pid = py_ID p'"
    by (auto simp: record_payment_tx_def act_inv command_payment_def)
  have fields: "ledger (w_db w0) = ledger (w_db w3) \<and> same_invoices (w_db w3) (w_db w0) \<and> w_env w0 = w_env w3"
    using z SetRazorpayFields_Inr by (auto simp: ret_Inr same_invoices_def split: if_splits)
  from apply_to_invoice_Inr [OF _ a] assms(1)
  have "amount_applied (rpc_InvoiceID cmd) (rpc_TenantID cmd) (rpc_Amount cmd) (w_db w) (w_db w1)" "w_env w1 = w_env w"
    "invoices_ok (w_db w1)" by simp_all
  moreover have "w_env w3 = w_env w1"
    using Payment_Save_Inr [OF s] by (auto simp: payment_found_def payment_added_def same_store_def)
  ultimately show ?thesis using s pid fields w'
    by (intro exI [of _ "w1\<lparr>w_nuuid := Suc (w_nuuid w1), w_nclk := Suc (w_nclk w1)\<rparr>"] exI [of _ w3]
        exI [of _ "env_uuid (w_env w1) (w_nuuid w1)"] exI [of _ "env_clk (w_env w1) (w_nclk w1)"] exI [of _ p']) auto
qed

text \<open>The invoice after an amount was applied, and everything else of the invoice tables.\<close>

lemma amount_applied_row:
  assumes "amount_applied i t amount d d'"
  shows "\<exists>r now a r'. invoice_at d i t = Some r
      \<and> InvoiceAggregate_ApplyPayment amount now (rehydrate_invoice r (items_of d i)) = Inr a
      \<and> invoice_at d' i t = Some r' \<and> ir_paid_amount r' = iv_PaidAmount a \<and> ir_total r' = iv_Total a
      \<and> ir_payment_status r' = iv_PaymentStatus a \<and> ir_status r' = iv_Status a \<and> ir_version r' = ir_version r + 1
      \<and> items_of d' i = items_of d i
      \<and> filter (\<lambda>x. ir_id x \<noteq> i) (db_invoices d') = filter (\<lambda>x. ir_id x \<noteq> i) (db_invoices d)"
proof -
  from assms obtain r now a set_at rows where r: "invoice_at d i t = Some r"
    and ap: "InvoiceAggregate_ApplyPayment amount now (rehydrate_invoice r (items_of d i)) = Inr a"
    and d': "d' = d\<lparr>db_invoices := update_where (\<lambda>x. x = r) (invoice_set (invoice_columns a) set_at) (db_invoices d),
             db_outbox_events := db_outbox_events d @ rows,
             db_invoice_line_items := filter (\<lambda>li. li_InvoiceID li \<noteq> i) (db_invoice_line_items d) @ items_of d i\<rparr>"
    unfolding amount_applied_def by blast
  have ri: "ir_id r = i" using find_SomeD [OF r [unfolded invoice_at_def]] by simp
  have "invoice_at d' i t = Some (invoice_set (invoice_columns a) set_at r)"
    using invoice_at_update [OF r, of "invoice_set (invoice_columns a) set_at"] by (simp add: d' invoice_at_def)
  moreover have "items_of d' i = items_of d i" by (simp add: d' items_of_def)
  moreover have "filter (\<lambda>x. ir_id x \<noteq> i) (db_invoices d') = filter (\<lambda>x. ir_id x \<noteq> i) (db_invoices d)"
    unfolding d' using ri filter_update_where [of "\<lambda>x. x = r" "\<lambda>x. ir_id x \<noteq> i"] by simp
  ultimately show ?thesis using r ap
    by (intro exI [of _ r] exI [of _ now] exI [of _ a] exI [of _ "invoice_set (invoice_columns a) set_at r"]) simp
qed

text \<open>A payment under a key the tenant has not used is applied once and added to the ledger.\<close>

lemma record_payment_added:
  assumes "invoices_ok (w_db w)" and "RecordPaymentUseCase_Execute cmd w = (Inr pid, w')"
    and "find (has_key (rpc_TenantID cmd) (command_key (env_oor (w_env w)) cmd)) (db_payments (w_db w)) = None"
  shows "\<exists>d. amount_applied (rpc_InvoiceID cmd) (rpc_TenantID cmd) (rpc_Amount cmd) (w_db w) d
    \<and> same_invoices d (w_db w')
    \<and> ledger (w_db w') = ledger (w_db w) @ [(pid, rpc_TenantID cmd, rpc_InvoiceID cmd, rpc_Amount cmd,
        Some (command_key (env_oor (w_env w)) cmd))]"
proof -
  from record_payment_Inr [OF assms(1,2)] obtain w2 w3 i now p' where
    a: "amount_applied (rpc_InvoiceID cmd) (rpc_TenantID cmd) (rpc_Amount cmd) (w_db w) (w_db w2)"
    and e: "w_env w2 = w_env w" and s: "PaymentRepository_Save (command_payment cmd i now) w2 = (Inr p', w3)"
    and pid: "pid = py_ID p'" and l: "ledger (w_db w') = ledger (w_db w3)" "same_invoices (w_db w3) (w_db w')" by blast
  have pay: "db_payments (w_db w2) = db_payments (w_db w)" using a by (auto simp: amount_applied_def)
  from Payment_Save_Inr [OF s] assms(3) e pay
  have "payment_added (command_payment cmd i now) (command_key (env_oor (w_env w)) cmd) p' w2 w3"
    by (auto simp: command_key_payment payment_found_def)
  then have "ledger (w_db w3) = ledger (w_db w) @ [(pid, rpc_TenantID cmd, rpc_InvoiceID cmd, rpc_Amount cmd,
        Some (command_key (env_oor (w_env w)) cmd))]" and "same_invoices (w_db w2) (w_db w3)"
    by (auto simp: payment_added_def ledger_def ledger_entry_def pid pay same_invoices_def)
  moreover have "same_invoices (w_db w2) (w_db w')" using calculation(2) l(2) by (simp add: same_invoices_def)
  ultimately show ?thesis using a l(1) by auto
qed


text \<open>
  Property C8.  A command whose key the tenant already used, as a double submission has, is
  accepted: the ledger stays as it is and the id of the first payment is returned, but the
  amount is applied to the invoice once more.
\<close>

theorem duplicate_payment_counts_twice:
  assumes "invoices_ok (w_db w)" and "RecordPaymentUseCase_Execute cmd w = (Inr pid, w')"
    and "find (has_key (rpc_TenantID cmd) (command_key (env_oor (w_env w)) cmd)) (db_payments (w_db w)) = Some x"
  shows "pid = pw_id x \<and> ledger (w_db w') = ledger (w_db w)
    \<and> (\<exists>r now a r'. invoice_at (w_db w) (rpc_InvoiceID cmd) (rpc_TenantID cmd) = Some r
      \<and> InvoiceAggregate_ApplyPayment (rpc_Amount cmd) now (rehydrate_invoice r (items_of (w_db w) (rpc_InvoiceID cmd))) = Inr a
      \<and> invoice_at (w_db w') (rpc_InvoiceID cmd) (rpc_TenantID cmd) = Some r'
      \<and> ir_paid_amount r' = iv_PaidAmount a \<and> ir_payment_status r' = iv_PaymentStatus a \<and> ir_status r' = iv_Status a)"
proof -
  from record_payment_Inr [OF assms(1,2)] obtain w2 w3 i now p' where
    a: "amount_applied (rpc_InvoiceID cmd) (rpc_TenantID cmd) (rpc_Amount cmd) (w_db w) (w_db w2)"
    and e: "w_env w2 = w_env w" and s: "PaymentRepository_Save (command_payment cmd i now) w2 = (Inr p', w3)"
    and pid: "pid = py_ID p'" and l: "ledger (w_db w') = ledger (w_db w3)" "same_invoices (w_db w3) (w_db w')" by blast
  have pay: "db_payments (w_db w2) = db_payments (w_db w)" using a by (auto simp: amount_applied_def)
  from Payment_Save_Inr [OF s] assms(3) e pay
  have "payment_found (command_payment cmd i now) (command_key (env_oor (w_env w)) cmd) p' w2 w3"
    by (auto simp: command_key_payment payment_added_def)
  then have "py_ID p' = pw_id x" "w_db w3 = w_db w2"
    using assms(3) pay by (auto simp: payment_found_def same_store_def)
  with amount_applied_row [OF a] l pid pay show ?thesis
    by (simp add: same_invoices_def invoice_at_def items_of_def ledger_def) blast
qed

section \<open>A world with an invoice\<close>

definition demo_invoice :: invoice_row where
  "demo_invoice =
     \<lparr>ir_id = ''i1'', ir_invoice_number = ''INV-1'', ir_booking_id = ''b1'', ir_customer_id = ''c1'', ir_trip_id = None,
      ir_subtotal = Fin 100, ir_tax = Fin 0, ir_cgst = Fin 0, ir_sgst = Fin 0, ir_igst = Fin 0, ir_discount = Fin 0,
      ir_total = Fin 100, ir_payment_status = ''pending'', ir_paid_amount = Fin 0, ir_status = ''outstanding'',
      ir_due_date = None, ir_irn = None, ir_irn_ack_no = None, ir_irn_ack_date = None, ir_signed_qr = None,
      ir_ewb_number = None, ir_tenant_id = ''t1'', ir_version = 1, ir_created_at = 0, ir_updated_at = 0\<rparr>"

definition demo_billing_world :: world where
  "demo_billing_world = demo_world\<lparr>w_db := demo_db\<lparr>db_invoices := [demo_invoice]\<rparr>\<rparr>"

definition demo_payment_command :: RecordPaymentCommand where
  "demo_payment_command =
     \<lparr>rpc_TenantID = ''t1'', rpc_InvoiceID = ''i1'', rpc_PaymentDate = 0, rpc_Amount = Fin 40, rpc_Method = ''cash'',
      rpc_Reference = Some ''R1'', rpc_Remarks = None, rpc_RazorpayOrderID = [], rpc_RazorpayPaymentID = [],
      rpc_RazorpaySignature = []\<rparr>"

definition demo_paid_once :: world where
  "demo_paid_once = snd (RecordPaymentUseCase_Execute demo_payment_command demo_billing_world)"

lemma demo_billing_ok: "invoices_ok (w_db demo_billing_world)"
  by (simp add: invoices_ok_def demo_billing_world_def)


lemma Payment_Save_invoices:
  assumes "PaymentRepository_Save p w = (Inr p', w')"
  shows "same_invoices (w_db w) (w_db w')"
  using Payment_Save_Inr [OF assms]
  by (auto simp: payment_found_def payment_added_def same_store_def same_invoices_def)

lemma record_payment_ok:
  assumes "invoices_ok (w_db w)" and "RecordPaymentUseCase_Execute cmd w = (Inr pid, w')"
  shows "invoices_ok (w_db w')"
proof -
  from record_payment_Inr [OF assms] obtain w2 w3 i now p' where "invoices_ok (w_db w2)"
    and s: "PaymentRepository_Save (command_payment cmd i now) w2 = (Inr p', w3)" and "same_invoices (w_db w3) (w_db w')"
    by blast
  with Payment_Save_invoices [OF s] show ?thesis by (simp add: invoices_ok_def same_invoices_def)
qed

theorem duplicate_payment_counts_twice_witness:
  "ledger (w_db (snd (RecordPaymentUseCase_Execute demo_payment_command demo_paid_once))) = ledger (w_db demo_paid_once)
   \<and> map_option ir_paid_amount (invoice_at (w_db (snd (RecordPaymentUseCase_Execute demo_payment_command demo_paid_once))) ''i1'' ''t1'')
     = Some (Fin 80)"
proof -
  have ok1: "\<not> isl (fst (RecordPaymentUseCase_Execute demo_payment_command demo_billing_world))" by code_simp
  have ok2: "\<not> isl (fst (RecordPaymentUseCase_Execute demo_payment_command demo_paid_once))" by code_simp
  have inv: "invoices_ok (w_db demo_paid_once)"
    unfolding demo_paid_once_def
    by (rule record_payment_ok [OF demo_billing_ok
          run_Inr [of "RecordPaymentUseCase_Execute demo_payment_command" demo_billing_world, OF ok1]])
  have "find (has_key (rpc_TenantID demo_payment_command)
      (command_key (env_oor (w_env demo_paid_once)) demo_payment_command)) (db_payments (w_db demo_paid_once)) \<noteq> None"
    by code_simp
  then obtain x where "find (has_key (rpc_TenantID demo_payment_command)
      (command_key (env_oor (w_env demo_paid_once)) demo_payment_command)) (db_payments (w_db demo_paid_once)) = Some x" by blast
  from duplicate_payment_counts_twice [OF inv
      run_Inr [of "RecordPaymentUseCase_Execute demo_payment_command" demo_paid_once, OF ok2] this]
  have "ledger (w_db (snd (RecordPaymentUseCase_Execute demo_payment_command demo_paid_once))) = ledger (w_db demo_paid_once)"
    by blast
  moreover have "map_option ir_paid_amount (invoice_at (w_db (snd (RecordPaymentUseCase_Execute demo_payment_command demo_paid_once))) ''i1'' ''t1'')
     = Some (Fin 80)" by code_simp
  ultimately show ?thesis ..
qed

section \<open>Concurrent payments\<close>

text \<open>
  Property C9.  Two requests loaded the same invoice and applied a payment each; after the first
  stored its copy, storing the second fails, so that no payment is overwritten.
\<close>

theorem invoice_no_lost_payment:
  assumes "invoices_ok (w_db w0)"
    and "InvoiceRepository_Find i t w0 = (Inr a, w1)" and "InvoiceRepository_Find i t w1 = (Inr b, w2)"
    and "InvoiceAggregate_ApplyPayment x now a = Inr a'" and "InvoiceAggregate_ApplyPayment y now' b = Inr b'"
    and "InvoiceRepository_Save a' w2 = (Inr a'', w3)"
  shows "\<exists>e w4. InvoiceRepository_Save b' w3 = (Inl e, w4)"
  using invoice_repo.no_lost_update [OF assms(1-3) _ _ _ _ _ _ assms(6), of b']
    ApplyPayment_keeps [OF assms(4)] ApplyPayment_keeps [OF assms(5)] by simp

theorem invoice_no_lost_payment_witness: "\<exists>b' w3 e w4. InvoiceRepository_Save b' w3 = (Inl e, w4)"
proof -
  define w1 where "w1 = snd (InvoiceRepository_Find ''i1'' ''t1'' demo_billing_world)"
  define w2 where "w2 = snd (InvoiceRepository_Find ''i1'' ''t1'' w1)"
  define a where "a = projr (fst (InvoiceRepository_Find ''i1'' ''t1'' demo_billing_world))"
  define b where "b = projr (fst (InvoiceRepository_Find ''i1'' ''t1'' w1))"
  define a' where "a' = projr (InvoiceAggregate_ApplyPayment (Fin 40) 0 a)"
  define b' where "b' = projr (InvoiceAggregate_ApplyPayment (Fin 60) 0 b)"
  have f1: "InvoiceRepository_Find ''i1'' ''t1'' demo_billing_world = (Inr a, w1)"
    unfolding a_def w1_def by (rule run_Inr) code_simp
  have f2: "InvoiceRepository_Find ''i1'' ''t1'' w1 = (Inr b, w2)"
    unfolding b_def w2_def w1_def by (rule run_Inr) code_simp
  have "\<not> isl (InvoiceAggregate_ApplyPayment (Fin 40) 0 a)" unfolding a_def by code_simp
  then have c: "InvoiceAggregate_ApplyPayment (Fin 40) 0 a = Inr a'" by (simp add: a'_def)
  have "\<not> isl (InvoiceAggregate_ApplyPayment (Fin 60) 0 b)" unfolding b_def w1_def by code_simp
  then have d: "InvoiceAggregate_ApplyPayment (Fin 60) 0 b = Inr b'" by (simp add: b'_def)
  have s: "InvoiceRepository_Save a' w2 = (Inr (projr (fst (InvoiceRepository_Save a' w2))), snd (InvoiceRepository_Save a' w2))"
    by (rule run_Inr) (unfold a'_def a_def w2_def w1_def, code_simp)
  show ?thesis using invoice_no_lost_payment [OF demo_billing_ok f1 f2 c d s] by blast
qed

end
