(* ===== verification/Billing_Invariants.thy ===== *)
theory Billing_Invariants
  imports Billing
begin

text \<open>
  Reversing payments: a payment is reversed at most once.
\<close>

section \<open>Reversals\<close>

text \<open>\<open>sql.ErrNoRows\<close> is what a query without a row reports, not a failure of the driver.\<close>

definition driver_faults :: "env \<Rightarrow> bool" where
  "driver_faults e \<longleftrightarrow> (\<forall>n err. env_fault e n = Some err \<longrightarrow> \<not> errors_Is_NoRows err)"

definition reversal_key :: "PaymentID \<Rightarrow> string" where
  "reversal_key i = ''ref:'' @ reversal_reference i"

lemma Payment_Find_Inr:
  assumes "PaymentRepository_Find i t w = (Inr p, w')"
  shows "py_ID p = i \<and> same_store w w'"
proof -
  from assms obtain x w1 where q: "query (GetPaymentByID i t) w = (Inr x, w1)"
    and p: "p = Payment_ToDomain (fst x)" "w' = w1"
    by (auto simp: PaymentRepository_Find_def act_inv split: prod.splits)
  from q have "pw_id (fst x) = i"
    by (auto simp: query_Inr GetPaymentByID_def one_row_def split: option.splits dest: find_SomeD)
  with p query_same_store [OF q] show ?thesis by (simp add: Payment_ToDomain_def NewPaymentAggregate_def)
qed

lemma FindByReference_reversal:
  assumes "TrimSpace (reversal_reference i) = reversal_reference i"
  shows "PaymentRepository_FindByReference (reversal_reference i) t = findIDByIdempotencyKey t (reversal_key i)"
  using assms by (auto simp: PaymentRepository_FindByReference_def reversal_key_def reversal_reference_def)

text \<open>The body of a reversal: it found a reversal, or it made one.\<close>

lemma reverse_payment_Inr:
  assumes "ReversePaymentUseCase_Execute cmd w = (Inr rid, w')"
  obtains original w1 res w2 w3 where "py_ID original = rvc_OriginalPayID cmd" and "same_store w w1"
    and "PaymentRepository_FindByReference (reversal_reference (rvc_OriginalPayID cmd)) (rvc_TenantID cmd) w1 = (res, w2)"
    and "(\<exists>i. res = Inr i \<and> i \<noteq> [] \<and> rid = i \<and> w3 = w2)
      \<or> ((res = Inr [] \<or> (\<exists>e. res = Inl e \<and> errors_Is_NoRows e)) \<and> new_reversal cmd original w2 = (Inr rid, w3))"
    and "w_db w' = w_db w3" and "w_env w1 = w_env w" and "w_env w' = w_env w3"
proof -
  let ?w = "w\<lparr>w_nop := Suc (w_nop w)\<rparr>"
  from assms obtain w3 where tx: "reverse_payment_tx cmd ?w = (Inr rid, w3)" and w': "w_db w' = w_db w3" "w_env w' = w_env w3"
    by (auto simp: ReversePaymentUseCase_Execute_def act_inv uow_Inr)
  then obtain original w1 where f: "PaymentRepository_Find (rvc_OriginalPayID cmd) (rvc_TenantID cmd) ?w = (Inr original, w1)"
    and rest: "bindE (tryE (PaymentRepository_FindByReference (reversal_reference (py_ID original)) (rvc_TenantID cmd))) (\<lambda>res.
       case res of
         Inl err \<Rightarrow> if errors_Is_NoRows err then new_reversal cmd original else raise err
       | Inr existing \<Rightarrow> if existing \<noteq> [] then ret existing else new_reversal cmd original) w1 = (Inr rid, w3)"
    by (auto simp: reverse_payment_tx_def bindE_Inr noRowsAs_Inr)
  from Payment_Find_Inr [OF f] have o: "py_ID original = rvc_OriginalPayID cmd" "same_store w w1" "w_env w1 = w_env w"
    by (auto simp: same_store_def)
  obtain res w2 where r: "PaymentRepository_FindByReference (reversal_reference (rvc_OriginalPayID cmd)) (rvc_TenantID cmd) w1 = (res, w2)"
    by fastforce
  have "(\<exists>i. res = Inr i \<and> i \<noteq> [] \<and> rid = i \<and> w3 = w2)
      \<or> ((res = Inr [] \<or> (\<exists>e. res = Inl e \<and> errors_Is_NoRows e)) \<and> new_reversal cmd original w2 = (Inr rid, w3))"
    using rest r o(1) by (cases res) (auto simp: bindE_Inr tryE_Inr raise_Inr ret_Inr split: if_splits)
  from that [OF o(1,2) r this w'(1) o(3) w'(2)] show thesis .
qed

lemma new_reversal_Inr:
  assumes "invoices_ok (w_db w)" and "new_reversal cmd original w = (Inr rid, w')"
    and "TrimSpace (reversal_reference (py_ID original)) = reversal_reference (py_ID original)"
  obtains p p' w1 where "amount_applied (py_InvoiceID original) (rvc_TenantID cmd) (fneg (py_Amount original)) (w_db w) (w_db w1)"
    and "w_env w1 = w_env w" and "invoices_ok (w_db w1)"
    and "payment_found p (reversal_key (py_ID original)) p' w1 w' \<or> payment_added p (reversal_key (py_ID original)) p' w1 w'"
    and "py_TenantID p = rvc_TenantID cmd" and "py_ID p = env_uuid (w_env w) (w_nuuid w)" and "rid = py_ID p'"
proof -
  let ?w = "w\<lparr>w_nuuid := Suc (w_nuuid w), w_nclk := Suc (Suc (w_nclk w))\<rparr>"
  let ?p = "NewPaymentAggregate (env_uuid (w_env w) (w_nuuid w)) (rvc_TenantID cmd) (py_InvoiceID original)
     (env_clk (w_env w) (w_nclk w)) (fneg (py_Amount original)) (py_Method original)
     (Some (reversal_reference (py_ID original))) (Some (rvc_Reason cmd)) (env_clk (w_env w) (Suc (w_nclk w)))"
  from assms(2) obtain w1 p' where a: "apply_to_invoice (py_InvoiceID original) (rvc_TenantID cmd) (fneg (py_Amount original)) ?w = (Inr (), w1)"
    and s: "PaymentRepository_Save ?p w1 = (Inr p', w')" and rid: "rid = py_ID p'"
    by (auto simp: new_reversal_def act_inv)
  have "reversal_reference (py_ID original) \<noteq> []" by (simp add: reversal_reference_def)
  then have "idempotencyKey oor ?p = reversal_key (py_ID original)" for oor
    using assms(3) by (simp add: idempotencyKey_def NewPaymentAggregate_def Let_def reversal_key_def)
  with Payment_Save_Inr [OF s] apply_to_invoice_Inr [OF _ a] assms(1) rid show thesis
    by (intro that [of w1 ?p p']) (simp_all add: NewPaymentAggregate_def)
qed

text \<open>After a reversal its row is the first with the key, and its id is the one returned.\<close>

lemma reversal_recorded:
  assumes "invoices_ok (w_db w)" and "ReversePaymentUseCase_Execute cmd w = (Inr rid, w')"
    and "\<And>n. env_uuid (w_env w) n \<noteq> []"
    and "TrimSpace (reversal_reference (rvc_OriginalPayID cmd)) = reversal_reference (rvc_OriginalPayID cmd)"
  shows "rid \<noteq> [] \<and> map_option pw_id (find (has_key (rvc_TenantID cmd) (reversal_key (rvc_OriginalPayID cmd))) (db_payments (w_db w'))) = Some rid"
  using assms(2)
proof (rule reverse_payment_Inr)
  let ?k = "reversal_key (rvc_OriginalPayID cmd)"
  fix original w1 res w2 w3
  assume o: "py_ID original = rvc_OriginalPayID cmd" and s1: "same_store w w1" "w_env w1 = w_env w"
    and r: "PaymentRepository_FindByReference (reversal_reference (rvc_OriginalPayID cmd)) (rvc_TenantID cmd) w1 = (res, w2)"
    and b: "(\<exists>i. res = Inr i \<and> i \<noteq> [] \<and> rid = i \<and> w3 = w2)
      \<or> ((res = Inr [] \<or> (\<exists>e. res = Inl e \<and> errors_Is_NoRows e)) \<and> new_reversal cmd original w2 = (Inr rid, w3))"
    and w': "w_db w' = w_db w3"
  note f = r [unfolded FindByReference_reversal [OF assms(4)]]
  have s2: "same_store w w2" using find_key_store [OF f] s1 same_store_trans by blast
  from b show ?thesis
  proof
    assume "\<exists>i. res = Inr i \<and> i \<noteq> [] \<and> rid = i \<and> w3 = w2"
    with find_key_Inr [of "rvc_TenantID cmd" ?k w1 rid w2] f find_key_store [OF f] w' show ?thesis
      by (auto simp: same_store_def)
  next
    assume "(res = Inr [] \<or> (\<exists>e. res = Inl e \<and> errors_Is_NoRows e)) \<and> new_reversal cmd original w2 = (Inr rid, w3)"
    then have n: "new_reversal cmd original w2 = (Inr rid, w3)" ..
    have ok2: "invoices_ok (w_db w2)" using assms(1) s2 by (simp add: same_store_def)
    show ?thesis
      by (rule new_reversal_Inr [OF ok2 n]; use not_sym [OF assms(3)] assms(4) o s2 w' in
          \<open>auto simp: payment_found_def payment_added_def same_store_def find_append has_key_def\<close>)
  qed
qed

text \<open>
  Property C10.  A reversal that is repeated, at any later time and whatever payments were added in
  between, returns the id of the first and changes nothing: the invoice is debited once.
\<close>

theorem reverse_payment_idempotent:
  assumes "invoices_ok (w_db w)" and "ReversePaymentUseCase_Execute cmd w = (Inr rid, w')"
    and "\<And>n. env_uuid (w_env w) n \<noteq> []"
    and "TrimSpace (reversal_reference (rvc_OriginalPayID cmd)) = reversal_reference (rvc_OriginalPayID cmd)"
    and "db_payments (w_db v) = db_payments (w_db w') @ later" and "driver_faults (w_env v)"
    and "ReversePaymentUseCase_Execute cmd v = (Inr rid', v')"
  shows "rid' = rid \<and> w_db v' = w_db v"
proof -
  let ?k = "reversal_key (rvc_OriginalPayID cmd)"
  from reversal_recorded [OF assms(1-4)] obtain x where rid: "rid \<noteq> []" "pw_id x = rid"
    and x: "find (has_key (rvc_TenantID cmd) ?k) (db_payments (w_db v)) = Some x"
    by (auto simp: assms(5) find_append)
  from assms(7) show ?thesis
  proof (rule reverse_payment_Inr)
    fix original w1 res w2 w3
    assume s1: "same_store v w1" "w_env w1 = w_env v"
      and r: "PaymentRepository_FindByReference (reversal_reference (rvc_OriginalPayID cmd)) (rvc_TenantID cmd) w1 = (res, w2)"
      and b: "(\<exists>i. res = Inr i \<and> i \<noteq> [] \<and> rid' = i \<and> w3 = w2)
        \<or> ((res = Inr [] \<or> (\<exists>e. res = Inl e \<and> errors_Is_NoRows e)) \<and> new_reversal cmd original w2 = (Inr rid', w3))"
      and v': "w_db v' = w_db w3"
    note f = r [unfolded FindByReference_reversal [OF assms(4)]]
    have x1: "find (has_key (rvc_TenantID cmd) ?k) (db_payments (w_db w1)) = Some x" using x s1 by (simp add: same_store_def)
    have "res = Inr i \<Longrightarrow> i = rid" for i using find_key_Inr [of "rvc_TenantID cmd" ?k w1 i w2] f x1 rid by simp
    moreover have "res = Inl e \<Longrightarrow> \<not> errors_Is_NoRows e" for e
      using find_key_NoRows [of "rvc_TenantID cmd" ?k w1 e w2] f x1 assms(6) s1(2) by (auto simp: driver_faults_def)
    ultimately have "rid' = rid \<and> w3 = w2" using b rid(1) by metis
    with v' find_key_store [OF f] s1(1) show ?thesis by (simp add: same_store_def)
  qed
qed

text \<open>The payment of the demonstration world is reversed twice.\<close>

definition demo_reverse :: ReversePaymentCommand where
  "demo_reverse = \<lparr>rvc_TenantID = ''t1'', rvc_OriginalPayID = projr (fst (RecordPaymentUseCase_Execute demo_payment_command demo_billing_world)),
     rvc_Reason = ''refund''\<rparr>"

lemma reverse_payment_env:
  assumes "invoices_ok (w_db w)" and "ReversePaymentUseCase_Execute cmd w = (Inr rid, w')"
    and "TrimSpace (reversal_reference (rvc_OriginalPayID cmd)) = reversal_reference (rvc_OriginalPayID cmd)"
  shows "w_env w' = w_env w \<and> invoices_ok (w_db w')"
  using assms(2)
proof (rule reverse_payment_Inr)
  fix original w1 res w2 w3
  assume o: "py_ID original = rvc_OriginalPayID cmd" and s1: "same_store w w1" "w_env w1 = w_env w"
    and r: "PaymentRepository_FindByReference (reversal_reference (rvc_OriginalPayID cmd)) (rvc_TenantID cmd) w1 = (res, w2)"
    and b: "(\<exists>i. res = Inr i \<and> i \<noteq> [] \<and> rid = i \<and> w3 = w2)
      \<or> ((res = Inr [] \<or> (\<exists>e. res = Inl e \<and> errors_Is_NoRows e)) \<and> new_reversal cmd original w2 = (Inr rid, w3))"
    and w': "w_db w' = w_db w3" "w_env w' = w_env w3"
  have s2: "same_store w w2"
    using find_key_store r [unfolded FindByReference_reversal [OF assms(3)]] s1 same_store_trans by blast
  have ok2: "invoices_ok (w_db w2)" using assms(1) s2 by (simp add: same_store_def)
  from b show ?thesis
  proof
    assume "(res = Inr [] \<or> (\<exists>e. res = Inl e \<and> errors_Is_NoRows e)) \<and> new_reversal cmd original w2 = (Inr rid, w3)"
    then have n: "new_reversal cmd original w2 = (Inr rid, w3)" ..
    show ?thesis
      by (rule new_reversal_Inr [OF ok2 n]; use assms(3) o s2 w' in
          \<open>auto simp: payment_found_def payment_added_def same_store_def invoices_ok_def\<close>)
  qed (use w' s2 ok2 in \<open>auto simp: same_store_def\<close>)
qed

definition demo_reversed :: world where
  "demo_reversed = snd (ReversePaymentUseCase_Execute demo_reverse demo_paid_once)"

lemma demo_paid_once_run:
  "RecordPaymentUseCase_Execute demo_payment_command demo_billing_world =
     (Inr (projr (fst (RecordPaymentUseCase_Execute demo_payment_command demo_billing_world))), demo_paid_once)"
  unfolding demo_paid_once_def
  by (rule run_Inr [of "RecordPaymentUseCase_Execute demo_payment_command" demo_billing_world]) code_simp

lemma demo_paid_once_ok: "invoices_ok (w_db demo_paid_once)"
  by (rule record_payment_ok [OF demo_billing_ok demo_paid_once_run])

lemma demo_paid_once_env: "w_env demo_paid_once = demo_env"
  using record_payment_Inr [OF demo_billing_ok demo_paid_once_run]
  by (auto simp: demo_billing_world_def demo_world_def)

theorem reverse_payment_idempotent_witness:
  "w_db (snd (ReversePaymentUseCase_Execute demo_reverse demo_reversed)) = w_db demo_reversed
   \<and> map_option ir_paid_amount (invoice_at (w_db demo_reversed) ''i1'' ''t1'') = Some (Fin 0)"
proof -
  have ok1: "\<not> isl (fst (ReversePaymentUseCase_Execute demo_reverse demo_paid_once))" by code_simp
  have ok2: "\<not> isl (fst (ReversePaymentUseCase_Execute demo_reverse demo_reversed))" by code_simp
  have trim: "TrimSpace (reversal_reference (rvc_OriginalPayID demo_reverse)) = reversal_reference (rvc_OriginalPayID demo_reverse)"
    by code_simp
  have env: "w_env demo_reversed = demo_env"
    using reverse_payment_env [OF demo_paid_once_ok
        run_Inr [of "ReversePaymentUseCase_Execute demo_reverse" demo_paid_once, OF ok1] trim]
      demo_paid_once_env by (simp add: demo_reversed_def)
  have "w_db (snd (ReversePaymentUseCase_Execute demo_reverse demo_reversed)) = w_db demo_reversed"
    using reverse_payment_idempotent [OF demo_paid_once_ok
        run_Inr [of "ReversePaymentUseCase_Execute demo_reverse" demo_paid_once, OF ok1] _ trim _ _
        run_Inr [of "ReversePaymentUseCase_Execute demo_reverse" demo_reversed, OF ok2], of "[]"]
    by (simp add: demo_reversed_def [symmetric] env demo_paid_once_env demo_env_def demo_uuid_def driver_faults_def)
  moreover have "map_option ir_paid_amount (invoice_at (w_db demo_reversed) ''i1'' ''t1'') = Some (Fin 0)" by code_simp
  ultimately show ?thesis ..
qed

end
