(* ===== verification/Billing_Sessions.thy ===== *)
theory Billing_Sessions
  imports Billing_Invariants
begin

text \<open>
  Sequences of billing requests: a booking never gets a second invoice, and the keys of the
  invoice table stay unique.
\<close>

section \<open>Requests\<close>

datatype billing_request =
    GenerateInvoice GenerateInvoiceCommand
  | RecordPayment RecordPaymentCommand
  | ReversePayment ReversePaymentCommand
  | VoidInvoice TenantID InvoiceID

fun billing_handle :: "billing_request \<Rightarrow> world \<Rightarrow> unit result \<times> world" where
  "billing_handle (GenerateInvoice cmd) = bindE (GenerateInvoiceUseCase_Execute cmd) (\<lambda>_. ret ())"
| "billing_handle (RecordPayment cmd) = bindE (RecordPaymentUseCase_Execute cmd) (\<lambda>_. ret ())"
| "billing_handle (ReversePayment cmd) = bindE (ReversePaymentUseCase_Execute cmd) (\<lambda>_. ret ())"
| "billing_handle (VoidInvoice t i) = VoidInvoiceUseCase_Execute t i"

text \<open>
  The databases a sequence of requests leads to.  Each request has its own context, clock readings,
  identifiers and failures.
\<close>

inductive billing_run :: "database \<Rightarrow> database \<Rightarrow> bool" where
  start: "billing_run d d"
| request: "billing_run d (w_db w) \<Longrightarrow> driver_faults (w_env w) \<Longrightarrow> billing_run d (w_db (snd (billing_handle r w)))"

text \<open>The bookings invoices were made for, with their tenants.\<close>

definition invoiced_bookings :: "database \<Rightarrow> (string \<times> string) list" where
  "invoiced_bookings d = filter (\<lambda>(t, b). b \<noteq> []) (map (\<lambda>r. (ir_tenant_id r, ir_booking_id r)) (db_invoices d))"

definition billing_ok :: "database \<Rightarrow> bool" where
  "billing_ok d \<longleftrightarrow> invoices_ok d \<and> distinct (invoiced_bookings d) \<and> (\<forall>r\<in>set (db_invoices d). 1 \<le> ir_version r)"

section \<open>Writes that keep the booking\<close>

text \<open>Rows changed in place, each keeping its tenant and booking.\<close>

lemma billing_ok_update:
  assumes "billing_ok d" and "invoices_ok d'"
    and "db_invoices d' = update_where (\<lambda>x. x = r) f (db_invoices d)"
    and "ir_tenant_id (f r) = ir_tenant_id r" and "ir_booking_id (f r) = ir_booking_id r"
    and "ir_version (f r) = ir_version r + 1"
  shows "billing_ok d'"
proof -
  have "map (\<lambda>r. (ir_tenant_id r, ir_booking_id r)) (db_invoices d') = map (\<lambda>r. (ir_tenant_id r, ir_booking_id r)) (db_invoices d)"
    unfolding assms(3) by (rule map_update_where) (use assms(4,5) in auto)
  moreover have "\<forall>x\<in>set (db_invoices d'). 1 \<le> ir_version x"
    using assms(1) unfolding assms(3) by (auto simp: billing_ok_def set_update_where assms(6))
  ultimately show ?thesis using assms(1,2) by (simp add: billing_ok_def invoiced_bookings_def)
qed

lemma billing_ok_save_loaded:
  assumes "billing_ok (w_db w)" and "InvoiceRepository_Save a w = (Inr a', w')"
    and "r \<in> set (db_invoices (w_db w))"
    and "iv_ID a = ir_id r" and "iv_TenantID a = ir_tenant_id r" and "iv_BookingID a = ir_booking_id r"
  shows "billing_ok (w_db w')"
proof -
  have ok: "invoices_ok (w_db w)" using assms(1) by (simp add: billing_ok_def)
  have at: "invoice_at (w_db w) (iv_ID a) (iv_TenantID a) = Some r"
    unfolding invoice_at_def using assms(3-5) ok
    by (intro find_distinct_key [of ir_id]) (auto simp: invoices_ok_def)
  from save_loaded_invoice [OF ok assms(2) at] obtain set_at where
    u: "db_invoices (w_db w') = update_where (\<lambda>x. x = r) (invoice_set (invoice_columns a) set_at) (db_invoices (w_db w))"
    by auto
  show ?thesis
    by (rule billing_ok_update [OF assms(1) Invoice_Save_ok [OF ok assms(2)] u]) (simp_all add: assms(6))
qed

lemma billing_ok_applied:
  assumes "billing_ok d" and "amount_applied i t amount d d'" and "invoices_ok d'"
  shows "billing_ok d'"
proof -
  from assms(2) obtain r now a set_at where r: "invoice_at d i t = Some r"
    and ap: "InvoiceAggregate_ApplyPayment amount now (rehydrate_invoice r (items_of d i)) = Inr a"
    and u: "db_invoices d' = update_where (\<lambda>x. x = r) (invoice_set (invoice_columns a) set_at) (db_invoices d)"
    by (auto simp: amount_applied_def)
  show ?thesis by (rule billing_ok_update [OF assms(1,3) u]) (simp_all add: ApplyPayment_keeps [OF ap])
qed

lemma billing_ok_same: "billing_ok d \<Longrightarrow> db_invoices d' = db_invoices d \<Longrightarrow> billing_ok d'"
  by (simp add: billing_ok_def invoices_ok_def invoiced_bookings_def)

section \<open>Each request\<close>

lemma billing_ok_record:
  assumes "billing_ok (w_db w)" and "RecordPaymentUseCase_Execute cmd w = (Inr pid, w')"
  shows "billing_ok (w_db w')"
proof -
  have ok: "invoices_ok (w_db w)" using assms(1) by (simp add: billing_ok_def)
  from record_payment_Inr [OF ok assms(2)] obtain w2 w3 i now p' where
    a: "amount_applied (rpc_InvoiceID cmd) (rpc_TenantID cmd) (rpc_Amount cmd) (w_db w) (w_db w2)" "invoices_ok (w_db w2)"
    and s: "PaymentRepository_Save (command_payment cmd i now) w2 = (Inr p', w3)" "same_invoices (w_db w3) (w_db w')" by blast
  from billing_ok_applied [OF assms(1) a] Payment_Save_invoices [OF s(1)] s(2) show ?thesis
    by (auto simp: same_invoices_def intro: billing_ok_same)
qed

lemma new_reversal_ok:
  assumes "billing_ok (w_db w)" and "new_reversal cmd original w = (Inr rid, w')"
  shows "billing_ok (w_db w')"
proof -
  have ok: "invoices_ok (w_db w)" using assms(1) by (simp add: billing_ok_def)
  from assms(2) obtain p w0 w1 p' where
    a: "apply_to_invoice (py_InvoiceID original) (rvc_TenantID cmd) (fneg (py_Amount original)) w0 = (Inr (), w1)" "w_db w0 = w_db w"
    and s: "PaymentRepository_Save p w1 = (Inr p', w')"
    by (auto simp: new_reversal_def act_inv)
  from apply_to_invoice_Inr [OF _ a(1)] ok a(2)
  have "amount_applied (py_InvoiceID original) (rvc_TenantID cmd) (fneg (py_Amount original)) (w_db w) (w_db w1)" "invoices_ok (w_db w1)"
    by simp_all
  from billing_ok_applied [OF assms(1) this] Payment_Save_invoices [OF s] show ?thesis
    by (auto simp: same_invoices_def intro: billing_ok_same)
qed

lemma FindByReference_store: "PaymentRepository_FindByReference r t w = (res, w') \<Longrightarrow> same_store w w'"
  by (auto simp: PaymentRepository_FindByReference_def raise_def dest: find_key_store split: if_splits)

lemma billing_ok_reverse:
  assumes "billing_ok (w_db w)" and "ReversePaymentUseCase_Execute cmd w = (Inr rid, w')"
  shows "billing_ok (w_db w')"
  using assms(2)
proof (rule reverse_payment_Inr)
  fix original w1 res w2 w3
  assume s1: "same_store w w1"
    and r: "PaymentRepository_FindByReference (reversal_reference (rvc_OriginalPayID cmd)) (rvc_TenantID cmd) w1 = (res, w2)"
    and b: "(\<exists>i. res = Inr i \<and> i \<noteq> [] \<and> rid = i \<and> w3 = w2)
      \<or> ((res = Inr [] \<or> (\<exists>e. res = Inl e \<and> errors_Is_NoRows e)) \<and> new_reversal cmd original w2 = (Inr rid, w3))"
    and w': "w_db w' = w_db w3"
  have "w_db w2 = w_db w" using FindByReference_store [OF r] s1 by (simp add: same_store_def)
  with b assms(1) new_reversal_ok [of w2 cmd original rid w3] w' show ?thesis by auto
qed

lemma Void_keeps:
  assumes "InvoiceAggregate_Void now a = Inr a'"
  shows "iv_ID a' = iv_ID a" "iv_TenantID a' = iv_TenantID a" "iv_BookingID a' = iv_BookingID a"
  using assms by (auto simp: InvoiceAggregate_Void_def split: if_splits)

lemma billing_ok_void:
  assumes "billing_ok (w_db w)" and "VoidInvoiceUseCase_Execute t i w = (Inr u, w')"
  shows "billing_ok (w_db w')"
proof -
  let ?w = "w\<lparr>w_nop := Suc (w_nop w)\<rparr>"
  from assms(2) obtain a w1 w3 where f: "InvoiceRepository_Find i t ?w = (Inr a, w1)"
    and rest: "bindE (case InvoiceAggregate_Void (env_clk (w_env w1) (w_nclk w1)) a of
            Inr a' \<Rightarrow> ret a'
          | Inl e \<Rightarrow> raise (if error_text e = ''invoice already cancelled'' then ErrInvoiceAlreadyCancelled
                           else ErrInvoiceCannotVoid)) (\<lambda>a'.
        bindE (InvoiceRepository_Save a') (\<lambda>_. ret ())) (w1\<lparr>w_nclk := Suc (w_nclk w1)\<rparr>) = (Inr u, w3)"
    and w': "w_db w' = w_db w3"
    by (auto simp: VoidInvoiceUseCase_Execute_def bindE_Inr seqE_Inr failIf_Inr noRowsAs_Inr Now_Inr uow_Inr)
  from rest obtain a' a'' where v: "InvoiceAggregate_Void (env_clk (w_env w1) (w_nclk w1)) a = Inr a'"
    and s: "InvoiceRepository_Save a' (w1\<lparr>w_nclk := Suc (w_nclk w1)\<rparr>) = (Inr a'', w3)"
    by (cases "InvoiceAggregate_Void (env_clk (w_env w1) (w_nclk w1)) a") (auto simp: act_inv)
  have d1: "w_db w1 = w_db w"
    using findInvoiceBySQL_store [OF f [unfolded InvoiceRepository_Find_def]] by (simp add: same_store_def)
  from Invoice_Find_Inr [OF f] obtain r where r: "invoice_at (w_db w) i t = Some r" "a = rehydrate_invoice r (items_of (w_db w) i)"
    by auto
  from find_SomeD [OF r(1) [unfolded invoice_at_def]] have "r \<in> set (db_invoices (w_db w))" by simp
  with billing_ok_save_loaded [OF _ s, of r] assms(1) d1 Void_keeps [OF v] r(2) w' show ?thesis by simp
qed

section \<open>Generation\<close>

lemma AddLineItem_keeps [simp]:
  "iv_ID (InvoiceAggregate_AddLineItem li a) = iv_ID a" "iv_TenantID (InvoiceAggregate_AddLineItem li a) = iv_TenantID a"
  "iv_BookingID (InvoiceAggregate_AddLineItem li a) = iv_BookingID a"
  "iv_Version (InvoiceAggregate_AddLineItem li a) = iv_Version a"
  by (simp_all add: InvoiceAggregate_AddLineItem_def)

lemma append_lines_Inr:
  "append_lines refs inps a w = (Inr a', w') \<Longrightarrow>
     iv_ID a' = iv_ID a \<and> iv_TenantID a' = iv_TenantID a \<and> iv_BookingID a' = iv_BookingID a
     \<and> iv_Version a' = iv_Version a \<and> w_db w' = w_db w"
proof (induction inps arbitrary: a w)
  case (Cons inp inps)
  show ?case
  proof (cases "already_billed refs inp")
    case True
    with Cons show ?thesis by simp
  next
    case False
    with Cons.prems obtain i w1 where "append_lines refs inps (InvoiceAggregate_AddLineItem (input_line i a inp) a) w1 = (Inr a', w')"
      "w_db w1 = w_db w" by (auto simp: act_inv)
    with Cons.IH [OF this(1)] show ?thesis by simp
  qed
qed (simp add: ret_Inr)

lemma attachLineItems_Inr:
  assumes "attachLineItems a inps w = (Inr a', w')"
  shows "iv_ID a' = iv_ID a \<and> iv_TenantID a' = iv_TenantID a \<and> iv_BookingID a' = iv_BookingID a
     \<and> iv_Version a' = iv_Version a \<and> w_db w' = w_db w"
proof -
  from assms obtain b w1 where l: "append_lines (existing_refs a) inps b w1 = (Inr a', w')"
    and b: "iv_ID b = iv_ID a" "iv_TenantID b = iv_TenantID a" "iv_BookingID b = iv_BookingID a" "iv_Version b = iv_Version a"
      "w_db w1 = w_db w"
    by (auto simp: attachLineItems_def act_inv split: if_splits)
  from append_lines_Inr [OF l] b show ?thesis by simp
qed

lemma attach_to_existing_ok:
  assumes "billing_ok (w_db w)" and "attach_to_existing cmd (rehydrate_invoice r items) w = (Inr x, w')"
    and "r \<in> set (db_invoices (w_db w))"
  shows "billing_ok (w_db w')"
proof -
  from assms(2) consider "w_db w' = w_db w"
    | a w1 a' where "attachLineItems (rehydrate_invoice r items) (gic_LineItems cmd) w = (Inr a, w1)"
      "InvoiceRepository_Save a w1 = (Inr a', w')"
    by (auto simp: attach_to_existing_def act_inv split: if_splits)
  then show ?thesis
  proof cases
    case 1
    with assms(1) show ?thesis by simp
  next
    case 2
    from attachLineItems_Inr [OF 2(1)] billing_ok_save_loaded [OF _ 2(2), of r] assms(1,3) show ?thesis by simp
  qed
qed

text \<open>An inserted invoice is the last row and has the booking of the aggregate.\<close>

lemma Invoice_Save_new:
  assumes "InvoiceRepository_Save a w = (Inr a', w')"
    and "\<not> (\<exists>r\<in>set (db_invoices (w_db w)). ir_id r = iv_ID a \<and> ir_tenant_id r = iv_TenantID a)"
  shows "map (\<lambda>r. (ir_tenant_id r, ir_booking_id r, ir_version r)) (db_invoices (w_db w'))
    = map (\<lambda>r. (ir_tenant_id r, ir_booking_id r, ir_version r)) (db_invoices (w_db w)) @ [(iv_TenantID a, iv_BookingID a, 1)]"
  using assms(1)
proof (rule Invoice_Save_Inr)
  fix d1 rows
  assume wr: "invoice_written a (w_db w) d1"
    and w': "w_db w' = d1\<lparr>db_outbox_events := db_outbox_events d1 @ rows,
      db_invoice_line_items := filter (\<lambda>li. li_InvoiceID li \<noteq> iv_ID a) (db_invoice_line_items d1) @ iv_LineItems a\<rparr>"
  have no: "find (invoice_selected (invoice_columns a)) (db_invoices (w_db w)) = None"
    using assms(2) by (auto simp: find_None_iff invoice_selected_def)
  with wr obtain fk now fk' now' x d0 n where c: "CreateInvoice (invoice_columns a) fk now (w_db w) = Inr (x, d0)"
    and e: "insertInvoiceExtended (invoice_columns a) fk' now' d0 = Inr (n, d1)"
    unfolding invoice_written_def by auto
  from CreateInvoice_Inr [OF c] have x: "d0 = (w_db w)\<lparr>db_invoices := db_invoices (w_db w) @ [x]\<rparr>"
    "ir_tenant_id x = iv_TenantID a" "ir_booking_id x = iv_BookingID a" "ir_version x = 1" by simp_all
  have "map (\<lambda>r. (ir_tenant_id r, ir_booking_id r, ir_version r)) (db_invoices d1) = map (\<lambda>r. (ir_tenant_id r, ir_booking_id r, ir_version r)) (db_invoices d0)"
    using update_invoices_Inr [OF e [unfolded insertInvoiceExtended_def]]
    by (auto simp: map_update_where)
  with x w' show ?thesis by simp
qed

lemma resolveBookingPricing_store: "resolveBookingPricing t b w = (r, w') \<Longrightarrow> w_db w' = w_db w"
proof -
  assume r: "resolveBookingPricing t b w = (r, w')"
  have "dbeq.keeps (resolveBookingPricing t b)"
    unfolding resolveBookingPricing_def BookingRepository_GetReadModel_def GetCompanySettings_def noRowsAs_def
    by (intro dbeq.db_intros)
  from dbeq.keepsD [OF this r] show ?thesis by simp
qed

lemma create_invoice_ok:
  assumes "billing_ok (w_db w)" and "create_invoice cmd w = (Inr x, w')"
    and "\<And>r. r \<in> set (db_invoices (w_db w)) \<Longrightarrow> gic_BookingID cmd \<noteq> [] \<Longrightarrow>
      \<not> (ir_booking_id r = gic_BookingID cmd \<and> ir_tenant_id r = gic_TenantID cmd)"
  shows "billing_ok (w_db w')"
proof -
  from assms(2) obtain pr w1 where p: "resolveBookingPricing (gic_TenantID cmd) (gic_BookingID cmd) w = (Inr pr, w1)"
    and "\<exists>iv w2 a'. InvoiceRepository_Save iv w2 = (Inr a', w') \<and> iv_TenantID iv = gic_TenantID cmd
      \<and> iv_BookingID iv = gic_BookingID cmd \<and> iv_Version iv = 0 \<and> w_db w2 = w_db w1"
    by (auto simp: create_invoice_def act_inv Let_def GenerateDisplayID_def NewInvoiceAggregate_def
        split: option.splits if_splits dest!: attachLineItems_Inr) (fastforce dest: attachLineItems_Inr)+
  then obtain iv w2 a' where s: "InvoiceRepository_Save iv w2 = (Inr a', w')"
    and iv: "iv_TenantID iv = gic_TenantID cmd" "iv_BookingID iv = gic_BookingID cmd" "iv_Version iv = 0" "w_db w2 = w_db w1"
    by blast
  have d: "w_db w2 = w_db w" using resolveBookingPricing_store [OF p] iv(4) by simp
  have ok: "invoices_ok (w_db w2)" using assms(1) d by (simp add: billing_ok_def)
  have none: "find (invoice_selected (invoice_columns iv)) (db_invoices (w_db w2)) = None"
    using assms(1) d iv(3) by (auto simp: find_None_iff invoice_selected_def billing_ok_def)
  have "\<not> (\<exists>r\<in>set (db_invoices (w_db w2)). ir_id r = iv_ID iv \<and> ir_tenant_id r = iv_TenantID iv)"
    by (rule Invoice_Save_Inr [OF s]) (use none in \<open>auto simp: invoice_written_def\<close>)
  from Invoice_Save_new [OF s this] have m: "map (\<lambda>r. (ir_tenant_id r, ir_booking_id r, ir_version r)) (db_invoices (w_db w'))
    = map (\<lambda>r. (ir_tenant_id r, ir_booking_id r, ir_version r)) (db_invoices (w_db w)) @ [(gic_TenantID cmd, gic_BookingID cmd, 1)]"
    by (simp add: d iv)
  from arg_cong [OF m, of "map (\<lambda>(t, b, v). (t, b))"]
  have "map (\<lambda>r. (ir_tenant_id r, ir_booking_id r)) (db_invoices (w_db w'))
    = map (\<lambda>r. (ir_tenant_id r, ir_booking_id r)) (db_invoices (w_db w)) @ [(gic_TenantID cmd, gic_BookingID cmd)]"
    by (simp add: comp_def)
  then have "distinct (invoiced_bookings (w_db w'))"
    using assms(1,3) by (auto simp: invoiced_bookings_def billing_ok_def) blast
  moreover have "set (map ir_version (db_invoices (w_db w'))) = insert 1 (set (map ir_version (db_invoices (w_db w))))"
    using arg_cong [OF m, of "\<lambda>xs. set (map (\<lambda>(t, b, v). v) xs)"] by (simp add: comp_def image_image)
  then have "\<forall>r\<in>set (db_invoices (w_db w')). 1 \<le> ir_version r"
    using assms(1) by (auto simp: billing_ok_def image_iff set_eq_iff) (metis order_refl)
  ultimately show ?thesis using Invoice_Save_ok [OF ok s] by (simp add: billing_ok_def)
qed

lemma findInvoiceBySQL_NoRows:
  assumes "findInvoiceBySQL p w = (Inl e, w')" and "errors_Is_NoRows e" and "driver_faults (w_env w)"
  shows "find p (db_invoices (w_db w)) = None"
  using assms
  by (auto simp: findInvoiceBySQL_def loadLineItems_def bindE_def ret_def query_def stmt_def Let_def findInvoice_def
      one_row_def selectLineItems_def driver_faults_def split: option.splits sum.splits prod.splits)

lemma billing_ok_generate:
  assumes "billing_ok (w_db w)" and "driver_faults (w_env w)" and "GenerateInvoiceUseCase_Execute cmd w = (Inr x, w')"
  shows "billing_ok (w_db w')"
proof -
  let ?w = "w\<lparr>w_nop := Suc (w_nop w)\<rparr>"
  let ?p = "if gic_BookingID cmd \<noteq> [] then (\<lambda>r. ir_booking_id r = gic_BookingID cmd \<and> ir_tenant_id r = gic_TenantID cmd)
    else (\<lambda>r. ir_trip_id r = Some (str_or_empty (gic_TripID cmd)) \<and> ir_tenant_id r = gic_TenantID cmd)"
  from assms(3) obtain y w3 where g: "GenerateInTx cmd ?w = (Inr y, w3)" and w': "w_db w' = w_db w3"
    by (auto simp: GenerateInvoiceUseCase_Execute_def act_inv uow_Inr split: prod.splits)
  obtain res w1 where f: "findInvoiceBySQL ?p ?w = (res, w1)" by fastforce
  have d1: "w_db w1 = w_db w" using findInvoiceBySQL_store [OF f] by (simp add: same_store_def)
  have rest: "(case res of Inr existing \<Rightarrow> attach_to_existing cmd existing
      | Inl err \<Rightarrow> if errors_Is_NoRows err then create_invoice cmd else raise err) w1 = (Inr y, w3)"
    using g f unfolding GenerateInTx_def InvoiceRepository_FindByBookingID_def InvoiceRepository_FindByTripID_def
    by (auto simp: seqE_Inr failIf_Inr bindE_Inr tryE_Inr split: if_splits)
  show ?thesis
  proof (cases res)
    case (Inr existing)
    from findInvoiceBySQL_Inr [OF f [unfolded Inr]] obtain r where
      r: "find ?p (db_invoices (w_db w)) = Some r" "existing = rehydrate_invoice r (items_of (w_db w) (ir_id r))" by auto
    have "r \<in> set (db_invoices (w_db w))" using find_SomeD [OF r(1)] by blast
    with attach_to_existing_ok [of w1 cmd r "items_of (w_db w) (ir_id r)" y w3] rest Inr r(2) d1 assms(1) w'
    show ?thesis by simp
  next
    case (Inl err)
    with rest have n: "errors_Is_NoRows err" "create_invoice cmd w1 = (Inr y, w3)"
      by (auto simp: raise_Inr split: if_splits)
    have none: "find ?p (db_invoices (w_db w)) = None"
      using findInvoiceBySQL_NoRows [OF f [unfolded Inl] n(1)] assms(2) by simp
    have "\<not> (ir_booking_id r = gic_BookingID cmd \<and> ir_tenant_id r = gic_TenantID cmd)"
      if "r \<in> set (db_invoices (w_db w1))" "gic_BookingID cmd \<noteq> []" for r
      using find_NoneD [OF none, of r] that d1 by simp
    from create_invoice_ok [OF _ n(2) this] assms(1) d1 w' show ?thesis by simp
  qed
qed

section \<open>Sessions\<close>

text \<open>A request that fails leaves the database as it was.\<close>

lemma billing_fails_clean: "fails_clean (billing_handle r)"
proof -
  have known: "fails_clean (known_errors es m)" if "fails_clean m" for es and m :: "'b wact"
    using that by (auto simp: fails_clean_def known_errors_def bindE_def tryE_def ret_def raise_def split: prod.splits sum.splits)
  have seq: "fails_clean (bindE m (\<lambda>x. ret (f x)))" if "fails_clean m" for m :: "'b wact" and f :: "'b \<Rightarrow> 'c"
    using that by (auto simp: fails_clean_def bindE_def ret_def split: prod.splits sum.splits)
  have fst_ret: "(\<lambda>(i, attached). ret i) = (\<lambda>x. ret (fst x) :: InvoiceID wact)" for x :: "InvoiceID \<times> bool" by auto
  show ?thesis
    by (cases r)
      (simp_all add: GenerateInvoiceUseCase_Execute_def RecordPaymentUseCase_Execute_def ReversePaymentUseCase_Execute_def
        VoidInvoiceUseCase_Execute_def case_prod_unfold seq known fails_clean_uow fails_clean_seq dbeq.keeps_failIf)
qed

lemma billing_ok_handle:
  assumes "billing_ok (w_db w)" and "driver_faults (w_env w)"
  shows "billing_ok (w_db (snd (billing_handle r w)))"
proof (cases "fst (billing_handle r w)")
  case (Inl e)
  from fails_cleanD [OF billing_fails_clean Inl] assms(1) show ?thesis by simp
next
  case (Inr u)
  then obtain w' where run: "billing_handle r w = (Inr u, w')" by (metis prod.collapse)
  then have "billing_ok (w_db w')"
    using assms
    by (cases r) (auto simp: act_inv dest: billing_ok_generate billing_ok_record billing_ok_reverse billing_ok_void)
  with run show ?thesis by simp
qed

lemma billing_ok_run: "billing_run d d' \<Longrightarrow> billing_ok d \<Longrightarrow> billing_ok d'"
  by (induction rule: billing_run.induct) (auto intro: billing_ok_handle)

lemma invoiced_bookings_unique:
  assumes "distinct (invoiced_bookings d)" and "invoices_ok d"
    and "r \<in> set (db_invoices d)" and "s \<in> set (db_invoices d)" and "ir_booking_id r \<noteq> []"
    and "ir_booking_id s = ir_booking_id r" and "ir_tenant_id s = ir_tenant_id r"
  shows "s = r"
proof -
  let ?f = "\<lambda>r. (ir_tenant_id r, ir_booking_id r)"
  have "invoiced_bookings d = map ?f (filter (\<lambda>r. ir_booking_id r \<noteq> []) (db_invoices d))"
    by (simp add: invoiced_bookings_def filter_map comp_def)
  with assms(1) have "inj_on ?f (set (filter (\<lambda>r. ir_booking_id r \<noteq> []) (db_invoices d)))"
    by (simp add: distinct_map)
  from inj_onD [OF this, of s r] assms(3-7) show ?thesis by simp
qed

text \<open>
  Property C2.  A tenant's booking has at most one invoice, whatever sequence of invoice
  generations, payments, reversals and voids is run, with whatever failures.
\<close>

theorem one_invoice_per_booking:
  assumes "billing_ok d" and "billing_run d d'"
    and "r \<in> set (db_invoices d')" and "s \<in> set (db_invoices d')" and "ir_booking_id r \<noteq> []"
    and "ir_booking_id s = ir_booking_id r" and "ir_tenant_id s = ir_tenant_id r"
  shows "s = r"
  using billing_ok_run [OF assms(2,1)] invoiced_bookings_unique [OF _ _ assms(3-7)] by (simp add: billing_ok_def)

definition demo_generate :: GenerateInvoiceCommand where
  "demo_generate = \<lparr>gic_TenantID = ''t1'', gic_BookingID = ''b1'', gic_CustomerID = ''c1'', gic_TripID = None,
     gic_Subtotal = Fin 0, gic_Tax = Fin 0, gic_Discount = Fin 0, gic_Total = Fin 0, gic_LineItems = []\<rparr>"

definition demo_generated :: database where
  "demo_generated = w_db (snd (billing_handle (GenerateInvoice demo_generate) demo_billing_world))"

lemma demo_generated_run: "billing_run (w_db demo_billing_world) demo_generated"
proof -
  have "driver_faults (w_env demo_billing_world)"
    by (simp add: driver_faults_def demo_env_def demo_billing_world_def demo_world_def)
  from request [OF start this] show ?thesis unfolding demo_generated_def .
qed

lemma demo_generated_rows:
  "list_all (\<lambda>r. ir_booking_id r = ''b1'' \<and> ir_tenant_id r = ''t1'' \<and> ir_id r = ''i1'') (db_invoices demo_generated)"
  by code_simp

lemma demo_generated_some: "db_invoices demo_generated \<noteq> []"
  by code_simp

text \<open>A generation for a booking that has an invoice returns that invoice.\<close>

theorem one_invoice_per_booking_witness:
  "\<exists>r. set (db_invoices demo_generated) = {r} \<and> ir_booking_id r = ''b1'' \<and> ir_id r = ''i1''"
proof -
  have ok: "billing_ok (w_db demo_billing_world)"
    by (simp add: billing_ok_def invoices_ok_def invoiced_bookings_def demo_billing_world_def demo_invoice_def)
  obtain r where r: "r \<in> set (db_invoices demo_generated)" using demo_generated_some by (metis hd_in_set)
  have all: "ir_booking_id s = ''b1'' \<and> ir_tenant_id s = ''t1'' \<and> ir_id s = ''i1''" if "s \<in> set (db_invoices demo_generated)" for s
    using demo_generated_rows that by (simp add: list_all_iff)
  have "s = r" if "s \<in> set (db_invoices demo_generated)" for s
    by (rule one_invoice_per_booking [OF ok demo_generated_run r that]) (simp_all add: all [OF r] all [OF that])
  with r have "set (db_invoices demo_generated) = {r}" by blast
  with all [OF r] show ?thesis by blast
qed

end
