(* ===== verification/Listing.thy ===== *)
theory Listing
  imports Billing_Invariants "HOL-Library.Multiset"
begin

text \<open>
  Paged listings: the pages of a listing, put together, are every matching row exactly once in the
  order of the query.
\<close>

section \<open>Windows of a list\<close>

lemma concat_windows:
  "concat (map (\<lambda>k. take L (drop (k * L) xs)) [0..<n]) = take (n * L) xs"
proof (induction n)
  case (Suc n)
  have "take (Suc n * L) xs = take (n * L) xs @ take L (drop (n * L) xs)"
    using take_add [of "n * L" L xs] by (simp add: add.commute)
  with Suc show ?case by simp
qed simp

lemma list_window_exact:
  assumes "0 < L" and "(int k + 1) * L < 2 ^ 63"
  shows "list_window (int k + 1) L = (L, int k * L)"
proof -
  have "0 \<le> int k * L" using assms(1) by simp
  moreover have kL: "int k * L < 2 ^ 63" using assms by (simp add: distrib_right)
  moreover have "int k * 1 \<le> int k * L" using assms(1) by (intro mult_left_mono) auto
  ultimately have "wrap64 (int k) = int k" "wrap64 (int k * L) = int k * L"
    by (auto intro!: wrap64_id)
  then show ?thesis using assms(1) by (simp add: list_window_def)
qed

lemma sql_page_window: "0 < L \<Longrightarrow> sql_page L (int k * L) xs = take (nat L) (drop (k * nat L) xs)"
  by (simp add: sql_page_def Let_def nat_mult_distrib)

section \<open>Invoices\<close>

text \<open>The rows a search matches, in the order of the query.\<close>

definition matching_invoices :: "database \<Rightarrow> TenantID \<Rightarrow> string \<Rightarrow> string \<Rightarrow> invoice_joined list" where
  "matching_invoices d t search status =
     sort_key (\<lambda>(r, c, b, x). - ir_created_at r) (filter (invoice_matches t search status) (invoices_joined d))"

lemma list_invoices_page:
  assumes "0 < L" and "(int k + 1) * L < 2 ^ 63"
    and "ListInvoicesUseCase_Execute t (int k + 1) L search status w = (Inr (page, c), w')"
  shows "page = map invoice_read_model (take (nat L) (drop (k * nat L) (matching_invoices (w_db w) t search status)))
    \<and> c = int (length (matching_invoices (w_db w) t search status))"
proof -
  from assms(3) obtain w1 where
    "InvoiceRepository_SearchReadModels t search status L (int k * L) (w\<lparr>w_nop := Suc (w_nop w)\<rparr>) = (Inr (page, c), w1)"
    by (auto simp: ListInvoicesUseCase_Execute_def list_window_exact [OF assms(1,2)] uow_Inr)
  then show ?thesis
    by (auto simp: InvoiceRepository_SearchReadModels_def act_inv SearchInvoices_def CountInvoices_def
        matching_invoices_def sql_page_window [OF assms(1)])
qed

text \<open>
  The pages of an invoice listing: as long as the table does not change, the first
  \<open>n\<close> pages put together are the matching invoices of the tenant, each exactly once and newest
  first, provided there are enough pages for the reported total; the total is their number.
\<close>

theorem invoice_pages_complete:
  assumes "0 < L" and "0 < n" and "(int n + 1) * L < 2 ^ 63"
    and "\<And>k. k < n \<Longrightarrow> w_db (ws k) = d"
    and "\<And>k. k < n \<Longrightarrow> ListInvoicesUseCase_Execute t (int k + 1) L search status (ws k) = (Inr (page k, c), ws' k)"
    and "c \<le> int n * L"
  shows "concat (map page [0..<n]) = map invoice_read_model (matching_invoices d t search status)
    \<and> mset (matching_invoices d t search status) = mset (filter (invoice_matches t search status) (invoices_joined d))
    \<and> sorted_wrt (\<lambda>(r, _) (s, _). ir_created_at s \<le> ir_created_at r) (matching_invoices d t search status)
    \<and> c = int (length (matching_invoices d t search status))"
proof -
  let ?xs = "matching_invoices d t search status"
  have page: "page k = map invoice_read_model (take (nat L) (drop (k * nat L) ?xs)) \<and> c = int (length ?xs)" if "k < n" for k
  proof -
    have "(int k + 1) * L \<le> (int n + 1) * L" using that assms(1) by (intro mult_right_mono) auto
    with assms(3) have "(int k + 1) * L < 2 ^ 63" by linarith
    from list_invoices_page [OF assms(1) this assms(5) [OF that]] assms(4) [OF that] show ?thesis by simp
  qed
  have c: "c = int (length ?xs)" using page [OF assms(2)] by simp
  have "concat (map page [0..<n]) = concat (map (\<lambda>k. map invoice_read_model (take (nat L) (drop (k * nat L) ?xs))) [0..<n])"
    using page by (intro arg_cong [of _ _ concat] map_cong) auto
  also have "\<dots> = map invoice_read_model (concat (map (\<lambda>k. take (nat L) (drop (k * nat L) ?xs)) [0..<n]))"
    by (simp add: map_concat comp_def)
  also have "\<dots> = map invoice_read_model (take (n * nat L) ?xs)" by (simp only: concat_windows)
  also have "take (n * nat L) ?xs = ?xs"
  proof -
    have "int (length ?xs) \<le> int (n * nat L)" using assms(1,6) c by simp
    then have "length ?xs \<le> n * nat L" by (simp only: of_nat_le_iff)
    then show ?thesis by simp
  qed
  finally have "concat (map page [0..<n]) = map invoice_read_model ?xs" .
  moreover have "sorted (map (\<lambda>(r, c, b, x). - ir_created_at r) ?xs)" unfolding matching_invoices_def by simp
  then have "sorted_wrt (\<lambda>(r, _) (s, _). ir_created_at s \<le> ir_created_at r) ?xs"
    by (simp add: sorted_wrt_map case_prod_unfold)
  ultimately show ?thesis using c by (simp add: matching_invoices_def)
qed

text \<open>One page of the demonstration world.\<close>

theorem invoice_pages_complete_witness:
  "concat (map (\<lambda>k. fst (projr (fst (ListInvoicesUseCase_Execute ''t1'' (int k + 1) 10 [] [] demo_billing_world)))) [0..<1])
     = map invoice_read_model (matching_invoices (w_db demo_billing_world) ''t1'' [] [])"
proof -
  let ?m = "\<lambda>k. ListInvoicesUseCase_Execute ''t1'' (int k + 1) 10 [] [] demo_billing_world"
  have ok: "\<not> isl (fst (ListInvoicesUseCase_Execute ''t1'' 1 10 [] [] demo_billing_world))" by code_simp
  have one: "snd (projr (fst (ListInvoicesUseCase_Execute ''t1'' 1 10 [] [] demo_billing_world))) = 1" by code_simp
  have run: "?m k = (Inr (fst (projr (fst (?m k))), 1), snd (?m k))" if "k < 1" for k
    using that run_Inr [of "ListInvoicesUseCase_Execute ''t1'' 1 10 [] []" demo_billing_world, OF ok] one
    by (simp add: prod_eq_iff) (metis prod.collapse)
  from invoice_pages_complete [of 10 1 "\<lambda>_. demo_billing_world" _ _ _ _ "\<lambda>k. fst (projr (fst (?m k)))" 1 "\<lambda>k. snd (?m k)", OF _ _ _ _ run]
  show ?thesis by simp
qed

end
