(* ===== verification/Go_Crypto.thy ===== *)
theory Go_Crypto
  imports Prelude "HOL-Library.Word"
begin

text \<open>
  What the payment gateway code uses of \<open>crypto/sha256\<close>, \<open>crypto/hmac\<close> and
  \<open>encoding/hex\<close> (FIPS 180-4, FIPS 198-1).  Strings are byte strings, one character a byte.
\<close>

unbundle bit_operations_syntax

type_synonym bytes = "8 word list"
type_synonym sha_state = "32 word list"

definition bytes_of :: "string \<Rightarrow> bytes" where
  "bytes_of s = map (\<lambda>c. word_of_nat (of_char c)) s"

section \<open>SHA-256\<close>

text \<open>
  The constants are the first 32 bits of the fractional parts of roots of the first primes, here
  computed as integer roots, the highest bit first.
\<close>

definition first_primes :: "int list" where
  "first_primes =
     [2, 3, 5, 7, 11, 13, 17, 19, 23, 29, 31, 37, 41, 43, 47, 53,
      59, 61, 67, 71, 73, 79, 83, 89, 97, 101, 103, 107, 109, 113, 127, 131,
      137, 139, 149, 151, 157, 163, 167, 173, 179, 181, 191, 193, 197, 199, 211, 223,
      227, 229, 233, 239, 241, 251, 257, 263, 269, 271, 277, 281, 283, 293, 307, 311]"

primrec root_bits :: "nat \<Rightarrow> int \<Rightarrow> nat \<Rightarrow> int \<Rightarrow> int" where
  "root_bits k n 0 r = r"
| "root_bits k n (Suc b) r = root_bits k n b (if (r + 2 ^ b) ^ k \<le> n then r + 2 ^ b else r)"

definition root_fraction :: "nat \<Rightarrow> int \<Rightarrow> 32 word" where
  "root_fraction k p = word_of_int (root_bits k (p * 2 ^ (32 * k)) 35 0)"

definition sha256_K :: "32 word list" where
  "sha256_K = map (root_fraction 3) first_primes"

definition sha256_init :: sha_state where
  "sha256_init = map (root_fraction 2) (take 8 first_primes)"

definition big_sigma0 :: "32 word \<Rightarrow> 32 word" where
  "big_sigma0 x = word_rotr 2 x XOR word_rotr 13 x XOR word_rotr 22 x"

definition big_sigma1 :: "32 word \<Rightarrow> 32 word" where
  "big_sigma1 x = word_rotr 6 x XOR word_rotr 11 x XOR word_rotr 25 x"

definition small_sigma0 :: "32 word \<Rightarrow> 32 word" where
  "small_sigma0 x = word_rotr 7 x XOR word_rotr 18 x XOR drop_bit 3 x"

definition small_sigma1 :: "32 word \<Rightarrow> 32 word" where
  "small_sigma1 x = word_rotr 17 x XOR word_rotr 19 x XOR drop_bit 10 x"

text \<open>The message schedule, latest word first.\<close>

primrec schedule_rev :: "nat \<Rightarrow> 32 word list \<Rightarrow> 32 word list" where
  "schedule_rev 0 ws = ws"
| "schedule_rev (Suc n) ws =
     schedule_rev n ((small_sigma1 (ws ! 1) + ws ! 6 + small_sigma0 (ws ! 14) + ws ! 15) # ws)"

definition schedule :: "32 word list \<Rightarrow> 32 word list" where
  "schedule block = rev (schedule_rev 48 (rev block))"

fun sha_round :: "32 word \<times> 32 word \<Rightarrow> sha_state \<Rightarrow> sha_state" where
  "sha_round (k, w) [a, b, c, d, e, f, g, h] =
     (let t1 = h + big_sigma1 e + ((e AND f) XOR (NOT e AND g)) + k + w;
          t2 = big_sigma0 a + ((a AND b) XOR (a AND c) XOR (b AND c))
      in [t1 + t2, a, b, c, d + t1, e, f, g])"
| "sha_round _ st = st"

definition sha_block :: "sha_state \<Rightarrow> 32 word list \<Rightarrow> sha_state" where
  "sha_block st block = map2 (+) st (fold sha_round (zip sha256_K (schedule block)) st)"

definition word_of_bytes :: "bytes \<Rightarrow> 32 word" where
  "word_of_bytes bs = foldl (\<lambda>w b. push_bit 8 w OR ucast b) 0 bs"

definition bytes_of_word :: "32 word \<Rightarrow> bytes" where
  "bytes_of_word w = map (\<lambda>k. ucast (drop_bit k w)) [24, 16, 8, 0]"

definition bytes_of_length :: "nat \<Rightarrow> bytes" where
  "bytes_of_length n = map (\<lambda>k. ucast (drop_bit k (word_of_nat n :: 64 word))) [56, 48, 40, 32, 24, 16, 8, 0]"

definition sha_pad :: "bytes \<Rightarrow> bytes" where
  "sha_pad m = m @ [0x80] @ replicate ((119 - length m mod 64) mod 64) 0 @ bytes_of_length (8 * length m)"

primrec chunks :: "nat \<Rightarrow> nat \<Rightarrow> 'a list \<Rightarrow> 'a list list" where
  "chunks k 0 xs = []"
| "chunks k (Suc n) xs = take k xs # chunks k n (drop k xs)"

definition sha256_Sum :: "bytes \<Rightarrow> bytes" where
  "sha256_Sum m =
     (let p = sha_pad m; blocks = map (\<lambda>b. map word_of_bytes (chunks 4 16 b)) (chunks 64 (length p div 64) p)
      in concat (map bytes_of_word (foldl sha_block sha256_init blocks)))"

section \<open>HMAC\<close>

definition hmac_sha256 :: "bytes \<Rightarrow> bytes \<Rightarrow> bytes" where
  "hmac_sha256 key msg =
     (let k = (if 64 < length key then sha256_Sum key else key);
          k' = k @ replicate (64 - length k) 0
      in sha256_Sum (map (\<lambda>b. b XOR 0x5c) k' @ sha256_Sum (map (\<lambda>b. b XOR 0x36) k' @ msg)))"

lemma sha_round_length: "length (sha_round p st) = length st"
  by (induction p st rule: sha_round.induct) (simp_all add: Let_def)

lemma sha_block_length: "length (sha_block st b) = length st"
proof -
  have "length (fold sha_round ps st) = length st" for ps
    by (induction ps arbitrary: st) (simp_all add: sha_round_length)
  then show ?thesis by (simp add: sha_block_def)
qed

lemma sha256_Sum_length: "length (sha256_Sum m) = 32"
proof -
  have "length (foldl sha_block st bs) = length st" for st bs
    by (induction bs arbitrary: st) (simp_all add: sha_block_length)
  moreover have "length (concat (map bytes_of_word ws)) = 4 * length ws" for ws
    by (induction ws) (simp_all add: bytes_of_word_def)
  ultimately show ?thesis by (simp add: sha256_Sum_def Let_def sha256_init_def first_primes_def)
qed

lemma hmac_sha256_nonempty: "hmac_sha256 k m \<noteq> []"
  using sha256_Sum_length by (auto simp: hmac_sha256_def Let_def dest!: arg_cong [of _ _ length])

section \<open>Hexadecimal text\<close>

definition hex_digit :: "char \<Rightarrow> nat option" where
  "hex_digit c =
     (let n = of_char c in
      if 48 \<le> n \<and> n \<le> 57 then Some (n - 48)
      else if 97 \<le> n \<and> n \<le> 102 then Some (n - 87)
      else if 65 \<le> n \<and> n \<le> 70 then Some (n - 55)
      else None)"

fun hex_DecodeString :: "string \<Rightarrow> bytes option" where
  "hex_DecodeString [] = Some []"
| "hex_DecodeString [c] = None"
| "hex_DecodeString (c # d # s) =
     (case (hex_digit c, hex_digit d, hex_DecodeString s) of
        (Some m, Some n, Some bs) \<Rightarrow> Some (word_of_nat (16 * m + n) # bs)
      | _ \<Rightarrow> None)"

definition hex_char :: "nat \<Rightarrow> char" where
  "hex_char n = char_of (if n < 10 then 48 + n else 87 + n)"

definition hex_EncodeToString :: "bytes \<Rightarrow> string" where
  "hex_EncodeToString bs = concat (map (\<lambda>b. [hex_char (unat b div 16), hex_char (unat b mod 16)]) bs)"

lemma hex_digit_char: "n < 16 \<Longrightarrow> hex_digit (hex_char n) = Some n"
  by (simp add: hex_digit_def hex_char_def Let_def)

lemma hex_decode_encode: "hex_DecodeString (hex_EncodeToString bs) = Some bs"
proof (induction bs)
  case (Cons b bs)
  have "unat b < 256" using unsigned_less [of b, where ?'a = nat] by simp
  then have "unat b div 16 < 16" "unat b mod 16 < 16" by auto
  moreover have "word_of_nat (16 * (unat b div 16) + unat b mod 16) = b" by simp
  ultimately show ?case using Cons by (simp add: hex_EncodeToString_def hex_digit_char)
qed (simp add: hex_EncodeToString_def)

end
