(* ===== verification/Razorpay.thy ===== *)
theory Razorpay
  imports Billing_Application Event_Bus Go_Crypto
begin

text \<open>
  Online payments (\<open>internal/payment/razorpay/client.go\<close>,
  \<open>internal/payment/application/razorpay_order.go\<close> and \<open>razorpay_webhook.go\<close>): orders for
  an invoice balance, the checkout callback, and the webhook of the gateway.
\<close>

section \<open>Gateway client\<close>

text \<open>The network call is a parameter: from the order data to the fields of the answer the code reads.\<close>

record order_data =
  od_amount :: int
  od_currency :: string
  od_receipt :: string
  od_invoice_id :: string

record order_body =
  ob_order_id :: "string option"
  ob_status :: "string option"

type_synonym orderAPI = "order_data \<Rightarrow> order_body result"

record RazorpayClient =
  rc_orderAPI :: "orderAPI option"
  rc_keyID :: string
  rc_keySecret :: string

record Order =
  ord_ID :: string
  ord_Entity :: string
  ord_Amount :: int
  ord_Currency :: string
  ord_Receipt :: string
  ord_Status :: string

definition ErrNotConfigured :: goerr where
  "ErrNotConfigured = ErrorString ''razorpay credentials not configured''"

definition NewRazorpayClient :: "orderAPI \<Rightarrow> string \<Rightarrow> string \<Rightarrow> RazorpayClient" where
  "NewRazorpayClient api keyID keySecret =
     \<lparr>rc_orderAPI = (if keyID \<noteq> [] \<and> keySecret \<noteq> [] then Some api else None),
      rc_keyID = keyID, rc_keySecret = keySecret\<rparr>"

definition CreateOrder :: "(float64 \<Rightarrow> int) \<Rightarrow> RazorpayClient \<Rightarrow> string \<Rightarrow> float64 \<Rightarrow> string \<Rightarrow> Order result" where
  "CreateOrder oor c invoiceID amountINR currency =
     (case rc_orderAPI c of
        None \<Rightarrow> Inl ErrNotConfigured
      | Some create \<Rightarrow>
          (let amountInPaise = int64_of_float oor (fmul amountINR (Fin 100));
               currency = (if currency = [] then ''INR'' else currency);
               receipt = ''rcpt_'' @ invoiceID in
           case create \<lparr>od_amount = amountInPaise, od_currency = currency, od_receipt = receipt, od_invoice_id = invoiceID\<rparr> of
             Inl err \<Rightarrow> Inl err
           | Inr body \<Rightarrow> Inr \<lparr>ord_ID = str_or_empty (ob_order_id body), ord_Entity = [], ord_Amount = amountInPaise,
               ord_Currency = currency, ord_Receipt = receipt, ord_Status = str_or_empty (ob_status body)\<rparr>))"

definition VerifyPaymentSignature :: "RazorpayClient \<Rightarrow> string \<Rightarrow> string \<Rightarrow> string \<Rightarrow> bool" where
  "VerifyPaymentSignature c orderID paymentID signature \<longleftrightarrow>
     rc_keySecret c \<noteq> []
     \<and> hex_DecodeString signature = Some (hmac_sha256 (bytes_of (rc_keySecret c)) (bytes_of (orderID @ ''|'' @ paymentID)))"

section \<open>Orders and the checkout callback\<close>

definition ErrRazorpayNotConfigured :: goerr where
  "ErrRazorpayNotConfigured = ErrorString ''razorpay not configured''"
definition ErrRazorpayInvalidSignature :: goerr where
  "ErrRazorpayInvalidSignature = ErrorString ''invalid razorpay signature''"
definition ErrInvoiceAlreadySettled :: goerr where
  "ErrInvoiceAlreadySettled = ErrorString ''invoice has no outstanding balance''"

record CreateRazorpayOrderCommand =
  coc_TenantID :: TenantID
  coc_InvoiceID :: string

record CreateRazorpayOrderResult =
  cor_OrderID :: string
  cor_RazorpayKeyID :: string
  cor_AmountPaise :: int
  cor_Currency :: string
  cor_InvoiceID :: string

text \<open>The unit of work both use cases read the balance in.\<close>

definition invoice_balance :: "string \<Rightarrow> TenantID \<Rightarrow> float64 wact" where
  "invoice_balance invoiceID t =
     uow_Execute (bindE (noRowsAs ''invoice not found'' (InvoiceRepository_Find invoiceID t)) (\<lambda>iv.
       ret (OutstandingBalance iv)))"

definition CreateRazorpayOrderUseCase_Execute ::
  "RazorpayClient \<Rightarrow> string \<Rightarrow> CreateRazorpayOrderCommand \<Rightarrow> CreateRazorpayOrderResult wact" where
  "CreateRazorpayOrderUseCase_Execute client keyID cmd =
     seqE (failIf (keyID = []) ''razorpay not configured'')
     (bindE (invoice_balance (coc_InvoiceID cmd) (coc_TenantID cmd)) (\<lambda>balance.
      seqE (failIf (fle balance (Fin 0)) ''invoice has no outstanding balance'')
      (bindE getEnv (\<lambda>env.
       case CreateOrder (env_oor env) client (coc_InvoiceID cmd) balance ''INR'' of
         Inl err \<Rightarrow> raise (if err = ErrNotConfigured then ErrRazorpayNotConfigured else err)
       | Inr order \<Rightarrow> ret \<lparr>cor_OrderID = ord_ID order, cor_RazorpayKeyID = keyID, cor_AmountPaise = ord_Amount order,
           cor_Currency = ord_Currency order, cor_InvoiceID = coc_InvoiceID cmd\<rparr>))))"

record VerifyRazorpayPaymentCommand =
  vrc_TenantID :: TenantID
  vrc_InvoiceID :: string
  vrc_OrderID :: string
  vrc_PaymentID :: string
  vrc_Signature :: string

text \<open>\<open>sql.ErrNoRows\<close> becomes the empty id.\<close>

definition found_or_empty :: "string wact \<Rightarrow> string wact" where
  "found_or_empty m =
     uow_Execute (bindE (tryE m) (\<lambda>res.
       case res of
         Inr i \<Rightarrow> ret i
       | Inl err \<Rightarrow> if errors_Is_NoRows err then ret [] else raise err))"

definition findRazorpayPayment :: "TenantID \<Rightarrow> string \<Rightarrow> PaymentID wact" where
  "findRazorpayPayment t paymentID = found_or_empty (ExistsRazorpayPayment t paymentID)"

definition context_tenant :: "TenantID wact" where
  "context_tenant = bindE getEnv (\<lambda>env. ret (TenantIDFromContext (env_ctx env)))"

text \<open>The command a verified callback becomes: the whole balance of the invoice the caller names.\<close>

definition verified_command :: "VerifyRazorpayPaymentCommand \<Rightarrow> TenantID \<Rightarrow> go_time \<Rightarrow> float64 \<Rightarrow> RecordPaymentCommand" where
  "verified_command cmd t date balance =
     \<lparr>rpc_TenantID = t, rpc_InvoiceID = vrc_InvoiceID cmd, rpc_PaymentDate = date, rpc_Amount = balance,
      rpc_Method = PaymentMethodRazorpay, rpc_Reference = Some (vrc_PaymentID cmd), rpc_Remarks = None,
      rpc_RazorpayOrderID = vrc_OrderID cmd, rpc_RazorpayPaymentID = vrc_PaymentID cmd,
      rpc_RazorpaySignature = vrc_Signature cmd\<rparr>"

text \<open>What follows the check of the signature.\<close>

definition settle_verified :: "VerifyRazorpayPaymentCommand \<Rightarrow> PaymentID wact" where
  "settle_verified cmd =
     bindE context_tenant (\<lambda>t.
     bindE (findRazorpayPayment t (vrc_PaymentID cmd)) (\<lambda>existing.
     if existing \<noteq> [] then ret existing
     else bindE (invoice_balance (vrc_InvoiceID cmd) t) (\<lambda>balance.
       seqE (failIf (fle balance (Fin 0)) ''invoice has no outstanding balance'')
       (bindE Now (\<lambda>date. RecordPaymentUseCase_Execute (verified_command cmd t date balance))))))"

definition VerifyRazorpayPaymentUseCase_Execute ::
  "RazorpayClient \<Rightarrow> string \<Rightarrow> VerifyRazorpayPaymentCommand \<Rightarrow> PaymentID wact" where
  "VerifyRazorpayPaymentUseCase_Execute verifier keySecret cmd =
     seqE (failIf (keySecret = []) ''razorpay not configured'')
     (seqE (failIf (\<not> VerifyPaymentSignature verifier (vrc_OrderID cmd) (vrc_PaymentID cmd) (vrc_Signature cmd))
        ''invalid razorpay signature'')
     (settle_verified cmd))"

section \<open>Webhook\<close>

definition webhookEventTTL :: int where
  "webhookEventTTL = 24 * 3600 * 10 ^ 9"

definition ErrWebhookNotConfigured :: goerr where
  "ErrWebhookNotConfigured = ErrorString ''razorpay webhook secret not configured''"
definition ErrWebhookInvalidSignature :: goerr where
  "ErrWebhookInvalidSignature = ErrorString ''invalid razorpay webhook signature''"
definition ErrWebhookInvoiceMissing :: goerr where
  "ErrWebhookInvoiceMissing = ErrorString ''razorpay webhook payload missing invoice_id''"
definition ErrWebhookOriginalPaymentNotFound :: goerr where
  "ErrWebhookOriginalPaymentNotFound = ErrorString ''razorpay webhook refund original payment not found''"

record RazorpayPaymentEntity =
  rpe_ID :: string
  rpe_OrderID :: string
  rpe_Amount :: int
  rpe_Currency :: string
  rpe_Status :: string
  rpe_ErrorCode :: string
  rpe_ErrorDescription :: string
  rpe_Notes_InvoiceID :: string

record RazorpayOrderEntity =
  roe_ID :: string
  roe_AmountPaid :: int
  roe_Currency :: string
  roe_Status :: string
  roe_Notes_InvoiceID :: string

record RazorpayRefundEntity =
  rre_ID :: string
  rre_PaymentID :: string
  rre_Amount :: int
  rre_Currency :: string
  rre_Status :: string
  rre_Notes_InvoiceID :: string

record RazorpayWebhookEvent =
  rwe_Event :: string
  rwe_Payment :: RazorpayPaymentEntity
  rwe_Order :: RazorpayOrderEntity
  rwe_Refund :: RazorpayRefundEntity

record processedEvent =
  pre_at :: go_time
  pre_id :: PaymentID

text \<open>The use case: its wiring and the state it keeps between calls.\<close>

record RazorpayWebhook =
  rw_reverse :: bool
  rw_secret :: string
  rw_bus :: "world InMemoryBus option"
  rw_processedIDs :: "string \<rightharpoonup> processedEvent"
  rw_lastReceivedAt :: go_time
  rw_counts :: "string \<rightharpoonup> int"

definition NewRazorpayWebhookUseCase :: "string \<Rightarrow> RazorpayWebhook" where
  "NewRazorpayWebhookUseCase webhookSecret =
     \<lparr>rw_reverse = False, rw_secret = webhookSecret, rw_bus = None, rw_processedIDs = (\<lambda>_. None),
      rw_lastReceivedAt = 0, rw_counts = (\<lambda>_. None)\<rparr>"

definition SetReversePaymentUseCase :: "RazorpayWebhook \<Rightarrow> RazorpayWebhook" where
  "SetReversePaymentUseCase uc = uc\<lparr>rw_reverse := True\<rparr>"

definition SetEventBus :: "world InMemoryBus \<Rightarrow> RazorpayWebhook \<Rightarrow> RazorpayWebhook" where
  "SetEventBus bus uc = uc\<lparr>rw_bus := Some bus\<rparr>"

definition VerifySignature :: "RazorpayWebhook \<Rightarrow> string \<Rightarrow> string \<Rightarrow> unit result" where
  "VerifySignature uc rawBody signature =
     (if rw_secret uc = [] then Inl ErrWebhookNotConfigured
      else if signature = [] then Inl ErrWebhookInvalidSignature
      else (case hex_DecodeString signature of
          None \<Rightarrow> Inl ErrWebhookInvalidSignature
        | Some want \<Rightarrow>
            if want \<noteq> hmac_sha256 (bytes_of (rw_secret uc)) (bytes_of rawBody)
            then Inl ErrWebhookInvalidSignature else Inr ()))"

text \<open>
  A struct published on the bus is written as the object of its fields; publishing returns nothing.
\<close>

definition publish_failed :: "world InMemoryBus option \<Rightarrow> (go_time \<Rightarrow> (string \<times> json) list) \<Rightarrow> unit wact" where
  "publish_failed bus body =
     (case bus of
        None \<Rightarrow> ret ()
      | Some b \<Rightarrow> bindE Now (\<lambda>now. \<lambda>w. (Inr (), snd (bus_Publish b
          \<lparr>ev_Type = ''razorpay.payment_failed'', ev_Payload = JObject (body now)\<rparr> w))))"

definition failed_event_fields ::
  "string \<Rightarrow> string \<Rightarrow> string \<Rightarrow> string \<Rightarrow> float64 \<Rightarrow> string \<Rightarrow> string \<Rightarrow> string \<Rightarrow> go_time \<Rightarrow> (string \<times> json) list" where
  "failed_event_fields eventID paymentID orderID invoiceID amount currency code descr now =
     [(''RazorpayEventID'', JString eventID), (''RazorpayPaymentID'', JString paymentID), (''OrderID'', JString orderID),
      (''InvoiceID'', JString invoiceID), (''Amount'', JNumber amount), (''Currency'', JString currency),
      (''ErrorCode'', JString code), (''ErrorDescription'', JString descr), (''CreatedAt'', JTime now)]"

definition acknowledgeUnattributable :: "world InMemoryBus option \<Rightarrow> string \<Rightarrow> string \<Rightarrow> unit wact" where
  "acknowledgeUnattributable bus paymentID invoiceID =
     publish_failed bus (failed_event_fields [] paymentID [] invoiceID (Fin 0) [] ''INVOICE_UNATTRIBUTABLE''
       ''webhook payment missing notes.invoice_id'')"

definition processFailed :: "world InMemoryBus option \<Rightarrow> string \<Rightarrow> RazorpayPaymentEntity \<Rightarrow> unit wact" where
  "processFailed bus eventID entity =
     publish_failed bus (failed_event_fields eventID (rpe_ID entity) (rpe_OrderID entity) (rpe_Notes_InvoiceID entity)
       (fdivc (float_of_int64 (rpe_Amount entity)) 100) (rpe_Currency entity) (rpe_ErrorCode entity)
       (rpe_ErrorDescription entity))"

definition findByReference :: "string \<Rightarrow> TenantID \<Rightarrow> PaymentID wact" where
  "findByReference reference t = found_or_empty (PaymentRepository_FindByReference reference t)"

definition findWebhookEvent :: "TenantID \<Rightarrow> string \<Rightarrow> PaymentID wact" where
  "findWebhookEvent t eventID = found_or_empty (ExistsWebhookEvent t eventID)"

definition setWebhookEventID :: "TenantID \<Rightarrow> PaymentID \<Rightarrow> string \<Rightarrow> unit wact" where
  "setWebhookEventID t i eventID = uow_Execute (SetWebhookEventID i t eventID)"

definition gateway_command :: "TenantID \<Rightarrow> string \<Rightarrow> go_time \<Rightarrow> int \<Rightarrow> string \<Rightarrow> RecordPaymentCommand" where
  "gateway_command t invoiceID date paise reference =
     \<lparr>rpc_TenantID = t, rpc_InvoiceID = invoiceID, rpc_PaymentDate = date,
      rpc_Amount = fdivc (float_of_int64 paise) 100, rpc_Method = PaymentMethodRazorpay,
      rpc_Reference = Some reference, rpc_Remarks = None, rpc_RazorpayOrderID = [], rpc_RazorpayPaymentID = [],
      rpc_RazorpaySignature = []\<rparr>"

definition recordPaymentEntity :: "world InMemoryBus option \<Rightarrow> RazorpayPaymentEntity \<Rightarrow> PaymentID wact" where
  "recordPaymentEntity bus entity =
     (if rpe_ID entity = [] then raise ErrWebhookInvoiceMissing
      else bindE context_tenant (\<lambda>t.
        bindE (findRazorpayPayment t (rpe_ID entity)) (\<lambda>existing.
        if existing \<noteq> [] then ret existing
        else if rpe_Notes_InvoiceID entity = []
        then seqE (acknowledgeUnattributable bus (rpe_ID entity) []) (ret [])
        else bindE (findByReference (rpe_ID entity) t) (\<lambda>existingByRef.
          if existingByRef \<noteq> [] then ret existingByRef
          else bindE Now (\<lambda>date.
            RecordPaymentUseCase_Execute
              (gateway_command t (rpe_Notes_InvoiceID entity) date (rpe_Amount entity) (rpe_ID entity)))))))"

definition recordOrderEntity :: "world InMemoryBus option \<Rightarrow> RazorpayOrderEntity \<Rightarrow> PaymentID wact" where
  "recordOrderEntity bus entity =
     (if roe_ID entity = [] then raise ErrWebhookInvoiceMissing
      else bindE context_tenant (\<lambda>t.
        bindE (findByReference (roe_ID entity) t) (\<lambda>existing.
        if existing \<noteq> [] then ret existing
        else if roe_Notes_InvoiceID entity = []
        then seqE (acknowledgeUnattributable bus (roe_ID entity) []) (ret [])
        else bindE Now (\<lambda>date.
          RecordPaymentUseCase_Execute
            (gateway_command t (roe_Notes_InvoiceID entity) date (roe_AmountPaid entity) (roe_ID entity))))))"

definition processRefundEntity :: "bool \<Rightarrow> RazorpayRefundEntity \<Rightarrow> PaymentID wact" where
  "processRefundEntity reverseUC entity =
     (if rre_PaymentID entity = [] then raise ErrWebhookOriginalPaymentNotFound
      else seqE (failIf (\<not> reverseUC) ''reverse payment use case not configured'')
        (bindE context_tenant (\<lambda>t.
         bindE (findByReference (rre_PaymentID entity) t) (\<lambda>originalID.
         if originalID = [] then raise ErrWebhookOriginalPaymentNotFound
         else ReversePaymentUseCase_Execute \<lparr>rvc_TenantID = t, rvc_OriginalPayID = originalID,
             rvc_Reason = ''Razorpay refund '' @ rre_ID entity\<rparr>))))"

text \<open>The switch over the event type; other events are acknowledged without side effects.\<close>

definition webhook_effect :: "RazorpayWebhook \<Rightarrow> string \<Rightarrow> RazorpayWebhookEvent \<Rightarrow> PaymentID wact" where
  "webhook_effect uc eventID ev =
     (if rwe_Event ev = ''payment.captured'' then recordPaymentEntity (rw_bus uc) (rwe_Payment ev)
      else if rwe_Event ev = ''order.paid'' then recordOrderEntity (rw_bus uc) (rwe_Order ev)
      else if rwe_Event ev = ''refund.processed'' then processRefundEntity (rw_reverse uc) (rwe_Refund ev)
      else if rwe_Event ev = ''payment.failed'' then seqE (processFailed (rw_bus uc) eventID (rwe_Payment ev)) (ret [])
      else ret [])"

subsection \<open>State between calls\<close>

text \<open>A call changes the use case and the world; what a failed call did to either stays.\<close>

type_synonym 'a webhook_act = "(RazorpayWebhook \<times> world, 'a) act"

definition get_webhook :: "RazorpayWebhook webhook_act" where
  "get_webhook = (\<lambda>(uc, w). (Inr uc, (uc, w)))"

definition modify_webhook :: "(RazorpayWebhook \<Rightarrow> RazorpayWebhook) \<Rightarrow> unit webhook_act" where
  "modify_webhook f = (\<lambda>(uc, w). (Inr (), (f uc, w)))"

definition cleanProcessed :: "go_time \<Rightarrow> RazorpayWebhook \<Rightarrow> RazorpayWebhook" where
  "cleanProcessed now uc =
     uc\<lparr>rw_processedIDs := (\<lambda>i. case rw_processedIDs uc i of
          Some p \<Rightarrow> (if now - pre_at p \<ge> webhookEventTTL then None else Some p)
        | None \<Rightarrow> None)\<rparr>"

definition isProcessed :: "string \<Rightarrow> PaymentID option webhook_act" where
  "isProcessed eventID =
     (if eventID = [] then ret None
      else bindE (in_world Now) (\<lambda>now.
        seqE (modify_webhook (cleanProcessed now))
        (bindE get_webhook (\<lambda>uc. ret (map_option pre_id (rw_processedIDs uc eventID))))))"

definition markProcessed :: "string \<Rightarrow> PaymentID \<Rightarrow> unit webhook_act" where
  "markProcessed eventID i =
     (if eventID = [] then ret ()
      else bindE (in_world Now) (\<lambda>now.
        modify_webhook (\<lambda>uc. uc\<lparr>rw_processedIDs := (rw_processedIDs uc)(eventID \<mapsto> \<lparr>pre_at = now, pre_id = i\<rparr>)\<rparr>)))"

definition touchLastReceived :: "unit webhook_act" where
  "touchLastReceived = bindE (in_world Now) (\<lambda>now. modify_webhook (\<lambda>uc. uc\<lparr>rw_lastReceivedAt := now\<rparr>))"

definition incrementCount :: "string \<Rightarrow> unit webhook_act" where
  "incrementCount eventType =
     modify_webhook (\<lambda>uc. uc\<lparr>rw_counts := (rw_counts uc)(eventType \<mapsto>
       wrap64 ((case rw_counts uc eventType of Some n \<Rightarrow> n | None \<Rightarrow> 0) + 1))\<rparr>)"

text \<open>\<open>Status\<close>: the time of the last call and a copy of the counts.\<close>

definition webhook_Status :: "RazorpayWebhook \<Rightarrow> go_time \<times> (string \<rightharpoonup> int)" where
  "webhook_Status uc = (rw_lastReceivedAt uc, rw_counts uc)"

text \<open>What is done for an event id that is in neither cache.\<close>

definition apply_event :: "TenantID \<Rightarrow> string \<Rightarrow> RazorpayWebhookEvent \<Rightarrow> PaymentID webhook_act" where
  "apply_event t eventID ev =
     bindE get_webhook (\<lambda>uc.
     bindE (in_world (webhook_effect uc eventID ev)) (\<lambda>i.
     seqE (if i \<noteq> [] \<and> eventID \<noteq> [] then in_world (setWebhookEventID t i eventID) else ret ())
     (seqE (markProcessed eventID i)
     (seqE (incrementCount (rwe_Event ev))
     (ret i)))))"

text \<open>
  What follows the check of the signature; \<open>json.Unmarshal\<close> of the body into an event is a
  parameter.
\<close>

definition process_event ::
  "(string \<Rightarrow> RazorpayWebhookEvent \<Rightarrow> RazorpayWebhookEvent result) \<Rightarrow> string \<Rightarrow> string
     \<Rightarrow> RazorpayWebhookEvent \<Rightarrow> PaymentID webhook_act" where
  "process_event unmarshal rawBody eventID ev =
     bindE (lift_result (if rwe_Event ev = [] then unmarshal rawBody ev else Inr ev)) (\<lambda>ev.
     seqE touchLastReceived
     (bindE (in_world context_tenant) (\<lambda>t.
      bindE (isProcessed eventID) (\<lambda>hot.
      case hot of
        Some i \<Rightarrow> ret i
      | None \<Rightarrow>
          bindE (if eventID \<noteq> [] then in_world (findWebhookEvent t eventID) else ret []) (\<lambda>existing.
          if existing \<noteq> [] then seqE (markProcessed eventID existing) (ret existing)
          else apply_event t eventID ev)))))"

definition ExecuteEvent ::
  "(string \<Rightarrow> RazorpayWebhookEvent \<Rightarrow> RazorpayWebhookEvent result) \<Rightarrow> string \<Rightarrow> string \<Rightarrow> string
     \<Rightarrow> RazorpayWebhookEvent \<Rightarrow> PaymentID webhook_act" where
  "ExecuteEvent unmarshal rawBody signature eventID ev =
     bindE get_webhook (\<lambda>uc.
     seqE (lift_result (VerifySignature uc rawBody signature))
     (process_event unmarshal rawBody eventID ev))"

definition zero_event :: RazorpayWebhookEvent where
  "zero_event =
     \<lparr>rwe_Event = [],
      rwe_Payment = \<lparr>rpe_ID = [], rpe_OrderID = [], rpe_Amount = 0, rpe_Currency = [], rpe_Status = [],
        rpe_ErrorCode = [], rpe_ErrorDescription = [], rpe_Notes_InvoiceID = []\<rparr>,
      rwe_Order = \<lparr>roe_ID = [], roe_AmountPaid = 0, roe_Currency = [], roe_Status = [], roe_Notes_InvoiceID = []\<rparr>,
      rwe_Refund = \<lparr>rre_ID = [], rre_PaymentID = [], rre_Amount = 0, rre_Currency = [], rre_Status = [],
        rre_Notes_InvoiceID = []\<rparr>\<rparr>"

definition RazorpayWebhookUseCase_Execute ::
  "(string \<Rightarrow> RazorpayWebhookEvent \<Rightarrow> RazorpayWebhookEvent result) \<Rightarrow> string \<Rightarrow> string \<Rightarrow> PaymentID webhook_act" where
  "RazorpayWebhookUseCase_Execute unmarshal rawBody signature = ExecuteEvent unmarshal rawBody signature [] zero_event"

end
