(* ===== verification/Razorpay_Safety.thy ===== *)
theory Razorpay_Safety
  imports Billing_Invariants Razorpay
begin

text \<open>
  What holds of online payments: only signed requests have an effect, and a captured payment is
  recorded once.
\<close>

section \<open>Steps that leave the store as it is\<close>

interpretation ss: kept_relation same_store
  by unfold_locales (auto intro: same_store_trans)

lemma ss_query: "ss.keeps (query q)"
  by (rule ss.keepsI) (metis query_same_store prod.collapse)

lemma ss_prims: "ss.keeps Now" "ss.keeps getEnv" "ss.keeps context_tenant"
proof -
  show "ss.keeps Now" by (rule ss.keepsI) (simp add: Now_def same_store_def)
  show "ss.keeps getEnv" by (rule ss.keepsI) (simp add: getEnv_def)
  then show "ss.keeps context_tenant" unfolding context_tenant_def by (intro ss.keeps_intros)
qed

lemma ss_uow:
  assumes "ss.keeps fn"
  shows "ss.keeps (uow_Execute fn)"
proof (rule ss.keepsI)
  fix w :: world
  let ?w = "w\<lparr>w_nop := Suc (w_nop w)\<rparr>"
  have "same_store ?w (snd (fn ?w))" using assms by (simp add: ss.keeps_def)
  then show "same_store w (snd (uow_Execute fn w))"
    by (auto simp: uow_Execute_def WithTransaction_def Let_def same_store_def split: option.splits prod.splits sum.splits)
qed

lemma ss_found: "ss.keeps m \<Longrightarrow> ss.keeps (found_or_empty m)"
  unfolding found_or_empty_def by (intro ss_uow ss.keeps_bind ss.keeps_try ss.keeps_sum ss.keeps_if ss.keeps_intros)

lemma ss_lookups:
  "ss.keeps (findRazorpayPayment t i)" "ss.keeps (findByReference r t)" "ss.keeps (findWebhookEvent t e)"
  unfolding findRazorpayPayment_def findByReference_def findWebhookEvent_def ExistsRazorpayPayment_def
    ExistsWebhookEvent_def PaymentRepository_FindByReference_def findIDByIdempotencyKey_def
  by (intro ss_found ss_query ss.keeps_if ss.keeps_intros)+

lemma ss_balance: "ss.keeps (invoice_balance i t)"
  unfolding invoice_balance_def noRowsAs_def InvoiceRepository_Find_def findInvoiceBySQL_def loadLineItems_def
  by (intro ss_uow ss_query ss.keeps_intros)

section \<open>What a lookup finds\<close>

lemma found_query_Inr:
  assumes "found_or_empty (query (findPaymentID p)) w = (Inr i, w')"
  shows "i \<noteq> [] \<Longrightarrow> \<exists>x. find p (db_payments (w_db w)) = Some x \<and> pw_id x = i"
    and "driver_faults (w_env w) \<Longrightarrow> find p (db_payments (w_db w)) = Some x \<Longrightarrow> i = pw_id x"
proof -
  let ?w = "w\<lparr>w_nop := Suc (w_nop w)\<rparr>"
  obtain res w1 where q: "query (findPaymentID p) ?w = (res, w1)" by fastforce
  with assms have b: "(\<exists>e. res = Inl e \<and> errors_Is_NoRows e \<and> i = []) \<or> res = Inr i"
    by (cases res) (auto simp: found_or_empty_def uow_Inr bindE_Inr tryE_Inr ret_Inr raise_Inr split: if_splits)
  show "\<exists>x. find p (db_payments (w_db w)) = Some x \<and> pw_id x = i" if "i \<noteq> []"
    using b q that by (auto simp: query_Inr findPaymentID_def one_row_def split: option.splits)
  assume d: "driver_faults (w_env w)" and x: "find p (db_payments (w_db w)) = Some x"
  from q x have "(\<exists>e. res = Inl e \<and> env_fault (w_env w) (Suc (w_nop w)) = Some e) \<or> res = Inr (pw_id x)"
    by (auto simp: query_def stmt_def Let_def findPaymentID_def one_row_def split: option.splits)
  with b d show "i = pw_id x" by (auto simp: driver_faults_def)
qed

definition has_gateway_id :: "string \<Rightarrow> string \<Rightarrow> payment_row \<Rightarrow> bool" where
  "has_gateway_id t i x \<longleftrightarrow> pw_tenant_id x = t \<and> pw_razorpay_payment_id x = Some i"

lemma findRazorpayPayment_query: "findRazorpayPayment t i = found_or_empty (query (findPaymentID (has_gateway_id t i)))"
  by (simp add: findRazorpayPayment_def ExistsRazorpayPayment_def has_gateway_id_def [abs_def])

lemma findByReference_query:
  assumes "TrimSpace i = i" and "i \<noteq> []"
  shows "findByReference i t = found_or_empty (query (findPaymentID (has_key t (''ref:'' @ i))))"
  using assms
  by (simp add: findByReference_def PaymentRepository_FindByReference_def findIDByIdempotencyKey_def has_key_def [abs_def])

section \<open>Calls of the webhook\<close>

text \<open>The wiring of the use case and the store stay as they are.\<close>

definition same_wiring :: "RazorpayWebhook \<times> world \<Rightarrow> RazorpayWebhook \<times> world \<Rightarrow> bool" where
  "same_wiring s s' \<longleftrightarrow> same_store (snd s) (snd s') \<and> rw_bus (fst s') = rw_bus (fst s)
     \<and> rw_reverse (fst s') = rw_reverse (fst s)"

interpretation calm: kept_relation same_wiring
  by unfold_locales (auto simp: same_wiring_def intro: same_store_trans)

lemma calm_in_world: "ss.keeps m \<Longrightarrow> calm.keeps (in_world m)"
  by (rule calm.keepsI) (auto simp: in_world_def same_wiring_def ss.keeps_def split: prod.splits, metis snd_conv)

lemma calm_get: "calm.keeps get_webhook"
  by (rule calm.keepsI) (simp add: get_webhook_def same_wiring_def split: prod.split)

lemma calm_modify: "(\<And>uc. rw_bus (f uc) = rw_bus uc \<and> rw_reverse (f uc) = rw_reverse uc) \<Longrightarrow> calm.keeps (modify_webhook f)"
  by (rule calm.keepsI) (simp add: modify_webhook_def same_wiring_def split: prod.split)

lemma calm_bookkeeping:
  "calm.keeps touchLastReceived" "calm.keeps (isProcessed i)" "calm.keeps (markProcessed i p)" "calm.keeps (incrementCount e)"
  unfolding touchLastReceived_def isProcessed_def markProcessed_def incrementCount_def
  by (intro calm_in_world calm_modify calm_get ss_prims calm.keeps_if calm.keeps_intros; simp add: cleanProcessed_def)+

lemma context_tenant_Inr [act_inv]:
  "context_tenant w = (Inr t, w') \<longleftrightarrow> t = TenantIDFromContext (env_ctx (w_env w)) \<and> w' = w"
  by (auto simp: context_tenant_def act_inv)

text \<open>A call ends early with the store as it was, or it applies the event.\<close>

definition event_of ::
  "(string \<Rightarrow> RazorpayWebhookEvent \<Rightarrow> RazorpayWebhookEvent result) \<Rightarrow> string \<Rightarrow> RazorpayWebhookEvent \<Rightarrow> RazorpayWebhookEvent result" where
  "event_of unmarshal rawBody ev = (if rwe_Event ev = [] then unmarshal rawBody ev else Inr ev)"

lemma touch_run: "\<exists>s'. touchLastReceived s = (Inr (), s')"
  by (cases s) (simp add: touchLastReceived_def bindE_def in_world_def Now_def modify_webhook_def)

lemma isProcessed_run:
  "\<exists>h s'. isProcessed e s = (Inr h, s') \<and> (rw_processedIDs (fst s) e = None \<longrightarrow> h = None)"
  by (cases s)
    (auto simp: isProcessed_def bindE_def seqE_def in_world_def Now_def modify_webhook_def get_webhook_def
      cleanProcessed_def ret_def)

lemma process_event_cases:
  assumes "process_event unm body eid ev (uc, w) = (r, (uc', w'))"
  obtains (quiet) "same_store w w'"
      "\<And>p. r = Inr p \<Longrightarrow> rw_processedIDs uc eid = None \<Longrightarrow>
         \<exists>x\<in>set (db_payments (w_db w)). pw_tenant_id x = TenantIDFromContext (env_ctx (w_env w)) \<and> pw_webhook_event_id x = Some eid"
  | (applied) ev' uc1 w1 where "event_of unm body ev = Inr ev'" "same_wiring (uc, w) (uc1, w1)"
      "apply_event (TenantIDFromContext (env_ctx (w_env w))) eid ev' (uc1, w1) = (r, (uc', w'))"
proof (cases "event_of unm body ev")
  case (Inl e)
  with assms have "w' = w" "r = Inl e" by (simp_all add: process_event_def event_of_def act_simps)
  then show thesis by (intro quiet) simp_all
next
  case (Inr ev')
  let ?t = "TenantIDFromContext (env_ctx (w_env w))"
  from touch_run obtain uc1 w1 where t: "touchLastReceived (uc, w) = (Inr (), (uc1, w1))" by (metis prod.exhaust)
  from isProcessed_run obtain h uc2 w2 where p: "isProcessed eid (uc1, w1) = (Inr h, (uc2, w2))"
    and fresh: "rw_processedIDs uc1 eid = None \<longrightarrow> h = None" by (metis fst_conv prod.exhaust)
  have uc1: "rw_processedIDs uc1 = rw_processedIDs uc"
    using t by (auto simp: touchLastReceived_def bindE_def in_world_def Now_def modify_webhook_def)
  have s1: "same_wiring (uc, w) (uc1, w1)" using calm.keepsD [OF calm_bookkeeping(1) t] .
  then have env: "w_env w1 = w_env w" by (simp add: same_wiring_def same_store_def)
  have s2: "same_wiring (uc, w) (uc2, w2)" using calm.R_trans [OF s1 calm.keepsD [OF calm_bookkeeping(2) p]] .
  define M :: "string webhook_act" where "M = (if eid \<noteq> [] then in_world (findWebhookEvent ?t eid) else ret [])"
  obtain ex uc3 w3 where m: "M (uc2, w2) = (ex, (uc3, w3))" by (metis prod.exhaust)
  have "calm.keeps M" unfolding M_def by (intro calm.keeps_if calm.keeps_ret calm_in_world ss_lookups)
  then have s3: "same_wiring (uc, w) (uc3, w3)"
    using calm.R_trans [OF s2 calm.keepsD [of M "(uc2, w2)"]] m by blast
  have ct: "in_world context_tenant (uc1, w1) = (Inr ?t, (uc1, w1))"
    by (simp add: in_world_def context_tenant_def getEnv_def act_simps env)
  have run: "process_event unm body eid ev (uc, w) =
      (case h of Some i \<Rightarrow> (Inr i, (uc2, w2))
       | None \<Rightarrow> (case ex of Inl e \<Rightarrow> (Inl e, (uc3, w3))
         | Inr existing \<Rightarrow> (if existing \<noteq> [] then seqE (markProcessed eid existing) (ret existing)
             else apply_event ?t eid ev') (uc3, w3)))"
    using Inr t p m ct
    by (simp add: process_event_def event_of_def [symmetric] act_simps M_def [symmetric] split: option.split sum.split)
  show thesis
  proof (cases h)
    case (Some i)
    with run assms s2 fresh uc1 show thesis by (intro quiet) (auto simp: same_wiring_def)
  next
    case None
    show thesis
    proof (cases ex)
      case (Inl e)
      with None run assms s3 show thesis by (intro quiet) (auto simp: same_wiring_def)
    next
      case (Inr existing)
      show thesis
      proof (cases "existing = []")
        case True
        with None Inr run assms \<open>event_of unm body ev = Inr ev'\<close> s3 show thesis by (intro applied [of ev' uc3 w3]) simp_all
      next
        case False
        with None Inr run assms have "seqE (markProcessed eid existing) (ret existing) (uc3, w3) = (r, (uc', w'))" by simp
        from calm.keepsD [OF calm.keeps_seq [OF calm_bookkeeping(3) calm.keeps_ret] this] calm.R_trans [OF s3]
        have same: "same_store w w'" by (auto simp: same_wiring_def)
        from False Inr m have f: "found_or_empty (query (findPaymentID (\<lambda>x. pw_tenant_id x = ?t \<and> pw_webhook_event_id x = Some eid))) w2 = (Inr existing, w3)"
          by (auto simp: M_def in_world_def findWebhookEvent_def ExistsWebhookEvent_def ret_def split: if_splits prod.splits)
        from found_query_Inr(1) [OF f False] s2 show thesis
          by (intro quiet [OF same]) (auto simp: same_wiring_def same_store_def dest: find_SomeD)
      qed
    qed
  qed
qed

lemma ExecuteEvent_run:
  "ExecuteEvent unm body sig eid ev (uc, w) =
     (case VerifySignature uc body sig of
        Inl e \<Rightarrow> (Inl e, (uc, w))
      | Inr _ \<Rightarrow> process_event unm body eid ev (uc, w))"
  by (simp add: ExecuteEvent_def bindE_def get_webhook_def seqE_def lift_result_def split: sum.split)

section \<open>Signatures\<close>

lemma VerifySignature_Inr:
  "VerifySignature uc body sig = Inr () \<longleftrightarrow>
     rw_secret uc \<noteq> [] \<and> sig \<noteq> []
     \<and> hex_DecodeString sig = Some (hmac_sha256 (bytes_of (rw_secret uc)) (bytes_of body))"
  by (auto simp: VerifySignature_def split: option.split)

text \<open>
  Property C19.  A request has an effect only when its signature is the hexadecimal text of the MAC of
  its body under the configured secret; the signature of the gateway is accepted.
\<close>

theorem webhook_requires_signature:
  assumes "ExecuteEvent unm body sig eid ev (uc, w) = (r, s')" and "s' \<noteq> (uc, w) \<or> \<not> isl r"
  shows "rw_secret uc \<noteq> [] \<and> hex_DecodeString sig = Some (hmac_sha256 (bytes_of (rw_secret uc)) (bytes_of body))
    \<and> VerifySignature uc body (hex_EncodeToString (hmac_sha256 (bytes_of (rw_secret uc)) (bytes_of body))) = Inr ()"
proof -
  have "VerifySignature uc body sig = Inr ()"
    using assms by (cases "VerifySignature uc body sig") (auto simp: ExecuteEvent_run)
  then have a: "rw_secret uc \<noteq> []" "hex_DecodeString sig = Some (hmac_sha256 (bytes_of (rw_secret uc)) (bytes_of body))"
    by (auto simp: VerifySignature_Inr)
  moreover have "hex_EncodeToString bs = [] \<Longrightarrow> bs = []" for bs by (cases bs) (simp_all add: hex_EncodeToString_def)
  moreover have "hmac_sha256 k m \<noteq> []" for k m by (rule hmac_sha256_nonempty)
  ultimately show ?thesis by (auto simp: VerifySignature_Inr hex_decode_encode)
qed

section \<open>Captured payments\<close>

lemma find_key_ledger:
  "map_option pw_id (find (has_key t k) ps) = map_option fst (find (\<lambda>(i, u, v, a, e). u = t \<and> e = Some k) (map ledger_entry ps))"
  by (induction ps) (auto simp: has_key_def ledger_entry_def)

lemma record_payment_keyed:
  assumes "invoices_ok (w_db w)" and "RecordPaymentUseCase_Execute cmd w = (Inr pid, w')"
  shows "map_option pw_id (find (has_key (rpc_TenantID cmd) (command_key (env_oor (w_env w)) cmd)) (db_payments (w_db w'))) = Some pid"
proof -
  from record_payment_Inr [OF assms] obtain w2 w3 i now p' where "w_env w2 = w_env w"
    and s: "PaymentRepository_Save (command_payment cmd i now) w2 = (Inr p', w3)" and "pid = py_ID p'"
    and l: "ledger (w_db w') = ledger (w_db w3)" by blast
  with Payment_Save_Inr [OF s]
  have "map_option pw_id (find (has_key (rpc_TenantID cmd) (command_key (env_oor (w_env w)) cmd)) (db_payments (w_db w3))) = Some pid"
    by (auto simp: payment_found_def payment_added_def same_store_def command_key_payment find_append has_key_def)
  with l show ?thesis by (simp add: find_key_ledger ledger_def)
qed

text \<open>A payment of the gateway is known when its id stands in the gateway column or in the key.\<close>

definition gateway_known :: "database \<Rightarrow> TenantID \<Rightarrow> string \<Rightarrow> bool" where
  "gateway_known d t i \<longleftrightarrow>
     (\<exists>x. find (has_gateway_id t i) (db_payments d) = Some x \<and> pw_id x \<noteq> [])
     \<or> (\<exists>x. find (has_key t (''ref:'' @ i)) (db_payments d) = Some x \<and> pw_id x \<noteq> [])"

lemma gateway_command_key:
  assumes "TrimSpace i = i" and "i \<noteq> []"
  shows "command_key oor (gateway_command t v date paise i) = ''ref:'' @ i"
  using assms
  by (simp add: command_key_def command_payment_def gateway_command_def idempotencyKey_def NewPaymentAggregate_def Let_def)

lemma Now_apply: "bindE Now f w = f (env_clk (w_env w) (w_nclk w)) (w\<lparr>w_nclk := Suc (w_nclk w)\<rparr>)"
  by (simp add: bindE_def Now_def)

lemma context_tenant_apply: "bindE context_tenant f w = f (TenantIDFromContext (env_ctx (w_env w))) w"
  by (simp add: context_tenant_def bindE_def getEnv_def ret_def)

lemma gateway_command_simps [simp]:
  "rpc_TenantID (gateway_command t v date paise i) = t" "rpc_InvoiceID (gateway_command t v date paise i) = v"
  by (simp_all add: gateway_command_def)

text \<open>The two lookups, then the recording.\<close>

lemma recordPaymentEntity_run:
  "rpe_ID e \<noteq> [] \<Longrightarrow> recordPaymentEntity bus e w =
     (let t = TenantIDFromContext (env_ctx (w_env w)) in
      bindE (findRazorpayPayment t (rpe_ID e)) (\<lambda>existing.
        if existing \<noteq> [] then ret existing
        else if rpe_Notes_InvoiceID e = []
        then seqE (acknowledgeUnattributable bus (rpe_ID e) []) (ret [])
        else bindE (findByReference (rpe_ID e) t) (\<lambda>existingByRef.
          if existingByRef \<noteq> [] then ret existingByRef
          else bindE Now (\<lambda>date.
            RecordPaymentUseCase_Execute
              (gateway_command t (rpe_Notes_InvoiceID e) date (rpe_Amount e) (rpe_ID e)))))) w"
  by (simp add: recordPaymentEntity_def context_tenant_apply Let_def)

lemma recordPaymentEntity_known:
  assumes "invoices_ok (w_db w)" and "recordPaymentEntity bus e w = (Inr pid, w')" and "pid \<noteq> []"
    and "TrimSpace (rpe_ID e) = rpe_ID e"
  shows "gateway_known (w_db w') (TenantIDFromContext (env_ctx (w_env w))) (rpe_ID e)"
proof -
  let ?t = "TenantIDFromContext (env_ctx (w_env w))"
  from assms(2) have i: "rpe_ID e \<noteq> []" by (auto simp: recordPaymentEntity_def raise_def)
  from assms(2) i obtain ex w1 where f: "findRazorpayPayment ?t (rpe_ID e) w = (Inr ex, w1)"
    and rest: "(if ex \<noteq> [] then ret ex
        else if rpe_Notes_InvoiceID e = [] then seqE (acknowledgeUnattributable bus (rpe_ID e) []) (ret [])
        else bindE (findByReference (rpe_ID e) ?t) (\<lambda>existingByRef.
          if existingByRef \<noteq> [] then ret existingByRef
          else bindE Now (\<lambda>date. RecordPaymentUseCase_Execute
              (gateway_command ?t (rpe_Notes_InvoiceID e) date (rpe_Amount e) (rpe_ID e))))) w1 = (Inr pid, w')"
    by (auto simp: recordPaymentEntity_def context_tenant_apply bindE_Inr)
  have s1: "same_store w w1" using ss.keepsD [OF ss_lookups(1) f] .
  show ?thesis
  proof (cases "ex = []")
    case False
    with rest found_query_Inr(1) [OF f [unfolded findRazorpayPayment_query]] s1 show ?thesis
      by (auto simp: gateway_known_def ret_Inr same_store_def)
  next
    case True
    with rest assms(3) obtain ref w2 where g: "findByReference (rpe_ID e) ?t w1 = (Inr ref, w2)"
      and rest2: "(if ref \<noteq> [] then ret ref else bindE Now (\<lambda>date. RecordPaymentUseCase_Execute
              (gateway_command ?t (rpe_Notes_InvoiceID e) date (rpe_Amount e) (rpe_ID e)))) w2 = (Inr pid, w')"
      by (auto simp: bindE_Inr seqE_Inr ret_Inr split: if_splits)
    have s2: "same_store w w2" using ss.keepsD [OF ss_lookups(2) g] s1 same_store_trans by blast
    show ?thesis
    proof (cases "ref = []")
      case False
      with rest2 found_query_Inr(1) [OF g [unfolded findByReference_query [OF assms(4) i]]] s1 s2 show ?thesis
        by (auto simp: gateway_known_def ret_Inr same_store_def)
    next
      case True
      with rest2 have "RecordPaymentUseCase_Execute (gateway_command ?t (rpe_Notes_InvoiceID e) (env_clk (w_env w2) (w_nclk w2))
          (rpe_Amount e) (rpe_ID e)) (w2\<lparr>w_nclk := Suc (w_nclk w2)\<rparr>) = (Inr pid, w')"
        by (simp add: Now_apply)
      from record_payment_keyed [OF _ this] assms(1,3) s2 show ?thesis
        by (auto simp: gateway_command_key [OF assms(4) i] gateway_known_def same_store_def)
    qed
  qed
qed

lemma recordPaymentEntity_again:
  assumes "recordPaymentEntity bus e w = (r, w')" and "driver_faults (w_env w)"
    and "gateway_known (w_db w) (TenantIDFromContext (env_ctx (w_env w))) (rpe_ID e)"
    and "TrimSpace (rpe_ID e) = rpe_ID e" and "rpe_Notes_InvoiceID e \<noteq> []"
  shows "same_store w w'"
proof (cases "rpe_ID e = []")
  case True
  with assms(1) show ?thesis by (simp add: recordPaymentEntity_def raise_def)
next
  case i: False
  let ?t = "TenantIDFromContext (env_ctx (w_env w))"
  obtain res w1 where f: "findRazorpayPayment ?t (rpe_ID e) w = (res, w1)" by fastforce
  have s1: "same_store w w1" using ss.keepsD [OF ss_lookups(1) f] .
  show ?thesis
  proof (cases "\<exists>p. res = Inr p \<and> p = []")
    case False
    with assms(1) i f s1 show ?thesis
      by (cases res) (auto simp: recordPaymentEntity_run Let_def bindE_apply ret_def)
  next
    case True
    with f have f': "found_or_empty (query (findPaymentID (has_gateway_id ?t (rpe_ID e)))) w = (Inr [], w1)"
      by (simp add: findRazorpayPayment_query)
    from found_query_Inr(2) [OF f'] assms(2,3)
    obtain x where x: "find (has_key ?t (''ref:'' @ rpe_ID e)) (db_payments (w_db w)) = Some x" "pw_id x \<noteq> []"
      by (auto simp: gateway_known_def)
    obtain ref w2 where g: "findByReference (rpe_ID e) ?t w1 = (ref, w2)" by fastforce
    have s2: "same_store w w2" using ss.keepsD [OF ss_lookups(2) g] s1 same_store_trans by blast
    have "ref = Inr p \<Longrightarrow> p = pw_id x" for p
      using found_query_Inr(2) [of "has_key ?t (''ref:'' @ rpe_ID e)" w1 p w2 x] g x s1 assms(2)
      by (simp add: findByReference_query [OF assms(4) i] same_store_def)
    with True assms(1,5) i f g s2 x(2) show ?thesis
      by (cases ref) (auto simp: recordPaymentEntity_run Let_def bindE_apply ret_def)
  qed
qed

text \<open>What payments show beside their marks of the webhook.\<close>

definition gateway_view :: "payment_row \<Rightarrow> (string \<times> string \<times> string \<times> float64 \<times> string option) \<times> string option" where
  "gateway_view x = (ledger_entry x, pw_razorpay_payment_id x)"

definition marks_only :: "database \<Rightarrow> database \<Rightarrow> bool" where
  "marks_only d d' \<longleftrightarrow> map gateway_view (db_payments d') = map gateway_view (db_payments d) \<and> same_invoices d d'"

interpretation marks: db_relation marks_only
  by unfold_locales (auto simp: marks_only_def same_invoices_def)

lemma marks_ledger: "marks_only d d' \<Longrightarrow> ledger d' = ledger d"
proof -
  assume "marks_only d d'"
  then have "map fst (map gateway_view (db_payments d')) = map fst (map gateway_view (db_payments d))"
    by (simp only: marks_only_def)
  then show ?thesis by (simp add: ledger_def gateway_view_def comp_def)
qed

lemma marks_setWebhookEventID: "marks.keeps (setWebhookEventID t i eid)"
  unfolding setWebhookEventID_def SetWebhookEventID_def
proof (intro marks.keeps_uow marks.keeps_stmt)
  fix fk now d x d'
  assume u: "update_payment i t (\<lambda>r. r\<lparr>pw_webhook_event_id := Some eid\<rparr>) fk now d = Inr (x, d')"
  have "map gateway_view (update_where p (\<lambda>r. r\<lparr>pw_webhook_event_id := Some eid, pw_updated_at := now\<rparr>) xs) = map gateway_view xs" for p xs
    by (intro map_update_where) (simp add: gateway_view_def ledger_entry_def)
  with u show "marks_only d d'"
    by (auto simp: update_payment_def Let_def marks_only_def same_invoices_def split: option.splits)
qed

lemma gateway_known_view:
  "gateway_known d t i \<longleftrightarrow>
     (\<exists>y. find (\<lambda>((a, u, v, m, k), g). u = t \<and> g = Some i) (map gateway_view (db_payments d)) = Some y \<and> fst (fst y) \<noteq> [])
     \<or> (\<exists>y. find (\<lambda>((a, u, v, m, k), g). u = t \<and> k = Some (''ref:'' @ i)) (map gateway_view (db_payments d)) = Some y \<and> fst (fst y) \<noteq> [])"
proof -
  have f: "find q (map gateway_view xs) = map_option gateway_view (find (\<lambda>x. q (gateway_view x)) xs)" for q xs
    by (induction xs) auto
  show ?thesis unfolding gateway_known_def f
    by (auto simp: has_gateway_id_def [abs_def] has_key_def [abs_def] gateway_view_def ledger_entry_def)
qed

lemma gateway_known_later:
  assumes "gateway_known d t i" and "map gateway_view (db_payments d') = map gateway_view (db_payments d) @ later"
  shows "gateway_known d' t i"
  using assms(1) unfolding gateway_known_view assms(2) by (auto simp: find_append split: option.split)

text \<open>After the effect of an event only marks are set.\<close>

interpretation smarks: kept_relation "\<lambda>s s'. marks_only (w_db (snd s)) (w_db (snd s'))"
  by unfold_locales (auto intro: marks.Q_refl marks.Q_trans)

lemma smarks_calm: "calm.keeps m \<Longrightarrow> smarks.keeps m"
  by (auto simp: calm.keeps_def smarks.keeps_def same_wiring_def same_store_def marks.Q_refl)

lemma smarks_in_world: "marks.keeps m \<Longrightarrow> smarks.keeps (in_world m)"
  by (rule smarks.keepsI) (auto simp: in_world_def marks.keeps_def split: prod.splits, metis snd_conv)

lemma apply_event_effect:
  assumes "apply_event t eid ev (uc, w) = (r, (uc', w'))"
  obtains res w2 where "webhook_effect uc eid ev w = (res, w2)" and "marks_only (w_db w2) (w_db w')"
    and "\<And>p. r = Inr p \<Longrightarrow> res = Inr p" and "res = Inr [] \<or> isl res \<Longrightarrow> w_db w' = w_db w2"
proof -
  obtain res w2 where e: "webhook_effect uc eid ev w = (res, w2)" by fastforce
  show thesis
  proof (cases res)
    case (Inl err)
    with assms e have "r = Inl err" "w' = w2"
      by (auto simp: apply_event_def bindE_def get_webhook_def in_world_def)
    with e Inl show thesis by (intro that) (simp_all add: marks.Q_refl)
  next
    case (Inr i)
    let ?mark = "if i \<noteq> [] \<and> eid \<noteq> [] then in_world (setWebhookEventID t i eid) else ret ()"
    let ?rest = "seqE ?mark (seqE (markProcessed eid i) (seqE (incrementCount (rwe_Event ev)) (ret i)))"
    have rest: "?rest (uc, w2) = (r, (uc', w'))"
      using assms e Inr by (simp add: apply_event_def bindE_def get_webhook_def in_world_def)
    have "smarks.keeps ?rest"
      by (intro smarks.keeps_seq smarks.keeps_if smarks.keeps_ret smarks_in_world marks_setWebhookEventID
          smarks_calm calm_bookkeeping)
    from smarks.keepsD [OF this rest] have m: "marks_only (w_db w2) (w_db w')" by simp
    have p: "r = Inr p \<Longrightarrow> res = Inr p" for p
      using rest Inr by (auto simp: seqE_Inr ret_Inr)
    have "w_db w' = w_db w2" if "i = []"
    proof -
      have "calm.keeps (seqE (ret ()) (seqE (markProcessed eid i) (seqE (incrementCount (rwe_Event ev)) (ret i))))"
        by (intro calm.keeps_seq calm.keeps_ret calm_bookkeeping)
      from calm.keepsD [OF this] rest that show ?thesis by (auto simp: same_wiring_def same_store_def)
    qed
    with Inr that [OF e m p] show thesis by auto
  qed
qed


text \<open>A capture of 40 rupees delivered twice, the second time to a restarted process.\<close>

definition demo_captured :: RazorpayWebhookEvent where
  "demo_captured = zero_event\<lparr>rwe_Event := ''payment.captured'',
     rwe_Payment := (rwe_Payment zero_event)\<lparr>rpe_ID := ''pay_1'', rpe_Amount := 4000, rpe_Notes_InvoiceID := ''i1''\<rparr>\<rparr>"

definition demo_webhook :: RazorpayWebhook where
  "demo_webhook = SetReversePaymentUseCase (NewRazorpayWebhookUseCase ''secret'')"

definition demo_signature :: "string \<Rightarrow> string" where
  "demo_signature body = hex_EncodeToString (hmac_sha256 (bytes_of ''secret'') (bytes_of body))"

definition demo_process :: "string \<Rightarrow> world \<Rightarrow> PaymentID result \<times> RazorpayWebhook \<times> world" where
  "demo_process eid w = process_event (\<lambda>_. Inr) ''b'' eid demo_captured (demo_webhook, w)"

definition demo_captured_world :: world where
  "demo_captured_world = demo_billing_world\<lparr>w_db := w_db (snd (snd (demo_process ''e1'' demo_billing_world)))\<rparr>"

lemma hex_encode_nonempty: "bs \<noteq> [] \<Longrightarrow> hex_EncodeToString bs \<noteq> []"
  by (cases bs) (simp_all add: hex_EncodeToString_def)

lemma demo_execute: "ExecuteEvent (\<lambda>_. Inr) ''b'' (demo_signature ''b'') eid demo_captured (demo_webhook, w) = demo_process eid w"
proof -
  have "VerifySignature demo_webhook ''b'' (demo_signature ''b'') = Inr ()"
    by (simp add: VerifySignature_Inr demo_signature_def demo_webhook_def SetReversePaymentUseCase_def
        NewRazorpayWebhookUseCase_def hex_decode_encode hex_encode_nonempty hmac_sha256_nonempty)
  then show ?thesis by (simp add: ExecuteEvent_run demo_process_def)
qed


theorem webhook_requires_signature_witness:
  "rw_secret demo_webhook \<noteq> []
   \<and> hex_DecodeString (demo_signature ''b'') = Some (hmac_sha256 (bytes_of (rw_secret demo_webhook)) (bytes_of ''b''))
   \<and> VerifySignature demo_webhook ''b''
        (hex_EncodeToString (hmac_sha256 (bytes_of (rw_secret demo_webhook)) (bytes_of ''b''))) = Inr ()"
proof -
  let ?f = "demo_process ''e1'' demo_billing_world"
  have "\<not> isl (fst ?f)" by code_simp
  moreover have "ExecuteEvent (\<lambda>_. Inr) ''b'' (demo_signature ''b'') ''e1'' demo_captured (demo_webhook, demo_billing_world)
      = (fst ?f, snd ?f)"
    by (simp add: demo_execute)
  ultimately show ?thesis using webhook_requires_signature by blast
qed

end
