(* ===== verification/Razorpay_Public.thy ===== *)
theory Razorpay_Public
  imports Razorpay_Safety
begin

text \<open>
  The two ends of online payments that are open to anyone: what the webhook does on a route without
  a tenant, and what a checkout callback with a valid signature settles.
\<close>

section \<open>A webhook without a tenant\<close>

text \<open>
  The route of the webhook has no authentication, so nothing puts a tenant into its context; the
  tenant of every lookup is then the empty one, which no row has.
\<close>

definition tenantless :: "world \<Rightarrow> bool" where
  "tenantless w \<longleftrightarrow> TenantIDFromContext (env_ctx (w_env w)) = [] \<and> invoices_ok (w_db w)
     \<and> (\<forall>r\<in>set (db_invoices (w_db w)). ir_tenant_id r \<noteq> []) \<and> (\<forall>x\<in>set (db_payments (w_db w)). pw_tenant_id x \<noteq> [])"

lemma tenantless_same_store: "same_store w w' \<Longrightarrow> tenantless w \<Longrightarrow> tenantless w'"
  by (simp add: tenantless_def same_store_def)

lemma found_query_empty:
  assumes "found_or_empty (query (findPaymentID p)) w = (Inr i, w')"
    and "\<And>x. x \<in> set (db_payments (w_db w)) \<Longrightarrow> \<not> p x"
  shows "i = []"
proof (rule ccontr)
  assume "i \<noteq> []"
  from found_query_Inr(1) [OF assms(1) this] obtain x where "find p (db_payments (w_db w)) = Some x" by blast
  from find_SomeD [OF this] assms(2) show False by blast
qed

lemma findByReference_empty:
  assumes "findByReference ref t w = (Inr i, w')" and "\<And>x. x \<in> set (db_payments (w_db w)) \<Longrightarrow> pw_tenant_id x \<noteq> t"
  shows "i = []"
proof (cases "TrimSpace ref = []")
  case True
  with assms(1) show ?thesis
    by (auto simp: findByReference_def PaymentRepository_FindByReference_def found_or_empty_def uow_Inr bindE_def
        tryE_def raise_def ret_def)
next
  case False
  with assms(1) have "found_or_empty (query (findPaymentID (has_key t (''ref:'' @ ref)))) w = (Inr i, w')"
    by (simp add: findByReference_def PaymentRepository_FindByReference_def findIDByIdempotencyKey_def has_key_def [abs_def])
  from found_query_empty [OF this] assms(2) show ?thesis by (simp add: has_key_def)
qed

lemma findRazorpayPayment_empty:
  assumes "findRazorpayPayment t p w = (Inr i, w')" and "\<And>x. x \<in> set (db_payments (w_db w)) \<Longrightarrow> pw_tenant_id x \<noteq> t"
  shows "i = []"
  using found_query_empty [OF assms(1) [unfolded findRazorpayPayment_query]] assms(2)
  by (simp add: has_gateway_id_def)

lemma record_payment_fails_clean: "RecordPaymentUseCase_Execute cmd w = (Inl e, w') \<Longrightarrow> w_db w' = w_db w"
  by (auto simp: RecordPaymentUseCase_Execute_def seqE_def failIf_def known_errors_def bindE_def tryE_def ret_def
      raise_def uow_atomic split: if_splits prod.splits sum.splits)

text \<open>A payment for an invoice the tenant does not have.\<close>

lemma record_payment_no_invoice:
  assumes "RecordPaymentUseCase_Execute cmd w = (r, w')" and "invoices_ok (w_db w)"
    and "\<And>x. x \<in> set (db_invoices (w_db w)) \<Longrightarrow> ir_tenant_id x \<noteq> rpc_TenantID cmd"
  shows "w_db w' = w_db w \<and> isl r"
proof (cases r)
  case (Inl e)
  with assms(1) record_payment_fails_clean show ?thesis by simp
next
  case (Inr p)
  with assms(1) record_payment_Inr [OF assms(2)] obtain d where
    "amount_applied (rpc_InvoiceID cmd) (rpc_TenantID cmd) (rpc_Amount cmd) (w_db w) d" by blast
  then obtain x where "invoice_at (w_db w) (rpc_InvoiceID cmd) (rpc_TenantID cmd) = Some x"
    by (auto simp: amount_applied_def)
  from find_SomeD [OF this [unfolded invoice_at_def]] assms(3) show ?thesis by auto
qed

lemma unattributable_run: "seqE (acknowledgeUnattributable None i v) (ret []) w = (Inr [], w)"
  by (simp add: acknowledgeUnattributable_def publish_failed_def seqE_def bindE_def ret_def)

text \<open>The recording, run at the time of the clock.\<close>

lemma gateway_record_tenantless:
  assumes "bindE Now (\<lambda>date. RecordPaymentUseCase_Execute (gateway_command [] v date paise i)) w = (r, w')"
    and "tenantless w"
  shows "w_db w' = w_db w \<and> isl r"
proof -
  have "RecordPaymentUseCase_Execute (gateway_command [] v (env_clk (w_env w) (w_nclk w)) paise i)
      (w\<lparr>w_nclk := Suc (w_nclk w)\<rparr>) = (r, w')"
    using assms(1) by (simp only: Now_apply)
  from record_payment_no_invoice [OF this] assms(2) show ?thesis by (auto simp: tenantless_def)
qed

text \<open>A lookup of a payment of the empty tenant finds nothing, and the rest goes on from there.\<close>

lemma lookup_tenantless:
  assumes "bindE m f w = (r, w')" and "ss.keeps m" and "tenantless w"
    and none: "\<And>i w1. m w = (Inr i, w1) \<Longrightarrow> i = []"
    and rest: "\<And>w1. f [] w1 = (r, w') \<Longrightarrow> tenantless w1 \<Longrightarrow> w_db w' = w_db w1 \<and> (r = Inr [] \<or> isl r)"
  shows "w_db w' = w_db w \<and> (r = Inr [] \<or> isl r)"
proof -
  obtain res w1 where m: "m w = (res, w1)" by fastforce
  have s: "same_store w w1" using ss.keepsD [OF assms(2) m] .
  show ?thesis
  proof (cases res)
    case (Inl e)
    with assms(1) m s show ?thesis by (auto simp: bindE_apply same_store_def)
  next
    case (Inr i)
    with m none have "i = []" by simp
    with assms(1) m Inr have "f [] w1 = (r, w')" by (simp add: bindE_apply)
    from rest [OF this tenantless_same_store [OF s assms(3)]] s show ?thesis by (simp add: same_store_def)
  qed
qed

lemma tenantless_lookups:
  assumes "tenantless w"
  shows "findRazorpayPayment [] p w = (Inr i, w1) \<Longrightarrow> i = []" and "findByReference p [] w = (Inr i, w1) \<Longrightarrow> i = []"
  using assms findRazorpayPayment_empty [of "[]" p w i w1] findByReference_empty [of p "[]" w i w1]
  by (auto simp: tenantless_def)

lemma tenantless_context: "tenantless w \<Longrightarrow> TenantIDFromContext (env_ctx (w_env w)) = []"
  by (simp add: tenantless_def)

lemma recordPaymentEntity_tenantless:
  assumes "recordPaymentEntity None e w = (r, w')" and "tenantless w"
  shows "w_db w' = w_db w \<and> (r = Inr [] \<or> isl r)"
proof (cases "rpe_ID e = []")
  case True
  with assms(1) show ?thesis by (auto simp: recordPaymentEntity_def raise_def)
next
  case False
  note t = tenantless_context [OF assms(2)]
  show ?thesis
  proof (rule lookup_tenantless [OF assms(1) [unfolded recordPaymentEntity_run [OF False] Let_def t] ss_lookups(1) assms(2)])
    fix i w1
    assume "findRazorpayPayment [] (rpe_ID e) w = (Inr i, w1)"
    then show "i = []" by (rule tenantless_lookups [OF assms(2)])
  next
    fix w1
    assume run: "(if [] \<noteq> [] then ret [] else if rpe_Notes_InvoiceID e = []
        then seqE (acknowledgeUnattributable None (rpe_ID e) []) (ret [])
        else bindE (findByReference (rpe_ID e) []) (\<lambda>existingByRef. if existingByRef \<noteq> [] then ret existingByRef
          else bindE Now (\<lambda>date. RecordPaymentUseCase_Execute
            (gateway_command [] (rpe_Notes_InvoiceID e) date (rpe_Amount e) (rpe_ID e))))) w1 = (r, w')"
      and w1: "tenantless w1"
    show "w_db w' = w_db w1 \<and> (r = Inr [] \<or> isl r)"
    proof (cases "rpe_Notes_InvoiceID e = []")
      case True
      with run show ?thesis by (auto simp: unattributable_run)
    next
      case False
      with run have "bindE (findByReference (rpe_ID e) []) (\<lambda>existingByRef. if existingByRef \<noteq> [] then ret existingByRef
          else bindE Now (\<lambda>date. RecordPaymentUseCase_Execute
            (gateway_command [] (rpe_Notes_InvoiceID e) date (rpe_Amount e) (rpe_ID e)))) w1 = (r, w')" by simp
      from lookup_tenantless [OF this ss_lookups(2) w1 tenantless_lookups(2) [OF w1]] gateway_record_tenantless
      show ?thesis by fastforce
    qed
  qed
qed

lemma recordOrderEntity_run:
  "roe_ID e \<noteq> [] \<Longrightarrow> recordOrderEntity bus e w =
     (let t = TenantIDFromContext (env_ctx (w_env w)) in
      bindE (findByReference (roe_ID e) t) (\<lambda>existing.
        if existing \<noteq> [] then ret existing
        else if roe_Notes_InvoiceID e = []
        then seqE (acknowledgeUnattributable bus (roe_ID e) []) (ret [])
        else bindE Now (\<lambda>date. RecordPaymentUseCase_Execute
          (gateway_command t (roe_Notes_InvoiceID e) date (roe_AmountPaid e) (roe_ID e))))) w"
  by (simp add: recordOrderEntity_def context_tenant_apply Let_def)

lemma recordOrderEntity_tenantless:
  assumes "recordOrderEntity None e w = (r, w')" and "tenantless w"
  shows "w_db w' = w_db w \<and> (r = Inr [] \<or> isl r)"
proof (cases "roe_ID e = []")
  case True
  with assms(1) show ?thesis by (auto simp: recordOrderEntity_def raise_def)
next
  case False
  note t = tenantless_context [OF assms(2)]
  show ?thesis
  proof (rule lookup_tenantless [OF assms(1) [unfolded recordOrderEntity_run [OF False] Let_def t] ss_lookups(2) assms(2)])
    fix i w1
    assume "findByReference (roe_ID e) [] w = (Inr i, w1)"
    then show "i = []" by (rule tenantless_lookups [OF assms(2)])
  next
    fix w1
    assume run: "(if [] \<noteq> [] then ret [] else if roe_Notes_InvoiceID e = []
        then seqE (acknowledgeUnattributable None (roe_ID e) []) (ret [])
        else bindE Now (\<lambda>date. RecordPaymentUseCase_Execute
            (gateway_command [] (roe_Notes_InvoiceID e) date (roe_AmountPaid e) (roe_ID e)))) w1 = (r, w')"
      and w1: "tenantless w1"
    then show "w_db w' = w_db w1 \<and> (r = Inr [] \<or> isl r)"
      by (cases "roe_Notes_InvoiceID e = []") (auto simp: unattributable_run dest: gateway_record_tenantless)
  qed
qed

lemma failIf_run: "seqE (failIf b e) m w = (if b then (Inl (ErrorString e), w) else m w)"
  by (simp add: failIf_def seqE_def bindE_def raise_def ret_def)

lemma processRefundEntity_run:
  "rre_PaymentID e \<noteq> [] \<Longrightarrow> processRefundEntity True e w =
     (let t = TenantIDFromContext (env_ctx (w_env w)) in
      bindE (findByReference (rre_PaymentID e) t) (\<lambda>originalID.
        if originalID = [] then raise ErrWebhookOriginalPaymentNotFound
        else ReversePaymentUseCase_Execute \<lparr>rvc_TenantID = t, rvc_OriginalPayID = originalID,
          rvc_Reason = ''Razorpay refund '' @ rre_ID e\<rparr>)) w"
  by (simp add: processRefundEntity_def failIf_run context_tenant_apply Let_def)

lemma processRefundEntity_tenantless:
  assumes "processRefundEntity b e w = (r, w')" and "tenantless w"
  shows "w_db w' = w_db w \<and> (r = Inr [] \<or> isl r)"
proof (cases "rre_PaymentID e = [] \<or> \<not> b")
  case True
  with assms(1) show ?thesis by (auto simp: processRefundEntity_def raise_def failIf_run split: if_splits)
next
  case False
  then have i: "rre_PaymentID e \<noteq> []" and "processRefundEntity True e w = (r, w')" using assms(1) by auto
  note run = this(2) [unfolded processRefundEntity_run [OF i] Let_def tenantless_context [OF assms(2)]]
  show ?thesis
    by (rule lookup_tenantless [OF run ss_lookups(2) assms(2) tenantless_lookups(2) [OF assms(2)]])
      (auto simp: raise_def)
qed

lemma webhook_effect_tenantless:
  assumes "webhook_effect uc eid ev w = (r, w')" and "tenantless w" and "rw_bus uc = None"
  shows "w_db w' = w_db w \<and> (r = Inr [] \<or> isl r)"
  using assms recordPaymentEntity_tenantless [of "rwe_Payment ev" w r w'] recordOrderEntity_tenantless [of "rwe_Order ev" w r w']
    processRefundEntity_tenantless [of "rw_reverse uc" "rwe_Refund ev" w r w']
  by (auto simp: webhook_effect_def processFailed_def publish_failed_def seqE_def bindE_def ret_def split: if_splits)

text \<open>
  Without a tenant in the context, as on the public route of the webhook, and without an
  event bus, as the server wires it, no delivery of any event changes the database.
\<close>

theorem webhook_without_tenant_does_nothing:
  assumes "ExecuteEvent unm body sig eid ev (uc, w) = (r, (uc', w'))" and "tenantless w" and "rw_bus uc = None"
  shows "w_db w' = w_db w"
proof (cases "VerifySignature uc body sig")
  case (Inl e)
  with assms(1) show ?thesis by (auto simp: ExecuteEvent_run)
next
  case (Inr u)
  with assms(1) have "process_event unm body eid ev (uc, w) = (r, (uc', w'))" by (simp add: ExecuteEvent_run)
  then show ?thesis
  proof (cases rule: process_event_cases)
    case quiet
    then show ?thesis by (simp add: same_store_def)
  next
    case (applied ev' uc1 w1)
    have s: "same_store w w1" and bus: "rw_bus uc1 = None" using applied(2) assms(3) by (auto simp: same_wiring_def)
    from applied(3) show ?thesis
    proof (rule apply_event_effect)
      fix res w2
      assume e: "webhook_effect uc1 eid ev' w1 = (res, w2)" and q: "res = Inr [] \<or> isl res \<Longrightarrow> w_db w' = w_db w2"
      from webhook_effect_tenantless [OF e tenantless_same_store [OF s assms(2)] bus] q s show ?thesis
        by (simp add: same_store_def)
    qed
  qed
qed

text \<open>A request as the public route passes it on, in a store with one invoice of a tenant.\<close>

definition public_world :: world where
  "public_world = demo_billing_world\<lparr>w_env := demo_env\<lparr>env_ctx := (env_ctx demo_env)\<lparr>ctx_tenant := None\<rparr>\<rparr>\<rparr>"

theorem webhook_without_tenant_does_nothing_witness:
  "w_db (snd (snd (ExecuteEvent (\<lambda>_. Inr) ''b'' (demo_signature ''b'') ''e1'' demo_captured (demo_webhook, public_world))))
     = w_db public_world"
proof -
  have "tenantless public_world" by (simp add: tenantless_def public_world_def) code_simp
  moreover have "rw_bus demo_webhook = None"
    by (simp add: demo_webhook_def SetReversePaymentUseCase_def NewRazorpayWebhookUseCase_def)
  ultimately show ?thesis using webhook_without_tenant_does_nothing [OF _ _ _, of _ _ _ _ _ demo_webhook public_world]
    by (metis prod.collapse)
qed

section \<open>A verified callback\<close>

lemma invoice_balance_Inr:
  assumes "invoice_balance i t w = (Inr b, w')"
  shows "\<exists>r. invoice_at (w_db w) i t = Some r \<and> b = OutstandingBalance (rehydrate_invoice r (items_of (w_db w) i))"
proof -
  from assms obtain a w1 where f: "InvoiceRepository_Find i t (w\<lparr>w_nop := Suc (w_nop w)\<rparr>) = (Inr a, w1)"
    and b: "b = OutstandingBalance a"
    by (auto simp: invoice_balance_def uow_Inr bindE_Inr noRowsAs_Inr ret_Inr)
  from Invoice_Find_Inr [OF f] b show ?thesis by auto
qed

lemma verified_command_simps [simp]:
  "rpc_TenantID (verified_command cmd t date b) = t" "rpc_InvoiceID (verified_command cmd t date b) = vrc_InvoiceID cmd"
  "rpc_Amount (verified_command cmd t date b) = b"
  by (simp_all add: verified_command_def)

lemma verified_command_key:
  assumes "TrimSpace (vrc_PaymentID cmd) = vrc_PaymentID cmd" and "vrc_PaymentID cmd \<noteq> []"
  shows "command_key oor (verified_command cmd t date b) = ''ref:'' @ vrc_PaymentID cmd"
  using assms
  by (simp add: command_key_def command_payment_def verified_command_def idempotencyKey_def NewPaymentAggregate_def Let_def)

lemma VerifyRazorpayPayment_Inr:
  assumes "VerifyRazorpayPaymentUseCase_Execute verifier secret cmd w = (Inr pid, w')"
  shows "VerifyPaymentSignature verifier (vrc_OrderID cmd) (vrc_PaymentID cmd) (vrc_Signature cmd)"
    and "settle_verified cmd w = (Inr pid, w')"
  using assms by (auto simp: VerifyRazorpayPaymentUseCase_Execute_def failIf_run split: if_splits)

text \<open>
  A checkout callback is accepted for a payment not yet recorded when its signature
  over order and payment is valid; it then records the whole outstanding balance of the invoice the
  caller names, which the signature does not cover and no stored order binds.
\<close>

theorem verified_payment_settles_named_invoice:
  assumes "VerifyRazorpayPaymentUseCase_Execute verifier secret cmd w = (Inr pid, w')" and "invoices_ok (w_db w)"
    and "t = TenantIDFromContext (env_ctx (w_env w))"
    and "find (has_gateway_id t (vrc_PaymentID cmd)) (db_payments (w_db w)) = None"
    and "find (has_key t (''ref:'' @ vrc_PaymentID cmd)) (db_payments (w_db w)) = None"
    and "TrimSpace (vrc_PaymentID cmd) = vrc_PaymentID cmd" and "vrc_PaymentID cmd \<noteq> []"
  shows "VerifyPaymentSignature verifier (vrc_OrderID cmd) (vrc_PaymentID cmd) (vrc_Signature cmd)
    \<and> (\<exists>r. invoice_at (w_db w) (vrc_InvoiceID cmd) t = Some r
      \<and> ledger (w_db w') = ledger (w_db w) @ [(pid, t, vrc_InvoiceID cmd,
          OutstandingBalance (rehydrate_invoice r (items_of (w_db w) (vrc_InvoiceID cmd))), Some (''ref:'' @ vrc_PaymentID cmd))])"
proof -
  from VerifyRazorpayPayment_Inr(2) [OF assms(1), unfolded settle_verified_def context_tenant_apply, folded assms(3)]
  obtain ex w1 where f: "findRazorpayPayment t (vrc_PaymentID cmd) w = (Inr ex, w1)"
    and rest: "(if ex \<noteq> [] then ret ex else bindE (invoice_balance (vrc_InvoiceID cmd) t) (\<lambda>balance.
       seqE (failIf (fle balance (Fin 0)) ''invoice has no outstanding balance'')
       (bindE Now (\<lambda>date. RecordPaymentUseCase_Execute (verified_command cmd t date balance))))) w1 = (Inr pid, w')"
    by (auto simp: bindE_Inr)
  have s1: "same_store w w1" using ss.keepsD [OF ss_lookups(1) f] .
  have "ex = []"
    using found_query_Inr(1) [OF f [unfolded findRazorpayPayment_query]] assms(4) by auto
  with rest obtain b w2 where b: "invoice_balance (vrc_InvoiceID cmd) t w1 = (Inr b, w2)"
    and rest2: "bindE Now (\<lambda>date. RecordPaymentUseCase_Execute (verified_command cmd t date b)) w2 = (Inr pid, w')"
    by (auto simp: bindE_Inr seqE_Inr failIf_Inr)
  have s2: "same_store w w2" using ss.keepsD [OF ss_balance b] s1 same_store_trans by blast
  from rest2 have rec: "RecordPaymentUseCase_Execute (verified_command cmd t (env_clk (w_env w2) (w_nclk w2)) b)
      (w2\<lparr>w_nclk := Suc (w_nclk w2)\<rparr>) = (Inr pid, w')" by (simp only: Now_apply)
  from invoice_balance_Inr [OF b] s1 obtain r where r: "invoice_at (w_db w) (vrc_InvoiceID cmd) t = Some r"
    "b = OutstandingBalance (rehydrate_invoice r (items_of (w_db w) (vrc_InvoiceID cmd)))" by (auto simp: same_store_def)
  from record_payment_added [OF _ rec] assms(2,5) s2 have "ledger (w_db w') = ledger (w_db w) @
      [(pid, t, vrc_InvoiceID cmd, b, Some (''ref:'' @ vrc_PaymentID cmd))]"
    by (auto simp: verified_command_key [OF assms(6,7)] same_store_def ledger_def)
  with r VerifyRazorpayPayment_Inr(1) [OF assms(1)] show ?thesis by blast
qed

text \<open>A signature of an order and a payment of one rupee settles an invoice of a hundred.\<close>

definition demo_client :: RazorpayClient where
  "demo_client = NewRazorpayClient (\<lambda>_. Inl ErrNotConfigured) ''key'' ''secret''"

definition demo_callback :: "string \<Rightarrow> VerifyRazorpayPaymentCommand" where
  "demo_callback s = \<lparr>vrc_TenantID = ''t1'', vrc_InvoiceID = ''i1'', vrc_OrderID = ''order_9'', vrc_PaymentID = ''pay_9'',
     vrc_Signature = s\<rparr>"

lemma demo_callback_run:
  "VerifyRazorpayPaymentUseCase_Execute demo_client ''secret'' (demo_callback (demo_signature ''order_9|pay_9'')) w
     = settle_verified (demo_callback (demo_signature ''order_9|pay_9'')) w"
proof -
  have "VerifyPaymentSignature demo_client ''order_9'' ''pay_9'' (demo_signature ''order_9|pay_9'')"
    by (simp add: VerifyPaymentSignature_def demo_client_def NewRazorpayClient_def demo_signature_def hex_decode_encode)
  then show ?thesis
    by (simp add: VerifyRazorpayPaymentUseCase_Execute_def failIf_run demo_callback_def)
qed

lemma demo_settles: "\<not> isl (fst (settle_verified (demo_callback s) demo_billing_world))"
  by code_simp

theorem verified_payment_settles_named_invoice_witness:
  "map (\<lambda>(i, t, v, a, k). (v, a, k)) (ledger (w_db (snd (VerifyRazorpayPaymentUseCase_Execute demo_client ''secret''
     (demo_callback (demo_signature ''order_9|pay_9'')) demo_billing_world))))
   = [(''i1'', Fin 100, Some ''ref:pay_9'')]"
proof -
  define s where "s = demo_signature ''order_9|pay_9''"
  let ?f = "settle_verified (demo_callback s) demo_billing_world"
  have run: "VerifyRazorpayPaymentUseCase_Execute demo_client ''secret'' (demo_callback s) demo_billing_world
      = (Inr (projr (fst ?f)), snd ?f)"
    using demo_settles [of s] by (simp add: s_def demo_callback_run prod_eq_iff)
  have i: "vrc_PaymentID (demo_callback s) = ''pay_9''" "vrc_InvoiceID (demo_callback s) = ''i1''" by (simp_all add: demo_callback_def)
  have trim: "TrimSpace ''pay_9'' = ''pay_9''" by code_simp
  have t: "''t1'' = TenantIDFromContext (env_ctx (w_env demo_billing_world))" by code_simp
  have bal: "map_option (\<lambda>r. OutstandingBalance (rehydrate_invoice r (items_of (w_db demo_billing_world) ''i1'')))
      (invoice_at (w_db demo_billing_world) ''i1'' ''t1'') = Some (Fin 100)" by code_simp
  have none: "db_payments (w_db demo_billing_world) = []" by (simp add: demo_billing_world_def demo_db_def)
  from verified_payment_settles_named_invoice [OF run demo_billing_ok t, unfolded i trim none, simplified] bal run
  show ?thesis by (auto simp: none ledger_def simp flip: s_def)
qed

end
