(* ===== verification/Geofence_Repository.thy ===== *)
theory Geofence_Repository
  imports Repository_Contract Go_Text Trip_Repository "HOL-Library.List_Lexorder" "HOL-Library.Char_ord"
begin

text \<open>
  The SQL of the geofence module (\<open>internal/geofence/infrastructure/persistence/sql\<close>) on the
  tables of migration 00042: zones, engine states, events, detentions and unread fixes.
\<close>

section \<open>Helpers\<close>

abbreviation wrap_error :: "string \<Rightarrow> 'a wact \<Rightarrow> 'a wact" where
  "wrap_error s \<equiv> wrap_err (WrapError s)"

definition nullIfZero :: "float64 \<Rightarrow> float64 option" where
  "nullIfZero v = (if feq v (Fin 0) then None else Some v)"

definition null_float :: "float64 option \<Rightarrow> float64" where
  "null_float v = (case v of None \<Rightarrow> Fin 0 | Some x \<Rightarrow> x)"

definition boolToInt :: "bool \<Rightarrow> int" where
  "boolToInt b = (if b then 1 else 0)"

text \<open>Scan every row, or fail at the first that cannot be scanned.\<close>

primrec scan_all :: "('r \<Rightarrow> 'a result) \<Rightarrow> 'r list \<Rightarrow> 'a list result" where
  "scan_all f [] = Inr []"
| "scan_all f (r # rs) =
     (case f r of Inl e \<Rightarrow> Inl e
      | Inr x \<Rightarrow> (case scan_all f rs of Inl e \<Rightarrow> Inl e | Inr xs \<Rightarrow> Inr (x # xs)))"

section \<open>Zones\<close>

text \<open>\<open>ORDER BY priority DESC, name\<close>\<close>

datatype zone_order = ZoneOrder int string

instantiation zone_order :: linorder
begin

fun less_eq_zone_order :: "zone_order \<Rightarrow> zone_order \<Rightarrow> bool" where
  "less_eq_zone_order (ZoneOrder p m) (ZoneOrder q n) \<longleftrightarrow> q < p \<or> p = q \<and> m \<le> n"

definition less_zone_order :: "zone_order \<Rightarrow> zone_order \<Rightarrow> bool" where
  "less_zone_order x y \<longleftrightarrow> x \<le> y \<and> \<not> y \<le> x"

instance
proof
  fix x y z :: zone_order
  show "x < y \<longleftrightarrow> x \<le> y \<and> \<not> y \<le> x" by (rule less_zone_order_def)
  show "x \<le> x" by (cases x) simp
  show "x \<le> y \<Longrightarrow> y \<le> z \<Longrightarrow> x \<le> z" by (cases x; cases y; cases z) auto
  show "x \<le> y \<Longrightarrow> y \<le> x \<Longrightarrow> x = y" by (cases x; cases y) auto
  show "x \<le> y \<or> y \<le> x" by (cases x; cases y) auto
qed

end

definition zone_rank :: "geofence_row \<Rightarrow> zone_order" where
  "zone_rank r = ZoneOrder (gw_priority r) (gw_name r)"

definition scan_geofence :: "geofence_row \<Rightarrow> Geofence result" where
  "scan_geofence r =
     (let g = \<lparr>gf_ID = gw_id r, gf_TenantID = gw_tenant_id r, gf_Name = gw_name r, gf_Kind = gw_kind r,
        gf_Shape = gw_shape r, gf_CenterLat = null_float (gw_center_lat r), gf_CenterLng = null_float (gw_center_lng r),
        gf_RadiusM = null_float (gw_radius_m r), gf_Polygon = [], gf_RouteName = str_or_empty (gw_route_name r),
        gf_Priority = gw_priority r, gf_IsActive = (gw_is_active r = 1), gf_CreatedBy = gw_created_by r,
        gf_CreatedAt = gw_created_at r, gf_UpdatedAt = gw_updated_at r\<rparr> in
      case gw_polygon r of
        None \<Rightarrow> Inr g
      | Some raw \<Rightarrow> (case PolygonFromJSON raw of
          Inl e \<Rightarrow> Inl (WrapError (''geofence '' @ gw_id r) e)
        | Inr pts \<Rightarrow> Inr (g\<lparr>gf_Polygon := pts\<rparr>)))"

definition scanGeofences :: "geofence_row list \<Rightarrow> Geofence list result" where
  "scanGeofences rows = scan_all scan_geofence rows"

definition ListActiveByTenant :: "TenantID \<Rightarrow> Geofence list wact" where
  "ListActiveByTenant t =
     bindE (wrap_error ''list active geofences'' (query (\<lambda>now d. Inr
       (sort_key zone_rank (filter (\<lambda>g. gw_tenant_id g = t \<and> gw_is_active g = 1) (db_geofences d))))))
     (\<lambda>rows. lift_result (scanGeofences rows))"

definition ListBoundForVehicle :: "TenantID \<Rightarrow> string \<Rightarrow> Geofence list wact" where
  "ListBoundForVehicle t vehicleID =
     bindE (wrap_error ''list bound geofences'' (query (\<lambda>now d. Inr
       (sort_key zone_rank (filter (\<lambda>g. (vehicleID, gw_id g) \<in> set (db_vehicle_geofences d)
          \<and> gw_tenant_id g = t \<and> gw_is_active g = 1) (db_geofences d))))))
     (\<lambda>rows. lift_result (scanGeofences rows))"

text \<open>The constraints of the table.\<close>

definition zone_checks :: "geofence_row \<Rightarrow> bool" where
  "zone_checks r \<longleftrightarrow>
     gw_kind r \<in> {KindPickup, KindDrop, KindDepot, KindRestricted, KindNoEntry} \<and> gw_shape r \<in> {ShapeCircle, ShapePolygon}"

definition polygon_column :: "Geofence \<Rightarrow> polygon_text option result" where
  "polygon_column g =
     (if gf_Polygon g \<noteq> [] then (case PolygonJSON (gf_Polygon g) of Inl e \<Rightarrow> Inl e | Inr raw \<Rightarrow> Inr (Some raw))
      else Inr None)"

definition insert_geofence :: "Geofence \<Rightarrow> polygon_text option \<Rightarrow> unit query" where
  "insert_geofence g polygon fk now d =
     (let r = \<lparr>gw_id = gf_ID g, gw_tenant_id = gf_TenantID g, gw_name = gf_Name g, gw_kind = gf_Kind g,
        gw_shape = gf_Shape g, gw_center_lat = nullIfZero (gf_CenterLat g), gw_center_lng = nullIfZero (gf_CenterLng g),
        gw_radius_m = nullIfZero (gf_RadiusM g), gw_polygon = polygon, gw_route_name = Some (gf_RouteName g),
        gw_priority = gf_Priority g, gw_is_active = boolToInt (gf_IsActive g), gw_created_by = gf_CreatedBy g,
        gw_created_at = now, gw_updated_at = now\<rparr> in
      if \<not> zone_checks r then Inl (ErrConstraint CheckConstraint ''geofences'')
      else if gw_id r \<in> gw_id ` set (db_geofences d) then Inl (ErrConstraint UniqueConstraint ''geofences.id'')
      else Inr ((), d\<lparr>db_geofences := db_geofences d @ [r]\<rparr>))"

definition GeofenceRepository_Insert :: "Geofence \<Rightarrow> unit wact" where
  "GeofenceRepository_Insert g =
     bindE (lift_result (polygon_column g)) (\<lambda>polygon.
     wrap_error ''insert geofence'' (stmt (insert_geofence g polygon)))"

definition GeofenceRepository_Create :: "Geofence \<Rightarrow> unit wact" where
  "GeofenceRepository_Create g = GeofenceRepository_Insert g"

definition update_geofence :: "Geofence \<Rightarrow> polygon_text option \<Rightarrow> unit query" where
  "update_geofence g polygon fk now d =
     (let f = (\<lambda>r. r\<lparr>gw_name := gf_Name g, gw_kind := gf_Kind g, gw_shape := gf_Shape g,
        gw_center_lat := nullIfZero (gf_CenterLat g), gw_center_lng := nullIfZero (gf_CenterLng g),
        gw_radius_m := nullIfZero (gf_RadiusM g), gw_polygon := polygon, gw_route_name := Some (gf_RouteName g),
        gw_priority := gf_Priority g, gw_is_active := boolToInt (gf_IsActive g), gw_updated_at := now\<rparr>);
          p = (\<lambda>r. gw_id r = gf_ID g \<and> gw_tenant_id r = gf_TenantID g) in
      if \<exists>r\<in>set (db_geofences d). p r \<and> \<not> zone_checks (f r) then Inl (ErrConstraint CheckConstraint ''geofences'')
      else Inr ((), d\<lparr>db_geofences := update_where p f (db_geofences d)\<rparr>))"

definition GeofenceRepository_Update :: "Geofence \<Rightarrow> unit wact" where
  "GeofenceRepository_Update g =
     bindE (lift_result (polygon_column g)) (\<lambda>polygon.
     wrap_error ''update geofence'' (stmt (update_geofence g polygon)))"

definition GeofenceRepository_SoftDelete :: "TenantID \<Rightarrow> string \<Rightarrow> unit wact" where
  "GeofenceRepository_SoftDelete t i =
     wrap_error ''soft delete geofence'' (stmt (\<lambda>fk now d. Inr ((), d\<lparr>db_geofences :=
       update_where (\<lambda>r. gw_id r = i \<and> gw_tenant_id r = t) (\<lambda>r. r\<lparr>gw_is_active := 0, gw_updated_at := now\<rparr>)
         (db_geofences d)\<rparr>)))"

definition GeofenceRepository_ListAll :: "TenantID \<Rightarrow> Geofence list wact" where
  "GeofenceRepository_ListAll t =
     bindE (wrap_error ''list all geofences'' (query (\<lambda>now d. Inr
       (sort_key (\<lambda>g. - gw_is_active g) (sort_key zone_rank (filter (\<lambda>g. gw_tenant_id g = t) (db_geofences d)))))))
     (\<lambda>rows. lift_result (scanGeofences rows))"

definition GeofenceRepository_Find :: "TenantID \<Rightarrow> string \<Rightarrow> Geofence wact" where
  "GeofenceRepository_Find t i =
     bindE (wrap_error ''find geofence'' (query (\<lambda>now d.
       one_row (find (\<lambda>g. gw_id g = i \<and> gw_tenant_id g = t) (db_geofences d))))) (\<lambda>r.
     lift_result (scan_geofence r))"

section \<open>Engine states\<close>

definition ErrNoEngineState :: goerr where
  "ErrNoEngineState = ErrorString ''engine state not found''"

definition GetByVehicle :: "TenantID \<Rightarrow> string \<Rightarrow> EngineState wact" where
  "GetByVehicle t vehicleID =
     bindE (tryE (query (\<lambda>now d. one_row (find (\<lambda>s. es_VehicleID s = vehicleID \<and> es_TenantID s = t) (db_engine_state d))))) (\<lambda>r.
     case r of
       Inr s \<Rightarrow> ret s
     | Inl e \<Rightarrow> raise (if errors_Is_NoRows e then ErrNoEngineState else WrapError ''engine state lookup'' e))"

text \<open>Insert, or on a conflict of the vehicle replace everything but the vehicle and the tenant.\<close>

definition upsert_state :: "EngineState \<Rightarrow> unit query" where
  "upsert_state s fk now d =
     (if es_State s \<notin> {StateOutside, StateEntering, StateInside, StateLeaving}
      then Inl (ErrConstraint CheckConstraint ''engine_state'')
      else if es_VehicleID s \<in> es_VehicleID ` set (db_engine_state d)
      then Inr ((), d\<lparr>db_engine_state := update_where (\<lambda>r. es_VehicleID r = es_VehicleID s)
        (\<lambda>r. s\<lparr>es_TenantID := es_TenantID r, es_UpdatedAt := now\<rparr>) (db_engine_state d)\<rparr>)
      else if fk \<and> es_VehicleID s \<notin> vw_id ` set (db_vehicles d)
      then Inl (ErrConstraint ForeignKeyConstraint ''engine_state.vehicle_id'')
      else Inr ((), d\<lparr>db_engine_state := db_engine_state d @ [s\<lparr>es_UpdatedAt := now\<rparr>]\<rparr>))"

definition EngineStateRepository_Upsert :: "EngineState \<Rightarrow> unit wact" where
  "EngineStateRepository_Upsert s = wrap_error ''upsert engine state'' (stmt (upsert_state s))"

section \<open>Events and detentions\<close>

definition insert_event :: "geofence_event_row \<Rightarrow> unit query" where
  "insert_event e fk now d =
     (if gv_event_type e \<notin> {''entering'', ''inside'', ''leaving'', ''outside'', ''breach'', ''alert''}
      then Inl (ErrConstraint CheckConstraint ''geofence_events'')
      else if gv_id e \<in> gv_id ` set (db_geofence_events d) then Inl (ErrConstraint UniqueConstraint ''geofence_events.id'')
      else Inr ((), d\<lparr>db_geofence_events := db_geofence_events d @ [e]\<rparr>))"

definition InsertEvent :: "geofence_event_row \<Rightarrow> unit wact" where
  "InsertEvent e = wrap_error ''insert geofence event'' (stmt (insert_event e))"

record Detention =
  de_ID :: string
  de_TenantID :: string
  de_TripID :: string
  de_VehicleID :: "string option"
  de_GeofenceID :: "string option"
  de_ZoneKind :: string
  de_ZoneName :: string
  de_EnteredAt :: go_time
  de_ExitedAt :: "go_time option"
  de_DwellSeconds :: int
  de_FreeSeconds :: int
  de_BillableSeconds :: int
  de_RatePerHour :: float64
  de_Amount :: float64
  de_Status :: string

definition missing_ref :: "string option \<Rightarrow> string list \<Rightarrow> bool" where
  "missing_ref x ids = (case x of None \<Rightarrow> False | Some i \<Rightarrow> i \<notin> set ids)"

definition open_detention :: "Detention \<Rightarrow> unit query" where
  "open_detention de fk now d =
     (if de_ZoneKind de \<notin> {''pickup'', ''drop''} then Inl (ErrConstraint CheckConstraint ''trip_detentions'')
      else if de_ID de \<in> dn_id ` set (db_trip_detentions d) then Inl (ErrConstraint UniqueConstraint ''trip_detentions.id'')
      else if fk \<and> (missing_ref (Some (de_TripID de)) (map tw_id (db_trips d))
        \<or> missing_ref (de_VehicleID de) (map vw_id (db_vehicles d)) \<or> missing_ref (de_GeofenceID de) (map gw_id (db_geofences d)))
      then Inl (ErrConstraint ForeignKeyConstraint ''trip_detentions'')
      else Inr ((), d\<lparr>db_trip_detentions := db_trip_detentions d @
        [\<lparr>dn_id = de_ID de, dn_tenant_id = de_TenantID de, dn_trip_id = de_TripID de, dn_vehicle_id = de_VehicleID de,
          dn_geofence_id = de_GeofenceID de, dn_zone_kind = de_ZoneKind de, dn_entered_at = de_EnteredAt de,
          dn_exited_at = None, dn_dwell_seconds = 0, dn_free_seconds = 0, dn_billable_seconds = 0,
          dn_rate_per_hour = Fin 0, dn_amount = Fin 0, dn_status = DetentionOpen, dn_updated_at = now\<rparr>]\<rparr>))"

definition OpenDetention :: "Detention \<Rightarrow> unit wact" where
  "OpenDetention de = wrap_error ''open detention'' (stmt (open_detention de))"

text \<open>A row without the joined name; the columns that are not selected stay zero.\<close>

definition found_detention :: "detention_row \<Rightarrow> Detention" where
  "found_detention r =
     \<lparr>de_ID = dn_id r, de_TenantID = dn_tenant_id r, de_TripID = dn_trip_id r, de_VehicleID = dn_vehicle_id r,
      de_GeofenceID = dn_geofence_id r, de_ZoneKind = dn_zone_kind r, de_ZoneName = [], de_EnteredAt = dn_entered_at r,
      de_ExitedAt = dn_exited_at r, de_DwellSeconds = dn_dwell_seconds r, de_FreeSeconds = 0, de_BillableSeconds = 0,
      de_RatePerHour = Fin 0, de_Amount = Fin 0, de_Status = dn_status r\<rparr>"

definition FindOpenDetention :: "TenantID \<Rightarrow> string \<Rightarrow> string \<Rightarrow> Detention option wact" where
  "FindOpenDetention t tripID zoneKind =
     wrap_error ''find open detention'' (query (\<lambda>now d. Inr
       (case sort_key (\<lambda>r. - dn_entered_at r) (filter (\<lambda>r. dn_tenant_id r = t \<and> dn_trip_id r = tripID
          \<and> dn_zone_kind r = zoneKind \<and> dn_status r = DetentionOpen) (db_trip_detentions d)) of
          [] \<Rightarrow> None
        | r # _ \<Rightarrow> Some (found_detention r))))"

definition close_detention :: "string \<Rightarrow> go_time \<Rightarrow> int \<Rightarrow> int \<Rightarrow> float64 \<Rightarrow> float64 \<Rightarrow> unit query" where
  "close_detention i exitedAt dwellSeconds freeSeconds ratePerHour amount fk now d =
     (let billable = wrap64 (dwellSeconds - freeSeconds);
          billable = (if billable < 0 then 0 else billable) in
      Inr ((), d\<lparr>db_trip_detentions :=
        update_where (\<lambda>r. dn_id r = i \<and> dn_status r = DetentionOpen)
          (\<lambda>r. r\<lparr>dn_status := DetentionClosed, dn_exited_at := Some exitedAt, dn_dwell_seconds := dwellSeconds,
             dn_free_seconds := freeSeconds, dn_billable_seconds := billable, dn_rate_per_hour := ratePerHour,
             dn_amount := amount, dn_updated_at := now\<rparr>) (db_trip_detentions d)\<rparr>))"

definition CloseDetention :: "string \<Rightarrow> go_time \<Rightarrow> int \<Rightarrow> int \<Rightarrow> float64 \<Rightarrow> float64 \<Rightarrow> unit wact" where
  "CloseDetention i exitedAt dwellSeconds freeSeconds ratePerHour amount =
     wrap_error ''close detention'' (stmt (close_detention i exitedAt dwellSeconds freeSeconds ratePerHour amount))"

definition zone_name :: "database \<Rightarrow> string option \<Rightarrow> string" where
  "zone_name d i =
     (case i of None \<Rightarrow> [] | Some g \<Rightarrow> (case find (\<lambda>r. gw_id r = g) (db_geofences d) of None \<Rightarrow> [] | Some r \<Rightarrow> gw_name r))"

definition scanDetention :: "database \<Rightarrow> detention_row \<Rightarrow> Detention" where
  "scanDetention d r =
     (found_detention r)\<lparr>de_ZoneName := zone_name d (dn_geofence_id r), de_FreeSeconds := dn_free_seconds r,
       de_BillableSeconds := dn_billable_seconds r, de_RatePerHour := dn_rate_per_hour r, de_Amount := dn_amount r\<rparr>"

definition Detention_Find :: "TenantID \<Rightarrow> string \<Rightarrow> Detention wact" where
  "Detention_Find t i =
     bindE (tryE (query (\<lambda>now d.
       case find (\<lambda>r. dn_id r = i \<and> dn_tenant_id r = t) (db_trip_detentions d) of
         None \<Rightarrow> Inl ErrNoRows
       | Some r \<Rightarrow> Inr (scanDetention d r)))) (\<lambda>res.
     case res of
       Inr x \<Rightarrow> ret x
     | Inl e \<Rightarrow> raise (if errors_Is_NoRows e then ErrNoRows else WrapError ''find detention'' e))"

definition ListClosedForTrip :: "TenantID \<Rightarrow> string \<Rightarrow> Detention list wact" where
  "ListClosedForTrip t tripID =
     wrap_error ''list closed detentions'' (query (\<lambda>now d. Inr
       (map (scanDetention d) (sort_key dn_entered_at (filter (\<lambda>r. dn_tenant_id r = t \<and> dn_trip_id r = tripID
          \<and> dn_status r = DetentionClosed \<and> flt (Fin 0) (dn_amount r)
          \<and> \<not> (\<exists>li\<in>set (db_invoice_line_items d). li_RefID li = Some (dn_id r))) (db_trip_detentions d))))))"

definition set_detention :: "string \<Rightarrow> (detention_row \<Rightarrow> detention_row) \<Rightarrow> unit query" where
  "set_detention i f fk now d = Inr ((), d\<lparr>db_trip_detentions :=
     update_where (\<lambda>r. dn_id r = i) (\<lambda>r. (f r)\<lparr>dn_updated_at := now\<rparr>) (db_trip_detentions d)\<rparr>)"

definition MarkAttached :: "string \<Rightarrow> unit wact" where
  "MarkAttached i = wrap_error ''mark detention attached'' (stmt (set_detention i (\<lambda>r. r\<lparr>dn_status := DetentionAttached\<rparr>)))"

definition Detention_Waive :: "string \<Rightarrow> unit wact" where
  "Detention_Waive i =
     wrap_error ''waive detention'' (stmt (set_detention i (\<lambda>r. r\<lparr>dn_status := DetentionWaived, dn_amount := Fin 0\<rparr>)))"

section \<open>Unread fixes\<close>

definition scan_fix :: "snapshot_row \<Rightarrow> Fix result" where
  "scan_fix r =
     (case (sn_vehicle_id r, sn_latitude r, sn_longitude r, sn_speed r) of
        (Some v, Some lat, Some lng, Some sp) \<Rightarrow> Inr \<lparr>fx_VehicleID = v, fx_TripID = sn_trip_id r,
          fx_Timestamp = sn_timestamp r, fx_Latitude = lat, fx_Longitude = lng, fx_Speed = sp\<rparr>
      | _ \<Rightarrow> Inl (ErrDriver ''sql: Scan error: converting NULL is unsupported''))"

text \<open>The snapshots of a vehicle later than its engine state, or all of them when it has none.\<close>

definition unread :: "database \<Rightarrow> snapshot_row \<Rightarrow> bool" where
  "unread d r \<longleftrightarrow>
     (case sn_vehicle_id r of
        None \<Rightarrow> True
      | Some v \<Rightarrow> (case find (\<lambda>s. es_VehicleID s = v) (db_engine_state d) of
          None \<Rightarrow> True
        | Some s \<Rightarrow> es_LastFixAt s < sn_timestamp r))
     \<and> sn_latitude r \<noteq> None \<and> sn_longitude r \<noteq> None"

definition LoadNewFixes :: "int \<Rightarrow> Fix list wact" where
  "LoadNewFixes limit =
     bindE (wrap_error ''load new fixes'' (query (\<lambda>now d. Inr
       (sql_page limit 0 (sort_key sn_timestamp (filter (unread d) (db_telemetry_snapshots d)))))))
     (\<lambda>rows. lift_result (scan_all scan_fix rows))"

end
