(* ===== verification/Go_Strconv.thy ===== *)
theory Go_Strconv
  imports Go_Text Booking_Repository
begin

text \<open>
  The parsers of \<open>strconv\<close> that configuration values go through: \<open>Atoi\<close>,
  \<open>ParseFloat\<close> and \<open>ParseBool\<close>.  An error is \<open>None\<close>; no caller looks at its text.
\<close>

section \<open>Integers\<close>

text \<open>A sign, then decimal digits only; the value has to fit in 64 bits.\<close>

definition unsigned_part :: "string \<Rightarrow> bool \<times> string" where
  "unsigned_part s =
     (case s of [] \<Rightarrow> (False, [])
      | c # t \<Rightarrow> if c = CHR ''-'' then (True, t) else if c = CHR ''+'' then (False, t) else (False, s))"

definition Atoi :: "string \<Rightarrow> int option" where
  "Atoi s =
     (case unsigned_part s of (neg, digits) \<Rightarrow>
        if digits = [] \<or> \<not> list_all is_digit digits then None
        else let n = (if neg then - digits_val 0 digits else digits_val 0 digits) in
          if - (2 ^ 63) \<le> n \<and> n < 2 ^ 63 then Some n else None)"

section \<open>Booleans\<close>

definition ParseBool :: "string \<Rightarrow> bool option" where
  "ParseBool s =
     (if s \<in> set [''1'', ''t'', ''T'', ''true'', ''TRUE'', ''True''] then Some True
      else if s \<in> set [''0'', ''f'', ''F'', ''false'', ''FALSE'', ''False''] then Some False
      else None)"

section \<open>Floating-point numbers\<close>

text \<open>\<open>strings.ToLower\<close> on ASCII text.\<close>

definition ToLower :: "string \<Rightarrow> string" where
  "ToLower s = map ascii_lower s"

definition hex_letter :: "char \<Rightarrow> int option" where
  "hex_letter c =
     (let n = (of_char (ascii_lower c) :: int) in
      if is_digit c then Some (digit_val c) else if 97 \<le> n \<and> n \<le> 102 then Some (n - 87) else None)"

definition base_digit :: "bool \<Rightarrow> char \<Rightarrow> int option" where
  "base_digit hex c = (if hex then hex_letter c else if is_digit c then Some (digit_val c) else None)"

text \<open>\<open>underscoreOK\<close>: an underscore stands between digits, or after a base prefix.\<close>

fun underscore_scan :: "bool \<Rightarrow> char \<Rightarrow> string \<Rightarrow> bool" where
  "underscore_scan hex saw [] \<longleftrightarrow> saw \<noteq> CHR ''_''"
| "underscore_scan hex saw (c # s) \<longleftrightarrow>
     (if base_digit hex c \<noteq> None then underscore_scan hex (CHR ''0'') s
      else if c = CHR ''_'' then saw = CHR ''0'' \<and> underscore_scan hex (CHR ''_'') s
      else saw \<noteq> CHR ''_'' \<and> underscore_scan hex (CHR ''!'') s)"

definition underscoreOK :: "string \<Rightarrow> bool" where
  "underscoreOK s =
     (let s = snd (unsigned_part s) in
      if 2 \<le> length s \<and> s ! 0 = CHR ''0'' \<and> ascii_lower (s ! 1) \<in> set ''box''
      then underscore_scan (ascii_lower (s ! 1) = CHR ''x'') (CHR ''0'') (drop 2 s)
      else underscore_scan False (CHR ''^'') s)"

text \<open>
  The mantissa: its value without the point, the number of digits after the point, whether a
  point and a digit were seen, and the rest of the text.
\<close>

fun read_mantissa :: "bool \<Rightarrow> string \<Rightarrow> int \<Rightarrow> int \<Rightarrow> bool \<Rightarrow> bool \<Rightarrow> int \<times> int \<times> bool \<times> string" where
  "read_mantissa hex [] m places dot digits = (m, places, digits, [])"
| "read_mantissa hex (c # s) m places dot digits =
     (if c = CHR ''_'' then read_mantissa hex s m places dot digits
      else if c = CHR ''.'' then
        (if dot then (m, places, digits, c # s) else read_mantissa hex s m places True digits)
      else case base_digit hex c of
          Some v \<Rightarrow> read_mantissa hex s ((if hex then 16 else 10) * m + v) (if dot then places + 1 else places) dot True
        | None \<Rightarrow> (m, places, digits, c # s))"

text \<open>The digits of an exponent; past 10000 they no longer count.\<close>

fun read_exponent :: "int \<Rightarrow> string \<Rightarrow> int \<times> string" where
  "read_exponent e [] = (e, [])"
| "read_exponent e (c # s) =
     (if is_digit c then read_exponent (if e < 10000 then 10 * e + digit_val c else e) s
      else if c = CHR ''_'' then read_exponent e s
      else (e, c # s))"

text \<open>An optional exponent; a hexadecimal number has to have one.\<close>

definition parse_exponent :: "bool \<Rightarrow> string \<Rightarrow> (int \<times> string) option" where
  "parse_exponent hex s =
     (case s of
        c # t \<Rightarrow>
          if ascii_lower c = (if hex then CHR ''p'' else CHR ''e'') then
            (case unsigned_part t of (neg, u) \<Rightarrow>
               (case u of
                  d # _ \<Rightarrow> if is_digit d then (case read_exponent 0 u of (e, r) \<Rightarrow> Some (if neg then - e else e, r)) else None
                | [] \<Rightarrow> None))
          else if hex then None else Some (0, s)
      | [] \<Rightarrow> if hex then None else Some (0, []))"

definition rat_pow :: "int \<Rightarrow> int \<Rightarrow> rat" where
  "rat_pow b e = (if 0 \<le> e then of_int (b ^ nat e) else 1 / of_int (b ^ nat (- e)))"

definition special_float :: "string \<Rightarrow> float64 option" where
  "special_float s =
     (case unsigned_part s of (neg, t) \<Rightarrow>
        if ToLower t = ''inf'' \<or> ToLower t = ''infinity'' then Some (if neg then NInf else PInf)
        else if ToLower s = ''nan'' then Some NaN else None)"

definition ParseFloat :: "string \<Rightarrow> float64 option" where
  "ParseFloat s =
     (case special_float s of
        Some x \<Rightarrow> Some x
      | None \<Rightarrow>
          (case unsigned_part s of (neg, t) \<Rightarrow>
            (let hex = (2 < length t \<and> t ! 0 = CHR ''0'' \<and> ascii_lower (t ! 1) = CHR ''x'') in
             case read_mantissa hex (if hex then drop 2 t else t) 0 0 False False of (m, places, digits, r) \<Rightarrow>
               if \<not> digits then None
               else (case parse_exponent hex r of
                   None \<Rightarrow> None
                 | Some (e, r') \<Rightarrow>
                     if r' \<noteq> [] \<or> (CHR ''_'' \<in> set s \<and> \<not> underscoreOK s) then None
                     else (let x = of_int (if neg then - m else m) * (if hex then rat_pow 2 (e - 4 * places) else rat_pow 10 (e - places)) in
                       if isFinite (rnd x) then Some (rnd x) else None)))))"

section \<open>Integers printed and read\<close>

lemma digits_val_append: "digits_val acc (s @ t) = digits_val (digits_val acc s) t"
  by (induction s arbitrary: acc) simp_all

lemma itoa_nat_digits: "0 \<le> n \<Longrightarrow> itoa_nat n \<noteq> [] \<and> list_all is_digit (itoa_nat n) \<and> digits_val 0 (itoa_nat n) = n"
proof (induction n rule: itoa_nat.induct)
  case (1 n)
  have d: "is_digit (char_of (48 + k)) \<and> digit_val (char_of (48 + k)) = k" if "0 \<le> k" "k < 10" for k :: int
    using is_digit_digit_char [of k] digit_val_digit_char [of k] that by (simp add: digit_char_def)
  show ?case
  proof (cases "n < 10")
    case True
    with d [of n] 1(2) show ?thesis by (simp add: itoa_nat.simps [of n])
  next
    case False
    with 1 have "list_all is_digit (itoa_nat (n div 10)) \<and> digits_val 0 (itoa_nat (n div 10)) = n div 10" by simp
    with d [of "n mod 10"] False show ?thesis
      by (simp add: itoa_nat.simps [of n] digits_val_append)
  qed
qed

lemma itoa_nat_head: "0 \<le> n \<Longrightarrow> \<exists>c s. itoa_nat n = c # s \<and> is_digit c"
  using itoa_nat_digits [of n] by (cases "itoa_nat n") auto

text \<open>\<open>Atoi\<close> reads what \<open>%d\<close> prints.\<close>

lemma Atoi_itoa: "- (2 ^ 63) \<le> n \<Longrightarrow> n < 2 ^ 63 \<Longrightarrow> Atoi (itoa n) = Some n"
proof (cases "n < 0")
  case True
  assume "- (2 ^ 63) \<le> n"
  with True itoa_nat_digits [of "- n"] show ?thesis
    by (simp add: Atoi_def itoa_def unsigned_part_def)
next
  case False
  assume "n < 2 ^ 63"
  from False obtain c s where c: "itoa_nat n = c # s" "is_digit c" using itoa_nat_head [of n] by auto
  then have "c \<noteq> CHR ''-''" "c \<noteq> CHR ''+''" by (auto simp: is_digit_def)
  with c False \<open>n < 2 ^ 63\<close> itoa_nat_digits [of n] show ?thesis
    by (simp add: Atoi_def itoa_def unsigned_part_def)
qed

end
