(* ===== verification/Dwell_Engine.thy ===== *)
theory Dwell_Engine
  imports Geo
begin

text \<open>
  The dwell engine (\<open>internal/geofence/application/dwell_engine.go\<close>): a machine of four
  states per vehicle, moved by one position fix at a time.  A nil pointer that would be followed
  makes the result \<open>None\<close>.
\<close>

section \<open>Data\<close>

record EngineConfig =
  ec_Debounce :: int
  ec_BufferMetres :: float64
  ec_HysteresisMetres :: float64

definition DefaultDwellDebounce :: int where "DefaultDwellDebounce = 60 * 10 ^ 9"
definition DefaultBufferMetres :: float64 where "DefaultBufferMetres = Fin 20"
definition DefaultHysteresisMetres :: float64 where "DefaultHysteresisMetres = Fin 25"

definition DefaultEngineConfig :: EngineConfig where
  "DefaultEngineConfig = \<lparr>ec_Debounce = DefaultDwellDebounce, ec_BufferMetres = DefaultBufferMetres,
     ec_HysteresisMetres = DefaultHysteresisMetres\<rparr>"

record ZoneEvent =
  ze_EventType :: string
  ze_Zone :: Geofence
  ze_Lat :: float64
  ze_Lng :: float64
  ze_At :: go_time
  ze_Details :: string

text \<open>\<open>t.Sub(u)\<close> saturates at the bounds of \<open>int64\<close>.\<close>

definition time_Sub :: "go_time \<Rightarrow> go_time \<Rightarrow> int" where
  "time_Sub t u = max (- (2 ^ 63)) (min (2 ^ 63 - 1) (t - u))"

section \<open>One fix\<close>

definition bestZoneFor :: "math_funs \<Rightarrow> Geofence list \<Rightarrow> float64 \<Rightarrow> float64 \<Rightarrow> float64 \<Rightarrow> Geofence option" where
  "bestZoneFor m zones lat lng buffer = find (\<lambda>z. ContainsEntry m z lat lng buffer) zones"

definition zoneByID :: "Geofence list \<Rightarrow> string option \<Rightarrow> Geofence option" where
  "zoneByID zones i =
     (case i of None \<Rightarrow> None | Some gid \<Rightarrow> find (\<lambda>z. gf_ID z = gid) zones)"

text \<open>What every fix leaves in the state.\<close>

definition fix_noted :: "EngineState \<Rightarrow> Fix \<Rightarrow> EngineState" where
  "fix_noted current fix =
     current\<lparr>es_LastFixAt := fx_Timestamp fix, es_LastLat := fx_Latitude fix, es_LastLng := fx_Longitude fix,
       es_TripID := (case fx_TripID fix of Some t \<Rightarrow> Some t | None \<Rightarrow> es_TripID current)\<rparr>"

definition zone_event :: "string \<Rightarrow> Geofence \<Rightarrow> Fix \<Rightarrow> string \<Rightarrow> ZoneEvent" where
  "zone_event ty z fix details =
     \<lparr>ze_EventType = ty, ze_Zone = z, ze_Lat = fx_Latitude fix, ze_Lng = fx_Longitude fix,
      ze_At = fx_Timestamp fix, ze_Details = details\<rparr>"

type_synonym evaluated = "(EngineState \<times> ZoneEvent list) option"

definition eval_outside :: "EngineState \<Rightarrow> go_time \<Rightarrow> Geofence option \<Rightarrow> evaluated" where
  "eval_outside next now entryZone =
     (case entryZone of
        None \<Rightarrow> Some (next, [])
      | Some z \<Rightarrow> Some (next\<lparr>es_State := StateEntering, es_ZoneEnteredAt := Some now,
          es_GeofenceID := Some (gf_ID z), es_ZoneKind := Some (gf_Kind z)\<rparr>, []))"

definition entry_events :: "Geofence \<Rightarrow> Fix \<Rightarrow> ZoneEvent list" where
  "entry_events z fix =
     zone_event EventEntering z fix [] #
     (if gf_Kind z = KindRestricted \<or> gf_Kind z = KindNoEntry
      then [zone_event EventBreach z fix (''vehicle entered '' @ gf_Kind z @ '' zone'')] else [])"

definition debounced :: "int \<Rightarrow> go_time \<Rightarrow> go_time option \<Rightarrow> bool" where
  "debounced debounce now since = (case since of None \<Rightarrow> True | Some t \<Rightarrow> time_Sub now t \<ge> debounce)"

definition eval_entering ::
  "int \<Rightarrow> EngineState \<Rightarrow> Fix \<Rightarrow> EngineState \<Rightarrow> Geofence option \<Rightarrow> evaluated" where
  "eval_entering debounce current fix next entryZone =
     (let now = fx_Timestamp fix in
      case entryZone of
        None \<Rightarrow> Some (next\<lparr>es_State := StateOutside, es_GeofenceID := None, es_ZoneKind := None,
          es_ZoneEnteredAt := None\<rparr>, [])
      | Some z \<Rightarrow>
          (case es_GeofenceID current of
             None \<Rightarrow> None
           | Some gid \<Rightarrow>
               if gf_ID z \<noteq> gid
               then Some (next\<lparr>es_ZoneEnteredAt := Some now, es_GeofenceID := Some (gf_ID z),
                 es_ZoneKind := Some (gf_Kind z)\<rparr>, [])
               else if debounced debounce now (es_ZoneEnteredAt current)
               then Some (next\<lparr>es_State := StateInside, es_ConfirmedAt := Some now\<rparr>, entry_events z fix)
               else Some (next, [])))"

definition eval_inside ::
  "math_funs \<Rightarrow> float64 \<Rightarrow> EngineState \<Rightarrow> Fix \<Rightarrow> Geofence list \<Rightarrow> EngineState \<Rightarrow> evaluated" where
  "eval_inside m hysteresis current fix zones next =
     (case zoneByID zones (es_GeofenceID current) of
        Some cur \<Rightarrow>
          if \<not> ContainsExit m cur (fx_Latitude fix) (fx_Longitude fix) hysteresis
          then Some (next\<lparr>es_State := StateLeaving, es_ExitStartedAt := Some (fx_Timestamp fix)\<rparr>, [])
          else Some (next, [])
      | None \<Rightarrow> Some (next, []))"

definition eval_leaving ::
  "int \<Rightarrow> EngineState \<Rightarrow> Fix \<Rightarrow> Geofence list \<Rightarrow> EngineState \<Rightarrow> Geofence option \<Rightarrow> evaluated" where
  "eval_leaving debounce current fix zones next entryZone =
     (case entryZone of
        Some z \<Rightarrow>
          (let back = next\<lparr>es_State := StateInside, es_ExitStartedAt := None\<rparr> in
           case es_GeofenceID current of
             None \<Rightarrow> None
           | Some gid \<Rightarrow>
               if gf_ID z \<noteq> gid
               then Some (back\<lparr>es_GeofenceID := Some (gf_ID z), es_ZoneKind := Some (gf_Kind z)\<rparr>, [])
               else Some (back, []))
      | None \<Rightarrow>
          if debounced debounce (fx_Timestamp fix) (es_ExitStartedAt current)
          then Some (next\<lparr>es_State := StateOutside, es_GeofenceID := None, es_ZoneKind := None,
                 es_ZoneEnteredAt := None, es_ConfirmedAt := None, es_ExitStartedAt := None\<rparr>,
               (case zoneByID zones (es_GeofenceID current) of
                  Some cur \<Rightarrow> [zone_event EventLeaving cur fix []]
                | None \<Rightarrow> []))
          else Some (next, []))"

definition Evaluate :: "math_funs \<Rightarrow> EngineConfig \<Rightarrow> EngineState \<Rightarrow> Fix \<Rightarrow> Geofence list \<Rightarrow> evaluated" where
  "Evaluate m cfg current fix zones =
     (let next = fix_noted current fix;
          entryZone = bestZoneFor m zones (fx_Latitude fix) (fx_Longitude fix) (ec_BufferMetres cfg) in
      if es_State current = StateOutside then eval_outside next (fx_Timestamp fix) entryZone
      else if es_State current = StateEntering then eval_entering (ec_Debounce cfg) current fix next entryZone
      else if es_State current = StateInside then eval_inside m (ec_HysteresisMetres cfg) current fix zones next
      else if es_State current = StateLeaving then eval_leaving (ec_Debounce cfg) current fix zones next entryZone
      else Some (next, []))"

section \<open>Well-formed states\<close>

text \<open>Which pointers are set in which state, as the engine relies on it.\<close>

definition wf_engine :: "EngineState \<Rightarrow> bool" where
  "wf_engine s \<longleftrightarrow>
     (es_State s = StateOutside \<and> es_GeofenceID s = None \<and> es_ZoneEnteredAt s = None \<and> es_ConfirmedAt s = None
        \<and> es_ExitStartedAt s = None)
     \<or> (es_State s = StateEntering \<and> es_GeofenceID s \<noteq> None \<and> es_ZoneEnteredAt s \<noteq> None
        \<and> es_ConfirmedAt s = None \<and> es_ExitStartedAt s = None)
     \<or> (es_State s = StateInside \<and> es_GeofenceID s \<noteq> None \<and> es_ZoneEnteredAt s \<noteq> None
        \<and> es_ConfirmedAt s \<noteq> None \<and> es_ExitStartedAt s = None)
     \<or> (es_State s = StateLeaving \<and> es_GeofenceID s \<noteq> None \<and> es_ZoneEnteredAt s \<noteq> None
        \<and> es_ConfirmedAt s \<noteq> None \<and> es_ExitStartedAt s \<noteq> None)"

text \<open>The state of a vehicle seen for the first time, as the worker makes it.\<close>

definition first_state :: "string \<Rightarrow> string \<Rightarrow> EngineState" where
  "first_state vehicleID tenantID =
     \<lparr>es_VehicleID = vehicleID, es_TenantID = tenantID, es_State = StateOutside, es_TripID = None,
      es_GeofenceID = None, es_ZoneKind = None, es_ZoneEnteredAt = None, es_ConfirmedAt = None,
      es_ExitStartedAt = None, es_LastFixAt = 0, es_LastLat = Fin 0, es_LastLng = Fin 0, es_UpdatedAt = 0\<rparr>"

lemma wf_first_state: "wf_engine (first_state v t)"
  by (simp add: wf_engine_def first_state_def)

text \<open>The pointers do not depend on the position and the trip of the last fix.\<close>

lemma fix_noted_simps [simp]:
  "es_State (fix_noted s f) = es_State s" "es_GeofenceID (fix_noted s f) = es_GeofenceID s"
  "es_ZoneKind (fix_noted s f) = es_ZoneKind s" "es_ZoneEnteredAt (fix_noted s f) = es_ZoneEnteredAt s"
  "es_ConfirmedAt (fix_noted s f) = es_ConfirmedAt s" "es_ExitStartedAt (fix_noted s f) = es_ExitStartedAt s"
  "es_VehicleID (fix_noted s f) = es_VehicleID s" "es_TenantID (fix_noted s f) = es_TenantID s"
  by (simp_all add: fix_noted_def)

lemma state_names_distinct [simp]:
  "StateOutside \<noteq> StateEntering" "StateOutside \<noteq> StateInside" "StateOutside \<noteq> StateLeaving"
  "StateEntering \<noteq> StateOutside" "StateEntering \<noteq> StateInside" "StateEntering \<noteq> StateLeaving"
  "StateInside \<noteq> StateOutside" "StateInside \<noteq> StateEntering" "StateInside \<noteq> StateLeaving"
  "StateLeaving \<noteq> StateOutside" "StateLeaving \<noteq> StateEntering" "StateLeaving \<noteq> StateInside"
  by (simp_all add: engine_names)

lemma event_names_distinct [simp]:
  "EventEntering \<noteq> EventLeaving" "EventLeaving \<noteq> EventEntering" "EventEntering \<noteq> EventBreach"
  "EventBreach \<noteq> EventEntering" "EventLeaving \<noteq> EventBreach" "EventBreach \<noteq> EventLeaving"
  by (simp_all add: engine_names)

lemma Evaluate_wf:
  assumes "wf_engine s"
  shows "\<exists>s' evs. Evaluate m cfg s fix zones = Some (s', evs) \<and> wf_engine s'"
  using assms unfolding wf_engine_def Evaluate_def Let_def
  by (elim disjE)
    (auto simp: eval_outside_def eval_entering_def eval_inside_def eval_leaving_def Let_def split: option.split)

section \<open>Runs\<close>

text \<open>A vehicle's fixes in order, each with the zones loaded for it.\<close>

primrec dwell_run :: "math_funs \<Rightarrow> EngineConfig \<Rightarrow> EngineState \<Rightarrow> (Fix \<times> Geofence list) list \<Rightarrow> evaluated" where
  "dwell_run m cfg s [] = Some (s, [])"
| "dwell_run m cfg s (x # xs) =
     (case Evaluate m cfg s (fst x) (snd x) of
        None \<Rightarrow> None
      | Some (s1, evs1) \<Rightarrow>
          (case dwell_run m cfg s1 xs of
             None \<Rightarrow> None
           | Some (s2, evs2) \<Rightarrow> Some (s2, evs1 @ evs2)))"

lemma dwell_run_append:
  "dwell_run m cfg s (xs @ ys) =
     (case dwell_run m cfg s xs of
        None \<Rightarrow> None
      | Some (s1, evs1) \<Rightarrow>
          (case dwell_run m cfg s1 ys of
             None \<Rightarrow> None
           | Some (s2, evs2) \<Rightarrow> Some (s2, evs1 @ evs2)))"
  by (induction xs arbitrary: s) (auto split: option.splits)

lemma dwell_run_snoc:
  "dwell_run m cfg s (xs @ [(fix, zones)]) = Some (s2, evs) \<longleftrightarrow>
     (\<exists>s1 evs1 evs2. dwell_run m cfg s xs = Some (s1, evs1) \<and> Evaluate m cfg s1 fix zones = Some (s2, evs2)
        \<and> evs = evs1 @ evs2)"
  by (auto simp: dwell_run_append split: option.splits)

lemma dwell_run_wf: "wf_engine s \<Longrightarrow> \<exists>s' evs. dwell_run m cfg s xs = Some (s', evs) \<and> wf_engine s'"
proof (induction xs arbitrary: s)
  case (Cons x xs)
  from Evaluate_wf [OF Cons.prems, of m cfg "fst x" "snd x"] obtain s1 evs1
    where e: "Evaluate m cfg s (fst x) (snd x) = Some (s1, evs1)" "wf_engine s1" by blast
  from Cons.IH [OF e(2)] e(1) show ?case by auto
qed simp

text \<open>
  From the state of a new vehicle no sequence of fixes, under whatever zones, makes the
  engine follow a nil pointer, and the pointers of the resulting state fit the state it names.
\<close>

theorem engine_never_panics:
  "\<exists>s evs. dwell_run m cfg (first_state v t) xs = Some (s, evs) \<and> wf_engine s"
  by (rule dwell_run_wf [OF wf_first_state])

lemma run_wf: "dwell_run m cfg (first_state v t) xs = Some (s, evs) \<Longrightarrow> wf_engine s"
  using dwell_run_wf [OF wf_first_state, of m cfg v t xs] by auto

section \<open>What confirms an entry and an exit\<close>

text \<open>The zone of a fix by the entry test.\<close>

definition entry_zone :: "math_funs \<Rightarrow> EngineConfig \<Rightarrow> Fix \<times> Geofence list \<Rightarrow> Geofence option" where
  "entry_zone m cfg x = bestZoneFor m (snd x) (fx_Latitude (fst x)) (fx_Longitude (fst x)) (ec_BufferMetres cfg)"

text \<open>A probe: the last fixes all lie in the zone of the state, and the first of them started the timer.\<close>

definition probing :: "math_funs \<Rightarrow> EngineConfig \<Rightarrow> EngineState \<Rightarrow> (Fix \<times> Geofence list) list \<Rightarrow> bool" where
  "probing m cfg s xs \<longleftrightarrow>
     (\<exists>pre f zs mid gid. xs = pre @ (f, zs) # mid \<and> es_GeofenceID s = Some gid
        \<and> es_ZoneEnteredAt s = Some (fx_Timestamp f)
        \<and> (\<forall>x\<in>set ((f, zs) # mid). map_option gf_ID (entry_zone m cfg x) = Some gid))"

lemma probing_start:
  assumes "entry_zone m cfg (fix, zones) = Some z"
    and "es_GeofenceID s = Some (gf_ID z)" and "es_ZoneEnteredAt s = Some (fx_Timestamp fix)"
  shows "probing m cfg s (xs @ [(fix, zones)])"
  using assms unfolding probing_def
  by (intro exI [of _ xs] exI [of _ "fix"] exI [of _ zones] exI [of _ "[]"] exI [of _ "gf_ID z"]) simp

lemma probing_continue:
  assumes "probing m cfg s xs" and "entry_zone m cfg (fix, zones) = Some z" and "es_GeofenceID s = Some (gf_ID z)"
    and "es_GeofenceID s' = es_GeofenceID s" and "es_ZoneEnteredAt s' = es_ZoneEnteredAt s"
  shows "probing m cfg s' (xs @ [(fix, zones)])"
proof -
  from assms(1) obtain pre f zs mid gid where p: "xs = pre @ (f, zs) # mid" "es_GeofenceID s = Some gid"
    "es_ZoneEnteredAt s = Some (fx_Timestamp f)"
    "\<forall>x\<in>set ((f, zs) # mid). map_option gf_ID (entry_zone m cfg x) = Some gid"
    unfolding probing_def by blast
  with assms(2-) show ?thesis unfolding probing_def
    by (intro exI [of _ pre] exI [of _ f] exI [of _ zs] exI [of _ "mid @ [(fix, zones)]"] exI [of _ gid]) auto
qed

text \<open>A departure: a fix failed the exit test of the zone and started the timer, none since was in a zone.\<close>

definition departing :: "math_funs \<Rightarrow> EngineConfig \<Rightarrow> EngineState \<Rightarrow> (Fix \<times> Geofence list) list \<Rightarrow> bool" where
  "departing m cfg s xs \<longleftrightarrow>
     (\<exists>pre f zs mid cur. xs = pre @ (f, zs) # mid \<and> zoneByID zs (es_GeofenceID s) = Some cur
        \<and> \<not> ContainsExit m cur (fx_Latitude f) (fx_Longitude f) (ec_HysteresisMetres cfg)
        \<and> es_ExitStartedAt s = Some (fx_Timestamp f) \<and> (\<forall>x\<in>set mid. entry_zone m cfg x = None))"

lemma departing_start:
  assumes "zoneByID zones (es_GeofenceID s) = Some cur"
    and "\<not> ContainsExit m cur (fx_Latitude fix) (fx_Longitude fix) (ec_HysteresisMetres cfg)"
    and "es_ExitStartedAt s = Some (fx_Timestamp fix)"
  shows "departing m cfg s (xs @ [(fix, zones)])"
  using assms unfolding departing_def
  by (intro exI [of _ xs] exI [of _ "fix"] exI [of _ zones] exI [of _ "[]"] exI [of _ cur]) simp

lemma departing_continue:
  assumes "departing m cfg s xs" and "entry_zone m cfg (fix, zones) = None"
    and "es_GeofenceID s' = es_GeofenceID s" and "es_ExitStartedAt s' = es_ExitStartedAt s"
  shows "departing m cfg s' (xs @ [(fix, zones)])"
proof -
  from assms(1) obtain pre f zs mid cur where p: "xs = pre @ (f, zs) # mid" "zoneByID zs (es_GeofenceID s) = Some cur"
    "\<not> ContainsExit m cur (fx_Latitude f) (fx_Longitude f) (ec_HysteresisMetres cfg)"
    "es_ExitStartedAt s = Some (fx_Timestamp f)" "\<forall>x\<in>set mid. entry_zone m cfg x = None"
    unfolding departing_def by blast
  with assms(2-) show ?thesis unfolding departing_def
    by (intro exI [of _ pre] exI [of _ f] exI [of _ zs] exI [of _ "mid @ [(fix, zones)]"] exI [of _ cur]) auto
qed

text \<open>The state between two fixes and what the fixes so far say about it.\<close>

lemma Evaluate_history:
  assumes "wf_engine s" and "Evaluate m cfg s fix zones = Some (s', evs)"
    and "es_State s = StateEntering \<Longrightarrow> probing m cfg s xs" and "es_State s = StateLeaving \<Longrightarrow> departing m cfg s xs"
  shows "(es_State s' = StateEntering \<longrightarrow> probing m cfg s' (xs @ [(fix, zones)]))
    \<and> (es_State s' = StateLeaving \<longrightarrow> departing m cfg s' (xs @ [(fix, zones)]))"
proof -
  note ez = entry_zone_def [of m cfg "(fix, zones)", simplified, symmetric]
  from assms(1) consider "es_State s = StateOutside" | "es_State s = StateEntering" | "es_State s = StateInside"
    | "es_State s = StateLeaving" unfolding wf_engine_def by blast
  then show ?thesis
  proof cases
    case 1
    with assms(2) show ?thesis
      by (auto simp: Evaluate_def Let_def ez eval_outside_def intro: probing_start split: option.splits)
  next
    case 2
    with assms(2) assms(3) show ?thesis
      by (auto simp: Evaluate_def Let_def ez eval_entering_def intro: probing_start probing_continue
          split: option.splits if_splits)
  next
    case 3
    with assms(2) show ?thesis
      by (auto simp: Evaluate_def Let_def eval_inside_def intro: departing_start split: option.splits if_splits)
  next
    case 4
    with assms(2) assms(4) show ?thesis
      by (auto simp: Evaluate_def ez eval_leaving_def Let_def intro: departing_continue split: option.splits if_splits)
  qed
qed

lemma run_history:
  assumes "dwell_run m cfg (first_state v t) xs = Some (s, evs)"
  shows "(es_State s = StateEntering \<longrightarrow> probing m cfg s xs) \<and> (es_State s = StateLeaving \<longrightarrow> departing m cfg s xs)"
  using assms
proof (induction xs arbitrary: s evs rule: rev_induct)
  case Nil
  then show ?case by (auto simp: first_state_def)
next
  case (snoc x xs)
  obtain f zones where x: "x = (f, zones)" by (cases x)
  from snoc.prems [unfolded x dwell_run_snoc] obtain s1 evs1 evs2
    where r: "dwell_run m cfg (first_state v t) xs = Some (s1, evs1)"
      and e: "Evaluate m cfg s1 f zones = Some (s, evs2)" by blast
  show ?case unfolding x
    by (rule Evaluate_history [OF run_wf [OF r] e]) (use snoc.IH [OF r] in simp_all)
qed

text \<open>What an event says about the step that emitted it.\<close>

lemma entering_step:
  assumes "wf_engine s" and "Evaluate m cfg s fix zones = Some (s', new)" and "e \<in> set new"
    and "ze_EventType e = EventEntering"
  shows "es_State s = StateEntering \<and> entry_zone m cfg (fix, zones) = Some (ze_Zone e)
    \<and> es_GeofenceID s = Some (gf_ID (ze_Zone e)) \<and> ze_At e = fx_Timestamp fix
    \<and> debounced (ec_Debounce cfg) (fx_Timestamp fix) (es_ZoneEnteredAt s)"
  using assms unfolding wf_engine_def
  by (auto simp: Evaluate_def entry_zone_def Let_def eval_outside_def eval_entering_def eval_inside_def eval_leaving_def
      entry_events_def zone_event_def split: option.splits if_splits)

lemma leaving_step:
  assumes "wf_engine s" and "Evaluate m cfg s fix zones = Some (s', new)" and "e \<in> set new"
    and "ze_EventType e = EventLeaving"
  shows "es_State s = StateLeaving \<and> entry_zone m cfg (fix, zones) = None
    \<and> zoneByID zones (es_GeofenceID s) = Some (ze_Zone e) \<and> ze_At e = fx_Timestamp fix
    \<and> debounced (ec_Debounce cfg) (fx_Timestamp fix) (es_ExitStartedAt s)"
  using assms unfolding wf_engine_def
  by (auto simp: Evaluate_def entry_zone_def Let_def eval_outside_def eval_entering_def eval_inside_def eval_leaving_def
      entry_events_def zone_event_def split: option.splits if_splits)

lemma zoneByID_ID: "zoneByID zs i = Some z \<Longrightarrow> i = Some (gf_ID z)"
  by (auto simp: zoneByID_def split: option.splits dest: find_SomeD)

text \<open>
  Property C23.  An entry into a zone is reported only after every fix over at least the debounce time
  had this zone as its best zone.
\<close>

theorem entry_needs_debounce:
  assumes "dwell_run m cfg (first_state v t) xs = Some (s, evs)" and "Evaluate m cfg s fix zones = Some (s', new)"
    and "e \<in> set new" and "ze_EventType e = EventEntering"
  shows "\<exists>pre f zs mid. xs = pre @ (f, zs) # mid \<and> ze_At e = fx_Timestamp fix
    \<and> ec_Debounce cfg \<le> time_Sub (fx_Timestamp fix) (fx_Timestamp f)
    \<and> (\<forall>x\<in>set ((f, zs) # mid @ [(fix, zones)]). map_option gf_ID (entry_zone m cfg x) = Some (gf_ID (ze_Zone e)))"
proof -
  from entering_step [OF run_wf [OF assms(1)] assms(2-4)] have e: "es_State s = StateEntering"
    "entry_zone m cfg (fix, zones) = Some (ze_Zone e)" "es_GeofenceID s = Some (gf_ID (ze_Zone e))"
    "ze_At e = fx_Timestamp fix" "debounced (ec_Debounce cfg) (fx_Timestamp fix) (es_ZoneEnteredAt s)" by auto
  with run_history [OF assms(1)] have "probing m cfg s xs" by blast
  then obtain pre f zs mid where "xs = pre @ (f, zs) # mid" "es_ZoneEnteredAt s = Some (fx_Timestamp f)"
    "\<forall>x\<in>set ((f, zs) # mid). map_option gf_ID (entry_zone m cfg x) = Some (gf_ID (ze_Zone e))"
    unfolding probing_def e(3) by blast
  with e show ?thesis by (intro exI [of _ pre] exI [of _ f] exI [of _ zs] exI [of _ mid]) (auto simp: debounced_def)
qed

text \<open>
  Property C24.  An exit from a zone is reported only when some fix at least the debounce time ago
  failed the exit test of that zone and no fix since lay in any zone; that first fix itself may have
  been in the zone.
\<close>

theorem exit_needs_debounce:
  assumes "dwell_run m cfg (first_state v t) xs = Some (s, evs)" and "Evaluate m cfg s fix zones = Some (s', new)"
    and "e \<in> set new" and "ze_EventType e = EventLeaving"
  shows "\<exists>pre f zs mid cur. xs = pre @ (f, zs) # mid \<and> ze_At e = fx_Timestamp fix
    \<and> ec_Debounce cfg \<le> time_Sub (fx_Timestamp fix) (fx_Timestamp f)
    \<and> cur \<in> set zs \<and> gf_ID cur = gf_ID (ze_Zone e)
    \<and> \<not> ContainsExit m cur (fx_Latitude f) (fx_Longitude f) (ec_HysteresisMetres cfg)
    \<and> (\<forall>x\<in>set (mid @ [(fix, zones)]). entry_zone m cfg x = None)"
proof -
  from leaving_step [OF run_wf [OF assms(1)] assms(2-4)] have e: "es_State s = StateLeaving"
    "entry_zone m cfg (fix, zones) = None" "zoneByID zones (es_GeofenceID s) = Some (ze_Zone e)"
    "ze_At e = fx_Timestamp fix" "debounced (ec_Debounce cfg) (fx_Timestamp fix) (es_ExitStartedAt s)" by auto
  with run_history [OF assms(1)] have "departing m cfg s xs" by blast
  then obtain pre f zs mid cur where d: "xs = pre @ (f, zs) # mid" "zoneByID zs (es_GeofenceID s) = Some cur"
    "\<not> ContainsExit m cur (fx_Latitude f) (fx_Longitude f) (ec_HysteresisMetres cfg)"
    "es_ExitStartedAt s = Some (fx_Timestamp f)" "\<forall>x\<in>set mid. entry_zone m cfg x = None"
    unfolding departing_def by blast
  have "cur \<in> set zs" "gf_ID cur = gf_ID (ze_Zone e)"
    using d(2) zoneByID_ID [OF d(2)] zoneByID_ID [OF e(3)]
    by (auto simp: zoneByID_def split: option.splits dest: find_SomeD)
  with d e show ?thesis
    by (intro exI [of _ pre] exI [of _ f] exI [of _ zs] exI [of _ mid] exI [of _ cur]) (auto simp: debounced_def)
qed

section \<open>Polygon zones\<close>

lemma polygon_never_contains_exit:
  assumes "gf_Shape g = ShapePolygon" and "\<not> flt h (Fin 0)"
  shows "\<not> ContainsExit m g lat lng h"
  using assms by (simp add: ContainsExit_def ShapeCircle_def ShapePolygon_def PointToPolygonDistance_def)

text \<open>
  The exit test of a polygon zone fails at every position, since the distance of an inner
  point is zero: any fix of a vehicle inside starts the exit timer, also one in the middle of the
  zone, and the first fix outside after the debounce time is reported as the exit.
\<close>

theorem polygon_zone_always_departing:
  assumes "es_State s = StateInside" and "zoneByID zones (es_GeofenceID s) = Some z" and "gf_Shape z = ShapePolygon"
    and "\<not> flt (ec_HysteresisMetres cfg) (Fin 0)"
    and "entry_zone m cfg (fix2, zones) = None"
    and "ec_Debounce cfg \<le> time_Sub (fx_Timestamp fix2) (fx_Timestamp fix1)"
  shows "\<exists>s1 s2. Evaluate m cfg s fix1 zones = Some (s1, []) \<and> es_State s1 = StateLeaving
    \<and> Evaluate m cfg s1 fix2 zones = Some (s2, [zone_event EventLeaving z fix2 []]) \<and> es_State s2 = StateOutside"
  using assms polygon_never_contains_exit [OF assms(3,4)]
  by (simp add: Evaluate_def eval_inside_def eval_leaving_def entry_zone_def debounced_def)

section \<open>A concrete journey\<close>

text \<open>
  A zone of a hundred metres, two fixes at its centre a minute apart that confirm the entry, and two
  fixes far away a minute apart that confirm the exit.
\<close>

definition demo_math :: math_funs where
  "demo_math = \<lparr>m_Sin = (\<lambda>x. if x = Fin 0 then Fin 0 else Fin 1), m_Cos = (\<lambda>_. Fin 1), m_Atan2 = (\<lambda>x y. x), m_Sqrt = (\<lambda>x. x),
     m_Hypot = (\<lambda>_ _. Fin 1000)\<rparr>"

definition demo_zone :: Geofence where
  "demo_zone =
     \<lparr>gf_ID = ''g1'', gf_TenantID = ''1'', gf_Name = ''Yard'', gf_Kind = KindPickup, gf_Shape = ShapeCircle,
      gf_CenterLat = Fin 0, gf_CenterLng = Fin 0, gf_RadiusM = Fin 100, gf_Polygon = [], gf_RouteName = [],
      gf_Priority = 0, gf_IsActive = True, gf_CreatedBy = None, gf_CreatedAt = 0, gf_UpdatedAt = 0\<rparr>"

definition demo_fix :: "int \<Rightarrow> float64 \<Rightarrow> Fix" where
  "demo_fix minute x = \<lparr>fx_VehicleID = ''v1'', fx_TripID = Some ''trip1'', fx_Timestamp = 60 * 10 ^ 9 * minute,
     fx_Latitude = Fin 0, fx_Longitude = x, fx_Speed = Fin 0\<rparr>"

definition demo_at :: "string \<Rightarrow> int \<Rightarrow> float64 \<Rightarrow> go_time option \<Rightarrow> go_time option \<Rightarrow> EngineState" where
  "demo_at st minute x confirmed exited =
     (first_state ''v1'' ''1'')\<lparr>es_State := st, es_TripID := Some ''trip1'', es_GeofenceID := Some ''g1'',
       es_ZoneKind := Some KindPickup, es_ZoneEnteredAt := Some (60 * 10 ^ 9 * 1), es_ConfirmedAt := confirmed,
       es_ExitStartedAt := exited, es_LastFixAt := 60 * 10 ^ 9 * minute, es_LastLat := Fin 0, es_LastLng := x\<rparr>"

definition demo_entering :: EngineState where
  "demo_entering = demo_at StateEntering 1 (Fin 0) None None"
definition demo_inside :: EngineState where
  "demo_inside = demo_at StateInside 2 (Fin 0) (Some (60 * 10 ^ 9 * 2)) None"
definition demo_leaving :: EngineState where
  "demo_leaving = demo_at StateLeaving 3 (Fin 64) (Some (60 * 10 ^ 9 * 2)) (Some (60 * 10 ^ 9 * 3))"

definition demo_step :: "EngineState \<Rightarrow> int \<Rightarrow> float64 \<Rightarrow> evaluated" where
  "demo_step s minute x = Evaluate demo_math DefaultEngineConfig s (demo_fix minute x) [demo_zone]"

lemma demo_steps:
  "demo_step (first_state ''v1'' ''1'') 1 (Fin 0) = Some (demo_entering, [])"
  "map_option fst (demo_step demo_entering 2 (Fin 0)) = Some demo_inside"
  "map_option snd (demo_step demo_entering 2 (Fin 0)) = Some [zone_event EventEntering demo_zone (demo_fix 2 (Fin 0)) []]"
  "demo_step demo_inside 3 (Fin 64) = Some (demo_leaving, [])"
  "map_option snd (demo_step demo_leaving 4 (Fin 64)) = Some [zone_event EventLeaving demo_zone (demo_fix 4 (Fin 64)) []]"
proof -
  show "demo_step (first_state ''v1'' ''1'') 1 (Fin 0) = Some (demo_entering, [])" by code_simp
  show "map_option fst (demo_step demo_entering 2 (Fin 0)) = Some demo_inside" by code_simp
  show "map_option snd (demo_step demo_entering 2 (Fin 0)) = Some [zone_event EventEntering demo_zone (demo_fix 2 (Fin 0)) []]"
    by code_simp
  show "demo_step demo_inside 3 (Fin 64) = Some (demo_leaving, [])" by code_simp
  show "map_option snd (demo_step demo_leaving 4 (Fin 64)) = Some [zone_event EventLeaving demo_zone (demo_fix 4 (Fin 64)) []]"
    by code_simp
qed

text \<open>A square zone.\<close>

definition demo_polygon :: Geofence where
  "demo_polygon = demo_zone\<lparr>gf_Shape := ShapePolygon, gf_Polygon :=
     [\<lparr>pt_Lat = Fin (- 8), pt_Lng = Fin (- 8)\<rparr>, \<lparr>pt_Lat = Fin (- 8), pt_Lng = Fin 8\<rparr>,
      \<lparr>pt_Lat = Fin 8, pt_Lng = Fin 8\<rparr>, \<lparr>pt_Lat = Fin 8, pt_Lng = Fin (- 8)\<rparr>]\<rparr>"

lemma demo_run:
  "\<exists>evs. dwell_run demo_math DefaultEngineConfig (first_state ''v1'' ''1'') [(demo_fix 1 (Fin 0), [demo_zone])]
     = Some (demo_entering, evs)"
  "\<exists>evs. dwell_run demo_math DefaultEngineConfig (first_state ''v1'' ''1'')
     [(demo_fix 1 (Fin 0), [demo_zone]), (demo_fix 2 (Fin 0), [demo_zone]), (demo_fix 3 (Fin 64), [demo_zone])]
     = Some (demo_leaving, evs)"
  using demo_steps by (auto simp: demo_step_def)

theorem entry_needs_debounce_witness:
  "\<exists>pre f zs mid. [(demo_fix 1 (Fin 0), [demo_zone])] = pre @ (f, zs) # mid
     \<and> ec_Debounce DefaultEngineConfig \<le> time_Sub (fx_Timestamp (demo_fix 2 (Fin 0))) (fx_Timestamp f)"
proof -
  let ?e = "zone_event EventEntering demo_zone (demo_fix 2 (Fin 0)) []"
  from demo_run(1) obtain evs where
    r: "dwell_run demo_math DefaultEngineConfig (first_state ''v1'' ''1'') [(demo_fix 1 (Fin 0), [demo_zone])]
      = Some (demo_entering, evs)" by blast
  from demo_steps(3) obtain s' where
    e: "Evaluate demo_math DefaultEngineConfig demo_entering (demo_fix 2 (Fin 0)) [demo_zone] = Some (s', [?e])"
    by (auto simp: demo_step_def)
  have "?e \<in> set [?e]" "ze_EventType ?e = EventEntering" by (simp_all add: zone_event_def)
  from entry_needs_debounce [OF r e this] show ?thesis by blast
qed

theorem exit_needs_debounce_witness:
  "\<exists>pre f zs mid. [(demo_fix 1 (Fin 0), [demo_zone]), (demo_fix 2 (Fin 0), [demo_zone]), (demo_fix 3 (Fin 64), [demo_zone])]
       = pre @ (f, zs) # mid
     \<and> ec_Debounce DefaultEngineConfig \<le> time_Sub (fx_Timestamp (demo_fix 4 (Fin 64))) (fx_Timestamp f)"
proof -
  let ?e = "zone_event EventLeaving demo_zone (demo_fix 4 (Fin 64)) []"
  from demo_run(2) obtain evs where
    r: "dwell_run demo_math DefaultEngineConfig (first_state ''v1'' ''1'')
      [(demo_fix 1 (Fin 0), [demo_zone]), (demo_fix 2 (Fin 0), [demo_zone]), (demo_fix 3 (Fin 64), [demo_zone])]
      = Some (demo_leaving, evs)" by blast
  from demo_steps(5) obtain s' where
    e: "Evaluate demo_math DefaultEngineConfig demo_leaving (demo_fix 4 (Fin 64)) [demo_zone] = Some (s', [?e])"
    by (auto simp: demo_step_def)
  have "?e \<in> set [?e]" "ze_EventType ?e = EventLeaving" by (simp_all add: zone_event_def)
  from exit_needs_debounce [OF r e this] show ?thesis by blast
qed

lemma demo_polygon_outside: "entry_zone demo_math DefaultEngineConfig (demo_fix 4 (Fin 64), [demo_polygon]) = None"
  by code_simp

theorem polygon_zone_always_departing_witness:
  "\<exists>s1 s2. Evaluate demo_math DefaultEngineConfig demo_inside (demo_fix 3 (Fin 0)) [demo_polygon] = Some (s1, [])
     \<and> Evaluate demo_math DefaultEngineConfig s1 (demo_fix 4 (Fin 64)) [demo_polygon]
         = Some (s2, [zone_event EventLeaving demo_polygon (demo_fix 4 (Fin 64)) []])"
proof -
  have "es_State demo_inside = StateInside" by (simp add: demo_inside_def demo_at_def)
  moreover have "zoneByID [demo_polygon] (es_GeofenceID demo_inside) = Some demo_polygon"
    by (simp add: zoneByID_def demo_inside_def demo_at_def demo_polygon_def demo_zone_def)
  moreover have "gf_Shape demo_polygon = ShapePolygon" by (simp add: demo_polygon_def)
  moreover have "\<not> flt (ec_HysteresisMetres DefaultEngineConfig) (Fin 0)"
    by (simp add: DefaultEngineConfig_def DefaultHysteresisMetres_def)
  moreover have "ec_Debounce DefaultEngineConfig \<le> time_Sub (fx_Timestamp (demo_fix 4 (Fin 64))) (fx_Timestamp (demo_fix 3 (Fin 0)))"
    by (simp add: DefaultEngineConfig_def DefaultDwellDebounce_def demo_fix_def time_Sub_def)
  ultimately show ?thesis using polygon_zone_always_departing demo_polygon_outside by blast
qed

end
