(* ===== verification/Geofence_Config.thy ===== *)
theory Geofence_Config
  imports Go_Strconv Repository_Contract Dwell_Engine
begin

text \<open>
  The settings of the geofence engine (\<open>internal/geofence/application/config.go\<close>): rows of
  \<open>company_config\<close> behind a cache that is refreshed when it is older than 30 seconds.
\<close>

section \<open>Reader\<close>

record ConfigReader =
  cr_cache :: "string \<rightharpoonup> string"
  cr_cacheAt :: go_time

type_synonym ('x, 'a) config_act = "('x ConfigReader_scheme, 'a) own_act"

definition cacheTTL :: int where "cacheTTL = 30 * 10 ^ 9"

definition empty_reader :: ConfigReader where
  "empty_reader = \<lparr>cr_cache = Map.empty, cr_cacheAt = 0\<rparr>"

definition config_rows :: "database \<Rightarrow> TenantID \<Rightarrow> (string \<times> string) list" where
  "config_rows d t = map snd (filter (\<lambda>r. fst r = t) (db_company_config d))"

text \<open>\<open>c.now().Sub(c.cacheAt) > cacheTTL\<close>, or the cache was never filled.\<close>

definition cache_expired :: "go_time \<Rightarrow> ('x, bool) config_act" where
  "cache_expired since =
     (if time_IsZero since then ret True
      else bindE (in_world Now) (\<lambda>now. ret (cacheTTL < time_Sub now since)))"

text \<open>The test is made once more under the write lock.\<close>

definition refreshIfStale :: "TenantID \<Rightarrow> ('x, unit) config_act" where
  "refreshIfStale t =
     bindE get_own (\<lambda>c.
     bindE (cache_expired (cr_cacheAt c)) (\<lambda>stale.
     if \<not> stale then ret ()
     else bindE (cache_expired (cr_cacheAt c)) (\<lambda>still.
       if \<not> still then ret ()
       else bindE (in_world (query (\<lambda>now d. Inr (config_rows d t)))) (\<lambda>rows.
         bindE (in_world Now) (\<lambda>now.
         modify_own (\<lambda>c. c\<lparr>cr_cache := map_of (rev rows), cr_cacheAt := now\<rparr>))))))"

definition config_Get :: "TenantID \<Rightarrow> string \<Rightarrow> ('x, string) config_act" where
  "config_Get t key =
     seqE (refreshIfStale t)
     (bindE get_own (\<lambda>c. ret (case cr_cache c key of Some v \<Rightarrow> v | None \<Rightarrow> [])))"

section \<open>Typed settings\<close>

definition as_seconds :: "int \<Rightarrow> string \<Rightarrow> int" where
  "as_seconds def raw =
     (if raw = [] then def
      else case Atoi raw of
          Some n \<Rightarrow> (if n \<le> 0 then def else wrap64 (n * 10 ^ 9))
        | None \<Rightarrow> def)"

definition as_float :: "float64 \<Rightarrow> string \<Rightarrow> float64" where
  "as_float def raw = (if raw = [] then def else case ParseFloat raw of Some x \<Rightarrow> x | None \<Rightarrow> def)"

text \<open>The lenient parse after \<open>ParseBool\<close> accepts what \<open>ParseBool\<close> accepts already.\<close>

definition as_bool :: "bool \<Rightarrow> string \<Rightarrow> bool" where
  "as_bool def raw =
     (if raw = [] then def
      else case ParseBool raw of
          Some b \<Rightarrow> b
        | None \<Rightarrow> (if raw = ''1'' then True else if raw = ''0'' then False else def))"

definition GetDurationSeconds :: "TenantID \<Rightarrow> string \<Rightarrow> int \<Rightarrow> ('x, int) config_act" where
  "GetDurationSeconds t key def = bindE (config_Get t key) (\<lambda>raw. ret (as_seconds def raw))"

definition GetFloat :: "TenantID \<Rightarrow> string \<Rightarrow> float64 \<Rightarrow> ('x, float64) config_act" where
  "GetFloat t key def = bindE (config_Get t key) (\<lambda>raw. ret (as_float def raw))"

definition GetBool :: "TenantID \<Rightarrow> string \<Rightarrow> bool \<Rightarrow> ('x, bool) config_act" where
  "GetBool t key def = bindE (config_Get t key) (\<lambda>raw. ret (as_bool def raw))"

text \<open>What a caller does that falls back to its default on any error.\<close>

definition or_default :: "'a \<Rightarrow> ('s, 'a) own_act \<Rightarrow> ('s, 'a) own_act" where
  "or_default def m = bindE (tryE m) (\<lambda>r. ret (case r of Inl _ \<Rightarrow> def | Inr x \<Rightarrow> x))"

lemma or_default_Inr: "\<exists>x p'. or_default def m p = (Inr x, p')"
  by (cases "m p") (simp add: or_default_def act_simps)

section \<open>Frame and freshness\<close>

lemma cache_expired_same: "cache_expired since p = (r, p') \<Longrightarrow> fst p' = fst p \<and> w_db (snd p') = w_db (snd p)"
  by (auto simp: cache_expired_def bindE_def ret_def in_world_def Now_def split: prod.splits if_splits)

text \<open>A cache that is young enough answers, whatever is in the database.\<close>

definition cached :: "'x ConfigReader_scheme \<Rightarrow> string \<Rightarrow> string" where
  "cached c key = (case cr_cache c key of Some v \<Rightarrow> v | None \<Rightarrow> [])"

definition configured :: "database \<Rightarrow> TenantID \<Rightarrow> string \<Rightarrow> string" where
  "configured d t key = (case map_of (rev (config_rows d t)) key of Some v \<Rightarrow> v | None \<Rightarrow> [])"

text \<open>The cache was at most 30 seconds old at one of the times the clock showed during a run.\<close>

definition young_during :: "go_time \<Rightarrow> world \<Rightarrow> world \<Rightarrow> bool" where
  "young_during since w w' \<longleftrightarrow> since \<noteq> 0
     \<and> (\<exists>n. w_nclk w \<le> n \<and> n < w_nclk w' \<and> time_Sub (env_clk (w_env w) n) since \<le> cacheTTL)"

lemma cache_expired_Inr:
  "cache_expired since p = (Inr b, p') \<longleftrightarrow>
     (if since = 0 then b \<and> p' = p
      else b = (cacheTTL < time_Sub (env_clk (w_env (snd p)) (w_nclk (snd p))) since)
        \<and> p' = (fst p, (snd p)\<lparr>w_nclk := Suc (w_nclk (snd p))\<rparr>))"
  by (cases p) (auto simp: cache_expired_def time_IsZero_def act_inv)

lemma reload_Inr:
  "bindE (in_world (query (\<lambda>now d. Inr (config_rows d t)))) (\<lambda>rows.
     bindE (in_world Now) (\<lambda>now.
     modify_own (\<lambda>c. c\<lparr>cr_cache := map_of (rev rows), cr_cacheAt := now\<rparr>))) p = (Inr u, p') \<Longrightarrow>
   cr_cache (fst p') = map_of (rev (config_rows (w_db (snd p)) t))"
  by (auto simp: bindE_Inr in_world_Inr query_Inr Now_Inr modify_own_Inr)

lemma refresh_cases:
  assumes "refreshIfStale t (c, w) = (Inr (), p)"
  shows "fst p = c \<and> young_during (cr_cacheAt c) w (snd p) \<or> cr_cache (fst p) = map_of (rev (config_rows (w_db w) t))"
proof -
  from assms obtain b p1 where e: "cache_expired (cr_cacheAt c) (c, w) = (Inr b, p1)"
    and k: "(if \<not> b then ret ()
      else bindE (cache_expired (cr_cacheAt c)) (\<lambda>still.
        if \<not> still then ret ()
        else bindE (in_world (query (\<lambda>now d. Inr (config_rows d t)))) (\<lambda>rows.
          bindE (in_world Now) (\<lambda>now.
          modify_own (\<lambda>c. c\<lparr>cr_cache := map_of (rev rows), cr_cacheAt := now\<rparr>))))) p1 = (Inr (), p)"
    by (auto simp: refreshIfStale_def bindE_Inr get_own_Inr)
  show ?thesis
  proof (cases b)
    case False
    with k have "p = p1" by (simp add: ret_Inr)
    with e False show ?thesis
      by (auto simp: cache_expired_Inr young_during_def not_less intro!: exI [of _ "w_nclk w"] split: if_splits)
  next
    case True
    with k obtain b2 p2 where e2: "cache_expired (cr_cacheAt c) p1 = (Inr b2, p2)"
      and k2: "(if \<not> b2 then ret ()
        else bindE (in_world (query (\<lambda>now d. Inr (config_rows d t)))) (\<lambda>rows.
          bindE (in_world Now) (\<lambda>now.
          modify_own (\<lambda>c. c\<lparr>cr_cache := map_of (rev rows), cr_cacheAt := now\<rparr>)))) p2 = (Inr (), p)"
      by (auto simp: bindE_Inr)
    have d: "w_db (snd p2) = w_db w" using cache_expired_same [OF e] cache_expired_same [OF e2] by simp
    show ?thesis
    proof (cases b2)
      case True
      with reload_Inr [of t p2 "()" p] k2 d show ?thesis by simp
    next
      case False
      with k2 have "p = p2" by (simp add: ret_Inr)
      with e e2 False show ?thesis
        by (auto simp: cache_expired_Inr young_during_def not_less intro!: exI [of _ "Suc (w_nclk w)"] split: if_splits)
    qed
  qed
qed

text \<open>
  A value \<open>Get\<close> returns is the one the database holds for the tenant at the call, or
  the one cached, and then the cache was filled at most 30 seconds before a moment of the call.
\<close>

theorem config_Get_fresh:
  assumes "config_Get t key (c, w) = (Inr v, (c', w'))"
  shows "v = configured (w_db w) t key \<or> v = cached c key \<and> young_during (cr_cacheAt c) w w'"
proof -
  from assms obtain p where r: "refreshIfStale t (c, w) = (Inr (), p)"
    and v: "v = cached (fst p) key" "(c', w') = p"
    by (auto simp: config_Get_def act_inv cached_def)
  from refresh_cases [OF r] consider "fst p = c" "young_during (cr_cacheAt c) w (snd p)"
    | "cr_cache (fst p) = map_of (rev (config_rows (w_db w) t))" by blast
  then show ?thesis
  proof cases
    case 1
    with v show ?thesis by auto
  next
    case 2
    with v show ?thesis by (simp add: cached_def configured_def)
  qed
qed

context db_relation
begin

lemma own_cache_expired: "own.keeps (cache_expired since)"
  unfolding cache_expired_def by (intro own_intros keeps_Now)

lemma own_refresh: "own.keeps (refreshIfStale t)"
  unfolding refreshIfStale_def by (intro own_intros own_cache_expired keeps_query keeps_Now)

lemma own_config_Get: "own.keeps (config_Get t k)"
  unfolding config_Get_def by (intro own_intros own_refresh)

lemma own_settings:
  "own.keeps (GetDurationSeconds t k d)" "own.keeps (GetFloat t k x)" "own.keeps (GetBool t k b)"
  unfolding GetDurationSeconds_def GetFloat_def GetBool_def by (intro own_intros own_config_Get)+

lemma own_or_default: "own.keeps m \<Longrightarrow> own.keeps (or_default d m)"
  unfolding or_default_def by (intro own_intros)

end

section \<open>One cache for all tenants\<close>

text \<open>
  The cache has no tenant: while it is young, a setting read for any tenant is the one
  that was loaded for whichever tenant filled it.
\<close>

theorem young_cache_serves_every_tenant:
  assumes "cr_cacheAt c \<noteq> 0"
    and "time_Sub (env_clk (w_env w) (w_nclk w)) (cr_cacheAt c) \<le> cacheTTL"
  shows "fst (config_Get t key (c, w)) = Inr (cached c key)"
proof -
  from assms have "cache_expired (cr_cacheAt c) (c, w) = (Inr False, (c, w\<lparr>w_nclk := Suc (w_nclk w)\<rparr>))"
    by (simp add: cache_expired_Inr)
  then show ?thesis
    by (simp add: config_Get_def refreshIfStale_def act_simps cached_def)
qed

definition demo_config_world :: world where
  "demo_config_world = demo_world\<lparr>w_db := demo_db\<lparr>db_company_config := [(''1'', ''k'', ''7''), (''2'', ''k'', ''9'')]\<rparr>\<rparr>"

definition demo_reader :: ConfigReader where
  "demo_reader = \<lparr>cr_cache = map_of [(''k'', ''7'')], cr_cacheAt = - (10 ^ 9)\<rparr>"

lemma demo_config_run: "fst (config_Get ''1'' ''k'' (empty_reader, demo_config_world)) = Inr ''7''"
  by code_simp

theorem config_Get_fresh_witness:
  "''7'' = configured (w_db demo_config_world) ''1'' ''k''
   \<or> ''7'' = cached empty_reader ''k'' \<and> (\<exists>w'. young_during (cr_cacheAt empty_reader) demo_config_world w')"
proof -
  obtain c' w' where "config_Get ''1'' ''k'' (empty_reader, demo_config_world) = (Inr ''7'', (c', w'))"
    using demo_config_run by (metis prod.collapse)
  from config_Get_fresh [OF this] show ?thesis by blast
qed

theorem young_cache_serves_every_tenant_witness:
  "fst (config_Get ''2'' ''k'' (demo_reader, demo_config_world)) = Inr ''7''"
proof -
  have "time_Sub (env_clk (w_env demo_config_world) (w_nclk demo_config_world)) (cr_cacheAt demo_reader) \<le> cacheTTL"
    by code_simp
  moreover have "cr_cacheAt demo_reader \<noteq> 0" by (simp add: demo_reader_def)
  moreover have "cached demo_reader ''k'' = ''7''" by (simp add: cached_def demo_reader_def)
  ultimately show ?thesis using young_cache_serves_every_tenant [of demo_reader demo_config_world "''2''" "''k''"] by simp
qed

end
