(* ===== verification/Dwell_Worker.thy ===== *)
theory Dwell_Worker
  imports Geofence_Repository Geofence_Config Trip_Application
begin

text \<open>
  The worker that feeds position fixes to the dwell engine and stores what comes out
  (\<open>internal/geofence/infrastructure/worker/dwell_worker.go\<close>), with the alerts it emits
  (\<open>internal/geofence/application/alerts.go\<close>).  The state of the worker beside the database is
  the cache of its settings and what it handed to the event bus.
\<close>

section \<open>State\<close>

record DwellWorker = ConfigReader +
  dwk_published :: "json list"

type_synonym 'a dwell_act = "(DwellWorker, 'a) own_act"

text \<open>What the worker was built with: a bus, the two use cases, the functions of \<open>math\<close>.\<close>

record wiring =
  wr_bus :: bool
  wr_reachPickup :: bool
  wr_startTransit :: bool
  wr_math :: math_funs

definition worker_tenant :: TenantID where "worker_tenant = ''1''"

definition ConfigDwellDebounceSeconds :: string where "ConfigDwellDebounceSeconds = ''geofence.dwell_debounce_seconds''"
definition ConfigBufferMetres :: string where "ConfigBufferMetres = ''geofence.buffer_metres''"
definition ConfigHysteresisMetres :: string where "ConfigHysteresisMetres = ''geofence.hysteresis_metres''"
definition ConfigPollIntervalSeconds :: string where "ConfigPollIntervalSeconds = ''geofence.poll_interval_seconds''"
definition ConfigAutoReachPickup :: string where "ConfigAutoReachPickup = ''geofence.auto_reach_pickup''"
definition ConfigAutoStartTransit :: string where "ConfigAutoStartTransit = ''geofence.auto_start_transit''"
definition ConfigDetentionFreeSeconds :: string where "ConfigDetentionFreeSeconds = ''geofence.detention_free_seconds''"
definition ConfigDetentionRatePerHour :: string where "ConfigDetentionRatePerHour = ''geofence.detention_rate_per_hour''"

definition DefaultDwellPollInterval :: int where "DefaultDwellPollInterval = 10 * 10 ^ 9"
definition DefaultDetentionFree :: int where "DefaultDetentionFree = 1800 * 10 ^ 9"
definition DefaultDetentionRate :: float64 where "DefaultDetentionRate = Fin 0"

definition mustDuration :: "string \<Rightarrow> int \<Rightarrow> int dwell_act" where
  "mustDuration key def = or_default def (GetDurationSeconds worker_tenant key def)"

definition mustFloat :: "string \<Rightarrow> float64 \<Rightarrow> float64 dwell_act" where
  "mustFloat key def = or_default def (GetFloat worker_tenant key def)"

section \<open>Alerts\<close>

definition SeverityFor :: "string \<Rightarrow> string" where
  "SeverityFor kind = (if kind = ''no_entry'' then ''high'' else if kind = ''restricted'' then ''medium'' else ''low'')"

text \<open>\<open>GeofenceAlertEvent\<close> as JSON.\<close>

definition zone_alert :: "Fix \<Rightarrow> ZoneEvent \<Rightarrow> json" where
  "zone_alert fix ev = JObject
     [(''tenant_id'', JString worker_tenant), (''vehicle_id'', JString (fx_VehicleID fix)),
      (''trip_id'', JString (str_or_empty (fx_TripID fix))), (''geofence_id'', JString (gf_ID (ze_Zone ev))),
      (''zone_kind'', JString (gf_Kind (ze_Zone ev))), (''alert_type'', JString ''zone_breach''),
      (''severity'', JString (SeverityFor (gf_Kind (ze_Zone ev)))), (''latitude'', JNumber (fx_Latitude fix)),
      (''longitude'', JNumber (fx_Longitude fix)), (''details'', JString (ze_Details ev)),
      (''timestamp'', JTime (ze_At ev))]"

definition EmitGeofenceAlert :: "string \<Rightarrow> json \<Rightarrow> unit wact" where
  "EmitGeofenceAlert vehicleID alert = OutboxWriter_SaveEvents vehicleID ''Vehicle''
     [OtherEvent (''transport-app/internal/geofence/application'', ''GeofenceAlertEvent'') alert]"

section \<open>Zones of a fix\<close>

text \<open>Status, source and destination of a trip, or empty strings.\<close>

definition trip_context_row :: "database \<Rightarrow> string \<Rightarrow> (string \<times> string \<times> string) result" where
  "trip_context_row d tripID =
     (case find (\<lambda>r. tw_id r = tripID \<and> tw_tenant_id r = worker_tenant) (db_trips d) of
        None \<Rightarrow> Inl ErrNoRows
      | Some r \<Rightarrow> (case find_route d (tw_route_id r) of
          None \<Rightarrow> Inr (tw_status r, [], [])
        | Some ro \<Rightarrow> Inr (tw_status r, ro_source ro, ro_destination ro)))"

definition tripContext :: "string \<Rightarrow> (string \<times> string \<times> string) wact" where
  "tripContext tripID =
     bindE (tryE (query (\<lambda>now d. trip_context_row d tripID))) (\<lambda>r.
     ret (case r of Inl _ \<Rightarrow> ([], [], []) | Inr x \<Rightarrow> x))"

definition zoneApplies :: "Geofence \<Rightarrow> string option \<Rightarrow> string \<Rightarrow> string \<Rightarrow> bool" where
  "zoneApplies z tripID routeSource routeDest =
     (if (gf_Kind z = KindPickup \<or> gf_Kind z = KindDrop) \<and> tripID = None then False
      else if gf_RouteName z = [] then True
      else (let route = ToLower (TrimSpace (gf_RouteName z)) in
        route = ToLower (TrimSpace routeSource) \<or> route = ToLower (TrimSpace routeDest)))"

definition zonesFor :: "string \<Rightarrow> string option \<Rightarrow> string \<Rightarrow> string \<Rightarrow> Geofence list wact" where
  "zonesFor vehicleID tripID routeSource routeDest =
     bindE (ListBoundForVehicle worker_tenant vehicleID) (\<lambda>bound.
     bindE (ListActiveByTenant worker_tenant) (\<lambda>active.
     let applies = (\<lambda>z. zoneApplies z tripID routeSource routeDest);
         zones = filter applies bound;
         seen = map gf_ID zones
     in ret (zones @ filter (\<lambda>z. gf_ID z \<notin> set seen \<and> applies z) active)))"

section \<open>Detention windows\<close>

definition billed_zone :: "Geofence \<Rightarrow> bool" where
  "billed_zone z \<longleftrightarrow> gf_Kind z = KindPickup \<or> gf_Kind z = KindDrop"

definition openDetention :: "Fix \<Rightarrow> ZoneEvent \<Rightarrow> unit wact" where
  "openDetention fix ev =
     (if \<not> billed_zone (ze_Zone ev) then ret ()
      else case fx_TripID fix of
        None \<Rightarrow> ret ()
      | Some tripID \<Rightarrow>
          bindE GenerateUUID (\<lambda>i. OpenDetention
            \<lparr>de_ID = i, de_TenantID = worker_tenant, de_TripID = tripID, de_VehicleID = Some (fx_VehicleID fix),
             de_GeofenceID = Some (gf_ID (ze_Zone ev)), de_ZoneKind = gf_Kind (ze_Zone ev), de_ZoneName = [],
             de_EnteredAt = ze_At ev, de_ExitedAt = None, de_DwellSeconds = 0, de_FreeSeconds = 0,
             de_BillableSeconds = 0, de_RatePerHour = Fin 0, de_Amount = Fin 0, de_Status = DetentionOpen\<rparr>))"

text \<open>\<open>int64(d.Seconds())\<close>: whole seconds and the fraction are converted separately.\<close>

definition duration_Seconds :: "int \<Rightarrow> float64" where
  "duration_Seconds d =
     fadd (float_of_int64 (sgn d * (\<bar>d\<bar> div 10 ^ 9))) (fdivc (float_of_int64 (sgn d * (\<bar>d\<bar> mod 10 ^ 9))) (10 ^ 9))"

definition whole_seconds :: "(float64 \<Rightarrow> int) \<Rightarrow> int \<Rightarrow> int" where
  "whole_seconds oor d = int64_of_float oor (duration_Seconds d)"

definition detention_amount :: "int \<Rightarrow> int \<Rightarrow> float64 \<Rightarrow> float64" where
  "detention_amount dwell free rate =
     (let amount = fdivc (math_Round (fmul (fmul (fdivc (float_of_int64 (wrap64 (dwell - free))) 3600) rate) (Fin 100))) 100
      in if flt amount (Fin 0) then Fin 0 else amount)"

definition close_window :: "ZoneEvent \<Rightarrow> Detention \<Rightarrow> unit dwell_act" where
  "close_window ev de =
     bindE (in_world getEnv) (\<lambda>e.
     let dwell = whole_seconds (env_oor e) (time_Sub (ze_At ev) (de_EnteredAt de));
         dwell = (if dwell < 0 then 0 else dwell)
     in bindE (mustDuration ConfigDetentionFreeSeconds DefaultDetentionFree) (\<lambda>freeDur.
        let free = whole_seconds (env_oor e) freeDur
        in bindE (mustFloat ConfigDetentionRatePerHour DefaultDetentionRate) (\<lambda>rate.
           in_world (CloseDetention (de_ID de) (ze_At ev) dwell free rate (detention_amount dwell free rate)))))"

definition closeDetention :: "Fix \<Rightarrow> ZoneEvent \<Rightarrow> unit dwell_act" where
  "closeDetention fix ev =
     (if \<not> billed_zone (ze_Zone ev) then ret ()
      else case fx_TripID fix of
        None \<Rightarrow> ret ()
      | Some tripID \<Rightarrow>
          bindE (in_world (FindOpenDetention worker_tenant tripID (gf_Kind (ze_Zone ev)))) (\<lambda>d.
          case d of
            None \<Rightarrow> ret ()
          | Some de \<Rightarrow> close_window ev de))"

section \<open>Storing a transition\<close>

definition strPtr :: "string \<Rightarrow> string option" where
  "strPtr s = (if s = [] then None else Some s)"

definition event_row :: "string \<Rightarrow> Fix \<Rightarrow> ZoneEvent \<Rightarrow> geofence_event_row" where
  "event_row i fix ev =
     \<lparr>gv_id = i, gv_tenant_id = worker_tenant, gv_vehicle_id = Some (fx_VehicleID fix), gv_trip_id = fx_TripID fix,
      gv_geofence_id = Some (gf_ID (ze_Zone ev)), gv_zone_kind = Some (gf_Kind (ze_Zone ev)),
      gv_event_type = ze_EventType ev, gv_alert_type = None, gv_severity = None,
      gv_latitude = Some (fx_Latitude fix), gv_longitude = Some (fx_Longitude fix),
      gv_details = strPtr (ze_Details ev), gv_created_at = ze_At ev\<rparr>"

definition publish_alert :: "wiring \<Rightarrow> json \<Rightarrow> unit dwell_act" where
  "publish_alert wr alert = (if wr_bus wr then modify_own (\<lambda>s. s\<lparr>dwk_published := dwk_published s @ [alert]\<rparr>) else ret ())"

definition event_effect :: "wiring \<Rightarrow> Fix \<Rightarrow> ZoneEvent \<Rightarrow> unit dwell_act" where
  "event_effect wr fix ev =
     (if ze_EventType ev = EventEntering then in_world (openDetention fix ev)
      else if ze_EventType ev = EventLeaving then closeDetention fix ev
      else if ze_EventType ev = EventBreach then
        seqE (in_world (EmitGeofenceAlert (fx_VehicleID fix) (zone_alert fix ev))) (publish_alert wr (zone_alert fix ev))
      else ret ())"

definition persist_event :: "wiring \<Rightarrow> Fix \<Rightarrow> ZoneEvent \<Rightarrow> unit dwell_act" where
  "persist_event wr fix ev =
     bindE (in_world GenerateUUID) (\<lambda>i.
     seqE (in_world (InsertEvent (event_row i fix ev))) (event_effect wr fix ev))"

definition persist :: "wiring \<Rightarrow> EngineState \<Rightarrow> Fix \<Rightarrow> ZoneEvent list \<Rightarrow> unit dwell_act" where
  "persist wr next fix zoneEvents =
     uow_own (seqE (in_world (EngineStateRepository_Upsert next)) (forE zoneEvents (persist_event wr fix)))"

section \<open>Automatic transitions\<close>

definition only_logged :: "unit wact \<Rightarrow> unit dwell_act" where
  "only_logged m = bindE (tryE (in_world m)) (\<lambda>_. ret ())"

definition auto_transition :: "wiring \<Rightarrow> bool \<Rightarrow> bool \<Rightarrow> string \<Rightarrow> string \<Rightarrow> ZoneEvent \<Rightarrow> unit dwell_act" where
  "auto_transition wr autoReach autoTransit tripID tripStatus ev =
     (if ze_EventType ev = EventEntering \<and> gf_Kind (ze_Zone ev) = KindPickup \<and> tripStatus = TripStarted
        \<and> autoReach \<and> wr_reachPickup wr
      then only_logged (ReachPickupUseCase_Execute tripID worker_tenant)
      else if ze_EventType ev = EventEntering \<and> gf_Kind (ze_Zone ev) = KindDrop \<and> tripStatus = TripReachedPickup
        \<and> autoTransit \<and> wr_startTransit wr
      then only_logged (StartTransitUseCase_Execute tripID worker_tenant)
      else if ze_EventType ev = EventLeaving \<and> gf_Kind (ze_Zone ev) = KindPickup \<and> tripStatus = TripReachedPickup
        \<and> autoTransit \<and> wr_startTransit wr
      then only_logged (StartTransitUseCase_Execute tripID worker_tenant)
      else ret ())"

definition applyTransitions :: "wiring \<Rightarrow> Fix \<Rightarrow> ZoneEvent list \<Rightarrow> string \<Rightarrow> unit dwell_act" where
  "applyTransitions wr fix zoneEvents tripStatus =
     (case fx_TripID fix of
        None \<Rightarrow> ret ()
      | Some tripID \<Rightarrow>
          bindE (or_default False (GetBool worker_tenant ConfigAutoReachPickup False)) (\<lambda>autoReach.
          bindE (or_default False (GetBool worker_tenant ConfigAutoStartTransit False)) (\<lambda>autoTransit.
          forE zoneEvents (auto_transition wr autoReach autoTransit tripID tripStatus))))"

section \<open>One sweep\<close>

text \<open>
  Following a nil pointer ends the process; every other error of a fix is logged and the sweep
  goes on with the next one.  The result says whether the fix counts as handled.
\<close>

definition nil_dereference :: goerr where
  "nil_dereference = ErrDriver ''runtime error: invalid memory address or nil pointer dereference''"

definition load_state :: "string \<Rightarrow> EngineState option wact" where
  "load_state vehicleID =
     bindE (tryE (GetByVehicle worker_tenant vehicleID)) (\<lambda>r.
     ret (case r of
         Inr s \<Rightarrow> Some s
       | Inl e \<Rightarrow> if e = ErrNoEngineState then Some (first_state vehicleID worker_tenant) else None))"

definition run_fix :: "wiring \<Rightarrow> EngineConfig \<Rightarrow> Fix \<Rightarrow> string \<Rightarrow> Geofence list \<Rightarrow> EngineState \<Rightarrow> bool dwell_act" where
  "run_fix wr cfg fix tripStatus zones current =
     (case Evaluate (wr_math wr) cfg current fix zones of
        None \<Rightarrow> raise nil_dereference
      | Some (next, zoneEvents) \<Rightarrow>
          bindE (tryE (persist wr next fix zoneEvents)) (\<lambda>r.
          case r of
            Inl _ \<Rightarrow> ret False
          | Inr _ \<Rightarrow> seqE (applyTransitions wr fix zoneEvents tripStatus) (ret True)))"

definition process_fix :: "wiring \<Rightarrow> EngineConfig \<Rightarrow> Fix \<Rightarrow> bool dwell_act" where
  "process_fix wr cfg fix =
     bindE (in_world (case fx_TripID fix of None \<Rightarrow> ret ([], [], []) | Some i \<Rightarrow> tripContext i)) (\<lambda>(tripStatus, source, dest).
     bindE (tryE (in_world (zonesFor (fx_VehicleID fix) (fx_TripID fix) source dest))) (\<lambda>zr.
     case zr of
       Inl _ \<Rightarrow> ret False
     | Inr zones \<Rightarrow>
         bindE (in_world (load_state (fx_VehicleID fix))) (\<lambda>st.
         case st of
           None \<Rightarrow> ret False
         | Some current \<Rightarrow> run_fix wr cfg fix tripStatus zones current)))"

text \<open>\<open>alive n\<close>: the context is not done when the sweep looks for the \<open>n\<close>-th time.\<close>

definition context_canceled :: goerr where "context_canceled = ErrorString ''context canceled''"

primrec sweep :: "wiring \<Rightarrow> EngineConfig \<Rightarrow> (nat \<Rightarrow> bool) \<Rightarrow> Fix list \<Rightarrow> nat \<Rightarrow> int \<Rightarrow> (int \<times> goerr option) dwell_act" where
  "sweep wr cfg alive [] n handled = ret (handled, None)"
| "sweep wr cfg alive (f # fs) n handled =
     (if \<not> alive n then ret (handled, Some context_canceled)
      else bindE (process_fix wr cfg f) (\<lambda>ok.
        sweep wr cfg alive fs (Suc n) (if ok then handled + 1 else handled)))"

definition engine_settings :: "EngineConfig dwell_act" where
  "engine_settings =
     bindE (mustDuration ConfigDwellDebounceSeconds DefaultDwellDebounce) (\<lambda>debounce.
     bindE (mustFloat ConfigBufferMetres DefaultBufferMetres) (\<lambda>buffer.
     bindE (mustFloat ConfigHysteresisMetres DefaultHysteresisMetres) (\<lambda>hysteresis.
     ret \<lparr>ec_Debounce = debounce, ec_BufferMetres = buffer, ec_HysteresisMetres = hysteresis\<rparr>)))"

definition maxFixesPerSweep :: int where "maxFixesPerSweep = 500"

definition Tick :: "wiring \<Rightarrow> (nat \<Rightarrow> bool) \<Rightarrow> (int \<times> goerr option) dwell_act" where
  "Tick wr alive =
     bindE (tryE (in_world (LoadNewFixes maxFixesPerSweep))) (\<lambda>r.
     case r of
       Inl e \<Rightarrow> ret (0, Some e)
     | Inr fixes \<Rightarrow> bindE engine_settings (\<lambda>cfg. sweep wr cfg alive fixes 0 0))"

text \<open>
  The loop of \<open>Run\<close>: the interval is read once, then the worker sweeps, first at once and then
  at every tick until the context is done.
\<close>

primrec Run_ticks :: "wiring \<Rightarrow> (nat \<Rightarrow> bool) list \<Rightarrow> unit dwell_act" where
  "Run_ticks wr [] = ret ()"
| "Run_ticks wr (alive # rest) = bindE (Tick wr alive) (\<lambda>_. Run_ticks wr rest)"

definition Run :: "wiring \<Rightarrow> (nat \<Rightarrow> bool) list \<Rightarrow> unit dwell_act" where
  "Run wr ticks =
     seqE (or_default DefaultDwellPollInterval (GetDurationSeconds worker_tenant ConfigPollIntervalSeconds DefaultDwellPollInterval))
       (Run_ticks wr ticks)"

end
