(* ===== verification/Dwell_Safety.thy ===== *)
theory Dwell_Safety
  imports Dwell_Worker
begin

text \<open>
  What the dwell worker keeps over any number of sweeps, whatever fails in between: engine states
  the engine can read, windows with sensible numbers, and positions that are not consumed twice.
\<close>

lemma detention_amount_nonneg: "\<not> flt (detention_amount dwell free rate) (Fin 0)"
  by (simp add: detention_amount_def Let_def)

section \<open>Relations kept by the parts of a sweep\<close>

text \<open>
  A relation between database contents that only looks at engine states, detentions and zone
  events: what writes other tables keeps it.
\<close>

definition same_dwell :: "database \<Rightarrow> database \<Rightarrow> bool" where
  "same_dwell d d' \<longleftrightarrow> db_engine_state d' = db_engine_state d \<and> db_trip_detentions d' = db_trip_detentions d
     \<and> db_geofence_events d' = db_geofence_events d"

locale other_tables = db_relation +
  assumes frame: "same_dwell d d' \<Longrightarrow> Q d d'"
begin

lemma keeps_stmt_frame: "(\<And>fk t d x d'. q fk t d = Inr (x, d') \<Longrightarrow> same_dwell d d') \<Longrightarrow> keeps (stmt q)"
  by (rule keeps_stmt) (rule frame)

lemma keeps_SaveEvents: "keeps (OutboxWriter_SaveEvents i ty evs)"
  unfolding OutboxWriter_SaveEvents_def save_event_def
  by (intro db_intros keeps_stmt_frame) (auto simp: CreateOutboxEvent_Inr same_dwell_def)

lemma keeps_logAudit: "keeps (logAudit tb ac i ov nv)"
proof (rule keepsI)
  fix w
  from logAudit_effect [of tb ac i ov nv w] obtain rows
    where "w_db (snd (logAudit tb ac i ov nv w)) = (w_db w)\<lparr>db_audit_logs := db_audit_logs (w_db w) @ rows\<rparr>"
    by (metis prod.collapse)
  then show "Q (w_db w) (w_db (snd (logAudit tb ac i ov nv w)))" by (intro frame) (simp add: same_dwell_def)
qed

lemma keeps_noRowsAs: "keeps m \<Longrightarrow> keeps (noRowsAs s m)"
  unfolding noRowsAs_def by (intro db_intros)

lemma keeps_wrap_err: "keeps m \<Longrightarrow> keeps (wrap_err f m)"
  unfolding wrap_err_def by (intro db_intros)

lemma keeps_TripRepository_Save: "keeps (TripRepository_Save t)"
  unfolding TripRepository_Save_def TripRepository_Exists_def Let_def
  by (intro db_intros keeps_noRowsAs keeps_SaveEvents keeps_stmt_frame)
    (auto simp: same_dwell_def UpdateTrip_def CreateTrip_def Let_def split: if_splits option.splits)

lemma keeps_TripRepository_Find: "keeps (TripRepository_Find i t)"
  unfolding TripRepository_Find_def by (intro db_intros keeps_noRowsAs)

lemma keeps_transition: "keeps (guarded_trip_use_case i t (\<lambda>_. ret ()) f (audit_trip ac))"
  unfolding guarded_trip_use_case_def audit_trip_def
  by (intro db_intros keeps_TripRepository_Find keeps_TripRepository_Save keeps_logAudit)

lemma own_transitions: "own.keeps (auto_transition wr a b i st ev)"
  unfolding auto_transition_def only_logged_def ReachPickupUseCase_Execute_def StartTransitUseCase_Execute_def
  by (intro own_intros keeps_transition)

lemma own_applyTransitions: "own.keeps (applyTransitions wr f evs st)"
  unfolding applyTransitions_def by (intro own_intros own_or_default own_settings own_transitions)

lemma own_must: "own.keeps (mustDuration k def)" "own.keeps (mustFloat k x)"
  unfolding mustDuration_def mustFloat_def by (intro own_or_default own_settings)+

end

text \<open>One that opening and closing a window keep too.\<close>

locale dwell_frame = other_tables +
  assumes opens: "open_detention de fk now d = Inr (u, d') \<Longrightarrow> Q d d'"
    and closes: "0 \<le> dwell \<Longrightarrow> \<not> flt amount (Fin 0) \<Longrightarrow>
      close_detention i exited dwell free rate amount fk now d = Inr (u, d') \<Longrightarrow> Q d d'"
begin

lemma keeps_alert: "keeps (EmitGeofenceAlert v j)"
  unfolding EmitGeofenceAlert_def by (rule keeps_SaveEvents)

lemma keeps_openDetention: "keeps (openDetention f ev)"
  unfolding openDetention_def OpenDetention_def
  by (intro db_intros keeps_wrap_err keeps_stmt) (rule opens)

lemma keeps_CloseDetention:
  "0 \<le> dwell \<Longrightarrow> \<not> flt amount (Fin 0) \<Longrightarrow> keeps (CloseDetention i exited dwell free rate amount)"
  unfolding CloseDetention_def by (intro keeps_wrap_err keeps_stmt) (rule closes)

lemma own_closeDetention: "own.keeps (closeDetention f ev)"
  unfolding closeDetention_def close_window_def Let_def FindOpenDetention_def
  by (intro own_intros own_must db_intros keeps_wrap_err keeps_CloseDetention detention_amount_nonneg) simp

lemma own_publish: "own.keeps (publish_alert wr j)"
  unfolding publish_alert_def by (intro own_intros)

lemma own_event_effect: "own.keeps (event_effect wr f ev)"
  unfolding event_effect_def
  by (intro own_intros keeps_openDetention own_closeDetention keeps_alert own_publish)

end

text \<open>One that logging a zone event keeps as well is kept by a whole fix, if the new state keeps it.\<close>

locale dwell_relation = dwell_frame +
  assumes logs: "insert_event e fk now d = Inr (u, d') \<Longrightarrow> Q d d'"
begin

lemma keeps_InsertEvent: "keeps (InsertEvent e)"
  unfolding InsertEvent_def by (intro keeps_wrap_err keeps_stmt) (rule logs)

lemma own_persist_event: "own.keeps (persist_event wr f ev)"
  unfolding persist_event_def
  by (intro own_intros db_intros keeps_InsertEvent own_event_effect)

lemma own_persist:
  assumes "\<And>fk now d u d'. upsert_state next fk now d = Inr (u, d') \<Longrightarrow> Q d d'"
  shows "own.keeps (persist wr next f evs)"
  unfolding persist_def EngineStateRepository_Upsert_def
  by (intro own_intros keeps_wrap_err keeps_stmt own_persist_event) (rule assms)

lemma own_run_fix:
  assumes "\<And>next evs fk now d u d'. Evaluate (wr_math wr) cfg current f zones = Some (next, evs) \<Longrightarrow>
    upsert_state next fk now d = Inr (u, d') \<Longrightarrow> Q d d'"
  shows "own.keeps (run_fix wr cfg f st zones current)"
proof (cases "Evaluate (wr_math wr) cfg current f zones")
  case None
  then show ?thesis by (simp add: run_fix_def own.keeps_raise)
next
  case (Some x)
  obtain nxt evs where x: "x = (nxt, evs)" by fastforce
  with Some assms have "own.keeps (persist wr nxt f evs)" by (intro own_persist) blast
  with Some x show ?thesis
    by (simp add: run_fix_def) (intro own_intros own_applyTransitions)
qed

end

text \<open>One that any new engine state keeps is kept by whole sweeps.\<close>

locale dwell_invariant = dwell_relation +
  assumes ups: "upsert_state s fk now d = Inr (u, d') \<Longrightarrow> Q d d'"
begin

lemma own_process_fix: "own.keeps (process_fix wr cfg f)"
proof -
  have "keeps (case fx_TripID f of None \<Rightarrow> ret ([], [], []) | Some i \<Rightarrow> tripContext i)"
    unfolding tripContext_def by (intro db_intros)
  moreover have "keeps (zonesFor v t a b)" for v t a b
    unfolding zonesFor_def ListBoundForVehicle_def ListActiveByTenant_def Let_def
    by (intro db_intros keeps_wrap_err)
  moreover have "keeps (load_state v)" for v
    unfolding load_state_def GetByVehicle_def by (intro db_intros)
  moreover have "own.keeps (run_fix wr cfg f st zones cur)" for st zones cur by (rule own_run_fix) (rule ups)
  ultimately show ?thesis
    unfolding process_fix_def by (intro own.keeps_bind) (auto intro!: own_intros split: prod.split)
qed

lemma own_sweep: "own.keeps (sweep wr cfg alive fs n h)"
  by (induction fs arbitrary: n h) (auto intro!: own_intros own_process_fix)

lemma own_Tick: "own.keeps (Tick wr alive)"
  unfolding Tick_def engine_settings_def LoadNewFixes_def
  by (intro own_intros db_intros keeps_wrap_err own_must own_sweep)

lemma own_Run: "own.keeps (Run wr ticks)"
proof -
  have "own.keeps (Run_ticks wr ticks)" by (induction ticks) (auto intro!: own_intros own_Tick)
  then show ?thesis unfolding Run_def by (intro own_intros own_or_default own_settings)
qed

end

text \<open>What a sweep only reads.\<close>

lemma dbeq_zones: "dbeq.keeps (zonesFor v t s d)"
  unfolding zonesFor_def ListBoundForVehicle_def ListActiveByTenant_def wrap_err_def Let_def
  by (intro dbeq.db_intros)

lemma dbeq_tripContext: "dbeq.keeps (tripContext i)"
  unfolding tripContext_def by (intro dbeq.db_intros)

lemma dbeq_load_state: "dbeq.keeps (load_state v)"
  unfolding load_state_def GetByVehicle_def by (intro dbeq.db_intros)

lemma dbeq_fixes: "dbeq.keeps (LoadNewFixes n)"
  unfolding LoadNewFixes_def wrap_err_def by (intro dbeq.db_intros)

lemma dbeq_settings: "dbeq.own.keeps engine_settings"
  unfolding engine_settings_def mustDuration_def mustFloat_def
  by (intro dbeq.own_intros dbeq.own_or_default dbeq.own_settings)

lemma in_world_db: "dbeq.keeps m \<Longrightarrow> in_world m (s, w) = (r, (s', w')) \<Longrightarrow> s' = s \<and> w_db w' = w_db w"
  by (auto simp: in_world_def dest: dbeq.keepsD split: prod.splits)

lemma GetByVehicle_found:
  assumes "GetByVehicle t v w = (Inr s, w')"
  shows "s \<in> set (db_engine_state (w_db w)) \<and> es_VehicleID s = v \<and> es_TenantID s = t"
proof -
  let ?q = "query (\<lambda>now d. one_row (find (\<lambda>s. es_VehicleID s = v \<and> es_TenantID s = t) (db_engine_state d)))"
  obtain r w1 where q: "?q w = (r, w1)" by fastforce
  with assms have "r = Inr s" by (cases r) (simp_all add: GetByVehicle_def act_simps)
  with q have "find (\<lambda>s. es_VehicleID s = v \<and> es_TenantID s = t) (db_engine_state (w_db w)) = Some s"
    by (auto simp: query_Inr one_row_def split: option.splits)
  from find_SomeD [OF this] show ?thesis by simp
qed

lemma tripContext_run: "\<exists>a b c w1. tripContext i w = (Inr (a, b, c), w1)"
  by (cases "query (\<lambda>now d. trip_context_row d i) w") (auto simp: tripContext_def act_simps split: sum.split)

lemma load_state_run:
  obtains st w' where "load_state v w = (Inr st, w')" and "w_db w' = w_db w"
    and "\<And>s. st = Some s \<Longrightarrow> s = first_state v worker_tenant
      \<or> s \<in> set (db_engine_state (w_db w)) \<and> es_VehicleID s = v \<and> es_TenantID s = worker_tenant"
proof -
  obtain r w' where r: "GetByVehicle worker_tenant v w = (r, w')" by fastforce
  then have l: "load_state v w = (Inr (case r of Inr s \<Rightarrow> Some s
      | Inl e \<Rightarrow> if e = ErrNoEngineState then Some (first_state v worker_tenant) else None), w')"
    by (simp add: load_state_def bindE_def tryE_def ret_def)
  have "w_db w' = w_db w" using dbeq.keepsD [OF dbeq_load_state l] by simp
  moreover have "s \<in> set (db_engine_state (w_db w)) \<and> es_VehicleID s = v \<and> es_TenantID s = worker_tenant" if "r = Inr s" for s
    using GetByVehicle_found [of _ _ w s w'] r that by blast
  ultimately show thesis by (intro that [OF l]) (auto split: sum.splits if_splits)
qed

text \<open>A fix ends before its evaluation with nothing stored, or with the run on the state loaded.\<close>

lemma process_fix_cases:
  obtains w1 where "process_fix wr cfg f (s, w) = (Inr False, (s, w1))" and "w_db w1 = w_db w"
  | st zones cur w1 where "process_fix wr cfg f (s, w) = run_fix wr cfg f st zones cur (s, w1)" and "w_db w1 = w_db w"
    and "cur = first_state (fx_VehicleID f) worker_tenant
      \<or> cur \<in> set (db_engine_state (w_db w)) \<and> es_VehicleID cur = fx_VehicleID f \<and> es_TenantID cur = worker_tenant"
proof -
  let ?tc = "case fx_TripID f of None \<Rightarrow> ret ([], [], []) | Some i \<Rightarrow> tripContext i"
  have "\<exists>a b c w1. ?tc w = (Inr (a, b, c), w1) \<and> w_db w1 = w_db w"
  proof (cases "fx_TripID f")
    case (Some i)
    obtain a b c w1 where t: "tripContext i w = (Inr (a, b, c), w1)" using tripContext_run by blast
    with dbeq.keepsD [OF dbeq_tripContext t] Some show ?thesis by simp
  qed (simp add: ret_def)
  then obtain ts src dst w1 where tc: "in_world ?tc (s, w) = (Inr (ts, src, dst), (s, w1))" "w_db w1 = w_db w"
    by (auto simp: in_world_def)
  obtain zr w2 where z: "zonesFor (fx_VehicleID f) (fx_TripID f) src dst w1 = (zr, w2)" by fastforce
  have d2: "w_db w2 = w_db w" using dbeq.keepsD [OF dbeq_zones z] tc(2) by simp
  show thesis
  proof (cases zr)
    case (Inl e)
    with tc z d2 show thesis
      by (intro that(1) [of w2]) (simp_all add: process_fix_def bindE_def tryE_def ret_def in_world_apply)
  next
    case (Inr zones)
    obtain st w3 where l: "load_state (fx_VehicleID f) w2 = (Inr st, w3)" "w_db w3 = w_db w2"
      and st: "\<And>x. st = Some x \<Longrightarrow> x = first_state (fx_VehicleID f) worker_tenant
        \<or> x \<in> set (db_engine_state (w_db w2)) \<and> es_VehicleID x = fx_VehicleID f \<and> es_TenantID x = worker_tenant"
      using load_state_run [of "fx_VehicleID f" w2] by metis
    have run: "process_fix wr cfg f (s, w) = (case st of None \<Rightarrow> ret False | Some cur \<Rightarrow> run_fix wr cfg f ts zones cur) (s, w3)"
      using tc z Inr l by (simp add: process_fix_def bindE_def tryE_def in_world_apply)
    show thesis
    proof (cases st)
      case None
      with run l d2 show thesis by (intro that(1) [of w3]) (simp_all add: ret_def)
    next
      case (Some cur)
      with run l d2 st show thesis by (intro that(2) [of ts zones cur w3]) simp_all
    qed
  qed
qed

text \<open>Unless the engine panics, a fix ends with a verdict, and the transitions never fail.\<close>

lemma forE_always: "(\<And>x p. \<exists>p'. g x p = (Inr (), p')) \<Longrightarrow> \<exists>p'. forE xs g p = (Inr (), p')"
  by (induction xs arbitrary: p) (simp_all add: ret_def seqE_apply, metis (no_types, lifting) case_prod_conv old.sum.simps(6))

lemma logged_run: "\<exists>p'. only_logged m p = (Inr (), p')"
  by (simp add: only_logged_def bindE_def tryE_def ret_def split: prod.split)

lemma auto_transition_run: "\<exists>p'. auto_transition wr a b i st ev p = (Inr (), p')"
  unfolding auto_transition_def using logged_run by (simp add: ret_def)

lemma applyTransitions_run: "\<exists>p'. applyTransitions wr f evs st p = (Inr (), p')"
proof (cases "fx_TripID f")
  case (Some i)
  obtain a p1 where a: "or_default False (GetBool worker_tenant ConfigAutoReachPickup False) p = (Inr a, p1)"
    using or_default_Inr by metis
  obtain b p2 where b: "or_default False (GetBool worker_tenant ConfigAutoStartTransit False) p1 = (Inr b, p2)"
    using or_default_Inr by metis
  have "\<exists>p'. forE evs (auto_transition wr a b i st) p2 = (Inr (), p')"
    by (rule forE_always) (rule auto_transition_run)
  with Some a b show ?thesis by (simp add: applyTransitions_def bindE_apply)
qed (simp add: applyTransitions_def ret_def)

section \<open>Engine states stay well formed\<close>

definition wf_states :: "database \<Rightarrow> bool" where
  "wf_states d \<longleftrightarrow> (\<forall>s\<in>set (db_engine_state d). wf_engine s)"

lemma open_detention_states: "open_detention de fk now d = Inr (u, d') \<Longrightarrow> db_engine_state d' = db_engine_state d"
  by (auto simp: open_detention_def split: if_splits)

lemma close_detention_states: "close_detention i x dw fr ra am fk now d = Inr (u, d') \<Longrightarrow> db_engine_state d' = db_engine_state d"
  by (auto simp: close_detention_def Let_def)

lemma insert_event_effect:
  "insert_event e fk now d = Inr (u, d') \<Longrightarrow> d' = d\<lparr>db_geofence_events := db_geofence_events d @ [e]\<rparr>"
  by (auto simp: insert_event_def split: if_splits)

lemma wf_states_cong: "db_engine_state d' = db_engine_state d \<Longrightarrow> wf_states d' = wf_states d"
  by (simp add: wf_states_def)

interpretation wfs: dwell_relation "\<lambda>d d'. wf_states d \<longrightarrow> wf_states d'"
  by unfold_locales
    (auto simp: same_dwell_def wf_states_def dest!: open_detention_states close_detention_states insert_event_effect)

lemma wf_engine_cong: "wf_engine (s\<lparr>es_TenantID := t, es_UpdatedAt := u\<rparr>) = wf_engine s"
  "wf_engine (s\<lparr>es_UpdatedAt := u\<rparr>) = wf_engine s" "wf_engine (s\<lparr>es_TenantID := t\<rparr>) = wf_engine s"
  by (simp_all add: wf_engine_def)

lemma upsert_wf: "wf_engine s \<Longrightarrow> upsert_state s fk now d = Inr (u, d') \<Longrightarrow> wf_states d \<longrightarrow> wf_states d'"
  by (auto simp: upsert_state_def wf_states_def set_update_where wf_engine_cong split: if_splits)

lemma run_fix_wf:
  assumes "wf_engine cur" and "wf_states (w_db w)"
  shows "\<exists>ok s' w'. run_fix wr cfg f st zones cur (s, w) = (Inr ok, (s', w')) \<and> wf_states (w_db w')"
proof -
  from Evaluate_wf [OF assms(1), of "wr_math wr" cfg f zones] obtain nxt evs
    where e: "Evaluate (wr_math wr) cfg cur f zones = Some (nxt, evs)" "wf_engine nxt" by blast
  obtain r p1 where p: "persist wr nxt f evs (s, w) = (r, p1)" by (metis prod.collapse)
  obtain p2 where a: "applyTransitions wr f evs st p1 = (Inr (), p2)" using applyTransitions_run by blast
  have "\<exists>ok s' w'. run_fix wr cfg f st zones cur (s, w) = (Inr ok, (s', w'))"
    using e p a by (cases r; cases p1; cases p2) (simp_all add: run_fix_def act_simps ex_bool_eq)
  then obtain ok s' w' where r: "run_fix wr cfg f st zones cur (s, w) = (Inr ok, (s', w'))" by blast
  have "wfs.own.keeps (run_fix wr cfg f st zones cur)"
    using e upsert_wf [OF e(2)] by (intro wfs.own_run_fix) auto
  from wfs.own.keepsD [OF this r] assms(2) r show ?thesis by (auto simp: own_rel_def)
qed

lemma process_fix_wf:
  assumes "wf_states (w_db w)"
  shows "\<exists>ok s' w'. process_fix wr cfg f (s, w) = (Inr ok, (s', w')) \<and> wf_states (w_db w')"
proof (cases rule: process_fix_cases [of wr cfg f s w])
  case (1 w1)
  with assms show ?thesis by (intro exI [of _ False]) simp
next
  case (2 st zones cur w1)
  have "wf_engine cur" using 2(3) assms wf_first_state by (auto simp: wf_states_def)
  from run_fix_wf [OF this, of w1 wr cfg f st zones s] 2 assms show ?thesis by simp
qed

lemma sweep_wf:
  "wf_states (w_db w) \<Longrightarrow> \<exists>r s' w'. sweep wr cfg alive fs n h (s, w) = (Inr r, (s', w')) \<and> wf_states (w_db w')"
proof (induction fs arbitrary: n h s w)
  case (Cons f fs)
  from process_fix_wf [OF Cons.prems, of wr cfg f s] obtain ok s1 w1
    where p: "process_fix wr cfg f (s, w) = (Inr ok, (s1, w1))" "wf_states (w_db w1)" by blast
  from Cons.IH [OF p(2)] p(1) Cons.prems show ?case by (simp add: ret_def bindE_def)
qed (simp add: ret_def)

lemma engine_settings_run: "\<exists>cfg p'. engine_settings p = (Inr cfg, p')"
proof -
  have m: "\<exists>x p'. mustDuration k d p = (Inr x, p')" "\<exists>x p'. mustFloat k y p = (Inr x, p')" for k d y p
    unfolding mustDuration_def mustFloat_def using or_default_Inr by metis+
  obtain a p1 where a: "mustDuration ConfigDwellDebounceSeconds DefaultDwellDebounce p = (Inr a, p1)" using m(1) by blast
  obtain b p2 where b: "mustFloat ConfigBufferMetres DefaultBufferMetres p1 = (Inr b, p2)" using m(2) by blast
  obtain c p3 where c: "mustFloat ConfigHysteresisMetres DefaultHysteresisMetres p2 = (Inr c, p3)" using m(2) by blast
  from a b c show ?thesis by (simp add: engine_settings_def bindE_def ret_def)
qed

lemma Tick_wf:
  assumes "wf_states (w_db w)"
  shows "\<exists>r s' w'. Tick wr alive (s, w) = (Inr r, (s', w')) \<and> wf_states (w_db w')"
proof -
  obtain r w1 where l: "LoadNewFixes maxFixesPerSweep w = (r, w1)" by fastforce
  have d1: "w_db w1 = w_db w" using dbeq.keepsD [OF dbeq_fixes l] by simp
  show ?thesis
  proof (cases r)
    case (Inl e)
    with l d1 assms show ?thesis by (simp add: Tick_def act_simps in_world_apply)
  next
    case (Inr fs)
    obtain cfg s2 w2 where c: "engine_settings (s, w1) = (Inr cfg, (s2, w2))" using engine_settings_run by (metis prod.collapse)
    have "w_db w2 = w_db w" using dbeq.own.keepsD [OF dbeq_settings c] d1 by (simp add: own_rel_def)
    with sweep_wf [of w2 wr cfg alive fs 0 0 s2] assms l Inr c show ?thesis
      by (simp add: Tick_def act_simps in_world_apply)
  qed
qed

lemma Run_ticks_wf:
  "wf_states (w_db w) \<Longrightarrow> \<exists>s' w'. Run_ticks wr ticks (s, w) = (Inr (), (s', w')) \<and> wf_states (w_db w')"
proof (induction ticks arbitrary: s w)
  case (Cons a ticks)
  from Tick_wf [OF Cons.prems, of wr a s] obtain r s1 w1 where "Tick wr a (s, w) = (Inr r, (s1, w1))" "wf_states (w_db w1)" by blast
  with Cons.IH [of w1 s1] show ?case by (simp add: bindE_def)
qed (simp add: ret_def)

lemma Run_start: "\<exists>s' w1. Run wr ticks (s, w) = Run_ticks wr ticks (s', w1) \<and> w_db w1 = w_db w"
proof -
  let ?m = "or_default DefaultDwellPollInterval (GetDurationSeconds worker_tenant ConfigPollIntervalSeconds DefaultDwellPollInterval)"
  obtain x s1 w1 where m: "?m (s, w) = (Inr x, (s1, w1))" using or_default_Inr by (metis prod.collapse)
  have "dbeq.own.keeps ?m" by (intro dbeq.own_or_default dbeq.own_settings)
  from dbeq.own.keepsD [OF this m] m show ?thesis by (auto simp: Run_def seqE_apply own_rel_def)
qed

text \<open>
  Property C20.  From a database whose engine states are well formed, as an empty table is, the worker never
  panics: whatever operations fail and whenever the context ends, every sweep returns, and the
  engine states it leaves are well formed again.
\<close>

theorem sweeps_never_panic:
  assumes "wf_states (w_db w)"
  shows "\<exists>s' w'. Run wr ticks (s, w) = (Inr (), (s', w')) \<and> wf_states (w_db w')"
proof -
  obtain s1 w1 where r: "Run wr ticks (s, w) = Run_ticks wr ticks (s1, w1)" "w_db w1 = w_db w" using Run_start by blast
  with Run_ticks_wf [of w1 wr ticks s1] assms show ?thesis by simp
qed

section \<open>A fix is stored completely or not at all\<close>

definition watermark :: "database \<Rightarrow> string \<rightharpoonup> go_time" where
  "watermark d v = map_option es_LastFixAt (find (\<lambda>s. es_VehicleID s = v) (db_engine_state d))"

lemma watermark_cong: "db_engine_state d' = db_engine_state d \<Longrightarrow> watermark d' = watermark d"
  by (simp add: watermark_def fun_eq_iff)

interpretation est: dwell_relation "\<lambda>d d'. db_engine_state d' = db_engine_state d"
  by unfold_locales
    (auto simp: same_dwell_def dest: open_detention_states close_detention_states insert_event_effect)

interpretation evl: dwell_frame "\<lambda>d d'. db_geofence_events d' = db_geofence_events d"
  by unfold_locales
    (auto simp: same_dwell_def open_detention_def close_detention_def Let_def split: if_splits)

lemma Evaluate_ids:
  "Evaluate m cfg cur f zones = Some (nxt, evs) \<Longrightarrow> es_VehicleID nxt = es_VehicleID cur \<and> es_LastFixAt nxt = fx_Timestamp f"
  unfolding Evaluate_def Let_def
  by (auto simp: eval_outside_def eval_entering_def eval_inside_def eval_leaving_def Let_def fix_noted_def
      split: option.splits if_splits)

lemma upsert_watermark:
  assumes "upsert_state s fk now d = Inr (u, d')"
  shows "watermark d' = (watermark d)(es_VehicleID s \<mapsto> es_LastFixAt s)"
proof (cases "es_VehicleID s \<in> es_VehicleID ` set (db_engine_state d)")
  case True
  with assms have d': "d' = d\<lparr>db_engine_state := update_where (\<lambda>r. es_VehicleID r = es_VehicleID s)
      (\<lambda>r. s\<lparr>es_TenantID := es_TenantID r, es_UpdatedAt := now\<rparr>) (db_engine_state d)\<rparr>"
    by (auto simp: upsert_state_def split: if_splits)
  have "find (\<lambda>r. es_VehicleID r = es_VehicleID s) (db_engine_state d) \<noteq> None"
    using True by (auto simp: find_None_iff)
  then obtain r0 where r0: "find (\<lambda>r. es_VehicleID r = es_VehicleID s) (db_engine_state d) = Some r0" by blast
  show ?thesis
  proof (rule ext)
    fix v
    show "watermark d' v = ((watermark d)(es_VehicleID s \<mapsto> es_LastFixAt s)) v"
      using r0 find_SomeD [OF r0]
      by (cases "find (\<lambda>r. es_VehicleID r = v) (db_engine_state d)")
        (auto simp: d' watermark_def find_update_where dest: find_SomeD)
  qed
next
  case False
  with assms have d': "d' = d\<lparr>db_engine_state := db_engine_state d @ [s\<lparr>es_UpdatedAt := now\<rparr>]\<rparr>"
    by (auto simp: upsert_state_def split: if_splits)
  have "find (\<lambda>r. es_VehicleID r = es_VehicleID s) (db_engine_state d) = None"
    using False by (force simp: find_None_iff image_iff)
  then show ?thesis by (auto simp: d' watermark_def find_append fun_eq_iff split: option.split)
qed

lemma persist_event_effect:
  assumes "persist_event wr f ev p = (Inr u, p')"
  shows "\<exists>i. db_geofence_events (w_db (snd p')) = db_geofence_events (w_db (snd p)) @ [event_row i f ev]"
proof -
  from assms obtain i p1 p2 where i: "in_world GenerateUUID p = (Inr i, p1)"
    and l: "in_world (InsertEvent (event_row i f ev)) p1 = (Inr (), p2)"
    and e: "event_effect wr f ev p2 = (Inr u, p')"
    by (auto simp: persist_event_def bindE_Inr seqE_Inr)
  have "db_geofence_events (w_db (snd p')) = db_geofence_events (w_db (snd p2))"
    using evl.own.keepsD [OF evl.own_event_effect e] by (simp add: own_rel_def)
  moreover have "db_geofence_events (w_db (snd p2)) = db_geofence_events (w_db (snd p1)) @ [event_row i f ev]"
    using l by (auto simp: in_world_Inr InsertEvent_def wrap_err_Inr stmt_Inr dest!: insert_event_effect)
  moreover have "w_db (snd p1) = w_db (snd p)" using i by (auto simp: in_world_Inr GenerateUUID_Inr)
  ultimately show ?thesis by auto
qed

text \<open>The rows of a list of zone events, under the identifiers they were given.\<close>

definition event_rows :: "Fix \<Rightarrow> ZoneEvent list \<Rightarrow> geofence_event_row list \<Rightarrow> bool" where
  "event_rows f evs rows \<longleftrightarrow> list_all2 (\<lambda>ev r. \<exists>i. r = event_row i f ev) evs rows"

lemma persist_events_effect:
  "forE evs (persist_event wr f) p = (Inr u, p') \<Longrightarrow>
   \<exists>rows. db_geofence_events (w_db (snd p')) = db_geofence_events (w_db (snd p)) @ rows \<and> event_rows f evs rows"
proof (induction evs arbitrary: p)
  case (Cons ev evs)
  from Cons.prems obtain p1 where e: "persist_event wr f ev p = (Inr (), p1)" "forE evs (persist_event wr f) p1 = (Inr u, p')"
    by (auto simp: seqE_Inr)
  from persist_event_effect [OF e(1)] obtain i
    where i: "db_geofence_events (w_db (snd p1)) = db_geofence_events (w_db (snd p)) @ [event_row i f ev]" by blast
  from Cons.IH [OF e(2)] obtain rows
    where "db_geofence_events (w_db (snd p')) = db_geofence_events (w_db (snd p1)) @ rows" "event_rows f evs rows" by blast
  with i show ?case by (intro exI [of _ "event_row i f ev # rows"]) (auto simp: event_rows_def)
qed (simp add: ret_def event_rows_def)

lemma persist_effect:
  assumes "persist wr nxt f evs (s, w) = (Inr u, (s', w'))"
  shows "watermark (w_db w') = (watermark (w_db w))(es_VehicleID nxt \<mapsto> es_LastFixAt nxt)"
    and "\<exists>rows. db_geofence_events (w_db w') = db_geofence_events (w_db w) @ rows \<and> event_rows f evs rows"
proof -
  from assms obtain w1 p2 where up: "EngineStateRepository_Upsert nxt (w\<lparr>w_nop := Suc (w_nop w)\<rparr>) = (Inr (), w1)"
    and ev: "forE evs (persist_event wr f) (s, w1) = (Inr u, p2)" and db: "w_db w' = w_db (snd p2)"
    by (auto simp: persist_def uow_own_Inr seqE_Inr in_world_Inr)
  from up obtain fk now d1 where d1: "upsert_state nxt fk now (w_db w) = Inr ((), d1)" and w1: "w_db w1 = d1"
    by (auto simp: EngineStateRepository_Upsert_def wrap_err_Inr stmt_Inr)
  have "est.own.keeps (forE evs (persist_event wr f))"
    by (intro est.own.keeps_for est.own_persist_event)
  from est.own.keepsD [OF this ev] have "db_engine_state (w_db w') = db_engine_state d1"
    by (simp add: own_rel_def db w1)
  from watermark_cong [OF this] upsert_watermark [OF d1]
  show "watermark (w_db w') = (watermark (w_db w))(es_VehicleID nxt \<mapsto> es_LastFixAt nxt)" by simp
  have "db_geofence_events d1 = db_geofence_events (w_db w)"
    using d1 by (auto simp: upsert_state_def split: if_splits)
  with persist_events_effect [OF ev] show "\<exists>rows. db_geofence_events (w_db w') = db_geofence_events (w_db w) @ rows \<and> event_rows f evs rows"
    by (simp add: db w1)
qed

lemma fix_effect:
  assumes "process_fix wr cfg f (s, w) = (Inr ok, (s', w'))"
  shows "if ok then \<exists>cur zones nxt evs rows. Evaluate (wr_math wr) cfg cur f zones = Some (nxt, evs)
        \<and> (cur = first_state (fx_VehicleID f) worker_tenant \<or> cur \<in> set (db_engine_state (w_db w)))
        \<and> watermark (w_db w') = (watermark (w_db w))(fx_VehicleID f \<mapsto> fx_Timestamp f)
        \<and> db_geofence_events (w_db w') = db_geofence_events (w_db w) @ rows \<and> event_rows f evs rows
      else w_db w' = w_db w"
proof (cases rule: process_fix_cases [of wr cfg f s w])
  case (1 w1)
  with assms show ?thesis by simp
next
  case (2 st zones cur w1)
  with assms have run: "run_fix wr cfg f st zones cur (s, w1) = (Inr ok, (s', w'))" by simp
  obtain nxt evs where e: "Evaluate (wr_math wr) cfg cur f zones = Some (nxt, evs)"
    using run by (cases "Evaluate (wr_math wr) cfg cur f zones") (auto simp: run_fix_def raise_def)
  obtain r s2 w2 where p: "persist wr nxt f evs (s, w1) = (r, (s2, w2))" by (metis prod.collapse)
  show ?thesis
  proof (cases r)
    case (Inl err)
    with p uow_own_atomic have "w_db w2 = w_db w1" unfolding persist_def by metis
    with run e p Inl 2(2) show ?thesis by (auto simp: run_fix_def act_simps)
  next
    case (Inr u)
    from run e p Inr have ok: "ok" and a: "applyTransitions wr f evs st (s2, w2) = (Inr (), (s', w'))"
      by (auto simp: run_fix_def act_simps split: prod.splits sum.splits)
    have db: "db_engine_state (w_db w') = db_engine_state (w_db w2)" "db_geofence_events (w_db w') = db_geofence_events (w_db w2)"
      using est.own.keepsD [OF est.own_applyTransitions a] evl.own.keepsD [OF evl.own_applyTransitions a]
      by (simp_all add: own_rel_def)
    from persist_effect [OF p [unfolded Inr]] obtain rows
      where m: "watermark (w_db w2) = (watermark (w_db w1))(es_VehicleID nxt \<mapsto> es_LastFixAt nxt)"
        and l: "db_geofence_events (w_db w2) = db_geofence_events (w_db w1) @ rows" "event_rows f evs rows" by blast
    have "es_VehicleID cur = fx_VehicleID f" using 2(3) by (auto simp: first_state_def)
    with Evaluate_ids [OF e] m watermark_cong [OF db(1)] 2(2)
    have "watermark (w_db w') = (watermark (w_db w))(fx_VehicleID f \<mapsto> fx_Timestamp f)" by simp
    with ok e l db(2) 2(2,3) show ?thesis by (simp, metis)
  qed
qed


section \<open>Positions are consumed once\<close>

text \<open>No vehicle's mark goes back.\<close>

definition onward :: "database \<Rightarrow> database \<Rightarrow> bool" where
  "onward d d' \<longleftrightarrow> (\<forall>v m. watermark d v = Some m \<longrightarrow> (\<exists>m'. watermark d' v = Some m' \<and> m \<le> m'))"

lemma onward_refl: "onward d d"
  by (simp add: onward_def)

lemma onward_trans: "onward a b \<Longrightarrow> onward b c \<Longrightarrow> onward a c"
  unfolding onward_def by (meson order_trans)

definition behind :: "database \<Rightarrow> Fix \<Rightarrow> bool" where
  "behind d f \<longleftrightarrow> (\<forall>m. watermark d (fx_VehicleID f) = Some m \<longrightarrow> m \<le> fx_Timestamp f)"

lemma process_fix_onward:
  assumes "process_fix wr cfg f (s, w) = (Inr ok, (s', w'))" and "behind (w_db w) f"
  shows "onward (w_db w) (w_db w')"
    and "behind (w_db w) g \<Longrightarrow> fx_Timestamp f \<le> fx_Timestamp g \<Longrightarrow> behind (w_db w') g"
proof -
  have c: "watermark (w_db w') = watermark (w_db w)
      \<or> watermark (w_db w') = (watermark (w_db w))(fx_VehicleID f \<mapsto> fx_Timestamp f)"
    using fix_effect [OF assms(1)] by (cases ok) (auto dest: watermark_cong)
  with assms(2) show "onward (w_db w) (w_db w')"
    by (auto simp: onward_def behind_def)
  show "behind (w_db w) g \<Longrightarrow> fx_Timestamp f \<le> fx_Timestamp g \<Longrightarrow> behind (w_db w') g"
    using c by (auto simp: behind_def split: if_splits)
qed

lemma sweep_onward:
  "wf_states (w_db w) \<Longrightarrow> sorted (map fx_Timestamp fs) \<Longrightarrow> \<forall>f\<in>set fs. behind (w_db w) f \<Longrightarrow>
   sweep wr cfg alive fs n h (s, w) = (r, (s', w')) \<Longrightarrow> onward (w_db w) (w_db w')"
proof (induction fs arbitrary: n h s w)
  case (Cons f fs)
  from process_fix_wf [OF Cons.prems(1), of wr cfg f s] obtain ok s1 w1
    where p: "process_fix wr cfg f (s, w) = (Inr ok, (s1, w1))" "wf_states (w_db w1)" by blast
  show ?case
  proof (cases "alive n")
    case True
    with Cons.prems(4) p have "sweep wr cfg alive fs (Suc n) (if ok then h + 1 else h) (s1, w1) = (r, (s', w'))"
      by (simp add: bindE_def)
    moreover have "\<forall>g\<in>set fs. behind (w_db w1) g" using process_fix_onward(2) [OF p(1)] Cons.prems(2,3) by auto
    ultimately have "onward (w_db w1) (w_db w')" using Cons.IH [OF p(2)] Cons.prems(2) by auto
    with process_fix_onward(1) [OF p(1)] Cons.prems(3) show ?thesis by (auto intro: onward_trans)
  next
    case False
    with Cons.prems(4) show ?thesis by (auto simp: ret_def onward_refl)
  qed
qed (auto simp: ret_def onward_refl)

lemma list_all2_mono_in:
  "list_all2 P xs ys \<Longrightarrow> \<forall>x\<in>set xs. R x \<Longrightarrow> (\<And>x y. P x y \<Longrightarrow> R x \<Longrightarrow> S x y) \<Longrightarrow> list_all2 S xs ys"
  by (auto simp: list_all2_conv_all_nth)

lemma scan_all_Inr: "scan_all f rows = Inr xs \<Longrightarrow> list_all2 (\<lambda>r x. f r = Inr x) rows xs"
  by (induction rows arbitrary: xs) (auto split: sum.splits)

lemma unread_behind: "unread d r \<Longrightarrow> scan_fix r = Inr f \<Longrightarrow> behind d f \<and> fx_Timestamp f = sn_timestamp r"
  by (auto simp: unread_def scan_fix_def behind_def watermark_def split: option.splits)

lemma LoadNewFixes_Inr:
  assumes "LoadNewFixes n w = (Inr fs, w')"
  shows "sorted (map fx_Timestamp fs)" and "\<forall>f\<in>set fs. behind (w_db w) f"
proof -
  let ?rows = "sql_page n 0 (sort_key sn_timestamp (filter (unread (w_db w)) (db_telemetry_snapshots (w_db w))))"
  from assms have a: "list_all2 (\<lambda>r f. scan_fix r = Inr f) ?rows fs"
    by (auto simp: LoadNewFixes_def bindE_Inr wrap_err_Inr query_Inr lift_result_Inr intro: scan_all_Inr)
  have sub: "\<forall>r\<in>set ?rows. unread (w_db w) r"
    by (auto simp: sql_page_def Let_def dest: in_set_takeD)
  have srt: "sorted (map sn_timestamp ?rows)"
    by (simp add: sql_page_def Let_def take_map [symmetric] sorted_wrt_take)
  from a sub have b: "list_all2 (\<lambda>r f. behind (w_db w) f \<and> fx_Timestamp f = sn_timestamp r) ?rows fs"
    by (rule list_all2_mono_in) (auto dest: unread_behind)
  then have "map fx_Timestamp fs = map sn_timestamp ?rows"
    by (simp add: list_all2_conv_all_nth list_eq_iff_nth_eq)
  with srt show "sorted (map fx_Timestamp fs)" by simp
  from b show "\<forall>f\<in>set fs. behind (w_db w) f"
    by (auto simp: list_all2_conv_all_nth in_set_conv_nth)
qed

lemma Tick_onward:
  assumes "wf_states (w_db w)" and "Tick wr alive (s, w) = (r, (s', w'))"
  shows "onward (w_db w) (w_db w')"
proof -
  obtain res w1 where l: "LoadNewFixes maxFixesPerSweep w = (res, w1)" by fastforce
  have d1: "w_db w1 = w_db w" using dbeq.keepsD [OF dbeq_fixes l] by simp
  show ?thesis
  proof (cases res)
    case (Inl e)
    with l assms(2) d1 show ?thesis by (simp add: Tick_def act_simps in_world_apply onward_refl)
  next
    case (Inr fs)
    obtain cfg s2 w2 where c: "engine_settings (s, w1) = (Inr cfg, (s2, w2))" using engine_settings_run by (metis prod.collapse)
    have d2: "w_db w2 = w_db w" using dbeq.own.keepsD [OF dbeq_settings c] d1 by (simp add: own_rel_def)
    have "sweep wr cfg alive fs 0 0 (s2, w2) = (r, (s', w'))"
      using assms(2) l Inr c by (simp add: Tick_def act_simps in_world_apply)
    from sweep_onward [OF _ LoadNewFixes_Inr(1) [OF l [unfolded Inr]] _ this] LoadNewFixes_Inr(2) [OF l [unfolded Inr]] assms(1) d2
    show ?thesis by simp
  qed
qed

lemma Run_onward:
  assumes "wf_states (w_db w)" and "Run wr ticks (s, w) = (r, (s', w'))"
  shows "onward (w_db w) (w_db w')"
proof -
  have "onward (w_db w) (w_db w')" if "wf_states (w_db w)" "Run_ticks wr ticks (s, w) = (r, (s', w'))" for s w
    using that
  proof (induction ticks arbitrary: s w)
    case (Cons a ticks)
    from Tick_wf [OF Cons.prems(1), of wr a s] obtain x s1 w1
      where t: "Tick wr a (s, w) = (Inr x, (s1, w1))" "wf_states (w_db w1)" by blast
    with Cons.IH [of w1 s1] Cons.prems(2) have "onward (w_db w1) (w_db w')" by (simp add: bindE_def)
    with Tick_onward [OF Cons.prems(1) t(1)] show ?case by (rule onward_trans)
  qed (auto simp: ret_def onward_refl)
  moreover obtain s1 w1 where "Run wr ticks (s, w) = Run_ticks wr ticks (s1, w1)" "w_db w1 = w_db w" using Run_start by blast
  ultimately show ?thesis using assms by metis
qed

lemma onward_read:
  assumes "onward d d'" and "sn_vehicle_id r = Some v" and "\<not> unread d r"
  shows "\<not> unread d' r"
proof -
  have u: "unread x r \<longleftrightarrow> (\<forall>m. watermark x v = Some m \<longrightarrow> m < sn_timestamp r) \<and> sn_latitude r \<noteq> None \<and> sn_longitude r \<noteq> None" for x
    using assms(2) by (auto simp: unread_def watermark_def split: option.splits)
  from assms(1,3) show ?thesis unfolding u onward_def by (metis not_le order_trans)
qed


section \<open>A concrete run\<close>

definition demo_snapshot :: "int \<Rightarrow> snapshot_row" where
  "demo_snapshot n = \<lparr>sn_vehicle_id = Some ''v1'', sn_trip_id = None, sn_timestamp = n * 90 * 10 ^ 9,
     sn_latitude = Some (Fin 0), sn_longitude = Some (Fin 0), sn_speed = Some (Fin 5)\<rparr>"

definition demo_state :: EngineState where
  "demo_state = (first_state ''v1'' ''1'')\<lparr>es_LastFixAt := 90 * 10 ^ 9\<rparr>"

definition demo_dwell_world :: world where
  "demo_dwell_world = demo_world\<lparr>w_db := demo_db\<lparr>db_engine_state := [demo_state],
     db_telemetry_snapshots := [demo_snapshot 1, demo_snapshot 2]\<rparr>\<rparr>"

definition demo_wiring :: wiring where
  "demo_wiring = \<lparr>wr_bus = True, wr_reachPickup = True, wr_startTransit = True, wr_math = demo_math\<rparr>"

definition demo_worker :: DwellWorker where
  "demo_worker = \<lparr>cr_cache = Map.empty, cr_cacheAt = 0, dwk_published = []\<rparr>"

lemma demo_wf: "wf_states (w_db demo_dwell_world)"
  by (simp add: wf_states_def demo_dwell_world_def demo_state_def wf_engine_def first_state_def)

theorem sweeps_never_panic_witness:
  "\<exists>s' w'. Run demo_wiring [\<lambda>n. n < 1, \<lambda>_. True] (demo_worker, demo_dwell_world) = (Inr (), (s', w')) \<and> wf_states (w_db w')"
  by (rule sweeps_never_panic [OF demo_wf])


text \<open>The fix of the second snapshot is handled and moves the mark.\<close>

definition demo_second :: Fix where
  "demo_second = \<lparr>fx_VehicleID = ''v1'', fx_TripID = None, fx_Timestamp = 180 * 10 ^ 9, fx_Latitude = Fin 0,
     fx_Longitude = Fin 0, fx_Speed = Fin 5\<rparr>"

lemma demo_fix_handled: "fst (process_fix demo_wiring DefaultEngineConfig demo_second (demo_worker, demo_dwell_world)) = Inr True"
  by code_simp


end
