(* ===== verification/Detention.thy ===== *)
theory Detention
  imports Dwell_Safety Billing_Application
begin

text \<open>
  What people do with detentions and zones: attach a closed window to an invoice by hand
  (\<open>internal/geofence/application/detention.go\<close>) or on completion of its trip
  (\<open>CompleteTrip\<close> of \<open>internal/handlers/trips.go\<close>), waive one, and keep the registry of
  zones (\<open>internal/geofence/application/zone_crud.go\<close>).
\<close>

section \<open>Audit\<close>

definition DetentionTableName :: string where "DetentionTableName = ''trip_detentions''"
definition ActionAttachDetention :: string where "ActionAttachDetention = ''attach_detention''"
definition ActionWaiveDetention :: string where "ActionWaiveDetention = ''waive_detention''"

text \<open>The entry has no address, and the error of the insert is dropped.\<close>

definition logGeofenceAudit :: "string \<Rightarrow> string \<Rightarrow> unit wact" where
  "logGeofenceAudit action recordID =
     bindE getEnv (\<lambda>e.
     bindE GenerateUUID (\<lambda>i.
     bindE (tryE (stmt (CreateAuditLog i (getUserID (env_ctx e)) action DetentionTableName (Some recordID)
       None None None))) (\<lambda>_. ret ())))"

section \<open>Attaching\<close>

definition ErrInvoicePaid :: goerr where
  "ErrInvoicePaid = ErrorString ''invoice for this trip is already paid''"

definition detention_line :: "Detention \<Rightarrow> InvoiceLineItemInput" where
  "detention_line de =
     \<lparr>ili_TripID = Some (de_TripID de), ili_LineType = LineTypeDetention,
      ili_Description = (if de_ZoneName de \<noteq> [] then ''Detention at '' @ de_ZoneName de else ''Detention''),
      ili_Quantity = fdivc (float_of_int64 (de_BillableSeconds de)) 3600,
      ili_UnitPrice = de_RatePerHour de, ili_RefID = Some (de_ID de)\<rparr>"

definition attach_command :: "TenantID \<Rightarrow> Detention \<Rightarrow> GenerateInvoiceCommand" where
  "attach_command t de =
     \<lparr>gic_TenantID = t, gic_BookingID = [], gic_CustomerID = [], gic_TripID = Some (de_TripID de),
      gic_Subtotal = Fin 0, gic_Tax = Fin 0, gic_Discount = Fin 0, gic_Total = Fin 0,
      gic_LineItems = [detention_line de]\<rparr>"

definition attach_found :: "TenantID \<Rightarrow> Detention \<Rightarrow> unit wact" where
  "attach_found t de =
     bindE (GenerateInTx (attach_command t de)) (\<lambda>(i, attached).
     seqE (if \<not> attached then raise ErrInvoicePaid else ret ())
    (seqE (MarkAttached (de_ID de))
     (logGeofenceAudit ActionAttachDetention (de_ID de))))"

definition AttachDetentionUseCase_Execute :: "string \<Rightarrow> TenantID \<Rightarrow> unit wact" where
  "AttachDetentionUseCase_Execute detentionID t =
     uow_Execute
       (bindE (Detention_Find t detentionID) (\<lambda>de.
        seqE (failIf (de_Status de \<noteq> DetentionClosed) ''only closed detentions can be attached'')
       (seqE (failIf (fle (de_Amount de) (Fin 0)) ''detention has no billable amount'')
        (attach_found t de))))"

definition WaiveDetentionUseCase_Execute :: "string \<Rightarrow> TenantID \<Rightarrow> unit wact" where
  "WaiveDetentionUseCase_Execute detentionID t =
     uow_Execute
       (bindE (Detention_Find t detentionID) (\<lambda>de.
        seqE (failIf (de_Status de = DetentionWaived \<or> de_Status de = DetentionInvoiced) ''detention already resolved'')
       (seqE (Detention_Waive (de_ID de))
        (logGeofenceAudit ActionWaiveDetention (de_ID de)))))"

text \<open>
  What the web handler runs inside the transaction that completes a trip: all closed windows of a
  trip with a booking become lines of the booking's invoice.
\<close>

definition attach_all :: "TenantID \<Rightarrow> TripID \<Rightarrow> string \<Rightarrow> Detention list \<Rightarrow> unit wact" where
  "attach_all t tripID bookingID detentions =
     bindE (BookingRepository_GetReadModel bookingID t) (\<lambda>booking.
     let subtotal = brm_Price booking;
         tax = fmul subtotal (rnd (18 / 100))
     in bindE (GenerateInTx
          \<lparr>gic_TenantID = t, gic_BookingID = bookingID, gic_CustomerID = brm_CustomerID booking,
           gic_TripID = Some tripID, gic_Subtotal = subtotal, gic_Tax = tax, gic_Discount = Fin 0,
           gic_Total = fadd subtotal tax, gic_LineItems = map detention_line detentions\<rparr>) (\<lambda>(i, attached).
        if \<not> attached then ret () else forE detentions (\<lambda>de. MarkAttached (de_ID de))))"

definition attach_on_completion :: "TripID \<Rightarrow> TenantID \<Rightarrow> TripAggregate \<Rightarrow> unit wact" where
  "attach_on_completion tripID t trip =
     (case tr_BookingID trip of
        None \<Rightarrow> ret ()
      | Some bookingID \<Rightarrow>
          bindE (ListClosedForTrip t tripID) (\<lambda>detentions.
          if detentions = [] then ret () else attach_all t tripID bookingID detentions))"

definition TripHandlers_CompleteTrip :: "TripID \<Rightarrow> TenantID \<Rightarrow> unit wact" where
  "TripHandlers_CompleteTrip tripID t = CompleteTripUseCase_Execute tripID t (Some (attach_on_completion tripID t))"

section \<open>The registry of zones\<close>

record CreateZoneCommand =
  czc_TenantID :: TenantID
  czc_Name :: string
  czc_Kind :: string
  czc_Shape :: string
  czc_CenterLat :: float64
  czc_CenterLng :: float64
  czc_RadiusM :: float64
  czc_Polygon :: "Point list"
  czc_RouteName :: string
  czc_Priority :: int
  czc_CreatedBy :: "string option"

text \<open>\<open>UpdateZoneCommand\<close> has the same fields with the identifier in place of the creator.\<close>

record UpdateZoneCommand =
  uzc_TenantID :: TenantID
  uzc_ID :: string
  uzc_Name :: string
  uzc_Kind :: string
  uzc_Shape :: string
  uzc_CenterLat :: float64
  uzc_CenterLng :: float64
  uzc_RadiusM :: float64
  uzc_Polygon :: "Point list"
  uzc_RouteName :: string
  uzc_Priority :: int

definition validateZoneShape :: "string \<Rightarrow> float64 \<Rightarrow> float64 \<Rightarrow> float64 \<Rightarrow> Point list \<Rightarrow> unit result" where
  "validateZoneShape shape lat lng radius polygon =
     (if shape = ShapeCircle then
        (if feq lat (Fin 0) \<or> feq lng (Fin 0) \<or> fle radius (Fin 0)
         then Inl (ErrorString ''circle zones require center_lat, center_lng and radius_m > 0'') else Inr ())
      else if shape = ShapePolygon then
        (if length polygon < 3 then Inl (ErrorString ''polygon zones require at least 3 vertices'') else Inr ())
      else Inl (ErrorString ''invalid zone shape''))"

definition validKind :: "string \<Rightarrow> bool" where
  "validKind kind \<longleftrightarrow> kind \<in> {KindPickup, KindDrop, KindDepot, KindRestricted, KindNoEntry}"

definition ZoneCRUD_Create :: "CreateZoneCommand \<Rightarrow> string wact" where
  "ZoneCRUD_Create cmd =
     seqE (lift_result (validateZoneShape (czc_Shape cmd) (czc_CenterLat cmd) (czc_CenterLng cmd) (czc_RadiusM cmd) (czc_Polygon cmd)))
    (seqE (failIf (czc_Name cmd = []) ''zone name is required'')
    (seqE (failIf (\<not> validKind (czc_Kind cmd)) ''invalid zone kind'')
    (bindE GenerateUUID (\<lambda>i.
     seqE (uow_Execute (GeofenceRepository_Create
       \<lparr>gf_ID = i, gf_TenantID = czc_TenantID cmd, gf_Name = czc_Name cmd, gf_Kind = czc_Kind cmd,
        gf_Shape = czc_Shape cmd, gf_CenterLat = czc_CenterLat cmd, gf_CenterLng = czc_CenterLng cmd,
        gf_RadiusM = czc_RadiusM cmd, gf_Polygon = czc_Polygon cmd, gf_RouteName = czc_RouteName cmd,
        gf_Priority = czc_Priority cmd, gf_IsActive = True, gf_CreatedBy = czc_CreatedBy cmd,
        gf_CreatedAt = 0, gf_UpdatedAt = 0\<rparr>))
     (ret i)))))"

definition ZoneCRUD_Update :: "UpdateZoneCommand \<Rightarrow> unit wact" where
  "ZoneCRUD_Update cmd =
     seqE (failIf (uzc_ID cmd = []) ''zone ID is required'')
    (seqE (lift_result (validateZoneShape (uzc_Shape cmd) (uzc_CenterLat cmd) (uzc_CenterLng cmd) (uzc_RadiusM cmd) (uzc_Polygon cmd)))
    (seqE (failIf (uzc_Name cmd = []) ''zone name is required'')
    (seqE (failIf (\<not> validKind (uzc_Kind cmd)) ''invalid zone kind'')
     (uow_Execute
       (bindE (wrap_err (WrapError ''geofence not found'') (GeofenceRepository_Find (uzc_TenantID cmd) (uzc_ID cmd))) (\<lambda>existing.
        GeofenceRepository_Update
          \<lparr>gf_ID = uzc_ID cmd, gf_TenantID = uzc_TenantID cmd, gf_Name = uzc_Name cmd, gf_Kind = uzc_Kind cmd,
           gf_Shape = uzc_Shape cmd, gf_CenterLat = uzc_CenterLat cmd, gf_CenterLng = uzc_CenterLng cmd,
           gf_RadiusM = uzc_RadiusM cmd, gf_Polygon = uzc_Polygon cmd, gf_RouteName = uzc_RouteName cmd,
           gf_Priority = uzc_Priority cmd, gf_IsActive = gf_IsActive existing, gf_CreatedBy = None,
           gf_CreatedAt = 0, gf_UpdatedAt = 0\<rparr>))))))"

definition ZoneCRUD_SoftDelete :: "TenantID \<Rightarrow> string \<Rightarrow> unit wact" where
  "ZoneCRUD_SoftDelete t i =
     seqE (failIf (i = []) ''zone ID is required'') (uow_Execute (GeofenceRepository_SoftDelete t i))"

end
