(* ===== verification/Detention_Safety.thy ===== *)
theory Detention_Safety
  imports Detention Billing_Sessions Trip_Gate
begin

text \<open>
  What holds of detentions under everything that writes them: sweeps of the worker, attaching,
  waiving, completing trips; and what attaching one leaves behind.
\<close>

section \<open>Sound rows\<close>

definition detention_row_ok :: "detention_row \<Rightarrow> bool" where
  "detention_row_ok r \<longleftrightarrow> dn_zone_kind r \<in> {''pickup'', ''drop''} \<and> 0 \<le> dn_dwell_seconds r \<and> 0 \<le> dn_billable_seconds r
     \<and> \<not> flt (dn_amount r) (Fin 0)
     \<and> (dn_status r = DetentionOpen \<and> dn_exited_at r = None \<and> dn_amount r = Fin 0
        \<or> dn_status r = DetentionClosed \<and> dn_exited_at r \<noteq> None
        \<or> dn_status r = DetentionAttached \<and> dn_exited_at r \<noteq> None \<and> \<not> fle (dn_amount r) (Fin 0)
        \<or> dn_status r = DetentionWaived \<and> dn_amount r = Fin 0)"

definition detentions_ok :: "database \<Rightarrow> bool" where
  "detentions_ok d \<longleftrightarrow> distinct (map dn_id (db_trip_detentions d)) \<and> (\<forall>r\<in>set (db_trip_detentions d). detention_row_ok r)"

lemma detentions_ok_cong: "db_trip_detentions d' = db_trip_detentions d \<Longrightarrow> detentions_ok d' = detentions_ok d"
  by (simp add: detentions_ok_def)

lemma detentions_ok_update:
  assumes "detentions_ok d" and "\<And>r. p r \<Longrightarrow> dn_id (f r) = dn_id r"
    and "\<And>r. r \<in> set (db_trip_detentions d) \<Longrightarrow> p r \<Longrightarrow> detention_row_ok (f r)"
  shows "detentions_ok (d\<lparr>db_trip_detentions := update_where p f (db_trip_detentions d)\<rparr>)"
  using assms by (auto simp: detentions_ok_def map_update_where set_update_where)

lemma open_detention_ok:
  assumes "open_detention de fk now d = Inr (u, d')" and "detentions_ok d"
  shows "detentions_ok d'"
proof -
  from assms(1) have k: "de_ZoneKind de \<in> {''pickup'', ''drop''}" and i: "de_ID de \<notin> dn_id ` set (db_trip_detentions d)"
    by (auto simp: open_detention_def split: if_splits)
  from assms(1) have d: "d' = d\<lparr>db_trip_detentions := db_trip_detentions d @
        [\<lparr>dn_id = de_ID de, dn_tenant_id = de_TenantID de, dn_trip_id = de_TripID de, dn_vehicle_id = de_VehicleID de,
          dn_geofence_id = de_GeofenceID de, dn_zone_kind = de_ZoneKind de, dn_entered_at = de_EnteredAt de,
          dn_exited_at = None, dn_dwell_seconds = 0, dn_free_seconds = 0, dn_billable_seconds = 0,
          dn_rate_per_hour = Fin 0, dn_amount = Fin 0, dn_status = DetentionOpen, dn_updated_at = now\<rparr>]\<rparr>"
    by (simp add: open_detention_def split: if_splits)
  from k i assms(2) show ?thesis unfolding d
    by (auto simp: detentions_ok_def detention_row_ok_def)
qed

lemma close_detention_ok:
  assumes "0 \<le> dwell" and "\<not> flt amount (Fin 0)" and "close_detention i ex dwell free rate amount fk now d = Inr (u, d')"
    and "detentions_ok d"
  shows "detentions_ok d'"
proof -
  from assms(4) have "detention_row_ok r" if "r \<in> set (db_trip_detentions d)" for r
    using that by (simp add: detentions_ok_def)
  with assms show ?thesis
    by (auto simp: close_detention_def Let_def intro!: detentions_ok_update)
      (auto simp: detention_row_ok_def detention_names)
qed

interpretation dti: dwell_invariant "\<lambda>d d'. detentions_ok d \<longrightarrow> detentions_ok d'"
proof unfold_locales
  show "same_dwell d d' \<Longrightarrow> detentions_ok d \<longrightarrow> detentions_ok d'" for d d'
    by (simp add: same_dwell_def detentions_ok_def)
  show "open_detention de fk now d = Inr (u, d') \<Longrightarrow> detentions_ok d \<longrightarrow> detentions_ok d'" for de fk now d u d'
    using open_detention_ok by blast
  show "detentions_ok d \<longrightarrow> detentions_ok d'"
    if "0 \<le> dwell" "\<not> flt amount (Fin 0)" "close_detention i ex dwell free rate amount fk now d = Inr (u, d')"
    for dwell amount i ex free rate fk now d u d'
    using close_detention_ok [OF that] by blast
  show "insert_event e fk now d = Inr (u, d') \<Longrightarrow> detentions_ok d \<longrightarrow> detentions_ok d'" for e fk now d u d'
    by (auto dest!: insert_event_effect simp: detentions_ok_def)
  show "upsert_state s fk now d = Inr (u, d') \<Longrightarrow> detentions_ok d \<longrightarrow> detentions_ok d'" for s fk now d u d'
    by (auto simp: upsert_state_def detentions_ok_def split: if_splits)
qed auto

section \<open>Generating an invoice leaves detentions alone\<close>

context other_tables
begin

lemma keeps_insert_invoice: "keeps (insert_invoice iv)" "keeps (update_invoice iv)"
  unfolding insert_invoice_def update_invoice_def
  by (intro db_intros keeps_stmt_frame;
      auto simp: same_dwell_def CreateInvoice_def insertInvoiceExtended_def updateInvoiceFull_def update_invoices_def Let_def
        split: option.splits)+

lemma keeps_persistLineItems: "keeps (persistLineItems iv)"
  unfolding persistLineItems_def
  by (intro db_intros keeps_stmt_frame) (auto simp: same_dwell_def deleteLineItems_def insertLineItem_def split: if_splits)

lemma keeps_Invoice_Save: "keeps (InvoiceRepository_Save iv)"
  unfolding InvoiceRepository_Save_def invoice_exists_def
  by (intro db_intros keeps_insert_invoice keeps_SaveEvents keeps_persistLineItems)

lemma keeps_attachLineItems: "keeps (attachLineItems iv inps)"
proof -
  have "keeps (append_lines refs inps iv)" for refs iv
    by (induction inps arbitrary: iv) (auto intro!: db_intros)
  then show ?thesis unfolding attachLineItems_def by (intro db_intros)
qed

lemma keeps_GenerateInTx: "keeps (GenerateInTx cmd)"
proof -
  have p: "keeps (resolveBookingPricing t b)" for t b
    unfolding resolveBookingPricing_def BookingRepository_GetReadModel_def GetCompanySettings_def
    by (intro db_intros keeps_noRowsAs)
  have c: "keeps (create_invoice cmd)"
    unfolding create_invoice_def Let_def
    by (intro db_intros p keeps_attachLineItems keeps_Invoice_Save)
  have a: "keeps (attach_to_existing cmd e)" for e
    unfolding attach_to_existing_def by (intro db_intros keeps_attachLineItems keeps_Invoice_Save)
  show ?thesis
    unfolding GenerateInTx_def InvoiceRepository_FindByBookingID_def InvoiceRepository_FindByTripID_def
      findInvoiceBySQL_def loadLineItems_def
    by (intro db_intros c a)
qed

lemma keeps_geofence_audit: "keeps (logGeofenceAudit a i)"
  unfolding logGeofenceAudit_def
  by (intro db_intros keeps_stmt_frame) (auto simp: same_dwell_def CreateAuditLog_def split: if_splits)

end

interpretation sdw: other_tables same_dwell
  by unfold_locales (simp_all add: same_dwell_def)

section \<open>Marking rows\<close>

lemma detention_row_ok_updated [simp]: "detention_row_ok (r\<lparr>dn_updated_at := n\<rparr>) = detention_row_ok r"
  by (simp add: detention_row_ok_def)

lemma set_detention_effect:
  "set_detention i f fk now d = Inr (u, d') \<Longrightarrow> d' = d\<lparr>db_trip_detentions :=
     update_where (\<lambda>r. dn_id r = i) (\<lambda>r. (f r)\<lparr>dn_updated_at := now\<rparr>) (db_trip_detentions d)\<rparr>"
  by (simp add: set_detention_def)

lemma set_detention_ok:
  assumes "set_detention i f fk now d = Inr (u, d')" and "detentions_ok d"
    and "\<And>r. dn_id (f r) = dn_id r"
    and "\<And>r. r \<in> set (db_trip_detentions d) \<Longrightarrow> dn_id r = i \<Longrightarrow> detention_row_ok (f r)"
  shows "detentions_ok d'"
  unfolding set_detention_effect [OF assms(1)] using assms(2-) by (intro detentions_ok_update) auto

text \<open>A row that may be marked as attached, or was.\<close>

definition attachable :: "detention_row \<Rightarrow> bool" where
  "attachable r \<longleftrightarrow> dn_status r \<in> {DetentionClosed, DetentionAttached} \<and> dn_exited_at r \<noteq> None \<and> \<not> fle (dn_amount r) (Fin 0)"

definition id_attachable :: "database \<Rightarrow> string \<Rightarrow> bool" where
  "id_attachable d i \<longleftrightarrow> (\<forall>r\<in>set (db_trip_detentions d). dn_id r = i \<longrightarrow> attachable r)"

lemma MarkAttached_Inr:
  "MarkAttached i w = (Inr u, w') \<Longrightarrow>
   \<exists>now. w_db w' = (w_db w)\<lparr>db_trip_detentions := update_where (\<lambda>r. dn_id r = i)
     (\<lambda>r. r\<lparr>dn_status := DetentionAttached, dn_updated_at := now\<rparr>) (db_trip_detentions (w_db w))\<rparr>"
  by (auto simp: MarkAttached_def wrap_err_Inr stmt_Inr set_detention_def)

lemma MarkAttached_ok:
  assumes "MarkAttached i w = (Inr u, w')" and "detentions_ok (w_db w)"
    and "id_attachable (w_db w) i"
  shows "detentions_ok (w_db w')"
proof -
  from MarkAttached_Inr [OF assms(1)] obtain now where d: "w_db w' = (w_db w)\<lparr>db_trip_detentions :=
    update_where (\<lambda>r. dn_id r = i) (\<lambda>r. r\<lparr>dn_status := DetentionAttached, dn_updated_at := now\<rparr>) (db_trip_detentions (w_db w))\<rparr>" by blast
  have "detention_row_ok (r\<lparr>dn_status := DetentionAttached, dn_updated_at := now\<rparr>)"
    if "r \<in> set (db_trip_detentions (w_db w))" "dn_id r = i" for r
    using assms(2,3) that by (auto simp: detentions_ok_def detention_row_ok_def id_attachable_def attachable_def detention_names)
  with assms(2) show ?thesis unfolding d by (intro detentions_ok_update) auto
qed

lemma MarkAttached_attachable:
  assumes "MarkAttached i w = (Inr u, w')" and "id_attachable (w_db w) j"
  shows "id_attachable (w_db w') j"
proof -
  from MarkAttached_Inr [OF assms(1)] obtain now where d: "w_db w' = (w_db w)\<lparr>db_trip_detentions :=
    update_where (\<lambda>r. dn_id r = i) (\<lambda>r. r\<lparr>dn_status := DetentionAttached, dn_updated_at := now\<rparr>) (db_trip_detentions (w_db w))\<rparr>" by blast
  have "attachable (r\<lparr>dn_status := DetentionAttached, dn_updated_at := now\<rparr>)" if "attachable r" for r
    using that by (simp add: attachable_def)
  with assms(2) show ?thesis by (auto simp: d id_attachable_def set_update_where)
qed

lemma mark_all_ok:
  "forE des (\<lambda>de. MarkAttached (de_ID de)) w = (Inr u, w') \<Longrightarrow> detentions_ok (w_db w) \<Longrightarrow>
   \<forall>de\<in>set des. id_attachable (w_db w) (de_ID de) \<Longrightarrow> detentions_ok (w_db w')"
proof (induction des arbitrary: w)
  case (Cons de des)
  from Cons.prems(1) obtain w1 where m: "MarkAttached (de_ID de) w = (Inr (), w1)"
    and rest: "forE des (\<lambda>de. MarkAttached (de_ID de)) w1 = (Inr u, w')" by (auto simp: seqE_Inr)
  have "detentions_ok (w_db w1)" using MarkAttached_ok [OF m Cons.prems(2)] Cons.prems(3) by simp
  moreover have "\<forall>x\<in>set des. id_attachable (w_db w1) (de_ID x)"
    using MarkAttached_attachable [OF m] Cons.prems(3) by simp
  ultimately show ?case using Cons.IH [OF rest] by blast
qed (simp add: ret_def)

section \<open>Every operation keeps rows sound\<close>

lemma unique_detention:
  "detentions_ok d \<Longrightarrow> r \<in> set (db_trip_detentions d) \<Longrightarrow> s \<in> set (db_trip_detentions d) \<Longrightarrow> dn_id r = dn_id s \<Longrightarrow> r = s"
  using distinct_key_eq [of dn_id] by (auto simp: detentions_ok_def)

lemma scanDetention_simps [simp]:
  "de_ID (scanDetention d r) = dn_id r" "de_Status (scanDetention d r) = dn_status r"
  "de_Amount (scanDetention d r) = dn_amount r" "de_TripID (scanDetention d r) = dn_trip_id r"
  by (simp_all add: scanDetention_def found_detention_def)

lemma Detention_Find_Inr:
  assumes "Detention_Find t i w = (Inr de, w')"
  shows "\<exists>r\<in>set (db_trip_detentions (w_db w)). dn_id r = i \<and> dn_tenant_id r = t \<and> de = scanDetention (w_db w) r \<and> w_db w' = w_db w"
proof -
  let ?q = "query (\<lambda>now d. case find (\<lambda>r. dn_id r = i \<and> dn_tenant_id r = t) (db_trip_detentions d) of
         None \<Rightarrow> Inl ErrNoRows | Some r \<Rightarrow> Inr (scanDetention d r))"
  obtain r w1 where q: "?q w = (r, w1)" by fastforce
  with assms have r: "r = Inr de" "w' = w1" by (cases r; simp add: Detention_Find_def act_simps)+
  with q show ?thesis by (auto simp: query_Inr split: option.splits dest!: find_SomeD)
qed

lemma logGeofenceAudit_effect:
  assumes "logGeofenceAudit a i w = (r, w')"
  shows "r = Inr () \<and> (\<exists>rows. w_db w' = (w_db w)\<lparr>db_audit_logs := db_audit_logs (w_db w) @ rows\<rparr>)"
  using assms
  unfolding logGeofenceAudit_def bindE_def getEnv_def GenerateUUID_def tryE_def ret_def stmt_def Let_def CreateAuditLog_def
  by (auto split: option.splits if_splits sum.splits prod.splits) (rule exI [of _ "[]"], simp)+

text \<open>What a successful attachment went through.\<close>

lemma attach_Inr:
  assumes "AttachDetentionUseCase_Execute i t w = (Inr u, w')"
  obtains r iid w1 w2 now rows where "r \<in> set (db_trip_detentions (w_db w))" and "dn_id r = i" and "dn_tenant_id r = t"
    and "dn_status r = DetentionClosed" and "\<not> fle (dn_amount r) (Fin 0)" and "w_db w1 = w_db w"
    and "GenerateInTx (attach_command t (scanDetention (w_db w) r)) w1 = (Inr (iid, True), w2)"
    and "w_db w' = (w_db w2)\<lparr>db_trip_detentions := update_where (\<lambda>r. dn_id r = i)
      (\<lambda>r. r\<lparr>dn_status := DetentionAttached, dn_updated_at := now\<rparr>) (db_trip_detentions (w_db w2)),
      db_audit_logs := db_audit_logs (w_db w2) @ rows\<rparr>"
proof -
  from assms obtain de w1 wx where f: "Detention_Find t i (w\<lparr>w_nop := Suc (w_nop w)\<rparr>) = (Inr de, w1)"
    and c: "de_Status de = DetentionClosed" "\<not> fle (de_Amount de) (Fin 0)"
    and a: "attach_found t de w1 = (Inr u, wx)" and wx: "w_db w' = w_db wx"
    by (auto simp: AttachDetentionUseCase_Execute_def uow_Inr bindE_Inr seqE_Inr failIf_Inr)
  from Detention_Find_Inr [OF f] obtain r where r: "r \<in> set (db_trip_detentions (w_db w))" "dn_id r = i" "dn_tenant_id r = t"
    "de = scanDetention (w_db w) r" "w_db w1 = w_db w" by auto
  from a obtain iid w2 w3 where g: "GenerateInTx (attach_command t de) w1 = (Inr (iid, True), w2)"
    and m: "MarkAttached (de_ID de) w2 = (Inr (), w3)" and l: "logGeofenceAudit ActionAttachDetention (de_ID de) w3 = (Inr u, wx)"
    by (auto simp: attach_found_def bindE_Inr seqE_Inr raise_Inr ret_Inr split: if_splits)
  from MarkAttached_Inr [OF m] obtain now where d3: "w_db w3 = (w_db w2)\<lparr>db_trip_detentions := update_where (\<lambda>r. dn_id r = i)
      (\<lambda>r. r\<lparr>dn_status := DetentionAttached, dn_updated_at := now\<rparr>) (db_trip_detentions (w_db w2))\<rparr>"
    using r by auto
  from logGeofenceAudit_effect [OF l] obtain rows where "w_db wx = (w_db w3)\<lparr>db_audit_logs := db_audit_logs (w_db w3) @ rows\<rparr>" by blast
  with that [of r w1 iid w2 rows now] r c g d3 wx show thesis by simp
qed

lemma uow_keeps_ok:
  assumes "detentions_ok (w_db w)" and "\<And>u w'. uow_Execute m w = (Inr u, w') \<Longrightarrow> detentions_ok (w_db w')"
  shows "detentions_ok (w_db (snd (uow_Execute m w)))"
proof (cases "uow_Execute m w")
  case (Pair res w')
  show ?thesis
  proof (cases res)
    case (Inl e)
    with Pair uow_atomic [of m w e w'] assms(1) show ?thesis by simp
  next
    case (Inr u)
    with Pair assms(2) show ?thesis by simp
  qed
qed

lemma attach_success_ok:
  assumes "detentions_ok (w_db w)" and "AttachDetentionUseCase_Execute i t w = (Inr u, w')"
  shows "detentions_ok (w_db w')"
  using assms(2)
proof (rule attach_Inr)
  fix r iid w1 w2 now rows
  assume r: "r \<in> set (db_trip_detentions (w_db w))" "dn_id r = i" "dn_status r = DetentionClosed" "\<not> fle (dn_amount r) (Fin 0)"
    and d1: "w_db w1 = w_db w"
    and g: "GenerateInTx (attach_command t (scanDetention (w_db w) r)) w1 = (Inr (iid, True), w2)"
    and w': "w_db w' = (w_db w2)\<lparr>db_trip_detentions := update_where (\<lambda>r. dn_id r = i)
      (\<lambda>r. r\<lparr>dn_status := DetentionAttached, dn_updated_at := now\<rparr>) (db_trip_detentions (w_db w2)),
      db_audit_logs := db_audit_logs (w_db w2) @ rows\<rparr>"
  have d2: "db_trip_detentions (w_db w2) = db_trip_detentions (w_db w)"
    using sdw.keepsD [OF sdw.keeps_GenerateInTx g] d1 by (simp add: same_dwell_def)
  let ?f = "\<lambda>r. r\<lparr>dn_status := DetentionAttached, dn_updated_at := now\<rparr>"
  have "detention_row_ok (?f x)" if "x \<in> set (db_trip_detentions (w_db w))" "dn_id x = i" for x
  proof -
    have "x = r" using unique_detention [OF assms(1) that(1) r(1)] that(2) r(2) by simp
    moreover have "detention_row_ok r" using assms(1) r(1) by (simp add: detentions_ok_def)
    ultimately show ?thesis using r(3,4) by (auto simp: detention_row_ok_def detention_names)
  qed
  then have "detentions_ok ((w_db w)\<lparr>db_trip_detentions := update_where (\<lambda>r. dn_id r = i) ?f (db_trip_detentions (w_db w))\<rparr>)"
    using assms(1) by (intro detentions_ok_update) auto
  then show "detentions_ok (w_db w')" by (simp add: w' d2 detentions_ok_def)
qed

lemma attach_ok:
  assumes "detentions_ok (w_db w)"
  shows "detentions_ok (w_db (snd (AttachDetentionUseCase_Execute i t w)))"
  unfolding AttachDetentionUseCase_Execute_def
  by (rule uow_keeps_ok [OF assms]) (fold AttachDetentionUseCase_Execute_def, rule attach_success_ok [OF assms])

text \<open>What a successful waiver did.\<close>

lemma waive_Inr:
  assumes "WaiveDetentionUseCase_Execute i t w = (Inr u, w')"
  obtains r now rows where "r \<in> set (db_trip_detentions (w_db w))" and "dn_id r = i" and "dn_tenant_id r = t"
    and "dn_status r \<noteq> DetentionWaived"
    and "w_db w' = (w_db w)\<lparr>db_trip_detentions := update_where (\<lambda>r. dn_id r = i)
      (\<lambda>r. r\<lparr>dn_status := DetentionWaived, dn_amount := Fin 0, dn_updated_at := now\<rparr>) (db_trip_detentions (w_db w)),
      db_audit_logs := db_audit_logs (w_db w) @ rows\<rparr>"
proof -
  from assms obtain de w1 w2 wx where f: "Detention_Find t i (w\<lparr>w_nop := Suc (w_nop w)\<rparr>) = (Inr de, w1)"
    and c: "de_Status de \<noteq> DetentionWaived" and m: "Detention_Waive (de_ID de) w1 = (Inr (), w2)"
    and l: "logGeofenceAudit ActionWaiveDetention (de_ID de) w2 = (Inr u, wx)" and wx: "w_db w' = w_db wx"
    by (auto simp: WaiveDetentionUseCase_Execute_def uow_Inr bindE_Inr seqE_Inr failIf_Inr)
  from Detention_Find_Inr [OF f] obtain r where r: "r \<in> set (db_trip_detentions (w_db w))" "dn_id r = i" "dn_tenant_id r = t"
    "de = scanDetention (w_db w) r" "w_db w1 = w_db w" by auto
  from m r obtain now where d2: "w_db w2 = (w_db w)\<lparr>db_trip_detentions := update_where (\<lambda>r. dn_id r = i)
      (\<lambda>r. r\<lparr>dn_status := DetentionWaived, dn_amount := Fin 0, dn_updated_at := now\<rparr>) (db_trip_detentions (w_db w))\<rparr>"
    by (auto simp: Detention_Waive_def wrap_err_Inr stmt_Inr set_detention_def)
  from logGeofenceAudit_effect [OF l] obtain rows where "w_db wx = (w_db w2)\<lparr>db_audit_logs := db_audit_logs (w_db w2) @ rows\<rparr>" by blast
  with that [of r rows now] r c d2 wx show thesis by simp
qed

lemma waive_success_ok:
  assumes "detentions_ok (w_db w)" and "WaiveDetentionUseCase_Execute i t w = (Inr u, w')"
  shows "detentions_ok (w_db w')"
  using assms(2)
proof (rule waive_Inr)
  fix r now rows
  assume w': "w_db w' = (w_db w)\<lparr>db_trip_detentions := update_where (\<lambda>r. dn_id r = i)
      (\<lambda>r. r\<lparr>dn_status := DetentionWaived, dn_amount := Fin 0, dn_updated_at := now\<rparr>) (db_trip_detentions (w_db w)),
      db_audit_logs := db_audit_logs (w_db w) @ rows\<rparr>"
  let ?f = "\<lambda>r. r\<lparr>dn_status := DetentionWaived, dn_amount := Fin 0, dn_updated_at := now\<rparr>"
  have "detention_row_ok (?f x)" if "x \<in> set (db_trip_detentions (w_db w))" for x
    using assms(1) that by (auto simp: detentions_ok_def detention_row_ok_def)
  then have "detentions_ok ((w_db w)\<lparr>db_trip_detentions := update_where (\<lambda>r. dn_id r = i) ?f (db_trip_detentions (w_db w))\<rparr>)"
    using assms(1) by (intro detentions_ok_update) auto
  then show "detentions_ok (w_db w')" by (simp add: w' detentions_ok_def)
qed

lemma waive_ok:
  assumes "detentions_ok (w_db w)"
  shows "detentions_ok (w_db (snd (WaiveDetentionUseCase_Execute i t w)))"
  unfolding WaiveDetentionUseCase_Execute_def
  by (rule uow_keeps_ok [OF assms]) (fold WaiveDetentionUseCase_Execute_def, rule waive_success_ok [OF assms])

text \<open>The hook of the completion: the windows it marks were closed and billable when it read them.\<close>

lemma attach_all_ok:
  assumes "detentions_ok (w_db w)" and "\<forall>de\<in>set des. id_attachable (w_db w) (de_ID de)"
    and "attach_all t i b des w = (Inr u, w')"
  shows "detentions_ok (w_db w')"
proof -
  from assms(3) obtain booking w1 cmd iid att w2 where r: "BookingRepository_GetReadModel b t w = (Inr booking, w1)"
    and g: "GenerateInTx cmd w1 = (Inr (iid, att), w2)"
    and m: "(if \<not> att then ret () else forE des (\<lambda>de. MarkAttached (de_ID de))) w2 = (Inr u, w')"
    by (auto simp: attach_all_def bindE_Inr Let_def)
  have "sdw.keeps (BookingRepository_GetReadModel b t)"
    unfolding BookingRepository_GetReadModel_def by (intro sdw.db_intros sdw.keeps_noRowsAs)
  from sdw.keepsD [OF this r] sdw.keepsD [OF sdw.keeps_GenerateInTx g]
  have d: "db_trip_detentions (w_db w2) = db_trip_detentions (w_db w)" by (simp add: same_dwell_def)
  then have "detentions_ok (w_db w2)" "\<forall>de\<in>set des. id_attachable (w_db w2) (de_ID de)"
    using assms(1,2) by (simp_all add: detentions_ok_def id_attachable_def)
  with mark_all_ok [of des w2 u w'] m show ?thesis by (auto simp: ret_Inr split: if_splits)
qed

lemma ListClosedForTrip_attachable:
  assumes "ListClosedForTrip t i w = (Inr des, w')" and "detentions_ok (w_db w)"
  shows "w_db w' = w_db w \<and> (\<forall>de\<in>set des. id_attachable (w_db w) (de_ID de))"
proof -
  have l: "flt (Fin 0) x \<Longrightarrow> \<not> fle x (Fin 0)" for x by (cases x) (auto simp: fle_def)
  have "id_attachable (w_db w) (dn_id r)"
    if "r \<in> set (db_trip_detentions (w_db w))" "dn_status r = DetentionClosed" "flt (Fin 0) (dn_amount r)" for r
    unfolding id_attachable_def
  proof (intro ballI impI)
    fix s assume "s \<in> set (db_trip_detentions (w_db w))" "dn_id s = dn_id r"
    with unique_detention [OF assms(2) this(1) that(1)] have "s = r" by simp
    moreover have "detention_row_ok r" using assms(2) that(1) by (simp add: detentions_ok_def)
    ultimately show "attachable s" using that(2,3) l [OF that(3)] by (auto simp: attachable_def detention_row_ok_def detention_names)
  qed
  with assms(1) show ?thesis
    by (auto simp: ListClosedForTrip_def wrap_err_Inr query_Inr)
qed

lemma hook_ok:
  assumes "detentions_ok (w_db w)" and "attach_on_completion i t trip w = (Inr u, w')"
  shows "detentions_ok (w_db w')"
proof (cases "tr_BookingID trip")
  case None
  with assms show ?thesis by (simp add: attach_on_completion_def ret_Inr)
next
  case (Some b)
  with assms(2) obtain des w1 where l: "ListClosedForTrip t i w = (Inr des, w1)"
    and a: "(if des = [] then ret () else attach_all t i b des) w1 = (Inr u, w')"
    by (auto simp: attach_on_completion_def bindE_Inr)
  from ListClosedForTrip_attachable [OF l assms(1)] attach_all_ok [of w1 des t i b u w'] a assms(1)
  show ?thesis by (auto simp: ret_Inr split: if_splits)
qed

lemma complete_success_ok:
  assumes "detentions_ok (w_db w)" and "TripHandlers_CompleteTrip i t w = (Inr u, w')"
  shows "detentions_ok (w_db w')"
proof -
  from assms(2) obtain tr w1 tr' tr'' w3 w4 wx where f: "TripRepository_Find i t (w\<lparr>w_nop := Suc (w_nop w)\<rparr>) = (Inr tr, w1)"
    and s: "TripRepository_Save tr' (w1\<lparr>w_nclk := Suc (w_nclk w1)\<rparr>) = (Inr tr'', w3)"
    and a: "audit_trip ''complete'' tr'' w3 = (Inr (), w4)"
    and h: "attach_on_completion i t tr'' w4 = (Inr u, wx)" and wx: "w_db w' = w_db wx"
    by (auto simp: TripHandlers_CompleteTrip_def CompleteTripUseCase_Execute_def guarded_trip_use_case_def uow_Inr
        bindE_Inr seqE_Inr ret_Inr Now_Inr lift_result_Inr)
  have "same_dwell (w_db w) (w_db w1)" using sdw.keepsD [OF sdw.keeps_TripRepository_Find f] by simp
  moreover have "same_dwell (w_db w1) (w_db w3)" using sdw.keepsD [OF sdw.keeps_TripRepository_Save s] by simp
  moreover have "same_dwell (w_db w3) (w_db w4)"
    using sdw.keepsD [OF sdw.keeps_logAudit a [unfolded audit_trip_def]] by simp
  ultimately have "detentions_ok (w_db w4)" using assms(1) by (simp add: same_dwell_def detentions_ok_def)
  with hook_ok [OF _ h] wx show ?thesis by simp
qed

lemma complete_ok:
  assumes "detentions_ok (w_db w)"
  shows "detentions_ok (w_db (snd (TripHandlers_CompleteTrip i t w)))"
  unfolding TripHandlers_CompleteTrip_def CompleteTripUseCase_Execute_def guarded_trip_use_case_def
  by (rule uow_keeps_ok [OF assms])
    (fold guarded_trip_use_case_def, fold CompleteTripUseCase_Execute_def, fold TripHandlers_CompleteTrip_def,
      rule complete_success_ok [OF assms])

section \<open>Any order of operations\<close>

text \<open>
  Each step starts from the database the last one left, with a world of its own around it: another
  clock, other identifiers, other failures, another state of the worker.
\<close>

inductive detention_steps :: "database \<Rightarrow> database \<Rightarrow> bool" where
  start: "detention_steps d d"
| sweep: "detention_steps d (w_db w) \<Longrightarrow> detention_steps d (w_db (snd (snd (Run wr ticks (s, w)))))"
| attach: "detention_steps d (w_db w) \<Longrightarrow> detention_steps d (w_db (snd (AttachDetentionUseCase_Execute i t w)))"
| waive: "detention_steps d (w_db w) \<Longrightarrow> detention_steps d (w_db (snd (WaiveDetentionUseCase_Execute i t w)))"
| complete: "detention_steps d (w_db w) \<Longrightarrow> detention_steps d (w_db (snd (TripHandlers_CompleteTrip j t w)))"
| others: "detention_steps d e \<Longrightarrow> same_dwell e e' \<Longrightarrow> detention_steps d e'"

lemma run_ok:
  assumes "detentions_ok (w_db w)"
  shows "detentions_ok (w_db (snd (snd (Run wr ticks (s, w)))))"
  using dti.own_Run [of wr ticks] assms by (auto simp: dti.own.keeps_def own_rel_def)

lemma same_dwell_ok: "same_dwell e e' \<Longrightarrow> detentions_ok e \<Longrightarrow> detentions_ok e'"
  by (simp add: same_dwell_def detentions_ok_def)

lemma detention_steps_ok: "detention_steps d d' \<Longrightarrow> detentions_ok d \<Longrightarrow> detentions_ok d'"
  by (induction rule: detention_steps.induct)
    (auto intro: run_ok attach_ok waive_ok complete_ok same_dwell_ok)

text \<open>
  Property C30.  Whatever sweeps, attachments, waivers and completions of trips run in whatever order, and
  whatever fails in them, no detention has a negative dwell time, billable time or amount; an open
  one has no exit and costs nothing, a waived one costs nothing, and an attached one was left and
  has an amount that is not zero.
\<close>

theorem detentions_stay_sound:
  assumes "detentions_ok d" and "detention_steps d d'" and "r \<in> set (db_trip_detentions d')"
  shows "0 \<le> dn_dwell_seconds r \<and> 0 \<le> dn_billable_seconds r \<and> \<not> flt (dn_amount r) (Fin 0)
    \<and> (dn_status r = DetentionOpen \<longrightarrow> dn_exited_at r = None \<and> dn_amount r = Fin 0)
    \<and> (dn_status r = DetentionWaived \<longrightarrow> dn_amount r = Fin 0)
    \<and> (dn_status r = DetentionAttached \<longrightarrow> dn_exited_at r \<noteq> None \<and> \<not> fle (dn_amount r) (Fin 0))"
proof -
  have "detention_row_ok r" using detention_steps_ok [OF assms(2,1)] assms(3) by (simp add: detentions_ok_def)
  then show ?thesis by (auto simp: detention_row_ok_def detention_names)
qed

section \<open>What attaching leaves behind\<close>

lemma AddLineItem_items: "iv_LineItems (InvoiceAggregate_AddLineItem li a) = iv_LineItems a @ [li\<lparr>li_Amount := RoundMoney (li_Amount li)\<rparr>]"
  by (simp add: InvoiceAggregate_AddLineItem_def)

text \<open>A line of the invoice for a reference.\<close>

definition billed_on :: "InvoiceAggregate \<Rightarrow> string \<Rightarrow> bool" where
  "billed_on iv ref \<longleftrightarrow> (\<exists>li\<in>set (iv_LineItems iv). li_RefID li = Some ref)"

lemma append_lines_billed:
  "append_lines refs inps a w = (Inr a', w') \<Longrightarrow>
     set (iv_LineItems a) \<subseteq> set (iv_LineItems a')
     \<and> (\<forall>inp\<in>set inps. \<forall>r. ili_RefID inp = Some r \<longrightarrow> r \<in> set refs \<or> billed_on a' r)"
proof (induction inps arbitrary: a w)
  case (Cons inp inps)
  show ?case
  proof (cases "already_billed refs inp")
    case True
    with Cons show ?thesis by (auto simp: already_billed_def split: option.splits)
  next
    case False
    with Cons.prems obtain i w1 where "append_lines refs inps (InvoiceAggregate_AddLineItem (input_line i a inp) a) w1 = (Inr a', w')"
      by (auto simp: act_inv)
    from Cons.IH [OF this] show ?thesis
      by (force simp: AddLineItem_items billed_on_def input_line_def)
  qed
qed (simp add: ret_Inr)

lemma existing_refs_billed: "r \<in> set (existing_refs a) \<Longrightarrow> billed_on a r"
  by (auto simp: existing_refs_def billed_on_def map_filter_def)

lemma attachLineItems_billed:
  assumes "attachLineItems a inps w = (Inr a', w')" and "inp \<in> set inps" and "ili_RefID inp = Some r"
  shows "billed_on a' r"
proof -
  from assms(1) obtain b w1 where l: "append_lines (existing_refs a) inps b w1 = (Inr a', w')"
    and f: "(if \<exists>li\<in>set (iv_LineItems a). li_LineType li = LineTypeFreight then ret a
      else bindE GenerateUUID (\<lambda>i. ret (InvoiceAggregate_AddLineItem (freight_line i a) a))) w = (Inr b, w1)"
    unfolding attachLineItems_def bindE_Inr by blast
  have b: "set (iv_LineItems a) \<subseteq> set (iv_LineItems b)"
    using f by (auto simp: act_inv AddLineItem_items split: if_splits)
  from append_lines_billed [OF l] assms(2,3) have "set (iv_LineItems b) \<subseteq> set (iv_LineItems a')"
    "r \<in> set (existing_refs a) \<or> billed_on a' r" by blast+
  with b existing_refs_billed [of r a] show ?thesis by (auto simp: billed_on_def)
qed

lemma Invoice_Save_billed:
  assumes "InvoiceRepository_Save a w = (Inr a', w')" and "billed_on a r"
  shows "iv_ID a' = iv_ID a \<and> (\<exists>li\<in>set (db_invoice_line_items (w_db w')). li_RefID li = Some r)"
  by (rule Invoice_Save_Inr [OF assms(1)]) (use assms(2) in \<open>auto simp: billed_on_def\<close>)

lemma GenerateInTx_billed:
  assumes "GenerateInTx cmd w = (Inr (i, True), w')" and "inp \<in> set (gic_LineItems cmd)" and "ili_RefID inp = Some r"
  shows "\<exists>li\<in>set (db_invoice_line_items (w_db w')). li_RefID li = Some r"
proof -
  from assms(1) obtain res w1 where
    "(case res of Inr existing \<Rightarrow> attach_to_existing cmd existing
      | Inl err \<Rightarrow> if errors_Is_NoRows err then create_invoice cmd else raise err) w1 = (Inr (i, True), w')"
    by (auto simp: GenerateInTx_def seqE_Inr bindE_Inr tryE_Inr)
  then consider e where "attach_to_existing cmd e w1 = (Inr (i, True), w')" | "create_invoice cmd w1 = (Inr (i, True), w')"
    by (auto simp: raise_Inr split: sum.splits if_splits)
  then obtain a b w2 w3 a' where l: "attachLineItems a (gic_LineItems cmd) w2 = (Inr b, w3)"
    and s: "InvoiceRepository_Save b w3 = (Inr a', w')"
  proof cases
    case 1
    then show thesis by (auto simp: attach_to_existing_def act_inv split: if_splits intro: that)
  next
    case 2
    then show thesis by (auto simp: create_invoice_def act_inv Let_def split: if_splits intro: that)
  qed
  from Invoice_Save_billed [OF s attachLineItems_billed [OF l assms(2,3)]] show ?thesis by blast
qed


section \<open>Trips that have no invoice\<close>

lemma ticks_attachLineItems: "ticks.keeps (attachLineItems a inps)"
proof -
  have "ticks.keeps (append_lines refs inps a)" for refs a
    by (induction inps arbitrary: a) (auto intro!: ticks_intros)
  then show ?thesis unfolding attachLineItems_def by (intro ticks_intros)
qed

lemma ticks_pricing: "ticks.keeps (resolveBookingPricing t b)"
  unfolding resolveBookingPricing_def BookingRepository_GetReadModel_def GetCompanySettings_def noRowsAs_def
  by (intro ticks_intros)

lemma ticks_findInvoice: "ticks.keeps (findInvoiceBySQL p)"
  unfolding findInvoiceBySQL_def loadLineItems_def by (intro ticks_intros)

text \<open>With foreign keys enforced, a new invoice needs a booking that exists.\<close>

lemma Invoice_Save_references:
  assumes "InvoiceRepository_Save a w = (Inr a', w')" and "env_fk (w_env w)"
    and "\<forall>r\<in>set (db_invoices (w_db w)). ir_version r \<noteq> iv_Version a"
  shows "iv_BookingID a \<in> br_id ` set (db_bookings (w_db w))"
proof -
  from assms(1) obtain ex w1 a1 w2 where e: "invoice_exists (iv_ID a) (iv_TenantID a) w = (Inr ex, w1)"
    and m: "(if ex then update_invoice a else insert_invoice a) w1 = (Inr a1, w2)"
    by (auto simp: InvoiceRepository_Save_def act_inv)
  have w1: "w_db w1 = w_db w" "w_env w1 = w_env w" using e by (auto simp: invoice_exists_def query_Inr)
  show ?thesis
  proof (cases ex)
    case True
    with m have "update_invoice a w1 = (Inr a1, w2)" by simp
    from update_invoice_Inr [OF this] obtain r where "find (invoice_selected (invoice_columns a)) (db_invoices (w_db w1)) = Some r" by blast
    from find_SomeD [OF this] assms(3) w1 show ?thesis by (auto simp: invoice_selected_def invoice_columns_def)
  next
    case False
    with m obtain x d0 now where "CreateInvoice (invoice_columns a) (env_fk (w_env w1)) now (w_db w1) = Inr (x, d0)"
      by (auto simp: insert_invoice_def act_inv stmt_Inr)
    from CreateInvoice_Inr [OF this] assms(2) w1 have "invoice_references (w_db w) x" "ir_booking_id x = iv_BookingID a"
      by (auto simp: invoice_violation_def invoice_columns_def split: if_splits)
    then show ?thesis by (simp add: invoice_references_def)
  qed
qed

lemma create_invoice_references:
  assumes "create_invoice cmd w = (Inr x, w')" and "env_fk (w_env w)"
    and "\<forall>r\<in>set (db_invoices (w_db w)). ir_version r \<noteq> 0"
  shows "gic_BookingID cmd \<in> br_id ` set (db_bookings (w_db w))"
proof -
  from assms(1) obtain pr w1 p w2 i w3 n w4 now w5 iv w6 a' where
    pr: "resolveBookingPricing (gic_TenantID cmd) (gic_BookingID cmd) w = (Inr pr, w1)"
    and p: "(case pr of Some p \<Rightarrow> ret p
       | None \<Rightarrow> seqE (lift_result (validateInvoiceAmounts (gic_Subtotal cmd) (gic_Tax cmd) (gic_Discount cmd) (gic_Total cmd)))
           (ret \<lparr>dp_subtotal = gic_Subtotal cmd, dp_tax = gic_Tax cmd, dp_discount = gic_Discount cmd, dp_total = gic_Total cmd\<rparr>)) w1 = (Inr p, w2)"
    and i: "GenerateUUID w2 = (Inr i, w3)" and n: "GenerateDisplayID ''INV'' w3 = (Inr n, w4)" and t: "Now w4 = (Inr now, w5)"
    and l: "(let iv = NewInvoiceAggregate i (gic_TenantID cmd) n (gic_BookingID cmd) (gic_CustomerID cmd) (gic_TripID cmd)
              (dp_subtotal p) (dp_tax p) (dp_discount p) (dp_total p) PaymentStatusPending now in
            if gic_LineItems cmd \<noteq> [] then attachLineItems iv (gic_LineItems cmd) else ret iv) w5 = (Inr iv, w6)"
    and s: "InvoiceRepository_Save iv w6 = (Inr a', w')"
    unfolding create_invoice_def bindE_Inr ret_Inr by blast
  have "w_env w2 = w_env w1 \<and> w_db w2 = w_db w1" using p by (auto simp: act_inv split: option.splits)
  moreover have "w_env w1 = w_env w" using ticks.keepsD [OF ticks_pricing pr] by simp
  moreover have "w_db w1 = w_db w" using resolveBookingPricing_store [OF pr] .
  moreover have "w_env w5 = w_env w2 \<and> w_db w5 = w_db w2"
    using i n t by (auto simp: GenerateDisplayID_def act_inv)
  moreover have "w_env w6 = w_env w5 \<and> w_db w6 = w_db w5 \<and> iv_BookingID iv = gic_BookingID cmd \<and> iv_Version iv = 0"
    using l ticks.keepsD [OF ticks_attachLineItems, of _ "gic_LineItems cmd" w5 "Inr iv" w6]
    by (auto simp: act_inv Let_def NewInvoiceAggregate_def split: if_splits dest!: attachLineItems_Inr)
  ultimately show ?thesis using Invoice_Save_references [OF s] assms(2,3) by simp
qed

text \<open>
  For a trip that has no invoice yet, attaching a detention by hand always fails when
  foreign keys are enforced: the detention-only invoice it would make has an empty booking, which
  no booking row has.
\<close>

theorem attach_needs_invoice:
  assumes "env_fk (w_env w)" and "billing_ok (w_db w)" and "[] \<notin> br_id ` set (db_bookings (w_db w))"
    and "\<forall>r\<in>set (db_trip_detentions (w_db w)). dn_id r = i \<longrightarrow>
      (\<forall>v\<in>set (db_invoices (w_db w)). ir_tenant_id v = t \<longrightarrow> ir_trip_id v \<noteq> Some (dn_trip_id r))"
  shows "\<exists>e. fst (AttachDetentionUseCase_Execute i t w) = Inl e"
proof (rule ccontr)
  assume "\<not> ?thesis"
  then obtain u w' where run: "AttachDetentionUseCase_Execute i t w = (Inr u, w')"
    by (cases "AttachDetentionUseCase_Execute i t w"; cases "fst (AttachDetentionUseCase_Execute i t w)") auto
  from run obtain de w1 where f: "Detention_Find t i (w\<lparr>w_nop := Suc (w_nop w)\<rparr>) = (Inr de, w1)"
    and a: "\<exists>u wx. attach_found t de w1 = (Inr u, wx)"
    by (auto simp: AttachDetentionUseCase_Execute_def uow_Inr bindE_Inr seqE_Inr failIf_Inr)
  have e1: "w_env w1 = w_env w"
    using ticks.keepsD [of "Detention_Find t i" "w\<lparr>w_nop := Suc (w_nop w)\<rparr>" "Inr de" w1] f
    unfolding Detention_Find_def by (auto intro!: ticks_intros)
  from Detention_Find_Inr [OF f] obtain r where r: "r \<in> set (db_trip_detentions (w_db w))" "dn_id r = i"
    "de = scanDetention (w_db w) r" and d1: "w_db w1 = w_db w" by auto
  from a obtain x w2 where g: "GenerateInTx (attach_command t de) w1 = (Inr x, w2)"
    by (auto simp: attach_found_def bindE_Inr)
  let ?p = "\<lambda>v. ir_trip_id v = Some (dn_trip_id r) \<and> ir_tenant_id v = t"
  obtain res w3 where q: "findInvoiceBySQL ?p w1 = (res, w3)" by fastforce
  have c: "gic_BookingID (attach_command t de) = []" "gic_TripID (attach_command t de) = Some (dn_trip_id r)"
    "gic_TenantID (attach_command t de) = t" using r(3) by (simp_all add: attach_command_def)
  have rest: "(case res of Inr existing \<Rightarrow> attach_to_existing (attach_command t de) existing
      | Inl err \<Rightarrow> if errors_Is_NoRows err then create_invoice (attach_command t de) else raise err) w3 = (Inr x, w2)"
    using g q c by (simp add: GenerateInTx_def InvoiceRepository_FindByTripID_def str_or_empty_def act_simps)
  have w3: "w_db w3 = w_db w" "w_env w3 = w_env w"
    using findInvoiceBySQL_store [OF q] ticks.keepsD [OF ticks_findInvoice q] d1 e1 by (simp_all add: same_store_def)
  show False
  proof (cases res)
    case (Inr existing)
    from findInvoiceBySQL_Inr [OF q [unfolded Inr]] obtain v where "find ?p (db_invoices (w_db w1)) = Some v" by blast
    from find_SomeD [OF this] r(1,2) assms(4) d1 show False by auto
  next
    case (Inl err)
    with rest have c: "create_invoice (attach_command t de) w3 = (Inr x, w2)" by (auto simp: raise_def split: if_splits)
    have "\<forall>v\<in>set (db_invoices (w_db w3)). ir_version v \<noteq> 0" using assms(2) w3 by (auto simp: billing_ok_def)
    from create_invoice_references [OF c _ this] assms(1,3) w3 show False by (simp add: attach_command_def)
  qed
qed

section \<open>Concrete detentions\<close>

definition demo_detention :: detention_row where
  "demo_detention = \<lparr>dn_id = ''de1'', dn_tenant_id = ''t1'', dn_trip_id = ''tr1'', dn_vehicle_id = None, dn_geofence_id = None,
     dn_zone_kind = ''pickup'', dn_entered_at = 0, dn_exited_at = Some (10800 * 10 ^ 9), dn_dwell_seconds = 10800,
     dn_free_seconds = 1800, dn_billable_seconds = 9000, dn_rate_per_hour = Fin 100, dn_amount = Fin 250,
     dn_status = DetentionClosed, dn_updated_at = 0\<rparr>"

definition demo_trip_row :: trip_row where
  "demo_trip_row = \<lparr>tw_id = ''tr1'', tw_trip_number = ''TR-1'', tw_booking_id = Some ''b1'', tw_driver_id = None,
     tw_vehicle_id = None, tw_route_id = ''r1'', tw_departure_time = 0, tw_arrival_time = None, tw_status = ''delivered'',
     tw_remarks = None, tw_tenant_id = ''t1'', tw_version = 1, tw_created_at = 0, tw_updated_at = 0, tw_started_at = None,
     tw_reached_pickup_at = None, tw_in_transit_at = None, tw_delivered_at = None, tw_completed_at = None\<rparr>"

definition demo_detention_world :: "invoice_row list \<Rightarrow> world" where
  "demo_detention_world ivs = demo_world\<lparr>w_db := demo_db\<lparr>db_trips := [demo_trip_row], db_invoices := ivs,
     db_trip_detentions := [demo_detention]\<rparr>\<rparr>"

definition demo_trip_invoice :: invoice_row where
  "demo_trip_invoice = demo_invoice\<lparr>ir_trip_id := Some ''tr1''\<rparr>"

lemma demo_detentions_ok: "detentions_ok (w_db (demo_detention_world ivs))"
  by (simp add: detentions_ok_def demo_detention_world_def demo_detention_def detention_row_ok_def detention_names fle_def)

lemma demo_attach_run: "fst (AttachDetentionUseCase_Execute ''de1'' ''t1'' (demo_detention_world [demo_trip_invoice])) = Inr ()"
  by code_simp


lemma demo_waived:
  "map (\<lambda>r. (dn_id r, dn_status r)) (db_trip_detentions (w_db (snd (WaiveDetentionUseCase_Execute ''de1'' ''t1'' (demo_detention_world [])))))
     = [(''de1'', DetentionWaived)]"
  by code_simp

theorem detentions_stay_sound_witness:
  "\<exists>r\<in>set (db_trip_detentions (w_db (snd (WaiveDetentionUseCase_Execute ''de1'' ''t1'' (demo_detention_world []))))).
     dn_status r = DetentionWaived \<and> dn_amount r = Fin 0"
proof -
  let ?d = "w_db (snd (WaiveDetentionUseCase_Execute ''de1'' ''t1'' (demo_detention_world [])))"
  from demo_waived obtain r where r: "r \<in> set (db_trip_detentions ?d)" "dn_status r = DetentionWaived"
    by (cases "db_trip_detentions ?d") auto
  have "detention_steps (w_db (demo_detention_world [])) ?d"
    by (intro detention_steps.waive detention_steps.start)
  from detentions_stay_sound [OF demo_detentions_ok this r(1)] r show ?thesis by blast
qed

theorem attach_needs_invoice_witness:
  "\<exists>e. fst (AttachDetentionUseCase_Execute ''de1'' ''t1'' (demo_detention_world [])) = Inl e"
proof (rule attach_needs_invoice)
  show "env_fk (w_env (demo_detention_world []))" by (simp add: demo_detention_world_def demo_world_def demo_env_def)
  show "billing_ok (w_db (demo_detention_world []))"
    by (simp add: billing_ok_def invoices_ok_def invoiced_bookings_def demo_detention_world_def demo_db_def)
  show "[] \<notin> br_id ` set (db_bookings (w_db (demo_detention_world [])))"
    by (simp add: demo_detention_world_def demo_db_def demo_booking_def)
qed (simp add: demo_detention_world_def demo_db_def)

end
