(* ===== verification/Leader.thy ===== *)
theory Leader
  imports Go_Text
begin

text \<open>
  Leader leases (\<open>internal/leader/leader.go\<close> on table \<open>worker_leases\<close> of migration
  00079): one row per lease name with its holder and the time in milliseconds it expires at.
\<close>

section \<open>Leases\<close>

record lease_row =
  ls_name :: string
  ls_holder :: string
  ls_expires_at :: int

record Manager =
  mg_holder :: string
  mg_ttl :: int

definition DefaultTTL :: int where "DefaultTTL = 30 * 10 ^ 9"

text \<open>\<open>hostPid\<close> is what the operating system gives for host name and process.\<close>

definition NewManager :: "string \<Rightarrow> string \<Rightarrow> int \<Rightarrow> Manager" where
  "NewManager hostPid holder ttl =
     \<lparr>mg_holder = (if holder = [] then hostPid else holder), mg_ttl = (if ttl \<le> 0 then DefaultTTL else ttl)\<rparr>"

definition UnixMilli :: "go_time \<Rightarrow> int" where
  "UnixMilli t = wrap64 ((t - 719162 * day_ns) div 10 ^ 6)"

definition ttl_millis :: "Manager \<Rightarrow> int" where
  "ttl_millis m = mg_ttl m div 10 ^ 6"

text \<open>
  The upsert: insert, or on a conflict of the name replace the row if it is expired or our own.
  The result is the number of rows affected.
\<close>

definition claim_lease :: "string \<Rightarrow> string \<Rightarrow> int \<Rightarrow> int \<Rightarrow> lease_row list \<Rightarrow> int \<times> lease_row list" where
  "claim_lease name holder expiry now rows =
     (case find (\<lambda>r. ls_name r = name) rows of
        None \<Rightarrow> (1, rows @ [\<lparr>ls_name = name, ls_holder = holder, ls_expires_at = expiry\<rparr>])
      | Some r \<Rightarrow>
          if ls_expires_at r < now \<or> ls_holder r = holder
          then (1, update_where (\<lambda>r. ls_name r = name) (\<lambda>r. r\<lparr>ls_holder := holder, ls_expires_at := expiry\<rparr>) rows)
          else (0, rows))"

text \<open>\<open>fault\<close>: the statement failed.\<close>

definition tryAcquire :: "goerr option \<Rightarrow> Manager \<Rightarrow> string \<Rightarrow> go_time \<Rightarrow> lease_row list \<Rightarrow> bool result \<times> lease_row list" where
  "tryAcquire fault m name clock rows =
     (let now = UnixMilli clock; expiry = wrap64 (now + ttl_millis m) in
      case fault of
        Some e \<Rightarrow> (Inl (WrapError (''leader: acquire '' @ name) e), rows)
      | None \<Rightarrow> (case claim_lease name (mg_holder m) expiry now rows of (n, rows') \<Rightarrow> (Inr (n = 1), rows')))"

definition Release :: "goerr option \<Rightarrow> Manager \<Rightarrow> string \<Rightarrow> lease_row list \<Rightarrow> lease_row list" where
  "Release fault m name rows =
     (case fault of Some e \<Rightarrow> rows | None \<Rightarrow> filter (\<lambda>r. \<not> (ls_name r = name \<and> ls_holder r = mg_holder m)) rows)"

section \<open>Waiting for a lease\<close>

text \<open>
  The first loop of \<open>RunAsLeader\<close>: an attempt, then a wait of a sixth of the lease's
  lifetime.  What the \<open>n\<close>-th attempt meets is the argument: the clock, the rows, whether the
  statement fails and whether the context is done after it.  The loop ends with the attempt that
  won, or without one.
\<close>

record attempts =
  at_clock :: "nat \<Rightarrow> go_time"
  at_rows :: "nat \<Rightarrow> lease_row list"
  at_fault :: "nat \<Rightarrow> goerr option"
  at_done :: "nat \<Rightarrow> bool"

definition attempt :: "Manager \<Rightarrow> string \<Rightarrow> attempts \<Rightarrow> nat \<Rightarrow> bool result \<times> lease_row list" where
  "attempt m name e n = tryAcquire (at_fault e n) m name (at_clock e n) (at_rows e n)"

partial_function (option) wait_for_lease :: "Manager \<Rightarrow> string \<Rightarrow> attempts \<Rightarrow> nat \<Rightarrow> nat option option" where
  "wait_for_lease m name e n =
     (if fst (attempt m name e n) = Inr True then Some (Some n)
      else if at_done e n then Some None
      else wait_for_lease m name e (Suc n))"

section \<open>A fleet of replicas\<close>

text \<open>
  A replica waits for the lease, leads (its function runs and its renewal loop is alive), winds
  down (a renewal failed, the context of the function is cancelled, the function has not returned
  yet), leads without renewing (\<open>TryRunAsLeader\<close>), leaves (the function has returned and the
  lease is released, the renewal loop is not stopped yet), or is done.
\<close>

datatype phase = Waiting | Leading | WindingDown | LeadingOnce | Leaving | Finished

record replica =
  rp_manager :: Manager
  rp_phase :: phase
  rp_granted :: int

record fleet =
  ft_leases :: "lease_row list"
  ft_clock :: go_time
  ft_replicas :: "nat \<Rightarrow> replica"

definition running :: "replica \<Rightarrow> bool" where
  "running r \<longleftrightarrow> rp_phase r \<in> {Leading, WindingDown, LeadingOnce}"

text \<open>The outcome of a claim by replica \<open>p\<close>: its new phase, and the time of the claim if it won.\<close>

definition after_claim :: "string \<Rightarrow> nat \<Rightarrow> goerr option \<Rightarrow> phase \<Rightarrow> phase \<Rightarrow> fleet \<Rightarrow> fleet" where
  "after_claim name p fault won lost s =
     (let r = ft_replicas s p in
      case tryAcquire fault (rp_manager r) name (ft_clock s) (ft_leases s) of (res, rows) \<Rightarrow>
        s\<lparr>ft_leases := rows,
          ft_replicas := (ft_replicas s)(p :=
            (if res = Inr True then r\<lparr>rp_phase := won, rp_granted := UnixMilli (ft_clock s)\<rparr> else r\<lparr>rp_phase := lost\<rparr>))\<rparr>)"

definition set_phase :: "nat \<Rightarrow> phase \<Rightarrow> fleet \<Rightarrow> fleet" where
  "set_phase p ph s = s\<lparr>ft_replicas := (ft_replicas s)(p := (ft_replicas s p)\<lparr>rp_phase := ph\<rparr>)\<rparr>"

inductive fleet_step :: "string \<Rightarrow> fleet \<Rightarrow> fleet \<Rightarrow> bool" for name :: string where
  time_passes: "ft_clock s \<le> t \<Longrightarrow> fleet_step name s (s\<lparr>ft_clock := t\<rparr>)"
| claim: "rp_phase (ft_replicas s p) = Waiting \<Longrightarrow> fleet_step name s (after_claim name p fault Leading Waiting s)"
| claim_once: "rp_phase (ft_replicas s p) = Waiting \<Longrightarrow> fleet_step name s (after_claim name p fault LeadingOnce Waiting s)"
| renew: "rp_phase (ft_replicas s p) = Leading \<Longrightarrow> fleet_step name s (after_claim name p fault Leading WindingDown s)"
| give_up: "rp_phase (ft_replicas s p) = Waiting \<Longrightarrow> fleet_step name s (set_phase p Finished s)"
| returns: "running (ft_replicas s p) \<Longrightarrow>
    fleet_step name s (set_phase p (if rp_phase (ft_replicas s p) = Leading then Leaving else Finished)
      (s\<lparr>ft_leases := Release fault (rp_manager (ft_replicas s p)) name (ft_leases s)\<rparr>))"
| late_renewal: "rp_phase (ft_replicas s p) = Leaving \<Longrightarrow> fleet_step name s (after_claim name p fault Leaving Finished s)"
| stops: "rp_phase (ft_replicas s p) = Leaving \<Longrightarrow> fleet_step name s (set_phase p Finished s)"

text \<open>
  Any number of replicas with managers and holder names of their own start out waiting, at a time
  after 1970.
\<close>

definition millis :: "go_time \<Rightarrow> int" where
  "millis t = (t - 719162 * day_ns) div 10 ^ 6"

definition fleet_start :: "fleet \<Rightarrow> bool" where
  "fleet_start s \<longleftrightarrow> 0 \<le> millis (ft_clock s) \<and> (\<forall>p. rp_phase (ft_replicas s p) = Waiting)
     \<and> (\<forall>p. 0 < mg_ttl (rp_manager (ft_replicas s p)) \<and> mg_ttl (rp_manager (ft_replicas s p)) < 2 ^ 63)
     \<and> (\<forall>p q. mg_holder (rp_manager (ft_replicas s p)) = mg_holder (rp_manager (ft_replicas s q)) \<longrightarrow> p = q)"

inductive reachable :: "string \<Rightarrow> fleet \<Rightarrow> bool" for name :: string where
  start: "fleet_start s \<Longrightarrow> reachable name s"
| step: "reachable name s \<Longrightarrow> fleet_step name s s' \<Longrightarrow> reachable name s'"

section \<open>One leader at a time\<close>

text \<open>A replica's claim is good up to the millisecond it expires in.\<close>

definition in_time :: "fleet \<Rightarrow> nat \<Rightarrow> bool" where
  "in_time s p \<longleftrightarrow> millis (ft_clock s) \<le> rp_granted (ft_replicas s p) + ttl_millis (rp_manager (ft_replicas s p))"

definition holds_row :: "string \<Rightarrow> fleet \<Rightarrow> nat \<Rightarrow> bool" where
  "holds_row name s p \<longleftrightarrow> find (\<lambda>r. ls_name r = name) (ft_leases s) =
     Some \<lparr>ls_name = name, ls_holder = mg_holder (rp_manager (ft_replicas s p)),
       ls_expires_at = rp_granted (ft_replicas s p) + ttl_millis (rp_manager (ft_replicas s p))\<rparr>"

text \<open>Times the arithmetic on 64 bits is exact for: up to the year 146 million.\<close>

definition far_future :: int where "far_future = 2 ^ 62"

definition fleet_inv :: "string \<Rightarrow> fleet \<Rightarrow> bool" where
  "fleet_inv name s \<longleftrightarrow> 0 \<le> millis (ft_clock s)
     \<and> (\<forall>p. 0 < mg_ttl (rp_manager (ft_replicas s p)) \<and> mg_ttl (rp_manager (ft_replicas s p)) < 2 ^ 63)
     \<and> (\<forall>p q. mg_holder (rp_manager (ft_replicas s p)) = mg_holder (rp_manager (ft_replicas s q)) \<longrightarrow> p = q)
     \<and> (millis (ft_clock s) < far_future \<longrightarrow> (\<forall>p. running (ft_replicas s p) \<and> in_time s p \<longrightarrow> holds_row name s p))"

lemma UnixMilli_exact: "0 \<le> millis t \<Longrightarrow> millis t < far_future \<Longrightarrow> UnixMilli t = millis t"
  using wrap64_id [of "millis t"] by (simp add: UnixMilli_def millis_def far_future_def)

lemma ttl_millis_bound: "0 < mg_ttl m \<Longrightarrow> mg_ttl m < 2 ^ 63 \<Longrightarrow> 0 \<le> ttl_millis m \<and> ttl_millis m < 2 ^ 62"
  unfolding ttl_millis_def by auto

lemma expiry_exact:
  "0 \<le> n \<Longrightarrow> n < far_future \<Longrightarrow> 0 < mg_ttl m \<Longrightarrow> mg_ttl m < 2 ^ 63 \<Longrightarrow> wrap64 (n + ttl_millis m) = n + ttl_millis m"
  using ttl_millis_bound [of m] by (simp add: far_future_def wrap64_def)

text \<open>A claim that wins leaves the claimed row; one that does not leaves every row.\<close>

lemma claim_lease_won:
  assumes "claim_lease name holder expiry now rows = (1, rows')"
  shows "find (\<lambda>r. ls_name r = name) rows' = Some \<lparr>ls_name = name, ls_holder = holder, ls_expires_at = expiry\<rparr>"
proof (cases "find (\<lambda>r. ls_name r = name) rows")
  case None
  with assms show ?thesis by (auto simp: claim_lease_def find_append)
next
  case (Some r)
  with assms have "rows' = update_where (\<lambda>r. ls_name r = name) (\<lambda>r. r\<lparr>ls_holder := holder, ls_expires_at := expiry\<rparr>) rows"
    by (auto simp: claim_lease_def split: if_splits)
  with Some find_SomeD [OF Some] show ?thesis by (simp add: find_update_where)
qed

lemma claim_lease_blocked:
  "find (\<lambda>r. ls_name r = name) rows = Some r \<Longrightarrow> now \<le> ls_expires_at r \<Longrightarrow> ls_holder r \<noteq> holder \<Longrightarrow>
   claim_lease name holder expiry now rows = (0, rows)"
  by (simp add: claim_lease_def)

lemma tryAcquire_cases:
  assumes "tryAcquire fault m name t rows = (res, rows')"
  obtains "res = Inr True" and "claim_lease name (mg_holder m) (wrap64 (UnixMilli t + ttl_millis m)) (UnixMilli t) rows = (1, rows')"
  | "res \<noteq> Inr True" and "rows' = rows"
  using assms
  by (auto simp: tryAcquire_def claim_lease_def Let_def split: option.splits if_splits prod.splits)

lemma find_filter_keep: "find p xs = Some r \<Longrightarrow> q r \<Longrightarrow> find p (filter q xs) = Some r"
  by (induction xs) (auto split: if_splits)

lemma claim_inv:
  assumes "fleet_inv name s"
    and "\<not> running (ft_replicas s p) \<Longrightarrow> \<not> running (ft_replicas s p\<lparr>rp_phase := lost\<rparr>)"
  shows "fleet_inv name (after_claim name p fault won lost s)"
proof -
  let ?r = "ft_replicas s p"
  let ?m = "rp_manager ?r"
  obtain res rows where t: "tryAcquire fault ?m name (ft_clock s) (ft_leases s) = (res, rows)" by fastforce
  let ?s = "after_claim name p fault won lost s"
  have s': "?s = s\<lparr>ft_leases := rows, ft_replicas := (ft_replicas s)(p :=
      (if res = Inr True then ?r\<lparr>rp_phase := won, rp_granted := UnixMilli (ft_clock s)\<rparr> else ?r\<lparr>rp_phase := lost\<rparr>))\<rparr>"
    by (simp add: after_claim_def t Let_def)
  have man: "rp_manager (ft_replicas ?s q) = rp_manager (ft_replicas s q)" for q by (simp add: s')
  have clk: "ft_clock ?s = ft_clock s" by (simp add: s')
  have row: "holds_row name ?s q" if q: "millis (ft_clock s) < far_future" "running (ft_replicas ?s q)" "in_time ?s q" for q
    using t
  proof (cases rule: tryAcquire_cases)
    case 1
    have ex: "UnixMilli (ft_clock s) = millis (ft_clock s)" using assms(1) q(1) by (simp add: fleet_inv_def UnixMilli_exact)
    have w: "wrap64 (millis (ft_clock s) + ttl_millis ?m) = millis (ft_clock s) + ttl_millis ?m"
      using assms(1) q(1) by (intro expiry_exact) (auto simp: fleet_inv_def)
    show ?thesis
    proof (cases "q = p")
      case True
      with claim_lease_won [OF 1(2)] 1(1) ex w show ?thesis by (simp add: holds_row_def s')
    next
      case False
      with q 1(1) have "running (ft_replicas s q)" "in_time s q" by (simp_all add: s' in_time_def)
      with assms(1) q(1) have h: "find (\<lambda>r. ls_name r = name) (ft_leases s) = Some \<lparr>ls_name = name,
        ls_holder = mg_holder (rp_manager (ft_replicas s q)),
        ls_expires_at = rp_granted (ft_replicas s q) + ttl_millis (rp_manager (ft_replicas s q))\<rparr>"
        by (simp add: fleet_inv_def holds_row_def)
      have "mg_holder (rp_manager (ft_replicas s q)) \<noteq> mg_holder ?m" using assms(1) False by (auto simp: fleet_inv_def)
      with claim_lease_blocked [OF h, of "UnixMilli (ft_clock s)" "mg_holder ?m"] \<open>in_time s q\<close> 1(2) ex
      show ?thesis by (simp add: in_time_def)
    qed
  next
    case 2
    have "running (ft_replicas s q)" "in_time s q" using q 2(1) assms(2) by (auto simp: s' in_time_def split: if_splits)
    with assms(1) q(1) have "holds_row name s q" by (simp add: fleet_inv_def)
    with 2 show ?thesis by (auto simp: holds_row_def s')
  qed
  have "\<forall>p. 0 < mg_ttl (rp_manager (ft_replicas ?s p)) \<and> mg_ttl (rp_manager (ft_replicas ?s p)) < 2 ^ 63"
    "\<forall>p q. mg_holder (rp_manager (ft_replicas ?s p)) = mg_holder (rp_manager (ft_replicas ?s q)) \<longrightarrow> p = q"
    "0 \<le> millis (ft_clock ?s)"
    using assms(1) unfolding man clk by (simp_all add: fleet_inv_def)
  with row show ?thesis unfolding fleet_inv_def clk by blast
qed

lemma set_phase_inv:
  assumes "fleet_inv name s" and "\<not> running (ft_replicas s p\<lparr>rp_phase := ph\<rparr>)"
    and "\<And>q. q \<noteq> p \<Longrightarrow> running (ft_replicas s q) \<Longrightarrow> holds_row name s q \<Longrightarrow>
      find (\<lambda>r. ls_name r = name) rows = find (\<lambda>r. ls_name r = name) (ft_leases s)"
  shows "fleet_inv name (set_phase p ph (s\<lparr>ft_leases := rows\<rparr>))"
proof -
  let ?s = "set_phase p ph (s\<lparr>ft_leases := rows\<rparr>)"
  have man: "rp_manager (ft_replicas ?s q) = rp_manager (ft_replicas s q)"
    "rp_granted (ft_replicas ?s q) = rp_granted (ft_replicas s q)" for q by (simp_all add: set_phase_def)
  have clk: "ft_clock ?s = ft_clock s" "ft_leases ?s = rows" by (simp_all add: set_phase_def)
  have "holds_row name ?s q" if q: "millis (ft_clock s) < far_future" "running (ft_replicas ?s q)" "in_time ?s q" for q
  proof -
    have "q \<noteq> p" using q(2) assms(2) by (auto simp: set_phase_def)
    with q have r: "running (ft_replicas s q)" "in_time s q" by (simp_all add: set_phase_def in_time_def)
    with assms(1) q(1) have h: "holds_row name s q" by (simp add: fleet_inv_def)
    with assms(3) [OF \<open>q \<noteq> p\<close> r(1) h] show ?thesis unfolding holds_row_def man clk by simp
  qed
  with assms(1) show ?thesis unfolding fleet_inv_def man clk by blast
qed

lemma fleet_inv_step: "fleet_step name s s' \<Longrightarrow> fleet_inv name s \<Longrightarrow> fleet_inv name s'"
proof (induction rule: fleet_step.induct)
  case (time_passes s t)
  have m: "millis (ft_clock s) \<le> millis t" using time_passes(1) by (auto simp: millis_def intro: zdiv_mono1)
  with time_passes(2) show ?case by (fastforce simp: fleet_inv_def in_time_def holds_row_def)
next
  case (returns s p fault)
  let ?ph = "if rp_phase (ft_replicas s p) = Leading then Leaving else Finished"
  show ?case
  proof (rule set_phase_inv)
    show "\<not> running (ft_replicas s p\<lparr>rp_phase := ?ph\<rparr>)" by (simp add: running_def)
    fix q assume q: "q \<noteq> p" "running (ft_replicas s q)" "holds_row name s q"
    have "mg_holder (rp_manager (ft_replicas s q)) \<noteq> mg_holder (rp_manager (ft_replicas s p))"
      using returns(2) q(1) by (auto simp: fleet_inv_def)
    with q(3) show "find (\<lambda>r. ls_name r = name) (Release fault (rp_manager (ft_replicas s p)) name (ft_leases s))
      = find (\<lambda>r. ls_name r = name) (ft_leases s)"
      by (auto simp: Release_def holds_row_def split: option.split intro!: find_filter_keep)
  qed (rule returns(2))
next
  case (give_up s p)
  from set_phase_inv [OF give_up(2), where p = p and ph = Finished and rows = "ft_leases s"] show ?case by (simp add: running_def)
next
  case (stops s p)
  from set_phase_inv [OF stops(2), where p = p and ph = Finished and rows = "ft_leases s"] show ?case by (simp add: running_def)
qed (rule claim_inv; simp add: running_def)+

lemma fleet_start_inv: "fleet_start s \<Longrightarrow> fleet_inv name s"
  by (auto simp: fleet_start_def fleet_inv_def running_def)

lemma reachable_inv: "reachable name s \<Longrightarrow> fleet_inv name s"
  by (induction rule: reachable.induct) (auto intro: fleet_inv_step fleet_start_inv)

text \<open>
  Property C5.  However claims, renewals, failures of statements, returns and late renewals interleave, no
  two replicas run under the lease while the claims of both are in time.
\<close>

theorem one_leader_in_time:
  assumes "reachable name s" and "millis (ft_clock s) < far_future"
    and "running (ft_replicas s p)" and "in_time s p" and "running (ft_replicas s q)" and "in_time s q"
  shows "p = q"
proof -
  from reachable_inv [OF assms(1)] assms(2-) have "holds_row name s p" "holds_row name s q" by (auto simp: fleet_inv_def)
  then have "mg_holder (rp_manager (ft_replicas s p)) = mg_holder (rp_manager (ft_replicas s q))" by (simp add: holds_row_def)
  with reachable_inv [OF assms(1)] show ?thesis by (auto simp: fleet_inv_def)
qed

section \<open>Late leaders\<close>

definition demo_fleet :: fleet where
  "demo_fleet = \<lparr>ft_leases = [], ft_clock = 719162 * day_ns,
     ft_replicas = (\<lambda>n. \<lparr>rp_manager = NewManager [] (replicate (Suc n) (CHR ''r'')) 0, rp_phase = Waiting, rp_granted = 0\<rparr>)\<rparr>"

lemma demo_fleet_start: "fleet_start demo_fleet"
  by (simp add: fleet_start_def demo_fleet_def millis_def NewManager_def DefaultTTL_def)

definition demo_led :: "string \<Rightarrow> fleet" where
  "demo_led name = after_claim name 0 None Leading Waiting demo_fleet"

definition demo_late :: "string \<Rightarrow> fleet" where
  "demo_late name = (demo_led name)\<lparr>ft_clock := 719162 * day_ns + 31 * 10 ^ 9\<rparr>"

lemma demo_led: "demo_led name = demo_fleet\<lparr>ft_leases := [\<lparr>ls_name = name, ls_holder = ''r'', ls_expires_at = 30000\<rparr>],
    ft_replicas := (ft_replicas demo_fleet)(0 := \<lparr>rp_manager = NewManager [] ''r'' 0, rp_phase = Leading, rp_granted = 0\<rparr>)\<rparr>"
  by (simp add: demo_led_def after_claim_def tryAcquire_def claim_lease_def demo_fleet_def Let_def UnixMilli_def ttl_millis_def
      NewManager_def DefaultTTL_def wrap64_def)

lemma demo_led_reachable: "reachable name (demo_led name)"
  unfolding demo_led_def
  by (rule reachable.step [OF reachable.start [OF demo_fleet_start]], rule fleet_step.claim) (simp add: demo_fleet_def)

text \<open>
  The time of a claim is all that keeps leaders apart: a leader whose renewal comes late runs on
  while a second replica takes the expired lease and leads as well.
\<close>

theorem late_leader_is_not_alone:
  "\<exists>s. reachable name s \<and> rp_phase (ft_replicas s 0) = Leading \<and> rp_phase (ft_replicas s 1) = Leading"
proof -
  let ?s = "after_claim name 1 None Leading Waiting (demo_late name)"
  have l: "reachable name (demo_late name)" unfolding demo_late_def
    by (rule reachable.step [OF demo_led_reachable], rule fleet_step.time_passes) (simp add: demo_led demo_fleet_def)
  have "rp_phase (ft_replicas (demo_late name) 1) = Waiting" by (simp add: demo_late_def demo_led demo_fleet_def)
  with l have "reachable name ?s" by (blast intro: reachable.step fleet_step.claim)
  moreover have "rp_phase (ft_replicas ?s 0) = Leading \<and> rp_phase (ft_replicas ?s 1) = Leading"
    by (simp add: demo_late_def demo_led after_claim_def tryAcquire_def claim_lease_def demo_fleet_def Let_def
        UnixMilli_def ttl_millis_def NewManager_def DefaultTTL_def wrap64_def)
  ultimately show ?thesis by blast
qed

theorem one_leader_in_time_witness:
  "reachable ''w'' (demo_led ''w'')
   \<and> {q. running (ft_replicas (demo_led ''w'') q) \<and> in_time (demo_led ''w'') q} = {0}"
proof -
  have r: "reachable ''w'' (demo_led ''w'')" by (rule demo_led_reachable)
  have c: "millis (ft_clock (demo_led ''w'')) < far_future" by (simp add: demo_led demo_fleet_def millis_def far_future_def)
  have p: "running (ft_replicas (demo_led ''w'') 0)" "in_time (demo_led ''w'') 0"
    by (simp_all add: demo_led demo_fleet_def running_def in_time_def millis_def ttl_millis_def NewManager_def DefaultTTL_def)
  from one_leader_in_time [OF r c p] r p show ?thesis by blast
qed

section \<open>Waiting ends\<close>

lemma wait_returns:
  "fst (attempt m name e (n + k)) = Inr True \<or> at_done e (n + k) \<Longrightarrow> \<exists>r. wait_for_lease m name e n = Some r"
proof (induction k arbitrary: n)
  case 0
  then show ?case by (auto simp: wait_for_lease.simps [of m name e n])
next
  case (Suc k)
  from Suc.IH [of "Suc n"] Suc.prems show ?case by (subst wait_for_lease.simps) simp
qed

lemma attempt_wins:
  assumes "at_fault e k = None" and "find (\<lambda>r. ls_name r = name) (at_rows e k) = Some r"
    and "ls_expires_at r < UnixMilli (at_clock e k)"
  shows "fst (attempt m name e k) = Inr True"
  using assms by (simp add: attempt_def tryAcquire_def claim_lease_def Let_def)

lemma div_million_add: "(a :: int) \<le> b + c \<Longrightarrow> a div 1000000 \<le> b div 1000000 + c div 1000000 + 1"
proof -
  assume "a \<le> b + c"
  then have "a div 1000000 \<le> (b + c) div 1000000" by (rule zdiv_mono1) simp
  also have "\<dots> = b div 1000000 + c div 1000000 + (b mod 1000000 + c mod 1000000) div 1000000" by (rule div_add1_eq)
  also have "(b mod 1000000 + c mod 1000000) div 1000000 \<le> (1999999 :: int) div 1000000"
  proof (rule zdiv_mono1)
    have "b mod 1000000 < 1000000" "c mod 1000000 < 1000000" by simp_all
    then show "b mod 1000000 + c mod 1000000 \<le> 1999999" by linarith
  qed simp
  finally show ?thesis by simp
qed

text \<open>A clock that moves on by at least a step of a millisecond passes every time, without overshooting a bound.\<close>

lemma clock_passes:
  assumes "\<And>k. clk k + step \<le> clk (Suc k)" and "\<And>k. clk (Suc k) \<le> clk k + big" and "10 ^ 6 \<le> step"
    and "0 \<le> (big :: int)"
  shows "\<exists>k. E < millis (clk (n + k)) \<and> millis (clk (n + k)) \<le> max (millis (clk n)) (E + big div 10 ^ 6 + 1)"
proof (induction "nat (E + 1 - millis (clk n))" arbitrary: n rule: less_induct)
  case less
  show ?case
  proof (cases "E < millis (clk n)")
    case True
    then show ?thesis by (intro exI [of _ 0]) simp
  next
    case False
    have up: "millis (clk n) + 1 \<le> millis (clk (Suc n))"
    proof -
      have "clk n - 719162 * day_ns + 10 ^ 6 \<le> clk (Suc n) - 719162 * day_ns" using assms(1) [of n] assms(3) by simp
      from zdiv_mono1 [OF this, of "10 ^ 6"] show ?thesis by (simp add: millis_def)
    qed
    have over: "millis (clk (Suc n)) \<le> millis (clk n) + big div 10 ^ 6 + 1"
    proof -
      have "clk (Suc n) - 719162 * day_ns \<le> (clk n - 719162 * day_ns) + big" using assms(2) [of n] by simp
      from div_million_add [OF this] show ?thesis by (simp add: millis_def)
    qed
    have "nat (E + 1 - millis (clk (Suc n))) < nat (E + 1 - millis (clk n))" using up False by linarith
    from less [OF this] obtain k where k: "E < millis (clk (Suc n + k))"
      "millis (clk (Suc n + k)) \<le> max (millis (clk (Suc n))) (E + big div 10 ^ 6 + 1)" by blast
    have "millis (clk (Suc n)) \<le> E + big div 10 ^ 6 + 1" using over False by linarith
    with k show ?thesis by (intro exI [of _ "Suc k"]) simp
  qed
qed


definition demo_attempts :: attempts where
  "demo_attempts = \<lparr>at_clock = (\<lambda>k. 719162 * day_ns + 6 * 10 ^ 9 * int k),
     at_rows = (\<lambda>_. [\<lparr>ls_name = ''w'', ls_holder = ''dead'', ls_expires_at = 30000\<rparr>]), at_fault = (\<lambda>_. None), at_done = (\<lambda>_. False)\<rparr>"


end
