(* ===== verification/Accounts.thy ===== *)
theory Accounts
  imports Own_State Outbox Go_Strconv Geofence_Config
begin

text \<open>
  The tables beside the modules that \<open>internal/service\<close> and \<open>internal/fuel\<close> keep with
  plain SQL (migrations 00030 to 00088): settlements of drivers with their lines, expenses,
  behaviour events and scores, operational alerts and founder signals, fuel events; and what the
  code does with them: statements that read every table and write these, transactions on a
  connection, and the list of events handed to the bus.
\<close>

section \<open>Tables\<close>

record settlement_row =
  st_id :: string
  st_trip_id :: string
  st_driver_id :: string
  st_gross_fare :: float64
  st_commission_amount :: float64
  st_advances_kharcha :: float64
  st_deductions :: float64
  st_performance_bonus :: float64
  st_tds_rate :: float64
  st_tds_amount :: float64
  st_net_payout :: float64
  st_rate_model :: string
  st_rate_basis_json :: "json option"
  st_status :: string
  st_payment_ref :: "string option"
  st_paid_at :: "go_time option"
  st_confirmed_at :: "go_time option"
  st_disputed_at :: "go_time option"
  st_dispute_reason :: "string option"
  st_created_at :: go_time
  st_updated_at :: go_time

record SettlementLine =
  sl_ID :: string
  sl_SettlementID :: string
  sl_TripID :: string
  sl_LineType :: string
  sl_Label :: string
  sl_Amount :: float64
  sl_RefID :: string
  sl_CreatedAt :: go_time

record expense_row =
  xe_id :: string
  xe_trip_id :: "string option"
  xe_driver_id :: "string option"
  xe_expense_type :: string
  xe_category :: string
  xe_amount :: float64
  xe_description :: "string option"
  xe_receipt_url :: "string option"
  xe_fuel_litres :: "float64 option"
  xe_status :: string
  xe_approved_by :: "string option"
  xe_approved_at :: "go_time option"
  xe_rejected_reason :: "string option"
  xe_audit_status :: string
  xe_idempotency_key :: "string option"
  xe_latitude :: "float64 option"
  xe_longitude :: "float64 option"
  xe_created_at :: go_time

record claim_audit_row =
  fc_expense_id :: string
  fc_variance_litres :: "float64 option"
  fc_variance_pct :: "float64 option"

text \<open>Columns of \<open>drivers\<close> and \<open>routes\<close> that no module reads or writes.\<close>

record driver_profile =
  dp_id :: string
  dp_pan :: "string option"
  dp_score :: "float64 option"
  dp_tier :: "string option"

text \<open>The metadata of a behaviour event: text that decodes, with its three fields, or text that does not.\<close>

record behaviourEventMeta =
  bm_Resolved :: bool
  bm_ResolvedBy :: string
  bm_ResolvedAt :: string

datatype metadata_text = MetaText behaviourEventMeta | OtherText string

record behaviour_row =
  be_id :: string
  be_driver_id :: string
  be_trip_id :: "string option"
  be_vehicle_id :: "string option"
  be_event_type :: string
  be_severity :: string
  be_weight :: float64
  be_metadata :: metadata_text
  be_occurred_at :: go_time

record score_row =
  so_id :: string
  so_driver_id :: string
  so_score :: float64
  so_tier :: string
  so_period_start :: go_time
  so_period_end :: go_time
  so_event_counts :: json
  so_computed_at :: go_time

record OpsAlert =
  oa_ID :: string
  oa_TenantID :: string
  oa_AlertType :: string
  oa_Severity :: string
  oa_Title :: string
  oa_Description :: string
  oa_EntityType :: "string option"
  oa_EntityID :: "string option"
  oa_Status :: string
  oa_AcknowledgedBy :: "string option"
  oa_AcknowledgedAt :: "go_time option"
  oa_ResolvedBy :: "string option"
  oa_ResolvedAt :: "go_time option"
  oa_ResolutionNote :: "string option"
  oa_CreatedAt :: go_time

record FounderSignal =
  fs_ID :: string
  fs_TenantID :: string
  fs_SignalType :: string
  fs_SignalValue :: float64
  fs_ThresholdValue :: "float64 option"
  fs_Direction :: string
  fs_Metadata :: json
  fs_Acknowledged :: bool
  fs_AcknowledgedBy :: "string option"
  fs_AcknowledgedAt :: "go_time option"
  fs_CreatedAt :: go_time

record AuditEntry =
  ae_ID :: string
  ae_TenantID :: string
  ae_ActorID :: string
  ae_ActorRole :: string
  ae_Action :: string
  ae_ResourceType :: string
  ae_ResourceID :: string
  ae_Details :: json
  ae_IPAddress :: string
  ae_UserAgent :: string
  ae_CreatedAt :: go_time

record fuel_event_row =
  fv_id :: string
  fv_vehicle_id :: string
  fv_trip_id :: "string option"
  fv_driver_id :: "string option"
  fv_event_type :: string
  fv_before :: float64
  fv_after :: float64
  fv_odometer_before :: float64
  fv_odometer_after :: float64
  fv_estimated_litres :: float64
  fv_confidence :: float64
  fv_details :: string
  fv_occurred_at :: go_time

text \<open>The reader is the cache of settings of the service that runs.\<close>

record books = ConfigReader +
  bk_driver_settlements :: "settlement_row list"
  bk_settlement_lines :: "SettlementLine list"
  bk_driver_expenses :: "expense_row list"
  bk_fuel_claim_audits :: "claim_audit_row list"
  bk_drivers :: "driver_profile list"
  bk_route_distances :: "(string \<times> float64) list"
  bk_behaviour_events :: "behaviour_row list"
  bk_driver_scores :: "score_row list"
  bk_ops_alerts :: "OpsAlert list"
  bk_founder_signals :: "FounderSignal list"
  bk_founder_audit :: "AuditEntry list"
  bk_fuel_events :: "fuel_event_row list"
  bk_published :: "(string \<times> json) list"

type_synonym ('x, 'a) book_act = "('x books_scheme, 'a) own_act"
type_synonym ('x, 'a) book_sql = "bool \<Rightarrow> go_time \<Rightarrow> database \<Rightarrow> 'x books_scheme \<Rightarrow> ('a \<times> 'x books_scheme) result"

section \<open>Statements and transactions\<close>

text \<open>One statement; it may fail for reasons of the driver.\<close>

definition both_stmt ::
  "(bool \<Rightarrow> go_time \<Rightarrow> database \<Rightarrow> 'x books_scheme \<Rightarrow> ('a \<times> database \<times> 'x books_scheme) result) \<Rightarrow> ('x, 'a) book_act" where
  "both_stmt q = (\<lambda>(s, w).
     let e = w_env w; w1 = w\<lparr>w_nop := Suc (w_nop w), w_nclk := Suc (w_nclk w)\<rparr> in
     case env_fault e (w_nop w) of
       Some err \<Rightarrow> (Inl err, (s, w1))
     | None \<Rightarrow> (case q (env_fk e) (trunc_second (env_clk e (w_nclk w))) (w_db w) s of
         Inl err \<Rightarrow> (Inl err, (s, w1))
       | Inr (x, d', s') \<Rightarrow> (Inr x, (s', w1\<lparr>w_db := d'\<rparr>))))"

definition book_stmt :: "('x, 'a) book_sql \<Rightarrow> ('x, 'a) book_act" where
  "book_stmt q = both_stmt (\<lambda>fk t d s. case q fk t d s of Inl e \<Rightarrow> Inl e | Inr (x, s') \<Rightarrow> Inr (x, d, s'))"

definition book_query :: "(go_time \<Rightarrow> database \<Rightarrow> 'x books_scheme \<Rightarrow> 'a result) \<Rightarrow> ('x, 'a) book_act" where
  "book_query q = book_stmt (\<lambda>fk t d s. case q t d s of Inl e \<Rightarrow> Inl e | Inr x \<Rightarrow> Inr (x, s))"

text \<open>
  \<open>BeginTx\<close>, statements, and a commit or a rollback: a body that returns an error, or asks
  for it, is rolled back.  A rollback takes back the tables, not the cache of settings and not what
  the bus was handed.
\<close>

datatype 'a tx_end = Commit 'a | Rollback 'a

definition rolled_back :: "'x books_scheme \<times> world \<Rightarrow> 'x books_scheme \<times> world \<Rightarrow> 'x books_scheme \<times> world" where
  "rolled_back p p1 =
     ((fst p)\<lparr>cr_cache := cr_cache (fst p1), cr_cacheAt := cr_cacheAt (fst p1), bk_published := bk_published (fst p1)\<rparr>,
      (snd p1)\<lparr>w_db := w_db (snd p)\<rparr>)"

definition BeginTx :: "string \<Rightarrow> string \<Rightarrow> ('x, 'a tx_end) book_act \<Rightarrow> ('x, 'a tx_end) book_act" where
  "BeginTx begin_text commit_text body = (\<lambda>(s, w).
     let w0 = w\<lparr>w_nop := Suc (w_nop w)\<rparr>; wrap = (\<lambda>t e. if t = [] then e else WrapError t e) in
     case env_fault (w_env w) (w_nop w) of
       Some err \<Rightarrow> (Inl (wrap begin_text err), (s, w0))
     | None \<Rightarrow> (case body (s, w0) of
         (Inl err, p1) \<Rightarrow> (Inl err, rolled_back (s, w) p1)
       | (Inr (Rollback x), p1) \<Rightarrow> (Inr (Rollback x), rolled_back (s, w) p1)
       | (Inr (Commit x), (s1, w1)) \<Rightarrow>
           (let w2 = w1\<lparr>w_nop := Suc (w_nop w1)\<rparr> in
            case env_fault (w_env w1) (w_nop w1) of
              Some err \<Rightarrow> (Inl (wrap commit_text err), rolled_back (s, w) (s1, w2))
            | None \<Rightarrow> (Inr (Commit x), (s1, w2)))))"

text \<open>\<open>txManager.WithTransaction\<close> and the unit of work on these tables.\<close>

definition book_uow :: "('x, 'a) book_act \<Rightarrow> ('x, 'a) book_act" where
  "book_uow fn =
     bindE (BeginTx [] [] (bindE fn (\<lambda>x. ret (Commit x)))) (\<lambda>r. ret (case r of Commit x \<Rightarrow> x | Rollback x \<Rightarrow> x))"

text \<open>\<open>_, _ = f()\<close>\<close>

definition ignore_error :: "('w, 'a) act \<Rightarrow> ('w, unit) act" where
  "ignore_error m = bindE (tryE m) (\<lambda>_. ret ())"

definition bus_publish :: "string \<Rightarrow> json \<Rightarrow> ('x, unit) book_act" where
  "bus_publish ty payload = modify_own (\<lambda>s. s\<lparr>bk_published := bk_published s @ [(ty, payload)]\<rparr>)"

text \<open>SQLite binds a NaN as NULL, which a NOT NULL column of reals rejects.\<close>

definition real_null :: "float64 \<Rightarrow> bool" where
  "real_null x \<longleftrightarrow> x = NaN"

definition fk_missing :: "bool \<Rightarrow> string option \<Rightarrow> string list \<Rightarrow> bool" where
  "fk_missing fk x ids \<longleftrightarrow> fk \<and> (case x of None \<Rightarrow> False | Some i \<Rightarrow> i \<notin> set ids)"

text \<open>\<open>baseService.logAudit\<close> (\<open>service/audit_log_service.go\<close>).\<close>

definition service_logAudit :: "string option \<Rightarrow> string \<Rightarrow> string \<Rightarrow> string \<Rightarrow> json option \<Rightarrow> json option \<Rightarrow> unit wact" where
  "service_logAudit userID action tableName recordID oldValues newValues =
     bindE getEnv (\<lambda>e.
     bindE GenerateUUID (\<lambda>i.
     ignore_error (stmt (CreateAuditLog i userID action tableName (if recordID = [] then None else Some recordID)
       oldValues newValues (getUserIP (env_ctx e))))))"

section \<open>Text\<close>

text \<open>\<open>%.nf\<close>: the nearest decimal with \<open>n\<close> digits after the point, halves to even.\<close>

definition pad_zeros :: "nat \<Rightarrow> string \<Rightarrow> string" where
  "pad_zeros n s = replicate (n - length s) (CHR ''0'') @ s"

definition fixed_digits :: "nat \<Rightarrow> int \<Rightarrow> string" where
  "fixed_digits n k =
     itoa_nat (k div 10 ^ n) @ (if n = 0 then [] else ''.'' @ pad_zeros n (itoa_nat (k mod 10 ^ n)))"

fun fmt_fixed :: "nat \<Rightarrow> float64 \<Rightarrow> string" where
  "fmt_fixed n (Fin x) =
     (if x < 0 then CHR ''-'' # fixed_digits n (rhe (- x * 10 ^ n)) else fixed_digits n (rhe (x * 10 ^ n)))"
| "fmt_fixed n PInf = ''+Inf''"
| "fmt_fixed n NInf = ''-Inf''"
| "fmt_fixed n NaN = ''NaN''"

text \<open>
  \<open>t.Format("2006-01-02 15:04:05")\<close>, and a column that holds such text: its value is the time in
  whole seconds, which the layouts of \<open>parseDBTime\<close> read back.  The server runs in UTC.
\<close>

definition timeStr :: "go_time \<Rightarrow> string" where
  "timeStr t =
     (let sec = t mod day_ns div 10 ^ 9 in
      Format_date t @ '' '' @ fmt2 (sec div 3600) @ '':'' @ fmt2 (sec div 60 mod 60) @ '':'' @ fmt2 (sec mod 60))"

section \<open>Rules for runs\<close>

lemma book_stmt_Inr:
  "book_stmt q (s, w) = (Inr x, p') \<longleftrightarrow>
     (\<exists>s'. env_fault (w_env w) (w_nop w) = None
        \<and> q (env_fk (w_env w)) (trunc_second (env_clk (w_env w) (w_nclk w))) (w_db w) s = Inr (x, s')
        \<and> p' = (s', w\<lparr>w_nop := Suc (w_nop w), w_nclk := Suc (w_nclk w)\<rparr>))"
  by (auto simp: book_stmt_def both_stmt_def Let_def split: option.splits sum.splits prod.splits)

lemma book_query_Inr [act_inv]:
  "book_query q p = (Inr x, p') \<longleftrightarrow>
     env_fault (w_env (snd p)) (w_nop (snd p)) = None
     \<and> q (trunc_second (env_clk (w_env (snd p)) (w_nclk (snd p)))) (w_db (snd p)) (fst p) = Inr x
     \<and> p' = (fst p, (snd p)\<lparr>w_nop := Suc (w_nop (snd p)), w_nclk := Suc (w_nclk (snd p))\<rparr>)"
  by (cases p) (auto simp: book_query_def book_stmt_Inr split: sum.splits)

lemma BeginTx_Commit:
  "BeginTx a b body (s, w) = (Inr (Commit x), p') \<longleftrightarrow>
     (\<exists>s1 w1. env_fault (w_env w) (w_nop w) = None \<and> body (s, w\<lparr>w_nop := Suc (w_nop w)\<rparr>) = (Inr (Commit x), (s1, w1))
        \<and> env_fault (w_env w1) (w_nop w1) = None \<and> p' = (s1, w1\<lparr>w_nop := Suc (w_nop w1)\<rparr>))"
  by (auto simp: BeginTx_def Let_def split: option.splits prod.splits sum.splits tx_end.splits)

lemma ignore_error_run: "\<exists>p'. ignore_error m p = (Inr (), p')"
  by (simp add: ignore_error_def bindE_def tryE_def ret_def split: prod.split)

section \<open>Relations on the tables\<close>

text \<open>
  A reflexive and transitive relation on the tables that looks neither at the cache nor at what was
  published is carried through statements, transactions and everything the world does.
\<close>

definition tables_rel :: "('s \<Rightarrow> 's \<Rightarrow> bool) \<Rightarrow> 's \<times> world \<Rightarrow> 's \<times> world \<Rightarrow> bool" where
  "tables_rel B p p' \<longleftrightarrow> B (fst p) (fst p')"

locale book_relation =
  fixes B :: "'x books_scheme \<Rightarrow> 'x books_scheme \<Rightarrow> bool"
  assumes B_refl: "B s s"
    and B_trans: "B s t \<Longrightarrow> B t u \<Longrightarrow> B s u"
    and B_aside: "B s (s\<lparr>cr_cache := c, cr_cacheAt := since, bk_published := l\<rparr>)"

sublocale book_relation \<subseteq> kept_relation "tables_rel B"
  by unfold_locales (auto simp: tables_rel_def intro: B_refl B_trans)

context book_relation
begin

lemma keeps_both_stmt:
  "(\<And>fk t d s x d' s'. q fk t d s = Inr (x, d', s') \<Longrightarrow> B s s') \<Longrightarrow> keeps (both_stmt q)"
  by (rule keepsI) (auto simp: tables_rel_def both_stmt_def Let_def B_refl split: option.splits sum.splits prod.splits)

lemma keeps_book_stmt:
  "(\<And>fk t d s x s'. q fk t d s = Inr (x, s') \<Longrightarrow> B s s') \<Longrightarrow> keeps (book_stmt q)"
  unfolding book_stmt_def by (rule keeps_both_stmt) (auto split: sum.splits)

lemma keeps_book_query: "keeps (book_query q)"
  unfolding book_query_def by (rule keeps_book_stmt) (auto intro: B_refl split: sum.splits)

lemma keeps_in_world: "keeps (in_world m)"
  by (rule keepsI) (auto simp: tables_rel_def in_world_def B_refl split: prod.split)

lemma keeps_get_own: "keeps get_own"
  by (rule keepsI) (auto simp: tables_rel_def get_own_def B_refl split: prod.split)

lemma keeps_publish: "keeps (bus_publish ty payload)"
proof (rule keepsI)
  fix p :: "'x books_scheme \<times> world"
  obtain s w where p: "p = (s, w)" by fastforce
  show "tables_rel B p (snd (bus_publish ty payload p))"
    using B_aside [where s = s and c = "cr_cache s" and since = "cr_cacheAt s"]
    by (simp add: p tables_rel_def bus_publish_def modify_own_def)
qed

lemma keeps_ignore: "keeps m \<Longrightarrow> keeps (ignore_error m)"
  unfolding ignore_error_def by (intro keeps_bind keeps_try keeps_ret)

lemma rolled_back_kept: "B s (fst (rolled_back (s, w) p1))"
  by (simp add: rolled_back_def B_aside)

lemma keeps_BeginTx:
  assumes "keeps body"
  shows "keeps (BeginTx a b body)"
proof (rule keepsI)
  fix p :: "'x books_scheme \<times> world"
  obtain s w where p: "p = (s, w)" by fastforce
  have "tables_rel B (s, w\<lparr>w_nop := Suc (w_nop w)\<rparr>) (snd (body (s, w\<lparr>w_nop := Suc (w_nop w)\<rparr>)))"
    using assms by (simp add: keeps_def)
  then show "tables_rel B p (snd (BeginTx a b body p))"
    by (auto simp: p tables_rel_def BeginTx_def Let_def B_refl rolled_back_kept
        split: option.splits prod.splits sum.splits tx_end.splits)
qed

lemma keeps_book_uow: "keeps fn \<Longrightarrow> keeps (book_uow fn)"
  unfolding book_uow_def by (intro keeps_bind keeps_BeginTx keeps_ret)

lemmas book_intros = keeps_book_query keeps_in_world keeps_get_own keeps_publish keeps_ignore keeps_BeginTx
  keeps_book_uow keeps_intros

end

end
