(* ===== verification/Kharcha.thy ===== *)
theory Kharcha
  imports Accounts Fleet Trip_Repository
begin

text \<open>
  Expenses of drivers (\<open>internal/service/kharcha_service.go\<close>): claims, their approval, which
  also changes the settlement of the trip, their rejection, and the listings.
\<close>

section \<open>Listings\<close>

record KharchaExpense =
  ke_ID :: string
  ke_TripID :: string
  ke_TripNumber :: string
  ke_DriverID :: string
  ke_DriverName :: string
  ke_Category :: string
  ke_Amount :: float64
  ke_Description :: string
  ke_ReceiptURL :: "string option"
  ke_Status :: string
  ke_RejectedReason :: "string option"
  ke_ApprovedBy :: "string option"
  ke_ApprovedAt :: "go_time option"
  ke_CreatedAt :: go_time
  ke_AuditStatus :: string
  ke_FuelLitres :: "float64 option"
  ke_VarianceLitres :: "float64 option"
  ke_VariancePct :: "float64 option"

definition ExpectedLitres :: "KharchaExpense \<Rightarrow> float64" where
  "ExpectedLitres e =
     (case (ke_FuelLitres e, ke_VarianceLitres e) of (Some l, Some v) \<Rightarrow> fsub l v | _ \<Rightarrow> Fin 0)"

definition trip_number_of :: "database \<Rightarrow> string option \<Rightarrow> string" where
  "trip_number_of d i =
     (case i of None \<Rightarrow> [] | Some t \<Rightarrow> (case find (\<lambda>r. tw_id r = t) (db_trips d) of None \<Rightarrow> [] | Some r \<Rightarrow> tw_trip_number r))"

definition driver_name_of :: "database \<Rightarrow> string option \<Rightarrow> string" where
  "driver_name_of d i =
     (case i of None \<Rightarrow> []
      | Some t \<Rightarrow> (case find (\<lambda>r. dw_id r = t) (db_drivers d) of None \<Rightarrow> []
          | Some r \<Rightarrow> dw_first_name r @ '' '' @ dw_last_name r))"

definition scan_expense :: "database \<Rightarrow> expense_row \<Rightarrow> claim_audit_row option \<Rightarrow> KharchaExpense" where
  "scan_expense d r a =
     \<lparr>ke_ID = xe_id r, ke_TripID = str_or_empty (xe_trip_id r), ke_TripNumber = trip_number_of d (xe_trip_id r),
      ke_DriverID = str_or_empty (xe_driver_id r), ke_DriverName = driver_name_of d (xe_driver_id r),
      ke_Category = xe_category r, ke_Amount = xe_amount r, ke_Description = str_or_empty (xe_description r),
      ke_ReceiptURL = xe_receipt_url r, ke_Status = xe_status r, ke_RejectedReason = xe_rejected_reason r,
      ke_ApprovedBy = xe_approved_by r, ke_ApprovedAt = xe_approved_at r, ke_CreatedAt = xe_created_at r,
      ke_AuditStatus = xe_audit_status r, ke_FuelLitres = xe_fuel_litres r,
      ke_VarianceLitres = (case a of None \<Rightarrow> None | Some c \<Rightarrow> fc_variance_litres c),
      ke_VariancePct = (case a of None \<Rightarrow> None | Some c \<Rightarrow> fc_variance_pct c)\<rparr>"

text \<open>The left join with the audits of fuel claims: a row for every audit, or one without.\<close>

definition joined_expenses :: "database \<Rightarrow> 'x books_scheme \<Rightarrow> expense_row list \<Rightarrow> KharchaExpense list" where
  "joined_expenses d s rows =
     concat (map (\<lambda>r. case filter (\<lambda>c. fc_expense_id c = xe_id r) (bk_fuel_claim_audits s) of
         [] \<Rightarrow> [scan_expense d r None]
       | cs \<Rightarrow> map (\<lambda>c. scan_expense d r (Some c)) cs) rows)"

definition ListPendingExpenses :: "('x, KharchaExpense list) book_act" where
  "ListPendingExpenses =
     book_query (\<lambda>now d s. Inr (joined_expenses d s
       (sort_key xe_created_at (filter (\<lambda>r. xe_status r = ''pending'') (bk_driver_expenses s)))))"

definition ListLedger :: "string \<Rightarrow> ('x, KharchaExpense list) book_act" where
  "ListLedger tripID =
     book_query (\<lambda>now d s. Inr (take 200 (joined_expenses d s
       (sort_key (\<lambda>r. - xe_created_at r)
         (filter (\<lambda>r. tripID = [] \<or> xe_trip_id r = Some tripID) (bk_driver_expenses s))))))"

definition GetExpenseByID :: "string \<Rightarrow> ('x, KharchaExpense) book_act" where
  "GetExpenseByID i =
     bindE (tryE (book_query (\<lambda>now d s.
       one_row (case joined_expenses d s (filter (\<lambda>r. xe_id r = i) (bk_driver_expenses s)) of [] \<Rightarrow> None | e # _ \<Rightarrow> Some e))))
     (\<lambda>r. case r of Inr e \<Rightarrow> ret e | Inl err \<Rightarrow> raise (WrapError ''expense not found'' err))"

section \<open>Claims\<close>

record CreateExpenseOpts =
  ceo_TripID :: string
  ceo_DriverID :: string
  ceo_Category :: string
  ceo_Amount :: float64
  ceo_Description :: string
  ceo_ReceiptURL :: string
  ceo_FuelLitres :: float64
  ceo_IdempotencyKey :: string
  ceo_Latitude :: "float64 option"
  ceo_Longitude :: "float64 option"

definition validCategories :: "string list" where
  "validCategories =
     [''advance'', ''fuel'', ''toll'', ''food'', ''repair'', ''other'', ''rto'', ''tyre'', ''bhatta'']"

definition null_if_empty :: "string \<Rightarrow> string option" where
  "null_if_empty x = (if x = [] then None else Some x)"

text \<open>The constraints of \<open>driver_expenses\<close> after migration 00088.\<close>

definition expense_insert :: "expense_row \<Rightarrow> ('x, unit) book_sql" where
  "expense_insert r fk now d s =
     (if real_null (xe_amount r) then Inl (ErrConstraint NotNullConstraint ''driver_expenses.amount'')
      else if xe_category r \<notin> set validCategories \<or> xe_expense_type r \<notin> set validCategories
      then Inl (ErrConstraint CheckConstraint ''driver_expenses'')
      else if xe_id r \<in> xe_id ` set (bk_driver_expenses s)
      then Inl (ErrConstraint UniqueConstraint ''driver_expenses.id'')
      else if xe_idempotency_key r \<noteq> None \<and> xe_idempotency_key r \<in> xe_idempotency_key ` set (bk_driver_expenses s)
      then Inl (ErrConstraint UniqueConstraint ''driver_expenses.idempotency_key'')
      else if fk_missing fk (xe_trip_id r) (map tw_id (db_trips d)) \<or> fk_missing fk (xe_driver_id r) (map dw_id (db_drivers d))
      then Inl (ErrConstraint ForeignKeyConstraint ''driver_expenses'')
      else Inr ((), s\<lparr>bk_driver_expenses := bk_driver_expenses s @ [r]\<rparr>))"

definition find_by_key :: "string \<Rightarrow> ('x, string) book_act" where
  "find_by_key key =
     book_query (\<lambda>now d s. one_row (map_option xe_id
       (find (\<lambda>r. xe_idempotency_key r = Some key) (bk_driver_expenses s))))"

definition new_expense :: "CreateExpenseOpts \<Rightarrow> string \<Rightarrow> go_time \<Rightarrow> expense_row" where
  "new_expense o' i now =
     \<lparr>xe_id = i, xe_trip_id = null_if_empty (ceo_TripID o'), xe_driver_id = null_if_empty (ceo_DriverID o'),
      xe_expense_type = ceo_Category o', xe_category = ceo_Category o', xe_amount = ceo_Amount o',
      xe_description = null_if_empty (ceo_Description o'), xe_receipt_url = null_if_empty (ceo_ReceiptURL o'),
      xe_fuel_litres = (if ceo_Category o' = ''fuel'' \<and> flt (Fin 0) (ceo_FuelLitres o') then Some (ceo_FuelLitres o') else None),
      xe_status = ''pending'', xe_approved_by = None, xe_approved_at = None, xe_rejected_reason = None,
      xe_audit_status = ''pending'', xe_idempotency_key = null_if_empty (ceo_IdempotencyKey o'),
      xe_latitude = ceo_Latitude o', xe_longitude = ceo_Longitude o', xe_created_at = now\<rparr>"

definition insert_expense :: "CreateExpenseOpts \<Rightarrow> string \<Rightarrow> ('x, string) book_act" where
  "insert_expense o' i =
     bindE (in_world Now) (\<lambda>now.
     bindE (tryE (book_stmt (expense_insert (new_expense o' i now)))) (\<lambda>r.
     case r of
       Inl err \<Rightarrow>
         if ceo_IdempotencyKey o' \<noteq> [] then
           bindE (tryE (find_by_key (ceo_IdempotencyKey o'))) (\<lambda>e.
           case e of Inr old \<Rightarrow> (if old \<noteq> [] then ret old else raise err) | Inl _ \<Rightarrow> raise err)
         else raise err
     | Inr _ \<Rightarrow>
         seqE (in_world (service_logAudit None ''create_kharcha'' ''driver_expenses'' i None None)) (ret i)))"

definition CreateExpenseWithOpts :: "CreateExpenseOpts \<Rightarrow> ('x, string) book_act" where
  "CreateExpenseWithOpts o' =
     (if fle (ceo_Amount o') (Fin 0) then raise (ErrorString ''amount must be greater than zero'')
      else if ceo_Category o' \<notin> set validCategories then raise (ErrorString (''invalid category: '' @ ceo_Category o'))
      else bindE (in_world GenerateUUID) (\<lambda>i.
        if ceo_IdempotencyKey o' \<noteq> [] then
          bindE (tryE (find_by_key (ceo_IdempotencyKey o'))) (\<lambda>e.
          case e of Inr old \<Rightarrow> (if old \<noteq> [] then ret old else insert_expense o' i) | Inl _ \<Rightarrow> insert_expense o' i)
        else insert_expense o' i))"

definition CreateExpense ::
  "string \<Rightarrow> string \<Rightarrow> string \<Rightarrow> float64 \<Rightarrow> string \<Rightarrow> string \<Rightarrow> float64 \<Rightarrow> string list \<Rightarrow> ('x, string) book_act" where
  "CreateExpense tripID driverID category amount description receiptURL fuelLitres idempotencyKey =
     CreateExpenseWithOpts \<lparr>ceo_TripID = tripID, ceo_DriverID = driverID, ceo_Category = category, ceo_Amount = amount,
       ceo_Description = description, ceo_ReceiptURL = receiptURL, ceo_FuelLitres = fuelLitres,
       ceo_IdempotencyKey = (case idempotencyKey of [] \<Rightarrow> [] | k # _ \<Rightarrow> k), ceo_Latitude = None, ceo_Longitude = None\<rparr>"

section \<open>Approval and rejection\<close>

definition fuelAuditEnforce :: "('x, bool) book_act" where
  "fuelAuditEnforce =
     bindE (tryE (book_query (\<lambda>now d s. one_row (map_of (config_rows d ''1'') ''fuel.audit_enforce''))))
     (\<lambda>r. ret (r = Inr ''true''))"

definition audit_gate :: "string \<Rightarrow> ('x, unit) book_act" where
  "audit_gate expenseID =
     bindE fuelAuditEnforce (\<lambda>enforce.
     if \<not> enforce then ret ()
     else bindE (tryE (book_query (\<lambda>now d s.
         one_row (map_option xe_audit_status (find (\<lambda>r. xe_id r = expenseID) (bk_driver_expenses s)))))) (\<lambda>r.
       case r of
         Inl _ \<Rightarrow> raise (ErrorString ''expense not found'')
       | Inr st \<Rightarrow>
           if st = ''needs_review'' then raise (ErrorString ''claim flagged by fuel audit (needs review); review at /fuel/audit'')
           else ret ()))"

text \<open>\<open>UPDATE driver_expenses ... WHERE id = ? AND status = 'pending'\<close>, with the number of rows.\<close>

definition decide_expense ::
  "string \<Rightarrow> string \<Rightarrow> (expense_row \<Rightarrow> expense_row) \<Rightarrow> ('x, int) book_sql" where
  "decide_expense expenseID userID f fk now d s =
     (let p = (\<lambda>r. xe_id r = expenseID \<and> xe_status r = ''pending'') in
      if (\<exists>r\<in>set (bk_driver_expenses s). p r) \<and> fk_missing fk (Some userID) (db_users d)
      then Inl (ErrConstraint ForeignKeyConstraint ''driver_expenses.approved_by'')
      else Inr (int (length (filter p (bk_driver_expenses s))),
        s\<lparr>bk_driver_expenses := update_where p (\<lambda>r. (f r)\<lparr>xe_approved_by := Some userID\<rparr>) (bk_driver_expenses s)\<rparr>))"

definition deduct_expense :: "float64 \<Rightarrow> string \<Rightarrow> ('x, unit) book_sql" where
  "deduct_expense amount settlementID fk now d s =
     (let net = (\<lambda>r. fsub (st_net_payout r) amount);
          f = (\<lambda>r. r\<lparr>st_advances_kharcha := fadd (st_advances_kharcha r) amount,
                 st_net_payout := (if flt (net r) (Fin 0) then Fin 0 else net r)\<rparr>);
          p = (\<lambda>r. st_id r = settlementID) in
      if \<exists>r\<in>set (bk_driver_settlements s). p r \<and> (real_null (net r) \<or> real_null (st_advances_kharcha (f r)))
      then Inl (ErrConstraint NotNullConstraint ''driver_settlements'')
      else Inr ((), s\<lparr>bk_driver_settlements := update_where p f (bk_driver_settlements s)\<rparr>))"

definition line_types :: "string list" where
  "line_types = [''gross_fare'', ''commission'', ''advances'', ''deduction'', ''tds'', ''adjustment'']"

definition insert_line :: "SettlementLine \<Rightarrow> ('x, unit) book_sql" where
  "insert_line l fk now d s =
     (if real_null (sl_Amount l) then Inl (ErrConstraint NotNullConstraint ''settlement_lines.amount'')
      else if sl_LineType l \<notin> set line_types then Inl (ErrConstraint CheckConstraint ''settlement_lines'')
      else if sl_ID l \<in> sl_ID ` set (bk_settlement_lines s) then Inl (ErrConstraint UniqueConstraint ''settlement_lines.id'')
      else if fk_missing fk (Some (sl_SettlementID l)) (map st_id (bk_driver_settlements s))
        \<or> fk_missing fk (Some (sl_TripID l)) (map tw_id (db_trips d))
      then Inl (ErrConstraint ForeignKeyConstraint ''settlement_lines'')
      else Inr ((), s\<lparr>bk_settlement_lines := bk_settlement_lines s @ [l\<lparr>sl_CreatedAt := now\<rparr>]\<rparr>))"

definition expense_line :: "string \<Rightarrow> string \<Rightarrow> string \<Rightarrow> string \<Rightarrow> float64 \<Rightarrow> string \<Rightarrow> SettlementLine" where
  "expense_line i settlementID tripID category amount expenseID =
     \<lparr>sl_ID = ''stl-ln-'' @ i, sl_SettlementID = settlementID, sl_TripID = tripID, sl_LineType = ''deduction'',
      sl_Label = ''Approved expense ('' @ category @ '') #'' @ expenseID, sl_Amount = fneg amount,
      sl_RefID = expenseID, sl_CreatedAt = 0\<rparr>"

text \<open>The settlement of the trip and driver, if there is one, pays the expense; errors are dropped.\<close>

definition charge_settlement :: "string \<Rightarrow> string \<Rightarrow> string \<Rightarrow> float64 \<Rightarrow> ('x, unit) book_act" where
  "charge_settlement expenseID tripID driverID amount =
     bindE (tryE (book_query (\<lambda>now d s.
       one_row (map_option xe_category (find (\<lambda>r. xe_id r = expenseID) (bk_driver_expenses s)))))) (\<lambda>c.
     bindE (tryE (book_query (\<lambda>now d s. one_row (map_option st_id
       (find (\<lambda>r. st_trip_id r = tripID \<and> st_driver_id r = driverID) (bk_driver_settlements s)))))) (\<lambda>r.
     case r of
       Inl _ \<Rightarrow> ret ()
     | Inr settlementID \<Rightarrow>
         if settlementID = [] then ret ()
         else seqE (ignore_error (book_stmt (deduct_expense amount settlementID)))
           (bindE (in_world GenerateUUID) (\<lambda>i.
            ignore_error (book_stmt (insert_line
              (expense_line i settlementID tripID (case c of Inr x \<Rightarrow> x | Inl _ \<Rightarrow> []) amount expenseID)))))))"

definition approve_tx :: "string \<Rightarrow> string \<Rightarrow> ('x, unit tx_end) book_act" where
  "approve_tx expenseID userID =
     bindE (in_world Now) (\<lambda>now.
     seqE (audit_gate expenseID)
     (bindE (book_stmt (decide_expense expenseID userID (\<lambda>r. r\<lparr>xe_status := ''approved'', xe_approved_at := Some now\<rparr>))) (\<lambda>n.
     seqE (failIf (n = 0) ''expense already processed or not found'')
     (bindE (book_query (\<lambda>now d s. one_row (map_option (\<lambda>r. (str_or_empty (xe_trip_id r), str_or_empty (xe_driver_id r), xe_amount r))
        (find (\<lambda>r. xe_id r = expenseID) (bk_driver_expenses s))))) (\<lambda>(tripID, driverID, amount).
     seqE (if tripID \<noteq> [] \<and> driverID \<noteq> [] then charge_settlement expenseID tripID driverID amount else ret ())
     (ret (Commit ())))))))"

definition ApproveExpense :: "string \<Rightarrow> string \<Rightarrow> ('x, unit) book_act" where
  "ApproveExpense expenseID userID =
     bindE (BeginTx [] [] (approve_tx expenseID userID)) (\<lambda>_.
     in_world (service_logAudit None ''approve_kharcha'' ''driver_expenses'' expenseID None None))"

definition RejectExpense :: "string \<Rightarrow> string \<Rightarrow> string \<Rightarrow> ('x, unit) book_act" where
  "RejectExpense expenseID userID reason =
     seqE (failIf (reason = []) ''rejection reason is required'')
     (bindE (book_stmt (decide_expense expenseID userID
        (\<lambda>r. r\<lparr>xe_status := ''rejected'', xe_rejected_reason := Some reason\<rparr>))) (\<lambda>n.
      seqE (failIf (n = 0) ''expense already processed or not found'')
      (in_world (service_logAudit None ''reject_kharcha'' ''driver_expenses'' expenseID None (Some (JMalformed reason))))))"

end
