(* ===== verification/Fuel_Config.thy ===== *)
theory Fuel_Config
  imports Accounts
begin

text \<open>
  The settings of the fuel engine and of the scorecard (\<open>internal/fuel/config.go\<close>): a second
  reader of \<open>company_config\<close>, whose cache lives for 60 seconds.
\<close>

definition ConfigMedianWindow :: string where "ConfigMedianWindow = ''fuel.median_window''"
definition ConfigSpikeDeviationPct :: string where "ConfigSpikeDeviationPct = ''fuel.spike_deviation_pct''"
definition ConfigNoiseFloorPct :: string where "ConfigNoiseFloorPct = ''fuel.noise_floor_pct''"
definition ConfigRefillThresholdL :: string where "ConfigRefillThresholdL = ''fuel.refill_threshold_litres''"
definition ConfigTheftDropThresholdL :: string where "ConfigTheftDropThresholdL = ''fuel.theft_drop_threshold_litres''"
definition ConfigSiphonDropThresholdL :: string where "ConfigSiphonDropThresholdL = ''fuel.siphon_drop_threshold_litres''"
definition ConfigSiphonStopMinutes :: string where "ConfigSiphonStopMinutes = ''fuel.siphon_stop_minutes''"
definition ConfigStopSpeedKmh :: string where "ConfigStopSpeedKmh = ''fuel.stop_speed_kmh''"
definition ConfigOdometerToleranceKm :: string where "ConfigOdometerToleranceKm = ''fuel.odometer_tolerance_km''"
definition ConfigAbnormalDrainLPerKm :: string where "ConfigAbnormalDrainLPerKm = ''fuel.abnormal_drain_l_per_km''"
definition ConfigAbnormalDrainMargin :: string where "ConfigAbnormalDrainMargin = ''fuel.abnormal_drain_margin_pct''"
definition ConfigLevelUnit :: string where "ConfigLevelUnit = ''fuel.level_unit''"
definition ConfigGapToleranceMinutes :: string where "ConfigGapToleranceMinutes = ''fuel.gap_tolerance_minutes''"
definition ConfigWeightTheft :: string where "ConfigWeightTheft = ''scorecard.weight.fuel_theft_suspicion''"
definition ConfigWeightOdoRollback :: string where "ConfigWeightOdoRollback = ''scorecard.weight.odometer_rollback''"
definition ConfigScorecardWindowDays :: string where "ConfigScorecardWindowDays = ''scorecard.window_days''"
definition ConfigScorecardTierA :: string where "ConfigScorecardTierA = ''scorecard.tier_a''"
definition ConfigScorecardTierB :: string where "ConfigScorecardTierB = ''scorecard.tier_b''"
definition ConfigScorecardMinEvents :: string where "ConfigScorecardMinEvents = ''scorecard.min_events''"
definition ConfigScorecardFraudCap :: string where "ConfigScorecardFraudCap = ''scorecard.fraud_cap''"
definition ConfigScorecardFraudCapOn :: string where "ConfigScorecardFraudCapOn = ''scorecard.fraud_cap_enabled''"
definition ConfigScorecardWeight :: string where "ConfigScorecardWeight = ''scorecard.weight.''"
definition ConfigScorecardBonusA :: string where "ConfigScorecardBonusA = ''scorecard.bonus_a_pct''"
definition ConfigScorecardBonusB :: string where "ConfigScorecardBonusB = ''scorecard.bonus_b_pct''"
definition ConfigScorecardBonusC :: string where "ConfigScorecardBonusC = ''scorecard.bonus_c_pct''"

definition DefaultMedianWindow :: int where "DefaultMedianWindow = 7"
definition DefaultSpikeDeviationPct :: float64 where "DefaultSpikeDeviationPct = Fin 25"
definition DefaultNoiseFloorPct :: float64 where "DefaultNoiseFloorPct = Fin (3 / 2)"
definition DefaultRefillThresholdL :: float64 where "DefaultRefillThresholdL = Fin 20"
definition DefaultTheftDropThresholdL :: float64 where "DefaultTheftDropThresholdL = Fin 10"
definition DefaultSiphonDropThresholdL :: float64 where "DefaultSiphonDropThresholdL = Fin 15"
definition DefaultSiphonStopMinutes :: int where "DefaultSiphonStopMinutes = 20 * 60 * 10 ^ 9"
definition DefaultStopSpeedKmh :: float64 where "DefaultStopSpeedKmh = Fin 5"
definition DefaultOdometerToleranceKm :: float64 where "DefaultOdometerToleranceKm = Fin 1"
definition DefaultAbnormalDrainLPerKm :: float64 where "DefaultAbnormalDrainLPerKm = rnd (6 / 10)"
definition DefaultAbnormalDrainMargin :: float64 where "DefaultAbnormalDrainMargin = Fin 30"
definition DefaultGapTolerance :: int where "DefaultGapTolerance = 30 * 60 * 10 ^ 9"
definition DefaultWeightTheft :: float64 where "DefaultWeightTheft = Fin 25"
definition DefaultWeightOdoRollback :: float64 where "DefaultWeightOdoRollback = Fin 20"
definition DefaultScorecardWindowDays :: int where "DefaultScorecardWindowDays = 30"
definition DefaultScorecardTierA :: float64 where "DefaultScorecardTierA = Fin 85"
definition DefaultScorecardTierB :: float64 where "DefaultScorecardTierB = Fin 70"
definition DefaultScorecardMinEvents :: int where "DefaultScorecardMinEvents = 3"
definition DefaultScorecardFraudCap :: float64 where "DefaultScorecardFraudCap = Fin 69"
definition DefaultScorecardBonusA :: float64 where "DefaultScorecardBonusA = Fin 5"
definition DefaultScorecardBonusB :: float64 where "DefaultScorecardBonusB = Fin 2"
definition DefaultScorecardBonusC :: float64 where "DefaultScorecardBonusC = Fin 0"

definition fuel_cacheTTL :: int where "fuel_cacheTTL = 60 * 10 ^ 9"

definition fuel_cache_expired :: "go_time \<Rightarrow> ('x, bool) config_act" where
  "fuel_cache_expired since =
     (if time_IsZero since then ret True
      else bindE (in_world Now) (\<lambda>now. ret (fuel_cacheTTL < time_Sub now since)))"

text \<open>The test is made once more under the write lock.\<close>

definition fuel_refreshIfStale :: "TenantID \<Rightarrow> ('x, unit) config_act" where
  "fuel_refreshIfStale t =
     bindE get_own (\<lambda>c.
     bindE (fuel_cache_expired (cr_cacheAt c)) (\<lambda>stale.
     if \<not> stale then ret ()
     else bindE (fuel_cache_expired (cr_cacheAt c)) (\<lambda>still.
       if \<not> still then ret ()
       else bindE (in_world (query (\<lambda>now d. Inr (config_rows d t)))) (\<lambda>rows.
         bindE (in_world Now) (\<lambda>now.
         modify_own (\<lambda>c. c\<lparr>cr_cache := map_of (rev rows), cr_cacheAt := now\<rparr>))))))"

definition fuel_Get :: "TenantID \<Rightarrow> string \<Rightarrow> ('x, string) config_act" where
  "fuel_Get t key =
     seqE (fuel_refreshIfStale t)
     (bindE get_own (\<lambda>c. ret (case cr_cache c key of Some v \<Rightarrow> v | None \<Rightarrow> [])))"

definition fuel_GetFloat :: "TenantID \<Rightarrow> string \<Rightarrow> float64 \<Rightarrow> ('x, float64) config_act" where
  "fuel_GetFloat t key def = bindE (fuel_Get t key) (\<lambda>raw. ret (as_float def raw))"

definition as_duration :: "int \<Rightarrow> int \<Rightarrow> string \<Rightarrow> int" where
  "as_duration per def raw =
     (if raw = [] then def
      else case Atoi raw of
          Some n \<Rightarrow> (if n \<le> 0 then def else wrap64 (n * per))
        | None \<Rightarrow> def)"

definition getDuration :: "TenantID \<Rightarrow> string \<Rightarrow> int \<Rightarrow> int \<Rightarrow> ('x, int) config_act" where
  "getDuration t key def per = bindE (fuel_Get t key) (\<lambda>raw. ret (as_duration per def raw))"

definition GetDurationMinutes :: "TenantID \<Rightarrow> string \<Rightarrow> int \<Rightarrow> ('x, int) config_act" where
  "GetDurationMinutes t key def = getDuration t key def (60 * 10 ^ 9)"

text \<open>\<open>if v, err := m(); err == nil && ok(v) { cfg.field = v }\<close>\<close>

definition setting :: "('s, 'v) own_act \<Rightarrow> ('v \<Rightarrow> bool) \<Rightarrow> 'a \<Rightarrow> ('v \<Rightarrow> 'a) \<Rightarrow> ('s, 'a) own_act" where
  "setting m accept def conv =
     bindE (tryE m) (\<lambda>r. ret (case r of Inr v \<Rightarrow> (if accept v then conv v else def) | Inl _ \<Rightarrow> def))"

definition positive :: "float64 \<Rightarrow> bool" where "positive v \<longleftrightarrow> flt (Fin 0) v"
definition nonneg :: "float64 \<Rightarrow> bool" where "nonneg v \<longleftrightarrow> fle (Fin 0) v"

section \<open>What reading settings leaves alone\<close>

lemma setting_Inr: "\<exists>x p'. setting m ok def conv p = (Inr x, p') \<and> p' = snd (m p)"
  by (simp add: setting_def bindE_def tryE_def ret_def split: prod.split)

context book_relation
begin

lemma keeps_cache_write: "keeps (modify_own (\<lambda>c. c\<lparr>cr_cache := x, cr_cacheAt := y\<rparr>))"
proof (rule keepsI)
  fix p :: "'x books_scheme \<times> world"
  show "tables_rel B p (snd (modify_own (\<lambda>c. c\<lparr>cr_cache := x, cr_cacheAt := y\<rparr>) p))"
    using B_aside [where s = "fst p" and c = x and since = y and l = "bk_published (fst p)"]
    by (cases p) (simp add: tables_rel_def modify_own_def)
qed

lemma keeps_fuel_expired: "keeps (fuel_cache_expired since)"
  unfolding fuel_cache_expired_def by (intro keeps_if keeps_bind keeps_in_world keeps_ret)

lemma keeps_fuel_refresh: "keeps (fuel_refreshIfStale t)"
  unfolding fuel_refreshIfStale_def
  by (intro keeps_if keeps_bind keeps_get_own keeps_fuel_expired keeps_in_world keeps_cache_write keeps_ret)

lemma keeps_fuel_Get: "keeps (fuel_Get t key)"
  unfolding fuel_Get_def by (intro keeps_seq keeps_fuel_refresh keeps_bind keeps_get_own keeps_ret)

lemma keeps_fuel_GetFloat: "keeps (fuel_GetFloat t key def)"
  unfolding fuel_GetFloat_def by (intro keeps_bind keeps_fuel_Get keeps_ret)

lemma keeps_GetDurationMinutes: "keeps (GetDurationMinutes t key def)"
  unfolding GetDurationMinutes_def getDuration_def by (intro keeps_bind keeps_fuel_Get keeps_ret)

lemma keeps_setting: "keeps m \<Longrightarrow> keeps (setting m ok def conv)"
  unfolding setting_def by (intro keeps_bind keeps_try keeps_ret)

lemmas config_intros = keeps_setting keeps_fuel_Get keeps_fuel_GetFloat keeps_GetDurationMinutes

end

end
