(* ===== verification/Scorecard.thy ===== *)
theory Scorecard
  imports Fuel_Config Fleet Trip_Repository "HOL-Library.List_Lexorder" "HOL-Library.Char_ord"
begin

text \<open>
  The scorecard of drivers (\<open>internal/service/scorecard_service.go\<close>): weighted behaviour events
  over a rolling window, the score and tier made of them, the cap for unresolved fraud, the nightly
  sweep, the performance bonus and the pages that show scores.
\<close>

section \<open>An order on floats\<close>

text \<open>\<open>sort.Float64s\<close> and SQLite order floats by value, NaN first.\<close>

instantiation float64 :: linorder
begin

fun less_eq_float64 :: "float64 \<Rightarrow> float64 \<Rightarrow> bool" where
  "less_eq_float64 (Fin x) (Fin y) \<longleftrightarrow> x \<le> y"
| "less_eq_float64 NaN y \<longleftrightarrow> True"
| "less_eq_float64 NInf y \<longleftrightarrow> y \<noteq> NaN"
| "less_eq_float64 (Fin x) y \<longleftrightarrow> y = PInf"
| "less_eq_float64 PInf y \<longleftrightarrow> y = PInf"

definition less_float64 :: "float64 \<Rightarrow> float64 \<Rightarrow> bool" where
  "less_float64 x y \<longleftrightarrow> x \<le> y \<and> \<not> y \<le> x"

instance
proof
  fix x y z :: float64
  show "x < y \<longleftrightarrow> x \<le> y \<and> \<not> y \<le> x" by (rule less_float64_def)
  show "x \<le> x" by (cases x) simp_all
  show "x \<le> y \<Longrightarrow> y \<le> z \<Longrightarrow> x \<le> z" by (cases x; cases y; cases z) simp_all
  show "x \<le> y \<Longrightarrow> y \<le> x \<Longrightarrow> x = y" by (cases x; cases y) simp_all
  show "x \<le> y \<or> y \<le> x" by (cases x; cases y) auto
qed

end

section \<open>Score\<close>

record BehaviourEvent =
  bev_DriverID :: string
  bev_TripID :: string
  bev_VehicleID :: string
  bev_EventType :: string
  bev_Severity :: string
  bev_OccurredAt :: go_time
  bev_Metadata :: "metadata_text option"

definition behaviour_types :: "string list" where
  "behaviour_types = [''speeding'', ''harsh_braking'', ''harsh_accel'', ''idling'', ''night_driving'',
     ''fuel_theft_suspicion'', ''odometer_rollback'']"

definition defaultBehaviourWeights :: "string \<Rightarrow> float64" where
  "defaultBehaviourWeights ty =
     (case map_of [(''speeding'', 8), (''harsh_braking'', 6), (''harsh_accel'', 6), (''idling'', 3),
        (''night_driving'', 2), (''fuel_theft_suspicion'', 25), (''odometer_rollback'', 20)] ty of
        Some w \<Rightarrow> Fin w
      | None \<Rightarrow> Fin 0)"

definition fraudEventTypes :: "string list" where
  "fraudEventTypes = [''fuel_theft_suspicion'', ''odometer_rollback'']"

record scorecardConfig =
  sc_windowDays :: int
  sc_tierA :: float64
  sc_tierB :: float64
  sc_minEvents :: int
  sc_fraudCap :: float64
  sc_fraudCapEnabled :: bool

record behaviourEventRow =
  bx_id :: string
  bx_eventType :: string
  bx_severity :: string
  bx_weight :: float64
  bx_occurredAt :: go_time
  bx_resolved :: bool

definition severityMult :: "string \<Rightarrow> float64" where
  "severityMult sev =
     (if sev = ''low'' then Fin 1 else if sev = ''medium'' then Fin (3 / 2) else if sev = ''high'' then Fin 2
      else Fin (3 / 2))"

definition tierFor :: "float64 \<Rightarrow> scorecardConfig \<Rightarrow> string" where
  "tierFor score cfg =
     (if fle (sc_tierA cfg) score then ''A'' else if fle (sc_tierB cfg) score then ''B'' else ''C'')"

definition hasUnresolvedFraud :: "behaviourEventRow list \<Rightarrow> bool" where
  "hasUnresolvedFraud events \<longleftrightarrow> (\<exists>e\<in>set events. bx_eventType e \<in> set fraudEventTypes \<and> \<not> bx_resolved e)"

text \<open>\<open>d.Hours() / 24.0\<close>\<close>

definition Duration_Hours :: "int \<Rightarrow> float64" where
  "Duration_Hours d =
     (let h = 3600 * 10 ^ 9 in
      fadd (float_of_int64 (sgn d * (\<bar>d\<bar> div h))) (fdivc (float_of_int64 (sgn d * (\<bar>d\<bar> mod h))) (3600 * 10 ^ 9)))"

definition days_ago :: "go_time \<Rightarrow> behaviourEventRow \<Rightarrow> float64" where
  "days_ago now e = fdivc (Duration_Hours (time_Sub now (bx_occurredAt e))) 24"

text \<open>The share of an event in the sum of penalties, if it has one.\<close>

definition penalty :: "go_time \<Rightarrow> float64 \<Rightarrow> behaviourEventRow \<Rightarrow> float64 option" where
  "penalty now window e =
     (if bx_eventType e \<in> set fraudEventTypes \<and> bx_resolved e then None
      else (let days = days_ago now e in
        if fle window days \<or> flt days (Fin 0) then None
        else (let decay = fdiv (fsub window days) window in
          if fle decay (Fin 0) then None
          else Some (fmul (fmul (bx_weight e) (severityMult (bx_severity e))) decay))))"

definition event_counts :: "behaviourEventRow list \<Rightarrow> (string \<times> int) list" where
  "event_counts events =
     map (\<lambda>k. (k, int (length (filter (\<lambda>e. bx_eventType e = k) events)))) (sort (remdups (map bx_eventType events)))"

definition penalty_sum :: "go_time \<Rightarrow> float64 \<Rightarrow> behaviourEventRow list \<Rightarrow> float64" where
  "penalty_sum now window events =
     foldl (\<lambda>s e. case penalty now window e of None \<Rightarrow> s | Some p \<Rightarrow> fadd s p) (Fin 0) events"

definition clamp_score :: "float64 \<Rightarrow> float64" where
  "clamp_score score = (if flt score (Fin 0) then Fin 0 else if flt (Fin 100) score then Fin 100 else score)"

definition computeScore :: "go_time \<Rightarrow> scorecardConfig \<Rightarrow> behaviourEventRow list \<Rightarrow> float64 \<times> (string \<times> int) list \<times> bool" where
  "computeScore now cfg events =
     (let penaltySum = penalty_sum now (float_of_int64 (sc_windowDays cfg)) events;
          counts = event_counts events;
          total = sum_list (map snd counts) in
      (clamp_score (fsub (Fin 100) penaltySum), counts, total < sc_minEvents cfg))"

definition scorecardPenalty :: "behaviourEventRow list \<Rightarrow> string \<Rightarrow> go_time \<Rightarrow> float64 \<Rightarrow> float64" where
  "scorecardPenalty events eventType now window =
     foldl (\<lambda>p e.
       if bx_eventType e \<noteq> eventType \<or> bx_eventType e \<in> set fraudEventTypes \<and> bx_resolved e then p
       else (let days = days_ago now e in
         if fle window days \<or> flt days (Fin 0) then p
         else fadd p (fdiv (fmul (fmul (bx_weight e) (severityMult (bx_severity e))) (fsub window days)) window)))
       (Fin 0) events"

section \<open>Settings and tables\<close>

definition loadScorecardConfig :: "('x, scorecardConfig) book_act" where
  "loadScorecardConfig =
     bindE (in_world getEnv) (\<lambda>env.
     let t = ''1''; oor = env_oor env; int_of = int64_of_float oor in
     bindE (setting (fuel_GetFloat t ConfigScorecardWindowDays (float_of_int64 DefaultScorecardWindowDays)) positive
       DefaultScorecardWindowDays int_of) (\<lambda>windowDays.
     bindE (setting (fuel_GetFloat t ConfigScorecardTierA DefaultScorecardTierA) positive DefaultScorecardTierA id) (\<lambda>tierA.
     bindE (setting (fuel_GetFloat t ConfigScorecardTierB DefaultScorecardTierB) nonneg DefaultScorecardTierB id) (\<lambda>tierB.
     bindE (setting (fuel_GetFloat t ConfigScorecardMinEvents (float_of_int64 DefaultScorecardMinEvents)) nonneg
       DefaultScorecardMinEvents int_of) (\<lambda>minEvents.
     bindE (setting (fuel_GetFloat t ConfigScorecardFraudCap DefaultScorecardFraudCap) nonneg DefaultScorecardFraudCap id) (\<lambda>fraudCap.
     bindE (setting (fuel_Get t ConfigScorecardFraudCapOn) (\<lambda>raw. raw \<noteq> []) True (\<lambda>raw. raw \<noteq> ''false'')) (\<lambda>enabled.
     ret \<lparr>sc_windowDays = windowDays, sc_tierA = tierA, sc_tierB = tierB, sc_minEvents = minEvents,
       sc_fraudCap = fraudCap, sc_fraudCapEnabled = enabled\<rparr>)))))))"

definition scorecard_pct :: "string \<Rightarrow> float64 \<Rightarrow> ('x, float64) book_act" where
  "scorecard_pct key def =
     bindE (tryE (fuel_GetFloat ''1'' key def)) (\<lambda>r. ret (case r of Inl _ \<Rightarrow> def | Inr v \<Rightarrow> v))"

definition window_start :: "go_time \<Rightarrow> scorecardConfig \<Rightarrow> go_time" where
  "window_start now cfg = now + wrap64 (- (sc_windowDays cfg * 24 * 3600 * 10 ^ 9))"

definition meta_resolved :: "metadata_text \<Rightarrow> bool" where
  "meta_resolved m = (case m of MetaText b \<Rightarrow> bm_Resolved b | OtherText _ \<Rightarrow> False)"

definition scan_event :: "behaviour_row \<Rightarrow> behaviourEventRow" where
  "scan_event r =
     \<lparr>bx_id = be_id r, bx_eventType = be_event_type r, bx_severity = be_severity r, bx_weight = be_weight r,
      bx_occurredAt = be_occurred_at r, bx_resolved = meta_resolved (be_metadata r)\<rparr>"

definition in_window :: "string \<Rightarrow> go_time \<Rightarrow> behaviour_row \<Rightarrow> bool" where
  "in_window driverID periodStart r \<longleftrightarrow> be_driver_id r = driverID \<and> trunc_second periodStart \<le> be_occurred_at r"

definition eventsInWindow :: "string \<Rightarrow> go_time \<Rightarrow> ('x, behaviourEventRow list) book_act" where
  "eventsInWindow driverID periodStart =
     book_query (\<lambda>now d s. Inr (map scan_event
       (sort_key be_occurred_at (filter (in_window driverID periodStart) (bk_behaviour_events s)))))"

definition eventResolved :: "string \<Rightarrow> ('x, bool) book_act" where
  "eventResolved eventID =
     bindE (book_query (\<lambda>now d s. one_row (find (\<lambda>r. be_id r = eventID) (bk_behaviour_events s)))) (\<lambda>r.
     ret (meta_resolved (be_metadata r)))"

definition behaviour_insert :: "behaviour_row \<Rightarrow> ('x, unit) book_sql" where
  "behaviour_insert r fk now d s =
     (if real_null (be_weight r) then Inl (ErrConstraint NotNullConstraint ''driver_behaviour_events.weight'')
      else if be_event_type r \<notin> set behaviour_types \<or> be_severity r \<notin> {''low'', ''medium'', ''high''}
      then Inl (ErrConstraint CheckConstraint ''driver_behaviour_events'')
      else if be_id r \<in> be_id ` set (bk_behaviour_events s)
      then Inl (ErrConstraint UniqueConstraint ''driver_behaviour_events.id'')
      else if fk_missing fk (Some (be_driver_id r)) (map dw_id (db_drivers d))
        \<or> fk_missing fk (be_trip_id r) (map tw_id (db_trips d)) \<or> fk_missing fk (be_vehicle_id r) (map vw_id (db_vehicles d))
      then Inl (ErrConstraint ForeignKeyConstraint ''driver_behaviour_events'')
      else Inr ((), s\<lparr>bk_behaviour_events := bk_behaviour_events s @ [r]\<rparr>))"

definition orNull :: "string \<Rightarrow> string option" where
  "orNull x = (if x = [] then None else Some x)"

definition event_weight :: "string \<Rightarrow> ('x, float64) book_act" where
  "event_weight ty =
     bindE (tryE (fuel_GetFloat ''1'' (ConfigScorecardWeight @ ty) (defaultBehaviourWeights ty))) (\<lambda>r.
     ret (case r of Inr w \<Rightarrow> w | Inl _ \<Rightarrow> defaultBehaviourWeights ty))"

definition WriteBehaviourEvent :: "BehaviourEvent \<Rightarrow> ('x, unit) book_act" where
  "WriteBehaviourEvent evt =
     seqE (failIf (bev_EventType evt = []) ''scorecard: behaviour event requires event_type'')
    (seqE (failIf (bev_DriverID evt = []) ''scorecard: behaviour event requires driver_id'')
     (bindE (if time_IsZero (bev_OccurredAt evt) then in_world Now else ret (bev_OccurredAt evt)) (\<lambda>occurredAt.
      bindE (event_weight (bev_EventType evt)) (\<lambda>weight.
      bindE (in_world GenerateUUID) (\<lambda>i.
      book_stmt (behaviour_insert \<lparr>be_id = i, be_driver_id = bev_DriverID evt, be_trip_id = orNull (bev_TripID evt),
        be_vehicle_id = orNull (bev_VehicleID evt), be_event_type = bev_EventType evt,
        be_severity = (if bev_Severity evt = [] then ''medium'' else bev_Severity evt), be_weight = weight,
        be_metadata = (case bev_Metadata evt of None \<Rightarrow> MetaText \<lparr>bm_Resolved = False, bm_ResolvedBy = [], bm_ResolvedAt = []\<rparr>
          | Some m \<Rightarrow> m),
        be_occurred_at = trunc_second occurredAt\<rparr>))))))"

section \<open>Recomputing scores\<close>

record DriverScore =
  dso_DriverID :: string
  dso_Score :: float64
  dso_Tier :: string
  dso_PeriodStart :: go_time
  dso_PeriodEnd :: go_time
  dso_EventCounts :: "(string \<times> int) list"
  dso_InsufficientData :: bool

definition capped :: "scorecardConfig \<Rightarrow> behaviourEventRow list \<Rightarrow> float64 \<Rightarrow> float64 \<times> string" where
  "capped cfg events score =
     (if sc_fraudCapEnabled cfg \<and> hasUnresolvedFraud events then (math_Min score (sc_fraudCap cfg), ''C'')
      else (score, tierFor score cfg))"

definition counts_json :: "(string \<times> int) list \<Rightarrow> json" where
  "counts_json counts = JObject (map (\<lambda>(k, n). (k, JNumber (float_of_int64 n))) counts)"

definition score_insert :: "score_row \<Rightarrow> ('x, unit) book_sql" where
  "score_insert r fk now d s =
     (if real_null (so_score r) then Inl (ErrConstraint NotNullConstraint ''driver_scores.score'')
      else if so_tier r \<notin> {''A'', ''B'', ''C''} then Inl (ErrConstraint CheckConstraint ''driver_scores'')
      else if so_id r \<in> so_id ` set (bk_driver_scores s) then Inl (ErrConstraint UniqueConstraint ''driver_scores.id'')
      else if fk_missing fk (Some (so_driver_id r)) (map dw_id (db_drivers d))
      then Inl (ErrConstraint ForeignKeyConstraint ''driver_scores.driver_id'')
      else Inr ((), s\<lparr>bk_driver_scores := bk_driver_scores s @ [r]\<rparr>))"

text \<open>A driver whose columns were never set has NULL in them.\<close>

definition profile_of :: "driver_profile list \<Rightarrow> string \<Rightarrow> driver_profile" where
  "profile_of rows i =
     (case find (\<lambda>r. dp_id r = i) rows of
        Some r \<Rightarrow> r
      | None \<Rightarrow> \<lparr>dp_id = i, dp_pan = None, dp_score = None, dp_tier = None\<rparr>)"

definition set_profile :: "(driver_profile \<Rightarrow> driver_profile) \<Rightarrow> string \<Rightarrow> driver_profile list \<Rightarrow> driver_profile list" where
  "set_profile f i rows = filter (\<lambda>r. dp_id r \<noteq> i) rows @ [f (profile_of rows i)]"

definition driver_score_update ::
  "string \<Rightarrow> float64 \<Rightarrow> string \<Rightarrow> go_time \<Rightarrow> bool \<Rightarrow> go_time \<Rightarrow> database \<Rightarrow> 'x books_scheme
     \<Rightarrow> (unit \<times> database \<times> 'x books_scheme) result" where
  "driver_score_update driverID score tier now fk t d s =
     (if driverID \<notin> dw_id ` set (db_drivers d) then Inr ((), d, s)
      else Inr ((),
        d\<lparr>db_drivers := update_where (\<lambda>r. dw_id r = driverID) (\<lambda>r. r\<lparr>dw_updated_at := trunc_second now\<rparr>) (db_drivers d)\<rparr>,
        s\<lparr>bk_drivers := set_profile (\<lambda>r. r\<lparr>dp_score := (if real_null score then None else Some score), dp_tier := Some tier\<rparr>)
            driverID (bk_drivers s)\<rparr>))"

definition persist_score :: "DriverScore \<Rightarrow> ('x, unit) book_act" where
  "persist_score ds =
     book_uow
       (bindE (in_world GenerateUUID) (\<lambda>i.
        seqE (book_stmt (score_insert \<lparr>so_id = i, so_driver_id = dso_DriverID ds, so_score = dso_Score ds, so_tier = dso_Tier ds,
          so_period_start = trunc_second (dso_PeriodStart ds), so_period_end = trunc_second (dso_PeriodEnd ds),
          so_event_counts = counts_json (dso_EventCounts ds), so_computed_at = trunc_second (dso_PeriodEnd ds)\<rparr>))
        (both_stmt (driver_score_update (dso_DriverID ds) (dso_Score ds) (dso_Tier ds) (dso_PeriodEnd ds)))))"

definition score_of :: "string \<Rightarrow> go_time \<Rightarrow> scorecardConfig \<Rightarrow> behaviourEventRow list \<Rightarrow> DriverScore" where
  "score_of driverID now cfg events =
     (case computeScore now cfg events of (score, counts, insufficient) \<Rightarrow>
      case capped cfg events score of (score, tier) \<Rightarrow>
        \<lparr>dso_DriverID = driverID, dso_Score = score, dso_Tier = tier, dso_PeriodStart = window_start now cfg,
         dso_PeriodEnd = now, dso_EventCounts = counts, dso_InsufficientData = insufficient\<rparr>)"

definition RecomputeDriverScore :: "string \<Rightarrow> ('x, DriverScore) book_act" where
  "RecomputeDriverScore driverID =
     bindE loadScorecardConfig (\<lambda>cfg.
     bindE (in_world Now) (\<lambda>now.
     bindE (eventsInWindow driverID (window_start now cfg)) (\<lambda>events.
     let ds = score_of driverID now cfg events in
     bindE (tryE (persist_score ds)) (\<lambda>r.
     case r of
       Inl e \<Rightarrow> raise (WrapError (''scorecard: persist score for '' @ driverID) e)
     | Inr _ \<Rightarrow> ret ds))))"

text \<open>A driver that fails is logged and skipped; the first error is returned at the end.\<close>

primrec recompute_each :: "string list \<Rightarrow> goerr option \<Rightarrow> ('x, goerr option) book_act" where
  "recompute_each [] first = ret first"
| "recompute_each (x # xs) first =
     bindE (tryE (RecomputeDriverScore x)) (\<lambda>r.
     recompute_each xs (case r of Inl e \<Rightarrow> (case first of None \<Rightarrow> Some e | Some _ \<Rightarrow> first) | Inr _ \<Rightarrow> first))"

definition scored_in_window :: "go_time \<Rightarrow> 'x books_scheme \<Rightarrow> string list" where
  "scored_in_window periodStart s =
     remdups (map be_driver_id (filter (\<lambda>r. be_driver_id r \<noteq> [] \<and> trunc_second periodStart \<le> be_occurred_at r)
       (bk_behaviour_events s)))"

definition RecomputeAllDrivers :: "('x, unit) book_act" where
  "RecomputeAllDrivers =
     bindE loadScorecardConfig (\<lambda>cfg.
     bindE (in_world Now) (\<lambda>now.
     let periodStart = window_start now cfg in
     bindE (book_query (\<lambda>t d s. Inr (scored_in_window periodStart s))) (\<lambda>drivers.
     bindE (recompute_each drivers None) (\<lambda>first.
     bindE (book_query (\<lambda>t d s. Inr (filter (\<lambda>i. dp_score (profile_of (bk_drivers s) i) \<noteq> None
         \<and> i \<notin> set (scored_in_window periodStart s)) (map dw_id (db_drivers d))))) (\<lambda>decayDrivers.
     bindE (recompute_each decayDrivers first) (\<lambda>first.
     case first of None \<Rightarrow> ret () | Some e \<Rightarrow> raise e))))))"

section \<open>Bonus and fraud\<close>

definition BonusForPayout :: "string \<Rightarrow> float64 \<Rightarrow> ('x, float64) book_act" where
  "BonusForPayout driverID netPayout =
     bindE loadScorecardConfig (\<lambda>cfg.
     bindE (tryE (book_query (\<lambda>t d s.
       if driverID \<in> dw_id ` set (db_drivers d) then Inr (profile_of (bk_drivers s) driverID) else Inl ErrNoRows))) (\<lambda>r.
     case r of
       Inl _ \<Rightarrow> ret (Fin 0)
     | Inr p \<Rightarrow>
         if dp_score p = None \<or> str_or_empty (dp_tier p) = [] then ret (Fin 0)
         else bindE (in_world Now) (\<lambda>now.
           bindE (tryE (book_query (\<lambda>t d s. Inr (length (filter (in_window driverID (window_start now cfg)) (bk_behaviour_events s))))))
           (\<lambda>n. case n of
              Inl _ \<Rightarrow> ret (Fin 0)
            | Inr n \<Rightarrow>
                if int n < sc_minEvents cfg then ret (Fin 0)
                else bindE (if dp_tier p = Some ''A'' then scorecard_pct ConfigScorecardBonusA DefaultScorecardBonusA
                     else if dp_tier p = Some ''B'' then scorecard_pct ConfigScorecardBonusB DefaultScorecardBonusB
                     else scorecard_pct ConfigScorecardBonusC DefaultScorecardBonusC) (\<lambda>pct.
                  ret (fdivc (fmul netPayout pct) 100))))))"

text \<open>The text of the metadata column, for identifiers without characters that JSON escapes.\<close>

definition meta_text :: "metadata_text \<Rightarrow> string" where
  "meta_text m =
     (case m of
        OtherText s \<Rightarrow> s
      | MetaText b \<Rightarrow> ''{\"resolved\":'' @ (if bm_Resolved b then ''true'' else ''false'') @ '',\"resolved_by\":\"'' @ bm_ResolvedBy b
          @ ''\",\"resolved_at\":\"'' @ bm_ResolvedAt b @ ''\"}'')"

definition ResolveFraudEvent :: "string \<Rightarrow> string \<Rightarrow> ('x, unit) book_act" where
  "ResolveFraudEvent eventID adminUserID =
     bindE (tryE (book_query (\<lambda>t d s. one_row (find (\<lambda>r. be_id r = eventID) (bk_behaviour_events s))))) (\<lambda>r.
     case r of
       Inl _ \<Rightarrow> raise (ErrorString (''scorecard: behaviour event '' @ eventID @ '' not found''))
     | Inr e \<Rightarrow>
         seqE (failIf (be_event_type e \<notin> set fraudEventTypes)
           (''scorecard: event '' @ eventID @ '' ('' @ be_event_type e @ '') is not a fraud-cap event''))
        (seqE (failIf (meta_resolved (be_metadata e)) (''scorecard: event '' @ eventID @ '' already resolved''))
         (bindE (in_world Now) (\<lambda>now.
          let updated = MetaText \<lparr>bm_Resolved = True, bm_ResolvedBy = adminUserID, bm_ResolvedAt = timeStr now\<rparr> in
          seqE (book_uow (book_stmt (\<lambda>fk t d s. Inr ((), s\<lparr>bk_behaviour_events :=
            update_where (\<lambda>r. be_id r = eventID) (\<lambda>r. r\<lparr>be_metadata := updated\<rparr>) (bk_behaviour_events s)\<rparr>))))
         (seqE (in_world (service_logAudit (Some adminUserID) ''fraud_event_resolved'' ''driver_behaviour_events'' eventID
            (Some (JMalformed (meta_text (be_metadata e)))) (Some (JMalformed (meta_text updated)))))
          (if be_driver_id e \<noteq> [] then seqE (RecomputeDriverScore (be_driver_id e)) (ret ()) else ret ()))))))"

end
