(* ===== verification/Ops_Alerts.thy ===== *)
theory Ops_Alerts
  imports Accounts
begin

text \<open>
  Operational alerts (\<open>internal/service/ops_alert_service.go\<close>), founder signals
  (\<open>founder_signals_service.go\<close>) and the audit trail of founder actions
  (\<open>founder_audit_service.go\<close>): creation with its thresholds, the life cycle, lists and counts.
\<close>

section \<open>Founder audit\<close>

definition AuditActionSignalAcknowledge :: string where "AuditActionSignalAcknowledge = ''signal_acknowledge''"

definition RecordAudit :: "AuditEntry \<Rightarrow> ('x, unit) book_act" where
  "RecordAudit entry =
     (let entry = (if ae_TenantID entry = [] then entry\<lparr>ae_TenantID := ''1''\<rparr> else entry) in
      bindE (in_world (GenerateDisplayID ''fa'')) (\<lambda>i.
      bindE (in_world Now) (\<lambda>now.
      bindE (tryE (book_stmt (\<lambda>fk t d s.
        if i \<in> ae_ID ` set (bk_founder_audit s) then Inl (ErrConstraint UniqueConstraint ''founder_audit.id'')
        else Inr ((), s\<lparr>bk_founder_audit := bk_founder_audit s @ [entry\<lparr>ae_ID := i, ae_CreatedAt := now\<rparr>]\<rparr>)))) (\<lambda>r.
      case r of Inl e \<Rightarrow> raise (WrapError ''insert founder audit'' e) | Inr _ \<Rightarrow> ret ()))))"

text \<open>A page number counts from zero here; without a limit everything is returned.\<close>

definition list_from :: "int \<Rightarrow> int \<Rightarrow> 'a list \<Rightarrow> 'a list" where
  "list_from pg limit xs = (if 0 < limit then sql_page limit (wrap64 (pg * limit)) xs else xs)"

definition ListAudit :: "TenantID \<Rightarrow> string \<Rightarrow> string \<Rightarrow> int \<Rightarrow> int \<Rightarrow> ('x, AuditEntry list \<times> int) book_act" where
  "ListAudit tenantID action resourceType pg limit =
     (let t = (if tenantID = [] then ''1'' else tenantID);
          sel = (\<lambda>s. filter (\<lambda>e. ae_TenantID e = t \<and> (action = [] \<or> ae_Action e = action)
            \<and> (resourceType = [] \<or> ae_ResourceType e = resourceType)) (bk_founder_audit s)) in
      bindE (book_query (\<lambda>now d s. Inr (list_from pg limit (sort_key (\<lambda>e. - ae_CreatedAt e) (sel s))))) (\<lambda>entries.
      bindE (book_query (\<lambda>now d s. Inr (int (length (sel s))))) (\<lambda>total.
      ret (entries, total))))"

section \<open>Founder signals\<close>

definition signal_types :: "string list" where
  "signal_types = [''revenue_milestone'', ''customer_churn_risk'', ''driver_churn_risk'', ''vehicle_utilization'',
     ''fuel_efficiency_trend'', ''compliance_score'', ''settlement_dispute_spike'', ''cash_flow_alert'']"

definition SignalSettlementDisputeSpike :: string where "SignalSettlementDisputeSpike = ''settlement_dispute_spike''"
definition SignalCashFlowAlert :: string where "SignalCashFlowAlert = ''cash_flow_alert''"
definition SignalRevenueMilestone :: string where "SignalRevenueMilestone = ''revenue_milestone''"
definition SignalDriverChurnRisk :: string where "SignalDriverChurnRisk = ''driver_churn_risk''"
definition SignalVehicleUtilization :: string where "SignalVehicleUtilization = ''vehicle_utilization''"
definition SignalComplianceScore :: string where "SignalComplianceScore = ''compliance_score''"
definition DirectionAbove :: string where "DirectionAbove = ''above''"
definition DirectionBelow :: string where "DirectionBelow = ''below''"

definition signal_insert :: "FounderSignal \<Rightarrow> ('x, unit) book_sql" where
  "signal_insert r fk now d s =
     (if real_null (fs_SignalValue r) then Inl (ErrConstraint NotNullConstraint ''founder_signals.signal_value'')
      else if fs_SignalType r \<notin> set signal_types \<or> fs_Direction r \<notin> {''above'', ''below'', ''crossed''}
      then Inl (ErrConstraint CheckConstraint ''founder_signals'')
      else if fs_ID r \<in> fs_ID ` set (bk_founder_signals s) then Inl (ErrConstraint UniqueConstraint ''founder_signals.id'')
      else Inr ((), s\<lparr>bk_founder_signals := bk_founder_signals s @ [r]\<rparr>))"

definition EmitSignal :: "TenantID \<Rightarrow> string \<Rightarrow> float64 \<Rightarrow> float64 option \<Rightarrow> string \<Rightarrow> json \<Rightarrow> ('x, string) book_act" where
  "EmitSignal tenantID signalType v threshold direction metadata =
     bindE (in_world (GenerateDisplayID ''fsig'')) (\<lambda>i.
     bindE (in_world Now) (\<lambda>now.
     bindE (tryE (book_stmt (signal_insert \<lparr>fs_ID = i, fs_TenantID = (if tenantID = [] then ''1'' else tenantID),
       fs_SignalType = signalType, fs_SignalValue = v, fs_ThresholdValue = threshold, fs_Direction = direction,
       fs_Metadata = metadata, fs_Acknowledged = False, fs_AcknowledgedBy = None, fs_AcknowledgedAt = None,
       fs_CreatedAt = now\<rparr>))) (\<lambda>r.
     case r of Inl e \<Rightarrow> raise (WrapError ''insert founder signal'' e) | Inr _ \<Rightarrow> ret i)))"

definition hour_ns :: int where "hour_ns = 3600 * 10 ^ 9"

text \<open>\<open>created_at > datetime('now', '-n hour')\<close>, a comparison of texts: the stored one is longer.\<close>

definition created_within :: "int \<Rightarrow> go_time \<Rightarrow> go_time \<Rightarrow> bool" where
  "created_within hours now created \<longleftrightarrow> now - hours * hour_ns \<le> trunc_second created"

definition EmitIfThreshold :: "TenantID \<Rightarrow> string \<Rightarrow> float64 \<Rightarrow> float64 \<Rightarrow> json \<Rightarrow> ('x, bool) book_act" where
  "EmitIfThreshold tenantID signalType v threshold metadata =
     (let t = (if tenantID = [] then ''1'' else tenantID);
          emit = (\<lambda>direction.
            bindE (tryE (book_query (\<lambda>now d s. Inr (length (filter (\<lambda>r. fs_TenantID r = t \<and> fs_SignalType r = signalType
               \<and> fs_Direction r = direction \<and> created_within 1 now (fs_CreatedAt r)) (bk_founder_signals s)))))) (\<lambda>r.
            case r of
              Inl e \<Rightarrow> raise (WrapError ''dedup check'' e)
            | Inr n \<Rightarrow>
                if 0 < n then ret False
                else bindE (EmitSignal t signalType v (Some threshold) direction metadata) (\<lambda>i. ret (i \<noteq> [])))) in
      if flt threshold v then emit DirectionAbove
      else if flt v threshold then emit DirectionBelow
      else ret False)"

definition AcknowledgeSignal :: "string \<Rightarrow> string \<Rightarrow> string \<Rightarrow> ('x, unit) book_act" where
  "AcknowledgeSignal signalID userID role =
     bindE (in_world Now) (\<lambda>now.
     bindE (book_stmt (\<lambda>fk t d s.
       let p = (\<lambda>r. fs_ID r = signalID \<and> \<not> fs_Acknowledged r) in
       Inr (length (filter p (bk_founder_signals s)),
         s\<lparr>bk_founder_signals := update_where p
           (\<lambda>r. r\<lparr>fs_Acknowledged := True, fs_AcknowledgedBy := Some userID, fs_AcknowledgedAt := Some now\<rparr>)
           (bk_founder_signals s)\<rparr>))) (\<lambda>n.
     seqE (failIf (n = 0) (''signal '' @ signalID @ '' not found or already acknowledged''))
     (ignore_error (RecordAudit \<lparr>ae_ID = [], ae_TenantID = ''1'', ae_ActorID = userID,
        ae_ActorRole = (if role = [] then ''admin'' else role), ae_Action = AuditActionSignalAcknowledge,
        ae_ResourceType = ''founder_signal'', ae_ResourceID = signalID, ae_Details = JObject [], ae_IPAddress = [],
        ae_UserAgent = [], ae_CreatedAt = 0\<rparr>))))"

definition ListSignals :: "TenantID \<Rightarrow> string \<Rightarrow> bool \<Rightarrow> int \<Rightarrow> int \<Rightarrow> ('x, FounderSignal list \<times> int) book_act" where
  "ListSignals tenantID signalType unacknowledgedOnly pg limit =
     (let t = (if tenantID = [] then ''1'' else tenantID);
          sel = (\<lambda>s. filter (\<lambda>r. fs_TenantID r = t \<and> (signalType = [] \<or> fs_SignalType r = signalType)
            \<and> (unacknowledgedOnly \<longrightarrow> \<not> fs_Acknowledged r)) (bk_founder_signals s)) in
      bindE (book_query (\<lambda>now d s. Inr (list_from pg limit (sort_key (\<lambda>r. - fs_CreatedAt r) (sel s))))) (\<lambda>signals.
      bindE (book_query (\<lambda>now d s. Inr (int (length (sel s))))) (\<lambda>total.
      ret (signals, total))))"

definition CountUnacknowledged :: "TenantID \<Rightarrow> ('x, int) book_act" where
  "CountUnacknowledged tenantID =
     book_query (\<lambda>now d s. Inr (int (length (filter
       (\<lambda>r. fs_TenantID r = (if tenantID = [] then ''1'' else tenantID) \<and> \<not> fs_Acknowledged r) (bk_founder_signals s)))))"

text \<open>The hooks; a metadata text of numbers is an object of them.\<close>

definition EmitRevenueMilestone :: "TenantID \<Rightarrow> float64 \<Rightarrow> float64 \<Rightarrow> ('x, bool) book_act" where
  "EmitRevenueMilestone t v threshold =
     EmitIfThreshold t SignalRevenueMilestone v threshold
       (JMalformed (''{\"monthly_revenue\":'' @ fmt_fixed 2 v @ '',\"threshold\":'' @ fmt_fixed 2 threshold @ ''}''))"

definition EmitDriverChurnRisk :: "TenantID \<Rightarrow> float64 \<Rightarrow> float64 \<Rightarrow> ('x, bool) book_act" where
  "EmitDriverChurnRisk t v threshold =
     EmitIfThreshold t SignalDriverChurnRisk v threshold
       (JMalformed (''{\"inactive_count\":'' @ fmt_fixed 0 v @ '',\"threshold\":'' @ fmt_fixed 0 threshold @ '',\"window_days\":14}''))"

definition EmitVehicleUtilization :: "TenantID \<Rightarrow> float64 \<Rightarrow> float64 \<Rightarrow> int \<Rightarrow> int \<Rightarrow> ('x, bool) book_act" where
  "EmitVehicleUtilization t v threshold trips vehicles =
     EmitIfThreshold t SignalVehicleUtilization v threshold
       (JMalformed (''{\"trips\":'' @ itoa trips @ '',\"vehicles\":'' @ itoa vehicles @ '',\"utilization\":'' @ fmt_fixed 2 v @ ''}''))"

definition EmitSettlementDisputeSpike :: "TenantID \<Rightarrow> float64 \<Rightarrow> float64 \<Rightarrow> ('x, bool) book_act" where
  "EmitSettlementDisputeSpike t disputeCount threshold =
     EmitIfThreshold t SignalSettlementDisputeSpike disputeCount threshold
       (JMalformed (''{\"dispute_count\":'' @ fmt_fixed 0 disputeCount @ '',\"window_days\":7}''))"

definition EmitCashFlowAlert :: "TenantID \<Rightarrow> float64 \<Rightarrow> string \<Rightarrow> ('x, bool) book_act" where
  "EmitCashFlowAlert t netProfit date =
     EmitIfThreshold t SignalCashFlowAlert netProfit (Fin 0)
       (JMalformed (''{\"net_profit\":'' @ fmt_fixed 2 netProfit @ '',\"date\":\"'' @ date @ ''\"}''))"

definition EmitComplianceScore :: "TenantID \<Rightarrow> float64 \<Rightarrow> float64 \<Rightarrow> ('x, bool) book_act" where
  "EmitComplianceScore t score threshold =
     EmitIfThreshold t SignalComplianceScore score threshold
       (JMalformed (''{\"score\":'' @ fmt_fixed 1 score @ '',\"threshold\":'' @ fmt_fixed 1 threshold @ ''}''))"

section \<open>Operational alerts\<close>

definition alert_types :: "string list" where
  "alert_types = [''vehicle_breakdown'', ''driver_absence'', ''route_disruption'', ''payment_delay'', ''compliance_breach'',
     ''fuel_theft_confirmed'', ''settlement_dispute'', ''system_error'']"

definition OpsAlertSettlementDispute :: string where "OpsAlertSettlementDispute = ''settlement_dispute''"
definition OpsAlertSeverityMedium :: string where "OpsAlertSeverityMedium = ''medium''"
definition OpsAlertSeverityHigh :: string where "OpsAlertSeverityHigh = ''high''"
definition OpsAlertSeverityCritical :: string where "OpsAlertSeverityCritical = ''critical''"
definition OpsAlertStatusOpen :: string where "OpsAlertStatusOpen = ''open''"
definition OpsAlertStatusAcknowledged :: string where "OpsAlertStatusAcknowledged = ''acknowledged''"
definition OpsAlertStatusResolved :: string where "OpsAlertStatusResolved = ''resolved''"
definition OpsAlertStatusDismissed :: string where "OpsAlertStatusDismissed = ''dismissed''"

definition ctx_alert_tenant :: "env \<Rightarrow> TenantID" where
  "ctx_alert_tenant e = TenantIDFromContext (env_ctx e)"

definition alert_tenant :: "env \<Rightarrow> string \<Rightarrow> string" where
  "alert_tenant e t = (if t \<noteq> [] then t else if ctx_alert_tenant e \<noteq> [] then ctx_alert_tenant e else ''1'')"

definition alert_insert :: "OpsAlert \<Rightarrow> ('x, unit) book_sql" where
  "alert_insert r fk now d s =
     (if oa_AlertType r \<notin> set alert_types \<or> oa_Severity r \<notin> {''low'', ''medium'', ''high'', ''critical''}
      then Inl (ErrConstraint CheckConstraint ''ops_alerts'')
      else if oa_ID r \<in> oa_ID ` set (bk_ops_alerts s) then Inl (ErrConstraint UniqueConstraint ''ops_alerts.id'')
      else Inr ((), s\<lparr>bk_ops_alerts := bk_ops_alerts s @ [r]\<rparr>))"

definition CountAlertsSince :: "TenantID \<Rightarrow> string \<Rightarrow> int \<Rightarrow> ('x, int) book_act" where
  "CountAlertsSince tenantID alertType hours =
     book_query (\<lambda>now d s. Inr (int (length (filter (\<lambda>r. oa_TenantID r = (if tenantID = [] then ''1'' else tenantID)
       \<and> oa_AlertType r = alertType \<and> created_within hours now (oa_CreatedAt r)) (bk_ops_alerts s)))))"

definition CountByStatus :: "TenantID \<Rightarrow> string \<Rightarrow> ('x, int) book_act" where
  "CountByStatus tenantID status =
     book_query (\<lambda>now d s. Inr (int (length (filter (\<lambda>r. oa_TenantID r = (if tenantID = [] then ''1'' else tenantID)
       \<and> oa_Status r = status) (bk_ops_alerts s)))))"

definition json_opt :: "string option \<Rightarrow> json" where
  "json_opt x = (case x of None \<Rightarrow> JObject [] | Some s \<Rightarrow> JString s)"

definition critical_event :: "OpsAlert \<Rightarrow> json" where
  "critical_event a = JObject [(''alert_id'', JString (oa_ID a)), (''alert_type'', JString (oa_AlertType a)),
     (''severity'', JString (oa_Severity a)), (''title'', JString (oa_Title a)), (''description'', JString (oa_Description a)),
     (''entity_type'', json_opt (oa_EntityType a)), (''entity_id'', json_opt (oa_EntityID a)), (''tenant_id'', JString (oa_TenantID a))]"

text \<open>The errors of the count and of the signal are dropped; a count that failed is zero.\<close>

definition dispute_spike :: "TenantID \<Rightarrow> ('x, unit) book_act" where
  "dispute_spike tenantID =
     bindE (tryE (CountAlertsSince tenantID OpsAlertSettlementDispute (7 * 24))) (\<lambda>r.
     let count = (case r of Inl _ \<Rightarrow> 0 | Inr n \<Rightarrow> n) in
     if 3 \<le> count then ignore_error (EmitSettlementDisputeSpike tenantID (float_of_int64 count) (Fin 3)) else ret ())"

definition CreateAlert :: "OpsAlert \<Rightarrow> ('x, string) book_act" where
  "CreateAlert alert =
     bindE (in_world getEnv) (\<lambda>e.
     bindE (in_world (GenerateDisplayID ''ops'')) (\<lambda>i.
     bindE (in_world Now) (\<lambda>now.
     let a = alert\<lparr>oa_ID := i, oa_TenantID := alert_tenant e (oa_TenantID alert),
       oa_Severity := (if oa_Severity alert = [] then OpsAlertSeverityMedium else oa_Severity alert),
       oa_Status := OpsAlertStatusOpen, oa_AcknowledgedBy := None, oa_AcknowledgedAt := None, oa_ResolvedBy := None,
       oa_ResolvedAt := None, oa_ResolutionNote := None, oa_CreatedAt := now\<rparr> in
     bindE (tryE (book_stmt (alert_insert a))) (\<lambda>r.
     case r of
       Inl err \<Rightarrow> raise (WrapError ''insert ops alert'' err)
     | Inr _ \<Rightarrow>
         seqE (if oa_Severity a = OpsAlertSeverityCritical then bus_publish ''ops.alert.critical'' (critical_event a) else ret ())
        (seqE (if oa_AlertType a = OpsAlertSettlementDispute then dispute_spike (oa_TenantID a) else ret ())
        (ret i))))))"

definition move_alert :: "string \<Rightarrow> string list \<Rightarrow> (go_time \<Rightarrow> OpsAlert \<Rightarrow> OpsAlert) \<Rightarrow> string \<Rightarrow> ('x, unit) book_act" where
  "move_alert alertID allowed f msg =
     bindE (in_world Now) (\<lambda>now.
     bindE (book_stmt (\<lambda>fk t d s.
       let p = (\<lambda>r. oa_ID r = alertID \<and> oa_Status r \<in> set allowed) in
       Inr (length (filter p (bk_ops_alerts s)), s\<lparr>bk_ops_alerts := update_where p (f now) (bk_ops_alerts s)\<rparr>))) (\<lambda>n.
     failIf (n = 0) msg))"

definition AcknowledgeAlert :: "string \<Rightarrow> string \<Rightarrow> ('x, unit) book_act" where
  "AcknowledgeAlert alertID userID =
     move_alert alertID [OpsAlertStatusOpen]
       (\<lambda>now r. r\<lparr>oa_Status := OpsAlertStatusAcknowledged, oa_AcknowledgedBy := Some userID, oa_AcknowledgedAt := Some now\<rparr>)
       ''alert not found or already acknowledged''"

definition ResolveAlert :: "string \<Rightarrow> string \<Rightarrow> string \<Rightarrow> ('x, unit) book_act" where
  "ResolveAlert alertID userID note =
     move_alert alertID [OpsAlertStatusOpen, OpsAlertStatusAcknowledged]
       (\<lambda>now r. r\<lparr>oa_Status := OpsAlertStatusResolved, oa_ResolvedBy := Some userID, oa_ResolvedAt := Some now,
          oa_ResolutionNote := Some note\<rparr>)
       ''alert not found or already resolved''"

definition DismissAlert :: "string \<Rightarrow> string \<Rightarrow> string \<Rightarrow> ('x, unit) book_act" where
  "DismissAlert alertID userID reason =
     move_alert alertID [OpsAlertStatusOpen, OpsAlertStatusAcknowledged]
       (\<lambda>now r. r\<lparr>oa_Status := OpsAlertStatusDismissed, oa_ResolvedBy := Some userID, oa_ResolvedAt := Some now,
          oa_ResolutionNote := Some reason\<rparr>)
       ''alert not found or already dismissed''"

definition GetAlert :: "string \<Rightarrow> ('x, OpsAlert) book_act" where
  "GetAlert alertID =
     bindE (tryE (book_query (\<lambda>now d s. one_row (find (\<lambda>r. oa_ID r = alertID) (bk_ops_alerts s))))) (\<lambda>r.
     case r of
       Inr a \<Rightarrow> ret a
     | Inl e \<Rightarrow> raise (if e = ErrNoRows then ErrorString ''alert not found'' else e))"

record OpsAlertFilters =
  oaf_Status :: string
  oaf_Type :: string
  oaf_Severity :: string
  oaf_Page :: int
  oaf_Limit :: int

definition ListAlerts :: "TenantID \<Rightarrow> OpsAlertFilters \<Rightarrow> ('x, OpsAlert list \<times> int) book_act" where
  "ListAlerts tenantID f =
     bindE (in_world getEnv) (\<lambda>e.
     let t = alert_tenant e tenantID;
         sel = (\<lambda>s. filter (\<lambda>r. oa_TenantID r = t \<and> (oaf_Status f = [] \<or> oa_Status r = oaf_Status f)
           \<and> (oaf_Type f = [] \<or> oa_AlertType r = oaf_Type f) \<and> (oaf_Severity f = [] \<or> oa_Severity r = oaf_Severity f))
           (bk_ops_alerts s));
         limit = (if oaf_Limit f \<le> 0 then 50 else if 200 < oaf_Limit f then 200 else oaf_Limit f);
         pg = (if oaf_Page f \<le> 0 then 1 else oaf_Page f);
         offset = wrap64 ((pg - 1) * limit) in
     bindE (tryE (book_query (\<lambda>now d s. Inr (int (length (sel s)))))) (\<lambda>n.
     case n of
       Inl err \<Rightarrow> raise (WrapError ''count ops alerts'' err)
     | Inr cnt \<Rightarrow>
         bindE (tryE (book_query (\<lambda>now d s. Inr (sql_page limit offset (sort_key (\<lambda>r. - oa_CreatedAt r) (sel s)))))) (\<lambda>r.
         case r of Inl err \<Rightarrow> raise (WrapError ''query ops alerts'' err) | Inr alerts \<Rightarrow> ret (alerts, cnt))))"

end
