(* ===== verification/Settlement.thy ===== *)
theory Settlement
  imports Kharcha Scorecard Ops_Alerts
begin

text \<open>
  Settlements of drivers (\<open>internal/service/driver_settlement_service.go\<close>): the fare by rate
  model, advances and deductions from approved expenses, tax deducted at source, the performance
  bonus, the header with its lines, and what later happens to a settlement.
\<close>

section \<open>Records\<close>

record DriverSettlementRecord = settlement_row +
  sr_Lines :: "SettlementLine list"

definition ErrSettlementNotFound :: goerr where "ErrSettlementNotFound = ErrorString ''settlement_not_found''"
definition ErrTripNotFound :: goerr where "ErrTripNotFound = ErrorString ''trip_not_found''"
definition ErrDriverNotAssigned :: goerr where "ErrDriverNotAssigned = ErrorString ''driver_not_assigned''"
definition ErrBookingPriceMissing :: goerr where "ErrBookingPriceMissing = ErrorString ''booking_price_missing''"

record RateResult =
  rr_GrossFare :: float64
  rr_Commission :: float64
  rr_RateModel :: string
  rr_RateBasis :: "(string \<times> float64) list"

definition defaultSettlementFare :: float64 where "defaultSettlementFare = Fin 1000"
definition defaultSettlementAdvances :: float64 where "defaultSettlementAdvances = Fin 200"
definition defaultSettlementDeductions :: float64 where "defaultSettlementDeductions = Fin 50"

section \<open>Settings\<close>

text \<open>The row of any tenant answers: the first with the key.\<close>

definition getConfig :: "string \<Rightarrow> ('x, string) book_act" where
  "getConfig key =
     bindE (tryE (book_query (\<lambda>now d s. one_row (find (\<lambda>r. fst (snd r) = key) (db_company_config d))))) (\<lambda>r.
     ret (case r of Inr (t, k, v) \<Rightarrow> v | Inl _ \<Rightarrow> []))"

definition getConfigFloat :: "string \<Rightarrow> float64 \<Rightarrow> ('x, float64) book_act" where
  "getConfigFloat key def = bindE (getConfig key) (\<lambda>v. ret (as_float def v))"

section \<open>Amounts\<close>

text \<open>\<open>_ = QueryRow(...).Scan(&x)\<close>: the variable keeps zero when there is no row.\<close>

definition read_amount :: "(database \<Rightarrow> 'x books_scheme \<Rightarrow> float64 option) \<Rightarrow> ('x, float64) book_act" where
  "read_amount f =
     bindE (tryE (book_query (\<lambda>now d s. one_row (f d s)))) (\<lambda>r. ret (case r of Inr x \<Rightarrow> x | Inl _ \<Rightarrow> Fin 0))"

text \<open>The three models, and what an unknown one gives.\<close>

definition gross_per_km :: "string \<Rightarrow> ('x, RateResult) book_act" where
  "gross_per_km routeID =
     bindE (if routeID = [] then ret (Fin 0) else read_amount (\<lambda>d s. map_of (bk_route_distances s) routeID)) (\<lambda>found.
     let km = (if fle found (Fin 0) then Fin 100 else found) in
     bindE (getConfigFloat ''settlement_rate_per_km'' (rnd (119 / 10))) (\<lambda>ratePerKm.
     ret \<lparr>rr_GrossFare = fmul km ratePerKm, rr_Commission = Fin 0, rr_RateModel = ''per_km'',
       rr_RateBasis = [(''km'', km), (''rate_per_km'', ratePerKm)]\<rparr>))"

definition gross_fixed :: "('x, RateResult) book_act" where
  "gross_fixed =
     bindE (getConfigFloat ''settlement_fixed_fare'' (Fin 5000)) (\<lambda>fixedFare.
     ret \<lparr>rr_GrossFare = fixedFare, rr_Commission = Fin 0, rr_RateModel = ''fixed'', rr_RateBasis = [(''fixed'', fixedFare)]\<rparr>)"

definition gross_commission :: "string \<Rightarrow> ('x, RateResult) book_act" where
  "gross_commission bookingID =
     bindE (if bookingID = [] then ret (Fin 0)
       else read_amount (\<lambda>d s. map_option br_price (find (\<lambda>r. br_id r = bookingID) (db_bookings d)))) (\<lambda>fare.
     if fle fare (Fin 0) then raise ErrBookingPriceMissing
     else bindE (getConfigFloat ''settlement_commission_pct'' (Fin 5)) (\<lambda>p.
       let pct = fdivc p 100; commission = fmul fare pct in
       ret \<lparr>rr_GrossFare = fsub fare commission, rr_Commission = commission, rr_RateModel = ''commission_pct'',
         rr_RateBasis = [(''commission_pct'', pct), (''fare'', fare)]\<rparr>))"

definition default_rate :: RateResult where
  "default_rate = \<lparr>rr_GrossFare = defaultSettlementFare, rr_Commission = Fin 0, rr_RateModel = ''fixed'',
     rr_RateBasis = [(''fixed'', defaultSettlementFare)]\<rparr>"

definition calculateGrossFare :: "string \<Rightarrow> string \<Rightarrow> ('x, RateResult) book_act" where
  "calculateGrossFare bookingID routeID =
     bindE (getConfig ''settlement_rate_model'') (\<lambda>m.
     let rateModel = (if m = [] then ''per_km'' else m) in
     if rateModel = ''per_km'' then gross_per_km routeID
     else if rateModel = ''fixed'' then gross_fixed
     else if rateModel = ''commission_pct'' then gross_commission bookingID
     else ret default_rate)"

definition advance_categories :: "string list" where
  "advance_categories = [''kharcha'', ''advance'', ''fuel'', ''toll'']"

definition empty_line :: SettlementLine where
  "empty_line = \<lparr>sl_ID = [], sl_SettlementID = [], sl_TripID = [], sl_LineType = [], sl_Label = [], sl_Amount = Fin 0,
     sl_RefID = [], sl_CreatedAt = 0\<rparr>"

definition approved_expenses :: "bool \<Rightarrow> string \<Rightarrow> string \<Rightarrow> 'x books_scheme \<Rightarrow> expense_row list" where
  "approved_expenses advance tripID driverID s =
     filter (\<lambda>r. xe_trip_id r = Some tripID \<and> xe_driver_id r = Some driverID \<and> xe_status r = ''approved''
       \<and> (xe_category r \<in> set advance_categories) = advance) (bk_driver_expenses s)"

definition total_amount :: "expense_row list \<Rightarrow> float64" where
  "total_amount rows = foldl (\<lambda>total r. fadd total (xe_amount r)) (Fin 0) rows"

definition getApprovedAdvances :: "string \<Rightarrow> string \<Rightarrow> ('x, float64 \<times> SettlementLine list) book_act" where
  "getApprovedAdvances tripID driverID =
     bindE (book_query (\<lambda>now d s. Inr (approved_expenses True tripID driverID s))) (\<lambda>rows.
     ret (total_amount rows, map (\<lambda>r. empty_line\<lparr>sl_LineType := ''advances'',
       sl_Label := ''Approved expense ('' @ xe_category r @ '') #'' @ xe_id r, sl_Amount := fneg (xe_amount r),
       sl_RefID := xe_id r\<rparr>) rows))"

definition getApprovedDeductions :: "string \<Rightarrow> string \<Rightarrow> ('x, float64 \<times> SettlementLine list) book_act" where
  "getApprovedDeductions tripID driverID =
     bindE (book_query (\<lambda>now d s. Inr (approved_expenses False tripID driverID s))) (\<lambda>rows.
     ret (total_amount rows, map (\<lambda>r. empty_line\<lparr>sl_LineType := ''deduction'',
       sl_Label := ''Approved deduction ('' @ xe_category r @ '') #'' @ xe_id r, sl_Amount := fneg (xe_amount r),
       sl_RefID := xe_id r\<rparr>) rows))"

definition calculateTDS :: "string \<Rightarrow> float64 \<Rightarrow> ('x, float64 \<times> float64 \<times> string) book_act" where
  "calculateTDS driverID tdsBase =
     bindE (tryE (book_query (\<lambda>now d s.
       if driverID \<in> dw_id ` set (db_drivers d) then Inr (dp_pan (profile_of (bk_drivers s) driverID)) else Inl ErrNoRows))) (\<lambda>r.
     bindE (getConfig ''tds_section'') (\<lambda>sec.
     bindE (case r of
         Inr (Some pan) \<Rightarrow>
           if TrimSpace pan \<noteq> [] then getConfigFloat ''tds_rate_with_pan'' (Fin 1) else getConfigFloat ''tds_rate_without_pan'' (Fin 2)
       | _ \<Rightarrow> getConfigFloat ''tds_rate_without_pan'' (Fin 2)) (\<lambda>rate.
     ret (rate, fmul tdsBase (fdivc rate 100), if sec = [] then ''194C'' else sec))))"

section \<open>Lines\<close>

definition fare_label :: "RateResult \<Rightarrow> string" where
  "fare_label rate =
     (if rr_RateModel rate = ''per_km'' then
        (case map_of (rr_RateBasis rate) ''km'' of
           Some km \<Rightarrow> ''Trip fare (per_km '' @ fmt_fixed 1 km @ '' km x ''
             @ fmt_fixed 2 (case map_of (rr_RateBasis rate) ''rate_per_km'' of Some x \<Rightarrow> x | None \<Rightarrow> NaN) @ '')''
         | None \<Rightarrow> ''Trip fare (per_km)'')
      else ''Trip fare ('' @ rr_RateModel rate @ '')'')"

definition commission_label :: "RateResult \<Rightarrow> string" where
  "commission_label rate =
     ''Platform commission '' @ fmt_fixed 1 (case map_of (rr_RateBasis rate) ''commission_pct'' of
        Some p \<Rightarrow> fmul p (Fin 100) | None \<Rightarrow> Fin 5) @ ''%''"

definition line_of :: "string \<Rightarrow> string \<Rightarrow> string \<Rightarrow> string \<Rightarrow> float64 \<Rightarrow> SettlementLine" where
  "line_of settlementID tripID ty lbl amount =
     empty_line\<lparr>sl_SettlementID := settlementID, sl_TripID := tripID, sl_LineType := ty, sl_Label := lbl, sl_Amount := amount\<rparr>"

definition buildLines ::
  "string \<Rightarrow> string \<Rightarrow> RateResult \<Rightarrow> float64 \<Rightarrow> SettlementLine list \<Rightarrow> float64 \<Rightarrow> SettlementLine list \<Rightarrow> float64 \<Rightarrow> float64
     \<Rightarrow> string \<Rightarrow> float64 \<Rightarrow> SettlementLine list" where
  "buildLines settlementID tripID rate advances advLines deductions dedLines tdsRate tdsAmount tdsSection bonus =
     (let line = line_of settlementID tripID in
      [line ''gross_fare'' (fare_label rate) (rr_GrossFare rate)]
      @ (if flt (Fin 0) (rr_Commission rate) then [line ''commission'' (commission_label rate) (fneg (rr_Commission rate))] else [])
      @ (if flt (Fin 0) advances then
           (if advLines \<noteq> [] then advLines else [line ''advances'' ''Advances & kharcha'' (fneg advances)]) else [])
      @ (if flt (Fin 0) deductions then dedLines else [])
      @ (if flt (Fin 0) tdsAmount
         then [line ''tds'' (''TDS u/s '' @ tdsSection @ '' @'' @ fmt_fixed 0 tdsRate @ ''%'') (fneg tdsAmount)] else [])
      @ (if flt (Fin 0) bonus then [line ''adjustment'' ''Performance bonus'' bonus] else []))"

section \<open>Reading a settlement\<close>

definition findByTripID :: "string \<Rightarrow> ('x, DriverSettlementRecord) book_act" where
  "findByTripID tripID =
     bindE (tryE (book_query (\<lambda>now d s. one_row (find (\<lambda>r. st_trip_id r = tripID) (bk_driver_settlements s))))) (\<lambda>r.
     case r of
       Inl e \<Rightarrow> raise (if errors_Is_NoRows e then ErrSettlementNotFound else e)
     | Inr row \<Rightarrow>
         bindE (tryE (book_query (\<lambda>now d s. Inr (sort_key sl_CreatedAt
           (filter (\<lambda>l. sl_SettlementID l = st_id row) (bk_settlement_lines s)))))) (\<lambda>ls.
         ret (settlement_row.extend row \<lparr>sr_Lines = (case ls of Inr xs \<Rightarrow> xs | Inl _ \<Rightarrow> [])\<rparr>)))"

definition trip_of_settlement :: "string \<Rightarrow> ('x, settlement_row) book_act" where
  "trip_of_settlement i = book_query (\<lambda>now d s. one_row (find (\<lambda>r. st_id r = i) (bk_driver_settlements s)))"

definition GetSettlement :: "string \<Rightarrow> ('x, DriverSettlementRecord) book_act" where
  "GetSettlement i =
     bindE (tryE (trip_of_settlement i)) (\<lambda>r.
     case r of
       Inl e \<Rightarrow> raise (if errors_Is_NoRows e then ErrSettlementNotFound else e)
     | Inr row \<Rightarrow> findByTripID (st_trip_id row))"

primrec find_each :: "string list \<Rightarrow> ('x, DriverSettlementRecord list) book_act" where
  "find_each [] = ret []"
| "find_each (t # ts) =
     bindE (tryE (findByTripID t)) (\<lambda>r.
     bindE (find_each ts) (\<lambda>rest. ret (case r of Inr x \<Rightarrow> x # rest | Inl _ \<Rightarrow> rest)))"

definition ListSettlements :: "string \<Rightarrow> string \<Rightarrow> int \<Rightarrow> int \<Rightarrow> ('x, DriverSettlementRecord list) book_act" where
  "ListSettlements status driverID limit offset =
     bindE (book_query (\<lambda>now d s. Inr (map st_trip_id (sql_page (if limit \<le> 0 then 50 else limit) offset
       (sort_key (\<lambda>r. - st_created_at r) (filter (\<lambda>r. (status = [] \<or> st_status r = status)
         \<and> (driverID = [] \<or> st_driver_id r = driverID)) (bk_driver_settlements s))))))) find_each"

section \<open>Generating a settlement\<close>

definition settlement_statuses :: "string list" where
  "settlement_statuses = [''pending'', ''processing'', ''paid'', ''disputed'']"

definition null_amount :: "settlement_row \<Rightarrow> bool" where
  "null_amount r \<longleftrightarrow> (\<exists>x\<in>{st_gross_fare r, st_commission_amount r, st_advances_kharcha r, st_deductions r,
     st_performance_bonus r, st_tds_rate r, st_tds_amount r, st_net_payout r}. real_null x)"

definition settlement_insert :: "settlement_row \<Rightarrow> ('x, unit) book_sql" where
  "settlement_insert r fk now d s =
     (if null_amount r then Inl (ErrConstraint NotNullConstraint ''driver_settlements'')
      else if st_status r \<notin> set settlement_statuses then Inl (ErrConstraint CheckConstraint ''driver_settlements'')
      else if st_id r \<in> st_id ` set (bk_driver_settlements s)
      then Inl (ErrConstraint UniqueConstraint ''driver_settlements.id'')
      else if st_trip_id r \<in> st_trip_id ` set (bk_driver_settlements s)
      then Inl (ErrConstraint UniqueConstraint ''driver_settlements.trip_id'')
      else if fk_missing fk (Some (st_trip_id r)) (map tw_id (db_trips d))
        \<or> fk_missing fk (Some (st_driver_id r)) (map dw_id (db_drivers d))
      then Inl (ErrConstraint ForeignKeyConstraint ''driver_settlements'')
      else Inr ((), s\<lparr>bk_driver_settlements := bk_driver_settlements s @ [r]\<rparr>))"

text \<open>\<open>now\<close> in a statement is its own time.\<close>

definition stamped :: "(settlement_row \<Rightarrow> ('x, unit) book_sql) \<Rightarrow> settlement_row \<Rightarrow> ('x, unit) book_sql" where
  "stamped f r fk now d s = f (r\<lparr>st_created_at := now, st_updated_at := now\<rparr>) fk now d s"

definition settlement_recompute :: "string \<Rightarrow> settlement_row \<Rightarrow> ('x, unit) book_sql" where
  "settlement_recompute i n fk now d s =
     (if null_amount n \<and> i \<in> st_id ` set (bk_driver_settlements s)
      then Inl (ErrConstraint NotNullConstraint ''driver_settlements'')
      else Inr ((), s\<lparr>bk_driver_settlements := update_where (\<lambda>r. st_id r = i)
        (\<lambda>r. r\<lparr>st_gross_fare := st_gross_fare n, st_commission_amount := st_commission_amount n,
           st_advances_kharcha := st_advances_kharcha n, st_deductions := st_deductions n,
           st_performance_bonus := st_performance_bonus n, st_tds_rate := st_tds_rate n, st_tds_amount := st_tds_amount n,
           st_net_payout := st_net_payout n, st_rate_model := st_rate_model n, st_rate_basis_json := st_rate_basis_json n,
           st_updated_at := now\<rparr>) (bk_driver_settlements s)\<rparr>))"

definition delete_lines :: "string \<Rightarrow> ('x, unit) book_sql" where
  "delete_lines i fk now d s =
     Inr ((), s\<lparr>bk_settlement_lines := filter (\<lambda>l. sl_SettlementID l \<noteq> i) (bk_settlement_lines s)\<rparr>)"

definition wrapped :: "string \<Rightarrow> ('w, 'a) act \<Rightarrow> ('w, 'a) act" where
  "wrapped msg m = bindE (tryE m) (\<lambda>r. case r of Inl e \<Rightarrow> raise (WrapError msg e) | Inr x \<Rightarrow> ret x)"

definition insert_lines :: "string \<Rightarrow> string \<Rightarrow> SettlementLine list \<Rightarrow> ('x, unit) book_act" where
  "insert_lines settlementID tripID lines =
     forE lines (\<lambda>l.
       bindE (in_world GenerateUUID) (\<lambda>i.
       wrapped ''insert settlement line''
         (book_stmt (insert_line (l\<lparr>sl_ID := ''stl-ln-'' @ i, sl_SettlementID := settlementID, sl_TripID := tripID\<rparr>)))))"

text \<open>What was computed before the transaction starts.\<close>

record computed =
  cp_row :: settlement_row
  cp_lines :: "string \<Rightarrow> SettlementLine list"

text \<open>
  The header in the transaction: with force an existing one is recomputed, otherwise it is inserted;
  \<open>None\<close> when another writer was faster.
\<close>

definition write_header :: "bool \<Rightarrow> settlement_row \<Rightarrow> ('x, string option) book_act" where
  "write_header force r =
     (if force then
        bindE (tryE (book_query (\<lambda>now d s. one_row (map_option st_id
          (find (\<lambda>x. st_trip_id x = st_trip_id r) (bk_driver_settlements s)))))) (\<lambda>old.
        case old of
          Inr oldID \<Rightarrow>
            if oldID = [] then raise (ErrorString ''lookup existing settlement: %!w(<nil>)'')
            else seqE (wrapped ''clear old settlement lines'' (book_stmt (delete_lines oldID)))
              (seqE (wrapped ''update settlement'' (book_stmt (settlement_recompute oldID r))) (ret (Some oldID)))
        | Inl e \<Rightarrow>
            if errors_Is_NoRows e
            then seqE (wrapped ''insert settlement'' (book_stmt (stamped settlement_insert r))) (ret (Some (st_id r)))
            else raise (WrapError ''lookup existing settlement'' e))
      else bindE (tryE (book_stmt (stamped settlement_insert r))) (\<lambda>res.
        case res of
          Inr _ \<Rightarrow> ret (Some (st_id r))
        | Inl e \<Rightarrow>
            if strings_Contains (error_text e) ''UNIQUE'' then ret None else raise (WrapError ''insert settlement'' e)))"

definition settlement_tx :: "bool \<Rightarrow> computed \<Rightarrow> ('x, string tx_end) book_act" where
  "settlement_tx force c =
     bindE (write_header force (cp_row c)) (\<lambda>h.
     case h of
       None \<Rightarrow> ret (Rollback [])
     | Some settlementID \<Rightarrow>
         seqE (insert_lines settlementID (st_trip_id (cp_row c)) (cp_lines c settlementID)) (ret (Commit settlementID)))"

definition basis_json :: "(string \<times> float64) list \<Rightarrow> json result" where
  "basis_json basis =
     (if \<exists>(k, x)\<in>set basis. \<not> isFinite x then Inl (ErrorString ''marshal rate basis'')
      else Inr (JObject (map (\<lambda>(k, x). (k, JNumber x)) basis)))"

definition generated_event :: "string \<Rightarrow> settlement_row \<Rightarrow> go_time \<Rightarrow> json" where
  "generated_event i r now = JObject [(''SettlementID'', JString i), (''TripID'', JString (st_trip_id r)),
     (''DriverID'', JString (st_driver_id r)), (''NetPayout'', JNumber (st_net_payout r)), (''OccurredAt'', JTime now)]"

text \<open>Fare, advances, deductions, tax and bonus, in the order of the code.\<close>

definition compute_settlement :: "string \<Rightarrow> string \<Rightarrow> string \<Rightarrow> string \<Rightarrow> ('x, computed) book_act" where
  "compute_settlement tripID driverID bookingID routeID =
     bindE (calculateGrossFare bookingID routeID) (\<lambda>rate.
     bindE (getApprovedAdvances tripID driverID) (\<lambda>(advances, advLines).
     bindE (getApprovedDeductions tripID driverID) (\<lambda>(deductions, dedLines).
     let base = fsub (fsub (fsub (rr_GrossFare rate) (rr_Commission rate)) advances) deductions;
         tdsBase = (if flt base (Fin 0) then Fin 0 else base) in
     bindE (calculateTDS driverID tdsBase) (\<lambda>(tdsRate, tdsAmount, tdsSection).
     let net = fsub (fsub (fsub (fsub (rr_GrossFare rate) (rr_Commission rate)) advances) deductions) tdsAmount in
     bindE (BonusForPayout driverID net) (\<lambda>bonus.
     let net2 = fadd net bonus;
         netPayout = (if flt net2 (Fin 0) then Fin 0 else net2) in
     bindE (in_world GenerateUUID) (\<lambda>i.
     bindE (lift_result (basis_json (rr_RateBasis rate))) (\<lambda>basis.
     ret \<lparr>cp_row = \<lparr>st_id = ''stl-'' @ i, st_trip_id = tripID, st_driver_id = driverID, st_gross_fare = rr_GrossFare rate,
         st_commission_amount = rr_Commission rate, st_advances_kharcha = advances, st_deductions = deductions,
         st_performance_bonus = bonus, st_tds_rate = tdsRate, st_tds_amount = tdsAmount, st_net_payout = netPayout,
         st_rate_model = rr_RateModel rate, st_rate_basis_json = Some basis, st_status = ''pending'', st_payment_ref = None,
         st_paid_at = None, st_confirmed_at = None, st_disputed_at = None, st_dispute_reason = None, st_created_at = 0,
         st_updated_at = 0\<rparr>,
       cp_lines = (\<lambda>sid. buildLines sid tripID rate advances advLines deductions dedLines tdsRate tdsAmount tdsSection bonus)\<rparr>)))))))"

definition store_settlement :: "bool \<Rightarrow> computed \<Rightarrow> ('x, DriverSettlementRecord) book_act" where
  "store_settlement force c =
     bindE (in_world Now) (\<lambda>now.
     bindE (BeginTx ''begin settlement tx'' ''commit settlement'' (settlement_tx force c)) (\<lambda>r.
     case r of
       Rollback _ \<Rightarrow> findByTripID (st_trip_id (cp_row c))
     | Commit settlementID \<Rightarrow>
         seqE (bus_publish ''SettlementGenerated'' (generated_event settlementID (cp_row c) now))
         (findByTripID (st_trip_id (cp_row c)))))"

definition GenerateSettlement :: "string \<Rightarrow> bool \<Rightarrow> ('x, DriverSettlementRecord) book_act" where
  "GenerateSettlement tripID force =
     bindE (tryE (book_query (\<lambda>now d s. one_row (find (\<lambda>r. tw_id r = tripID) (db_trips d))))) (\<lambda>t.
     case t of
       Inl e \<Rightarrow> raise (if errors_Is_NoRows e then ErrTripNotFound else WrapError ''lookup trip'' e)
     | Inr trip \<Rightarrow>
         if str_or_empty (tw_driver_id trip) = [] then raise ErrDriverNotAssigned
         else bindE (if force then ret (Inl ErrSettlementNotFound) else tryE (findByTripID tripID)) (\<lambda>existing.
           case existing of
             Inr rec \<Rightarrow> ret rec
           | Inl _ \<Rightarrow>
               bindE (compute_settlement tripID (str_or_empty (tw_driver_id trip)) (str_or_empty (tw_booking_id trip)) (tw_route_id trip))
               (store_settlement force)))"

section \<open>The life of a settlement\<close>

definition update_settlement :: "string \<Rightarrow> (go_time \<Rightarrow> settlement_row \<Rightarrow> settlement_row) \<Rightarrow> ('x, unit) book_sql" where
  "update_settlement i f fk now d s =
     Inr ((), s\<lparr>bk_driver_settlements := update_where (\<lambda>r. st_id r = i) (\<lambda>r. (f now r)\<lparr>st_updated_at := now\<rparr>)
       (bk_driver_settlements s)\<rparr>)"

definition DriverPayoutSettled :: string where "DriverPayoutSettled = ''settlement.payout_settled''"

definition paid_event :: "settlement_row \<Rightarrow> string \<Rightarrow> go_time \<Rightarrow> json" where
  "paid_event r paymentRef paidAt = JObject [(''SettlementID'', JString (st_id r)), (''TripID'', JString (st_trip_id r)),
     (''DriverID'', JString (st_driver_id r)), (''NetPayout'', JNumber (st_net_payout r)), (''PaymentRef'', JString paymentRef),
     (''OccurredAt'', JTime paidAt)]"

definition MarkPaid :: "string \<Rightarrow> string \<Rightarrow> go_time \<Rightarrow> ('x, DriverSettlementRecord) book_act" where
  "MarkPaid i paymentRef paidAt =
     bindE (tryE (trip_of_settlement i)) (\<lambda>r.
     case r of
       Inl e \<Rightarrow> raise (if errors_Is_NoRows e then ErrSettlementNotFound else e)
     | Inr row \<Rightarrow>
         seqE (book_stmt (update_settlement i (\<lambda>now x. x\<lparr>st_status := ''paid'', st_payment_ref := Some paymentRef,
           st_paid_at := Some (trunc_second paidAt)\<rparr>)))
        (seqE (bus_publish DriverPayoutSettled (paid_event row paymentRef paidAt))
         (findByTripID (st_trip_id row))))"

definition ConfirmSettlement :: "string \<Rightarrow> ('x, DriverSettlementRecord) book_act" where
  "ConfirmSettlement i =
     bindE (tryE (trip_of_settlement i)) (\<lambda>r.
     case r of
       Inl _ \<Rightarrow> raise ErrSettlementNotFound
     | Inr row \<Rightarrow>
         seqE (book_stmt (update_settlement i (\<lambda>now x. x\<lparr>st_confirmed_at := Some now\<rparr>))) (findByTripID (st_trip_id row)))"

definition dispute_alert :: "env \<Rightarrow> settlement_row \<Rightarrow> string \<Rightarrow> OpsAlert" where
  "dispute_alert e row reason =
     \<lparr>oa_ID = [], oa_TenantID = alert_tenant e [], oa_AlertType = OpsAlertSettlementDispute,
      oa_Severity = OpsAlertSeverityHigh, oa_Title = ''Settlement disputed by driver'',
      oa_Description = ''Trip '' @ st_trip_id row @ '' settlement '' @ st_id row @ '' disputed: '' @ reason,
      oa_EntityType = Some ''trip'', oa_EntityID = Some (st_trip_id row), oa_Status = [], oa_AcknowledgedBy = None,
      oa_AcknowledgedAt = None, oa_ResolvedBy = None, oa_ResolvedAt = None, oa_ResolutionNote = None, oa_CreatedAt = 0\<rparr>"

definition DisputeSettlement :: "string \<Rightarrow> string \<Rightarrow> ('x, DriverSettlementRecord) book_act" where
  "DisputeSettlement i reason =
     bindE (tryE (trip_of_settlement i)) (\<lambda>r.
     case r of
       Inl _ \<Rightarrow> raise ErrSettlementNotFound
     | Inr row \<Rightarrow>
         seqE (book_stmt (update_settlement i (\<lambda>now x. x\<lparr>st_status := ''disputed'', st_disputed_at := Some now,
           st_dispute_reason := Some reason\<rparr>)))
        (seqE (bindE (in_world getEnv) (\<lambda>e. ignore_error (CreateAlert (dispute_alert e row reason))))
         (findByTripID (st_trip_id row))))"

section \<open>The bridges of the legacy trip events\<close>

definition legacy_row :: "string \<Rightarrow> string \<Rightarrow> string \<Rightarrow> float64 \<Rightarrow> float64 \<Rightarrow> float64 \<Rightarrow> float64 \<Rightarrow> float64 \<Rightarrow> string
    \<Rightarrow> string option \<Rightarrow> go_time option \<Rightarrow> go_time \<Rightarrow> settlement_row" where
  "legacy_row i tripID driverID fare advances deductions bonus netPayout status paymentRef paidAt now =
     \<lparr>st_id = ''stl-'' @ i, st_trip_id = tripID, st_driver_id = driverID, st_gross_fare = fare, st_commission_amount = Fin 0,
      st_advances_kharcha = advances, st_deductions = deductions, st_performance_bonus = bonus, st_tds_rate = Fin 0,
      st_tds_amount = Fin 0, st_net_payout = netPayout, st_rate_model = ''fixed'', st_rate_basis_json = None, st_status = status,
      st_payment_ref = paymentRef, st_paid_at = paidAt, st_confirmed_at = None, st_disputed_at = None, st_dispute_reason = None,
      st_created_at = trunc_second now, st_updated_at = trunc_second now\<rparr>"

text \<open>\<open>ON CONFLICT(trip_id) DO NOTHING\<close>\<close>

definition persistSettlement :: "settlement_row \<Rightarrow> ('x, unit) book_sql" where
  "persistSettlement r fk now d s =
     (if \<not> null_amount r \<and> st_id r \<notin> st_id ` set (bk_driver_settlements s)
         \<and> st_trip_id r \<in> st_trip_id ` set (bk_driver_settlements s)
      then Inr ((), s) else settlement_insert r fk now d s)"

text \<open>\<open>ON CONFLICT(trip_id) DO UPDATE\<close>\<close>

definition upsertPaidSettlement :: "settlement_row \<Rightarrow> ('x, unit) book_sql" where
  "upsertPaidSettlement n fk now d s =
     (if \<not> null_amount n \<and> st_id n \<notin> st_id ` set (bk_driver_settlements s)
         \<and> st_trip_id n \<in> st_trip_id ` set (bk_driver_settlements s)
      then Inr ((), s\<lparr>bk_driver_settlements := update_where (\<lambda>r. st_trip_id r = st_trip_id n)
        (\<lambda>r. r\<lparr>st_gross_fare := st_gross_fare n, st_advances_kharcha := st_advances_kharcha n,
           st_deductions := st_deductions n, st_performance_bonus := st_performance_bonus n, st_net_payout := st_net_payout n,
           st_status := ''paid'', st_payment_ref := st_payment_ref n, st_paid_at := st_paid_at n,
           st_updated_at := st_updated_at n\<rparr>) (bk_driver_settlements s)\<rparr>)
      else settlement_insert n fk now d s)"

definition settled_trip :: "string \<Rightarrow> ('x, trip_row) book_act" where
  "settled_trip tripID = book_query (\<lambda>now d s. one_row (find (\<lambda>r. tw_id r = tripID) (db_trips d)))"

definition payout :: "float64 \<Rightarrow> float64 \<Rightarrow> float64 \<Rightarrow> float64" where
  "payout fare advances deductions = fsub (fsub fare advances) deductions"

definition or_stored :: "settlement_row \<Rightarrow> ('x, DriverSettlementRecord) book_act" where
  "or_stored r =
     bindE (tryE (findByTripID (st_trip_id r))) (\<lambda>s.
     ret (case s of Inr rec \<Rightarrow> rec | Inl _ \<Rightarrow> settlement_row.extend r \<lparr>sr_Lines = []\<rparr>))"

definition CreateSettlementForTrip :: "string \<Rightarrow> float64 \<Rightarrow> float64 \<Rightarrow> float64 \<Rightarrow> ('x, DriverSettlementRecord) book_act" where
  "CreateSettlementForTrip tripID fare advances deductions =
     bindE (tryE (settled_trip tripID)) (\<lambda>t.
     let driverID = (case t of Inr trip \<Rightarrow> (case tw_driver_id trip of Some x \<Rightarrow> x | None \<Rightarrow> ''drv-default'') | Inl _ \<Rightarrow> ''drv-default'');
         net = payout fare advances deductions in
     bindE (BonusForPayout driverID net) (\<lambda>bonus.
     let net2 = fadd net bonus; netPayout = (if flt net2 (Fin 0) then Fin 0 else net2) in
     bindE (in_world GenerateUUID) (\<lambda>i.
     bindE (in_world Now) (\<lambda>now.
     let r = legacy_row i tripID driverID fare advances deductions bonus netPayout ''pending'' None None now in
     seqE (wrapped ''create settlement'' (book_stmt (persistSettlement r))) (or_stored r)))))"

text \<open>\<open>sql_sum\<close> is SQLite's addition of a column.\<close>

definition ProcessFinancialSettlement ::
  "(float64 list \<Rightarrow> float64) \<Rightarrow> string \<Rightarrow> string \<Rightarrow> ('x, DriverSettlementRecord) book_act" where
  "ProcessFinancialSettlement sql_sum tripID paymentRef =
     bindE (tryE (settled_trip tripID)) (\<lambda>t.
     case t of
       Inl _ \<Rightarrow> raise (ErrorString ''trip not found'')
     | Inr trip \<Rightarrow> (case tw_driver_id trip of
         None \<Rightarrow> raise (ErrorString ''cannot process settlement for trip without assigned driver'')
       | Some driverID \<Rightarrow>
           bindE (case tw_booking_id trip of
               None \<Rightarrow> ret defaultSettlementFare
             | Some b \<Rightarrow>
                 bindE (tryE (book_query (\<lambda>now d s. one_row (map_option br_price (find (\<lambda>r. br_id r = b) (db_bookings d)))))) (\<lambda>p.
                 ret (case p of Inr x \<Rightarrow> (if flt (Fin 0) x then x else defaultSettlementFare) | Inl _ \<Rightarrow> defaultSettlementFare))) (\<lambda>fare.
           bindE (tryE (book_query (\<lambda>now d s. Inr (sql_sum (map xe_amount
             (filter (\<lambda>r. xe_trip_id r = Some tripID \<and> xe_status r = ''approved'') (bk_driver_expenses s))))))) (\<lambda>a.
           let adv = (case a of Inr x \<Rightarrow> x | Inl _ \<Rightarrow> defaultSettlementAdvances);
               advances = (if flt adv (Fin 0) then Fin 0 else adv);
               deductions = defaultSettlementDeductions;
               net = payout fare advances deductions in
           bindE (BonusForPayout driverID net) (\<lambda>bonus.
           let net2 = fadd net bonus; netPayout = (if flt net2 (Fin 0) then Fin 0 else net2) in
           bindE (in_world Now) (\<lambda>now.
           bindE (in_world GenerateUUID) (\<lambda>i.
           let r = legacy_row i tripID driverID fare advances deductions bonus netPayout ''paid'' (Some paymentRef)
             (Some (trunc_second now)) now in
           seqE (wrapped ''process settlement'' (book_stmt (upsertPaidSettlement r))) (or_stored r))))))))"

end
