(* ===== verification/Account_Relations.thy ===== *)
theory Account_Relations
  imports Settlement
begin

text \<open>
  What every operation of the services keeps when the statements keep it: the locale
  \<open>account_relation\<close> asks for one law per statement and gives one fact per operation.  Steps are
  the operations in any order, with anything the rest of the server does to the other tables in
  between.
\<close>

section \<open>What statements write\<close>

text \<open>An amount that may be paid out.\<close>

definition owed :: "float64 \<Rightarrow> bool" where
  "owed x \<longleftrightarrow> \<not> flt x (Fin 0)"

text \<open>What a claim is about.\<close>

definition claim_of :: "expense_row \<Rightarrow> string \<times> string option \<times> string option \<times> string option \<times> string \<times> float64" where
  "claim_of r = (xe_id r, xe_idempotency_key r, xe_trip_id r, xe_driver_id r, xe_category r, xe_amount r)"

text \<open>What a settlement is about, and how much it pays.\<close>

definition settlement_of :: "settlement_row \<Rightarrow> string \<times> string \<times> string" where
  "settlement_of r = (st_id r, st_trip_id r, st_driver_id r)"

definition alert_of :: "OpsAlert \<Rightarrow> string \<times> string \<times> string \<times> string" where
  "alert_of r = (oa_ID r, oa_TenantID r, oa_AlertType r, oa_Severity r)"

definition closed_statuses :: "string list" where
  "closed_statuses = [OpsAlertStatusResolved, OpsAlertStatusDismissed]"

section \<open>Operations that only read\<close>

context book_relation
begin

lemma keeps_tuple: "(\<And>a b. keeps (f a b)) \<Longrightarrow> keeps (case x of (a, b) \<Rightarrow> f a b)"
  by (cases x) simp

lemma keeps_tx_end: "(\<And>x. keeps (f x)) \<Longrightarrow> (\<And>x. keeps (g x)) \<Longrightarrow> keeps (case y of Commit x \<Rightarrow> f x | Rollback x \<Rightarrow> g x)"
  by (cases y) simp_all

lemmas account_intros = keeps_tuple keeps_tx_end book_intros

lemma keeps_loadScorecardConfig: "keeps loadScorecardConfig"
  unfolding loadScorecardConfig_def Let_def by (intro account_intros config_intros)

lemma keeps_scorecard_pct: "keeps (scorecard_pct key def)"
  unfolding scorecard_pct_def by (intro account_intros config_intros)

lemma keeps_BonusForPayout: "keeps (BonusForPayout dr net)"
  unfolding BonusForPayout_def Let_def
  by (intro account_intros keeps_loadScorecardConfig keeps_scorecard_pct)

lemma keeps_wrapped: "keeps m \<Longrightarrow> keeps (wrapped msg m)"
  unfolding wrapped_def by (intro account_intros)

lemma keeps_getConfigFloat: "keeps (getConfig key)" "keeps (getConfigFloat key def)"
  unfolding getConfigFloat_def getConfig_def by (intro account_intros)+

lemma keeps_findByTripID: "keeps (findByTripID t)"
  unfolding findByTripID_def by (intro account_intros)

lemma keeps_GetSettlement: "keeps (GetSettlement i)"
  unfolding GetSettlement_def trip_of_settlement_def by (intro account_intros keeps_findByTripID)

lemma keeps_calculateGrossFare: "keeps (calculateGrossFare b r)"
  unfolding calculateGrossFare_def gross_per_km_def gross_fixed_def gross_commission_def Let_def read_amount_def by (intro account_intros keeps_getConfigFloat)

lemma keeps_calculateTDS: "keeps (calculateTDS dr base)"
  unfolding calculateTDS_def by (intro account_intros keeps_getConfigFloat)

lemma keeps_expense_sums: "keeps (getApprovedAdvances t dr)" "keeps (getApprovedDeductions t dr)"
  unfolding getApprovedAdvances_def getApprovedDeductions_def by (intro account_intros)+

lemma keeps_compute_settlement: "keeps (compute_settlement t dr b r)"
  unfolding compute_settlement_def Let_def
  by (intro account_intros keeps_calculateGrossFare keeps_expense_sums keeps_calculateTDS keeps_BonusForPayout)

lemma keeps_or_stored: "keeps (or_stored r)"
  unfolding or_stored_def by (intro account_intros keeps_findByTripID)

end

lemma owed_clamped: "owed (if flt x (Fin 0) then Fin 0 else x)"
  by (simp add: owed_def)

lemma compute_owed: "compute_settlement t dr b r p = (Inr c, p') \<Longrightarrow> owed (st_net_payout (cp_row c))"
  by (auto simp: compute_settlement_def Let_def act_inv owed_clamped split: prod.splits)

lemma legacy_net: "st_net_payout (legacy_row i t dr f a de b net st ref paid now) = net"
  by (simp add: legacy_row_def)

section \<open>Laws of statements, facts of operations\<close>

locale account_relation = book_relation B
  for B :: "'x books_scheme \<Rightarrow> 'x books_scheme \<Rightarrow> bool" +
  assumes claims: "expense_insert (new_expense o' i now) fk t d s = Inr (u, s') \<Longrightarrow> \<not> fle (ceo_Amount o') (Fin 0) \<Longrightarrow> B s s'"
    and decides: "decide_expense e user f fk t d s = Inr (n, s') \<Longrightarrow> st \<in> {''approved'', ''rejected''}
      \<Longrightarrow> (\<And>r. claim_of (f r) = claim_of r \<and> xe_status (f r) = st) \<Longrightarrow> B s s'"
    and deducts: "deduct_expense amount sid fk t d s = Inr (u, s') \<Longrightarrow> B s s'"
    and inserts_line: "insert_line l fk t d s = Inr (u, s') \<Longrightarrow> B s s'"
    and inserts_settlement: "settlement_insert r fk t d s = Inr (u, s') \<Longrightarrow> owed (st_net_payout r) \<Longrightarrow> B s s'"
    and recomputes: "settlement_recompute sid r fk t d s = Inr (u, s') \<Longrightarrow> owed (st_net_payout r) \<Longrightarrow> B s s'"
    and deletes_lines: "delete_lines sid fk t d s = Inr (u, s') \<Longrightarrow> B s s'"
    and updates: "update_settlement sid g fk t d s = Inr (u, s')
      \<Longrightarrow> (\<And>x. settlement_of (g t x) = settlement_of x \<and> st_net_payout (g t x) = st_net_payout x
            \<and> st_status (g t x) \<in> {st_status x, ''paid'', ''disputed''}) \<Longrightarrow> B s s'"
    and upserts: "upsertPaidSettlement r fk t d s = Inr (u, s') \<Longrightarrow> owed (st_net_payout r) \<Longrightarrow> B s s'"
    and raises_alert: "alert_insert a fk t d s = Inr (u, s') \<Longrightarrow> oa_Status a = OpsAlertStatusOpen \<Longrightarrow> B s s'"
    and moves_alert: "p = (\<lambda>r. oa_ID r = i \<and> oa_Status r \<in> set allowed) \<Longrightarrow> set allowed \<inter> set closed_statuses = {}
      \<Longrightarrow> (\<And>r. alert_of (h r) = alert_of r \<and> oa_Status (h r) \<in> {OpsAlertStatusAcknowledged, OpsAlertStatusResolved, OpsAlertStatusDismissed})
      \<Longrightarrow> B s (s\<lparr>bk_ops_alerts := update_where p h (bk_ops_alerts s)\<rparr>)"
    and others: "B s (s\<lparr>bk_founder_signals := x1, bk_founder_audit := x2, bk_behaviour_events := x3, bk_driver_scores := x4,
      bk_drivers := x5\<rparr>)"
begin

section \<open>Signals and alerts\<close>

lemma other_signals: "B s (s\<lparr>bk_founder_signals := x\<rparr>)"
  using others [where s = s and ?x1.0 = x and ?x2.0 = "bk_founder_audit s" and ?x3.0 = "bk_behaviour_events s"
      and ?x4.0 = "bk_driver_scores s" and ?x5.0 = "bk_drivers s"] by simp

lemma other_audit: "B s (s\<lparr>bk_founder_audit := x\<rparr>)"
  using others [where s = s and ?x1.0 = "bk_founder_signals s" and ?x2.0 = x and ?x3.0 = "bk_behaviour_events s"
      and ?x4.0 = "bk_driver_scores s" and ?x5.0 = "bk_drivers s"] by simp

lemma other_events: "B s (s\<lparr>bk_behaviour_events := x\<rparr>)"
  using others [where s = s and ?x1.0 = "bk_founder_signals s" and ?x2.0 = "bk_founder_audit s" and ?x3.0 = x
      and ?x4.0 = "bk_driver_scores s" and ?x5.0 = "bk_drivers s"] by simp

lemma other_scores: "B s (s\<lparr>bk_driver_scores := x\<rparr>)"
  using others [where s = s and ?x1.0 = "bk_founder_signals s" and ?x2.0 = "bk_founder_audit s" and ?x3.0 = "bk_behaviour_events s"
      and ?x4.0 = x and ?x5.0 = "bk_drivers s"] by simp

lemma other_profiles: "B s (s\<lparr>bk_drivers := x\<rparr>)"
  using others [where s = s and ?x1.0 = "bk_founder_signals s" and ?x2.0 = "bk_founder_audit s" and ?x3.0 = "bk_behaviour_events s"
      and ?x4.0 = "bk_driver_scores s" and ?x5.0 = x] by simp

lemma keeps_RecordAudit: "keeps (RecordAudit a)"
  unfolding RecordAudit_def Let_def
  by (intro account_intros keeps_book_stmt) (auto simp: other_audit split: if_splits)

lemma keeps_EmitSignal: "keeps (EmitSignal t ty v th dir md)"
  unfolding EmitSignal_def
  by (intro account_intros keeps_book_stmt) (auto simp: signal_insert_def other_signals split: if_splits)

lemma keeps_EmitIfThreshold: "keeps (EmitIfThreshold t ty v th md)"
  unfolding EmitIfThreshold_def Let_def by (intro account_intros keeps_EmitSignal)

lemma keeps_AcknowledgeSignal: "keeps (AcknowledgeSignal i user role)"
  unfolding AcknowledgeSignal_def Let_def
  by (intro account_intros keeps_book_stmt keeps_RecordAudit) (auto simp: other_signals)

lemma keeps_dispute_spike: "keeps (dispute_spike t)"
  unfolding dispute_spike_def Let_def CountAlertsSince_def EmitSettlementDisputeSpike_def
  by (intro account_intros keeps_EmitIfThreshold)

lemma keeps_CreateAlert: "keeps (CreateAlert a)"
  unfolding CreateAlert_def Let_def
  by (intro account_intros keeps_book_stmt keeps_dispute_spike) (erule raises_alert, simp)

lemma keeps_move_alert:
  assumes "set allowed \<inter> set closed_statuses = {}"
    and "\<And>now r. alert_of (h now r) = alert_of r
      \<and> oa_Status (h now r) \<in> {OpsAlertStatusAcknowledged, OpsAlertStatusResolved, OpsAlertStatusDismissed}"
  shows "keeps (move_alert i allowed h msg)"
  unfolding move_alert_def Let_def
  by (intro account_intros keeps_book_stmt) (auto intro!: moves_alert [OF refl assms])

lemma keeps_alert_life:
  "keeps (AcknowledgeAlert i user)" "keeps (ResolveAlert i user note)" "keeps (DismissAlert i user note)"
  unfolding AcknowledgeAlert_def ResolveAlert_def DismissAlert_def
  by (rule keeps_move_alert; simp add: closed_statuses_def alert_of_def OpsAlertStatusOpen_def OpsAlertStatusResolved_def
      OpsAlertStatusDismissed_def OpsAlertStatusAcknowledged_def)+

section \<open>Claims\<close>

lemma keeps_expense_insert:
  "\<not> fle (ceo_Amount o') (Fin 0) \<Longrightarrow> keeps (book_stmt (expense_insert (new_expense o' i now)))"
  by (rule keeps_book_stmt) (rule claims)

lemma keeps_insert_expense: "\<not> fle (ceo_Amount o') (Fin 0) \<Longrightarrow> keeps (insert_expense o' i)"
  unfolding insert_expense_def find_by_key_def by (intro account_intros keeps_expense_insert)

lemma keeps_CreateExpenseWithOpts: "keeps (CreateExpenseWithOpts o')"
proof (cases "fle (ceo_Amount o') (Fin 0)")
  case False
  then show ?thesis
    unfolding CreateExpenseWithOpts_def find_by_key_def
    by (intro account_intros keeps_insert_expense)
qed (simp add: CreateExpenseWithOpts_def keeps_raise)

lemma keeps_CreateExpense: "keeps (CreateExpense t dr c a desc url l k)"
  unfolding CreateExpense_def by (rule keeps_CreateExpenseWithOpts)

lemma keeps_charge_settlement: "keeps (charge_settlement e t dr a)"
  unfolding charge_settlement_def
  by (intro account_intros keeps_book_stmt) (erule deducts, erule inserts_line)

lemma keeps_decide:
  "st \<in> {''approved'', ''rejected''} \<Longrightarrow> (\<And>r. claim_of (f r) = claim_of r \<and> xe_status (f r) = st)
     \<Longrightarrow> keeps (book_stmt (decide_expense e user f))"
  by (rule keeps_book_stmt) (rule decides)

lemma keeps_ApproveExpense: "keeps (ApproveExpense e user)"
  unfolding ApproveExpense_def approve_tx_def audit_gate_def fuelAuditEnforce_def
  by (intro account_intros keeps_charge_settlement keeps_decide [where st = "''approved''"]) (simp_all add: claim_of_def)

lemma keeps_RejectExpense: "keeps (RejectExpense e user reason)"
  unfolding RejectExpense_def
  by (intro account_intros keeps_decide [where st = "''rejected''"]) (simp_all add: claim_of_def)

section \<open>Scores\<close>

lemma keeps_WriteBehaviourEvent: "keeps (WriteBehaviourEvent evt)"
  unfolding WriteBehaviourEvent_def event_weight_def
  by (intro account_intros config_intros keeps_book_stmt) (auto simp: behaviour_insert_def other_events split: if_splits)

lemma keeps_persist_score: "keeps (persist_score ds)"
  unfolding persist_score_def
  by (intro account_intros keeps_book_stmt keeps_both_stmt)
    (auto simp: score_insert_def other_scores driver_score_update_def other_profiles B_refl split: if_splits)

lemma keeps_RecomputeDriverScore: "keeps (RecomputeDriverScore dr)"
  unfolding RecomputeDriverScore_def Let_def eventsInWindow_def
  by (intro account_intros keeps_loadScorecardConfig keeps_persist_score)

lemma keeps_recompute_each: "keeps (recompute_each xs e)"
  by (induction xs arbitrary: e) (simp_all add: keeps_ret keeps_bind keeps_try keeps_RecomputeDriverScore)

lemma keeps_RecomputeAllDrivers: "keeps RecomputeAllDrivers"
  unfolding RecomputeAllDrivers_def Let_def
  by (intro account_intros keeps_loadScorecardConfig keeps_recompute_each)

lemma keeps_ResolveFraudEvent: "keeps (ResolveFraudEvent e user)"
  unfolding ResolveFraudEvent_def Let_def
  by (intro account_intros keeps_book_stmt keeps_RecomputeDriverScore) (auto simp: other_events)

section \<open>Settlements\<close>

lemma keeps_insert_lines: "keeps (insert_lines sid t ls)"
  unfolding insert_lines_def by (intro account_intros keeps_wrapped keeps_book_stmt) (erule inserts_line)

lemma keeps_stamped: "owed (st_net_payout r) \<Longrightarrow> keeps (book_stmt (stamped settlement_insert r))"
  by (rule keeps_book_stmt) (auto simp: stamped_def elim: inserts_settlement)

lemma keeps_write_header: "owed (st_net_payout r) \<Longrightarrow> keeps (write_header force r)"
  unfolding write_header_def
  by (intro account_intros keeps_wrapped keeps_stamped keeps_book_stmt) (auto elim: deletes_lines recomputes)

lemma keeps_settlement_tx: "owed (st_net_payout (cp_row c)) \<Longrightarrow> keeps (settlement_tx force c)"
  unfolding settlement_tx_def by (intro account_intros keeps_write_header keeps_insert_lines)

lemma keeps_store_settlement: "owed (st_net_payout (cp_row c)) \<Longrightarrow> keeps (store_settlement force c)"
  unfolding store_settlement_def by (intro account_intros keeps_settlement_tx keeps_findByTripID)

lemma keeps_GenerateSettlement: "keeps (GenerateSettlement t force)"
  unfolding GenerateSettlement_def
  by (intro account_intros keeps_bind_returned [OF keeps_compute_settlement] keeps_findByTripID keeps_store_settlement)
    (erule compute_owed)

lemma keeps_update:
  "(\<And>t x. settlement_of (g t x) = settlement_of x \<and> st_net_payout (g t x) = st_net_payout x
      \<and> st_status (g t x) \<in> {st_status x, ''paid'', ''disputed''}) \<Longrightarrow> keeps (book_stmt (update_settlement i g))"
  by (rule keeps_book_stmt) (rule updates)

lemma keeps_settlement_life:
  "keeps (MarkPaid i ref at')" "keeps (ConfirmSettlement i)" "keeps (DisputeSettlement i reason)"
  unfolding MarkPaid_def ConfirmSettlement_def DisputeSettlement_def trip_of_settlement_def
  by (intro account_intros keeps_update keeps_findByTripID keeps_CreateAlert; simp add: settlement_of_def)+

lemma keeps_persist: "owed (st_net_payout r) \<Longrightarrow> keeps (book_stmt (persistSettlement r))"
  by (rule keeps_book_stmt) (auto simp: persistSettlement_def B_refl split: if_splits elim: inserts_settlement)

lemma keeps_upsert: "owed (st_net_payout r) \<Longrightarrow> keeps (book_stmt (upsertPaidSettlement r))"
  by (rule keeps_book_stmt) (rule upserts)

lemma keeps_CreateSettlementForTrip: "keeps (CreateSettlementForTrip t f a de)"
  unfolding CreateSettlementForTrip_def Let_def settled_trip_def
  by (intro account_intros keeps_BonusForPayout keeps_wrapped keeps_persist keeps_or_stored)
    (simp add: legacy_net owed_clamped)

lemma keeps_ProcessFinancialSettlement: "keeps (ProcessFinancialSettlement sm t ref)"
  unfolding ProcessFinancialSettlement_def Let_def settled_trip_def
  by (intro account_intros keeps_BonusForPayout keeps_wrapped keeps_upsert keeps_or_stored)
    (simp add: legacy_net owed_clamped)

end

end
