(* ===== verification/Account_Safety.thy ===== *)
theory Account_Safety
  imports Account_Relations
begin

text \<open>
  What any run of the services of accounts keeps: sound tables of settlements and claims, decided
  claims and closed alerts as they are, one claim per idempotency key.
\<close>

section \<open>Steps\<close>

text \<open>An operation of the services, or anything that the rest of the server does to its own tables.\<close>

inductive account_step :: "'x books_scheme \<times> world \<Rightarrow> 'x books_scheme \<times> world \<Rightarrow> bool" where
  Generates: "account_step p (snd (GenerateSettlement t force p))"
| Pays: "account_step p (snd (MarkPaid i ref paid p))"
| Confirms: "account_step p (snd (ConfirmSettlement i p))"
| Disputes: "account_step p (snd (DisputeSettlement i reason p))"
| Bridges: "account_step p (snd (CreateSettlementForTrip t fare adv ded p))"
| Processes: "account_step p (snd (ProcessFinancialSettlement sm t ref p))"
| Claims: "account_step p (snd (CreateExpenseWithOpts o' p))"
| Approves: "account_step p (snd (ApproveExpense e user p))"
| Rejects: "account_step p (snd (RejectExpense e user reason p))"
| Alerts: "account_step p (snd (CreateAlert a p))"
| Sees_Alert: "account_step p (snd (AcknowledgeAlert i user p))"
| Resolves_Alert: "account_step p (snd (ResolveAlert i user note p))"
| Dismisses_Alert: "account_step p (snd (DismissAlert i user note p))"
| Signals: "account_step p (snd (EmitIfThreshold t ty v th md p))"
| Sees_Signal: "account_step p (snd (AcknowledgeSignal i user role p))"
| Observes: "account_step p (snd (WriteBehaviourEvent evt p))"
| Scores: "account_step p (snd (RecomputeDriverScore dr p))"
| Sweeps: "account_step p (snd (RecomputeAllDrivers p))"
| Clears: "account_step p (snd (ResolveFraudEvent e user p))"
| Elsewhere: "account_step (s, w) (s, w')"

context account_relation
begin

lemma step_keeps: "account_step p p' \<Longrightarrow> tables_rel B p p'"
proof (induction rule: account_step.induct)
  case (Elsewhere s w w')
  show ?case by (simp add: tables_rel_def B_refl)
qed (rule keepsD [OF _ prod.collapse [symmetric]],
     intro keeps_GenerateSettlement keeps_settlement_life keeps_CreateSettlementForTrip keeps_ProcessFinancialSettlement
       keeps_CreateExpenseWithOpts keeps_ApproveExpense keeps_RejectExpense keeps_CreateAlert keeps_alert_life
       keeps_EmitIfThreshold keeps_AcknowledgeSignal keeps_WriteBehaviourEvent keeps_RecomputeDriverScore
       keeps_RecomputeAllDrivers keeps_ResolveFraudEvent)+

lemma runs_keep: "account_step\<^sup>*\<^sup>* p p' \<Longrightarrow> B (fst p) (fst p')"
proof (induction rule: rtranclp_induct)
  case base
  show ?case by (rule B_refl)
next
  case (step p1 p2)
  then show ?case using B_trans step_keeps [of p1 p2] by (simp add: tables_rel_def)
qed

end

section \<open>Settlements and claims\<close>

definition claim_keys :: "'x books_scheme \<Rightarrow> string option list" where
  "claim_keys s = filter (\<lambda>k. k \<noteq> None) (map xe_idempotency_key (bk_driver_expenses s))"

definition settlement_ok :: "settlement_row \<Rightarrow> bool" where
  "settlement_ok r \<longleftrightarrow> st_status r \<in> set settlement_statuses \<and> owed (st_net_payout r) \<and> st_net_payout r \<noteq> NaN"

definition claim_ok :: "expense_row \<Rightarrow> bool" where
  "claim_ok r \<longleftrightarrow> xe_status r \<in> {''pending'', ''approved'', ''rejected''} \<and> xe_category r \<in> set validCategories
     \<and> flt (Fin 0) (xe_amount r)"

definition ledger_ok :: "'x books_scheme \<Rightarrow> bool" where
  "ledger_ok s \<longleftrightarrow>
     distinct (map st_id (bk_driver_settlements s)) \<and> distinct (map st_trip_id (bk_driver_settlements s))
     \<and> (\<forall>r\<in>set (bk_driver_settlements s). settlement_ok r)
     \<and> distinct (map xe_id (bk_driver_expenses s)) \<and> distinct (claim_keys s)
     \<and> (\<forall>r\<in>set (bk_driver_expenses s). claim_ok r)
     \<and> distinct (map sl_ID (bk_settlement_lines s)) \<and> (\<forall>l\<in>set (bk_settlement_lines s). sl_LineType l \<in> set line_types)"

definition ledger_grows :: "'x books_scheme \<Rightarrow> 'x books_scheme \<Rightarrow> bool" where
  "ledger_grows s s' \<longleftrightarrow>
     (ledger_ok s \<longrightarrow> ledger_ok s')
     \<and> claim_of ` set (bk_driver_expenses s) \<subseteq> claim_of ` set (bk_driver_expenses s')
     \<and> {r \<in> set (bk_driver_expenses s). xe_status r \<noteq> ''pending''} \<subseteq> set (bk_driver_expenses s')
     \<and> settlement_of ` set (bk_driver_settlements s) \<subseteq> settlement_of ` set (bk_driver_settlements s')"

lemma flt_of_fle: "\<not> fle x (Fin 0) \<Longrightarrow> x \<noteq> NaN \<Longrightarrow> flt (Fin 0) x"
  by (cases x) (auto simp: fle_def)

text \<open>The rows of settlements may change as long as what they are about stays.\<close>

lemma ledger_settlements:
  assumes "map settlement_of xs = map settlement_of (bk_driver_settlements s)"
    and "(\<forall>r\<in>set (bk_driver_settlements s). settlement_ok r) \<Longrightarrow> (\<forall>r\<in>set xs. settlement_ok r)"
  shows "ledger_grows s (s\<lparr>bk_driver_settlements := xs\<rparr>)"
proof -
  have ids: "map st_id xs = map st_id (bk_driver_settlements s)" "map st_trip_id xs = map st_trip_id (bk_driver_settlements s)"
    using arg_cong [OF assms(1), of "map fst"] arg_cong [OF assms(1), of "map (fst \<circ> snd)"]
    by (simp_all add: settlement_of_def comp_def)
  have "settlement_of ` set xs = settlement_of ` set (bk_driver_settlements s)"
    using arg_cong [OF assms(1), of set] by simp
  with ids assms(2) show ?thesis by (auto simp: ledger_grows_def ledger_ok_def claim_keys_def)
qed

lemma ledger_update_settlements:
  assumes "\<And>r. p r \<Longrightarrow> settlement_of (f r) = settlement_of r"
    and "\<And>r. p r \<Longrightarrow> r \<in> set (bk_driver_settlements s) \<Longrightarrow> settlement_ok r \<Longrightarrow> settlement_ok (f r)"
  shows "ledger_grows s (s\<lparr>bk_driver_settlements := update_where p f (bk_driver_settlements s)\<rparr>)"
  using assms by (intro ledger_settlements map_update_where) (auto simp: set_update_where)

lemma ledger_insert_settlement:
  assumes "settlement_insert r fk t d s = Inr (u, s')" and "owed (st_net_payout r)"
  shows "ledger_grows s s'"
  using assms
  by (auto simp: settlement_insert_def ledger_grows_def ledger_ok_def settlement_ok_def null_amount_def real_null_def
      claim_keys_def split: if_splits)

lemma ledger_claim:
  assumes "expense_insert (new_expense o' i now) fk t d s = Inr (u, s')" and "\<not> fle (ceo_Amount o') (Fin 0)"
  shows "ledger_grows s s'"
proof -
  let ?r = "new_expense o' i now"
  from assms(1) have s': "s' = s\<lparr>bk_driver_expenses := bk_driver_expenses s @ [?r]\<rparr>"
    and new: "xe_id ?r \<notin> xe_id ` set (bk_driver_expenses s)" "xe_category ?r \<in> set validCategories" "\<not> real_null (xe_amount ?r)"
      "xe_idempotency_key ?r = None \<or> xe_idempotency_key ?r \<notin> xe_idempotency_key ` set (bk_driver_expenses s)"
    by (auto simp: expense_insert_def split: if_splits)
  have "flt (Fin 0) (xe_amount ?r)" "xe_status ?r = ''pending''"
    using assms(2) new(3) by (auto simp: new_expense_def real_null_def intro: flt_of_fle)
  with new show ?thesis
    by (auto simp: s' ledger_grows_def ledger_ok_def claim_ok_def claim_keys_def)
qed

lemma ledger_decide:
  assumes "decide_expense e user f fk t d s = Inr (n, s')" and "st \<in> {''approved'', ''rejected''}"
    and f: "\<And>r. claim_of (f r) = claim_of r \<and> xe_status (f r) = st"
  shows "ledger_grows s s'"
proof -
  let ?p = "\<lambda>r. xe_id r = e \<and> xe_status r = ''pending''" and ?f = "\<lambda>r. (f r)\<lparr>xe_approved_by := Some user\<rparr>"
  let ?xs = "update_where ?p ?f (bk_driver_expenses s)"
  from assms(1) have s': "s' = s\<lparr>bk_driver_expenses := ?xs\<rparr>" by (auto simp: decide_expense_def Let_def split: if_splits)
  have c: "claim_of (?f r) = claim_of r" for r using f [of r] by (simp add: claim_of_def)
  then have eq: "map claim_of ?xs = map claim_of (bk_driver_expenses s)" by (intro map_update_where) simp
  have ids: "map xe_id ?xs = map xe_id (bk_driver_expenses s)"
    "map xe_idempotency_key ?xs = map xe_idempotency_key (bk_driver_expenses s)"
    using arg_cong [OF eq, of "map fst"] arg_cong [OF eq, of "map (fst \<circ> snd)"] by (simp_all add: claim_of_def comp_def)
  have "claim_ok r \<Longrightarrow> claim_ok (?f r)" for r
    using c [of r] f [of r] assms(2) by (auto simp: claim_ok_def claim_of_def)
  then have ok: "\<forall>r\<in>set (bk_driver_expenses s). claim_ok r \<Longrightarrow> \<forall>r\<in>set ?xs. claim_ok r"
    by (auto simp: set_update_where)
  have kept: "r \<in> set ?xs" if "r \<in> set (bk_driver_expenses s)" "xe_status r \<noteq> ''pending''" for r
    using that by (force simp: set_update_where)
  have "claim_of ` set ?xs = claim_of ` set (bk_driver_expenses s)" using arg_cong [OF eq, of set] by simp
  with ids ok kept show ?thesis by (auto simp: s' ledger_grows_def ledger_ok_def claim_keys_def)
qed

lemma ledger_deduct: "deduct_expense amount sid fk t d s = Inr (u, s') \<Longrightarrow> ledger_grows s s'"
  unfolding deduct_expense_def Let_def
  by (clarsimp split: if_splits, rule ledger_update_settlements)
    (auto simp: settlement_of_def settlement_ok_def owed_def real_null_def)

lemma ledger_recompute:
  "settlement_recompute sid n fk t d s = Inr (u, s') \<Longrightarrow> owed (st_net_payout n) \<Longrightarrow> ledger_grows s s'"
  unfolding settlement_recompute_def
  by (clarsimp split: if_splits, rule ledger_update_settlements)
    (auto simp: settlement_of_def settlement_ok_def null_amount_def real_null_def)

lemma ledger_update:
  assumes "update_settlement sid g fk t d s = Inr (u, s')"
    and "\<And>x. settlement_of (g t x) = settlement_of x \<and> st_net_payout (g t x) = st_net_payout x
      \<and> st_status (g t x) \<in> {st_status x, ''paid'', ''disputed''}"
  shows "ledger_grows s s'"
proof -
  have "settlement_ok ((g t x)\<lparr>st_updated_at := t\<rparr>)" if "settlement_ok x" for x
    using assms(2) [of x] that by (auto simp: settlement_ok_def settlement_statuses_def)
  moreover have "settlement_of ((g t x)\<lparr>st_updated_at := t\<rparr>) = settlement_of x" for x
    using assms(2) [of x] by (simp add: settlement_of_def)
  ultimately show ?thesis using assms(1) by (auto simp: update_settlement_def intro: ledger_update_settlements)
qed

lemma ledger_upsert:
  "upsertPaidSettlement n fk t d s = Inr (u, s') \<Longrightarrow> owed (st_net_payout n) \<Longrightarrow> ledger_grows s s'"
  unfolding upsertPaidSettlement_def
  by (auto split: if_splits intro!: ledger_update_settlements elim: ledger_insert_settlement
      simp: settlement_of_def settlement_ok_def settlement_statuses_def null_amount_def real_null_def)

lemma ledger_lines:
  "insert_line l fk t d s = Inr (u, s') \<Longrightarrow> ledger_grows s s'"
  "delete_lines sid fk t d s = Inr (u, s') \<Longrightarrow> ledger_grows s s'"
  by (auto simp: insert_line_def delete_lines_def ledger_grows_def ledger_ok_def claim_keys_def distinct_map_filter
      split: if_splits)

lemma ledger_alert: "alert_insert a fk t d s = Inr (u, s') \<Longrightarrow> ledger_grows s s'"
  by (auto simp: alert_insert_def ledger_grows_def ledger_ok_def claim_keys_def split: if_splits)

lemma ledger_trans:
  assumes "ledger_grows s t" and "ledger_grows t u"
  shows "ledger_grows s u"
  unfolding ledger_grows_def
proof (intro conjI)
  show "ledger_ok s \<longrightarrow> ledger_ok u" using assms by (simp add: ledger_grows_def)
  show "claim_of ` set (bk_driver_expenses s) \<subseteq> claim_of ` set (bk_driver_expenses u)"
    using assms unfolding ledger_grows_def by (meson subset_trans)
  show "{r \<in> set (bk_driver_expenses s). xe_status r \<noteq> ''pending''} \<subseteq> set (bk_driver_expenses u)"
    using assms unfolding ledger_grows_def subset_iff by simp
  show "settlement_of ` set (bk_driver_settlements s) \<subseteq> settlement_of ` set (bk_driver_settlements u)"
    using assms unfolding ledger_grows_def by (meson subset_trans)
qed

lemma ledger_same:
  "bk_driver_settlements s' = bk_driver_settlements s \<Longrightarrow> bk_driver_expenses s' = bk_driver_expenses s
     \<Longrightarrow> bk_settlement_lines s' = bk_settlement_lines s \<Longrightarrow> ledger_grows s s'"
  by (auto simp: ledger_grows_def ledger_ok_def claim_keys_def)

interpretation ledger: account_relation ledger_grows
proof
  fix s t u :: "'a books_scheme"
  show "ledger_grows s s" by (rule ledger_same) simp_all
  show "ledger_grows s t \<Longrightarrow> ledger_grows t u \<Longrightarrow> ledger_grows s u" by (rule ledger_trans)
next
  fix s :: "'a books_scheme" and c since l x1 x2 x3 x4 x5 x6
  show "ledger_grows s (s\<lparr>cr_cache := c, cr_cacheAt := since, bk_published := l\<rparr>)" by (rule ledger_same) simp_all
  show "ledger_grows s (s\<lparr>bk_founder_signals := x1, bk_founder_audit := x2, bk_behaviour_events := x3,
    bk_driver_scores := x4, bk_drivers := x5\<rparr>)" by (rule ledger_same) simp_all
  show "ledger_grows s (s\<lparr>bk_ops_alerts := x6\<rparr>)" by (rule ledger_same) simp_all
qed (erule (1) ledger_claim | erule (1) ledger_insert_settlement | erule (1) ledger_recompute | erule (1) ledger_upsert
    | erule ledger_deduct | erule ledger_lines(1) | erule ledger_lines(2) | erule ledger_alert | (erule ledger_decide, assumption, assumption)
    | (erule ledger_update, assumption))+

section \<open>Alerts\<close>

definition closed_alerts :: "'x books_scheme \<Rightarrow> OpsAlert set" where
  "closed_alerts s = {r \<in> set (bk_ops_alerts s). oa_Status r \<in> set closed_statuses}"

definition alerts_grow :: "'x books_scheme \<Rightarrow> 'x books_scheme \<Rightarrow> bool" where
  "alerts_grow s s' \<longleftrightarrow> closed_alerts s \<subseteq> closed_alerts s' \<and> alert_of ` set (bk_ops_alerts s) \<subseteq> alert_of ` set (bk_ops_alerts s')
     \<and> (distinct (map oa_ID (bk_ops_alerts s)) \<longrightarrow> distinct (map oa_ID (bk_ops_alerts s')))"

lemma alerts_same: "bk_ops_alerts s' = bk_ops_alerts s \<Longrightarrow> alerts_grow s s'"
  by (simp add: alerts_grow_def closed_alerts_def)

lemma alerts_move:
  assumes "set allowed \<inter> set closed_statuses = {}"
    and h: "\<And>r. alert_of (h r) = alert_of r
      \<and> oa_Status (h r) \<in> {OpsAlertStatusAcknowledged, OpsAlertStatusResolved, OpsAlertStatusDismissed}"
  shows "alerts_grow s (s\<lparr>bk_ops_alerts := update_where (\<lambda>r. oa_ID r = i \<and> oa_Status r \<in> set allowed) h (bk_ops_alerts s)\<rparr>)"
proof -
  let ?p = "\<lambda>r. oa_ID r = i \<and> oa_Status r \<in> set allowed"
  have eq: "map alert_of (update_where ?p h (bk_ops_alerts s)) = map alert_of (bk_ops_alerts s)"
    using h by (intro map_update_where) simp
  have "map oa_ID (update_where ?p h (bk_ops_alerts s)) = map oa_ID (bk_ops_alerts s)"
    using arg_cong [OF eq, of "map fst"] by (simp add: alert_of_def comp_def)
  moreover have "alert_of ` set (update_where ?p h (bk_ops_alerts s)) = alert_of ` set (bk_ops_alerts s)"
    using arg_cong [OF eq, of set] by simp
  moreover have "r \<in> set (update_where ?p h (bk_ops_alerts s))" if "r \<in> closed_alerts s" for r
    using that assms(1) by (force simp: closed_alerts_def set_update_where)
  ultimately show ?thesis by (auto simp: alerts_grow_def closed_alerts_def)
qed

lemma alert_frames:
  "expense_insert x fk now d s = Inr (u, s') \<Longrightarrow> bk_ops_alerts s' = bk_ops_alerts s"
  "decide_expense e user f fk now d s = Inr (n, s') \<Longrightarrow> bk_ops_alerts s' = bk_ops_alerts s"
  "deduct_expense amount sid fk now d s = Inr (u, s') \<Longrightarrow> bk_ops_alerts s' = bk_ops_alerts s"
  "insert_line l fk now d s = Inr (u, s') \<Longrightarrow> bk_ops_alerts s' = bk_ops_alerts s"
  "settlement_insert r fk now d s = Inr (u, s') \<Longrightarrow> bk_ops_alerts s' = bk_ops_alerts s"
  "settlement_recompute sid r fk now d s = Inr (u, s') \<Longrightarrow> bk_ops_alerts s' = bk_ops_alerts s"
  "delete_lines sid fk now d s = Inr (u, s') \<Longrightarrow> bk_ops_alerts s' = bk_ops_alerts s"
  "update_settlement sid g fk now d s = Inr (u, s') \<Longrightarrow> bk_ops_alerts s' = bk_ops_alerts s"
  "upsertPaidSettlement r fk now d s = Inr (u, s') \<Longrightarrow> bk_ops_alerts s' = bk_ops_alerts s"
  by (auto simp: expense_insert_def decide_expense_def deduct_expense_def insert_line_def settlement_insert_def
      settlement_recompute_def delete_lines_def update_settlement_def upsertPaidSettlement_def Let_def split: if_splits)

lemma alerts_insert:
  "alert_insert a fk now d s = Inr (u, s') \<Longrightarrow> oa_Status a = OpsAlertStatusOpen \<Longrightarrow> alerts_grow s s'"
  by (auto simp: alert_insert_def alerts_grow_def closed_alerts_def split: if_splits)

interpretation desk: account_relation alerts_grow
proof
  fix s t u :: "'a books_scheme"
  show "alerts_grow s s" by (simp add: alerts_grow_def)
  show "alerts_grow s t \<Longrightarrow> alerts_grow t u \<Longrightarrow> alerts_grow s u" unfolding alerts_grow_def by blast
next
  fix s :: "'a books_scheme" and c since l x1 x2 x3 x4 x5
  show "alerts_grow s (s\<lparr>cr_cache := c, cr_cacheAt := since, bk_published := l\<rparr>)" by (rule alerts_same) simp
  show "alerts_grow s (s\<lparr>bk_founder_signals := x1, bk_founder_audit := x2, bk_behaviour_events := x3,
    bk_driver_scores := x4, bk_drivers := x5\<rparr>)" by (rule alerts_same) simp
next
  fix s :: "'a books_scheme" and p :: "OpsAlert \<Rightarrow> bool" and i allowed h
  assume "p = (\<lambda>r. oa_ID r = i \<and> oa_Status r \<in> set allowed)" and "set allowed \<inter> set closed_statuses = {}"
    and "\<And>r. alert_of (h r) = alert_of r
      \<and> oa_Status (h r) \<in> {OpsAlertStatusAcknowledged, OpsAlertStatusResolved, OpsAlertStatusDismissed}"
  then show "alerts_grow s (s\<lparr>bk_ops_alerts := update_where p h (bk_ops_alerts s)\<rparr>)" by (simp only: alerts_move)
qed (erule (1) alerts_insert | (rule alerts_same, rule alert_frames, assumption))+

end
