(* ===== verification/Account_Properties.thy ===== *)
theory Account_Properties
  imports Account_Safety
begin

text \<open>
  Properties of settlements, claims, alerts and scores: what any run keeps, what one operation does,
  and concrete runs that show each of them at work.
\<close>

section \<open>Books with a claim and a settlement\<close>

definition demo_claim :: "string \<Rightarrow> string \<Rightarrow> expense_row" where
  "demo_claim i st =
     \<lparr>xe_id = i, xe_trip_id = Some ''tr1'', xe_driver_id = Some ''d1'', xe_expense_type = ''toll'', xe_category = ''toll'',
      xe_amount = Fin 100, xe_description = None, xe_receipt_url = None, xe_fuel_litres = None, xe_status = st,
      xe_approved_by = None, xe_approved_at = None, xe_rejected_reason = None, xe_audit_status = ''pending'',
      xe_idempotency_key = Some i, xe_latitude = None, xe_longitude = None, xe_created_at = 0\<rparr>"

definition demo_settlement :: settlement_row where
  "demo_settlement =
     \<lparr>st_id = ''s1'', st_trip_id = ''tr1'', st_driver_id = ''d1'', st_gross_fare = Fin 1000, st_commission_amount = Fin 0,
      st_advances_kharcha = Fin 0, st_deductions = Fin 0, st_performance_bonus = Fin 0, st_tds_rate = Fin 0,
      st_tds_amount = Fin 0, st_net_payout = Fin 1000, st_rate_model = ''fixed'', st_rate_basis_json = None,
      st_status = ''paid'', st_payment_ref = Some ''UTR-1'', st_paid_at = Some 0, st_confirmed_at = None,
      st_disputed_at = None, st_dispute_reason = None, st_created_at = 0, st_updated_at = 0\<rparr>"

definition demo_alert :: "string \<Rightarrow> string \<Rightarrow> OpsAlert" where
  "demo_alert i st =
     \<lparr>oa_ID = i, oa_TenantID = ''1'', oa_AlertType = ''settlement_dispute'', oa_Severity = ''high'', oa_Title = [],
      oa_Description = [], oa_EntityType = None, oa_EntityID = None, oa_Status = st, oa_AcknowledgedBy = None,
      oa_AcknowledgedAt = None, oa_ResolvedBy = None, oa_ResolvedAt = None, oa_ResolutionNote = None, oa_CreatedAt = 0\<rparr>"

definition demo_books :: books where
  "demo_books =
     \<lparr>cr_cache = Map.empty, cr_cacheAt = 0, bk_driver_settlements = [demo_settlement], bk_settlement_lines = [],
      bk_driver_expenses = [demo_claim ''e1'' ''approved'', demo_claim ''e2'' ''pending''], bk_fuel_claim_audits = [],
      bk_drivers = [], bk_route_distances = [], bk_behaviour_events = [], bk_driver_scores = [],
      bk_ops_alerts = [demo_alert ''o1'' OpsAlertStatusResolved], bk_founder_signals = [], bk_founder_audit = [],
      bk_fuel_events = [], bk_published = []\<rparr>"

definition demo_carried :: trip_row where
  "demo_carried = \<lparr>tw_id = ''tr1'', tw_trip_number = ''TR-1'', tw_booking_id = Some ''b3'', tw_driver_id = Some ''d1'',
     tw_vehicle_id = None, tw_route_id = ''r1'', tw_departure_time = 0, tw_arrival_time = None, tw_status = ''completed'',
     tw_remarks = None, tw_tenant_id = ''t1'', tw_version = 1, tw_created_at = 0, tw_updated_at = 0, tw_started_at = None,
     tw_reached_pickup_at = None, tw_in_transit_at = None, tw_delivered_at = None, tw_completed_at = None\<rparr>"

definition demo_account_db :: database where
  "demo_account_db = demo_db\<lparr>db_trips := [demo_carried], db_drivers := [demo_driver ''d1'' (10 ^ 18)], db_users := [''u1'']\<rparr>"

definition demo_accounts :: "books \<times> world" where
  "demo_accounts = (demo_books, demo_world\<lparr>w_db := demo_account_db\<rparr>)"

lemma demo_tables:
  "bk_driver_settlements demo_books = [demo_settlement]"
  "bk_driver_expenses demo_books = [demo_claim ''e1'' ''approved'', demo_claim ''e2'' ''pending'']"
  "bk_settlement_lines demo_books = []" "bk_ops_alerts demo_books = [demo_alert ''o1'' OpsAlertStatusResolved]"
  by (simp_all add: demo_books_def)

lemma demo_first: "fst demo_accounts = demo_books"
  by (simp add: demo_accounts_def)

lemma demo_rows_ok:
  "settlement_ok demo_settlement" "claim_ok (demo_claim i ''approved'')" "claim_ok (demo_claim i ''pending'')"
  by (simp_all add: settlement_ok_def demo_settlement_def settlement_statuses_def owed_def claim_ok_def demo_claim_def
      validCategories_def)

lemma demo_claim_keys: "xe_id (demo_claim i st) = i" "xe_idempotency_key (demo_claim i st) = Some i"
  by (simp_all add: demo_claim_def)

lemma demo_ledger: "ledger_ok demo_books"
  by (simp add: ledger_ok_def claim_keys_def demo_tables demo_rows_ok demo_claim_keys)

section \<open>What every run keeps\<close>

text \<open>
  Property C11.  No sequence of operations (generation of settlements, payments, confirmations, disputes, both
  bridges of the legacy events, claims with their approvals and rejections, alerts, signals, scores),
  whatever fails in between and whatever the rest of the server does, spoils the books: a trip has at
  most one settlement, identifiers and idempotency keys are unique, a payout is never negative and
  never undefined, a status and a type of line is one of those declared, a claim is positive; and no
  settlement disappears or changes its trip or driver.
\<close>
theorem accounts_stay_sound:
  assumes "account_step\<^sup>*\<^sup>* p p'" and "ledger_ok (fst p)"
  shows "ledger_ok (fst p') \<and> settlement_of ` set (bk_driver_settlements (fst p)) \<subseteq> settlement_of ` set (bk_driver_settlements (fst p'))"
  using ledger.runs_keep [OF assms(1)] assms(2) by (simp add: ledger_grows_def)

theorem accounts_stay_sound_witness:
  "ledger_ok (fst (snd (ApproveExpense ''e2'' ''u1'' (snd (GenerateSettlement ''tr1'' True demo_accounts)))))"
proof -
  let ?p = "snd (GenerateSettlement ''tr1'' True demo_accounts)"
  have "account_step demo_accounts ?p" "account_step ?p (snd (ApproveExpense ''e2'' ''u1'' ?p))"
    by (rule account_step.intros)+
  then have "account_step\<^sup>*\<^sup>* demo_accounts (snd (ApproveExpense ''e2'' ''u1'' ?p))"
    by (blast intro: r_into_rtranclp rtranclp.rtrancl_into_rtrancl)
  from accounts_stay_sound [OF this] demo_ledger show ?thesis by (simp only: demo_first)
qed



text \<open>
  A resolved or dismissed alert stays as it was closed, whatever is done to it or to others, and
  identifiers of alerts stay unique.
\<close>
theorem closed_alert_is_final:
  assumes "account_step\<^sup>*\<^sup>* p p'" and "distinct (map oa_ID (bk_ops_alerts (fst p)))"
  shows "{r \<in> set (bk_ops_alerts (fst p)). oa_Status r \<in> set closed_statuses} \<subseteq> set (bk_ops_alerts (fst p'))
    \<and> distinct (map oa_ID (bk_ops_alerts (fst p')))"
  using desk.runs_keep [OF assms(1)] assms(2) by (auto simp: alerts_grow_def closed_alerts_def)

lemma demo_alert_open: "oa_Status (demo_alert i st) = st"
  by (simp add: demo_alert_def)

theorem closed_alert_is_final_witness:
  "demo_alert ''o1'' OpsAlertStatusResolved \<in> set (bk_ops_alerts (fst (snd (AcknowledgeAlert ''o1'' ''u1'' demo_accounts))))"
proof -
  have "account_step\<^sup>*\<^sup>* demo_accounts (snd (AcknowledgeAlert ''o1'' ''u1'' demo_accounts))"
    by (rule r_into_rtranclp) (rule account_step.Sees_Alert)
  from closed_alert_is_final [OF this, unfolded demo_first demo_tables] show ?thesis
    by (auto simp: closed_statuses_def demo_alert_open)
qed

section \<open>Idempotency keys of claims\<close>

lemma find_by_key_Inr:
  "find_by_key k p = (Inr i, p') \<Longrightarrow> (\<exists>r\<in>set (bk_driver_expenses (fst p)). xe_idempotency_key r = Some k \<and> xe_id r = i) \<and> fst p' = fst p"
  by (auto simp: find_by_key_def act_inv one_row_def split: option.splits dest!: find_SomeD)

lemma claim_key_unique:
  assumes "ledger_ok s" and "r \<in> set (bk_driver_expenses s)" and "r' \<in> set (bk_driver_expenses s)"
    and "xe_idempotency_key r = Some k" and "xe_idempotency_key r' = Some k"
  shows "r = r'"
proof -
  let ?rows = "filter (\<lambda>r. xe_idempotency_key r \<noteq> None) (bk_driver_expenses s)"
  have "claim_keys s = map xe_idempotency_key ?rows" by (simp only: claim_keys_def filter_map comp_def)
  then have "distinct (map xe_idempotency_key ?rows)" using assms(1) by (simp add: ledger_ok_def)
  from distinct_key_eq [OF this, of r r'] assms(2-5) show ?thesis by simp
qed

text \<open>A claim under a used key is not inserted, and the look-up finds the one that has it.\<close>

lemma find_by_key_fst: "find_by_key k p = (r, p') \<Longrightarrow> fst p' = fst p"
  by (auto simp: find_by_key_def book_query_def book_stmt_def both_stmt_def Let_def split: prod.splits option.splits sum.splits)

lemma find_by_key_id:
  assumes "find_by_key k p = (Inr i, p')" and "ledger_ok (fst p)"
    and "r \<in> set (bk_driver_expenses (fst p))" "xe_idempotency_key r = Some k"
  shows "i = xe_id r"
  using find_by_key_Inr [OF assms(1)] claim_key_unique [OF assms(2)] assms(3,4) by blast

lemma found_or_else:
  assumes "bindE (tryE m) (\<lambda>e. case e of Inr old \<Rightarrow> (if old \<noteq> [] then ret old else g) | Inl _ \<Rightarrow> g) p = (Inr j, p')"
  obtains (found) "m p = (Inr j, p')" | (missing) r p1 where "m p = (r, p1)" "g p1 = (Inr j, p')"
proof (cases "m p")
  case (Pair r p1)
  with assms that show ?thesis by (cases r) (auto simp: bindE_def tryE_def ret_def split: if_splits)
qed

lemma insert_expense_taken:
  assumes "insert_expense o' x p = (Inr j, p')" and k: "ceo_IdempotencyKey o' = k" "k \<noteq> []" and ok: "ledger_ok (fst p)"
    and r: "r \<in> set (bk_driver_expenses (fst p))" "xe_idempotency_key r = Some k"
  shows "j = xe_id r \<and> fst p' = fst p"
proof -
  have taken: "\<exists>e. expense_insert (new_expense o' x now) fk t d (fst p) = Inl e" for now fk t d
    using r k by (auto simp: expense_insert_def new_expense_def null_if_empty_def image_iff split: if_splits)
  have fails: "\<exists>e w'. book_stmt (expense_insert (new_expense o' x now)) (fst p, w) = (Inl e, (fst p, w'))" for now w
    using taken [of now "env_fk (w_env w)" "trunc_second (env_clk (w_env w) (w_nclk w))" "w_db w"]
    by (auto simp: book_stmt_def both_stmt_def Let_def split: option.splits)
  obtain now w1 where "in_world Now p = (Inr now, (fst p, w1))"
    by (cases p) (auto simp: in_world_def Now_def)
  moreover obtain e w2 where "book_stmt (expense_insert (new_expense o' x now)) (fst p, w1) = (Inl e, (fst p, w2))"
    using fails by blast
  ultimately have "bindE (tryE (find_by_key k)) (\<lambda>e'. case e' of Inr old \<Rightarrow> (if old \<noteq> [] then ret old else raise e)
      | Inl _ \<Rightarrow> raise e) (fst p, w2) = (Inr j, p')"
    using assms(1) k by (simp add: insert_expense_def bindE_def tryE_def)
  then have "find_by_key k (fst p, w2) = (Inr j, p')"
    by (cases rule: found_or_else) (simp_all add: raise_def)
  from find_by_key_id [OF this] find_by_key_fst [OF this] ok r show ?thesis by simp
qed

lemma insert_expense_new:
  assumes "insert_expense o' x p = (Inr j, p')" and k: "ceo_IdempotencyKey o' = k" "k \<noteq> []"
  shows "\<exists>r\<in>set (bk_driver_expenses (fst p')). xe_idempotency_key r = Some k \<and> xe_id r = j"
proof -
  obtain now w1 where "in_world Now p = (Inr now, (fst p, w1))"
    by (cases p) (auto simp: in_world_def Now_def)
  moreover obtain r s2 w2 where ins: "book_stmt (expense_insert (new_expense o' x now)) (fst p, w1) = (r, (s2, w2))"
    by (metis prod.exhaust)
  ultimately have run: "(case r of
        Inl e \<Rightarrow> bindE (tryE (find_by_key k)) (\<lambda>e'. case e' of Inr old \<Rightarrow> (if old \<noteq> [] then ret old else raise e)
          | Inl _ \<Rightarrow> raise e)
      | Inr _ \<Rightarrow> seqE (in_world (service_logAudit None ''create_kharcha'' ''driver_expenses'' x None None)) (ret x)) (s2, w2) = (Inr j, p')"
    using assms(1) k by (cases r) (simp_all add: insert_expense_def bindE_def tryE_def)
  show ?thesis
  proof (cases r)
    case (Inl e)
    with run have "find_by_key k (s2, w2) = (Inr j, p')" by simp (erule found_or_else, simp_all add: raise_def)
    with find_by_key_Inr [OF this] find_by_key_fst [OF this] show ?thesis by simp
  next
    case (Inr u)
    with run have j: "j = x" "fst p' = s2" by (auto simp: seqE_Inr in_world_Inr ret_Inr)
    from ins Inr have "new_expense o' x now \<in> set (bk_driver_expenses s2)"
      by (auto simp: book_stmt_Inr expense_insert_def split: if_splits)
    moreover have "xe_idempotency_key (new_expense o' x now) = Some k" "xe_id (new_expense o' x now) = x"
      using k by (simp_all add: new_expense_def null_if_empty_def)
    ultimately show ?thesis using j by blast
  qed
qed

lemma create_expense_cases:
  assumes "CreateExpenseWithOpts o' p = (Inr j, p')" and "ceo_IdempotencyKey o' = k" and "k \<noteq> []"
  obtains (found) p1 where "fst p1 = fst p" "find_by_key k p1 = (Inr j, p')"
    | (inserted) x p1 where "fst p1 = fst p" "insert_expense o' x p1 = (Inr j, p')"
proof -
  let ?rest = "\<lambda>x. bindE (tryE (find_by_key k)) (\<lambda>e. case e of Inr old \<Rightarrow> (if old \<noteq> [] then ret old else insert_expense o' x)
      | Inl _ \<Rightarrow> insert_expense o' x)"
  from assms have "bindE (in_world GenerateUUID) ?rest p = (Inr j, p')"
    by (simp add: CreateExpenseWithOpts_def raise_def split: if_splits)
  then obtain x p0 where u: "in_world GenerateUUID p = (Inr x, p0)" and run: "?rest x p0 = (Inr j, p')"
    unfolding bindE_Inr [of "in_world GenerateUUID"] by blast
  from u have p0: "fst p0 = fst p" by (auto simp: in_world_Inr)
  from run show ?thesis
  proof (cases rule: found_or_else)
    case found
    with p0 show ?thesis by (rule that(1))
  next
    case (missing r p1)
    with find_by_key_fst [OF missing(1)] p0 show ?thesis by (intro that(2) [of p1 x]) simp_all
  qed
qed

text \<open>
  Property C16.  An idempotency key stands for one claim.  After a submission with a key succeeded, every later
  submission that succeeds with the same key, however much happened in between and whatever it asks
  for, returns the identifier of the first and leaves the claims as they are; that the look-up fails
  for reasons of the driver does not matter, as the key is unique in the table.
\<close>
theorem claim_key_used_once:
  assumes "CreateExpenseWithOpts a p0 = (Inr i, p1)" and "account_step\<^sup>*\<^sup>* p1 p2"
    and "CreateExpenseWithOpts b p2 = (Inr j, p3)"
    and k: "ceo_IdempotencyKey a = k" "ceo_IdempotencyKey b = k" "k \<noteq> []" and ok: "ledger_ok (fst p0)"
  shows "j = i \<and> fst p3 = fst p2"
proof -
  have "account_step p0 p1" using account_step.Claims [of p0 a] assms(1) by simp
  then have ok1: "ledger_ok (fst p1)" using ledger.runs_keep [of p0 p1] ok by (simp add: ledger_grows_def r_into_rtranclp)
  from assms(1) k(1,3) obtain r where r: "r \<in> set (bk_driver_expenses (fst p1))" "xe_idempotency_key r = Some k" "xe_id r = i"
    by (cases rule: create_expense_cases) (auto dest: find_by_key_Inr find_by_key_fst insert_expense_new [OF _ k(1,3)])
  from ledger.runs_keep [OF assms(2)] have g: "ledger_grows (fst p1) (fst p2)" .
  with r(1) obtain r2 where r2: "r2 \<in> set (bk_driver_expenses (fst p2))" "claim_of r2 = claim_of r"
    unfolding ledger_grows_def by (metis (no_types, lifting) imageE image_eqI subsetD)
  then have r2': "xe_idempotency_key r2 = Some k" "xe_id r2 = i" using r by (simp_all add: claim_of_def)
  have ok2: "ledger_ok (fst p2)" using g ok1 by (simp add: ledger_grows_def)
  from assms(3) k(2,3) show ?thesis
  proof (cases rule: create_expense_cases)
    case (found p)
    with find_by_key_id [OF found(2)] find_by_key_fst [OF found(2)] ok2 r2(1) r2' show ?thesis by simp
  next
    case (inserted x p)
    with insert_expense_taken [OF inserted(2) k(2,3)] ok2 r2(1) r2' show ?thesis by simp
  qed
qed

definition demo_submission :: "float64 \<Rightarrow> CreateExpenseOpts" where
  "demo_submission amount =
     \<lparr>ceo_TripID = ''tr1'', ceo_DriverID = ''d1'', ceo_Category = ''toll'', ceo_Amount = amount, ceo_Description = [],
      ceo_ReceiptURL = [], ceo_FuelLitres = Fin 0, ceo_IdempotencyKey = ''k9'', ceo_Latitude = None, ceo_Longitude = None\<rparr>"

lemma demo_submissions:
  "fst (CreateExpenseWithOpts (demo_submission (Fin 40)) demo_accounts) = Inr ''uuid-''"
  "fst (CreateExpenseWithOpts (demo_submission (Fin 90)) (snd (CreateExpenseWithOpts (demo_submission (Fin 40)) demo_accounts))) = Inr ''uuid-''"
  by code_simp+

text \<open>The second submission asks for another amount.\<close>

theorem claim_key_used_once_witness:
  "\<exists>p1 p3. CreateExpenseWithOpts (demo_submission (Fin 40)) demo_accounts = (Inr ''uuid-'', p1)
     \<and> CreateExpenseWithOpts (demo_submission (Fin 90)) p1 = (Inr ''uuid-'', p3) \<and> fst p3 = fst p1"
proof -
  obtain p1 where 1: "CreateExpenseWithOpts (demo_submission (Fin 40)) demo_accounts = (Inr ''uuid-'', p1)"
    using demo_submissions(1) by (metis prod.collapse)
  with demo_submissions(2) obtain p3 where 2: "CreateExpenseWithOpts (demo_submission (Fin 90)) p1 = (Inr ''uuid-'', p3)"
    by (metis prod.collapse snd_conv)
  have "ceo_IdempotencyKey (demo_submission x) = ''k9''" for x by (simp add: demo_submission_def)
  from claim_key_used_once [OF 1 rtranclp.rtrancl_refl 2 this this] demo_ledger have "fst p3 = fst p1" by (simp add: demo_first)
  with 1 2 show ?thesis by blast
qed

end
