(* ===== verification/Settlement_Properties.thy ===== *)
theory Settlement_Properties
  imports Account_Properties
begin

text \<open>
  What one settlement contains: the amounts of the header against its lines, the commission, the
  header written with its lines or not at all, and payments that repeat.
\<close>

section \<open>Reading leaves the tables alone\<close>

definition same_books :: "'x books_scheme \<Rightarrow> 'x books_scheme \<Rightarrow> bool" where
  "same_books s s' \<longleftrightarrow> s' = s\<lparr>cr_cache := cr_cache s', cr_cacheAt := cr_cacheAt s', bk_published := bk_published s'\<rparr>"

lemma same_books_tables:
  assumes "same_books s s'"
  shows "bk_driver_settlements s' = bk_driver_settlements s" "bk_settlement_lines s' = bk_settlement_lines s"
    "bk_driver_expenses s' = bk_driver_expenses s"
proof -
  let ?t = "s\<lparr>cr_cache := cr_cache s', cr_cacheAt := cr_cacheAt s', bk_published := bk_published s'\<rparr>"
  have eq: "s' = ?t" using assms by (simp only: same_books_def)
  show "bk_driver_settlements s' = bk_driver_settlements s" "bk_settlement_lines s' = bk_settlement_lines s"
    "bk_driver_expenses s' = bk_driver_expenses s"
    by (subst eq, simp)+
qed

lemma same_books_update: "same_books s (s\<lparr>cr_cache := c, cr_cacheAt := since, bk_published := l\<rparr>)"
  by (simp add: same_books_def)

lemma same_books_trans:
  assumes "same_books s t" and "same_books t u"
  shows "same_books s u"
proof -
  from assms obtain c1 a1 l1 c2 a2 l2 where "t = s\<lparr>cr_cache := c1, cr_cacheAt := a1, bk_published := l1\<rparr>"
    and "u = t\<lparr>cr_cache := c2, cr_cacheAt := a2, bk_published := l2\<rparr>"
    unfolding same_books_def by blast
  then have "u = s\<lparr>cr_cache := c2, cr_cacheAt := a2, bk_published := l2\<rparr>" by simp
  then show ?thesis by (simp only: same_books_update)
qed

interpretation reads: book_relation same_books
  by unfold_locales (simp add: same_books_def, erule (1) same_books_trans, rule same_books_update)

section \<open>Commission\<close>

lemma calculateGrossFare_commission:
  assumes "calculateGrossFare b ro p = (Inr rate, p')" and "rr_RateModel rate = ''commission_pct''"
  shows "\<exists>fare. rr_GrossFare rate = fsub fare (rr_Commission rate) \<and> \<not> fle fare (Fin 0)"
proof -
  from assms(1) obtain m p1 where
    "(let rateModel = if m = [] then ''per_km'' else m in
       if rateModel = ''per_km'' then gross_per_km ro else if rateModel = ''fixed'' then gross_fixed
       else if rateModel = ''commission_pct'' then gross_commission b else ret default_rate) p1 = (Inr rate, p')"
    by (simp only: calculateGrossFare_def bindE_Inr) blast
  with assms(2) have "gross_commission b p1 = (Inr rate, p')"
    by (auto simp: Let_def gross_per_km_def gross_fixed_def default_rate_def bindE_Inr ret_Inr split: if_splits)
  then show ?thesis by (auto simp: gross_commission_def Let_def bindE_Inr ret_Inr raise_Inr split: if_splits)
qed

lemma compute_settlement_parts:
  assumes "compute_settlement t dr b ro p = (Inr c, p')"
  obtains rate p1 adv advl p2 ded dedl p3 tr ta sec p4 bonus basis i where
    "calculateGrossFare b ro p = (Inr rate, p1)" "getApprovedAdvances t dr p1 = (Inr (adv, advl), p2)"
    "getApprovedDeductions t dr p2 = (Inr (ded, dedl), p3)"
    "calculateTDS dr (let base = fsub (fsub (fsub (rr_GrossFare rate) (rr_Commission rate)) adv) ded in if flt base (Fin 0) then Fin 0 else base) p3
       = (Inr (tr, ta, sec), p4)"
    "st_rate_model (cp_row c) = rr_RateModel rate" "st_gross_fare (cp_row c) = rr_GrossFare rate"
    "st_commission_amount (cp_row c) = rr_Commission rate" "st_advances_kharcha (cp_row c) = adv"
    "st_deductions (cp_row c) = ded" "st_performance_bonus (cp_row c) = bonus" "st_tds_amount (cp_row c) = ta"
    "st_net_payout (cp_row c) = (let net = fadd (fsub (fsub (fsub (fsub (rr_GrossFare rate) (rr_Commission rate)) adv) ded) ta) bonus
       in if flt net (Fin 0) then Fin 0 else net)"
    "\<And>sid. cp_lines c sid = buildLines sid t rate adv advl ded dedl tr ta sec bonus"
  using assms
  by (auto simp: compute_settlement_def Let_def act_inv split: prod.splits)


definition demo_commission :: "books \<times> world" where
  "demo_commission = (demo_books, demo_world\<lparr>w_db := demo_account_db\<lparr>
     db_bookings := [(demo_booking ''b3'' ''t1'' ''confirmed'')\<lparr>br_price := Fin 1000\<rparr>],
     db_company_config := [(''t1'', ''settlement_rate_model'', ''commission_pct'')]\<rparr>\<rparr>)"

definition paid_columns :: "settlement_row \<Rightarrow> string \<times> float64 list" where
  "paid_columns r = (st_rate_model r, [st_gross_fare r, st_commission_amount r, st_advances_kharcha r, st_deductions r,
     st_tds_amount r, st_performance_bonus r, st_net_payout r])"

lemma demo_commission_run:
  "map_sum id (\<lambda>c. paid_columns (cp_row c)) (fst (compute_settlement ''tr1'' ''d1'' ''b3'' ''r1'' demo_commission))
     = Inr (''commission_pct'', [Fin 950, Fin 50, Fin 100, Fin 0, Fin 16, Fin 0, Fin 784])"
  by code_simp

lemma demo_commission_row:
  obtains c p' where "compute_settlement ''tr1'' ''d1'' ''b3'' ''r1'' demo_commission = (Inr c, p')"
    "st_rate_model (cp_row c) = ''commission_pct''" "st_gross_fare (cp_row c) = Fin 950"
    "st_commission_amount (cp_row c) = Fin 50" "st_advances_kharcha (cp_row c) = Fin 100" "st_deductions (cp_row c) = Fin 0"
    "st_tds_amount (cp_row c) = Fin 16" "st_performance_bonus (cp_row c) = Fin 0" "st_net_payout (cp_row c) = Fin 784"
proof -
  obtain r p' where r: "compute_settlement ''tr1'' ''d1'' ''b3'' ''r1'' demo_commission = (r, p')" by (metis prod.exhaust)
  with demo_commission_run show ?thesis using that by (cases r) (simp_all add: paid_columns_def)
qed


section \<open>Header and lines\<close>

fun rup :: "float64 \<Rightarrow> int" where
  "rup (Fin x) = \<lfloor>x\<rfloor>"
| "rup _ = 0"

definition whole :: "float64 \<Rightarrow> bool" where
  "whole x \<longleftrightarrow> x = Fin (of_int (rup x))"

definition whole_claims :: "'x books_scheme \<Rightarrow> bool" where
  "whole_claims s \<longleftrightarrow> (\<forall>r\<in>set (bk_driver_expenses s). whole (xe_amount r))
     \<and> (\<Sum>r\<leftarrow>bk_driver_expenses s. rup (xe_amount r)) \<le> 2 ^ 50"

lemma fadd_whole: "\<bar>m + n\<bar> \<le> 2 ^ 53 \<Longrightarrow> fadd (Fin (of_int m)) (Fin (of_int n)) = Fin (of_int (m + n))"
  using rnd_of_int [of "m + n"] by simp

lemma fsub_whole: "\<bar>m - n\<bar> \<le> 2 ^ 53 \<Longrightarrow> fsub (Fin (of_int m)) (Fin (of_int n)) = Fin (of_int (m - n))"
  using rnd_of_int [of "m - n"] by (simp add: fsub_def)

lemma total_whole:
  assumes "\<forall>r\<in>set rows. xe_amount r = Fin (of_int (rup (xe_amount r))) \<and> 0 \<le> rup (xe_amount r)"
    and "0 \<le> a" and "a + (\<Sum>r\<leftarrow>rows. rup (xe_amount r)) \<le> 2 ^ 53"
  shows "foldl (\<lambda>total r. fadd total (xe_amount r)) (Fin (of_int a)) rows = Fin (of_int (a + (\<Sum>r\<leftarrow>rows. rup (xe_amount r))))"
  using assms
proof (induction rows arbitrary: a)
  case (Cons r rows)
  let ?k = "rup (xe_amount r)"
  have rest: "0 \<le> (\<Sum>r\<leftarrow>rows. rup (xe_amount r))" using Cons.prems(1) by (intro sum_list_nonneg) auto
  with Cons.prems have k: "xe_amount r = Fin (of_int ?k)" "0 \<le> ?k" "\<bar>a + ?k\<bar> \<le> 2 ^ 53" by auto
  then have "fadd (Fin (of_int a)) (xe_amount r) = Fin (of_int (a + ?k))" using fadd_whole [of a ?k] by metis
  with Cons.IH [of "a + ?k"] Cons.prems k(2) show ?case by (simp add: add.assoc)
qed simp

lemma sum_list_filter_le:
  "\<forall>x\<in>set xs. 0 \<le> f x \<Longrightarrow> (\<Sum>x\<leftarrow>filter P xs. f x) \<le> (\<Sum>x\<leftarrow>xs. (f x :: int))"
  by (induction xs) auto

lemma approved_total:
  fixes b t dr
  assumes "ledger_ok s" and "whole_claims s"
  defines "rows \<equiv> approved_expenses b t dr s"
  shows "total_amount rows = Fin (of_int (\<Sum>r\<leftarrow>rows. rup (xe_amount r)))"
    and "0 \<le> (\<Sum>r\<leftarrow>rows. rup (xe_amount r))" and "(\<Sum>r\<leftarrow>rows. rup (xe_amount r)) \<le> 2 ^ 50"
    and "(\<Sum>r\<leftarrow>rows. rup (xe_amount r)) = 0 \<Longrightarrow> rows = []"
    and "\<forall>r\<in>set rows. xe_amount r = Fin (of_int (rup (xe_amount r)))"
proof -
  have pos: "0 < rup (xe_amount r)" if "r \<in> set (bk_driver_expenses s)" for r
  proof -
    have "whole (xe_amount r)" "flt (Fin 0) (xe_amount r)"
      using assms(1,2) that by (auto simp: ledger_ok_def claim_ok_def whole_claims_def)
    then have "flt (Fin 0) (Fin (of_int (rup (xe_amount r))))" unfolding whole_def by metis
    then show ?thesis by simp
  qed
  have sub: "set rows \<subseteq> set (bk_driver_expenses s)" by (auto simp: rows_def approved_expenses_def)
  show w: "\<forall>r\<in>set rows. xe_amount r = Fin (of_int (rup (xe_amount r)))"
    using sub assms(2) unfolding whole_claims_def whole_def by blast
  show n: "0 \<le> (\<Sum>r\<leftarrow>rows. rup (xe_amount r))" using sub pos by (intro sum_list_nonneg) (auto intro: less_imp_le)
  have "(\<Sum>r\<leftarrow>rows. rup (xe_amount r)) \<le> (\<Sum>r\<leftarrow>bk_driver_expenses s. rup (xe_amount r))"
    unfolding rows_def approved_expenses_def using pos by (intro sum_list_filter_le) (auto intro: less_imp_le)
  then show le: "(\<Sum>r\<leftarrow>rows. rup (xe_amount r)) \<le> 2 ^ 50" using assms(2) by (simp add: whole_claims_def)
  have "\<forall>r\<in>set rows. xe_amount r = Fin (of_int (rup (xe_amount r))) \<and> 0 \<le> rup (xe_amount r)"
    using w sub pos by (auto intro: less_imp_le)
  from total_whole [OF this, of 0] le show "total_amount rows = Fin (of_int (\<Sum>r\<leftarrow>rows. rup (xe_amount r)))"
    by (simp add: total_amount_def)
  show "rows = []" if z: "(\<Sum>r\<leftarrow>rows. rup (xe_amount r)) = 0"
  proof (rule ccontr)
    assume "rows \<noteq> []"
    then obtain r rs where rs: "rows = r # rs" by (cases rows) auto
    have "0 \<le> (\<Sum>r\<leftarrow>rs. rup (xe_amount r))" using sub pos rs by (intro sum_list_nonneg) (auto intro: less_imp_le)
    moreover have "0 < rup (xe_amount r)" using sub pos rs by simp
    ultimately show False using z rs by simp
  qed
qed

lemma neg_lines:
  "\<forall>r\<in>set rows. xe_amount r = Fin (of_int (rup (xe_amount r)))
     \<Longrightarrow> (\<Sum>l\<leftarrow>map (\<lambda>r. empty_line\<lparr>sl_LineType := ty, sl_Label := lb r, sl_Amount := fneg (xe_amount r), sl_RefID := xe_id r\<rparr>) rows.
         rup (sl_Amount l)) = - (\<Sum>r\<leftarrow>rows. rup (xe_amount r))"
proof (induction rows)
  case (Cons r rows)
  then have "fneg (xe_amount r) = Fin (of_int (- rup (xe_amount r)))" by (metis fneg.simps(1) list.set_intros(1) of_int_minus)
  then have "rup (fneg (xe_amount r)) = - rup (xe_amount r)" by (simp only: rup.simps floor_of_int)
  with Cons show ?case by simp
qed simp

text \<open>
  Property C13.  The lines of a settlement add up to its payout: with amounts in whole rupees the stored net payout
  is the sum of the amounts of the lines written with it, or zero when that is negative.  Claims are
  taken from the approved expenses of the trip and driver, one line each.
\<close>
theorem lines_add_up:
  assumes run: "compute_settlement t dr b ro (s, w) = (Inr c, p')" and ok: "ledger_ok s" "whole_claims s"
    and cols: "r = cp_row c"
      "list_all (\<lambda>x. whole x \<and> 0 \<le> rup x \<and> rup x \<le> 2 ^ 50)
         [st_gross_fare r, st_commission_amount r, st_tds_amount r, st_performance_bonus r]"
  shows "st_net_payout r = Fin (of_int (max 0 (\<Sum>l\<leftarrow>cp_lines c sid. rup (sl_Amount l))))"
proof (rule compute_settlement_parts [OF run])
  fix rate p1 adv advl p2 ded dedl p3 tr ta sec p4 bonus
  assume gross: "calculateGrossFare b ro (s, w) = (Inr rate, p1)" and a: "getApprovedAdvances t dr p1 = (Inr (adv, advl), p2)"
    and d: "getApprovedDeductions t dr p2 = (Inr (ded, dedl), p3)"
    and cs: "st_gross_fare (cp_row c) = rr_GrossFare rate" "st_commission_amount (cp_row c) = rr_Commission rate"
      "st_performance_bonus (cp_row c) = bonus" "st_tds_amount (cp_row c) = ta"
    and net: "st_net_payout (cp_row c) = (let net = fadd (fsub (fsub (fsub (fsub (rr_GrossFare rate) (rr_Commission rate)) adv) ded) ta) bonus
       in if flt net (Fin 0) then Fin 0 else net)"
    and lines: "\<And>sid. cp_lines c sid = buildLines sid t rate adv advl ded dedl tr ta sec bonus"
  define A where "A = approved_expenses True t dr s"
  define D where "D = approved_expenses False t dr s"
  have "same_books s (fst p1)" using reads.keepsD [OF reads.keeps_calculateGrossFare gross] by (simp add: tables_rel_def)
  then have e1: "bk_driver_expenses (fst p1) = bk_driver_expenses s" by (rule same_books_tables)
  from a have a': "fst p2 = fst p1" "adv = total_amount A"
    "advl = map (\<lambda>r. empty_line\<lparr>sl_LineType := ''advances'', sl_Label := ''Approved expense ('' @ xe_category r @ '') #'' @ xe_id r,
       sl_Amount := fneg (xe_amount r), sl_RefID := xe_id r\<rparr>) A"
    by (auto simp: getApprovedAdvances_def act_inv A_def approved_expenses_def e1)
  from d have d': "ded = total_amount D"
    "dedl = map (\<lambda>r. empty_line\<lparr>sl_LineType := ''deduction'', sl_Label := ''Approved deduction ('' @ xe_category r @ '') #'' @ xe_id r,
       sl_Amount := fneg (xe_amount r), sl_RefID := xe_id r\<rparr>) D"
    by (auto simp: getApprovedDeductions_def act_inv D_def approved_expenses_def e1 a'(1))
  define na where "na = (\<Sum>r\<leftarrow>A. rup (xe_amount r))"
  define nd where "nd = (\<Sum>r\<leftarrow>D. rup (xe_amount r))"
  note tA = approved_total [OF ok, of True t dr, folded A_def, folded na_def]
  note tD = approved_total [OF ok, of False t dr, folded D_def, folded nd_def]
  have la: "(\<Sum>l\<leftarrow>advl. rup (sl_Amount l)) = - na" "(\<Sum>l\<leftarrow>dedl. rup (sl_Amount l)) = - nd"
    unfolding a'(3) d'(2) na_def nd_def by (rule neg_lines [OF tA(5)], rule neg_lines [OF tD(5)])
  obtain g co ta' bo where w: "rr_GrossFare rate = Fin (of_int g)" "rr_Commission rate = Fin (of_int co)"
      "ta = Fin (of_int ta')" "bonus = Fin (of_int bo)"
    and n: "0 \<le> g" "g \<le> 2 ^ 50" "0 \<le> co" "co \<le> 2 ^ 50" "0 \<le> ta'" "ta' \<le> 2 ^ 50" "0 \<le> bo" "bo \<le> 2 ^ 50"
    using cols cs by (auto simp: whole_def)
  have sum: "(\<Sum>l\<leftarrow>cp_lines c sid. rup (sl_Amount l)) = g - co - na - nd - ta' + bo"
  proof -
    have neg: "rup (fneg (Fin (of_int k))) = - k" for k by (simp flip: of_int_minus)
    have "(if flt (Fin 0) (Fin (of_int nd)) then dedl else []) = dedl"
      using tD(2,4) by (auto simp: d'(2) order.order_iff_strict)
    then show ?thesis
      unfolding lines buildLines_def Let_def w a'(2) tA(1) d'(1) tD(1)
      using n(3,5,7) tA(2) la by (simp add: line_of_def empty_line_def neg del: fneg.simps)
  qed
  have "fadd (fsub (fsub (fsub (fsub (rr_GrossFare rate) (rr_Commission rate)) adv) ded) ta) bonus = Fin (of_int (g - co - na - nd - ta' + bo))"
    using n tA(2,3) tD(2,3) unfolding w a'(2) tA(1) d'(1) tD(1) by (simp add: fsub_whole fadd_whole del: of_int_diff of_int_add fadd.simps)
  with net cols(1) sum show ?thesis by (simp add: Let_def max_def)
qed

lemma demo_whole_claims: "whole_claims demo_books"
  by (simp add: whole_claims_def demo_tables demo_claim_def whole_def)

theorem lines_add_up_witness:
  "\<exists>(c :: computed) p'. compute_settlement ''tr1'' ''d1'' ''b3'' ''r1'' demo_commission = (Inr c, p') \<and> st_net_payout (cp_row c) = Fin 784
     \<and> (\<Sum>l\<leftarrow>cp_lines c ''s1''. rup (sl_Amount l)) = 784"
proof (rule demo_commission_row)
  fix c p'
  assume r: "compute_settlement ''tr1'' ''d1'' ''b3'' ''r1'' demo_commission = (Inr c, p')"
    and c: "st_gross_fare (cp_row c) = Fin 950" "st_commission_amount (cp_row c) = Fin 50" "st_tds_amount (cp_row c) = Fin 16"
      "st_performance_bonus (cp_row c) = Fin 0" "st_net_payout (cp_row c) = Fin 784"
  have "list_all (\<lambda>x. whole x \<and> 0 \<le> rup x \<and> rup x \<le> 2 ^ 50) [st_gross_fare (cp_row c), st_commission_amount (cp_row c),
      st_tds_amount (cp_row c), st_performance_bonus (cp_row c)]"
    by (simp add: c whole_def)
  from lines_add_up [OF r [unfolded demo_commission_def] demo_ledger demo_whole_claims refl this, where sid = "''s1''"]
  have "(\<Sum>l\<leftarrow>cp_lines c ''s1''. rup (sl_Amount l)) = 784" unfolding c(5) by (simp add: max_def split: if_splits)
  with r c(5) show ?thesis by blast
qed

end
