(* ===== verification/Settlement_Atomic.thy ===== *)
theory Settlement_Atomic
  imports Settlement_Properties
begin

text \<open>
  A settlement is written with all its lines or not at all: the transaction of
  \<open>GenerateSettlement\<close> under every failure of the driver.
\<close>

section \<open>What the transaction writes\<close>

definition line_core :: "SettlementLine \<Rightarrow> string \<times> string \<times> float64 \<times> string" where
  "line_core l = (sl_LineType l, sl_Label l, sl_Amount l, sl_RefID l)"

definition lines_of :: "'x books_scheme \<Rightarrow> string \<Rightarrow> SettlementLine list" where
  "lines_of s sid = filter (\<lambda>l. sl_SettlementID l = sid) (bk_settlement_lines s)"

definition lines_belong :: "'x books_scheme \<Rightarrow> bool" where
  "lines_belong s \<longleftrightarrow> (\<forall>l\<in>set (bk_settlement_lines s). sl_SettlementID l \<in> st_id ` set (bk_driver_settlements s))"

text \<open>The header of a trip with the amounts of \<open>c\<close> and exactly its lines.\<close>

definition written :: "string \<Rightarrow> computed \<Rightarrow> 'x books_scheme \<Rightarrow> bool" where
  "written t c s \<longleftrightarrow> (\<exists>r\<in>set (bk_driver_settlements s). st_trip_id r = t \<and> paid_columns r = paid_columns (cp_row c)
     \<and> map line_core (lines_of s (st_id r)) = map line_core (cp_lines c (st_id r)))"

lemma wrapped_Inr [act_inv]: "wrapped msg m p = (Inr x, p') \<longleftrightarrow> m p = (Inr x, p')"
proof (cases "m p")
  case (Pair r p1)
  then show ?thesis by (cases r) (simp_all add: wrapped_def bindE_def tryE_def raise_def ret_def)
qed

lemma insert_lines_run:
  "insert_lines sid t ls p = (Inr u, p') \<Longrightarrow> bk_driver_settlements (fst p') = bk_driver_settlements (fst p)
     \<and> (\<exists>new. bk_settlement_lines (fst p') = bk_settlement_lines (fst p) @ new \<and> map line_core new = map line_core ls
          \<and> (\<forall>l\<in>set new. sl_SettlementID l = sid))"
proof (induction ls arbitrary: p)
  case Nil
  then show ?case by (simp add: insert_lines_def ret_Inr)
next
  case (Cons l ls)
  from Cons.prems obtain i p1 p2 where l: "in_world GenerateUUID p = (Inr i, p1)"
      "book_stmt (insert_line (l\<lparr>sl_ID := ''stl-ln-'' @ i, sl_SettlementID := sid, sl_TripID := t\<rparr>)) p1 = (Inr (), p2)"
    and ls: "insert_lines sid t ls p2 = (Inr u, p')"
    by (auto simp: insert_lines_def seqE_Inr bindE_Inr wrapped_Inr)
  from l(2) obtain now where p2: "fst p2 = (fst p1)\<lparr>bk_settlement_lines := bk_settlement_lines (fst p1) @
      [l\<lparr>sl_ID := ''stl-ln-'' @ i, sl_SettlementID := sid, sl_TripID := t, sl_CreatedAt := now\<rparr>]\<rparr>"
    by (cases p1) (auto simp: book_stmt_Inr insert_line_def split: if_splits)
  from l(1) have "fst p1 = fst p" by (auto simp: in_world_Inr)
  with Cons.IH [OF ls] p2 obtain new where new: "bk_driver_settlements (fst p') = bk_driver_settlements (fst p)"
    "bk_settlement_lines (fst p') = bk_settlement_lines (fst p) @
       (l\<lparr>sl_ID := ''stl-ln-'' @ i, sl_SettlementID := sid, sl_TripID := t, sl_CreatedAt := now\<rparr> # new)"
    "map line_core new = map line_core ls" "\<forall>l\<in>set new. sl_SettlementID l = sid" by auto
  have "line_core (l\<lparr>sl_ID := a, sl_SettlementID := b, sl_TripID := e, sl_CreatedAt := d\<rparr>) = line_core l" for a b e d
    by (simp add: line_core_def)
  with new show ?case by simp
qed

lemma insert_header_run:
  assumes "book_stmt (stamped settlement_insert r) p = (Inr u, p')" and "lines_belong (fst p)"
  shows "(\<exists>x\<in>set (bk_driver_settlements (fst p')). st_id x = st_id r \<and> st_trip_id x = st_trip_id r \<and> paid_columns x = paid_columns r)
    \<and> lines_of (fst p') (st_id r) = []"
proof -
  from assms(1) obtain now where p': "fst p' = (fst p)\<lparr>bk_driver_settlements := bk_driver_settlements (fst p) @
      [r\<lparr>st_created_at := now, st_updated_at := now\<rparr>]\<rparr>" and new: "st_id r \<notin> st_id ` set (bk_driver_settlements (fst p))"
    by (cases p) (auto simp: book_stmt_Inr stamped_def settlement_insert_def split: if_splits)
  have "sl_SettlementID l \<noteq> st_id r" if "l \<in> set (bk_settlement_lines (fst p))" for l
    using that new assms(2) unfolding lines_belong_def by metis
  then have "lines_of (fst p') (st_id r) = []" by (simp add: p' lines_of_def filter_empty_conv)
  then show ?thesis by (simp add: p' paid_columns_def)
qed

lemma recompute_header_run:
  assumes "book_stmt (delete_lines i) p = (Inr u, p1)" and "book_stmt (settlement_recompute i r) p1 = (Inr v, p')"
    and "x \<in> set (bk_driver_settlements (fst p))" "st_id x = i" "st_trip_id x = st_trip_id r"
  shows "(\<exists>x\<in>set (bk_driver_settlements (fst p')). st_id x = i \<and> st_trip_id x = st_trip_id r \<and> paid_columns x = paid_columns r)
    \<and> lines_of (fst p') i = []"
proof -
  from assms(1) have p1: "fst p1 = (fst p)\<lparr>bk_settlement_lines := filter (\<lambda>l. sl_SettlementID l \<noteq> i) (bk_settlement_lines (fst p))\<rparr>"
    by (cases p) (auto simp: book_stmt_Inr delete_lines_def)
  define f where "f now x = x\<lparr>st_gross_fare := st_gross_fare r, st_commission_amount := st_commission_amount r,
           st_advances_kharcha := st_advances_kharcha r, st_deductions := st_deductions r,
           st_performance_bonus := st_performance_bonus r, st_tds_rate := st_tds_rate r, st_tds_amount := st_tds_amount r,
           st_net_payout := st_net_payout r, st_rate_model := st_rate_model r, st_rate_basis_json := st_rate_basis_json r,
           st_updated_at := now\<rparr>" for now and x :: settlement_row
  from assms(2) obtain now where p': "fst p' = (fst p1)\<lparr>bk_driver_settlements :=
      update_where (\<lambda>r. st_id r = i) (f now) (bk_driver_settlements (fst p1))\<rparr>"
    by (cases p1) (auto simp: book_stmt_Inr settlement_recompute_def f_def [abs_def] split: if_splits)
  have "lines_of (fst p') i = []" by (simp add: p' p1 lines_of_def)
  moreover have "f now x \<in> set (bk_driver_settlements (fst p'))"
    using assms(3,4) by (force simp: p' p1 set_update_where)
  moreover have "st_id (f now x) = i \<and> st_trip_id (f now x) = st_trip_id r \<and> paid_columns (f now x) = paid_columns r"
    using assms(4,5) by (simp add: f_def paid_columns_def)
  ultimately show ?thesis by blast
qed

lemma write_header_run:
  assumes "write_header force r p = (Inr (Some i), p')" and "lines_belong (fst p)"
  shows "(\<exists>x\<in>set (bk_driver_settlements (fst p')). st_id x = i \<and> st_trip_id x = st_trip_id r \<and> paid_columns x = paid_columns r)
    \<and> lines_of (fst p') i = []"
proof (cases force)
  case False
  obtain res p1 where "book_stmt (stamped settlement_insert r) p = (res, p1)" by (metis prod.exhaust)
  with False assms(1) have "book_stmt (stamped settlement_insert r) p = (Inr (), p')" "i = st_id r"
    by (cases res; simp add: write_header_def bindE_apply tryE_apply act_inv split: if_splits)+
  with insert_header_run [OF this(1) assms(2)] show ?thesis by simp
next
  case True
  let ?look = "book_query (\<lambda>now d s. one_row (map_option st_id (find (\<lambda>x. st_trip_id x = st_trip_id r) (bk_driver_settlements s))))"
  obtain old p1 where look: "?look p = (old, p1)" by (metis prod.exhaust)
  then have same: "fst p1 = fst p"
    by (auto simp: book_query_def book_stmt_def both_stmt_def Let_def split: prod.splits option.splits sum.splits)
  show ?thesis
  proof (cases old)
    case (Inl e)
    with True assms(1) look have "book_stmt (stamped settlement_insert r) p1 = (Inr (), p')" "i = st_id r"
      by (auto simp: write_header_def bindE_apply tryE_apply act_inv split: if_splits)
    with insert_header_run [OF this(1)] assms(2) same show ?thesis by simp
  next
    case (Inr oldID)
    with look have "\<exists>x\<in>set (bk_driver_settlements (fst p)). st_id x = oldID \<and> st_trip_id x = st_trip_id r"
      by (auto simp: book_query_Inr one_row_def split: option.splits dest!: find_SomeD)
    then obtain x where x: "x \<in> set (bk_driver_settlements (fst p1))" "st_id x = oldID" "st_trip_id x = st_trip_id r"
      unfolding same by blast
    from True assms(1) look Inr obtain p2 where "book_stmt (delete_lines oldID) p1 = (Inr (), p2)"
      "book_stmt (settlement_recompute oldID r) p2 = (Inr (), p')" "i = oldID"
      by (auto simp: write_header_def bindE_apply tryE_apply act_inv split: if_splits)
    with recompute_header_run [OF this(1,2) x] show ?thesis by simp
  qed
qed

lemma settlement_tx_run:
  assumes "settlement_tx force c p = (Inr (Commit i), p')" and "lines_belong (fst p)"
  shows "written (st_trip_id (cp_row c)) c (fst p')"
proof -
  from assms(1) obtain p1 where h: "write_header force (cp_row c) p = (Inr (Some i), p1)"
    and l: "insert_lines i (st_trip_id (cp_row c)) (cp_lines c i) p1 = (Inr (), p')"
    by (auto simp: settlement_tx_def bindE_Inr seqE_Inr ret_Inr split: option.splits)
  from insert_lines_run [OF l] obtain new where n: "bk_driver_settlements (fst p') = bk_driver_settlements (fst p1)"
    "bk_settlement_lines (fst p') = bk_settlement_lines (fst p1) @ new" "map line_core new = map line_core (cp_lines c i)"
    "\<forall>l\<in>set new. sl_SettlementID l = i" by blast
  from write_header_run [OF h assms(2)] n show ?thesis
    by (auto simp: written_def lines_of_def filter_empty_conv intro!: bexI)
qed

section \<open>The whole operation\<close>

lemma BeginTx_outcome:
  assumes "BeginTx a b body p = (r, p')"
  obtains (kept) "same_books (fst p) (fst p')"
    | (committed) x p1 where "r = Inr (Commit x)" "body (fst p, (snd p)\<lparr>w_nop := Suc (w_nop (snd p))\<rparr>) = (Inr (Commit x), p1)"
        "fst p' = fst p1"
proof -
  have "same_books (fst p) (fst (rolled_back (fst p, w) q))" for w q
    by (simp add: rolled_back_def same_books_update)
  then show ?thesis
    using assms that reads.B_refl [of "fst p"]
    by (cases p) (auto simp: BeginTx_def Let_def split: option.splits prod.splits sum.splits tx_end.splits)
qed

lemma keeps_publish_find: "reads.keeps (seqE (bus_publish ty x) (findByTripID t))"
  by (intro reads.account_intros reads.keeps_findByTripID)

lemma written_same: "same_books s s' \<Longrightarrow> written t c s \<Longrightarrow> written t c s'"
  by (simp add: written_def lines_of_def same_books_tables)

lemma lines_belong_same: "same_books s s' \<Longrightarrow> lines_belong s \<Longrightarrow> lines_belong s'"
  by (simp add: lines_belong_def same_books_tables)

lemma store_settlement_run:
  assumes run: "store_settlement force c p = (r, p')" and lb: "lines_belong (fst p)"
  shows "same_books (fst p) (fst p') \<or> written (st_trip_id (cp_row c)) c (fst p')"
proof -
  let ?t = "st_trip_id (cp_row c)"
  obtain now p1 where n: "in_world Now p = (Inr now, p1)" and p1: "fst p1 = fst p"
    by (cases p) (auto simp: in_world_def Now_def)
  obtain res p2 where tx: "BeginTx ''begin settlement tx'' ''commit settlement'' (settlement_tx force c) p1 = (res, p2)"
    by (metis prod.exhaust)
  have rest: "same_books (fst p2) (fst p')"
  proof -
    define K :: "('a, DriverSettlementRecord) book_act" where "K = (case res of Inl e \<Rightarrow> raise e | Inr (Rollback x) \<Rightarrow> findByTripID ?t
      | Inr (Commit sid) \<Rightarrow> seqE (bus_publish ''SettlementGenerated'' (generated_event sid (cp_row c) now)) (findByTripID ?t))"
    have "K p2 = (r, p')"
      using run n tx by (auto simp: K_def store_settlement_def bindE_apply raise_def split: sum.splits tx_end.splits)
    moreover have "reads.keeps K"
      by (auto simp: K_def split: sum.split tx_end.split intro: reads.keeps_raise reads.keeps_findByTripID keeps_publish_find)
    ultimately have "tables_rel same_books p2 p'" using reads.keepsD by blast
    then show ?thesis by (simp add: tables_rel_def)
  qed
  from tx show ?thesis
  proof (cases rule: BeginTx_outcome)
    case kept
    with rest p1 show ?thesis by (metis same_books_trans)
  next
    case (committed x q)
    with settlement_tx_run [OF committed(2)] lb p1 rest show ?thesis by (simp add: written_same)
  qed
qed

text \<open>A part that only reads, and what follows it.\<close>

lemma after_reading:
  assumes "bindE m f p = (r, p')" and "reads.keeps m"
  obtains (stops) "same_books (fst p) (fst p')" | (goes_on) x p1 where "m p = (Inr x, p1)" "same_books (fst p) (fst p1)" "f x p1 = (r, p')"
proof -
  obtain y p1 where "m p = (y, p1)" by (metis prod.exhaust)
  with reads.keepsD [OF assms(2) this] assms(1) that show ?thesis
    by (cases y) (auto simp: bindE_def tables_rel_def)
qed

lemma keeps_existing: "reads.keeps (if force then ret (Inl ErrSettlementNotFound) else tryE (findByTripID t))"
  by (intro reads.book_intros reads.keeps_findByTripID)

lemma generate_run:
  assumes run: "bindE (compute_settlement t dr b ro) (store_settlement force) p = (r, p')" and lb: "lines_belong (fst p)"
  shows "same_books (fst p) (fst p') \<or> (\<exists>c p1 p2. compute_settlement t dr b ro p1 = (Inr c, p2) \<and> same_books (fst p) (fst p1)
    \<and> written t c (fst p'))"
  using run reads.keeps_compute_settlement
proof (cases rule: after_reading)
  case (goes_on c p1)
  have "st_trip_id (cp_row c) = t"
    using goes_on(1) by (auto simp: compute_settlement_def Let_def act_inv split: prod.splits)
  with store_settlement_run [OF goes_on(3) lines_belong_same [OF goes_on(2) lb]] goes_on(1,2) reads.B_refl same_books_trans
  show ?thesis by metis
qed simp

text \<open>
  Property C12.  However the database fails during \<open>GenerateSettlement\<close>, and whether or not it is forced to
  recompute: afterwards the settlements and their lines are as before, or the trip has a header with
  the amounts that were computed on these books and exactly the lines that were computed with them, in
  order.  Never is there a header with some of its lines, or with lines of an earlier computation.
\<close>
theorem settlement_written_whole:
  assumes run: "GenerateSettlement t force p = (r, p')" and lb: "lines_belong (fst p)"
  shows "bk_driver_settlements (fst p') = bk_driver_settlements (fst p) \<and> bk_settlement_lines (fst p') = bk_settlement_lines (fst p)
    \<or> (\<exists>c dr b ro p1 p2. compute_settlement t dr b ro p1 = (Inr c, p2) \<and> same_books (fst p) (fst p1) \<and> written t c (fst p'))"
proof -
  have "same_books (fst p) (fst p') \<or> (\<exists>c dr b ro p1 p2. compute_settlement t dr b ro p1 = (Inr c, p2)
      \<and> same_books (fst p) (fst p1) \<and> written t c (fst p'))"
    using run [unfolded GenerateSettlement_def] reads.keeps_try [OF reads.keeps_book_query]
  proof (cases rule: after_reading)
    case first: (goes_on x p1)
    show ?thesis
    proof (cases "\<exists>trip. x = Inr trip \<and> str_or_empty (tw_driver_id trip) \<noteq> []")
      case False
      with first have "fst p' = fst p1" by (auto simp: raise_def split: sum.splits if_splits)
      with first(2) show ?thesis by simp
    next
      case True
      then obtain trip where tr: "x = Inr trip" "str_or_empty (tw_driver_id trip) \<noteq> []" by blast
      have "bindE (if force then ret (Inl ErrSettlementNotFound) else tryE (findByTripID t)) (\<lambda>existing.
           case existing of
             Inr rec \<Rightarrow> ret rec
           | Inl _ \<Rightarrow>
               bindE (compute_settlement t (str_or_empty (tw_driver_id trip)) (str_or_empty (tw_booking_id trip)) (tw_route_id trip))
               (store_settlement force)) p1 = (r, p')"
        using first(3) tr by simp
      then show ?thesis using keeps_existing
      proof (cases rule: after_reading)
        case stops
        with first(2) show ?thesis using same_books_trans by metis
      next
        case second: (goes_on y p2)
        have s2: "same_books (fst p) (fst p2)" using first(2) second(2) by (rule same_books_trans)
        show ?thesis
        proof (cases y)
          case (Inl e)
          with second(3) have "bindE (compute_settlement t (str_or_empty (tw_driver_id trip)) (str_or_empty (tw_booking_id trip))
            (tw_route_id trip)) (store_settlement force) p2 = (r, p')" by simp
          from generate_run [OF this lines_belong_same [OF s2 lb]] show ?thesis using s2 same_books_trans by metis
        next
          case (Inr rec)
          with second(3) s2 show ?thesis by (simp add: ret_def)
        qed
      qed
    qed
  qed simp
  then show ?thesis by (auto simp: same_books_tables)
qed

lemma demo_written: "bk_settlement_lines (fst (snd (GenerateSettlement ''tr1'' True demo_commission))) \<noteq> []"
  by code_simp

theorem settlement_written_whole_witness:
  "\<exists>c dr b ro p1 p2. compute_settlement ''tr1'' dr b ro p1 = (Inr c, p2) \<and> same_books demo_books (fst p1)
     \<and> written ''tr1'' c (fst (snd (GenerateSettlement ''tr1'' True demo_commission)))"
proof -
  have "lines_belong (fst demo_commission)" by (simp add: lines_belong_def demo_commission_def demo_tables)
  from settlement_written_whole [OF prod.collapse [symmetric] this, of "''tr1''" True] demo_written
  show ?thesis by (simp add: demo_commission_def demo_tables)
qed

end
