(* ===== verification/Fuel_Engine.thy ===== *)
theory Fuel_Engine
  imports Scorecard Ops_Alerts
begin

text \<open>
  The detection of fuel anomalies (\<open>internal/fuel/engine.go\<close>): a state per vehicle in memory, a
  pipeline that smooths the level, looks for refills, thefts, siphoning and abnormal drain, and
  compares odometers; the events it stores with an alert in one unit of work; and the sweep over the
  vehicles that report.
\<close>

section \<open>Data\<close>

text \<open>The columns of \<open>telemetry_snapshots\<close> and of \<open>vehicles\<close> that the engine reads.\<close>

record telemetry_row =
  tl_id :: string
  tl_trip_id :: "string option"
  tl_vehicle_id :: "string option"
  tl_driver_id :: "string option"
  tl_timestamp :: go_time
  tl_speed :: "float64 option"
  tl_fuel_level :: "float64 option"
  tl_odometer :: "float64 option"

record sensor_row =
  sv_vehicle_id :: string
  sv_fuel_sensor_fitted :: int
  sv_tank_capacity_litres :: "float64 option"

record snapshotRow =
  sp_id :: string
  sp_tripID :: string
  sp_vehicleID :: string
  sp_driverID :: string
  sp_ts :: go_time
  sp_speed :: float64
  sp_fuelLevel :: float64
  sp_odometer :: float64

record vehicleFuelState =
  vf_vehicleID :: string
  vf_sensorFitted :: bool
  vf_tankCapacity :: float64
  vf_unit :: string
  vf_window :: "float64 list"
  vf_pendingSpike :: float64
  vf_lastLevel :: float64
  vf_baselineLevel :: float64
  vf_lastOdometer :: float64
  vf_lastTs :: go_time
  vf_refillPending :: float64
  vf_stopStart :: go_time
  vf_tripID :: string
  vf_driverID :: string
  vf_tripActive :: bool

record engineConfig =
  en_medianWindow :: int
  en_spikeDeviationPct :: float64
  en_noiseFloorPct :: float64
  en_refillThresholdL :: float64
  en_theftThresholdL :: float64
  en_siphonThresholdL :: float64
  en_siphonStop :: int
  en_stopSpeedKmh :: float64
  en_odoToleranceKm :: float64
  en_abnormalLPerKm :: float64
  en_abnormalMarginPct :: float64
  en_levelUnit :: string
  en_gapTolerance :: int
  en_weightTheft :: float64
  en_weightOdoRollback :: float64

record behaviourEvent =
  bh_driverID :: string
  bh_eventType :: string
  bh_severity :: string
  bh_weight :: float64

record fuelEvent =
  fe_eventType :: string
  fe_estimated :: float64
  fe_confidence :: float64
  fe_before :: float64
  fe_after :: float64
  fe_odoBefore :: float64
  fe_severity :: string
  fe_behaviour :: "behaviourEvent option"

record vehicleMeta =
  me_sensorFitted :: bool
  me_tankCapacity :: float64

text \<open>
  The engine: the tables, its states, and the cache of settings of the scorecard, which keeps a
  reader of its own.
\<close>

record FuelEngine = books +
  fu_state :: "string \<Rightarrow> vehicleFuelState option"
  fu_sensors :: "sensor_row list"
  fu_snapshots :: "telemetry_row list"
  fu_score_cache :: "string \<Rightarrow> string option"
  fu_score_cacheAt :: go_time

type_synonym ('x, 'a) fuel_act = "('x FuelEngine_scheme, 'a) own_act"

text \<open>
  The driver of the database decides how the text of a time looks that is stored with a snapshot;
  the hooks are set at start.
\<close>

record 'x fuel_wiring =
  fw_time_text :: "go_time \<Rightarrow> string"
  fw_behaviourHook :: "(string \<Rightarrow> ('x, unit) fuel_act) option"
  fw_siphonHook :: "(string \<Rightarrow> string \<Rightarrow> string \<Rightarrow> float64 \<Rightarrow> int \<Rightarrow> ('x, unit) fuel_act) option"

definition maxSnapshotsPerSweep :: int where "maxSnapshotsPerSweep = 500"

section \<open>Numbers and names\<close>

definition toLitres :: "vehicleFuelState \<Rightarrow> float64 \<Rightarrow> float64" where
  "toLitres st level =
     (if vf_unit st = ''litres'' then level else fdivc (fmul level (vf_tankCapacity st)) 100)"

definition clampFuel :: "float64 \<Rightarrow> float64 \<Rightarrow> float64" where
  "clampFuel level capacity =
     (if flt level (Fin 0) then Fin 0 else if flt capacity level then capacity else level)"

definition median :: "float64 list \<Rightarrow> float64" where
  "median w = (if w = [] then NaN else sort w ! ((length w - 1) div 2))"

definition deviates :: "float64 \<Rightarrow> float64 \<Rightarrow> float64 \<Rightarrow> bool" where
  "deviates reading med pct \<longleftrightarrow>
     (if med = NaN then False
      else if flt med (rnd (1 / 10 ^ 9)) then flt (rnd (1 / 10 ^ 9)) reading
      else flt (fdivc pct 100) (fdiv (fabs (fsub reading med)) med))"

definition expectedBurn :: "float64 \<Rightarrow> snapshotRow \<Rightarrow> engineConfig \<Rightarrow> float64" where
  "expectedBurn odoBefore s cfg =
     (let odoDelta = (if positive (sp_odometer s) \<and> positive odoBefore then fsub (sp_odometer s) odoBefore else Fin 0) in
      fmul (fmul odoDelta (en_abnormalLPerKm cfg)) (fadd (Fin 1) (fdivc (en_abnormalMarginPct cfg) 100)))"

definition ActiveTripStatuses :: "string list" where
  "ActiveTripStatuses = [''scheduled'', ''assigned'', ''started'', ''in_transit'', ''delivered'']"

definition isActiveTripStatus :: "string \<Rightarrow> bool" where
  "isActiveTripStatus status \<longleftrightarrow> status \<in> set ActiveTripStatuses"

definition alertPriority :: "string \<Rightarrow> string" where
  "alertPriority severity =
     (if severity = ''critical'' then ''CRITICAL'' else if severity = ''high'' then ''HIGH''
      else if severity = ''medium'' then ''MEDIUM'' else ''LOW'')"

definition alertTitle :: "string \<Rightarrow> string" where
  "alertTitle eventType =
     (if eventType = ''refill_detected'' then ''Fuel refill detected''
      else if eventType = ''drain_theft_suspected'' then ''Suspected fuel theft/drain''
      else if eventType = ''abnormal_drain'' then ''Abnormal fuel drain''
      else if eventType = ''siphon_confirmed'' then ''Fuel siphon confirmed''
      else if eventType = ''odometer_rollback'' then ''Odometer rollback''
      else eventType)"

definition event_details :: "fuelEvent \<Rightarrow> string" where
  "event_details ev =
     ''{\"before\":'' @ fmt_fixed 2 (fe_before ev) @ '',\"after\":'' @ fmt_fixed 2 (fe_after ev)
       @ '',\"est_litres\":'' @ fmt_fixed 2 (fe_estimated ev) @ '',\"confidence\":'' @ fmt_fixed 2 (fe_confidence ev) @ ''}''"

text \<open>\<open>d.Minutes()\<close>\<close>

definition Duration_Minutes :: "int \<Rightarrow> float64" where
  "Duration_Minutes d =
     (let m = 60 * 10 ^ 9 in
      fadd (float_of_int64 (sgn d * (\<bar>d\<bar> div m))) (fdivc (float_of_int64 (sgn d * (\<bar>d\<bar> mod m))) (60 * 10 ^ 9)))"

section \<open>Settings\<close>

definition ConfigTickIntervalSeconds :: string where "ConfigTickIntervalSeconds = ''fuel.tick_interval_seconds''"
definition DefaultTickInterval :: int where "DefaultTickInterval = 30 * 10 ^ 9"

definition fuel_GetDurationSeconds :: "TenantID \<Rightarrow> string \<Rightarrow> int \<Rightarrow> ('x, int) config_act" where
  "fuel_GetDurationSeconds t key def = getDuration t key def (10 ^ 9)"

definition fuel_tenant :: TenantID where "fuel_tenant = ''1''"

definition fuel_loadConfig :: "('x, engineConfig) book_act" where
  "fuel_loadConfig =
     bindE (in_world getEnv) (\<lambda>env.
     let t = fuel_tenant;
         float_set = (\<lambda>key accept def. setting (fuel_GetFloat t key def) accept def id) in
     bindE (setting (fuel_GetFloat t ConfigMedianWindow (float_of_int64 DefaultMedianWindow)) positive DefaultMedianWindow
       (int64_of_float (env_oor env))) (\<lambda>medianWindow.
     bindE (float_set ConfigSpikeDeviationPct positive DefaultSpikeDeviationPct) (\<lambda>spike.
     bindE (float_set ConfigNoiseFloorPct nonneg DefaultNoiseFloorPct) (\<lambda>noise.
     bindE (float_set ConfigRefillThresholdL positive DefaultRefillThresholdL) (\<lambda>refill.
     bindE (float_set ConfigTheftDropThresholdL positive DefaultTheftDropThresholdL) (\<lambda>theft.
     bindE (float_set ConfigSiphonDropThresholdL positive DefaultSiphonDropThresholdL) (\<lambda>siphon.
     bindE (setting (GetDurationMinutes t ConfigSiphonStopMinutes DefaultSiphonStopMinutes) (\<lambda>v. 0 < v)
       DefaultSiphonStopMinutes id) (\<lambda>siphonStop.
     bindE (float_set ConfigStopSpeedKmh nonneg DefaultStopSpeedKmh) (\<lambda>stopSpeed.
     bindE (float_set ConfigOdometerToleranceKm nonneg DefaultOdometerToleranceKm) (\<lambda>tolerance.
     bindE (float_set ConfigAbnormalDrainLPerKm nonneg DefaultAbnormalDrainLPerKm) (\<lambda>perKm.
     bindE (float_set ConfigAbnormalDrainMargin nonneg DefaultAbnormalDrainMargin) (\<lambda>margin.
     bindE (float_set ConfigWeightTheft nonneg DefaultWeightTheft) (\<lambda>weightTheft.
     bindE (float_set ConfigWeightOdoRollback nonneg DefaultWeightOdoRollback) (\<lambda>weightOdo.
     bindE (setting (fuel_Get t ConfigLevelUnit) (\<lambda>v. v \<noteq> []) ''percent'' id) (\<lambda>unit.
     bindE (setting (GetDurationMinutes t ConfigGapToleranceMinutes DefaultGapTolerance) (\<lambda>v. 0 < v)
       DefaultGapTolerance id) (\<lambda>gap.
     ret \<lparr>en_medianWindow = medianWindow, en_spikeDeviationPct = spike, en_noiseFloorPct = noise,
       en_refillThresholdL = refill, en_theftThresholdL = theft, en_siphonThresholdL = siphon, en_siphonStop = siphonStop,
       en_stopSpeedKmh = stopSpeed, en_odoToleranceKm = tolerance, en_abnormalLPerKm = perKm,
       en_abnormalMarginPct = margin, en_levelUnit = unit, en_gapTolerance = gap, en_weightTheft = weightTheft,
       en_weightOdoRollback = weightOdo\<rparr>))))))))))))))))"

section \<open>Reading the tables\<close>

text \<open>\<open>timestamp > ?\<close> compares the stored text with \<open>timeStr\<close> of the bound time.\<close>

definition later_text :: "'x fuel_wiring \<Rightarrow> go_time \<Rightarrow> telemetry_row \<Rightarrow> bool" where
  "later_text wr after r \<longleftrightarrow> timeStr after < fw_time_text wr (tl_timestamp r)"

definition stored_text :: "'x fuel_wiring \<Rightarrow> telemetry_row \<Rightarrow> string" where
  "stored_text wr r = fw_time_text wr (tl_timestamp r)"

definition of_vehicle :: "string \<Rightarrow> telemetry_row \<Rightarrow> bool" where
  "of_vehicle v r \<longleftrightarrow> tl_vehicle_id r = Some v"

definition or_zero :: "float64 option \<Rightarrow> float64" where
  "or_zero x = (case x of None \<Rightarrow> Fin 0 | Some y \<Rightarrow> y)"

definition scan_snapshot :: "telemetry_row \<Rightarrow> snapshotRow" where
  "scan_snapshot r =
     \<lparr>sp_id = tl_id r, sp_tripID = str_or_empty (tl_trip_id r), sp_vehicleID = str_or_empty (tl_vehicle_id r),
      sp_driverID = str_or_empty (tl_driver_id r), sp_ts = tl_timestamp r, sp_speed = or_zero (tl_speed r),
      sp_fuelLevel = or_zero (tl_fuel_level r), sp_odometer = or_zero (tl_odometer r)\<rparr>"

definition fuel_activeVehicles :: "'x fuel_wiring \<Rightarrow> engineConfig \<Rightarrow> ('x, string list) fuel_act" where
  "fuel_activeVehicles wr cfg =
     bindE (in_world Now) (\<lambda>now.
     book_query (\<lambda>t d e. Inr (sort (remdups (map (\<lambda>r. str_or_empty (tl_vehicle_id r))
       (filter (\<lambda>r. str_or_empty (tl_vehicle_id r) \<noteq> [] \<and> later_text wr (now - en_gapTolerance cfg) r)
         (fu_snapshots e)))))))"

definition vehicleMeta_of :: "sensor_row list \<Rightarrow> string \<Rightarrow> vehicleMeta" where
  "vehicleMeta_of rows v =
     (case find (\<lambda>r. sv_vehicle_id r = v) rows of
        None \<Rightarrow> \<lparr>me_sensorFitted = False, me_tankCapacity = Fin 0\<rparr>
      | Some r \<Rightarrow> \<lparr>me_sensorFitted = (sv_fuel_sensor_fitted r \<noteq> 0), me_tankCapacity = or_zero (sv_tank_capacity_litres r)\<rparr>)"

definition query_vehicleMeta :: "string \<Rightarrow> ('x, vehicleMeta) fuel_act" where
  "query_vehicleMeta v =
     bindE (tryE (book_query (\<lambda>t d e.
       if v \<in> vw_id ` set (db_vehicles d) then Inr (vehicleMeta_of (fu_sensors e) v) else Inl ErrNoRows))) (\<lambda>r.
     case r of Inl err \<Rightarrow> raise (WrapError (''fuel: vehicle '' @ v) err) | Inr m \<Rightarrow> ret m)"

text \<open>The newest \<open>n\<close>, turned round.\<close>

definition recent_snapshots :: "'x fuel_wiring \<Rightarrow> string \<Rightarrow> int \<Rightarrow> telemetry_row list \<Rightarrow> snapshotRow list" where
  "recent_snapshots wr v n rows =
     map scan_snapshot (rev (sql_page n 0 (rev (sort_key (stored_text wr) (rev (filter (of_vehicle v) rows))))))"

definition loadRecent :: "'x fuel_wiring \<Rightarrow> string \<Rightarrow> int \<Rightarrow> ('x, snapshotRow list) fuel_act" where
  "loadRecent wr v n = book_query (\<lambda>t d e. Inr (recent_snapshots wr v n (fu_snapshots e)))"

definition later_snapshots :: "'x fuel_wiring \<Rightarrow> string \<Rightarrow> go_time \<Rightarrow> telemetry_row list \<Rightarrow> snapshotRow list" where
  "later_snapshots wr v after rows =
     map scan_snapshot (sql_page maxSnapshotsPerSweep 0
       (sort_key (stored_text wr) (filter (\<lambda>r. of_vehicle v r \<and> later_text wr after r) rows)))"

definition loadAfter :: "'x fuel_wiring \<Rightarrow> string \<Rightarrow> go_time \<Rightarrow> ('x, snapshotRow list) fuel_act" where
  "loadAfter wr v after =
     (if time_IsZero after then ret []
      else book_query (\<lambda>t d e. Inr (later_snapshots wr v after (fu_snapshots e))))"

definition query_tripStatus :: "string \<Rightarrow> ('x, string \<times> string) fuel_act" where
  "query_tripStatus tripID =
     (if tripID = [] then ret ([], [])
      else bindE (tryE (book_query (\<lambda>t d e. one_row (find (\<lambda>r. tw_id r = tripID) (db_trips d))))) (\<lambda>r.
        ret (case r of Inl _ \<Rightarrow> ([], []) | Inr x \<Rightarrow> (tw_status x, str_or_empty (tw_driver_id x)))))"

section \<open>One snapshot\<close>

text \<open>The trip a snapshot belongs to; the end of a trip resets the accumulator and the baseline.\<close>

definition enter_trip :: "snapshotRow \<Rightarrow> string \<Rightarrow> string \<Rightarrow> vehicleFuelState \<Rightarrow> vehicleFuelState" where
  "enter_trip s status tripDriver st =
     (let tripActive = (sp_tripID s = [] \<or> isActiveTripStatus status);
          st1 = (if vf_tripActive st \<and> \<not> tripActive \<and> vf_tripID st = sp_tripID s
                 then st\<lparr>vf_refillPending := Fin 0, vf_baselineLevel := vf_lastLevel st\<rparr> else st) in
      st1\<lparr>vf_tripID := sp_tripID s,
        vf_driverID := (if sp_driverID s \<noteq> [] then sp_driverID s else if tripDriver \<noteq> [] then tripDriver
                        else vf_driverID st1),
        vf_tripActive := tripActive\<rparr>)"

text \<open>A gap in the telemetry resets the smoothing; then the watermark moves on.\<close>

definition pass_time :: "bool \<Rightarrow> engineConfig \<Rightarrow> snapshotRow \<Rightarrow> vehicleFuelState \<Rightarrow> vehicleFuelState" where
  "pass_time warmup cfg s st =
     (let st1 = (if \<not> warmup \<and> \<not> time_IsZero (vf_lastTs st) \<and> en_gapTolerance cfg < time_Sub (sp_ts s) (vf_lastTs st)
                 then st\<lparr>vf_window := [], vf_baselineLevel := vf_lastLevel st, vf_stopStart := 0\<rparr> else st) in
      if vf_lastTs st1 < sp_ts s then st1\<lparr>vf_lastTs := sp_ts s\<rparr> else st1)"

definition is_stationary :: "engineConfig \<Rightarrow> snapshotRow \<Rightarrow> bool" where
  "is_stationary cfg s \<longleftrightarrow> flt (fabs (sp_speed s)) (en_stopSpeedKmh cfg)"

definition theft_behaviour :: "engineConfig \<Rightarrow> behaviourEvent" where
  "theft_behaviour cfg = \<lparr>bh_driverID = [], bh_eventType = ''fuel_theft_suspicion'', bh_severity = ''high'',
     bh_weight = en_weightTheft cfg\<rparr>"

definition detect ::
  "vehicleFuelState \<Rightarrow> snapshotRow \<Rightarrow> engineConfig \<Rightarrow> float64 \<Rightarrow> float64 \<Rightarrow> float64 \<Rightarrow> string \<Rightarrow> float64
     \<Rightarrow> fuelEvent list \<times> vehicleFuelState" where
  "detect st0 s cfg smoothed delta noise tripStatus odoBefore =
     (let stationary = is_stationary cfg s;
          st = st0\<lparr>vf_stopStart := (if stationary then (if time_IsZero (vf_stopStart st0) then sp_ts s else vf_stopStart st0)
                                   else 0)\<rparr>;
          stoppedFor = (if stationary then time_Sub (sp_ts s) (vf_stopStart st) else 0);
          base = vf_baselineLevel st;
          drop = fsub base smoothed; jump = fsub smoothed base;
          ev = (\<lambda>ty est conf sev b. \<lparr>fe_eventType = ty, fe_estimated = est, fe_confidence = conf, fe_before = base,
            fe_after = smoothed, fe_odoBefore = odoBefore, fe_severity = sev, fe_behaviour = b\<rparr>);
          rebased = st\<lparr>vf_baselineLevel := smoothed\<rparr> in
      if stationary \<and> vf_tripActive st \<and> \<not> time_IsZero (vf_stopStart st) \<and> en_siphonStop cfg \<le> stoppedFor
        \<and> fle (en_siphonThresholdL cfg) drop
      then ([ev ''siphon_confirmed'' drop (Fin 1) ''critical'' (Some (theft_behaviour cfg))], rebased)
      else if stationary \<and> vf_tripActive st \<and> fle (en_theftThresholdL cfg) drop
      then ([ev ''drain_theft_suspected'' drop (Fin 1) ''high'' (Some (theft_behaviour cfg))], rebased)
      else if \<not> stationary \<and> vf_tripActive st \<and> tripStatus = ''in_transit'' \<and> fle (expectedBurn odoBefore s cfg) drop
      then ([ev ''abnormal_drain'' drop (rnd (9 / 10)) ''medium'' None], rebased)
      else if fle (en_refillThresholdL cfg) jump
      then ([ev ''refill_detected'' jump (Fin 1) ''low'' None],
            rebased\<lparr>vf_refillPending := fadd (vf_refillPending st) jump\<rparr>)
      else ([], if \<not> stationary \<or> flt (fabs delta) noise then rebased else st))"

text \<open>\<open>w[len(w)-n:]\<close> when \<open>w\<close> is longer than \<open>n\<close>; a negative \<open>n\<close> is out of bounds.\<close>

definition last_readings :: "int \<Rightarrow> float64 list \<Rightarrow> float64 list option" where
  "last_readings n w =
     (if int (length w) \<le> n then Some w else if n < 0 then None else Some (drop (length w - nat n) w))"

text \<open>What follows the odometer: \<open>None\<close> is a panic.\<close>

definition read_level ::
  "engineConfig \<Rightarrow> snapshotRow \<Rightarrow> string \<Rightarrow> float64 \<Rightarrow> vehicleFuelState \<Rightarrow> (fuelEvent list \<times> vehicleFuelState) option" where
  "read_level cfg s tripStatus odoBefore st =
     (if \<not> vf_sensorFitted st \<or> fle (vf_tankCapacity st) (Fin 0) then Some ([], st)
      else (let litres = toLitres st (clampFuel (sp_fuelLevel s) (vf_tankCapacity st)) in
        if vf_lastLevel st = NaN then
          map_option (\<lambda>w. ([], st\<lparr>vf_window := w, vf_lastLevel := litres, vf_baselineLevel := litres,
            vf_stopStart := (if is_stationary cfg s then sp_ts s else vf_stopStart st)\<rparr>))
            (last_readings (en_medianWindow cfg) (vf_window st @ [litres]))
        else if vf_pendingSpike st = NaN \<and> vf_window st \<noteq> []
          \<and> deviates litres (median (vf_window st)) (en_spikeDeviationPct cfg) then
          Some ([], st\<lparr>vf_pendingSpike := litres\<rparr>)
        else (let w0 = (if vf_pendingSpike st = NaN then vf_window st else vf_window st @ [vf_pendingSpike st]) in
          map_option (\<lambda>w.
            (let smoothed = median w;
                 delta = fsub smoothed (vf_lastLevel st);
                 noise = fdivc (fmul (vf_tankCapacity st) (en_noiseFloorPct cfg)) 100;
                 (events, st2) = detect (st\<lparr>vf_window := w, vf_pendingSpike := NaN\<rparr>) s cfg smoothed delta noise
                   tripStatus odoBefore in
             (events, st2\<lparr>vf_lastLevel := smoothed\<rparr>)))
            (last_readings (en_medianWindow cfg) (w0 @ [litres])))))"

section \<open>Storing events\<close>

definition fuel_event_types :: "string list" where
  "fuel_event_types = [''refill_detected'', ''drain_theft_suspected'', ''abnormal_drain'', ''siphon_confirmed'',
     ''odometer_rollback'']"

definition fuel_event_insert :: "fuel_event_row \<Rightarrow> ('x, unit) book_sql" where
  "fuel_event_insert r fk now d s =
     (if fv_event_type r \<notin> set fuel_event_types then Inl (ErrConstraint CheckConstraint ''fuel_events'')
      else if fv_id r \<in> fv_id ` set (bk_fuel_events s) then Inl (ErrConstraint UniqueConstraint ''fuel_events.id'')
      else if fk_missing fk (Some (fv_vehicle_id r)) (map vw_id (db_vehicles d))
        \<or> fk_missing fk (fv_trip_id r) (map tw_id (db_trips d)) \<or> fk_missing fk (fv_driver_id r) (map dw_id (db_drivers d))
      then Inl (ErrConstraint ForeignKeyConstraint ''fuel_events'')
      else Inr ((), s\<lparr>bk_fuel_events := bk_fuel_events s @ [r]\<rparr>))"

definition fuel_row :: "string \<Rightarrow> vehicleFuelState \<Rightarrow> snapshotRow \<Rightarrow> fuelEvent \<Rightarrow> fuel_event_row" where
  "fuel_row i st s ev =
     \<lparr>fv_id = i, fv_vehicle_id = sp_vehicleID s, fv_trip_id = orNull (sp_tripID s),
      fv_driver_id = orNull (vf_driverID st), fv_event_type = fe_eventType ev, fv_before = fe_before ev,
      fv_after = fe_after ev, fv_odometer_before = fe_odoBefore ev, fv_odometer_after = sp_odometer s,
      fv_estimated_litres = fe_estimated ev, fv_confidence = fe_confidence ev, fv_details = event_details ev,
      fv_occurred_at = trunc_second (sp_ts s)\<rparr>"

definition insertFuelEvent :: "vehicleFuelState \<Rightarrow> snapshotRow \<Rightarrow> fuelEvent \<Rightarrow> ('x, unit) book_act" where
  "insertFuelEvent st s ev =
     bindE (in_world GenerateUUID) (\<lambda>i. book_stmt (fuel_event_insert (fuel_row i st s ev)))"

definition behaviour_driver :: "vehicleFuelState \<Rightarrow> behaviourEvent \<Rightarrow> string" where
  "behaviour_driver st b = (if bh_driverID b = [] then vf_driverID st else bh_driverID b)"

definition insertBehaviour :: "vehicleFuelState \<Rightarrow> snapshotRow \<Rightarrow> behaviourEvent \<Rightarrow> ('x, unit) book_act" where
  "insertBehaviour st s b =
     (if behaviour_driver st b = [] then ret ()
      else bindE (in_world GenerateUUID) (\<lambda>i.
        book_stmt (behaviour_insert \<lparr>be_id = i, be_driver_id = behaviour_driver st b, be_trip_id = orNull (sp_tripID s),
          be_vehicle_id = Some (sp_vehicleID s), be_event_type = bh_eventType b, be_severity = bh_severity b,
          be_weight = bh_weight b, be_metadata = MetaText \<lparr>bm_Resolved = False, bm_ResolvedBy = [], bm_ResolvedAt = []\<rparr>,
          be_occurred_at = trunc_second (sp_ts s)\<rparr>)))"

definition alert_metadata :: "vehicleFuelState \<Rightarrow> snapshotRow \<Rightarrow> fuelEvent \<Rightarrow> json" where
  "alert_metadata st s ev = JObject
     [(''driver_id'', JString (vf_driverID st)), (''estimated_litres'', JNumber (fe_estimated ev)),
      (''event_type'', JString (fe_eventType ev)), (''fuel_after'', JNumber (fe_after ev)),
      (''fuel_before'', JNumber (fe_before ev)), (''odometer_after'', JNumber (sp_odometer s)),
      (''odometer_before'', JNumber (vf_lastOdometer st)), (''trip_id'', JString (sp_tripID s)),
      (''vehicle_id'', JString (sp_vehicleID s))]"

definition buildAlert :: "vehicleFuelState \<Rightarrow> snapshotRow \<Rightarrow> fuelEvent \<Rightarrow> ('x, domain_event) book_act" where
  "buildAlert st s ev =
     bindE (in_world GenerateUUID) (\<lambda>i.
     ret (OtherEvent (''transport-app/internal/founder/alerts'', ''AlertEvent'') (JObject
       [(''id'', JString i), (''category'', JString ''FUEL''), (''priority'', JString (alertPriority (fe_severity ev))),
        (''title'', JString (alertTitle (fe_eventType ev))),
        (''summary'', JString (alertTitle (fe_eventType ev) @ '' on vehicle '' @ sp_vehicleID s @ '' (est. ''
           @ fmt_fixed 1 (fe_estimated ev) @ '' L)'')),
        (''company_id'', JString fuel_tenant), (''metadata'', alert_metadata st s ev), (''timestamp'', JTime (sp_ts s))])))"

text \<open>The events of one snapshot, with their behaviour rows; the drivers concerned and the alerts.\<close>

primrec write_events ::
  "vehicleFuelState \<Rightarrow> snapshotRow \<Rightarrow> fuelEvent list \<Rightarrow> string list \<Rightarrow> domain_event list
     \<Rightarrow> ('x, string list \<times> domain_event list) book_act" where
  "write_events st s [] drivers alerts = ret (drivers, alerts)"
| "write_events st s (ev # evs) drivers alerts =
     seqE (insertFuelEvent st s ev)
    (seqE (case fe_behaviour ev of None \<Rightarrow> ret () | Some b \<Rightarrow> insertBehaviour st s b)
     (bindE (buildAlert st s ev) (\<lambda>a.
      write_events st s evs
        (case fe_behaviour ev of
           None \<Rightarrow> drivers
         | Some b \<Rightarrow> (let d = behaviour_driver st b in if d = [] \<or> d \<in> set drivers then drivers else drivers @ [d]))
        (alerts @ [a]))))"

definition store_events :: "vehicleFuelState \<Rightarrow> snapshotRow \<Rightarrow> fuelEvent list \<Rightarrow> ('x, string list) book_act" where
  "store_events st s events =
     book_uow
       (bindE (write_events st s events [] []) (\<lambda>(drivers, alerts).
        seqE (in_world (OutboxWriter_SaveEvents (sp_vehicleID s) ''Vehicle'' alerts)) (ret drivers)))"

definition run_behaviourHook :: "'x fuel_wiring \<Rightarrow> string \<Rightarrow> ('x, unit) fuel_act" where
  "run_behaviourHook wr d = (case fw_behaviourHook wr of None \<Rightarrow> ret () | Some h \<Rightarrow> ignore_error (h d))"

definition run_siphonHook :: "'x fuel_wiring \<Rightarrow> engineConfig \<Rightarrow> vehicleFuelState \<Rightarrow> snapshotRow \<Rightarrow> fuelEvent \<Rightarrow> ('x, unit) fuel_act" where
  "run_siphonHook wr cfg st s ev =
     (case fw_siphonHook wr of
        None \<Rightarrow> ret ()
      | Some h \<Rightarrow>
          if fe_eventType ev \<noteq> ''siphon_confirmed'' then ret ()
          else bindE (in_world getEnv) (\<lambda>env.
            ignore_error (h (sp_vehicleID s) (sp_tripID s) (vf_driverID st) (fe_estimated ev)
              (int64_of_float (env_oor env) (Duration_Minutes (en_siphonStop cfg))))))"

definition rollback_event :: "vehicleFuelState \<Rightarrow> snapshotRow \<Rightarrow> engineConfig \<Rightarrow> fuelEvent" where
  "rollback_event st s cfg =
     \<lparr>fe_eventType = ''odometer_rollback'', fe_estimated = fsub (vf_lastOdometer st) (sp_odometer s), fe_confidence = Fin 1,
      fe_before = vf_lastOdometer st, fe_after = sp_odometer s, fe_odoBefore = vf_lastOdometer st, fe_severity = ''high'',
      fe_behaviour = Some \<lparr>bh_driverID = [], bh_eventType = ''odometer_rollback'', bh_severity = ''high'',
        bh_weight = en_weightOdoRollback cfg\<rparr>\<rparr>"

definition odo_rolled_back :: "vehicleFuelState \<Rightarrow> snapshotRow \<Rightarrow> engineConfig \<Rightarrow> bool" where
  "odo_rolled_back st s cfg \<longleftrightarrow>
     positive (vf_lastOdometer st) \<and> flt (sp_odometer s) (fsub (vf_lastOdometer st) (en_odoToleranceKm cfg))"

definition odoRollback ::
  "'x fuel_wiring \<Rightarrow> vehicleFuelState \<Rightarrow> snapshotRow \<Rightarrow> engineConfig \<Rightarrow> ('x, vehicleFuelState) fuel_act" where
  "odoRollback wr st s cfg =
     (if fle (sp_odometer s) (Fin 0) then ret st
      else seqE (if odo_rolled_back st s cfg
                 then bindE (store_events st s [rollback_event st s cfg]) (\<lambda>drivers. forE drivers (run_behaviourHook wr))
                 else ret ())
        (ret (st\<lparr>vf_lastOdometer := sp_odometer s\<rparr>)))"

section \<open>The sweep\<close>

definition put_state :: "string \<Rightarrow> vehicleFuelState \<Rightarrow> ('x, unit) fuel_act" where
  "put_state v st = modify_own (\<lambda>e. e\<lparr>fu_state := (fu_state e)(v := Some st)\<rparr>)"

text \<open>A panic of the code.\<close>

definition slice_bounds :: goerr where
  "slice_bounds = ErrDriver ''runtime error: slice bounds out of range''"

text \<open>The state of the vehicle changes as the pipeline goes, whether or not what follows succeeds.\<close>

definition pipeline ::
  "'x fuel_wiring \<Rightarrow> engineConfig \<Rightarrow> bool \<Rightarrow> string \<Rightarrow> vehicleFuelState \<Rightarrow> snapshotRow \<Rightarrow> ('x, vehicleFuelState) fuel_act" where
  "pipeline wr cfg warmup v st s =
     bindE (query_tripStatus (sp_tripID s)) (\<lambda>(status, tripDriver).
     let st1 = pass_time warmup cfg s (enter_trip s status tripDriver st); odoBefore = vf_lastOdometer st in
     seqE (put_state v st1)
     (bindE (odoRollback wr st1 s cfg) (\<lambda>st2.
      seqE (put_state v st2)
      (case read_level cfg s status odoBefore st2 of
         None \<Rightarrow> raise slice_bounds
       | Some (events, st3) \<Rightarrow>
           seqE (put_state v st3)
           (if events = [] then ret st3
            else bindE (store_events st3 s events) (\<lambda>drivers.
              seqE (forE drivers (run_behaviourHook wr))
              (seqE (forE events (run_siphonHook wr cfg st3 s)) (ret st3))))))))"

primrec feed ::
  "'x fuel_wiring \<Rightarrow> engineConfig \<Rightarrow> bool \<Rightarrow> string \<Rightarrow> vehicleFuelState \<Rightarrow> snapshotRow list \<Rightarrow> ('x, unit) fuel_act" where
  "feed wr cfg warmup v st [] = ret ()"
| "feed wr cfg warmup v st (s # ss) = bindE (pipeline wr cfg warmup v st s) (\<lambda>st. feed wr cfg warmup v st ss)"

definition new_state :: "string \<Rightarrow> vehicleMeta \<Rightarrow> engineConfig \<Rightarrow> vehicleFuelState" where
  "new_state v m cfg =
     \<lparr>vf_vehicleID = v, vf_sensorFitted = me_sensorFitted m, vf_tankCapacity = me_tankCapacity m,
      vf_unit = en_levelUnit cfg, vf_window = [], vf_pendingSpike = NaN, vf_lastLevel = NaN, vf_baselineLevel = NaN,
      vf_lastOdometer = Fin 0, vf_lastTs = 0, vf_refillPending = Fin 0, vf_stopStart = 0, vf_tripID = [],
      vf_driverID = [], vf_tripActive = False\<rparr>"

definition processVehicle :: "'x fuel_wiring \<Rightarrow> engineConfig \<Rightarrow> string \<Rightarrow> ('x, int) fuel_act" where
  "processVehicle wr cfg v =
     bindE (query_vehicleMeta v) (\<lambda>m.
     bindE get_own (\<lambda>e.
     case fu_state e v of
       None \<Rightarrow>
         (let st = new_state v m cfg in
          seqE (put_state v st)
          (bindE (loadRecent wr v (en_medianWindow cfg)) (\<lambda>warm.
           seqE (feed wr cfg True v st warm) (ret (int (length warm))))))
     | Some st \<Rightarrow>
         bindE (loadAfter wr v (vf_lastTs st)) (\<lambda>next.
         seqE (feed wr cfg False v st next) (ret (int (length next))))))"

primrec fuel_sweep :: "'x fuel_wiring \<Rightarrow> engineConfig \<Rightarrow> string list \<Rightarrow> int \<Rightarrow> ('x, int) fuel_act" where
  "fuel_sweep wr cfg [] count = ret count"
| "fuel_sweep wr cfg (v # vs) count =
     bindE (tryE (processVehicle wr cfg v)) (\<lambda>r.
     case r of
       Inl err \<Rightarrow> raise (WrapError (''fuel: vehicle '' @ v) err)
     | Inr processed \<Rightarrow> fuel_sweep wr cfg vs (count + processed))"

text \<open>The number of snapshots; the number that comes with an error is read by nobody.\<close>

definition fuel_Tick :: "'x fuel_wiring \<Rightarrow> ('x, int) fuel_act" where
  "fuel_Tick wr =
     bindE (tryE fuel_loadConfig) (\<lambda>r.
     case r of
       Inl err \<Rightarrow> raise (WrapError ''fuel: load config'' err)
     | Inr cfg \<Rightarrow>
         bindE (tryE (fuel_activeVehicles wr cfg)) (\<lambda>r.
         case r of
           Inl err \<Rightarrow> raise (WrapError ''fuel: active vehicles'' err)
         | Inr vehicles \<Rightarrow> fuel_sweep wr cfg vehicles 0))"

text \<open>The loop runs a sweep at once and one per tick until the context ends: \<open>n\<close> ticks.\<close>

primrec fuel_ticks :: "'x fuel_wiring \<Rightarrow> nat \<Rightarrow> ('x, unit) fuel_act" where
  "fuel_ticks wr 0 = ret ()"
| "fuel_ticks wr (Suc n) = seqE (ignore_error (fuel_Tick wr)) (fuel_ticks wr n)"

definition fuel_Run :: "'x fuel_wiring \<Rightarrow> nat \<Rightarrow> ('x, unit) fuel_act" where
  "fuel_Run wr n =
     seqE (ignore_error (fuel_GetDurationSeconds fuel_tenant ConfigTickIntervalSeconds DefaultTickInterval))
       (fuel_ticks wr (Suc n))"

section \<open>The hooks of the server\<close>

text \<open>The scorecard reads its settings through its own cache.\<close>

definition with_score_reader :: "('x, 'a) fuel_act \<Rightarrow> ('x, 'a) fuel_act" where
  "with_score_reader m = (\<lambda>(e, w).
     case m (e\<lparr>cr_cache := fu_score_cache e, cr_cacheAt := fu_score_cacheAt e\<rparr>, w) of
       (r, (e1, w1)) \<Rightarrow>
         (r, (e1\<lparr>cr_cache := cr_cache e, cr_cacheAt := cr_cacheAt e, fu_score_cache := cr_cache e1,
                fu_score_cacheAt := cr_cacheAt e1\<rparr>, w1)))"

definition main_behaviourHook :: "string \<Rightarrow> ('x, unit) fuel_act" where
  "main_behaviourHook driverID = ignore_error (with_score_reader (RecomputeDriverScore driverID))"

definition OpsAlertFuelTheftConfirmed :: string where "OpsAlertFuelTheftConfirmed = ''fuel_theft_confirmed''"

definition main_siphonHook :: "string \<Rightarrow> string \<Rightarrow> string \<Rightarrow> float64 \<Rightarrow> int \<Rightarrow> ('x, unit) fuel_act" where
  "main_siphonHook vehicleID tripID driverID amount stopMinutes =
     ignore_error (CreateAlert
       \<lparr>oa_ID = [], oa_TenantID = ''1'', oa_AlertType = OpsAlertFuelTheftConfirmed, oa_Severity = OpsAlertSeverityCritical,
        oa_Title = ''Fuel siphoning confirmed'',
        oa_Description = ''Vehicle '' @ vehicleID @ '' lost '' @ fmt_fixed 1 amount @ ''L during '' @ itoa stopMinutes @ '' min stop'',
        oa_EntityType = Some ''vehicle'', oa_EntityID = Some vehicleID, oa_Status = [], oa_AcknowledgedBy = None,
        oa_AcknowledgedAt = None, oa_ResolvedBy = None, oa_ResolvedAt = None, oa_ResolutionNote = None, oa_CreatedAt = 0\<rparr>)"

definition server_wiring :: "(go_time \<Rightarrow> string) \<Rightarrow> 'x fuel_wiring" where
  "server_wiring text =
     \<lparr>fw_time_text = text, fw_behaviourHook = Some main_behaviourHook, fw_siphonHook = Some main_siphonHook\<rparr>"

end
