(* ===== verification/Fuel_Relations.thy ===== *)
theory Fuel_Relations
  imports Fuel_Engine Account_Relations
begin

text \<open>
  What a sweep of the fuel engine keeps: the locale \<open>engine_relation\<close> asks for a law about
  storing an event and one about a state of a vehicle, and gives a fact for every part of the
  sweep.  The services behind the hooks come with the laws of \<open>account_relation\<close>.
\<close>

section \<open>What the services do not touch\<close>

definition same_fuel :: "'x FuelEngine_scheme \<Rightarrow> 'x FuelEngine_scheme \<Rightarrow> bool" where
  "same_fuel e e' \<longleftrightarrow> fu_state e' = fu_state e \<and> fu_snapshots e' = fu_snapshots e \<and> bk_fuel_events e' = bk_fuel_events e"

named_theorems fuel_frames \<open>statements of the services leave the fuel tables alone\<close>

lemma frame_claims [fuel_frames]:
  "expense_insert r fk t d e = Inr (u, e') \<Longrightarrow> same_fuel e e'"
  "decide_expense i user f fk t d e = Inr (n, e') \<Longrightarrow> same_fuel e e'"
  "deduct_expense x i fk t d e = Inr (u, e') \<Longrightarrow> same_fuel e e'"
  by (auto simp: same_fuel_def expense_insert_def decide_expense_def deduct_expense_def Let_def split: if_splits option.splits)

lemma frame_settlements [fuel_frames]:
  "insert_line l fk t d e = Inr (u, e') \<Longrightarrow> same_fuel e e'"
  "settlement_insert sr fk t d e = Inr (u, e') \<Longrightarrow> same_fuel e e'"
  "settlement_recompute i sr fk t d e = Inr (u, e') \<Longrightarrow> same_fuel e e'"
  "delete_lines i fk t d e = Inr (u, e') \<Longrightarrow> same_fuel e e'"
  "update_settlement i g fk t d e = Inr (u, e') \<Longrightarrow> same_fuel e e'"
  "upsertPaidSettlement sr fk t d e = Inr (u, e') \<Longrightarrow> same_fuel e e'"
  by (auto simp: same_fuel_def insert_line_def settlement_insert_def settlement_recompute_def delete_lines_def
      update_settlement_def upsertPaidSettlement_def Let_def split: if_splits option.splits)

lemma frame_alerts [fuel_frames]:
  "alert_insert a fk t d e = Inr (u, e') \<Longrightarrow> same_fuel e e'"
  "same_fuel e (e\<lparr>bk_ops_alerts := x\<rparr>)"
  "same_fuel e (e\<lparr>bk_founder_signals := x1, bk_founder_audit := x2, bk_behaviour_events := x3, bk_driver_scores := x4,
     bk_drivers := x5\<rparr>)"
  by (auto simp: same_fuel_def alert_insert_def split: if_splits)

lemma frame_behaviour [fuel_frames]: "behaviour_insert r fk t d e = Inr (u, e') \<Longrightarrow> same_fuel e e'"
  by (auto simp: same_fuel_def behaviour_insert_def split: if_splits)

lemma frame_readers [fuel_frames]:
  "same_fuel e (e\<lparr>cr_cache := x1, cr_cacheAt := x2\<rparr>)"
  "same_fuel e (e\<lparr>cr_cache := x1, cr_cacheAt := x2, fu_score_cache := x3, fu_score_cacheAt := x4\<rparr>)"
  by (simp_all add: same_fuel_def)

context book_relation
begin

lemma keeps_fuel_loadConfig: "keeps fuel_loadConfig"
  unfolding fuel_loadConfig_def Let_def by (intro account_intros config_intros)

end

section \<open>Laws and facts\<close>

text \<open>
  \<open>start\<close> says when the relation says anything, \<open>watched\<close> which vehicles it lets change,
  \<open>source\<close> which snapshots may give events.
\<close>

locale engine_relation = book_relation B
  for B :: "'x FuelEngine_scheme \<Rightarrow> 'x FuelEngine_scheme \<Rightarrow> bool" +
  fixes cfg :: engineConfig and start :: "'x FuelEngine_scheme \<Rightarrow> bool"
    and watched :: "string \<Rightarrow> bool" and source :: "snapshotRow \<Rightarrow> bool"
  assumes frame: "same_fuel e e' \<Longrightarrow> B e e'"
    and vacuous: "\<not> start e \<Longrightarrow> B e e'"
    and puts: "watched v \<Longrightarrow> B e (e\<lparr>fu_state := (fu_state e)(v := Some st)\<rparr>)"
    and stores_rollback: "source s \<Longrightarrow> positive (sp_odometer s) \<Longrightarrow> odo_rolled_back st s cfg
      \<Longrightarrow> B e (e\<lparr>bk_fuel_events := bk_fuel_events e @ [fuel_row i st s (rollback_event st s cfg)]\<rparr>)"
    and stores_event: "source s \<Longrightarrow> read_level cfg s status odo st0 = Some (evs, st) \<Longrightarrow> ev \<in> set evs
      \<Longrightarrow> B e (e\<lparr>bk_fuel_events := bk_fuel_events e @ [fuel_row i st s ev]\<rparr>)"
    and sources: "start e \<Longrightarrow> watched v \<Longrightarrow> r \<in> set (fu_snapshots e) \<Longrightarrow> of_vehicle v r \<Longrightarrow> source (scan_snapshot r)"
    and unwatched: "start e \<Longrightarrow> \<not> watched v \<Longrightarrow> \<exists>st. fu_state e v = Some st \<and> time_IsZero (vf_lastTs st)"

sublocale engine_relation \<subseteq> account_relation B
  by unfold_locales (rule frame, auto intro: fuel_frames)+

context engine_relation
begin

section \<open>Storing\<close>

lemma keeps_insertFuelEvent:
  assumes "\<And>i e. B e (e\<lparr>bk_fuel_events := bk_fuel_events e @ [fuel_row i st s ev]\<rparr>)"
  shows "keeps (insertFuelEvent st s ev)"
  unfolding insertFuelEvent_def
  by (intro account_intros keeps_book_stmt) (auto simp: fuel_event_insert_def assms split: if_splits)

lemma keeps_insertBehaviour: "keeps (insertBehaviour st s b)"
  unfolding insertBehaviour_def by (intro account_intros keeps_book_stmt) (rule frame, erule fuel_frames)

lemma keeps_buildAlert: "keeps (buildAlert st s ev)"
  unfolding buildAlert_def by (intro account_intros)

lemma keeps_write_events:
  assumes "\<And>ev i e. ev \<in> set evs \<Longrightarrow> B e (e\<lparr>bk_fuel_events := bk_fuel_events e @ [fuel_row i st s ev]\<rparr>)"
  shows "keeps (write_events st s evs drivers alerts)"
  using assms
proof (induction evs arbitrary: drivers alerts)
  case Nil
  show ?case by (simp add: keeps_ret)
next
  case (Cons ev evs)
  have "keeps (insertFuelEvent st s ev)" by (rule keeps_insertFuelEvent) (simp add: Cons.prems)
  moreover have "keeps (write_events st s evs ds al)" for ds al using Cons by simp
  ultimately show ?case by (simp add: keeps_seq keeps_bind keeps_buildAlert keeps_insertBehaviour keeps_ret split: option.split)
qed

lemma keeps_store_events:
  assumes "\<And>ev i e. ev \<in> set evs \<Longrightarrow> B e (e\<lparr>bk_fuel_events := bk_fuel_events e @ [fuel_row i st s ev]\<rparr>)"
  shows "keeps (store_events st s evs)"
  unfolding store_events_def by (intro account_intros keeps_write_events assms)

section \<open>The hooks of the server\<close>

lemma keeps_with_score_reader:
  assumes "keeps m"
  shows "keeps (with_score_reader m)"
proof (rule keepsI)
  fix p :: "'x FuelEngine_scheme \<times> world"
  obtain e w where p: "p = (e, w)" by fastforce
  let ?e = "e\<lparr>cr_cache := fu_score_cache e, cr_cacheAt := fu_score_cacheAt e\<rparr>"
  obtain r e1 w1 where m: "m (?e, w) = (r, (e1, w1))" by (metis prod.exhaust)
  have "B ?e e1" using keepsD [OF assms m] by (simp add: tables_rel_def)
  moreover have "B e ?e" by (intro frame fuel_frames)
  moreover have "B e1 (e1\<lparr>cr_cache := cr_cache e, cr_cacheAt := cr_cacheAt e, fu_score_cache := cr_cache e1,
    fu_score_cacheAt := cr_cacheAt e1\<rparr>)" by (intro frame fuel_frames)
  ultimately show "tables_rel B p (snd (with_score_reader m p))"
    by (auto simp: p m tables_rel_def with_score_reader_def intro: B_trans)
qed

lemma keeps_hooks: "keeps (main_behaviourHook d)" "keeps (main_siphonHook v t d x n)"
  unfolding main_behaviourHook_def main_siphonHook_def
  by (intro account_intros keeps_with_score_reader keeps_RecomputeDriverScore keeps_CreateAlert)+

lemma keeps_run_hooks:
  "keeps (run_behaviourHook (server_wiring text) d)" "keeps (run_siphonHook (server_wiring text) c st s ev)"
  unfolding run_behaviourHook_def run_siphonHook_def server_wiring_def
  by (simp_all add: keeps_ret keeps_ignore keeps_hooks keeps_bind keeps_in_world)

section \<open>A snapshot, a vehicle, a sweep\<close>

lemma keeps_query_tripStatus: "keeps (query_tripStatus i)"
  unfolding query_tripStatus_def by (intro account_intros)

lemma keeps_put_state: "watched v \<Longrightarrow> keeps (put_state v st)"
  by (rule keepsI) (auto simp: tables_rel_def put_state_def modify_own_def puts)

lemma keeps_odoRollback:
  assumes "source s"
  shows "keeps (odoRollback (server_wiring text) st s cfg)"
proof (cases "fle (sp_odometer s) (Fin 0) \<or> \<not> odo_rolled_back st s cfg")
  case True
  then show ?thesis by (auto simp: odoRollback_def intro: keeps_ret keeps_seq)
next
  case False
  then have pos: "positive (sp_odometer s)"
    by (cases "sp_odometer s") (auto simp: positive_def fle_def odo_rolled_back_def)
  have "keeps (store_events st s [rollback_event st s cfg])"
    using False by (intro keeps_store_events) (simp add: stores_rollback [OF assms pos])
  with False show ?thesis
    by (auto simp: odoRollback_def intro!: keeps_ret keeps_seq keeps_bind keeps_for keeps_run_hooks)
qed

lemma keeps_read:
  assumes "source s" and "watched v"
  shows "keeps (case read_level cfg s status odo st2 of
         None \<Rightarrow> raise slice_bounds
       | Some (events, st3) \<Rightarrow>
           seqE (put_state v st3)
           (if events = [] then ret st3
            else bindE (store_events st3 s events) (\<lambda>drivers.
              seqE (forE drivers (run_behaviourHook (server_wiring text)))
              (seqE (forE events (run_siphonHook (server_wiring text) cfg st3 s)) (ret st3)))))"
proof (cases "read_level cfg s status odo st2")
  case None
  then show ?thesis by (simp add: keeps_raise)
next
  case (Some r)
  obtain evs st3 where r: "r = (evs, st3)" by fastforce
  have "keeps (store_events st3 s evs)"
    by (rule keeps_store_events) (rule stores_event [OF assms(1) Some [unfolded r]])
  with assms(2) show ?thesis
    by (simp add: Some r keeps_seq keeps_put_state keeps_ret keeps_bind keeps_for keeps_run_hooks)
qed

lemma keeps_pipeline:
  assumes "source s" and "watched v"
  shows "keeps (pipeline (server_wiring text) cfg warmup v st s)"
  unfolding pipeline_def Let_def
  by (intro keeps_bind keeps_tuple keeps_seq keeps_query_tripStatus keeps_put_state keeps_odoRollback keeps_read assms)

lemma keeps_feed:
  "watched v \<Longrightarrow> (\<And>s. s \<in> set ss \<Longrightarrow> source s) \<Longrightarrow> keeps (feed (server_wiring text) cfg warmup v st ss)"
  by (induction ss arbitrary: st) (auto intro!: keeps_ret keeps_bind keeps_pipeline)

lemma rel_bind:
  assumes "tables_rel B p (snd (m p))"
    and "\<And>x p'. m p = (Inr x, p') \<Longrightarrow> tables_rel B p' (snd (f x p'))"
  shows "tables_rel B p (snd (bindE m f p))"
  using assms by (cases "m p") (auto simp: bindE_def tables_rel_def split: sum.split intro: B_trans)

lemma snapshots_sources:
  assumes "start e" and "watched v"
  shows "s \<in> set (recent_snapshots wr v n (fu_snapshots e)) \<Longrightarrow> source s"
    and "s \<in> set (later_snapshots wr v after (fu_snapshots e)) \<Longrightarrow> source s"
  using sources [OF assms]
  by (auto simp: recent_snapshots_def later_snapshots_def sql_page_def Let_def dest!: in_set_takeD split: if_splits)

lemma query_vehicleMeta_same: "query_vehicleMeta v p = (Inr m, p') \<Longrightarrow> fst p' = fst p"
  by (cases p) (auto simp: query_vehicleMeta_def bindE_def tryE_def raise_def ret_def book_query_def book_stmt_def both_stmt_def Let_def
      split: sum.splits prod.splits option.splits)

lemma kept_queries:
  "keeps (query_vehicleMeta v)" "keeps (loadRecent wr v n)" "keeps (loadAfter wr v t)" "keeps (fuel_activeVehicles wr c)"
  unfolding query_vehicleMeta_def loadRecent_def loadAfter_def fuel_activeVehicles_def by (intro account_intros)+

lemma keeps_at: "keeps m \<Longrightarrow> tables_rel B p (snd (m p))"
  by (cases "m p") (simp add: keepsD)

lemma rel_read_and_feed:
  assumes "keeps load" and "\<And>ss p' s. load p = (Inr ss, p') \<Longrightarrow> s \<in> set ss \<Longrightarrow> source s" and "watched v"
  shows "tables_rel B p (snd (bindE load (\<lambda>ss. seqE (feed (server_wiring text) cfg warmup v st ss) (ret (int (length ss)))) p))"
proof (rule rel_bind)
  show "tables_rel B p (snd (load p))" using assms(1) by (rule keeps_at)
  fix ss p'
  assume "load p = (Inr ss, p')"
  with assms(2,3) show "tables_rel B p' (snd (seqE (feed (server_wiring text) cfg warmup v st ss) (ret (int (length ss))) p'))"
    by (intro keeps_at keeps_seq keeps_feed keeps_ret)
qed

text \<open>A vehicle seen for the first time, and one that is known.\<close>

lemma rel_first:
  assumes "start (fst p)" and "watched v"
  shows "tables_rel B p (snd (seqE (put_state v st) (bindE (loadRecent (server_wiring text) v n) (\<lambda>warm.
           seqE (feed (server_wiring text) cfg True v st warm) (ret (int (length warm))))) p))"
  unfolding seqE_def [of "put_state v st"]
proof (rule rel_bind)
  show "tables_rel B p (snd (put_state v st p))" using assms(2) by (intro keeps_at keeps_put_state)
  fix u p1
  assume "put_state v st p = (Inr u, p1)"
  then have e1: "fu_snapshots (fst p1) = fu_snapshots (fst p)" by (auto simp: put_state_def act_inv)
  show "tables_rel B p1 (snd (bindE (loadRecent (server_wiring text) v n) (\<lambda>warm.
           seqE (feed (server_wiring text) cfg True v st warm) (ret (int (length warm)))) p1))"
    using snapshots_sources(1) [OF assms, of _ "server_wiring text" n] e1
    by (intro rel_read_and_feed kept_queries assms) (auto simp: loadRecent_def act_inv)
qed

lemma rel_known:
  assumes "start (fst p)" and "fu_state (fst p) v = Some st"
  shows "tables_rel B p (snd (bindE (loadAfter (server_wiring text) v (vf_lastTs st)) (\<lambda>next.
         seqE (feed (server_wiring text) cfg False v st next) (ret (int (length next)))) p))"
proof (cases "watched v")
  case True
  then show ?thesis
    using snapshots_sources(2) [OF assms(1) True, of _ "server_wiring text"]
    by (intro rel_read_and_feed kept_queries) (auto simp: loadAfter_def act_inv ret_Inr split: if_splits)
next
  case False
  with unwatched [OF assms(1)] assms(2) have "time_IsZero (vf_lastTs st)" by fastforce
  then show ?thesis by (simp add: bindE_apply seqE_apply ret_def loadAfter_def tables_rel_def B_refl)
qed

lemma rel_vehicle:
  assumes "start (fst p)"
  shows "tables_rel B p (snd (processVehicle (server_wiring text) cfg v p))"
  unfolding processVehicle_def
proof (rule rel_bind)
  show "tables_rel B p (snd (query_vehicleMeta v p))" by (rule keeps_at [OF kept_queries(1)])
  fix m p1
  assume "query_vehicleMeta v p = (Inr m, p1)"
  then have e: "fst p1 = fst p" by (rule query_vehicleMeta_same)
  with assms have s1: "start (fst p1)" by simp
  have new: "fu_state (fst p1) v = None \<Longrightarrow> watched v" using unwatched [OF s1] by fastforce
  have own: "get_own p1 = (Inr (fst p1), p1)" by (cases p1) (simp add: get_own_def)
  show "tables_rel B p1 (snd (bindE get_own (\<lambda>e. case fu_state e v of
       None \<Rightarrow> (let st = new_state v m cfg in
          seqE (put_state v st) (bindE (loadRecent (server_wiring text) v (en_medianWindow cfg)) (\<lambda>warm.
           seqE (feed (server_wiring text) cfg True v st warm) (ret (int (length warm))))))
     | Some st \<Rightarrow> bindE (loadAfter (server_wiring text) v (vf_lastTs st)) (\<lambda>next.
         seqE (feed (server_wiring text) cfg False v st next) (ret (int (length next))))) p1))"
    using rel_first [OF s1 new] rel_known [OF s1]
    by (cases "fu_state (fst p1) v") (simp_all add: bindE_def [of get_own] own Let_def)
qed

lemma keeps_processVehicle: "keeps (processVehicle (server_wiring text) cfg v)"
proof (rule keepsI)
  fix p
  show "tables_rel B p (snd (processVehicle (server_wiring text) cfg v p))"
    using rel_vehicle [of p] vacuous [of "fst p"] by (cases "start (fst p)") (simp_all add: tables_rel_def)
qed

lemma keeps_fuel_sweep: "keeps (fuel_sweep (server_wiring text) cfg vs count)"
  by (induction vs arbitrary: count) (auto intro!: keeps_ret keeps_bind keeps_try keeps_processVehicle keeps_raise split: sum.split)

end

end
