(* ===== verification/Score_Properties.thy ===== *)
theory Score_Properties
  imports Account_Properties
begin

text \<open>
  Scores stay in their range and fraud caps them; disputes raise a signal from the fourth on; a
  payout can be recorded again.
\<close>

section \<open>Scores\<close>

lemma fle_0: "fle (Fin 0) x \<longleftrightarrow> x = PInf \<or> (\<exists>v\<ge>0. x = Fin v)"
  by (cases x) (auto simp: fle_def)

lemma rnd_nonneg: "0 \<le> x \<Longrightarrow> fle (Fin 0) (rnd x)"
  using rnd_val_pos [of x] by (auto simp: rnd_def Let_def fle_0)

lemma fadd_nonneg: "fle (Fin 0) x \<Longrightarrow> fle (Fin 0) y \<Longrightarrow> fle (Fin 0) (fadd x y)"
  by (auto simp: fle_0 [of x] fle_0 [of y] rnd_nonneg) (simp_all add: fle_0)

lemma fmul_nonneg: "fle (Fin 0) x \<Longrightarrow> 0 < c \<Longrightarrow> fle (Fin 0) (fmul x (Fin c))"
  by (auto simp: fle_0 [of x] rnd_nonneg inf_sgn_def) (simp add: fle_0)

lemma rnd_not_NaN: "rnd x \<noteq> NaN"
  by (simp add: rnd_def Let_def)

lemma rnd_neg: "x \<le> 0 \<Longrightarrow> rnd x = NInf \<or> (\<exists>v\<le>0. rnd x = Fin v)"
  using rnd_val_neg [of x] by (auto simp: rnd_def Let_def)

lemma rnd_finite:
  assumes "\<bar>x\<bar> \<le> 2 ^ 1000"
  shows "\<exists>v. rnd x = Fin v \<and> \<bar>v\<bar> \<le> 2 * \<bar>x\<bar> + 1"
proof -
  have v: "\<bar>rnd_val x\<bar> \<le> 2 * \<bar>x\<bar> + 1"
  proof (cases "x = 0 \<or> pow2 (- 1022) \<le> \<bar>x\<bar>")
    case True
    have "\<bar>x\<bar> / 2 ^ 53 \<le> \<bar>x\<bar>" by simp
    with rnd_val_rel_error [OF True] show ?thesis by linarith
  next
    case False
    then have "ilog2 \<bar>x\<bar> < - 1022"
      using ilog2_bounds [of "\<bar>x\<bar>"] pow2_mono [of "- 1022" "ilog2 \<bar>x\<bar>"] by fastforce
    then have "ulp_of x = pow2 (- 1074)" by (simp add: ulp_of_def max_def)
    also have "\<dots> \<le> 1" by (simp add: pow2_def)
    finally show ?thesis using rnd_val_abs_error [of x] by linarith
  qed
  have "\<bar>rnd_val x\<bar> \<le> 2 * 2 ^ 1000 + 1" using v assms by linarith
  also have "\<dots> < (2 ^ 1024 :: rat)" by simp
  finally have "rnd x = Fin (rnd_val x)" by (auto simp: rnd_def Let_def abs_less_iff)
  with v show ?thesis by blast
qed

definition nonpos :: "float64 \<Rightarrow> bool" where
  "nonpos x \<longleftrightarrow> x = NInf \<or> (\<exists>v\<le>0. x = Fin v)"

lemma nonpos_rnd: "x \<le> 0 \<Longrightarrow> nonpos (rnd x)"
  using rnd_neg [of x] by (simp add: nonpos_def)

lemma Duration_Hours_not_NaN: "Duration_Hours d \<noteq> NaN"
proof (cases "0 \<le> d")
  case True
  have div: "fle (Fin 0) (fdivc y c)" if "fle (Fin 0) y" "0 < c" for y c
    using that by (auto simp: fle_0 [of y] rnd_nonneg inf_sgn_def) (simp add: fle_0)
  have "fle (Fin 0) (Duration_Hours d)"
    unfolding Duration_Hours_def Let_def float_of_int64_def
    using True by (intro fadd_nonneg div rnd_nonneg) (auto simp: sgn_if)
  then show ?thesis by (auto simp: fle_0)
next
  case False
  have div: "nonpos (fdivc y c)" if "nonpos y" "0 < c" for y c
    using that by (auto simp: nonpos_def [of y] inf_sgn_def divide_nonpos_pos intro!: nonpos_rnd) (simp add: nonpos_def)
  have add: "fadd x y \<noteq> NaN" if "nonpos x" "nonpos y" for x y
    using that by (auto simp: nonpos_def rnd_not_NaN)
  show ?thesis using False
    unfolding Duration_Hours_def Let_def float_of_int64_def by (intro add div nonpos_rnd) (auto simp: sgn_if)
qed

lemma days_ago_not_NaN: "days_ago now e \<noteq> NaN"
  using Duration_Hours_not_NaN [of "time_Sub now (bx_occurredAt e)"]
  by (cases "Duration_Hours (time_Sub now (bx_occurredAt e))") (simp_all add: days_ago_def rnd_not_NaN inf_sgn_def)

definition window_ok :: "int \<Rightarrow> bool" where
  "window_ok n \<longleftrightarrow> 0 < n \<and> n \<le> 2 ^ 53"

lemma penalty_nonneg:
  assumes "penalty now (float_of_int64 n) e = Some p" and "window_ok n" and "fle (Fin 0) (bx_weight e)"
  shows "fle (Fin 0) p"
proof -
  have win: "float_of_int64 n = Fin (of_int n)" using assms(2) by (simp add: float_of_int64_def window_ok_def rnd_of_int)
  from assms(1) have c: "\<not> fle (Fin (of_int n)) (days_ago now e)" "\<not> flt (days_ago now e) (Fin 0)"
    and d: "\<not> fle (fdiv (fsub (Fin (of_int n)) (days_ago now e)) (Fin (of_int n))) (Fin 0)"
    and p: "p = fmul (fmul (bx_weight e) (severityMult (bx_severity e))) (fdiv (fsub (Fin (of_int n)) (days_ago now e)) (Fin (of_int n)))"
    by (auto simp: penalty_def win Let_def split: if_splits)
  from c days_ago_not_NaN [of now e] obtain q where q: "days_ago now e = Fin q" "0 \<le> q" "q < of_int n"
    by (cases "days_ago now e") (auto simp: fle_def)
  have n: "of_int n \<le> (2 ^ 53 :: rat)" "0 < (of_int n :: rat)" "1 \<le> (of_int n :: rat)"
    using assms(2) by (auto simp: window_ok_def simp flip: of_int_power)
  have "\<bar>of_int n - q\<bar> \<le> 2 ^ 53" using q n by simp
  moreover have "(2 ^ 53 :: rat) \<le> 2 ^ 1000" by simp
  ultimately obtain v where v: "rnd (of_int n - q) = Fin v" "\<bar>v\<bar> \<le> 2 * 2 ^ 53 + 1"
    using rnd_finite [of "of_int n - q"] by fastforce
  have "\<bar>v / of_int n\<bar> \<le> \<bar>v\<bar>" using n(3) by (simp add: abs_div divide_le_eq mult_le_cancel_left1)
  also have "\<dots> \<le> 2 * 2 ^ 53 + 1" by (rule v(2))
  also have "\<dots> \<le> (2 ^ 1000 :: rat)" by simp
  finally obtain x where x: "rnd (v / of_int n) = Fin x" using rnd_finite by blast
  have dec: "fdiv (fsub (Fin (of_int n)) (days_ago now e)) (Fin (of_int n)) = Fin x"
    using n v(1) x by (simp add: q(1) fsub_def)
  with d have "0 < x" by (simp add: fle_def)
  moreover obtain m where "severityMult (bx_severity e) = Fin m" "0 < m"
    by (rule that [of "if bx_severity e = ''low'' then 1 else if bx_severity e = ''high'' then 2 else 3 / 2"]) (simp_all add: severityMult_def)
  ultimately show ?thesis unfolding p dec using assms(3) by (metis fmul_nonneg)
qed

lemma penalty_sum_nonneg:
  assumes "window_ok n" and "\<forall>e\<in>set events. fle (Fin 0) (bx_weight e)" and "fle (Fin 0) s"
  shows "fle (Fin 0) (foldl (\<lambda>s e. case penalty now (float_of_int64 n) e of None \<Rightarrow> s | Some p \<Rightarrow> fadd s p) s events)"
  using assms(2,3)
  by (induction events arbitrary: s) (auto split: option.split intro!: fadd_nonneg dest: penalty_nonneg [OF _ assms(1)])

definition in_range :: "float64 \<Rightarrow> bool" where
  "in_range x \<longleftrightarrow> fle (Fin 0) x \<and> fle x (Fin 100)"

lemma clamp_in_range: "x \<noteq> NaN \<Longrightarrow> in_range (clamp_score x)"
  by (cases x) (auto simp: clamp_score_def in_range_def fle_def)

text \<open>
  Property C35.  The score of a driver lies between 0 and 100, whatever the events, their number and their age, as long
  as no weight is negative; while a theft of fuel or a tampered odometer is unresolved and the cap is on,
  it does not exceed the cap and the tier is C.
\<close>
theorem score_in_range_and_capped:
  assumes "window_ok (sc_windowDays cfg)" and "\<forall>e\<in>set events. fle (Fin 0) (bx_weight e)" and "fle (Fin 0) (sc_fraudCap cfg)"
  shows "in_range (dso_Score (score_of d now cfg events))
    \<and> (sc_fraudCapEnabled cfg \<and> hasUnresolvedFraud events
         \<longrightarrow> fle (dso_Score (score_of d now cfg events)) (sc_fraudCap cfg) \<and> dso_Tier (score_of d now cfg events) = ''C'')"
proof -
  let ?s = "penalty_sum now (float_of_int64 (sc_windowDays cfg)) events"
  have "fle (Fin 0) ?s" unfolding penalty_sum_def by (rule penalty_sum_nonneg [OF assms(1,2)]) (simp add: fle_0)
  then have "fsub (Fin 100) ?s \<noteq> NaN" by (auto simp: fle_0 fsub_def rnd_not_NaN)
  then have r: "in_range (clamp_score (fsub (Fin 100) ?s))" by (rule clamp_in_range)
  then obtain x where x: "clamp_score (fsub (Fin 100) ?s) = Fin x" "0 \<le> x" "x \<le> 100"
    by (auto simp: in_range_def fle_0) (auto simp: fle_def)
  have cap: "in_range (math_Min (Fin x) (sc_fraudCap cfg)) \<and> fle (math_Min (Fin x) (sc_fraudCap cfg)) (sc_fraudCap cfg)"
    using assms(3) x(2,3) by (auto simp: fle_0 [of "sc_fraudCap cfg"] in_range_def math_Min_def) (auto simp: fle_def)
  with r show ?thesis unfolding score_of_def computeScore_def Let_def capped_def by (simp add: x(1))
qed

definition demo_event :: "string \<Rightarrow> behaviourEventRow" where
  "demo_event ty = \<lparr>bx_id = ''x'', bx_eventType = ty, bx_severity = ''high'', bx_weight = Fin 8, bx_occurredAt = 0, bx_resolved = False\<rparr>"

definition demo_scorecard :: scorecardConfig where
  "demo_scorecard = \<lparr>sc_windowDays = 30, sc_tierA = Fin 85, sc_tierB = Fin 70, sc_minEvents = 3, sc_fraudCap = Fin 60,
     sc_fraudCapEnabled = True\<rparr>"

theorem score_in_range_and_capped_witness:
  "in_range (dso_Score (score_of ''d1'' 0 demo_scorecard [demo_event ''fuel_theft_suspicion'']))
   \<and> fle (dso_Score (score_of ''d1'' 0 demo_scorecard [demo_event ''fuel_theft_suspicion''])) (Fin 60)
   \<and> dso_Tier (score_of ''d1'' 0 demo_scorecard [demo_event ''fuel_theft_suspicion'']) = ''C''"
proof -
  have "window_ok (sc_windowDays demo_scorecard)" "fle (Fin 0) (sc_fraudCap demo_scorecard)" "sc_fraudCapEnabled demo_scorecard"
    "sc_fraudCap demo_scorecard = Fin 60"
    by (simp_all add: demo_scorecard_def window_ok_def fle_def)
  moreover have "\<forall>e\<in>set [demo_event ''fuel_theft_suspicion'']. fle (Fin 0) (bx_weight e)"
    "hasUnresolvedFraud [demo_event ''fuel_theft_suspicion'']"
    by (simp_all add: demo_event_def fle_def hasUnresolvedFraud_def fraudEventTypes_def)
  ultimately show ?thesis using score_in_range_and_capped [of demo_scorecard _ "''d1''" 0] by metis
qed

section \<open>Disputes\<close>

definition disputes :: "TenantID \<Rightarrow> go_time \<Rightarrow> 'x books_scheme \<Rightarrow> int" where
  "disputes t now s = int (length (filter (\<lambda>r. oa_TenantID r = (if t = [] then ''1'' else t)
     \<and> oa_AlertType r = OpsAlertSettlementDispute \<and> created_within (7 * 24) now (oa_CreatedAt r)) (bk_ops_alerts s)))"

text \<open>
  The third dispute of a week raises no signal: the spike is compared with the threshold of three by
  \<open>EmitIfThreshold\<close>, which does nothing at equality, although the code that calls it tests for
  three or more.
\<close>
theorem third_dispute_raises_no_signal:
  assumes "disputes t (trunc_second (env_clk (w_env w) (w_nclk w))) s \<le> 3"
  shows "fst (snd (dispute_spike t (s, w))) = s"
proof -
  obtain res p1 where c: "CountAlertsSince t OpsAlertSettlementDispute (7 * 24) (s, w) = (res, p1)" by (metis prod.exhaust)
  then have p1: "fst p1 = s"
    by (auto simp: CountAlertsSince_def book_query_def book_stmt_def both_stmt_def Let_def split: prod.splits option.splits sum.splits)
  have count: "n \<le> 3" if "res = Inr n" for n
    using c assms unfolding that by (auto simp: CountAlertsSince_def book_query_Inr disputes_def)
  have at3: "float_of_int64 3 = Fin 3" using rnd_of_int [of 3] by (simp add: float_of_int64_def)
  have quiet: "snd (ignore_error (EmitSettlementDisputeSpike t (Fin 3) (Fin 3)) p) = p" for p :: "'a books_scheme \<times> world"
    by (simp add: EmitSettlementDisputeSpike_def EmitIfThreshold_def Let_def ignore_error_def bindE_def tryE_def ret_def)
  define n where "n = (case res of Inl _ \<Rightarrow> 0 | Inr n \<Rightarrow> n)"
  have n3: "n \<le> 3" using count by (simp add: n_def split: sum.split)
  have "snd (dispute_spike t (s, w)) = snd ((if 3 \<le> n then ignore_error (EmitSettlementDisputeSpike t (float_of_int64 n) (Fin 3))
      else ret ()) p1)"
    using c by (simp add: dispute_spike_def bindE_apply tryE_apply n_def)
  also have "\<dots> = p1" using n3 quiet [of p1] at3 by (cases "n = 3") (simp_all add: ret_def)
  finally show ?thesis by (simp add: p1)
qed

definition demo_disputes :: "string list \<Rightarrow> books \<times> world" where
  "demo_disputes ids = (demo_books\<lparr>bk_ops_alerts := map (\<lambda>i. demo_alert i OpsAlertStatusOpen) ids\<rparr>, demo_world)"

lemma demo_fourth: "map fs_SignalValue (bk_founder_signals (fst (snd (dispute_spike ''1'' (demo_disputes [''a'', ''b'', ''c'', ''d'']))))) = [Fin 4]"
  by code_simp

lemma demo_third: "disputes ''1'' (trunc_second (env_clk (w_env demo_world) (w_nclk demo_world))) (fst (demo_disputes [''a'', ''b'', ''c''])) \<le> 3"
  by code_simp

theorem third_dispute_raises_no_signal_witness:
  "bk_founder_signals (fst (snd (dispute_spike ''1'' (demo_disputes [''a'', ''b'', ''c''])))) = []
   \<and> bk_founder_signals (fst (snd (dispute_spike ''1'' (demo_disputes [''a'', ''b'', ''c'', ''d''])))) \<noteq> []"
proof
  have "fst (snd (dispute_spike ''1'' (demo_disputes [''a'', ''b'', ''c'']))) = fst (demo_disputes [''a'', ''b'', ''c''])"
    using third_dispute_raises_no_signal [OF demo_third] by (simp add: demo_disputes_def)
  then show "bk_founder_signals (fst (snd (dispute_spike ''1'' (demo_disputes [''a'', ''b'', ''c''])))) = []"
    by (simp add: demo_disputes_def demo_books_def)
  show "bk_founder_signals (fst (snd (dispute_spike ''1'' (demo_disputes [''a'', ''b'', ''c'', ''d''])))) \<noteq> []"
    using demo_fourth by auto
qed

section \<open>Payouts\<close>

lemma calm_query:
  "env_fault (w_env w) = (\<lambda>_. None) \<Longrightarrow> book_query q (s, w) =
     (q (trunc_second (env_clk (w_env w) (w_nclk w))) (w_db w) s, (s, w\<lparr>w_nop := Suc (w_nop w), w_nclk := Suc (w_nclk w)\<rparr>))"
  by (simp add: book_query_def book_stmt_def both_stmt_def Let_def split: sum.split)

lemma calm_update:
  "env_fault (w_env w) = (\<lambda>_. None) \<Longrightarrow> \<exists>t. book_stmt (update_settlement i f) (s, w) =
     (Inr (), (s\<lparr>bk_driver_settlements := update_where (\<lambda>r. st_id r = i) (\<lambda>r. (f t r)\<lparr>st_updated_at := t\<rparr>) (bk_driver_settlements s)\<rparr>,
       w\<lparr>w_nop := Suc (w_nop w), w_nclk := Suc (w_nclk w)\<rparr>))"
  by (auto simp: book_stmt_def both_stmt_def Let_def update_settlement_def)

lemma calm_find:
  assumes "env_fault (w_env w) = (\<lambda>_. None)" and "find (\<lambda>x. st_trip_id x = t) (bk_driver_settlements s) = Some r"
  shows "\<exists>lines w'. findByTripID t (s, w) = (Inr (settlement_row.extend r \<lparr>sr_Lines = lines\<rparr>), (s, w'))"
  using assms by (simp add: findByTripID_def bindE_apply tryE_apply calm_query one_row_def ret_def) blast

text \<open>
  Property C15.  A payout can be recorded again.  \<open>MarkPaid\<close> does not look at the status: on a database that
  works, any settlement, paid or disputed as it may be, becomes paid under the new reference, and the
  bus is told once more that its amount was paid out.  The declared error for a settlement that was
  already paid is never returned.
\<close>
theorem payout_can_be_repeated:
  assumes ok: "ledger_ok s" and r: "r \<in> set (bk_driver_settlements s)" and calm: "env_fault (w_env w) = (\<lambda>_. None)"
  shows "\<exists>rec p'. MarkPaid (st_id r) ref paid (s, w) = (Inr rec, p') \<and> st_id rec = st_id r \<and> st_status rec = ''paid''
    \<and> st_payment_ref rec = Some ref \<and> st_net_payout rec = st_net_payout r
    \<and> bk_published (fst p') = bk_published s @ [(DriverPayoutSettled, paid_event r ref paid)]"
proof -
  let ?S = "bk_driver_settlements s" and ?w1 = "w\<lparr>w_nop := Suc (w_nop w), w_nclk := Suc (w_nclk w)\<rparr>"
  let ?f = "\<lambda>now x. x\<lparr>st_status := ''paid'', st_payment_ref := Some ref, st_paid_at := Some (trunc_second paid)\<rparr>"
  have d: "distinct (map st_id ?S)" "distinct (map st_trip_id ?S)" using ok by (simp_all add: ledger_ok_def)
  have found: "find (\<lambda>x. st_id x = st_id r) ?S = Some r" "find (\<lambda>x. st_trip_id x = st_trip_id r) ?S = Some r"
    using find_distinct_key [OF d(1) r, of "\<lambda>x. st_id x = st_id r"] find_distinct_key [OF d(2) r, of "\<lambda>x. st_trip_id x = st_trip_id r"]
    by simp_all
  have look: "trip_of_settlement (st_id r) (s, w) = (Inr r, (s, ?w1))"
    using found(1) calm by (simp add: trip_of_settlement_def calm_query one_row_def)
  have c1: "env_fault (w_env ?w1) = (\<lambda>_. None)" using calm by simp
  from calm_update [OF c1, of "st_id r" ?f s] obtain t w2 where upd: "book_stmt (update_settlement (st_id r) ?f) (s, ?w1) = (Inr (),
      (s\<lparr>bk_driver_settlements := update_where (\<lambda>x. st_id x = st_id r) (\<lambda>x. (?f t x)\<lparr>st_updated_at := t\<rparr>) ?S\<rparr>, w2))"
    and c2: "env_fault (w_env w2) = (\<lambda>_. None)" using calm by auto
  let ?s2 = "s\<lparr>bk_driver_settlements := update_where (\<lambda>x. st_id x = st_id r) (\<lambda>x. (?f t x)\<lparr>st_updated_at := t\<rparr>) ?S,
    bk_published := bk_published s @ [(DriverPayoutSettled, paid_event r ref paid)]\<rparr>"
  have "find (\<lambda>x. st_trip_id x = st_trip_id r) (bk_driver_settlements ?s2) = Some ((?f t r)\<lparr>st_updated_at := t\<rparr>)"
    using found(2) by (simp add: find_update_where)
  from calm_find [OF c2 this] obtain lines w3 where
    "findByTripID (st_trip_id r) (?s2, w2) = (Inr (settlement_row.extend ((?f t r)\<lparr>st_updated_at := t\<rparr>) \<lparr>sr_Lines = lines\<rparr>), (?s2, w3))"
    by blast
  then have "MarkPaid (st_id r) ref paid (s, w) =
      (Inr (settlement_row.extend ((?f t r)\<lparr>st_updated_at := t\<rparr>) \<lparr>sr_Lines = lines\<rparr>), (?s2, w3))"
    using look upd by (simp add: MarkPaid_def bindE_apply tryE_apply seqE_apply bus_publish_def modify_own_def)
  then show ?thesis by (simp add: settlement_row.defs)
qed

theorem payout_can_be_repeated_witness:
  "st_status demo_settlement = ''paid'' \<and> (\<exists>rec p'. MarkPaid ''s1'' ''UTR-2'' 0 demo_accounts = (Inr rec, p')
     \<and> st_payment_ref rec = Some ''UTR-2'' \<and> bk_published (fst p') = [(DriverPayoutSettled, paid_event demo_settlement ''UTR-2'' 0)])"
proof -
  let ?w = "demo_world\<lparr>w_db := demo_account_db\<rparr>"
  have calm: "env_fault (w_env ?w) = (\<lambda>_. None)" by (simp add: demo_world_def demo_env_def)
  have row: "demo_settlement \<in> set (bk_driver_settlements demo_books)" by (simp add: demo_tables)
  have "st_id demo_settlement = ''s1''" "st_status demo_settlement = ''paid''" "bk_published demo_books = []"
    by (simp_all add: demo_settlement_def demo_books_def)
  with payout_can_be_repeated [OF demo_ledger row calm, of "''UTR-2''" 0] show ?thesis
    unfolding demo_accounts_def by auto
qed

end
