(* ===== verification/Fuel_Safety.thy ===== *)
theory Fuel_Safety
  imports Fuel_Relations Score_Properties Trip_Gate
begin

text \<open>
  Properties of the fuel engine: every event it stores is explained by a snapshot and the settings;
  a vehicle whose first reading fails is never looked at again; a held spike confirms itself; a
  steady level without an odometer counts as abnormal drain; small tanks are read too low.
\<close>

section \<open>Vehicles without a watermark\<close>

definition deaf :: "string \<Rightarrow> 'x FuelEngine_scheme \<Rightarrow> bool" where
  "deaf v e \<longleftrightarrow> (\<exists>st. fu_state e v = Some st \<and> time_IsZero (vf_lastTs st))"

definition events_about :: "string \<Rightarrow> 'x FuelEngine_scheme \<Rightarrow> fuel_event_row list" where
  "events_about v e = filter (\<lambda>x. fv_vehicle_id x = v) (bk_fuel_events e)"

definition silent :: "string \<Rightarrow> 'x FuelEngine_scheme \<Rightarrow> 'x FuelEngine_scheme \<Rightarrow> bool" where
  "silent v e e' \<longleftrightarrow> (deaf v e \<longrightarrow> fu_state e' v = fu_state e v \<and> events_about v e' = events_about v e)"

lemma deaf_cong: "fu_state e' v = fu_state e v \<Longrightarrow> deaf v e' = deaf v e"
  by (simp add: deaf_def)

lemma silent_trans: "silent v a b \<Longrightarrow> silent v b c \<Longrightarrow> silent v a c"
  using deaf_cong [of b v a] by (simp add: silent_def)

interpretation quiet: engine_relation "silent v" cfg "deaf v" "\<lambda>v'. v' \<noteq> v" "\<lambda>s. sp_vehicleID s \<noteq> v" for v cfg
proof unfold_locales
  show "silent v a b \<Longrightarrow> silent v b c \<Longrightarrow> silent v a c" for a b c :: "'a FuelEngine_scheme" by (rule silent_trans)
qed (auto simp: silent_def events_about_def same_fuel_def fuel_row_def deaf_def of_vehicle_def scan_snapshot_def str_or_empty_def)

lemma quiet_Tick: "kept_relation.keeps (tables_rel (silent v)) (fuel_Tick (server_wiring text))"
  unfolding fuel_Tick_def
  by (intro quiet.account_intros quiet.keeps_fuel_loadConfig quiet.kept_queries quiet.keeps_fuel_sweep)

lemma quiet_ticks: "kept_relation.keeps (tables_rel (silent v)) (fuel_ticks (server_wiring text) n)"
  by (induction n) (simp_all add: quiet.keeps_ret quiet.keeps_seq quiet.keeps_ignore quiet_Tick)

lemma quiet_Run: "kept_relation.keeps (tables_rel (silent v)) (fuel_Run (server_wiring text) n)"
  unfolding fuel_Run_def fuel_GetDurationSeconds_def getDuration_def
  by (intro quiet.account_intros quiet.config_intros quiet_ticks)

lemma faulty_query:
  "env_fault (w_env (snd p)) (w_nop (snd p)) = Some err \<Longrightarrow> \<exists>p'. book_query q p = (Inl err, p') \<and> fst p' = fst p"
  by (cases p) (simp add: book_query_def book_stmt_def both_stmt_def Let_def)

text \<open>
  Property C25.  A vehicle whose snapshots cannot be read when the engine sees it for the first time is never looked at
  again: its state stays the empty one that was put down before the query, whose watermark is zero, and for
  a zero watermark nothing is read.  However long the engine runs, whatever the telemetry says, no event
  about the vehicle is stored and nothing is reported; only a restart of the server helps.
\<close>
theorem failed_first_read_silences_vehicle:
  assumes new: "fu_state (fst p) v = None" and meta: "query_vehicleMeta v p = (Inr m, pm)"
    and fault: "env_fault (w_env (snd pm)) (w_nop (snd pm)) = Some err"
  shows "\<exists>p1. processVehicle (server_wiring text) cfg v p = (Inl err, p1)
    \<and> (\<forall>n. let e = fst (snd (fuel_Run (server_wiring text) n p1)) in
         fu_state e v = Some (new_state v m cfg) \<and> events_about v e = events_about v (fst p))"
proof -
  let ?wr = "server_wiring text" and ?st = "new_state v m cfg"
  have e: "fst pm = fst p" using quiet.query_vehicleMeta_same [OF meta] .
  let ?pm = "((fst p)\<lparr>fu_state := (fu_state (fst p))(v := Some ?st)\<rparr>, snd pm)"
  have "\<exists>p1. loadRecent ?wr v (en_medianWindow cfg) ?pm = (Inl err, p1) \<and> fst p1 = fst ?pm"
    unfolding loadRecent_def using fault by (intro faulty_query) simp
  then obtain p1 where load: "loadRecent ?wr v (en_medianWindow cfg) ?pm = (Inl err, p1)" and p1: "fst p1 = fst ?pm" by blast
  have "pm = (fst p, snd pm)" using e by (metis prod.collapse)
  moreover have "put_state v ?st (fst p, snd pm) = (Inr (), ?pm)" by (simp add: put_state_def modify_own_def)
  ultimately have run: "processVehicle ?wr cfg v p = (Inl err, p1)"
    using meta new load by (auto simp: processVehicle_def bindE_def seqE_def get_own_def Let_def split: prod.splits)
  have deaf: "deaf v (fst p1)" "fu_state (fst p1) v = Some ?st" "events_about v (fst p1) = events_about v (fst p)"
    by (simp_all add: p1 deaf_def new_state_def time_IsZero_def events_about_def)
  have "silent v (fst p1) (fst (snd (fuel_Run ?wr n p1)))" for n
    using quiet.keeps_at [OF quiet_Run] by (simp add: tables_rel_def)
  with deaf run show ?thesis by (simp add: silent_def Let_def)
qed

section \<open>What explains an event\<close>

text \<open>The cause of a stored event: a snapshot of its vehicle and the settings of the sweep.\<close>

definition explained :: "engineConfig \<Rightarrow> telemetry_row \<Rightarrow> fuel_event_row \<Rightarrow> bool" where
  "explained cfg r x \<longleftrightarrow>
     (let s = scan_snapshot r; ty = fv_event_type x; drop = fsub (fv_before x) (fv_after x);
          jump = fsub (fv_after x) (fv_before x) in
      fv_vehicle_id x = sp_vehicleID s \<and> fv_occurred_at x = trunc_second (sp_ts s) \<and> fv_odometer_after x = sp_odometer s
      \<and> (if ty = ''siphon_confirmed'' then
           is_stationary cfg s \<and> fv_estimated_litres x = drop \<and> fle (en_siphonThresholdL cfg) drop
         else if ty = ''drain_theft_suspected'' then
           is_stationary cfg s \<and> fv_estimated_litres x = drop \<and> fle (en_theftThresholdL cfg) drop
         else if ty = ''abnormal_drain'' then
           \<not> is_stationary cfg s \<and> fv_estimated_litres x = drop \<and> fle (expectedBurn (fv_odometer_before x) s cfg) drop
         else if ty = ''refill_detected'' then
           fv_estimated_litres x = jump \<and> fle (en_refillThresholdL cfg) jump
         else ty = ''odometer_rollback'' \<and> fv_estimated_litres x = drop \<and> fv_after x = sp_odometer s
           \<and> positive (sp_odometer s) \<and> flt (sp_odometer s) (fsub (fv_before x) (en_odoToleranceKm cfg))))"

lemma detect_explained:
  "ev \<in> set (fst (detect st (scan_snapshot r) cfg smoothed delta noise status odo))
   \<Longrightarrow> explained cfg r (fuel_row i st1 (scan_snapshot r) ev)"
  by (auto simp: detect_def Let_def explained_def fuel_row_def split: if_splits)

lemma read_level_explained:
  assumes "read_level cfg s status odo st = Some (evs, st')" and "s = scan_snapshot r" and "ev \<in> set evs"
  shows "explained cfg r (fuel_row i st1 s ev)"
  using assms by (auto simp: read_level_def Let_def case_prod_unfold detect_explained split: if_splits)

lemma rollback_explained:
  "s = scan_snapshot r \<Longrightarrow> positive (sp_odometer s) \<Longrightarrow> odo_rolled_back st s cfg
   \<Longrightarrow> explained cfg r (fuel_row i st s (rollback_event st s cfg))"
  by (simp add: explained_def fuel_row_def rollback_event_def odo_rolled_back_def Let_def)

definition accounted :: "engineConfig \<Rightarrow> telemetry_row list \<Rightarrow> 'x FuelEngine_scheme \<Rightarrow> 'x FuelEngine_scheme \<Rightarrow> bool" where
  "accounted cfg rows e e' \<longleftrightarrow> (fu_snapshots e = rows \<longrightarrow> fu_snapshots e' = rows
     \<and> (\<exists>new. bk_fuel_events e' = bk_fuel_events e @ new \<and> (\<forall>x\<in>set new. \<exists>r\<in>set rows. explained cfg r x)))"

lemma accounted_trans: "accounted cfg rows a b \<Longrightarrow> accounted cfg rows b c \<Longrightarrow> accounted cfg rows a c"
  by (auto simp: accounted_def)

lemma accounted_add:
  "r \<in> set rows \<Longrightarrow> explained cfg r x \<Longrightarrow> accounted cfg rows e (e\<lparr>bk_fuel_events := bk_fuel_events e @ [x]\<rparr>)"
  by (auto simp: accounted_def)

interpretation log: engine_relation "accounted cfg rows" cfg "\<lambda>e. fu_snapshots e = rows" "\<lambda>_. True"
  "\<lambda>s. \<exists>r\<in>set rows. s = scan_snapshot r" for cfg rows
proof unfold_locales
  show "accounted cfg rows a b \<Longrightarrow> accounted cfg rows b c \<Longrightarrow> accounted cfg rows a c" for a b c :: "'a FuelEngine_scheme"
    by (rule accounted_trans)
  show "\<exists>r\<in>set rows. s = scan_snapshot r \<Longrightarrow> positive (sp_odometer s) \<Longrightarrow> odo_rolled_back st s cfg
      \<Longrightarrow> accounted cfg rows e (e\<lparr>bk_fuel_events := bk_fuel_events e @ [fuel_row i st s (rollback_event st s cfg)]\<rparr>)"
    for s st i and e :: "'a FuelEngine_scheme"
    by (auto intro: accounted_add rollback_explained)
  show "\<exists>r\<in>set rows. s = scan_snapshot r \<Longrightarrow> read_level cfg s status odo st0 = Some (evs, st) \<Longrightarrow> ev \<in> set evs
      \<Longrightarrow> accounted cfg rows e (e\<lparr>bk_fuel_events := bk_fuel_events e @ [fuel_row i st s ev]\<rparr>)"
    for s status odo st0 evs st ev i and e :: "'a FuelEngine_scheme"
    by (auto intro: accounted_add read_level_explained)
qed (auto simp: accounted_def same_fuel_def)

text \<open>
  Property C26.  Whatever fails during a sweep, it changes the log of fuel events by adding to it, and every event it adds
  is explained by a snapshot in the database and the settings of the sweep: a theft or a siphoning by a
  snapshot at a standstill and a drop of at least the threshold, abnormal drain by a moving vehicle that
  used at least what was expected, a refill by a rise over its threshold, a rollback by an odometer below
  the last one by more than the tolerance; and the litres stored are the difference of the levels stored.
\<close>
theorem stored_events_are_explained:
  assumes "fuel_sweep (server_wiring text) cfg vs n p = (r, p')"
  shows "\<exists>new. bk_fuel_events (fst p') = bk_fuel_events (fst p) @ new
    \<and> (\<forall>x\<in>set new. \<exists>row\<in>set (fu_snapshots (fst p)). explained cfg row x)"
proof -
  have "accounted cfg (fu_snapshots (fst p)) (fst p) (fst p')"
    using log.keepsD [OF log.keeps_fuel_sweep assms] by (simp add: tables_rel_def)
  then show ?thesis by (simp add: accounted_def)
qed

section \<open>Small tanks\<close>

lemma detect_level: "detect st (s\<lparr>sp_fuelLevel := x\<rparr>) = detect st s"
proof (intro ext)
  fix cfg a b c status odo
  have "is_stationary cfg (s\<lparr>sp_fuelLevel := x\<rparr>) = is_stationary cfg s" "sp_ts (s\<lparr>sp_fuelLevel := x\<rparr>) = sp_ts s"
    "expectedBurn odo (s\<lparr>sp_fuelLevel := x\<rparr>) cfg = expectedBurn odo s cfg"
    by (simp_all add: is_stationary_def expectedBurn_def)
  then show "detect st (s\<lparr>sp_fuelLevel := x\<rparr>) cfg a b c status odo = detect st s cfg a b c status odo"
    by (simp only: detect_def)
qed

lemma clamped: "fle cap x \<Longrightarrow> 0 \<le> c \<Longrightarrow> cap = Fin c \<Longrightarrow> clampFuel x cap = cap"
  by (cases x) (auto simp: clampFuel_def fle_def)

text \<open>
  Property C29.  A level in percent is compared with the capacity in litres before it is converted.  In a tank of \<open>c\<close>
  litres every level of \<open>c\<close> percent or more is read as the same number of litres and does the same to the
  state of the vehicle: whatever is taken from a tank of 50 litres while it stays half full is not noticed,
  and the full tank is read as 25 litres.
\<close>
theorem small_tank_hides_levels:
  assumes "vf_tankCapacity st = Fin c" and "0 \<le> c" and "fle (Fin c) x" and "fle (Fin c) y"
  shows "read_level cfg (s\<lparr>sp_fuelLevel := x\<rparr>) status odo st = read_level cfg (s\<lparr>sp_fuelLevel := y\<rparr>) status odo st"
proof -
  have "clampFuel x (vf_tankCapacity st) = clampFuel y (vf_tankCapacity st)" using assms by (simp add: clamped)
  then show ?thesis by (simp add: read_level_def is_stationary_def detect_level Let_def)
qed

section \<open>Steady levels\<close>

text \<open>A vehicle that drives on an active trip at the level \<open>x\<close> it had all the time.\<close>

definition steady :: "rat \<Rightarrow> vehicleFuelState \<Rightarrow> bool" where
  "steady x st \<longleftrightarrow> vf_sensorFitted st \<and> positive (vf_tankCapacity st) \<and> vf_tripActive st \<and> vf_pendingSpike st = NaN
     \<and> vf_lastLevel st = Fin x \<and> vf_baselineLevel st = Fin x \<and> set (vf_window st) \<subseteq> {Fin x}"

lemma median_const:
  assumes "set w \<subseteq> {a}" and "w \<noteq> []"
  shows "median w = a"
proof -
  have "(length w - 1) div 2 < length w" using assms(2) by (cases w) auto
  then have "sort w ! ((length w - 1) div 2) \<in> set (sort w)" by (intro nth_mem) simp
  with assms show ?thesis by (auto simp: median_def)
qed

lemma rnd_0: "rnd 0 = Fin 0"
  by (simp add: rnd_def rnd_val_def)

lemma flt_asym: "flt a b \<Longrightarrow> \<not> flt b a"
  by (cases a; cases b) auto

lemma nonneg_not_less: "fle (Fin 0) y \<Longrightarrow> \<not> flt y (Fin 0)"
  by (auto simp: fle_0)

lemma not_deviates:
  assumes "nonneg pct"
  shows "\<not> deviates (Fin x) (Fin x) pct"
proof -
  have "fle (Fin 0) (fdivc pct 100)" using assms
    by (auto simp: nonneg_def fle_0 [of pct] rnd_nonneg inf_sgn_def) (simp add: fle_0)
  then have p: "\<not> flt (fdivc pct 100) (Fin 0)" by (rule nonneg_not_less)
  have q: "\<not> flt y NaN" for y by (cases y) simp_all
  have "fdiv (fabs (fsub (Fin x) (Fin x))) (Fin x) = (if x = 0 then NaN else Fin 0)"
    by (simp add: fsub_def rnd_0 inf_sgn_def)
  with p q show ?thesis by (simp add: deviates_def flt_asym split: if_splits)
qed

definition odometer_still :: "snapshotRow \<Rightarrow> float64 \<Rightarrow> bool" where
  "odometer_still s odo \<longleftrightarrow> \<not> positive (sp_odometer s) \<or> \<not> positive odo \<or> isFinite odo \<and> sp_odometer s = odo"

lemma still_burns_nothing:
  assumes "odometer_still s odo" and "en_abnormalLPerKm cfg = Fin a" and "en_abnormalMarginPct cfg = Fin m" and "\<bar>m\<bar> \<le> 2 ^ 900"
  shows "expectedBurn odo s cfg = Fin 0"
proof -
  have d: "(if positive (sp_odometer s) \<and> positive odo then fsub (sp_odometer s) odo else Fin 0) = Fin 0"
    using assms(1) by (cases odo) (auto simp: odometer_still_def fsub_def rnd_0)
  have "\<bar>m / 100\<bar> \<le> 2 ^ 900" using assms(4) by (simp add: abs_div)
  also have "\<dots> \<le> (2 ^ 1000 :: rat)" by simp
  finally obtain v where v: "rnd (m / 100) = Fin v" "\<bar>v\<bar> \<le> 2 * \<bar>m / 100\<bar> + 1" using rnd_finite by blast
  have "\<bar>1 + v\<bar> \<le> 1 + (2 * \<bar>m / 100\<bar> + 1)" using v(2) by linarith
  also have "\<dots> \<le> 2 + 2 * 2 ^ 900" using \<open>\<bar>m / 100\<bar> \<le> 2 ^ 900\<close> by linarith
  also have "\<dots> \<le> (2 ^ 1000 :: rat)" by simp
  finally obtain u where "rnd (1 + v) = Fin u" using rnd_finite by blast
  with v(1) show ?thesis by (simp add: expectedBurn_def Let_def d assms(2,3) rnd_0 del: power_numeral)
qed


section \<open>Spikes\<close>

text \<open>
  The driver of the database writes a time as text that begins with date and time of day and goes on with
  the fraction and the zone.
\<close>

definition longer_text :: "(go_time \<Rightarrow> string) \<Rightarrow> bool" where
  "longer_text text \<longleftrightarrow> (\<forall>t. \<exists>z zs. text t = timeStr t @ z # zs)"

lemma prefix_less: "xs < xs @ z # (zs :: 'a :: linorder list)"
  by (induction xs) simp_all

lemma filter_single: "distinct xs \<Longrightarrow> r \<in> set xs \<Longrightarrow> filter (\<lambda>x. x = r) xs = [r]"
  by (induction xs) (auto simp: filter_empty_conv)

definition newest :: "'x fuel_wiring \<Rightarrow> string \<Rightarrow> telemetry_row list \<Rightarrow> telemetry_row \<Rightarrow> bool" where
  "newest wr v rows r \<longleftrightarrow> distinct rows \<and> r \<in> set rows \<and> of_vehicle v r
     \<and> (\<forall>x\<in>set rows. x \<noteq> r \<longrightarrow> of_vehicle v x \<longrightarrow> \<not> later_text wr (tl_timestamp r) x)"

lemma newest_read_again:
  assumes "longer_text (fw_time_text wr)" and "newest wr v rows r"
  shows "later_snapshots wr v (tl_timestamp r) rows = [scan_snapshot r]"
proof -
  have "later_text wr (tl_timestamp r) r"
    using assms(1) prefix_less unfolding longer_text_def later_text_def by metis
  with assms(2) have "filter (\<lambda>x. of_vehicle v x \<and> later_text wr (tl_timestamp r) x) rows = filter (\<lambda>x. x = r) rows"
    by (intro filter_cong) (auto simp: newest_def)
  also have "\<dots> = [r]" using assms(2) by (simp add: newest_def filter_single)
  finally show ?thesis by (simp add: later_snapshots_def sql_page_def maxSnapshotsPerSweep_def)
qed

text \<open>
  Property C27.  A reading that was held as a spike confirms itself.  The stored text of a time is longer than the text the
  watermark is bound as, so the newest snapshot of a vehicle counts as newer than the watermark it has set:
  the next sweep reads it again, with no new telemetry, takes it for the reading that confirms the spike,
  and puts two copies of it into the window from which the level is taken.
\<close>
theorem held_spike_confirms_itself:
  assumes longer: "longer_text (fw_time_text wr)" and new: "newest wr v rows r" and ts: "vf_lastTs st = tl_timestamp r"
    and held: "vf_pendingSpike st = x" "x \<noteq> NaN"
      "x = toLitres st (clampFuel (sp_fuelLevel (scan_snapshot r)) (vf_tankCapacity st))"
    and st: "vf_sensorFitted st" "\<not> fle (vf_tankCapacity st) (Fin 0)" "vf_lastLevel st \<noteq> NaN" "2 \<le> en_medianWindow cfg"
  shows "\<exists>evs st' w. later_snapshots wr v (vf_lastTs st) rows = [scan_snapshot r]
    \<and> read_level cfg (scan_snapshot r) status odo st = Some (evs, st')
    \<and> vf_pendingSpike st' = NaN \<and> vf_window st' = w @ [x, x]"
proof -
  have again: "later_snapshots wr v (vf_lastTs st) rows = [scan_snapshot r]" using newest_read_again [OF longer new] ts by simp
  let ?w = "vf_window st @ [x, x]"
  have "\<exists>w. last_readings (en_medianWindow cfg) ?w = Some (w @ [x, x])"
    using st(4) by (auto simp: last_readings_def)
  then obtain w where w: "last_readings (en_medianWindow cfg) ?w = Some (w @ [x, x])" by blast
  have det: "vf_pendingSpike (snd (detect y s cfg a b c status odo)) = vf_pendingSpike y"
    "vf_window (snd (detect y s cfg a b c status odo)) = vf_window y" for y s a b c
    by (simp_all add: detect_def Let_def)
  show ?thesis using st(1,2,3) held(1,2) w again
    by (simp add: read_level_def Let_def case_prod_unfold det held(3) [symmetric])
qed

section \<open>An engine with one vehicle\<close>

definition demo_level_state :: vehicleFuelState where
  "demo_level_state =
     \<lparr>vf_vehicleID = ''v1'', vf_sensorFitted = True, vf_tankCapacity = Fin 100, vf_unit = ''litres'', vf_window = [],
      vf_pendingSpike = NaN, vf_lastLevel = Fin 80, vf_baselineLevel = Fin 80, vf_lastOdometer = Fin 0,
      vf_lastTs = 60 * 10 ^ 9, vf_refillPending = Fin 0, vf_stopStart = 0, vf_tripID = [], vf_driverID = [],
      vf_tripActive = True\<rparr>"

definition demo_telemetry :: "float64 \<Rightarrow> telemetry_row" where
  "demo_telemetry level =
     \<lparr>tl_id = ''t1'', tl_trip_id = None, tl_vehicle_id = Some ''v1'', tl_driver_id = None, tl_timestamp = 120 * 10 ^ 9,
      tl_speed = Some (Fin 0), tl_fuel_level = Some level, tl_odometer = None\<rparr>"

definition demo_fuel_config :: engineConfig where
  "demo_fuel_config =
     \<lparr>en_medianWindow = 7, en_spikeDeviationPct = Fin 25, en_noiseFloorPct = Fin 1, en_refillThresholdL = Fin 20,
      en_theftThresholdL = Fin 10, en_siphonThresholdL = Fin 15, en_siphonStop = 20 * 60 * 10 ^ 9, en_stopSpeedKmh = Fin 5,
      en_odoToleranceKm = Fin 1, en_abnormalLPerKm = Fin (1 / 2), en_abnormalMarginPct = Fin 30, en_levelUnit = ''percent'',
      en_gapTolerance = 30 * 60 * 10 ^ 9, en_weightTheft = Fin 25, en_weightOdoRollback = Fin 20\<rparr>"

definition demo_engine :: "(string \<Rightarrow> vehicleFuelState option) \<Rightarrow> telemetry_row list \<Rightarrow> FuelEngine" where
  "demo_engine states rows = books.extend demo_books (FuelEngine.fields states [] rows Map.empty 0)"

definition demo_fuel_world :: "(nat \<Rightarrow> goerr option) \<Rightarrow> world" where
  "demo_fuel_world faults = demo_world\<lparr>w_db := demo_db\<lparr>db_vehicles := [demo_vehicle ''v1'']\<rparr>, w_env := demo_env\<lparr>env_fault := faults\<rparr>\<rparr>"

definition utc_text :: "go_time \<Rightarrow> string" where
  "utc_text t = timeStr t @ '' +0000 UTC''"

lemma demo_engine_tables:
  "fu_state (demo_engine states rows) = states" "fu_snapshots (demo_engine states rows) = rows"
  "bk_fuel_events (demo_engine states rows) = []"
  by (simp_all add: demo_engine_def books.extend_def FuelEngine.fields_def demo_books_def)

text \<open>The query of the snapshots, the second operation, fails.\<close>

definition demo_unlucky :: "FuelEngine \<times> world" where
  "demo_unlucky = (demo_engine Map.empty [demo_telemetry (Fin 65)], demo_fuel_world (\<lambda>n. if n = 1 then Some (ErrDriver ''database is locked'') else None))"

theorem failed_first_read_silences_vehicle_witness:
  "\<exists>p1. processVehicle (server_wiring utc_text) demo_fuel_config ''v1'' demo_unlucky = (Inl (ErrDriver ''database is locked''), p1)
     \<and> events_about ''v1'' (fst (snd (fuel_Run (server_wiring utc_text) 5 p1))) = []"
proof -
  let ?m = "\<lparr>me_sensorFitted = False, me_tankCapacity = Fin 0\<rparr>"
  have "\<exists>pm. query_vehicleMeta ''v1'' demo_unlucky = (Inr ?m, pm)
      \<and> env_fault (w_env (snd pm)) (w_nop (snd pm)) = Some (ErrDriver ''database is locked'')"
    by (simp add: query_vehicleMeta_def bindE_def tryE_def ret_def book_query_def book_stmt_def both_stmt_def Let_def demo_unlucky_def
        demo_fuel_world_def demo_world_def demo_env_def demo_vehicle_def vehicleMeta_of_def demo_engine_def books.extend_def
        FuelEngine.fields_def)
  then obtain pm where pm: "query_vehicleMeta ''v1'' demo_unlucky = (Inr ?m, pm)"
    "env_fault (w_env (snd pm)) (w_nop (snd pm)) = Some (ErrDriver ''database is locked'')" by blast
  have p: "fu_state (fst demo_unlucky) ''v1'' = None" "events_about ''v1'' (fst demo_unlucky) = []"
    by (simp_all add: demo_unlucky_def demo_engine_tables events_about_def)
  from failed_first_read_silences_vehicle [OF p(1) pm, of utc_text demo_fuel_config] show ?thesis
    unfolding Let_def p(2) by blast
qed

definition demo_theft :: "FuelEngine \<times> world" where
  "demo_theft = (demo_engine [''v1'' \<mapsto> demo_level_state] [demo_telemetry (Fin 65)], demo_fuel_world (\<lambda>_. None))"

lemma demo_theft_run:
  "map fv_event_type (bk_fuel_events (fst (snd (fuel_sweep (server_wiring utc_text) demo_fuel_config [''v1''] 0 demo_theft))))
     = [''drain_theft_suspected'']"
  by code_simp

theorem stored_events_are_explained_witness:
  "\<exists>x. bk_fuel_events (fst (snd (fuel_sweep (server_wiring utc_text) demo_fuel_config [''v1''] 0 demo_theft))) = [x]
     \<and> explained demo_fuel_config (demo_telemetry (Fin 65)) x"
proof -
  let ?run = "fuel_sweep (server_wiring utc_text) demo_fuel_config [''v1''] 0 demo_theft"
  have tables: "bk_fuel_events (fst demo_theft) = []" "fu_snapshots (fst demo_theft) = [demo_telemetry (Fin 65)]"
    by (simp_all add: demo_theft_def demo_engine_tables)
  from demo_theft_run obtain x where "bk_fuel_events (fst (snd ?run)) = [x]" by auto
  then show ?thesis using stored_events_are_explained [OF prod.collapse [of ?run, symmetric]] by (simp add: tables)
qed

definition demo_small :: vehicleFuelState where
  "demo_small = demo_level_state\<lparr>vf_tankCapacity := Fin 50, vf_unit := ''percent''\<rparr>"

theorem small_tank_hides_levels_witness:
  "read_level demo_fuel_config ((scan_snapshot (demo_telemetry (Fin 0)))\<lparr>sp_fuelLevel := Fin 100\<rparr>) [] (Fin 0) demo_small
     = read_level demo_fuel_config ((scan_snapshot (demo_telemetry (Fin 0)))\<lparr>sp_fuelLevel := Fin 50\<rparr>) [] (Fin 0) demo_small
   \<and> toLitres demo_small (clampFuel (Fin 100) (vf_tankCapacity demo_small)) = Fin 25"
proof
  have "toLitres demo_small (clampFuel (Fin 100) (vf_tankCapacity demo_small)) = fdivc (rnd (of_int 2500)) 100"
    by (simp add: toLitres_def clampFuel_def demo_small_def demo_level_state_def)
  also have "\<dots> = fdivc (Fin 2500) 100" by (subst rnd_of_int) simp_all
  also have "\<dots> = rnd (of_int 25)" by simp
  also have "\<dots> = Fin 25" using rnd_of_int [of 25] by simp
  finally show "toLitres demo_small (clampFuel (Fin 100) (vf_tankCapacity demo_small)) = Fin 25" .
qed (rule small_tank_hides_levels [of demo_small 50]; simp add: demo_small_def fle_def)

definition demo_moving :: snapshotRow where
  "demo_moving = (scan_snapshot (demo_telemetry (Fin 80)))\<lparr>sp_speed := Fin 60\<rparr>"


definition demo_held :: vehicleFuelState where
  "demo_held = demo_level_state\<lparr>vf_window := [Fin 80, Fin 80, Fin 80], vf_pendingSpike := Fin 20, vf_lastTs := 120 * 10 ^ 9\<rparr>"

theorem held_spike_confirms_itself_witness:
  "\<exists>evs st' w. later_snapshots (server_wiring utc_text) ''v1'' (vf_lastTs demo_held) [demo_telemetry (Fin 20)]
       = [scan_snapshot (demo_telemetry (Fin 20))]
     \<and> read_level demo_fuel_config (scan_snapshot (demo_telemetry (Fin 20))) [] (Fin 0) demo_held = Some (evs, st')
     \<and> vf_pendingSpike st' = NaN \<and> vf_window st' = w @ [Fin 20, Fin 20]"
  by (rule held_spike_confirms_itself)
    (auto simp: longer_text_def utc_text_def server_wiring_def newest_def demo_held_def demo_level_state_def demo_fuel_config_def
      of_vehicle_def demo_telemetry_def toLitres_def clampFuel_def scan_snapshot_def or_zero_def fle_def)

end
