(* ===== verification/Spec2Isabelle.thy ===== *)
theory Spec2Isabelle
  imports Trip_Gate Relay_Delivery Billing_Sessions Listing Razorpay_Public Detention_Safety Leader Settlement_Atomic
    Fuel_Safety
begin

text \<open>
  The core of a multi-tenant transport management server written in Go.  Customers place bookings,
  a booking is carried out by a trip with a driver and a vehicle, it is invoiced, and payments are
  recorded against the invoice.  Each of these modules (\<open>internal/booking\<close>,
  \<open>internal/trip\<close>, \<open>internal/driver\<close>, \<open>internal/vehicle\<close>, \<open>internal/invoice\<close>,
  \<open>internal/payment\<close>) has the same layers: an aggregate that guards its own state and records
  events, a repository that stores it with optimistic locking and hands the events to the outbox,
  use cases that run inside one unit of work, and a workflow and a facade that forward to them.  A
  relay (\<open>internal/shared/outbox/relay.go\<close>) later takes the events from the outbox to the event
  bus (\<open>internal/events/bus.go\<close>).  Beside the modules a worker
  (\<open>internal/geofence\<close>) follows the positions of the vehicles through zones, moves trips and bills
  waiting times, and replicas agree by leases (\<open>internal/leader\<close>) on who runs a worker.  The
  services of accounts (\<open>internal/service\<close>) pay the drivers: claims of expenses are approved,
  trips are settled, behaviour is scored, and disputes raise alerts and signals.  The fuel engine
  (\<open>internal/fuel\<close>) looks for theft and other anomalies in the readings of the vehicles.

  \<^bold>\<open>Theories and code.\<close>
  \<^item> Prelude: errors, fallible computations (a world to a result and a world), their inversion
    rules, the locale of relations that computations keep, tables as lists of rows, \<open>int64\<close>.
  \<^item> Float64, Go_Time, Go_Text: \<open>float64\<close> with round-to-nearest-even, \<open>time.Parse\<close> and
    the formatting the code uses of the standard library.
  \<^item> Shared_Kernel: \<open>internal/shared/money.go\<close>, \<open>tenant.go\<close>, \<open>pagination.go\<close>.
  \<^item> Booking_Aggregate, Trip_Aggregate, Fleet_Aggregates, Invoice_Aggregate, Payment_Aggregate:
    \<open>domain/aggregate\<close> of each module and the eligibility checks of \<open>domain/workflow\<close>.  A
    method with a pointer receiver is a function from aggregate to aggregate or to error.
  \<^item> Store: tables, environment, statements, transactions (\<open>internal/shared/uow\<close>,
    \<open>internal/repository\<close>), clock and identifiers.
  \<^item> Outbox: \<open>internal/shared/outbox/outbox.go\<close>, event catalog, audit log.
  \<^item> Repository_Contract: the locale \<open>versioned_repository\<close> of what the use cases rely on, and
    the shape load, transition, save, audit.
  \<^item> Booking_Repository, Booking_Laws, Booking_Application: SQL, repository, its laws, use cases.
  \<^item> Fleet: SQL, repositories and commands of drivers and vehicles.
  \<^item> Trip_Repository, Trip_Laws, Trip_Dispatch, Trip_Application: the same for trips, with the
    dispatch gate of \<open>assign_driver.go\<close>, \<open>assign_vehicle.go\<close> and \<open>start_trip.go\<close>.
  \<^item> Trip_Rules, Trip_Safety, Trip_Invariants, Trip_Gate: trip requests as a datatype, sessions
    of them, and what holds after any session.
  \<^item> Event_Bus, Relay, Relay_Delivery: the bus, the relay and what delivery means.
  \<^item> Invoice_Repository, Invoice_Laws, Payment_Repository, Billing_Application: SQL,
    repositories and use cases of invoices and payments.
  \<^item> Billing_Rules, Billing, Billing_Invariants, Billing_Sessions: what holds of payments,
    reversals and sequences of billing requests.
  \<^item> Listing: the pages of a listing.
  \<^item> Go_Crypto, Razorpay, Razorpay_Safety, Razorpay_Public: SHA-256 and HMAC, payment orders, the
    checkout callback and the webhook of \<open>payment/application/razorpay_order.go\<close> and
    \<open>razorpay_webhook.go\<close>, and what the two idempotency layers and the signatures give.
  \<^item> Go_Strconv: the number and boolean parsers of \<open>strconv\<close>.  Own_State: computations on the
    world and a state that a rollback does not restore.
  \<^item> Geo, Dwell_Engine: \<open>geofence/domain/geo.go\<close>, \<open>geofence.go\<close> and the state machine
    of \<open>application/dwell_engine.go\<close>.
  \<^item> Geofence_Repository, Geofence_Config, Dwell_Worker, Dwell_Safety: SQL, settings with their
    cache and the sweeps of \<open>worker/dwell_worker.go\<close>, and what any run of them keeps.
  \<^item> Detention, Detention_Safety: \<open>application/detention.go\<close>, \<open>zone_crud.go\<close>, the
    completion of a trip in \<open>handlers/trips.go\<close>, and the detentions over all of these.
  \<^item> Leader: \<open>internal/leader/leader.go\<close>, leases and a fleet of replicas as a step relation.
  \<^item> Accounts: the tables of the services of accounts, statements and transactions on them, the
    locale \<open>book_relation\<close>.  Fuel_Config: settings of \<open>fuel/config.go\<close>.
  \<^item> Kharcha, Scorecard, Ops_Alerts, Settlement: \<open>service/kharcha_service.go\<close>,
    \<open>scorecard_service.go\<close>, \<open>ops_alert_service.go\<close> with \<open>founder_signals_service.go\<close>
    and \<open>founder_audit_service.go\<close>, \<open>driver_settlement_service.go\<close>.
  \<^item> Account_Relations, Account_Safety, Account_Properties: the locale \<open>account_relation\<close> with a
    law per statement and a fact per operation, its two interpretations, and what any run keeps.
  \<^item> Settlement_Properties, Settlement_Atomic, Score_Properties: the amounts of a settlement, its
    transaction, scores, disputes and payouts.
  \<^item> Fuel_Engine: the pipeline and the sweep of \<open>fuel/engine.go\<close> with the hooks of
    \<open>cmd/server/main.go\<close>.  Fuel_Relations: the locale \<open>engine_relation\<close>, of which
    \<open>account_relation\<close> is a sublocale for what the hooks do.  Fuel_Safety: what a sweep stores,
    vehicles it forgets, spikes, steady levels and small tanks.

  \<^bold>\<open>Groups of properties.\<close>  For the aggregates: the reachable states, and the arithmetic of
  totals and balances.  For the repositories: the constraints of a table are an invariant, a load
  returns what a save stored, and of two saves of the same version one fails (the contract
  \<open>versioned_repository\<close>, interpreted for bookings, trips and invoices).  For the use cases:
  an error leaves the database unchanged, a request only touches rows of its tenant, a successful
  request is the transition of the aggregate.  Across requests: no driver or vehicle is on two
  active trips, a booking has at most one invoice, a payment is reversed once.  For the relay:
  every readable event is published once the database works, none is marked published before its
  handlers ran, the back-off is bounded.  For payments through the gateway: a captured payment is
  recorded once, and only signed deliveries have effects.  For geofences: point in polygon is the
  even-odd rule, entries and exits are debounced, a position is consumed once and wholly, no sweep
  panics, amounts of detentions stay sound and what is attached is billed.  For leases: no two
  leaders whose claims are in time, and an abandoned lease is taken.  For the services of accounts:
  sound books after any run, decided claims and closed alerts stay, a key stands for one claim, a
  settlement is written whole and adds up, scores stay in range.  For the fuel engine: every stored
  event is explained by a snapshot and the settings.  Where the code does something
  else than its comments or names say, the property states what it does; the manifest lists these
  as findings.

  \<^bold>\<open>How the code is modelled.\<close>
  \<^item> A table is the list of its rows.  A statement is a function on the tables that returns rows,
    a count or the error of the violated constraint; whether foreign keys are enforced is a flag of
    the environment.  Any statement, begin or commit may fail for reasons of the driver: a
    function of the environment says at which operations, and with which error.
  \<^item> The environment also gives the readings of the clock, the generated identifiers, the values
    of the request context, and what the conversion of a float outside \<open>int64\<close> gives, which Go
    leaves to the implementation.  Properties hold for every environment unless they say otherwise.
  \<^item> Transactions run one after the other, as SQLite's single writer makes them; what other
    requests did between a load and a save is covered by two loads before two saves, and in the
    relay by arbitrary steps of the server between two rounds.  Tables the code writes through the
    connection pool instead of the transaction are kept apart from those a rollback restores.
  \<^item> A time is the number of nanoseconds since the start of year 1 UTC; zero is Go's zero time.
    Strings are lists of characters; only their ASCII part is given a meaning.  JSON and audit
    texts are values, with a constructor for text that is not JSON.
  \<^item> Money is \<open>float64\<close> where the code has \<open>float64\<close> and wraps at 64 bits where it has
    \<open>int64\<close>.  Type assertions on the repositories of the unit of work succeed, as the wiring of
    the server gives repositories of those types.
  \<^item> Handlers of the bus are arbitrary functions on the world that may fail or panic.
  \<^item> Every loop of the modelled code but one is bounded by its input, so no fuel is used; the
    endless loops of the relay, the dwell worker and the fuel engine are run for given ticks.  The loop that
    waits for a lease may not end: it is a partial function, and that it ends is proved.
  \<^item> The server runs in UTC, so times that columns hold as text are read back as the time in whole
    seconds; the text the driver stores for the time of a snapshot is a parameter of the fuel engine.
    The sum that SQLite computes over a column is a parameter.
  \<^item> Functions of \<open>math\<close> that no standard fixes to the bit (sine, cosine, square root,
    logarithm and the like) are a parameter.  The replicas of a fleet read one clock, and a statement
    on leases that fails has no effect.

  \<^bold>\<open>Not modelled.\<close>  HTTP handlers (but the completion of a trip), pages, templates and the
  wiring in \<open>cmd\<close>; clients of external services (e-way bills, GST, FASTag, language models,
  brokers; of the payment gateway the request that creates an order is a parameter); the legacy
  services and repositories beside those named above; telemetry, arrival estimates, the audit of fuel
  claims, deliveries of notifications, maintenance schedules, route optimiser, reports and monitoring; authentication; generated
  statements that no modelled repository calls.  Logging has no effect on the state and is left out.
\<close>

end
